(* ===== verification/Prelude.thy ===== *)
theory Prelude
  imports Main "HOL-Library.Char_ord" "HOL-Library.List_Lexorder" "HOL-Library.Sublist"
begin

text \<open>
  Shared vocabulary of the development: results of fallible Go functions, association lists for
  Go maps, and the table operations (select, update, delete, insert) to which the SQL statements
  of \<^verbatim>\<open>internal/db\<close> are translated, with the laws the repository theories use.
\<close>

section \<open>Results\<close>

text \<open>
  A Go function returning \<^verbatim>\<open>(T, error)\<close> is a function into \<open>'e + 'a\<close>: \<open>Inl\<close> is the error
  return, \<open>Inr\<close> the value returned with a nil error.
\<close>

named_theorems res_simps \<open>equations that decompose a successful result\<close>

definition rbind :: "'e + 'a \<Rightarrow> ('a \<Rightarrow> 'e + 'b) \<Rightarrow> 'e + 'b" where
  "rbind m f = (case m of Inl e \<Rightarrow> Inl e | Inr x \<Rightarrow> f x)"

definition map_err :: "('e \<Rightarrow> 'f) \<Rightarrow> 'e + 'a \<Rightarrow> 'f + 'a" where
  "map_err f m = (case m of Inl e \<Rightarrow> Inl (f e) | Inr x \<Rightarrow> Inr x)"

definition require :: "bool \<Rightarrow> 'e \<Rightarrow> 'e + unit" where
  "require b e = (if b then Inr () else Inl e)"

definition of_option :: "'e \<Rightarrow> 'a option \<Rightarrow> 'e + 'a" where
  "of_option e m = (case m of None \<Rightarrow> Inl e | Some x \<Rightarrow> Inr x)"

definition is_ok :: "'e + 'a \<Rightarrow> bool" where
  "is_ok m = (case m of Inl _ \<Rightarrow> False | Inr _ \<Rightarrow> True)"

lemma rbind_simps [simp]:
  "rbind (Inl e) f = Inl e"
  "rbind (Inr x) f = f x"
  by (simp_all add: rbind_def)

lemma map_err_simps [simp]:
  "map_err f (Inl e) = Inl (f e)"
  "map_err f (Inr x) = Inr x"
  by (simp_all add: map_err_def)

lemma is_ok_simps [simp]: "is_ok (Inl e) = False" "is_ok (Inr x) = True"
  by (simp_all add: is_ok_def)

lemma rbind_Inr_iff [res_simps]: "rbind m f = Inr y \<longleftrightarrow> (\<exists>x. m = Inr x \<and> f x = Inr y)"
  by (cases m) auto

lemma rbind_Inl_iff: "rbind m f = Inl e \<longleftrightarrow> m = Inl e \<or> (\<exists>x. m = Inr x \<and> f x = Inl e)"
  by (cases m) auto

lemma map_err_Inr_iff [res_simps]: "map_err f m = Inr y \<longleftrightarrow> m = Inr y"
  by (cases m) auto

lemma require_Inr_iff [res_simps]: "require b e = Inr u \<longleftrightarrow> b"
  by (simp add: require_def)

lemma require_Inl_iff [simp]: "require b e = Inl f \<longleftrightarrow> \<not> b \<and> f = e"
  by (auto simp: require_def)

lemma require_simps [simp]: "require True e = Inr ()" "require False e = Inl e"
  by (simp_all add: require_def)

lemma rbind_require [simp]: "rbind (require b e) f = (if b then f () else Inl e)"
  by (simp add: require_def)

lemma of_option_simps [simp]: "of_option e None = Inl e" "of_option e (Some x) = Inr x"
  by (simp_all add: of_option_def)

lemma of_option_Inr_iff [res_simps]: "of_option e m = Inr y \<longleftrightarrow> m = Some y"
  by (cases m) auto

lemma of_option_Inl_iff [simp]: "of_option e m = Inl f \<longleftrightarrow> m = None \<and> f = e"
  by (cases m) auto

lemma if_Inl_Inr_iff [res_simps]:
  "(if b then Inl e else m) = Inr y \<longleftrightarrow> \<not> b \<and> m = Inr y"
  "(if b then m else Inl e) = Inr y \<longleftrightarrow> b \<and> m = Inr y"
  by auto

lemma rbind_cong [fundef_cong]:
  "m = m' \<Longrightarrow> (\<And>x. m' = Inr x \<Longrightarrow> f x = f' x) \<Longrightarrow> rbind m f = rbind m' f'"
  by (cases m') auto

text \<open>The loop \<^verbatim>\<open>for _, x := range xs { if err := f(x); err != nil { return err } }\<close>.\<close>

fun each :: "('a \<Rightarrow> 'e + unit) \<Rightarrow> 'a list \<Rightarrow> 'e + unit" where
  "each f [] = Inr ()"
| "each f (x # xs) = rbind (f x) (\<lambda>_. each f xs)"

lemma each_Inr_iff [res_simps]: "each f xs = Inr u \<longleftrightarrow> (\<forall>x \<in> set xs. f x = Inr ())"
  by (induction xs) (auto simp: res_simps)

fun mapM :: "('a \<Rightarrow> 'e + 'b) \<Rightarrow> 'a list \<Rightarrow> 'e + 'b list" where
  "mapM f [] = Inr []"
| "mapM f (x # xs) = rbind (f x) (\<lambda>y. rbind (mapM f xs) (\<lambda>ys. Inr (y # ys)))"

lemma mapM_Inr_iff: "mapM f xs = Inr ys \<longleftrightarrow> list_all2 (\<lambda>x y. f x = Inr y) xs ys"
proof (induction xs arbitrary: ys)
  case Nil
  then show ?case by (cases ys) auto
next
  case (Cons x xs)
  then show ?case by (cases ys) (auto simp: res_simps)
qed

lemma mapM_all_ok: "(\<And>x. x \<in> set xs \<Longrightarrow> f x = Inr (g x)) \<Longrightarrow> mapM f xs = Inr (map g xs)"
  by (induction xs) auto

lemma mapM_sets:
  assumes "mapM f xs = Inr ys"
  shows "\<forall>y \<in> set ys. \<exists>x \<in> set xs. f x = Inr y" and "\<forall>x \<in> set xs. \<exists>y \<in> set ys. f x = Inr y"
proof -
  have L: "list_all2 (\<lambda>x y. f x = Inr y) xs ys" using assms by (simp add: mapM_Inr_iff)
  show "\<forall>y \<in> set ys. \<exists>x \<in> set xs. f x = Inr y" using L by (induction rule: list_all2_induct) auto
  show "\<forall>x \<in> set xs. \<exists>y \<in> set ys. f x = Inr y" using L by (induction rule: list_all2_induct) auto
qed

section \<open>Go maps\<close>

text \<open>
  A Go \<^verbatim>\<open>map[string]string\<close> is an association list with distinct keys; the order of the list is the
  order in which one \<^verbatim>\<open>range\<close> loop visits it. \<open>map_of\<close> reads it; a missing key reads as the zero
  value; \<open>same_map\<close> is \<^verbatim>\<open>maps.Equal\<close>.
\<close>

type_synonym gomap = "(string \<times> string) list"

definition mget :: "gomap \<Rightarrow> string \<Rightarrow> string" where
  "mget m k = (case map_of m k of None \<Rightarrow> '''' | Some v \<Rightarrow> v)"

definition mhas :: "gomap \<Rightarrow> string \<Rightarrow> bool" where
  "mhas m k \<longleftrightarrow> map_of m k \<noteq> None"

fun mput :: "gomap \<Rightarrow> string \<Rightarrow> string \<Rightarrow> gomap" where
  "mput [] k v = [(k, v)]"
| "mput ((k', v') # m) k v = (if k' = k then (k, v) # m else (k', v') # mput m k v)"

definition same_map :: "gomap \<Rightarrow> gomap \<Rightarrow> bool" where
  "same_map m m' \<longleftrightarrow>
     (\<forall>k \<in> set (map fst m) \<union> set (map fst m'). map_of m k = map_of m' k)"

lemma map_of_mput [simp]: "map_of (mput m k v) = (map_of m)(k \<mapsto> v)"
  by (induction m k v rule: mput.induct) (auto simp: fun_eq_iff)

lemma mput_keys: "fst ` set (mput m k v) = insert k (fst ` set m)"
  by (induction m k v rule: mput.induct) auto

lemma mput_distinct: "distinct (map fst m) \<Longrightarrow> distinct (map fst (mput m k v))"
  by (induction m k v rule: mput.induct) (auto simp: mput_keys)

lemma same_map_iff: "same_map m m' \<longleftrightarrow> map_of m = map_of m'"
proof
  assume same: "same_map m m'"
  show "map_of m = map_of m'"
  proof
    fix k
    show "map_of m k = map_of m' k"
    proof (cases "k \<in> set (map fst m) \<union> set (map fst m')")
      case True
      with same show ?thesis by (auto simp: same_map_def)
    next
      case False
      then have "map_of m k = None" and "map_of m' k = None"
        by (auto simp: map_of_eq_None_iff)
      then show ?thesis by simp
    qed
  qed
qed (simp add: same_map_def)

lemma same_map_refl [simp]: "same_map m m"
  by (simp add: same_map_iff)

section \<open>Options\<close>

definition opt_holds :: "('a \<Rightarrow> bool) \<Rightarrow> 'a option \<Rightarrow> bool" where
  "opt_holds P z = (case z of None \<Rightarrow> False | Some x \<Rightarrow> P x)"

lemma opt_holds_iff [simp]: "opt_holds P z \<longleftrightarrow> (\<exists>x. z = Some x \<and> P x)"
  by (cases z) (simp_all add: opt_holds_def)

section \<open>Tables\<close>

text \<open>
  A table is the list of its rows in insertion order. \<open>tsel\<close> is a \<^verbatim>\<open>SELECT ... WHERE\<close> read with
  \<^verbatim>\<open>QueryRow\<close> (the first matching row, None for \<^verbatim>\<open>sql.ErrNoRows\<close>), \<open>tupd\<close> an \<^verbatim>\<open>UPDATE\<close>,
  \<open>tdel\<close> a \<^verbatim>\<open>DELETE\<close>, \<open>taff\<close> the number of rows a statement affects.
\<close>

definition tsel :: "('r \<Rightarrow> bool) \<Rightarrow> 'r list \<Rightarrow> 'r option" where
  "tsel P t = find P t"

definition tupd :: "('r \<Rightarrow> bool) \<Rightarrow> ('r \<Rightarrow> 'r) \<Rightarrow> 'r list \<Rightarrow> 'r list" where
  "tupd P f t = map (\<lambda>r. if P r then f r else r) t"

definition tdel :: "('r \<Rightarrow> bool) \<Rightarrow> 'r list \<Rightarrow> 'r list" where
  "tdel P t = filter (\<lambda>r. \<not> P r) t"

definition taff :: "('r \<Rightarrow> bool) \<Rightarrow> 'r list \<Rightarrow> nat" where
  "taff P t = length (filter P t)"

lemma tsel_Nil [simp]: "tsel P [] = None"
  by (simp add: tsel_def)

lemma tsel_Cons [simp]: "tsel P (r # t) = (if P r then Some r else tsel P t)"
  by (simp add: tsel_def)

lemma tsel_append: "tsel P (t @ u) = (case tsel P t of None \<Rightarrow> tsel P u | Some r \<Rightarrow> Some r)"
  by (induction t) auto

lemma tsel_None_iff: "tsel P t = None \<longleftrightarrow> (\<forall>r \<in> set t. \<not> P r)"
  by (induction t) auto

lemma tsel_SomeD: "tsel P t = Some r \<Longrightarrow> r \<in> set t \<and> P r"
  by (induction t) (auto split: if_splits)

lemma tsel_Some_exists: "r \<in> set t \<Longrightarrow> P r \<Longrightarrow> \<exists>r'. tsel P t = Some r'"
  by (induction t) auto

lemma taff_0_iff [simp]: "taff P t = 0 \<longleftrightarrow> (\<forall>r \<in> set t. \<not> P r)"
  by (auto simp: taff_def filter_empty_conv)

lemma set_tdel [simp]: "set (tdel P t) = {r \<in> set t. \<not> P r}"
  by (auto simp: tdel_def)

lemma set_tupd: "set (tupd P f t) = (\<lambda>r. if P r then f r else r) ` set t"
  by (simp add: tupd_def)

lemma tupd_none: "(\<forall>r \<in> set t. \<not> P r) \<Longrightarrow> tupd P f t = t"
  by (induction t) (auto simp: tupd_def)

subsection \<open>Keyed tables\<close>

text \<open>
  The contract a primary key or a unique index gives to the readers of a table: distinct keys.
  A key is any function of the row.
\<close>

definition keyed :: "('r \<Rightarrow> 'k) \<Rightarrow> 'r list \<Rightarrow> bool" where
  "keyed key t \<longleftrightarrow> distinct (map key t)"

lemma keyed_Nil [simp]: "keyed key []"
  by (simp add: keyed_def)

lemma keyed_insert:
  "keyed key t \<Longrightarrow> (\<forall>r' \<in> set t. key r' \<noteq> key r) \<Longrightarrow> keyed key (t @ [r])"
  by (auto simp: keyed_def)

lemma keyed_update: "keyed key t \<Longrightarrow> (\<And>r. r \<in> set t \<Longrightarrow> P r \<Longrightarrow> key (f r) = key r) \<Longrightarrow> keyed key (tupd P f t)"
proof -
  assume k: "keyed key t" and same: "\<And>r. r \<in> set t \<Longrightarrow> P r \<Longrightarrow> key (f r) = key r"
  have "map key (tupd P f t) = map key t"
    using same by (auto simp: tupd_def)
  with k show ?thesis by (simp add: keyed_def)
qed

lemma keyed_delete: "keyed key t \<Longrightarrow> keyed key (tdel P t)"
  by (auto simp: keyed_def tdel_def distinct_map intro: inj_on_subset)

lemma keyed_unique: "keyed key t \<Longrightarrow> r \<in> set t \<Longrightarrow> r' \<in> set t \<Longrightarrow> key r = key r' \<Longrightarrow> r = r'"
  by (auto simp: keyed_def distinct_map dest: inj_onD)

lemma keyed_tsel: "keyed key t \<Longrightarrow> r \<in> set t \<Longrightarrow> tsel (\<lambda>x. key x = key r) t = Some r"
proof -
  assume k: "keyed key t" and r: "r \<in> set t"
  obtain r' where r': "tsel (\<lambda>x. key x = key r) t = Some r'"
    using tsel_Some_exists [OF r, of "\<lambda>x. key x = key r"] by auto
  from tsel_SomeD [OF this] have "r' = r"
    using keyed_unique [OF k _ r] by auto
  with r' show ?thesis by simp
qed

lemma keyed_tsel_iff:
  "keyed key t \<Longrightarrow> tsel (\<lambda>x. key x = k) t = Some r \<longleftrightarrow> r \<in> set t \<and> key r = k"
  by (auto dest: tsel_SomeD keyed_tsel)

lemma tsel_tupd_same:
  assumes "\<And>r. P r \<Longrightarrow> key (f r) = key r"
  shows "tsel (\<lambda>x. key x = k) (tupd P f t) =
         map_option (\<lambda>r. if P r then f r else r) (tsel (\<lambda>x. key x = k) t)"
  using assms by (induction t) (auto simp: tupd_def)

end
