(* ===== verification/Go_Strings.thy ===== *)
theory Go_Strings
  imports Prelude
begin

text \<open>
  What the program uses of Go's \<^verbatim>\<open>strings\<close> and \<^verbatim>\<open>regexp\<close> packages. A Go string is its list of bytes.
  A regular expression is a value of \<open>rexp\<close>, matched by derivatives; \<open>rmatch_iff_lang\<close> relates
  the matcher to the declarative language, and the pattern lemmas say what the anchored patterns
  of the program accept.
\<close>

section \<open>Characters\<close>

definition is_lower :: "char \<Rightarrow> bool" where
  "is_lower c \<longleftrightarrow> CHR ''a'' \<le> c \<and> c \<le> CHR ''z''"

definition is_upper :: "char \<Rightarrow> bool" where
  "is_upper c \<longleftrightarrow> CHR ''A'' \<le> c \<and> c \<le> CHR ''Z''"

definition is_digit :: "char \<Rightarrow> bool" where
  "is_digit c \<longleftrightarrow> CHR ''0'' \<le> c \<and> c \<le> CHR ''9''"

definition is_hex :: "char \<Rightarrow> bool" where
  "is_hex c \<longleftrightarrow> is_digit c \<or> (CHR ''a'' \<le> c \<and> c \<le> CHR ''f'')"

definition is_alnum :: "char \<Rightarrow> bool" where
  "is_alnum c \<longleftrightarrow> is_lower c \<or> is_digit c"

lemmas char_class_defs = is_lower_def is_upper_def is_digit_def is_hex_def is_alnum_def

section \<open>strings.TrimSpace\<close>

text \<open>
  The UTF-8 encodings of the code points for which \<^verbatim>\<open>unicode.IsSpace\<close> holds. Since UTF-8 is
  self-synchronising, removing runes is removing these byte sequences.
\<close>

definition space_encodings :: "string list" where
  "space_encodings =
     [[CHR 0x20], [CHR 0x09], [CHR 0x0A], [CHR 0x0B], [CHR 0x0C], [CHR 0x0D],
      [CHR 0xC2, CHR 0x85], [CHR 0xC2, CHR 0xA0], [CHR 0xE1, CHR 0x9A, CHR 0x80],
      [CHR 0xE2, CHR 0x80, CHR 0x80], [CHR 0xE2, CHR 0x80, CHR 0x81],
      [CHR 0xE2, CHR 0x80, CHR 0x82], [CHR 0xE2, CHR 0x80, CHR 0x83],
      [CHR 0xE2, CHR 0x80, CHR 0x84], [CHR 0xE2, CHR 0x80, CHR 0x85],
      [CHR 0xE2, CHR 0x80, CHR 0x86], [CHR 0xE2, CHR 0x80, CHR 0x87],
      [CHR 0xE2, CHR 0x80, CHR 0x88], [CHR 0xE2, CHR 0x80, CHR 0x89],
      [CHR 0xE2, CHR 0x80, CHR 0x8A], [CHR 0xE2, CHR 0x80, CHR 0xA8],
      [CHR 0xE2, CHR 0x80, CHR 0xA9], [CHR 0xE2, CHR 0x80, CHR 0xAF],
      [CHR 0xE2, CHR 0x81, CHR 0x9F], [CHR 0xE3, CHR 0x80, CHR 0x80]]"

definition lead_space :: "string \<Rightarrow> string option" where
  "lead_space s = find (\<lambda>p. prefix p s) space_encodings"

lemma space_encodings_nonempty: "p \<in> set space_encodings \<Longrightarrow> p \<noteq> []"
  by (auto simp: space_encodings_def)

lemma find_Some_in: "find P xs = Some x \<Longrightarrow> x \<in> set xs \<and> P x"
  by (induction xs) (auto split: if_splits)

lemma lead_space_Some: "lead_space s = Some p \<Longrightarrow> p \<in> set space_encodings \<and> prefix p s"
  unfolding lead_space_def by (rule find_Some_in)

lemma lead_space_None: "lead_space s = None \<longleftrightarrow> (\<forall>p \<in> set space_encodings. \<not> prefix p s)"
  by (auto simp: lead_space_def find_None_iff)

lemma lead_space_shorter: "lead_space s = Some p \<Longrightarrow> length (drop (length p) s) < length s"
proof -
  assume "lead_space s = Some p"
  then have "p \<noteq> []" and "prefix p s"
    using lead_space_Some space_encodings_nonempty by blast+
  then show ?thesis by (cases s) (auto simp: prefix_def)
qed

function trim_left :: "string \<Rightarrow> string" where
  "trim_left s = (case lead_space s of None \<Rightarrow> s | Some p \<Rightarrow> trim_left (drop (length p) s))"
  by pat_completeness auto
termination
  by (relation "measure length") (auto simp del: length_drop dest: lead_space_shorter)

declare trim_left.simps [simp del]

definition tail_space :: "string \<Rightarrow> string option" where
  "tail_space s = find (\<lambda>p. suffix p s) space_encodings"

lemma tail_space_Some: "tail_space s = Some p \<Longrightarrow> p \<in> set space_encodings \<and> suffix p s"
  unfolding tail_space_def by (rule find_Some_in)

lemma tail_space_shorter: "tail_space s = Some p \<Longrightarrow> length (take (length s - length p) s) < length s"
proof -
  assume "tail_space s = Some p"
  then have "p \<noteq> []" and "suffix p s"
    using tail_space_Some space_encodings_nonempty by blast+
  then show ?thesis by (auto simp: suffix_def)
qed

function trim_right :: "string \<Rightarrow> string" where
  "trim_right s =
     (case tail_space s of None \<Rightarrow> s | Some p \<Rightarrow> trim_right (take (length s - length p) s))"
  by pat_completeness auto
termination
  by (relation "measure length") (auto simp del: length_take dest: tail_space_shorter)

declare trim_right.simps [simp del]

definition TrimSpace :: "string \<Rightarrow> string" where
  "TrimSpace s = trim_right (trim_left s)"

lemma trim_left_no_lead: "lead_space (trim_left s) = None"
proof (induction s rule: trim_left.induct)
  case (1 s)
  then show ?case by (subst trim_left.simps) (auto split: option.splits)
qed

lemma trim_left_fixed: "lead_space s = None \<Longrightarrow> trim_left s = s"
  by (subst trim_left.simps) simp

lemma trim_right_no_tail: "tail_space (trim_right s) = None"
proof (induction s rule: trim_right.induct)
  case (1 s)
  then show ?case by (subst trim_right.simps) (auto split: option.splits)
qed

lemma trim_right_fixed: "tail_space s = None \<Longrightarrow> trim_right s = s"
  by (subst trim_right.simps) simp

lemma trim_right_prefix: "prefix (trim_right s) s"
proof (induction s rule: trim_right.induct)
  case (1 s)
  show ?case
  proof (cases "tail_space s")
    case None
    then show ?thesis by (simp add: trim_right_fixed)
  next
    case (Some p)
    with 1 have "prefix (trim_right (take (length s - length p) s)) (take (length s - length p) s)"
      by simp
    then have "prefix (trim_right (take (length s - length p) s)) s"
      using take_is_prefix prefix_order.trans by blast
    with Some show ?thesis by (simp add: trim_right.simps [of s])
  qed
qed

text \<open>A string that neither starts nor ends with white space.\<close>

definition trimmed :: "string \<Rightarrow> bool" where
  "trimmed s \<longleftrightarrow> lead_space s = None \<and> tail_space s = None"

lemma TrimSpace_trimmed: "trimmed (TrimSpace s)"
proof -
  have "lead_space (trim_right (trim_left s)) = None"
    using trim_left_no_lead [of s] trim_right_prefix [of "trim_left s"]
    by (meson lead_space_None prefix_order.trans)
  then show ?thesis by (simp add: trimmed_def TrimSpace_def trim_right_no_tail)
qed

lemma TrimSpace_fixed [simp]: "trimmed s \<Longrightarrow> TrimSpace s = s"
  by (simp add: trimmed_def TrimSpace_def trim_left_fixed trim_right_fixed)

lemma TrimSpace_idem [simp]: "TrimSpace (TrimSpace s) = TrimSpace s"
  by (simp add: TrimSpace_trimmed)

lemma trimmed_Nil [simp]: "trimmed []"
  by (auto simp: trimmed_def lead_space_def tail_space_def find_None_iff space_encodings_def)

text \<open>White space starts and ends with bytes that occur in no identifier pattern.\<close>

definition plain_char :: "char \<Rightarrow> bool" where
  "plain_char c \<longleftrightarrow> CHR ''!'' \<le> c \<and> c \<le> CHR ''~''"

lemma space_encodings_ends:
  "p \<in> set space_encodings \<Longrightarrow> \<not> plain_char (hd p) \<and> \<not> plain_char (last p)"
  by (auto simp: space_encodings_def plain_char_def)

lemma trimmed_plain:
  assumes "s \<noteq> []" "plain_char (hd s)" "plain_char (last s)"
  shows "trimmed s"
proof -
  have "\<not> prefix p s" and "\<not> suffix p s" if p: "p \<in> set space_encodings" for p
  proof -
    from space_encodings_nonempty [OF p] have ne: "p \<noteq> []" .
    from space_encodings_ends [OF p] have ends: "\<not> plain_char (hd p)" "\<not> plain_char (last p)"
      by auto
    from ne assms(2) ends(1) show "\<not> prefix p s" by (auto simp: prefix_def)
    from ne assms(3) ends(2) show "\<not> suffix p s" by (auto simp: suffix_def)
  qed
  then show ?thesis
    by (auto simp: trimmed_def lead_space_None tail_space_def find_None_iff)
qed

section \<open>Other string functions\<close>

definition HasPrefix :: "string \<Rightarrow> string \<Rightarrow> bool" where
  "HasPrefix s p = prefix p s"

definition TrimPrefix :: "string \<Rightarrow> string \<Rightarrow> string" where
  "TrimPrefix s p = (if prefix p s then drop (length p) s else s)"

definition TrimSuffix :: "string \<Rightarrow> string \<Rightarrow> string" where
  "TrimSuffix s p = (if suffix p s then take (length s - length p) s else s)"

text \<open>\<^verbatim>\<open>strings.Cut\<close>: the text before and after the first occurrence of the separator.\<close>

fun Cut :: "string \<Rightarrow> string \<Rightarrow> (string \<times> string) option" where
  "Cut [] sep = (if sep = [] then Some ([], []) else None)"
| "Cut (c # s) sep =
     (if prefix sep (c # s) then Some ([], drop (length sep) (c # s))
      else map_option (\<lambda>(a, b). (c # a, b)) (Cut s sep))"

lemma Cut_Some: "Cut s sep = Some (a, b) \<Longrightarrow> s = a @ sep @ b"
proof (induction s arbitrary: a)
  case Nil
  then show ?case by (auto split: if_splits)
next
  case (Cons c s)
  show ?case
  proof (cases "prefix sep (c # s)")
    case True
    with Cons.prems have "a = []" and b: "b = drop (length sep) (c # s)" by auto
    from True obtain r where "c # s = sep @ r" by (auto simp: prefix_def)
    with b have "c # s = sep @ b" by simp
    with \<open>a = []\<close> show ?thesis by simp
  next
    case False
    with Cons.prems obtain a' where "Cut s sep = Some (a', b)" and "a = c # a'" by auto
    with Cons.IH show ?thesis by simp
  qed
qed

lemma Cut_append: "\<not> sublist [x] a \<Longrightarrow> Cut (a @ [x] @ b) [x] = Some (a, b)"
  by (induction a) (auto simp: sublist_code)

text \<open>\<^verbatim>\<open>strings.Split\<close> on a one-character separator.\<close>

fun split_char :: "char \<Rightarrow> string \<Rightarrow> string list" where
  "split_char d [] = [[]]"
| "split_char d (c # s) =
     (if c = d then [] # split_char d s
      else (case split_char d s of [] \<Rightarrow> [[c]] | w # ws \<Rightarrow> (c # w) # ws))"

lemma split_char_nonempty: "split_char d s \<noteq> []"
  by (induction s) (auto split: list.splits)

definition to_lower_char :: "char \<Rightarrow> char" where
  "to_lower_char c = (if is_upper c then char_of (of_char c + (32 :: nat)) else c)"

section \<open>Regular expressions\<close>

datatype rexp = RNone | REps | RCls "char \<Rightarrow> bool" | RSeq rexp rexp | RAlt rexp rexp | RStar rexp

primrec nullable :: "rexp \<Rightarrow> bool" where
  "nullable RNone = False"
| "nullable REps = True"
| "nullable (RCls P) = False"
| "nullable (RSeq r q) = (nullable r \<and> nullable q)"
| "nullable (RAlt r q) = (nullable r \<or> nullable q)"
| "nullable (RStar r) = True"

text \<open>Concatenation and alternative that drop what cannot match, so derivatives stay small.\<close>

definition rseq :: "rexp \<Rightarrow> rexp \<Rightarrow> rexp" where
  "rseq r q = (case r of RNone \<Rightarrow> RNone | REps \<Rightarrow> q | _ \<Rightarrow> RSeq r q)"

definition ralt :: "rexp \<Rightarrow> rexp \<Rightarrow> rexp" where
  "ralt r q = (case r of RNone \<Rightarrow> q | _ \<Rightarrow> (case q of RNone \<Rightarrow> r | _ \<Rightarrow> RAlt r q))"

primrec deriv :: "char \<Rightarrow> rexp \<Rightarrow> rexp" where
  "deriv c RNone = RNone"
| "deriv c REps = RNone"
| "deriv c (RCls P) = (if P c then REps else RNone)"
| "deriv c (RSeq r q) =
     (if nullable r then ralt (rseq (deriv c r) q) (deriv c q) else rseq (deriv c r) q)"
| "deriv c (RAlt r q) = ralt (deriv c r) (deriv c q)"
| "deriv c (RStar r) = rseq (deriv c r) (RStar r)"

text \<open>\<^verbatim>\<open>MatchString\<close> of a pattern anchored with \<^verbatim>\<open>^\<close> and \<^verbatim>\<open>$\<close>.\<close>

fun rmatch :: "rexp \<Rightarrow> string \<Rightarrow> bool" where
  "rmatch r [] = nullable r"
| "rmatch r (c # s) = rmatch (deriv c r) s"

inductive lang :: "rexp \<Rightarrow> string \<Rightarrow> bool" where
  eps: "lang REps []"
| cls: "P c \<Longrightarrow> lang (RCls P) [c]"
| seq: "lang r a \<Longrightarrow> lang q b \<Longrightarrow> lang (RSeq r q) (a @ b)"
| altL: "lang r a \<Longrightarrow> lang (RAlt r q) a"
| altR: "lang q a \<Longrightarrow> lang (RAlt r q) a"
| star0: "lang (RStar r) []"
| star: "lang r a \<Longrightarrow> lang (RStar r) b \<Longrightarrow> lang (RStar r) (a @ b)"

inductive_simps lang_simps [simp]:
  "lang RNone s"
  "lang REps s"
  "lang (RCls P) s"
  "lang (RSeq r q) s"
  "lang (RAlt r q) s"

lemma lang_rseq [simp]: "lang (rseq r q) s \<longleftrightarrow> lang (RSeq r q) s"
  by (cases r) (simp_all add: rseq_def)

lemma lang_ralt [simp]: "lang (ralt r q) s \<longleftrightarrow> lang (RAlt r q) s"
  by (cases r; cases q) (simp_all add: ralt_def)

lemma nullable_iff_lang: "nullable r \<longleftrightarrow> lang r []"
  by (induction r) (auto intro: lang.intros)

lemma lang_star_Cons:
  "lang (RStar r) s \<Longrightarrow> s = c # t \<Longrightarrow> \<exists>a b. t = a @ b \<and> lang r (c # a) \<and> lang (RStar r) b"
proof (induction "RStar r" s arbitrary: t rule: lang.induct)
  case (star a b)
  show ?case
  proof (cases a)
    case Nil
    with star show ?thesis by auto
  next
    case (Cons d a')
    with star show ?thesis by auto
  qed
qed auto

lemma lang_seq_Cons:
  "lang (RSeq r q) (c # s) \<longleftrightarrow>
     (\<exists>a b. s = a @ b \<and> lang r (c # a) \<and> lang q b) \<or> (lang r [] \<and> lang q (c # s))"
proof -
  have "lang (RSeq r q) (c # s) \<longleftrightarrow> (\<exists>a b. c # s = a @ b \<and> lang r a \<and> lang q b)"
    by auto
  also have "\<dots> \<longleftrightarrow> (\<exists>a b. s = a @ b \<and> lang r (c # a) \<and> lang q b) \<or> (lang r [] \<and> lang q (c # s))"
    by (auto simp: Cons_eq_append_conv)
  finally show ?thesis .
qed

lemma lang_deriv: "lang (deriv c r) s \<longleftrightarrow> lang r (c # s)"
proof (induction r arbitrary: s)
  case (RSeq r q)
  then show ?case by (auto simp: lang_seq_Cons nullable_iff_lang simp del: lang_simps(4)) auto
next
  case (RStar r)
  show ?case
  proof
    assume "lang (deriv c (RStar r)) s"
    then obtain a b where "s = a @ b" "lang r (c # a)" "lang (RStar r) b"
      using RStar by auto
    then show "lang (RStar r) (c # s)"
      using lang.star [of r "c # a" b] by simp
  next
    assume "lang (RStar r) (c # s)"
    then show "lang (deriv c (RStar r)) s"
      using lang_star_Cons [of r "c # s" c s] RStar by auto
  qed
qed auto

theorem rmatch_iff_lang: "rmatch r s \<longleftrightarrow> lang r s"
  by (induction r s rule: rmatch.induct) (auto simp: nullable_iff_lang lang_deriv)

subsection \<open>Pattern builders\<close>

text \<open>\<^verbatim>\<open>r{n}\<close>, \<^verbatim>\<open>r{0,n}\<close>, \<^verbatim>\<open>r?\<close> and \<^verbatim>\<open>r+\<close>.\<close>

primrec rpow :: "nat \<Rightarrow> rexp \<Rightarrow> rexp" where
  "rpow 0 r = REps"
| "rpow (Suc n) r = RSeq r (rpow n r)"

primrec rupto :: "nat \<Rightarrow> rexp \<Rightarrow> rexp" where
  "rupto 0 r = REps"
| "rupto (Suc n) r = RAlt REps (RSeq r (rupto n r))"

definition ropt :: "rexp \<Rightarrow> rexp" where
  "ropt r = RAlt REps r"

definition rplus :: "rexp \<Rightarrow> rexp" where
  "rplus r = RSeq r (RStar r)"

lemma lang_cls_star: "lang (RStar (RCls P)) s \<longleftrightarrow> list_all P s"
proof
  show "lang (RStar (RCls P)) s \<Longrightarrow> list_all P s"
    by (induction "RStar (RCls P)" s rule: lang.induct) auto
  show "list_all P s \<Longrightarrow> lang (RStar (RCls P)) s"
  proof (induction s)
    case Nil
    then show ?case by (simp add: lang.star0)
  next
    case (Cons c s)
    then have "lang (RCls P) [c]" and "lang (RStar (RCls P)) s" by auto
    from lang.star [OF this] show ?case by simp
  qed
qed

lemma lang_cls_seq: "lang (RSeq (RCls P) q) s \<longleftrightarrow> (\<exists>c t. s = c # t \<and> P c \<and> lang q t)"
proof -
  have "lang (RSeq (RCls P) q) s \<longleftrightarrow> (\<exists>c t. s = [c] @ t \<and> P c \<and> lang q t)"
    unfolding lang_simps by blast
  then show ?thesis by simp
qed

lemma lang_seq_cls: "lang (RSeq q (RCls P)) s \<longleftrightarrow> (\<exists>c t. s = t @ [c] \<and> P c \<and> lang q t)"
  unfolding lang_simps by blast

lemma lang_cls_pow: "lang (rpow n (RCls P)) s \<longleftrightarrow> length s = n \<and> list_all P s"
proof (induction n arbitrary: s)
  case (Suc n)
  then show ?case
    by (cases s) (simp_all only: rpow.simps lang_cls_seq, auto)
qed auto

lemma lang_cls_upto: "lang (rupto n (RCls P)) s \<longleftrightarrow> length s \<le> n \<and> list_all P s"
proof (induction n arbitrary: s)
  case (Suc n)
  then show ?case
    by (cases s) (simp_all only: rupto.simps lang_simps(5) lang_simps(2) lang_cls_seq, auto)
qed auto

end
