(* ===== verification/Go_Time.thy ===== *)
theory Go_Time
  imports Go_Strings
begin

text \<open>
  Time stamps as the program stores them. A \<open>gotime\<close> is a UTC instant by its civil fields, ordered
  as \<^verbatim>\<open>time.Time.Before\<close> orders instants; \<open>formatTime\<close> and \<open>formatEventTime\<close> are the two text
  forms of \<^verbatim>\<open>internal/db\<close> (RFC 3339 with trimmed fraction, and the fixed-width event layout), and
  \<open>parse_time\<close> is \<^verbatim>\<open>time.Parse(time.RFC3339Nano, _)\<close> on texts ending in Z with two-digit fields,
  the only ones these writers produce (zone offsets and one-digit hours are not modelled).
\<close>

section \<open>Instants\<close>

datatype gotime = GoTime
  (t_year: nat) (t_month: nat) (t_day: nat) (t_hour: nat) (t_min: nat) (t_sec: nat) (t_nano: nat)

definition time_key :: "gotime \<Rightarrow> nat list" where
  "time_key t = [t_year t, t_month t, t_day t, t_hour t, t_min t, t_sec t, t_nano t]"

lemma time_key_inj: "time_key t = time_key u \<Longrightarrow> t = u"
  by (cases t; cases u) (simp add: time_key_def)

instantiation gotime :: linorder
begin

definition less_eq_gotime :: "gotime \<Rightarrow> gotime \<Rightarrow> bool" where
  "less_eq_gotime t u \<longleftrightarrow> time_key t \<le> time_key u"

definition less_gotime :: "gotime \<Rightarrow> gotime \<Rightarrow> bool" where
  "less_gotime t u \<longleftrightarrow> time_key t < time_key u"

instance
  by standard (auto simp: less_eq_gotime_def less_gotime_def intro: time_key_inj)

end

definition zero_time :: gotime where
  "zero_time = GoTime 1 1 1 0 0 0 0"

definition IsZero :: "gotime \<Rightarrow> bool" where
  "IsZero t \<longleftrightarrow> t = zero_time"

definition is_leap :: "nat \<Rightarrow> bool" where
  "is_leap y \<longleftrightarrow> y mod 4 = 0 \<and> (y mod 100 \<noteq> 0 \<or> y mod 400 = 0)"

definition days_in :: "nat \<Rightarrow> nat \<Rightarrow> nat" where
  "days_in m y = (if m = 2 then (if is_leap y then 29 else 28)
                  else if m \<in> {4, 6, 9, 11} then 30 else 31)"

definition wf_time :: "gotime \<Rightarrow> bool" where
  "wf_time t \<longleftrightarrow> t_year t < 10000 \<and> 1 \<le> t_month t \<and> t_month t \<le> 12
     \<and> 1 \<le> t_day t \<and> t_day t \<le> days_in (t_month t) (t_year t)
     \<and> t_hour t < 24 \<and> t_min t < 60 \<and> t_sec t < 60 \<and> t_nano t < 1000000000"

section \<open>Fixed-width decimals\<close>

definition digit_char :: "nat \<Rightarrow> char" where
  "digit_char d = char_of (48 + d mod 10)"

definition digit_val :: "char \<Rightarrow> nat" where
  "digit_val c = of_char c - 48"

primrec padded :: "nat \<Rightarrow> nat \<Rightarrow> string" where
  "padded 0 n = []"
| "padded (Suc w) n = digit_char (n div 10 ^ w) # padded w n"

primrec digitsp :: "nat \<Rightarrow> nat \<Rightarrow> string \<Rightarrow> (nat \<times> string) option" where
  "digitsp 0 acc s = Some (acc, s)"
| "digitsp (Suc w) acc s =
     (case s of [] \<Rightarrow> None
      | c # r \<Rightarrow> if is_digit c then digitsp w (10 * acc + digit_val c) r else None)"

lemma of_char_digit [simp]: "(of_char (digit_char d) :: nat) = 48 + d mod 10"
proof -
  have "48 + d mod 10 < (256 :: nat)" using pos_mod_bound [of "10::int" "int d"] by simp
  then show ?thesis by (simp add: digit_char_def)
qed

lemma digit_char_zero_iff [simp]: "digit_char d = CHR ''0'' \<longleftrightarrow> d mod 10 = 0"
proof -
  have zero: "(of_char CHR ''0'' :: nat) = 48" by simp
  have "digit_char d = CHR ''0'' \<longleftrightarrow> (of_char (digit_char d) :: nat) = of_char CHR ''0''"
    by (simp only: of_char_eq_iff)
  then show ?thesis by (simp only: of_char_digit zero) simp
qed

lemma is_digit_digit_char [simp]: "is_digit (digit_char d)"
  by (simp add: is_digit_def less_eq_char_def)

lemma digit_val_digit_char [simp]: "digit_val (digit_char d) = d mod 10"
  by (simp add: digit_val_def)

lemma digit_char_less [simp]: "digit_char a < digit_char b \<longleftrightarrow> a mod 10 < b mod 10"
  by (simp add: less_char_def)

lemma digit_char_eq [simp]: "digit_char a = digit_char b \<longleftrightarrow> a mod 10 = b mod 10"
  by (metis digit_val_digit_char digit_char_def)

lemma length_padded [simp]: "length (padded w n) = w"
  by (induction w) auto

lemma padded_digits: "list_all is_digit (padded w n)"
  by (induction w) auto

lemma mod_pow_Suc: "(n :: nat) mod 10 ^ Suc w = 10 ^ w * (n div 10 ^ w mod 10) + n mod 10 ^ w"
  using mod_mult2_eq [of n "10 ^ w" 10] by (simp add: mult.commute)

lemma digitsp_padded: "digitsp w acc (padded w n @ r) = Some (acc * 10 ^ w + n mod 10 ^ w, r)"
proof (induction w arbitrary: acc)
  case (Suc w)
  then show ?case by (simp add: mod_pow_Suc algebra_simps del: power_Suc) simp
qed simp

lemma digitsp_padded_small [simp]: "n < 10 ^ w \<Longrightarrow> digitsp w 0 (padded w n @ r) = Some (n, r)"
  by (simp add: digitsp_padded)

lemma lex_digits:
  fixes a b p q x y :: nat
  assumes "p < m" and "q < m"
  shows "m * a + p < m * b + q \<longleftrightarrow> a < b \<or> a = b \<and> p < q"
    and "m * a + p = m * b + q \<longleftrightarrow> a = b \<and> p = q"
proof -
  have *: "m * c + r < m * d + s" if "c < d" "r < m" for c d r s :: nat
  proof -
    from that have "m * c + r < m * Suc c" by simp
    also have "\<dots> \<le> m * d" using that by (intro mult_le_mono2) simp
    finally show ?thesis by simp
  qed
  show "m * a + p < m * b + q \<longleftrightarrow> a < b \<or> a = b \<and> p < q"
    using * [of a b p q] * [of b a q p] assms by (cases a b rule: linorder_cases) auto
  show "m * a + p = m * b + q \<longleftrightarrow> a = b \<and> p = q"
    using * [of a b p q] * [of b a q p] assms by (cases a b rule: linorder_cases) auto
qed

text \<open>Equal widths make the byte order the numeric order.\<close>

lemma padded_less_iff:
  "padded w a @ r < padded w b @ s \<longleftrightarrow>
     a mod 10 ^ w < b mod 10 ^ w \<or> a mod 10 ^ w = b mod 10 ^ w \<and> r < s"
proof (induction w)
  case (Suc w)
  have bounds: "a mod 10 ^ w < 10 ^ w" "b mod 10 ^ w < 10 ^ w" by simp_all
  show ?case
    unfolding mod_pow_Suc lex_digits [OF bounds] by (auto simp: Suc)
qed simp

lemma padded_less [simp]:
  "a < 10 ^ w \<Longrightarrow> b < 10 ^ w \<Longrightarrow> padded w a @ r < padded w b @ s \<longleftrightarrow> a < b \<or> a = b \<and> r < s"
  by (simp add: padded_less_iff)

section \<open>Formatting\<close>

definition strip_zeros :: "string \<Rightarrow> string" where
  "strip_zeros s = rev (dropWhile (\<lambda>c. c = CHR ''0'') (rev s))"

definition date_part :: "gotime \<Rightarrow> string \<Rightarrow> string" where
  "date_part t r =
     padded 4 (t_year t) @ CHR ''-'' # padded 2 (t_month t) @ CHR ''-'' # padded 2 (t_day t) @
     CHR ''T'' # padded 2 (t_hour t) @ CHR '':'' # padded 2 (t_min t) @ CHR '':'' #
     padded 2 (t_sec t) @ r"

text \<open>\<^verbatim>\<open>t.UTC().Format(time.RFC3339Nano)\<close>: trailing zeros of the fraction are dropped.\<close>

definition formatTime :: "gotime \<Rightarrow> string" where
  "formatTime t =
     date_part t ((if t_nano t = 0 then [] else CHR ''.'' # strip_zeros (padded 9 (t_nano t))) @ ''Z'')"

text \<open>\<^verbatim>\<open>t.UTC().Format("2006-01-02T15:04:05.000000000Z")\<close>\<close>

definition formatEventTime :: "gotime \<Rightarrow> string" where
  "formatEventTime t = date_part t (CHR ''.'' # padded 9 (t_nano t) @ ''Z'')"

section \<open>Parsing\<close>

definition litp :: "char \<Rightarrow> string \<Rightarrow> string option" where
  "litp c s = (case s of [] \<Rightarrow> None | d # r \<Rightarrow> if c = d then Some r else None)"

lemma litp_Cons [simp]: "litp c (d # r) = (if c = d then Some r else None)"
  by (simp add: litp_def)

text \<open>The fraction: a sign and at least one digit, of which nine count.\<close>

definition fracp :: "string \<Rightarrow> (nat \<times> string) option" where
  "fracp s =
     (case s of [] \<Rightarrow> Some (0, s)
      | c # r \<Rightarrow>
          if (c = CHR ''.'' \<or> c = CHR '','') \<and> takeWhile is_digit r \<noteq> []
          then map_option (\<lambda>(n, _). (n, dropWhile is_digit r))
                 (digitsp 9 0 (takeWhile is_digit r @ replicate 9 (CHR ''0'')))
          else Some (0, s))"

definition time_in_range :: "gotime \<Rightarrow> bool" where
  "time_in_range t \<longleftrightarrow> 1 \<le> t_month t \<and> t_month t \<le> 12
     \<and> 1 \<le> t_day t \<and> t_day t \<le> days_in (t_month t) (t_year t)
     \<and> t_hour t < 24 \<and> t_min t < 60 \<and> t_sec t < 60"

definition parse_time :: "string \<Rightarrow> gotime option" where
  "parse_time s0 =
     Option.bind (digitsp 4 0 s0) (\<lambda>(y, s1). Option.bind (litp CHR ''-'' s1) (\<lambda>s2.
     Option.bind (digitsp 2 0 s2) (\<lambda>(mo, s3). Option.bind (litp CHR ''-'' s3) (\<lambda>s4.
     Option.bind (digitsp 2 0 s4) (\<lambda>(d, s5). Option.bind (litp CHR ''T'' s5) (\<lambda>s6.
     Option.bind (digitsp 2 0 s6) (\<lambda>(h, s7). Option.bind (litp CHR '':'' s7) (\<lambda>s8.
     Option.bind (digitsp 2 0 s8) (\<lambda>(mi, s9). Option.bind (litp CHR '':'' s9) (\<lambda>s10.
     Option.bind (digitsp 2 0 s10) (\<lambda>(se, s11). Option.bind (fracp s11) (\<lambda>(ns, s12).
       let t = GoTime y mo d h mi se ns
       in if s12 = ''Z'' \<and> time_in_range t then Some t else None))))))))))))"

lemma strip_zeros_fill: "\<exists>k. s = strip_zeros s @ replicate k (CHR ''0'')"
proof -
  have "rev s = takeWhile (\<lambda>c. c = CHR ''0'') (rev s) @ dropWhile (\<lambda>c. c = CHR ''0'') (rev s)"
    by simp
  then have "s = strip_zeros s @ rev (takeWhile (\<lambda>c. c = CHR ''0'') (rev s))"
    by (metis rev_append rev_rev_ident strip_zeros_def)
  moreover have "rev (takeWhile (\<lambda>c. c = CHR ''0'') (rev s)) =
      replicate (length (takeWhile (\<lambda>c. c = CHR ''0'') (rev s))) (CHR ''0'')"
    by (intro replicate_eqI) (auto dest: set_takeWhileD)
  ultimately show ?thesis by metis
qed

lemma strip_zeros_digits: "list_all is_digit s \<Longrightarrow> list_all is_digit (strip_zeros s)"
  using strip_zeros_fill [of s] by (metis list_all_append)

lemma digitsp_prefix: "digitsp w acc s = Some (n, r) \<Longrightarrow> digitsp w acc (s @ u) = Some (n, r @ u)"
proof (induction w arbitrary: acc s)
  case (Suc w)
  then show ?case by (cases s) (auto split: if_splits)
qed simp

lemma padded_zero: "padded w 0 = replicate w (CHR ''0'')"
  by (induction w) auto

lemma digits_span:
  assumes "list_all is_digit ds"
  shows "takeWhile is_digit (ds @ ''Z'') = ds" and "dropWhile is_digit (ds @ ''Z'') = ''Z''"
proof -
  have nz: "\<not> is_digit (CHR ''Z'')" by (simp add: is_digit_def)
  have all: "\<And>c. c \<in> set ds \<Longrightarrow> is_digit c" using assms by (simp add: list_all_iff)
  show "takeWhile is_digit (ds @ ''Z'') = ds"
    using all nz by (subst takeWhile_append2) auto
  show "dropWhile is_digit (ds @ ''Z'') = ''Z''"
    using all nz by (subst dropWhile_append2) auto
qed

text \<open>Trailing zeros of the fraction do not change what is read back.\<close>

lemma fracp_fill:
  assumes "list_all is_digit ds" and "ds \<noteq> []" and "ds @ replicate k (CHR ''0'') = padded 9 n"
    and "n < 1000000000"
  shows "fracp (CHR ''.'' # ds @ ''Z'') = Some (n, ''Z'')"
proof -
  have k: "k \<le> 9" using arg_cong [OF assms(3), of length] by simp
  have "ds @ replicate 9 (CHR ''0'') = padded 9 n @ replicate (9 - k) (CHR ''0'')"
    using k assms(3) by (metis append.assoc le_add_diff_inverse replicate_add)
  moreover have "n < 10 ^ 9" using assms(4) by simp
  ultimately have "digitsp 9 0 (ds @ replicate 9 (CHR ''0'')) = Some (n, replicate (9 - k) (CHR ''0''))"
    by (simp only: digitsp_padded_small)
  then show ?thesis
    using assms(2) digits_span [OF assms(1)] by (simp add: fracp_def)
qed

lemma parse_date_part:
  assumes "wf_time t" and "fracp r = Some (t_nano t, ''Z'')"
  shows "parse_time (date_part t r) = Some t"
proof -
  from assms(1) have fields: "t_year t < 10 ^ 4" "t_month t < 10 ^ 2" "t_day t < 10 ^ 2"
      "t_hour t < 10 ^ 2" "t_min t < 10 ^ 2" "t_sec t < 10 ^ 2"
    by (auto simp: wf_time_def days_in_def split: if_splits)
  have "time_in_range t" using assms(1) by (simp add: wf_time_def time_in_range_def)
  then show ?thesis
    unfolding parse_time_def date_part_def
    by (simp only: digitsp_padded_small [OF fields(1)] digitsp_padded_small [OF fields(2)]
        digitsp_padded_small [OF fields(3)] digitsp_padded_small [OF fields(4)]
        digitsp_padded_small [OF fields(5)] digitsp_padded_small [OF fields(6)]
        Option.bind.simps litp_Cons if_True prod.case assms(2) Let_def gotime.collapse simp_thms)
qed

lemma parse_formatEventTime: "wf_time t \<Longrightarrow> parse_time (formatEventTime t) = Some t"
  unfolding formatEventTime_def
proof (rule parse_date_part)
  assume wf: "wf_time t"
  then have "t_nano t < 1000000000" by (simp add: wf_time_def)
  then show "fracp (CHR ''.'' # padded 9 (t_nano t) @ ''Z'') = Some (t_nano t, ''Z'')"
    by (intro fracp_fill [where k = 0]) (auto simp: padded_digits simp del: padded.simps dest: arg_cong [where f = length])
qed

lemma parse_formatTime: "wf_time t \<Longrightarrow> parse_time (formatTime t) = Some t"
  unfolding formatTime_def
proof (rule parse_date_part)
  assume wf: "wf_time t"
  then have n: "t_nano t < 1000000000" by (simp add: wf_time_def)
  let ?ds = "strip_zeros (padded 9 (t_nano t))"
  show "fracp ((if t_nano t = 0 then [] else CHR ''.'' # ?ds) @ ''Z'') = Some (t_nano t, ''Z'')"
  proof (cases "t_nano t = 0")
    case True
    then show ?thesis by (simp add: fracp_def)
  next
    case False
    obtain k where k: "padded 9 (t_nano t) = ?ds @ replicate k (CHR ''0'')"
      using strip_zeros_fill by blast
    have "?ds \<noteq> []"
    proof
      assume "?ds = []"
      then have "padded 9 (t_nano t) = replicate k (CHR ''0'')" using k by simp
      then have "padded 9 (t_nano t) = padded 9 0"
        by (metis length_padded length_replicate padded_zero)
      then have "digitsp 9 0 (padded 9 (t_nano t) @ []) = digitsp 9 0 (padded 9 0 @ [])" by simp
      then have "t_nano t mod 10 ^ 9 = 0" unfolding digitsp_padded by simp
      with n False show False by simp
    qed
    with False k n show ?thesis
      using fracp_fill [of ?ds k "t_nano t"] strip_zeros_digits [OF padded_digits] by simp
  qed
qed

lemma formatTime_inj: "wf_time t \<Longrightarrow> wf_time u \<Longrightarrow> formatTime t = formatTime u \<Longrightarrow> t = u"
  by (metis option.inject parse_formatTime)

section \<open>Text order and time order\<close>

lemma gotime_less_iff:
  "t < u \<longleftrightarrow> t_year t < t_year u \<or> t_year t = t_year u \<and> (t_month t < t_month u \<or>
     t_month t = t_month u \<and> (t_day t < t_day u \<or> t_day t = t_day u \<and> (t_hour t < t_hour u \<or>
     t_hour t = t_hour u \<and> (t_min t < t_min u \<or> t_min t = t_min u \<and> (t_sec t < t_sec u \<or>
     t_sec t = t_sec u \<and> t_nano t < t_nano u)))))"
  by (simp add: less_gotime_def time_key_def)

lemma formatEventTime_less_iff:
  assumes "wf_time t" and "wf_time u"
  shows "formatEventTime t < formatEventTime u \<longleftrightarrow> t < u"
proof -
  have fields: "t_year x < 10 ^ 4" "t_month x < 10 ^ 2" "t_day x < 10 ^ 2"
      "t_hour x < 10 ^ 2" "t_min x < 10 ^ 2" "t_sec x < 10 ^ 2" "t_nano x < 10 ^ 9" if "wf_time x" for x
    using that by (auto simp: wf_time_def days_in_def split: if_splits)
  show ?thesis
    unfolding formatEventTime_def date_part_def gotime_less_iff
    by (simp only: padded_less [OF fields(1) [OF assms(1)] fields(1) [OF assms(2)]]
        padded_less [OF fields(2) [OF assms(1)] fields(2) [OF assms(2)]]
        padded_less [OF fields(3) [OF assms(1)] fields(3) [OF assms(2)]]
        padded_less [OF fields(4) [OF assms(1)] fields(4) [OF assms(2)]]
        padded_less [OF fields(5) [OF assms(1)] fields(5) [OF assms(2)]]
        padded_less [OF fields(6) [OF assms(1)] fields(6) [OF assms(2)]]
        padded_less [OF fields(7) [OF assms(1)] fields(7) [OF assms(2)]]
        Cons_less_Cons less_irrefl simp_thms)
qed

text \<open>The RFC 3339 form with its trimmed fraction does not have this property.\<close>

lemma padded_numeral:
  "padded (numeral k) n = digit_char (n div 10 ^ pred_numeral k) # padded (pred_numeral k) n"
  by (simp add: numeral_eq_Suc)

lemma formatTime_not_monotone:
  "wf_time (GoTime 2024 1 1 0 0 0 500000000) \<and> wf_time (GoTime 2024 1 1 0 0 0 510000000) \<and>
   GoTime 2024 1 1 0 0 0 500000000 < GoTime 2024 1 1 0 0 0 510000000 \<and>
   formatTime (GoTime 2024 1 1 0 0 0 510000000) < formatTime (GoTime 2024 1 1 0 0 0 500000000)"
proof -
  have z: "digit_char d < CHR ''Z''" for d
  proof -
    have "(of_char CHR ''Z'' :: nat) = 90" by simp
    moreover have "d mod 10 < 10" by simp
    ultimately show ?thesis unfolding less_char_def of_char_digit by linarith
  qed
  show ?thesis
    by (simp add: wf_time_def days_in_def gotime_less_iff formatTime_def date_part_def
        padded_numeral strip_zeros_def z)
qed

end
