(* ===== verification/Json.thy ===== *)
theory Json
  imports Go_Time
begin

text \<open>
  What the program uses of \<^verbatim>\<open>encoding/json\<close>: the compact printer of \<^verbatim>\<open>json.Marshal\<close> (with its HTML
  escapes), the parser behind \<^verbatim>\<open>json.Unmarshal\<close> and \<^verbatim>\<open>json.Valid\<close>, and integers. Text is taken to
  be valid UTF-8 (Go replaces invalid bytes by U+FFFD; the model passes them through).
  \<open>parse_print\<close> is the round trip; \<open>fuel_enough\<close> shows that the fuel of \<open>json_parse\<close> never
  decides a result.
\<close>

section \<open>Values and the printer\<close>

datatype json =
    JNull | JBool bool | JNum string | JStr string
  | JArr "json list" | JObj "(string \<times> json) list"

definition backslash :: char where "backslash = CHR 0x5C"
definition dquote :: char where "dquote = CHR 0x22"

definition hex_char :: "nat \<Rightarrow> char" where
  "hex_char d = (if d < 10 then char_of (48 + d) else char_of (87 + d))"

definition u00 :: "nat \<Rightarrow> string" where
  "u00 n = [backslash, CHR ''u'', CHR ''0'', CHR ''0'', hex_char (n div 16), hex_char (n mod 16)]"

definition esc1 :: "char \<Rightarrow> string" where
  "esc1 c = (let n = of_char c :: nat in
     if c = dquote \<or> c = backslash then [backslash, c]
     else if n = 8 then [backslash, CHR ''b'']
     else if n = 9 then [backslash, CHR ''t'']
     else if n = 10 then [backslash, CHR ''n'']
     else if n = 12 then [backslash, CHR ''f'']
     else if n = 13 then [backslash, CHR ''r'']
     else if n < 32 \<or> n = 60 \<or> n = 62 \<or> n = 38 then u00 n
     else [c])"

text \<open>U+2028 and U+2029 (bytes E2 80 A8 and E2 80 A9) are escaped as well.\<close>

fun escape :: "string \<Rightarrow> string" where
  "escape [] = []"
| "escape (c # s) =
     (if c = CHR 0xE2 \<and> prefix [CHR 0x80, CHR 0xA8] s
      then [backslash, CHR ''u'', CHR ''2'', CHR ''0'', CHR ''2'', CHR ''8''] @ escape (drop 2 s)
      else if c = CHR 0xE2 \<and> prefix [CHR 0x80, CHR 0xA9] s
      then [backslash, CHR ''u'', CHR ''2'', CHR ''0'', CHR ''2'', CHR ''9''] @ escape (drop 2 s)
      else esc1 c @ escape s)"

definition quote :: "string \<Rightarrow> string" where
  "quote s = dquote # escape s @ [dquote]"

fun print_json :: "json \<Rightarrow> string"
  and print_elems :: "json list \<Rightarrow> string"
  and print_members :: "(string \<times> json) list \<Rightarrow> string" where
  "print_json JNull = ''null''"
| "print_json (JBool b) = (if b then ''true'' else ''false'')"
| "print_json (JNum l) = l"
| "print_json (JStr s) = quote s"
| "print_json (JArr vs) = CHR ''['' # print_elems vs @ '']''"
| "print_json (JObj ms) = CHR ''{'' # print_members ms @ ''}''"
| "print_elems [] = []"
| "print_elems [v] = print_json v"
| "print_elems (v # w # vs) = print_json v @ CHR '','' # print_elems (w # vs)"
| "print_members [] = []"
| "print_members [(k, v)] = quote k @ CHR '':'' # print_json v"
| "print_members ((k, v) # m # ms) = quote k @ CHR '':'' # print_json v @ CHR '','' # print_members (m # ms)"

section \<open>The parser\<close>

definition is_ws :: "char \<Rightarrow> bool" where
  "is_ws c \<longleftrightarrow> c = CHR 0x20 \<or> c = CHR 0x09 \<or> c = CHR 0x0A \<or> c = CHR 0x0D"

definition skip_ws :: "string \<Rightarrow> string" where
  "skip_ws s = dropWhile is_ws s"

definition hex_val :: "char \<Rightarrow> nat option" where
  "hex_val c = (let n = of_char c :: nat in
     if 48 \<le> n \<and> n \<le> 57 then Some (n - 48)
     else if 97 \<le> n \<and> n \<le> 102 then Some (n - 87)
     else if 65 \<le> n \<and> n \<le> 70 then Some (n - 55) else None)"

fun hex4 :: "string \<Rightarrow> (nat \<times> string) option" where
  "hex4 (a # b # c # d # r) =
     (case (hex_val a, hex_val b, hex_val c, hex_val d) of
        (Some w, Some x, Some y, Some z) \<Rightarrow> Some (4096 * w + 256 * x + 16 * y + z, r)
      | _ \<Rightarrow> None)"
| "hex4 _ = None"

definition utf8 :: "nat \<Rightarrow> string" where
  "utf8 n = (if n < 128 then [char_of n]
     else if n < 2048 then [char_of (192 + n div 64), char_of (128 + n mod 64)]
     else if n < 65536 then
       [char_of (224 + n div 4096), char_of (128 + n div 64 mod 64), char_of (128 + n mod 64)]
     else [char_of (240 + n div 262144), char_of (128 + n div 4096 mod 64),
           char_of (128 + n div 64 mod 64), char_of (128 + n mod 64)])"

text \<open>A \<^verbatim>\<open>\u\<close> escape, joined with a following low surrogate; a lone surrogate reads as U+FFFD.\<close>

definition unicode_escape :: "string \<Rightarrow> (string \<times> string) option" where
  "unicode_escape s = (case hex4 s of None \<Rightarrow> None
     | Some (u, r) \<Rightarrow>
         if 55296 \<le> u \<and> u < 57344 then
           (case r of
              a # b # r' \<Rightarrow>
                (if a = backslash \<and> b = CHR ''u'' \<and> u < 56320 then
                   (case hex4 r' of
                      Some (l, r2) \<Rightarrow>
                        if 56320 \<le> l \<and> l < 57344
                        then Some (utf8 (65536 + (u - 55296) * 1024 + (l - 56320)), r2)
                        else Some (utf8 65533, r)
                    | None \<Rightarrow> Some (utf8 65533, r))
                 else Some (utf8 65533, r))
            | _ \<Rightarrow> Some (utf8 65533, r))
         else Some (utf8 u, r))"

definition escape_seq :: "string \<Rightarrow> (string \<times> string) option" where
  "escape_seq s = (case s of [] \<Rightarrow> None
     | e # r \<Rightarrow>
         if e = dquote \<or> e = backslash \<or> e = CHR ''/'' then Some ([e], r)
         else if e = CHR ''b'' then Some ([CHR 0x08], r)
         else if e = CHR ''f'' then Some ([CHR 0x0C], r)
         else if e = CHR ''n'' then Some ([CHR 0x0A], r)
         else if e = CHR ''r'' then Some ([CHR 0x0D], r)
         else if e = CHR ''t'' then Some ([CHR 0x09], r)
         else if e = CHR ''u'' then unicode_escape r
         else None)"

lemma hex4_shorter: "hex4 s = Some (u, r) \<Longrightarrow> length r < length s"
  by (induction s rule: hex4.induct) (auto split: option.splits)

lemma unicode_escape_shorter: "unicode_escape s = Some (b, r) \<Longrightarrow> length r < length s"
  unfolding unicode_escape_def
  by (auto split: option.splits if_splits list.splits dest!: hex4_shorter)

lemma escape_seq_shorter: "escape_seq s = Some (b, r) \<Longrightarrow> length r < length s"
  unfolding escape_seq_def
  by (auto split: list.splits if_splits dest!: unicode_escape_shorter)

function parse_str :: "string \<Rightarrow> (string \<times> string) option" where
  "parse_str [] = None"
| "parse_str (c # s) =
     (if c = dquote then Some ([], s)
      else if (of_char c :: nat) < 32 then None
      else if c = backslash then
        (case escape_seq s of None \<Rightarrow> None
         | Some (b, r) \<Rightarrow> map_option (apfst ((@) b)) (parse_str r))
      else map_option (apfst ((#) c)) (parse_str s))"
  by pat_completeness auto
termination
  by (relation "measure length") (auto dest: escape_seq_shorter)

definition int_part :: "string \<Rightarrow> (string \<times> string) option" where
  "int_part s = (case s of [] \<Rightarrow> None
     | c # r \<Rightarrow> if c = CHR ''0'' then Some ([c], r)
               else if is_digit c then Some (takeWhile is_digit s, dropWhile is_digit s)
               else None)"

definition frac_part :: "string \<Rightarrow> (string \<times> string) option" where
  "frac_part s = (case s of [] \<Rightarrow> Some ([], [])
     | c # r \<Rightarrow> if c = CHR ''.'' then
                 (if takeWhile is_digit r = [] then None
                  else Some (c # takeWhile is_digit r, dropWhile is_digit r))
               else Some ([], s))"

definition exp_part :: "string \<Rightarrow> (string \<times> string) option" where
  "exp_part s = (case s of [] \<Rightarrow> Some ([], [])
     | c # r \<Rightarrow> if c = CHR ''e'' \<or> c = CHR ''E'' then
                 (let (sg, r') = (case r of d # t \<Rightarrow> if d = CHR ''+'' \<or> d = CHR ''-'' then ([d], t) else ([], r)
                                  | [] \<Rightarrow> ([], []))
                  in if takeWhile is_digit r' = [] then None
                     else Some (c # sg @ takeWhile is_digit r', dropWhile is_digit r'))
               else Some ([], s))"

definition num_lit :: "string \<Rightarrow> (string \<times> string) option" where
  "num_lit s =
     (let (sg, s1) = (case s of c # r \<Rightarrow> if c = CHR ''-'' then ([c], r) else ([], s) | [] \<Rightarrow> ([], []))
      in Option.bind (int_part s1) (\<lambda>(i, s2). Option.bind (frac_part s2) (\<lambda>(f, s3).
         Option.bind (exp_part s3) (\<lambda>(e, s4). Some (sg @ i @ f @ e, s4)))))"

fun pval :: "nat \<Rightarrow> string \<Rightarrow> (json \<times> string) option"
  and parr :: "nat \<Rightarrow> string \<Rightarrow> (json list \<times> string) option"
  and pobj :: "nat \<Rightarrow> string \<Rightarrow> ((string \<times> json) list \<times> string) option" where
  "pval 0 s = None"
| "pval (Suc n) s =
     (case skip_ws s of [] \<Rightarrow> None
      | c # r \<Rightarrow>
          if c = CHR ''{'' then
            (case skip_ws r of [] \<Rightarrow> None
             | d # r' \<Rightarrow> if d = CHR ''}'' then Some (JObj [], r')
                        else map_option (apfst JObj) (pobj n (d # r')))
          else if c = CHR ''['' then
            (case skip_ws r of [] \<Rightarrow> None
             | d # r' \<Rightarrow> if d = CHR '']'' then Some (JArr [], r')
                        else map_option (apfst JArr) (parr n (d # r')))
          else if c = dquote then map_option (apfst JStr) (parse_str r)
          else if prefix ''true'' (c # r) then Some (JBool True, drop 4 (c # r))
          else if prefix ''false'' (c # r) then Some (JBool False, drop 5 (c # r))
          else if prefix ''null'' (c # r) then Some (JNull, drop 4 (c # r))
          else map_option (apfst JNum) (num_lit (c # r)))"
| "parr 0 s = None"
| "parr (Suc n) s =
     (case pval n s of None \<Rightarrow> None
      | Some (v, r) \<Rightarrow>
          (case skip_ws r of [] \<Rightarrow> None
           | c # r' \<Rightarrow> if c = CHR '','' then map_option (apfst ((#) v)) (parr n r')
                      else if c = CHR '']'' then Some ([v], r') else None))"
| "pobj 0 s = None"
| "pobj (Suc n) s =
     (case skip_ws s of [] \<Rightarrow> None
      | c # r \<Rightarrow>
          if c \<noteq> dquote then None
          else (case parse_str r of None \<Rightarrow> None
            | Some (k, r1) \<Rightarrow>
                (case skip_ws r1 of [] \<Rightarrow> None
                 | d # r2 \<Rightarrow>
                     if d \<noteq> CHR '':'' then None
                     else (case pval n r2 of None \<Rightarrow> None
                       | Some (v, r3) \<Rightarrow>
                           (case skip_ws r3 of [] \<Rightarrow> None
                            | e # r4 \<Rightarrow>
                                if e = CHR '','' then map_option (apfst ((#) (k, v))) (pobj n r4)
                                else if e = CHR ''}'' then Some ([(k, v)], r4) else None)))))"

definition json_parse :: "string \<Rightarrow> json option" where
  "json_parse s =
     (case pval (2 * length s + 2) s of
        Some (v, r) \<Rightarrow> if skip_ws r = [] then Some v else None
      | None \<Rightarrow> None)"

definition json_Valid :: "string \<Rightarrow> bool" where
  "json_Valid s \<longleftrightarrow> json_parse s \<noteq> None"

section \<open>Integers\<close>

fun show_nat :: "nat \<Rightarrow> string" where
  "show_nat n = (if n < 10 then [digit_char n] else show_nat (n div 10) @ [digit_char n])"

declare show_nat.simps [simp del]

definition show_int :: "int \<Rightarrow> string" where
  "show_int i = (if i < 0 then CHR ''-'' # show_nat (nat (- i)) else show_nat (nat i))"

definition read_nat :: "string \<Rightarrow> nat" where
  "read_nat s = foldl (\<lambda>acc c. 10 * acc + digit_val c) 0 s"

definition int64 :: "int \<Rightarrow> bool" where
  "int64 i \<longleftrightarrow> - (2 ^ 63) \<le> i \<and> i < 2 ^ 63"

text \<open>Decoding a JSON number into a Go \<^verbatim>\<open>int\<close>: \<^verbatim>\<open>strconv.ParseInt(lit, 10, 64)\<close>.\<close>

definition read_int :: "string \<Rightarrow> int option" where
  "read_int l =
     (let (neg, ds) = (case l of c # r \<Rightarrow> if c = CHR ''-'' then (True, r) else (False, l) | [] \<Rightarrow> (False, []));
          i = (if neg then - int (read_nat ds) else int (read_nat ds))
      in if ds \<noteq> [] \<and> list_all is_digit ds \<and> int64 i then Some i else None)"

definition JInt :: "int \<Rightarrow> json" where
  "JInt i = JNum (show_int i)"

lemma show_nat_digits: "list_all is_digit (show_nat n)"
  by (induction n rule: show_nat.induct) (subst show_nat.simps, simp)

lemma show_nat_nonempty: "show_nat n \<noteq> []"
  by (subst show_nat.simps) simp

lemma read_nat_snoc: "read_nat (s @ [c]) = 10 * read_nat s + digit_val c"
  by (simp add: read_nat_def)

lemma read_show_nat [simp]: "read_nat (show_nat n) = n"
proof (induction n rule: show_nat.induct)
  case (1 n)
  show ?case
  proof (cases "n < 10")
    case True
    then show ?thesis by (subst show_nat.simps) (simp add: read_nat_def)
  next
    case False
    with 1 show ?thesis
      by (subst show_nat.simps) (simp add: read_nat_snoc)
  qed
qed

lemma show_nat_hd: "hd (show_nat n) = CHR ''0'' \<Longrightarrow> n = 0"
proof (induction n rule: show_nat.induct)
  case (1 n)
  then show ?case
    by (cases "n < 10") (simp_all add: show_nat.simps [of n] show_nat_nonempty)
qed

lemma show_nat_0: "show_nat 0 = ''0''"
  by (subst show_nat.simps) simp

lemma not_digit_minus [simp]: "\<not> is_digit (CHR ''-'')"
  by (simp add: is_digit_def)

lemma show_nat_hd_digit: "is_digit (hd (show_nat n))"
  using show_nat_digits [of n] show_nat_nonempty [of n] by (cases "show_nat n") auto

lemma read_show_int [simp]: "int64 i \<Longrightarrow> read_int (show_int i) = Some i"
proof (cases "i < 0")
  case True
  then show "int64 i \<Longrightarrow> read_int (show_int i) = Some i"
    by (simp add: read_int_def show_int_def show_nat_nonempty show_nat_digits)
next
  case False
  obtain c ds where l: "show_nat (nat i) = c # ds"
    using show_nat_nonempty by (meson neq_Nil_conv)
  have "list_all is_digit (c # ds)" and "read_nat (c # ds) = nat i"
    using show_nat_digits [of "nat i"] read_show_nat [of "nat i"] l by simp_all
  moreover from this(1) have "c \<noteq> CHR ''-''" by auto
  ultimately show "int64 i \<Longrightarrow> read_int (show_int i) = Some i"
    using False by (simp add: read_int_def show_int_def l)
qed

section \<open>The round trip\<close>

text \<open>What may follow a printed value: the end of the text, or a separator.\<close>

definition delim :: "string \<Rightarrow> bool" where
  "delim r \<longleftrightarrow> r = [] \<or> hd r = CHR '','' \<or> hd r = CHR '']'' \<or> hd r = CHR ''}''"

fun wf_json :: "json \<Rightarrow> bool" where
  "wf_json (JNum l) = (\<exists>i. l = show_int i)"
| "wf_json (JArr vs) = (\<forall>v \<in> set vs. wf_json v)"
| "wf_json (JObj ms) = (\<forall>m \<in> set ms. wf_json (snd m))"
| "wf_json _ = True"

subsection \<open>Strings\<close>

lemma of_char_eqD: "(of_char c :: nat) = of_char d \<Longrightarrow> c = d"
  by simp

lemma char_of_of_char_eq: "(of_char c :: nat) = n \<Longrightarrow> char_of n = c"
  by auto

lemma hex_val_hex_char [simp]: "d < 16 \<Longrightarrow> hex_val (hex_char d) = Some d"
  by (auto simp: hex_val_def hex_char_def Let_def)

lemma parse_str_plain:
  "c \<noteq> dquote \<Longrightarrow> c \<noteq> backslash \<Longrightarrow> \<not> (of_char c :: nat) < 32 \<Longrightarrow>
   parse_str (c # t) = map_option (apfst ((#) c)) (parse_str t)"
  by simp

lemma backslash_simps [simp]:
  "backslash \<noteq> dquote" "dquote \<noteq> backslash" "(of_char backslash :: nat) = 92" "(of_char dquote :: nat) = 34"
  by (simp_all add: backslash_def dquote_def)

lemma parse_str_backslash:
  "parse_str (backslash # s) =
     (case escape_seq s of None \<Rightarrow> None | Some (b, r) \<Rightarrow> map_option (apfst ((@) b)) (parse_str r))"
  by simp

lemma escape_seq_u00:
  assumes "(of_char c :: nat) < 128"
  shows "escape_seq (tl (u00 (of_char c)) @ t) = Some ([c], t)"
proof -
  have "(of_char c :: nat) div 16 < 16" using assms by simp
  moreover have "hex_val (CHR ''0'') = Some 0" by (simp add: hex_val_def)
  ultimately have "hex4 (tl (tl (u00 (of_char c))) @ t) = Some (of_char c, t)"
    by (simp add: u00_def)
  with assms show ?thesis
    by (simp add: escape_seq_def u00_def unicode_escape_def utf8_def dquote_def backslash_def)
qed

lemma escape_seq_simple:
  "escape_seq (dquote # t) = Some ([dquote], t)"
  "escape_seq (backslash # t) = Some ([backslash], t)"
  "escape_seq (CHR ''b'' # t) = Some ([CHR 0x08], t)"
  "escape_seq (CHR ''f'' # t) = Some ([CHR 0x0C], t)"
  "escape_seq (CHR ''n'' # t) = Some ([CHR 0x0A], t)"
  "escape_seq (CHR ''r'' # t) = Some ([CHR 0x0D], t)"
  "escape_seq (CHR ''t'' # t) = Some ([CHR 0x09], t)"
  by (simp_all add: escape_seq_def dquote_def backslash_def)

lemma control_chars:
  "(of_char c :: nat) = 8 \<Longrightarrow> c = CHR 0x08" "(of_char c :: nat) = 9 \<Longrightarrow> c = CHR 0x09"
  "(of_char c :: nat) = 10 \<Longrightarrow> c = CHR 0x0A" "(of_char c :: nat) = 12 \<Longrightarrow> c = CHR 0x0C"
  "(of_char c :: nat) = 13 \<Longrightarrow> c = CHR 0x0D"
  by (rule of_char_eqD, simp)+

lemma append_single [simp]: "(@) [c] = (#) c"
  by (rule ext) simp

lemma parse_str_esc1: "parse_str (esc1 c @ t) = map_option (apfst ((#) c)) (parse_str t)"
proof -
  let ?n = "of_char c :: nat"
  have u00: "parse_str (u00 ?n @ t) = map_option (apfst ((#) c)) (parse_str t)" if "?n < 128"
  proof -
    have "u00 ?n @ t = backslash # (tl (u00 ?n) @ t)" by (simp add: u00_def)
    then show ?thesis
      using escape_seq_u00 [OF that, of t] by (simp only: parse_str_backslash) simp
  qed
  show ?thesis
    using u00
    by (auto simp: esc1_def Let_def parse_str_backslash escape_seq_simple
        simp del: parse_str.simps(2) intro: parse_str_plain dest: control_chars)
qed

lemma escape_seq_2028:
  "escape_seq (CHR ''u'' # CHR ''2'' # CHR ''0'' # CHR ''2'' # CHR ''8'' # t)
     = Some ([CHR 0xE2, CHR 0x80, CHR 0xA8], t)"
  "escape_seq (CHR ''u'' # CHR ''2'' # CHR ''0'' # CHR ''2'' # CHR ''9'' # t)
     = Some ([CHR 0xE2, CHR 0x80, CHR 0xA9], t)"
proof -
  have c: "char_of (226 :: nat) = CHR 0xE2" "char_of (128 :: nat) = CHR 0x80"
      "char_of (168 :: nat) = CHR 0xA8" "char_of (169 :: nat) = CHR 0xA9"
    by (rule char_of_of_char_eq, simp)+
  show "escape_seq (CHR ''u'' # CHR ''2'' # CHR ''0'' # CHR ''2'' # CHR ''8'' # t)
     = Some ([CHR 0xE2, CHR 0x80, CHR 0xA8], t)"
    and "escape_seq (CHR ''u'' # CHR ''2'' # CHR ''0'' # CHR ''2'' # CHR ''9'' # t)
     = Some ([CHR 0xE2, CHR 0x80, CHR 0xA9], t)"
    by (simp_all add: escape_seq_def unicode_escape_def utf8_def hex_val_def dquote_def
        backslash_def c)
qed

lemma prefix2_drop: "prefix [a, b] s \<Longrightarrow> s = a # b # drop 2 s"
  by (auto simp: prefix_def)

lemma parse_str_escape [simp]: "parse_str (escape s @ dquote # r) = Some (s, r)"
proof (induction s rule: escape.induct)
  case (2 c s)
  consider (a) "c = CHR 0xE2" "prefix [CHR 0x80, CHR 0xA8] s"
    | (b) "c = CHR 0xE2" "prefix [CHR 0x80, CHR 0xA9] s" "\<not> prefix [CHR 0x80, CHR 0xA8] s"
    | (o) "\<not> (c = CHR 0xE2 \<and> prefix [CHR 0x80, CHR 0xA8] s)"
          "\<not> (c = CHR 0xE2 \<and> prefix [CHR 0x80, CHR 0xA9] s)"
    by blast
  then show ?case
  proof cases
    case a
    with 2 show ?thesis
      using prefix2_drop [OF a(2)]
      by (simp add: parse_str_backslash escape_seq_2028 del: parse_str.simps(2))
  next
    case b
    with 2 show ?thesis
      using prefix2_drop [OF b(2)]
      by (simp add: parse_str_backslash escape_seq_2028 del: parse_str.simps(2))
  next
    case o
    with 2(3) show ?thesis
      by (simp only: escape.simps if_False append_assoc parse_str_esc1) simp
  qed
qed simp

lemma parse_str_quote: "quote s @ r = dquote # escape s @ dquote # r"
  by (simp add: quote_def)

subsection \<open>Numbers\<close>

lemma span_delim:
  assumes "list_all is_digit ds" and "delim r"
  shows "takeWhile is_digit (ds @ r) = ds" and "dropWhile is_digit (ds @ r) = r"
proof -
  have all: "\<And>c. c \<in> set ds \<Longrightarrow> is_digit c" using assms(1) by (simp add: list_all_iff)
  have r: "takeWhile is_digit r = []" "dropWhile is_digit r = r"
    using assms(2) by (cases r, auto simp: delim_def is_digit_def)+
  show "takeWhile is_digit (ds @ r) = ds" using all r by (simp add: takeWhile_append2)
  show "dropWhile is_digit (ds @ r) = r" using all r by (simp add: dropWhile_append2)
qed

lemma int_part_show:
  assumes "delim r"
  shows "int_part (show_nat n @ r) = Some (show_nat n, r)"
proof (cases "n = 0")
  case True
  then show ?thesis by (simp add: int_part_def show_nat_0)
next
  case False
  obtain c ds where l: "show_nat n = c # ds"
    using show_nat_nonempty by (meson neq_Nil_conv)
  have "c \<noteq> CHR ''0''" using False show_nat_hd [of n] l by auto
  moreover have "is_digit c" using show_nat_hd_digit [of n] l by simp
  ultimately show ?thesis
    using span_delim [OF show_nat_digits [of n] assms] by (simp add: int_part_def l)
qed

lemma frac_exp_delim: "delim r \<Longrightarrow> frac_part r = Some ([], r) \<and> exp_part r = Some ([], r)"
  by (cases r) (auto simp: delim_def frac_part_def exp_part_def)

lemma num_lit_show: "delim r \<Longrightarrow> num_lit (show_int i @ r) = Some (show_int i, r)"
proof (cases "i < 0")
  case True
  then show "delim r \<Longrightarrow> ?thesis"
    by (simp add: num_lit_def show_int_def int_part_show frac_exp_delim)
next
  case False
  obtain c ds where l: "show_nat (nat i) = c # ds"
    using show_nat_nonempty by (meson neq_Nil_conv)
  have "c \<noteq> CHR ''-''" using show_nat_hd_digit [of "nat i"] l by auto
  moreover assume "delim r"
  ultimately show ?thesis
    using False int_part_show [of r "nat i"] frac_exp_delim [of r] by (simp add: num_lit_def show_int_def l)
qed

subsection \<open>Values\<close>

lemma skip_ws_Nil [simp]: "skip_ws [] = []"
  by (simp add: skip_ws_def)

lemma skip_ws_Cons [simp]: "\<not> is_ws c \<Longrightarrow> skip_ws (c # r) = c # r"
  by (simp add: skip_ws_def)

lemma not_ws [simp]:
  "\<not> is_ws (CHR ''{'')" "\<not> is_ws (CHR ''['')" "\<not> is_ws (CHR ''}'')" "\<not> is_ws (CHR '']'')"
  "\<not> is_ws (CHR '','')" "\<not> is_ws (CHR '':'')" "\<not> is_ws dquote"
  "\<not> is_ws (CHR ''t'')" "\<not> is_ws (CHR ''f'')" "\<not> is_ws (CHR ''n'')"
  by (simp_all add: is_ws_def dquote_def)

lemma dquote_neq [simp]:
  "dquote \<noteq> CHR ''{''" "dquote \<noteq> CHR ''[''" "dquote \<noteq> CHR ''}''" "dquote \<noteq> CHR '']''"
  "CHR ''t'' \<noteq> dquote" "CHR ''f'' \<noteq> dquote" "CHR ''n'' \<noteq> dquote"
  by (simp_all add: dquote_def)

lemma show_int_hd:
  obtains c ds where "show_int i = c # ds" and "c = CHR ''-'' \<or> is_digit c"
proof -
  obtain c ds where "show_nat (nat (if i < 0 then - i else i)) = c # ds"
    using show_nat_nonempty by (meson neq_Nil_conv)
  moreover from this have "is_digit c"
    using show_nat_hd_digit [of "nat (if i < 0 then - i else i)"] by simp
  ultimately show ?thesis
    using that by (cases "i < 0") (auto simp: show_int_def)
qed

lemma digit_not_special:
  "c = CHR ''-'' \<or> is_digit c \<Longrightarrow> \<not> is_ws c \<and> c \<notin> {CHR ''{'', CHR ''['', dquote, CHR ''t'', CHR ''f'', CHR ''n'', CHR ''}'', CHR '']''}"
  by (auto simp: is_digit_def is_ws_def dquote_def)

lemma pval_num:
  assumes "delim r" and "0 < n"
  shows "pval n (show_int i @ r) = Some (JNum (show_int i), r)"
proof -
  obtain c ds where l: "show_int i = c # ds" and c: "c = CHR ''-'' \<or> is_digit c"
    by (rule show_int_hd)
  from digit_not_special [OF c] num_lit_show [OF assms(1), of i] assms(2) show ?thesis
    by (cases n) (auto simp: l)
qed

lemma print_json_hd:
  assumes "wf_json j"
  obtains c r where "print_json j = c # r" and "\<not> is_ws c" and "c \<noteq> CHR '']''" and "c \<noteq> CHR ''}''"
proof (cases j)
  case (JNum l)
  with assms obtain i where "l = show_int i" by auto
  moreover obtain c ds where "show_int i = c # ds" and "c = CHR ''-'' \<or> is_digit c"
    by (rule show_int_hd)
  ultimately show ?thesis using that [of c ds] digit_not_special [of c] JNum by simp
next
  case (JBool b)
  then show ?thesis using that by (cases b) auto
qed (use that in \<open>auto simp: quote_def\<close>)

lemma pval_quote [simp]: "0 < n \<Longrightarrow> pval n (quote s @ r) = Some (JStr s, r)"
  by (cases n) (simp_all add: quote_def)

lemma print_elems_Cons:
  "print_elems (v # vs) = print_json v @ (if vs = [] then [] else CHR '','' # print_elems vs)"
  by (cases vs) auto

lemma print_members_Cons:
  "print_members ((k, v) # ms) =
     quote k @ CHR '':'' # print_json v @ (if ms = [] then [] else CHR '','' # print_members ms)"
  by (cases ms) auto

lemma delim_simps [simp]:
  "delim (CHR '','' # r)" "delim (CHR '']'' # r)" "delim (CHR ''}'' # r)" "delim []"
  by (simp_all add: delim_def)

lemma length_quote_pos: "0 < length (quote k)"
  by (simp add: quote_def)

text \<open>The parser reads back a printed value, with fuel twice the length of the text.\<close>

lemma parr_print:
  assumes IH: "\<And>v n r. v \<in> set vs \<Longrightarrow> delim r \<Longrightarrow> 2 * length (print_json v) < n \<Longrightarrow>
                 pval n (print_json v @ r) = Some (v, r)"
    and wf: "\<And>v. v \<in> set vs \<Longrightarrow> wf_json v" and ne: "vs \<noteq> []"
    and n: "2 * length (print_elems vs) + 1 < n"
  shows "parr n (print_elems vs @ CHR '']'' # r) = Some (vs, r)"
  using assms
proof (induction vs arbitrary: n)
  case (Cons v vs)
  obtain m where m: "n = Suc m" using Cons.prems(4) by (cases n) auto
  show ?case
  proof (cases "vs = []")
    case True
    with Cons.prems(1) [of v "CHR '']'' # r" m] Cons.prems(4) show ?thesis
      by (simp add: m)
  next
    case False
    have "pval m (print_json v @ CHR '','' # print_elems vs @ CHR '']'' # r)
        = Some (v, CHR '','' # print_elems vs @ CHR '']'' # r)"
      using Cons.prems(1) [of v _ m] Cons.prems(4) False by (simp add: m print_elems_Cons)
    moreover have "parr m (print_elems vs @ CHR '']'' # r) = Some (vs, r)"
      using Cons.IH [of m] Cons.prems(1,2,4) False by (simp add: m print_elems_Cons)
    ultimately show ?thesis using False by (simp add: m print_elems_Cons)
  qed
qed simp

lemma pobj_print:
  assumes IH: "\<And>k v n r. (k, v) \<in> set ms \<Longrightarrow> delim r \<Longrightarrow> 2 * length (print_json v) < n \<Longrightarrow>
                 pval n (print_json v @ r) = Some (v, r)"
    and ne: "ms \<noteq> []" and n: "2 * length (print_members ms) + 1 < n"
  shows "pobj n (print_members ms @ CHR ''}'' # r) = Some (ms, r)"
  using assms
proof (induction ms arbitrary: n)
  case (Cons m ms)
  obtain k v where kv: "m = (k, v)" by (cases m)
  obtain q where q: "n = Suc q" using Cons.prems(3) by (cases n) auto
  show ?case
  proof (cases "ms = []")
    case True
    have "pval q (print_json v @ CHR ''}'' # r) = Some (v, CHR ''}'' # r)"
      using Cons.prems(1) [of k v _ q] Cons.prems(3) True by (simp add: kv q)
    with True show ?thesis by (simp add: kv q quote_def)
  next
    case False
    have "pval q (print_json v @ CHR '','' # print_members ms @ CHR ''}'' # r)
        = Some (v, CHR '','' # print_members ms @ CHR ''}'' # r)"
      using Cons.prems(1) [of k v _ q] Cons.prems(3) False by (simp add: kv q print_members_Cons)
    moreover have "pobj q (print_members ms @ CHR ''}'' # r) = Some (ms, r)"
      by (rule Cons.IH) (use Cons.prems False in \<open>auto simp: kv q print_members_Cons\<close>)
    ultimately show ?thesis using False by (simp add: kv q print_members_Cons quote_def)
  qed
qed simp

lemma print_elems_hd:
  assumes "wf_json v"
  obtains c t where "print_elems (v # vs) @ r = c # t" and "\<not> is_ws c" and "c \<noteq> CHR '']''"
  using print_json_hd [OF assms] by (metis append_Cons append_assoc print_elems_Cons)

lemma pval_print:
  "wf_json j \<Longrightarrow> delim r \<Longrightarrow> 2 * length (print_json j) < n \<Longrightarrow> pval n (print_json j @ r) = Some (j, r)"
proof (induction j arbitrary: n r)
  case (JNum l)
  then show ?case using pval_num by auto
next
  case (JBool b)
  then show ?case by (cases n; cases b) auto
next
  case (JArr vs)
  then obtain m where m: "n = Suc m" by (cases n) auto
  show ?case
  proof (cases vs)
    case Nil
    then show ?thesis by (simp add: m)
  next
    case (Cons v ws)
    then have "wf_json v" using JArr.prems(1) by simp
    then obtain c t where c: "print_elems vs @ CHR '']'' # r = c # t" "\<not> is_ws c" "c \<noteq> CHR '']''"
      using print_elems_hd [of v ws "CHR '']'' # r"] Cons by metis
    have "parr m (print_elems vs @ CHR '']'' # r) = Some (vs, r)"
      using JArr Cons by (intro parr_print) (auto simp: m)
    with c show ?thesis by (simp add: m)
  qed
next
  case (JObj ms)
  then obtain m where m: "n = Suc m" by (cases n) auto
  show ?case
  proof (cases ms)
    case Nil
    then show ?thesis by (simp add: m)
  next
    case (Cons kv ms')
    have "pobj m (print_members ms @ CHR ''}'' # r) = Some (ms, r)"
      using JObj Cons by (intro pobj_print) (fastforce simp: m snds.simps)+
    moreover obtain t where "print_members ms @ CHR ''}'' # r = dquote # t"
      using Cons by (cases kv) (auto simp: print_members_Cons quote_def)
    ultimately show ?thesis by (simp add: m)
  qed
next
  case JNull
  then show ?case by (cases n) auto
next
  case (JStr s)
  then show ?case by simp
qed

theorem parse_print: "wf_json j \<Longrightarrow> json_parse (print_json j) = Some j"
  using pval_print [of j "[]" "2 * length (print_json j) + 2"] by (simp add: json_parse_def)

lemma print_json_inj: "wf_json i \<Longrightarrow> wf_json j \<Longrightarrow> print_json i = print_json j \<Longrightarrow> i = j"
  by (metis option.inject parse_print)

section \<open>The fuel of the parser\<close>

lemma length_skip_ws: "length (skip_ws s) \<le> length s"
  by (simp add: skip_ws_def length_dropWhile_le)

lemma skip_ws_ConsD: "skip_ws s = c # r \<Longrightarrow> length r < length s"
  using length_skip_ws [of s] by simp

lemma parse_str_shorter: "parse_str s = Some (t, r) \<Longrightarrow> length r < length s"
proof (induction s arbitrary: t r rule: parse_str.induct)
  case (2 c s)
  then show ?case
    by (fastforce split: if_splits option.splits dest: escape_seq_shorter)
qed simp

lemma int_part_shorter: "int_part s = Some (i, r) \<Longrightarrow> length r < length s"
  by (auto simp: int_part_def le_imp_less_Suc length_dropWhile_le split: list.splits if_splits)

lemma frac_part_le: "frac_part s = Some (i, r) \<Longrightarrow> length r \<le> length s"
  by (auto simp: frac_part_def length_dropWhile_le le_SucI split: list.splits if_splits)

lemma exp_part_le: "exp_part s = Some (i, r) \<Longrightarrow> length r \<le> length s"
  by (auto simp: exp_part_def length_dropWhile_le le_SucI split: list.splits if_splits)

lemma num_lit_shorter: "num_lit s = Some (l, r) \<Longrightarrow> length r < length s"
  by (fastforce simp: num_lit_def bind_eq_Some_conv split: list.splits if_splits
      dest: int_part_shorter frac_part_le exp_part_le)

lemma parser_shorter:
  shows pval_shorter: "pval n s = Some (v, r) \<Longrightarrow> length r < length s"
    and parr_shorter: "parr n s = Some (vs, r) \<Longrightarrow> length r < length s"
    and pobj_shorter: "pobj n s = Some (ms, r) \<Longrightarrow> length r < length s"
proof (induction n arbitrary: s v vs ms r)
  case (Suc n)
  {
    case 1
    then obtain c t where ct: "skip_ws s = c # t" by (auto split: list.splits)
    have t: "length t < length s" using skip_ws_ConsD [OF ct] .
    have "length r \<le> length t"
      using 1 ct num_lit_shorter [of "c # t"]
      by (auto split: list.splits if_splits dest!: Suc.IH parse_str_shorter skip_ws_ConsD)
    with t show ?case by simp
  next
    case 2
    then show ?case
      by (auto split: list.splits if_splits option.splits dest!: Suc.IH skip_ws_ConsD)
  next
    case 3
    then show ?case
      by (auto split: list.splits if_splits option.splits dest!: Suc.IH skip_ws_ConsD parse_str_shorter)
  }
qed simp_all

text \<open>Fuel beyond the bound of \<open>json_parse\<close> changes nothing: the recursion ends before it does.\<close>

lemma fuel_step:
  shows pval_fuel: "2 * length s + 1 \<le> n \<Longrightarrow> pval (Suc n) s = pval n s"
    and parr_fuel: "2 * length s + 2 \<le> n \<Longrightarrow> parr (Suc n) s = parr n s"
    and pobj_fuel: "2 * length s + 2 \<le> n \<Longrightarrow> pobj (Suc n) s = pobj n s"
proof (induction n arbitrary: s)
  case (Suc n)
  {
    case 1
    have h: "pobj (Suc n) u = pobj n u \<and> parr (Suc n) u = parr n u" if "length u < length s" for u
      using 1 that Suc.IH(2,3) [of u] by simp
    show ?case
      unfolding pval.simps(2) [of "Suc n" s] pval.simps(2) [of n s]
      using h
      by (auto simp del: parr.simps pobj.simps split: list.splits dest!: skip_ws_ConsD)
  next
    case 2
    have v: "pval (Suc n) s = pval n s" using 2 Suc.IH(1) [of s] by simp
    have h: "parr (Suc n) u = parr n u" if "length u < length s" for u
      using 2 that Suc.IH(2) [of u] by simp
    show ?case
      unfolding parr.simps(2) [of "Suc n" s] parr.simps(2) [of n s] v
      using h
      by (auto simp del: pval.simps parr.simps split: list.splits option.splits
          dest!: skip_ws_ConsD pval_shorter)
  next
    case 3
    have h: "pval (Suc n) u = pval n u \<and> pobj (Suc n) u = pobj n u" if "length u < length s" for u
      using 3 that Suc.IH(1,3) [of u] by simp
    have v: "pval (Suc n) u = pval n u" if "skip_ws s = c # r" "parse_str r = Some (k, r1)" "skip_ws r1 = d # u"
      for c r k r1 d u
      using h [of u] skip_ws_ConsD [OF that(1)] parse_str_shorter [OF that(2)]
        skip_ws_ConsD [OF that(3)] by simp
    have o: "pobj (Suc n) u = pobj n u" if "skip_ws s = c # r" "parse_str r = Some (k, r1)" "skip_ws r1 = d # r2"
        "pval n r2 = Some (v, r3)" "skip_ws r3 = e # u" for c r k r1 d r2 v r3 e u
      using h [of u] skip_ws_ConsD [OF that(1)] parse_str_shorter [OF that(2)]
        skip_ws_ConsD [OF that(3)] pval_shorter [OF that(4)] skip_ws_ConsD [OF that(5)] by simp
    show ?case
      unfolding pobj.simps(2) [of "Suc n" s] pobj.simps(2) [of n s]
      by (auto simp del: pval.simps pobj.simps simp: v o split: list.split option.split)
  }
qed simp_all

theorem fuel_enough: "2 * length s + 1 \<le> n \<Longrightarrow> pval (n + k) s = pval n s"
  by (induction k) (simp_all add: pval_fuel del: pval.simps)

text \<open>The codecs of the program reason with \<open>parse_print\<close>, not with the text.\<close>

declare print_json.simps [simp del] print_elems.simps [simp del] print_members.simps [simp del]
  pval.simps [simp del] parr.simps [simp del] pobj.simps [simp del]

end
