(* ===== verification/Registry_Auth.thy ===== *)
theory Registry_Auth
  imports Json
begin

text \<open>
  Image-pull credentials, \<^verbatim>\<open>internal/registryauth/credential.go\<close>: the three patterns of the file as
  regular expressions, the credential and its checks, the binding of a credential to an image, and
  the Docker configuration. The lemmas characterise the patterns by plain conditions on the string
  and show what an accepted image reference looks like.
\<close>

section \<open>Patterns\<close>

definition is_name_char :: "char \<Rightarrow> bool" where
  "is_name_char c \<longleftrightarrow> is_lower c \<or> is_digit c"

definition is_name_inner :: "char \<Rightarrow> bool" where
  "is_name_inner c \<longleftrightarrow> is_name_char c \<or> c = CHR ''-''"

text \<open>\<^verbatim>\<open>^[a-f0-9]{64}$\<close>\<close>

definition revisionPattern :: rexp where
  "revisionPattern = rpow 64 (RCls is_hex)"

text \<open>\<^verbatim>\<open>^[a-z0-9](?:[-a-z0-9]*[a-z0-9])?$\<close>\<close>

definition appPattern :: rexp where
  "appPattern = RSeq (RCls is_name_char) (ropt (RSeq (RStar (RCls is_name_inner)) (RCls is_name_char)))"

text \<open>\<^verbatim>\<open>^[a-z0-9]+(?:(?:[._]|__|-+)[a-z0-9]+)*$\<close>\<close>

definition repositoryPart :: rexp where
  "repositoryPart = RSeq (rplus (RCls is_name_char))
     (RStar (RSeq
        (RAlt (RCls (\<lambda>c. c = CHR ''.'' \<or> c = CHR ''_''))
          (RAlt (RSeq (RCls (\<lambda>c. c = CHR ''_'')) (RCls (\<lambda>c. c = CHR ''_'')))
                (rplus (RCls (\<lambda>c. c = CHR ''-'')))))
        (rplus (RCls is_name_char))))"

definition ValidRevision :: "string \<Rightarrow> bool" where
  "ValidRevision s = rmatch revisionPattern s"

definition registryauth_ValidAppName :: "string \<Rightarrow> bool" where
  "registryauth_ValidAppName s \<longleftrightarrow> length s \<le> 63 \<and> rmatch appPattern s"

section \<open>Credentials\<close>

record credential =
  cr_AppName :: string
  cr_Revision :: string
  cr_Registry :: string
  cr_Username :: string
  cr_Password :: string

datatype registry_err = ErrInvalid

text \<open>\<^verbatim>\<open>utf8.ValidString\<close>: well-formed sequences only (no overlong form, no surrogate, at most U+10FFFF).\<close>

definition is_cont :: "char \<Rightarrow> bool" where
  "is_cont c = (let n = of_char c :: nat in 128 \<le> n \<and> n < 192)"

definition byte_in :: "nat \<Rightarrow> nat \<Rightarrow> char \<Rightarrow> bool" where
  "byte_in lo hi c = (let n = of_char c :: nat in lo \<le> n \<and> n \<le> hi)"

fun utf8_ValidString :: "string \<Rightarrow> bool" where
  "utf8_ValidString [] = True"
| "utf8_ValidString (c # s) =
     (if byte_in 0 127 c then utf8_ValidString s
      else if byte_in 194 223 c then
        (case s of d # r \<Rightarrow> is_cont d \<and> utf8_ValidString r | _ \<Rightarrow> False)
      else if byte_in 224 239 c then
        (case s of d # e # r \<Rightarrow>
             (if c = CHR 0xE0 then byte_in 160 191 d
              else if c = CHR 0xED then byte_in 128 159 d else is_cont d)
             \<and> is_cont e \<and> utf8_ValidString r
         | _ \<Rightarrow> False)
      else if byte_in 240 244 c then
        (case s of d # e # f # r \<Rightarrow>
             (if c = CHR 0xF0 then byte_in 144 191 d
              else if c = CHR 0xF4 then byte_in 128 143 d else is_cont d)
             \<and> is_cont e \<and> is_cont f \<and> utf8_ValidString r
         | _ \<Rightarrow> False)
      else False)"

text \<open>
  The loop over the runes of a valid string rejects control characters; those are single bytes,
  and every byte of a longer sequence is at least 128.
\<close>

definition control_rune :: "char \<Rightarrow> bool" where
  "control_rune c = (let n = of_char c :: nat in n < 32 \<or> n = 127)"

definition credential_Validate :: "credential \<Rightarrow> registry_err + unit" where
  "credential_Validate c =
     (if \<not> registryauth_ValidAppName (cr_AppName c) \<or> \<not> ValidRevision (cr_Revision c)
         \<or> (cr_Registry c \<noteq> ''docker.io'' \<and> cr_Registry c \<noteq> ''ghcr.io'')
         \<or> length (cr_Username c) = 0 \<or> length (cr_Username c) > 256
         \<or> length (cr_Password c) = 0 \<or> length (cr_Password c) > 8192
         \<or> CHR '':'' \<in> set (cr_Username c)
      then Inl ErrInvalid
      else each (\<lambda>s. if \<not> utf8_ValidString s then Inl ErrInvalid
                     else if list_ex control_rune s then Inl ErrInvalid else Inr ())
             [cr_Username c, cr_Password c])"

definition credential_ValidateFor :: "credential \<Rightarrow> string \<Rightarrow> string \<Rightarrow> string \<Rightarrow> registry_err + unit" where
  "credential_ValidateFor c appName revision img =
     (if \<not> is_ok (credential_Validate c) \<or> cr_AppName c \<noteq> appName \<or> cr_Revision c \<noteq> revision
         \<or> length img > 512 \<or> \<not> HasPrefix img (cr_Registry c @ ''/'')
      then Inl ErrInvalid
      else case Cut (TrimPrefix img (cr_Registry c @ ''/'')) ''@sha256:'' of
          None \<Rightarrow> Inl ErrInvalid
        | Some (name, digest) \<Rightarrow>
            if \<not> ValidRevision digest \<or> length name > 255 then Inl ErrInvalid
            else if length (split_char (CHR ''/'') name) < 2 then Inl ErrInvalid
            else each (\<lambda>p. if \<not> rmatch repositoryPart p then Inl ErrInvalid else Inr ())
                   (split_char (CHR ''/'') name))"

definition b64_char :: "nat \<Rightarrow> char" where
  "b64_char n = (if n < 26 then char_of (65 + n) else if n < 52 then char_of (71 + n)
     else if n < 62 then char_of (n - 4) else if n = 62 then CHR ''+'' else CHR ''/'')"

fun b64_encode :: "nat list \<Rightarrow> string" where
  "b64_encode [] = []"
| "b64_encode [a] = [b64_char (a div 4), b64_char (a mod 4 * 16), CHR ''='', CHR ''='']"
| "b64_encode [a, b] =
     [b64_char (a div 4), b64_char (a mod 4 * 16 + b div 16), b64_char (b mod 16 * 4), CHR ''='']"
| "b64_encode (a # b # c # r) =
     b64_char (a div 4) # b64_char (a mod 4 * 16 + b div 16) #
     b64_char (b mod 16 * 4 + c div 64) # b64_char (c mod 64) # b64_encode r"

definition DockerConfigJSON :: "credential \<Rightarrow> registry_err + string" where
  "DockerConfigJSON c = rbind (credential_Validate c) (\<lambda>_.
     let host = (if cr_Registry c = ''docker.io'' then ''https://index.docker.io/v1/'' else cr_Registry c)
     in Inr (print_json (JObj [(''auths'', JObj [(host, JObj [(''auth'',
          JStr (b64_encode (map of_char (cr_Username c @ '':'' @ cr_Password c))))])])])))"

section \<open>What the patterns accept\<close>

lemma rmatch_revision: "rmatch revisionPattern s \<longleftrightarrow> length s = 64 \<and> list_all is_hex s"
  by (simp add: rmatch_iff_lang revisionPattern_def lang_cls_pow)

lemma ValidRevision_iff: "ValidRevision s \<longleftrightarrow> length s = 64 \<and> list_all is_hex s"
  by (simp add: ValidRevision_def rmatch_revision)

lemma lang_name_pattern:
  "lang (RSeq (RCls P) (ropt (RSeq (RStar (RCls Q)) (RCls P)))) s \<longleftrightarrow>
     s \<noteq> [] \<and> P (hd s) \<and> P (last s) \<and> list_all Q (butlast (tl s))"
proof -
  have opt: "lang (ropt (RSeq (RStar (RCls Q)) (RCls P))) t \<longleftrightarrow>
      t = [] \<or> P (last t) \<and> list_all Q (butlast t) \<and> t \<noteq> []" for t
    unfolding ropt_def lang_simps(5) lang_simps(2) lang_seq_cls lang_cls_star
    by (cases t rule: rev_cases) auto
  show ?thesis
    unfolding lang_cls_seq opt by (cases s) auto
qed

text \<open>An application name starts and ends with a lower-case letter or digit; dashes are inside.\<close>

lemma rmatch_appPattern:
  "rmatch appPattern s \<longleftrightarrow> s \<noteq> [] \<and> is_name_char (hd s) \<and> is_name_char (last s) \<and> list_all is_name_inner s"
proof -
  have "is_name_char (hd s) \<and> is_name_char (last s) \<and> list_all is_name_inner (butlast (tl s)) \<longleftrightarrow>
        is_name_char (hd s) \<and> is_name_char (last s) \<and> list_all is_name_inner s" if "s \<noteq> []"
  proof (cases s)
    case (Cons c t)
    then show ?thesis
      by (cases t rule: rev_cases) (auto simp: is_name_inner_def list_all_iff)
  qed (use that in simp)
  then show ?thesis
    unfolding rmatch_iff_lang appPattern_def lang_name_pattern by auto
qed

lemma registryauth_ValidAppName_iff:
  "registryauth_ValidAppName s \<longleftrightarrow>
     s \<noteq> [] \<and> length s \<le> 63 \<and> is_name_char (hd s) \<and> is_name_char (last s) \<and> list_all is_name_inner s"
  by (auto simp: registryauth_ValidAppName_def rmatch_appPattern)

text \<open>
  An image accepted for a credential is \<^verbatim>\<open>registry/name@sha256:digest\<close>, on the credential's own
  registry, with a path of two or more well-formed parts and a full digest.
\<close>

lemma ValidateFor_shape:
  assumes "credential_ValidateFor c app rv img = Inr ()"
  obtains name digest where "img = cr_Registry c @ ''/'' @ name @ ''@sha256:'' @ digest"
    and "ValidRevision digest" and "2 \<le> length (split_char (CHR ''/'') name)"
    and "\<forall>p \<in> set (split_char (CHR ''/'') name). rmatch repositoryPart p"
    and "cr_Registry c = ''docker.io'' \<or> cr_Registry c = ''ghcr.io''"
    and "cr_AppName c = app" and "cr_Revision c = rv"
proof -
  from assms obtain name digest where
    cut: "Cut (TrimPrefix img (cr_Registry c @ ''/'')) ''@sha256:'' = Some (name, digest)"
    and pre: "HasPrefix img (cr_Registry c @ ''/'')"
    and rest: "ValidRevision digest" "\<not> length (split_char (CHR ''/'') name) < 2"
      "each (\<lambda>p. if \<not> rmatch repositoryPart p then Inl ErrInvalid else Inr ()) (split_char (CHR ''/'') name) = Inr ()"
    and cred: "is_ok (credential_Validate c)" "cr_AppName c = app" "cr_Revision c = rv"
    by (auto simp: credential_ValidateFor_def split: if_splits option.splits prod.splits)
  from cred(1) have "cr_Registry c = ''docker.io'' \<or> cr_Registry c = ''ghcr.io''"
    by (auto simp: credential_Validate_def split: if_splits)
  moreover from pre obtain t where t: "img = cr_Registry c @ ''/'' @ t"
    by (auto simp: HasPrefix_def prefix_def)
  moreover from cut t have "t = name @ ''@sha256:'' @ digest"
    by (auto simp: TrimPrefix_def HasPrefix_def dest!: Cut_Some)
  ultimately show ?thesis
    using rest cred that [of name digest] by (auto simp: res_simps)
qed

text \<open>The Docker configuration of a valid credential is well-formed JSON with one entry.\<close>

lemma DockerConfigJSON_parses:
  assumes "credential_Validate c = Inr ()"
  shows "\<exists>text. DockerConfigJSON c = Inr text \<and> json_parse text = Some (JObj [(''auths'', JObj
      [(if cr_Registry c = ''docker.io'' then ''https://index.docker.io/v1/'' else cr_Registry c,
        JObj [(''auth'', JStr (b64_encode (map of_char (cr_Username c @ '':'' @ cr_Password c))))])])])"
  using assms by (simp add: DockerConfigJSON_def parse_print Let_def)

end
