(* ===== verification/Go_Net.thy ===== *)
theory Go_Net
  imports Json "HOL-Library.Word"
begin

text \<open>
  What the program uses of \<^verbatim>\<open>net\<close> and \<^verbatim>\<open>net/netip\<close>: addresses, \<^verbatim>\<open>ParseAddr\<close>, \<^verbatim>\<open>ParsePrefix\<close>,
  \<^verbatim>\<open>ParseCIDR\<close>, containment and the printed form of IPv4. Parse errors are None: no caller looks at
  more than their presence.
\<close>

section \<open>Addresses\<close>

text \<open>An IPv4 address is its four bytes; an IPv6 address is its sixteen bytes and its zone.\<close>

datatype addr = A4 nat nat nat nat | A6 "nat list" string

fun Is4 :: "addr \<Rightarrow> bool" where
  "Is4 (A4 _ _ _ _) = True"
| "Is4 (A6 _ _) = False"

fun BitLen :: "addr \<Rightarrow> nat" where
  "BitLen (A4 _ _ _ _) = 32"
| "BitLen (A6 _ _) = 128"

fun Zone :: "addr \<Rightarrow> string" where
  "Zone (A4 _ _ _ _) = []"
| "Zone (A6 _ z) = z"

fun wf_addr :: "addr \<Rightarrow> bool" where
  "wf_addr (A4 a b c d) \<longleftrightarrow> a < 256 \<and> b < 256 \<and> c < 256 \<and> d < 256"
| "wf_addr (A6 bs _) \<longleftrightarrow> length bs = 16 \<and> list_all (\<lambda>b. b < 256) bs"

text \<open>The bits of an address as a number, most significant byte first.\<close>

definition be_value :: "nat list \<Rightarrow> nat" where
  "be_value bs = foldl (\<lambda>acc b. 256 * acc + b) 0 bs"

fun addr_value :: "addr \<Rightarrow> nat" where
  "addr_value (A4 a b c d) = be_value [a, b, c, d]"
| "addr_value (A6 bs _) = be_value bs"

section \<open>Parsing\<close>

text \<open>One decimal field of an IPv4 address: no empty field, no leading zero, at most 255.\<close>

definition ipv4_field :: "string \<Rightarrow> nat option" where
  "ipv4_field s =
     (if s = [] \<or> \<not> list_all is_digit s then None
      else if length s > 1 \<and> hd s = CHR ''0'' then None
      else if read_nat s > 255 then None else Some (read_nat s))"

definition parseIPv4 :: "string \<Rightarrow> (nat \<times> nat \<times> nat \<times> nat) option" where
  "parseIPv4 s = (case split_char (CHR ''.'') s of
     [a, b, c, d] \<Rightarrow>
       (case (ipv4_field a, ipv4_field b, ipv4_field c, ipv4_field d) of
          (Some w, Some x, Some y, Some z) \<Rightarrow> Some (w, x, y, z)
        | _ \<Rightarrow> None)
   | _ \<Rightarrow> None)"

definition hex_span :: "string \<Rightarrow> string" where
  "hex_span s = takeWhile (\<lambda>c. hex_val c \<noteq> None) s"

definition hex_number :: "string \<Rightarrow> nat" where
  "hex_number s = foldl (\<lambda>acc c. 16 * acc + the (hex_val c)) 0 s"

text \<open>
  The loop of \<^verbatim>\<open>parseIPv6\<close>: \<open>fuel\<close> counts the groups left of the eight, \<open>ip\<close> holds the bytes read so
  far, \<open>el\<close> the position of the ellipsis. The result is the state in which the loop ends.
\<close>

fun ipv6_groups :: "nat \<Rightarrow> string \<Rightarrow> nat list \<Rightarrow> nat option \<Rightarrow> (string \<times> nat list \<times> nat option) option" where
  "ipv6_groups 0 s ip el = Some (s, ip, el)"
| "ipv6_groups (Suc fuel) s ip el =
     (let h = hex_span s; r = drop (length h) s in
      if h = [] \<or> length h > 4 then None
      else if r \<noteq> [] \<and> hd r = CHR ''.'' then
        (if el = None \<and> length ip \<noteq> 12 then None
         else if length ip + 4 > 16 then None
         else case parseIPv4 s of None \<Rightarrow> None
           | Some (a, b, c, d) \<Rightarrow> Some ([], ip @ [a, b, c, d], el))
      else
        let v = hex_number h; ip' = ip @ [v div 256, v mod 256] in
        (case r of [] \<Rightarrow> Some ([], ip', el)
         | c # t \<Rightarrow>
             if c \<noteq> CHR '':'' \<or> t = [] then None
             else if hd t = CHR '':'' then
               (if el \<noteq> None then None
                else if tl t = [] then Some ([], ip', Some (length ip'))
                else ipv6_groups fuel (tl t) ip' (Some (length ip')))
             else ipv6_groups fuel t ip' el))"

definition parseIPv6 :: "string \<Rightarrow> addr option" where
  "parseIPv6 inp =
     (let (s, zone, bad) = (case Cut inp ''%'' of None \<Rightarrow> (inp, [], False)
                            | Some (a, z) \<Rightarrow> (a, z, z = []))
      in if bad then None
         else
           let lead = prefix ''::'' s; s1 = (if lead then drop 2 s else s) in
           if lead \<and> s1 = [] then Some (A6 (replicate 16 0) zone)
           else (case ipv6_groups 8 s1 [] (if lead then Some 0 else None) of
               None \<Rightarrow> None
             | Some (rest, ip, el) \<Rightarrow>
                 if rest \<noteq> [] then None
                 else if length ip < 16 then
                   (case el of None \<Rightarrow> None
                    | Some e \<Rightarrow> Some (A6 (take e ip @ replicate (16 - length ip) 0 @ drop e ip) zone))
                 else if el \<noteq> None then None
                 else Some (A6 ip zone)))"

text \<open>\<^verbatim>\<open>ParseAddr\<close> looks for the first dot, colon or percent sign.\<close>

definition ParseAddr :: "string \<Rightarrow> addr option" where
  "ParseAddr s = (case find (\<lambda>c. c = CHR ''.'' \<or> c = CHR '':'' \<or> c = CHR ''%'') s of
     None \<Rightarrow> None
   | Some c \<Rightarrow>
       if c = CHR ''.'' then map_option (\<lambda>(a, b, c, d). A4 a b c d) (parseIPv4 s)
       else if c = CHR '':'' then parseIPv6 s
       else None)"

record ip_prefix =
  pf_Addr :: addr
  pf_Bits :: nat

text \<open>The text after the last slash, \<^verbatim>\<open>bytealg.LastIndexByteString(s, '/')\<close>.\<close>

definition cut_last :: "char \<Rightarrow> string \<Rightarrow> (string \<times> string) option" where
  "cut_last d s = (if d \<notin> set s then None
     else Some (rev (tl (dropWhile (\<lambda>c. c \<noteq> d) (rev s))), rev (takeWhile (\<lambda>c. c \<noteq> d) (rev s))))"

definition ParsePrefix :: "string \<Rightarrow> ip_prefix option" where
  "ParsePrefix s = (case cut_last (CHR ''/'') s of None \<Rightarrow> None
     | Some (a, b) \<Rightarrow>
         (case ParseAddr a of None \<Rightarrow> None
          | Some ip \<Rightarrow>
              if Zone ip \<noteq> [] then None
              else if length b > 1 \<and> \<not> (is_digit (hd b) \<and> hd b \<noteq> CHR ''0'') then None
              else if b = [] \<or> \<not> list_all is_digit b then None
              else if read_nat b > BitLen ip then None
              else Some \<lparr>pf_Addr = ip, pf_Bits = read_nat b\<rparr>))"

text \<open>\<^verbatim>\<open>net.ParseCIDR\<close>: the mask may have leading zeros; \<^verbatim>\<open>dtoi\<close> stops at 0xFFFFFF.\<close>

definition ParseCIDR :: "string \<Rightarrow> ip_prefix option" where
  "ParseCIDR s = (case Cut s ''/'' of None \<Rightarrow> None
     | Some (a, m) \<Rightarrow>
         (case ParseAddr a of None \<Rightarrow> None
          | Some ip \<Rightarrow>
              if Zone ip \<noteq> [] \<or> m = [] \<or> \<not> list_all is_digit m \<or> read_nat m > BitLen ip then None
              else Some \<lparr>pf_Addr = ip, pf_Bits = read_nat m\<rparr>))"

text \<open>\<^verbatim>\<open>Prefix.Contains\<close>: same family, no zone, equal leading bits.\<close>

definition Contains :: "ip_prefix \<Rightarrow> addr \<Rightarrow> bool" where
  "Contains p ip \<longleftrightarrow> Zone ip = [] \<and> BitLen (pf_Addr p) = BitLen ip \<and>
     addr_value (pf_Addr p) div 2 ^ (BitLen ip - pf_Bits p) = addr_value ip div 2 ^ (BitLen ip - pf_Bits p)"

fun addr_String4 :: "addr \<Rightarrow> string" where
  "addr_String4 (A4 a b c d) =
     show_nat a @ ''.'' @ show_nat b @ ''.'' @ show_nat c @ ''.'' @ show_nat d"
| "addr_String4 (A6 _ _) = []"

section \<open>Round trip of IPv4\<close>

lemma split_char_append:
  assumes "d \<notin> set a"
  shows "split_char d (a @ d # r) = a # split_char d r"
  using assms by (induction a) auto

lemma split_char_single: "d \<notin> set a \<Longrightarrow> split_char d a = [a]"
  by (induction a) auto

lemma dot_not_in_show_nat [simp]: "CHR ''.'' \<notin> set (show_nat n)"
  using show_nat_digits [of n] by (auto simp: list_all_iff is_digit_def)

lemma ipv4_field_show [simp]: "n < 256 \<Longrightarrow> ipv4_field (show_nat n) = Some n"
proof -
  assume n: "n < 256"
  have "\<not> (length (show_nat n) > 1 \<and> hd (show_nat n) = CHR ''0'')"
    using show_nat_hd [of n] by (auto simp: show_nat_0)
  with n show ?thesis
    by (simp add: ipv4_field_def show_nat_nonempty show_nat_digits)
qed

lemma parseIPv4_String:
  "wf_addr (A4 a b c d) \<Longrightarrow> parseIPv4 (addr_String4 (A4 a b c d)) = Some (a, b, c, d)"
  by (simp add: parseIPv4_def split_char_append split_char_single)

theorem ParseAddr_String4:
  assumes "Is4 ip" and "wf_addr ip"
  shows "ParseAddr (addr_String4 ip) = Some ip"
proof -
  obtain a b c d where ip: "ip = A4 a b c d" using assms(1) by (cases ip) auto
  have digits: "find (\<lambda>c. c = CHR ''.'' \<or> c = CHR '':'' \<or> c = CHR ''%'') (ds @ CHR ''.'' # r) = Some (CHR ''.'')"
    if "list_all is_digit ds" for ds r
    using that by (induction ds) (auto simp: is_digit_def)
  show ?thesis
    using assms(2) digits [OF show_nat_digits, of a] parseIPv4_String [of a b c d]
    by (simp add: ParseAddr_def ip)
qed

lemma ipv4_field_bound: "ipv4_field s = Some n \<Longrightarrow> n < 256"
  by (auto simp: ipv4_field_def split: if_splits)

lemma parseIPv4_bound: "parseIPv4 s = Some (a, b, c, d) \<Longrightarrow> wf_addr (A4 a b c d)"
  by (auto simp: parseIPv4_def split: list.splits option.splits dest: ipv4_field_bound)

lemma ParseAddr_Is4_wf: "ParseAddr s = Some ip \<Longrightarrow> Is4 ip \<Longrightarrow> wf_addr ip"
  by (cases ip)
     (auto simp: ParseAddr_def parseIPv6_def Let_def dest: parseIPv4_bound
       split: option.splits if_splits prod.splits)

end
