(* ===== verification/App_Config.thy ===== *)
theory App_Config
  imports Complex_Main Registry_Auth Go_Net
begin

text \<open>
  The desired state of an application, \<^verbatim>\<open>internal/appconfig\<close> (\<^verbatim>\<open>config.go\<close>, \<^verbatim>\<open>hosting.go\<close>,
  \<^verbatim>\<open>postgres.go\<close>): the configuration structs as records, \<^verbatim>\<open>Normalize\<close>, and \<^verbatim>\<open>Validate\<close> with
  one error constructor per message, grouped as in the files. A slice is a list (nil and empty are read alike
  by this code), a pointer an option. The Kubernetes name checks and quantity parser come from
  packages outside the repository and are the fields of \<open>k8s_lib\<close>.
\<close>

section \<open>Data\<close>

record health_config = health_Path :: string

record service_config =
  service_Port :: int
  service_Health :: health_config

record metrics_config =
  metrics_Port :: int
  metrics_Path :: string

record routing_config =
  routing_Domain :: string
  routing_RequireTLS :: bool
  routing_EnableProxyRetries :: "bool option"

record deploy_config =
  deploy_Replicas :: int
  deploy_Strategy :: string

record placement_config =
  placement_Arch :: string
  placement_Spread :: bool
  placement_Prefer :: "gomap list"
  placement_Fallback :: "gomap list"

record storage_mount =
  mount_ExistingClaim :: string
  mount_MountPath :: string

record storage_config =
  storage_ExistingClaim :: string
  storage_MountPath :: string
  storage_AdditionalMounts :: "storage_mount list"

record state_config = state_Mode :: string

record resilience_config =
  resilience_Mode :: string
  resilience_AllowUnsafeStatefulFailover :: bool

record pg_storage_config =
  pgs_Size :: string
  pgs_StorageClass :: string

record pg_sync_config =
  pgy_Replicas :: int
  pgy_DataDurability :: string

record postgres_config =
  pg_Instances :: int
  pg_Image :: string
  pg_Database :: string
  pg_Owner :: string
  pg_ConnectionEnv :: string
  pg_ConnectionMode :: string
  pg_Storage :: pg_storage_config
  pg_Synchronous :: pg_sync_config
  pg_RetentionPolicy :: string

record database_config = database_Postgres :: "postgres_config option"

record resource_quantities =
  rq_CPU :: string
  rq_Memory :: string
  rq_EphemeralStorage :: string

record hosting_resources =
  hres_Requests :: resource_quantities
  hres_Limits :: resource_quantities

text \<open>\<^verbatim>\<open>Ports\<close> is not \<^verbatim>\<open>omitempty\<close>: a nil slice (None) and an empty one print differently.\<close>

record egress_rule =
  egress_CIDR :: string
  egress_Ports :: "int list option"

record hosting_network =
  network_AllowDNS :: "bool option"
  network_Egress :: "egress_rule list"

record hosting_config =
  hosting_Version :: string
  hosting_Resources :: hosting_resources
  hosting_MaxReplicas :: int
  hosting_Network :: hosting_network
  hosting_ReadOnlyRootFilesystem :: bool

record config =
  cfg_ImagePullCredential :: string
  cfg_EnvironmentRevision :: string
  cfg_Name :: string
  cfg_Image :: string
  cfg_Service :: service_config
  cfg_Metrics :: "metrics_config option"
  cfg_Routing :: routing_config
  cfg_Deploy :: deploy_config
  cfg_Placement :: placement_config
  cfg_Storage :: "storage_config option"
  cfg_Secrets :: "string list"
  cfg_State :: state_config
  cfg_Resilience :: resilience_config
  cfg_Database :: database_config
  cfg_Hosting :: "hosting_config option"

definition ProxyRetriesEnabled :: "routing_config \<Rightarrow> bool" where
  "ProxyRetriesEnabled c \<longleftrightarrow> (case routing_EnableProxyRetries c of None \<Rightarrow> True | Some b \<Rightarrow> b)"

definition DNSAllowed :: "hosting_network \<Rightarrow> bool" where
  "DNSAllowed n \<longleftrightarrow> (case network_AllowDNS n of None \<Rightarrow> True | Some b \<Rightarrow> b)"

definition Mounts :: "storage_config \<Rightarrow> storage_mount list" where
  "Mounts s = \<lparr>mount_ExistingClaim = storage_ExistingClaim s, mount_MountPath = storage_MountPath s\<rparr>
              # storage_AdditionalMounts s"

section \<open>Normalize\<close>

definition normalizeStringList :: "string list \<Rightarrow> string list" where
  "normalizeStringList values = map TrimSpace values"

text \<open>
  The inner loop ranges over a Go map; the list order of the model is the order of that visit, so
  a key that appears twice after trimming keeps the value visited last.
\<close>

definition normalize_selector :: "gomap \<Rightarrow> gomap" where
  "normalize_selector sel =
     foldl (\<lambda>clean (k, v). if TrimSpace k = [] then clean else mput clean (TrimSpace k) (TrimSpace v)) [] sel"

definition normalizePlacementSelectors :: "gomap list \<Rightarrow> gomap list" where
  "normalizePlacementSelectors sels = map normalize_selector sels"

definition or_default :: "string \<Rightarrow> string \<Rightarrow> string" where
  "or_default s d = (if s = [] then d else s)"

definition normalize_postgres :: "postgres_config \<Rightarrow> postgres_config" where
  "normalize_postgres p = p\<lparr>
     pg_Instances := (if pg_Instances p = 0 then 3 else pg_Instances p),
     pg_Image := TrimSpace (pg_Image p),
     pg_Database := TrimSpace (pg_Database p),
     pg_Owner := TrimSpace (pg_Owner p),
     pg_ConnectionEnv := or_default (TrimSpace (pg_ConnectionEnv p)) ''DATABASE_URL'',
     pg_ConnectionMode := or_default (TrimSpace (pg_ConnectionMode p)) ''managed'',
     pg_Storage := (pg_Storage p)\<lparr>
       pgs_Size := TrimSpace (pgs_Size (pg_Storage p)),
       pgs_StorageClass := or_default (TrimSpace (pgs_StorageClass (pg_Storage p))) ''local-path''\<rparr>,
     pg_Synchronous := (pg_Synchronous p)\<lparr>
       pgy_Replicas := (if pgy_Replicas (pg_Synchronous p) = 0 then 1 else pgy_Replicas (pg_Synchronous p)),
       pgy_DataDurability := or_default (TrimSpace (pgy_DataDurability (pg_Synchronous p))) ''required''\<rparr>,
     pg_RetentionPolicy := or_default (TrimSpace (pg_RetentionPolicy p)) ''retain''\<rparr>"

definition database_normalize :: "database_config \<Rightarrow> database_config" where
  "database_normalize c = c\<lparr>database_Postgres := map_option normalize_postgres (database_Postgres c)\<rparr>"

definition normalize_mount :: "storage_mount \<Rightarrow> storage_mount" where
  "normalize_mount m = m\<lparr>mount_ExistingClaim := TrimSpace (mount_ExistingClaim m),
                         mount_MountPath := TrimSpace (mount_MountPath m)\<rparr>"

definition normalize_storage :: "storage_config \<Rightarrow> storage_config" where
  "normalize_storage s = s\<lparr>storage_ExistingClaim := TrimSpace (storage_ExistingClaim s),
     storage_MountPath := TrimSpace (storage_MountPath s),
     storage_AdditionalMounts := map normalize_mount (storage_AdditionalMounts s)\<rparr>"

definition default_strategy :: "config \<Rightarrow> string" where
  "default_strategy c = (if cfg_Storage c \<noteq> None then ''recreate'' else ''rolling'')"

definition Normalize :: "config \<Rightarrow> config" where
  "Normalize c = c\<lparr>
     cfg_Name := TrimSpace (cfg_Name c),
     cfg_Image := TrimSpace (cfg_Image c),
     cfg_Service := (cfg_Service c)\<lparr>service_Health :=
        (service_Health (cfg_Service c))\<lparr>health_Path := TrimSpace (health_Path (service_Health (cfg_Service c)))\<rparr>\<rparr>,
     cfg_Metrics := map_option (\<lambda>m. m\<lparr>metrics_Path := TrimSpace (metrics_Path m)\<rparr>) (cfg_Metrics c),
     cfg_Routing := (cfg_Routing c)\<lparr>routing_Domain := TrimSpace (routing_Domain (cfg_Routing c))\<rparr>,
     cfg_EnvironmentRevision := TrimSpace (cfg_EnvironmentRevision c),
     cfg_Storage := map_option normalize_storage (cfg_Storage c),
     cfg_Deploy := (cfg_Deploy c)\<lparr>deploy_Strategy :=
        or_default (TrimSpace (deploy_Strategy (cfg_Deploy c))) (default_strategy c)\<rparr>,
     cfg_Placement := (cfg_Placement c)\<lparr>
        placement_Arch := or_default (TrimSpace (placement_Arch (cfg_Placement c))) ''linux/arm64'',
        placement_Prefer := normalizePlacementSelectors (placement_Prefer (cfg_Placement c)),
        placement_Fallback := normalizePlacementSelectors (placement_Fallback (cfg_Placement c))\<rparr>,
     cfg_State := (cfg_State c)\<lparr>state_Mode := or_default (TrimSpace (state_Mode (cfg_State c))) ''stateless''\<rparr>,
     cfg_Resilience := (cfg_Resilience c)\<lparr>resilience_Mode :=
        or_default (TrimSpace (resilience_Mode (cfg_Resilience c))) ''basic''\<rparr>,
     cfg_Secrets := normalizeStringList (cfg_Secrets c),
     cfg_Database := database_normalize (cfg_Database c)\<rparr>"

section \<open>Normalize is idempotent\<close>

lemma or_default_trim [simp]:
  "trimmed d \<Longrightarrow> d \<noteq> [] \<Longrightarrow> TrimSpace (or_default (TrimSpace s) d) = or_default (TrimSpace s) d"
  by (simp add: or_default_def)

lemma or_default_idem [simp]: "d \<noteq> [] \<Longrightarrow> or_default (or_default s d) e = or_default s d"
  by (simp add: or_default_def)

text \<open>A selector is clean when its keys are distinct, trimmed and not empty and its values are trimmed.\<close>

definition clean_selector :: "gomap \<Rightarrow> bool" where
  "clean_selector sel \<longleftrightarrow> distinct (map fst sel) \<and>
     (\<forall>(k, v) \<in> set sel. k \<noteq> [] \<and> TrimSpace k = k \<and> TrimSpace v = v)"

lemma mput_subset: "set (mput m k v) \<subseteq> insert (k, v) (set m)"
  by (induction m k v rule: mput.induct) auto

lemma mput_fresh: "k \<notin> fst ` set m \<Longrightarrow> mput m k v = m @ [(k, v)]"
  by (induction m k v rule: mput.induct) auto

lemma clean_mput: "clean_selector m \<Longrightarrow> TrimSpace k \<noteq> [] \<Longrightarrow> clean_selector (mput m (TrimSpace k) (TrimSpace v))"
  using mput_subset [of m "TrimSpace k" "TrimSpace v"]
  by (auto simp: clean_selector_def mput_distinct)

lemma normalize_selector_clean: "clean_selector (normalize_selector sel)"
proof -
  have "clean_selector m \<Longrightarrow> clean_selector (foldl (\<lambda>clean (k, v).
      if TrimSpace k = [] then clean else mput clean (TrimSpace k) (TrimSpace v)) m sel)" for m
    by (induction sel arbitrary: m) (auto simp: clean_mput)
  moreover have "clean_selector []" by (simp add: clean_selector_def)
  ultimately show ?thesis by (simp add: normalize_selector_def)
qed

lemma normalize_selector_fixed: "clean_selector sel \<Longrightarrow> normalize_selector sel = sel"
proof -
  have "clean_selector (m @ sel) \<Longrightarrow> foldl (\<lambda>clean (k, v).
      if TrimSpace k = [] then clean else mput clean (TrimSpace k) (TrimSpace v)) m sel = m @ sel" for m
  proof (induction sel arbitrary: m)
    case (Cons kv sel)
    obtain k v where kv: "kv = (k, v)" by (cases kv)
    from Cons.prems have "k \<notin> fst ` set m" "TrimSpace k = k" "TrimSpace v = v" "k \<noteq> []"
      by (auto simp: clean_selector_def kv)
    with Cons.IH [of "m @ [(k, v)]"] Cons.prems show ?case
      by (simp add: kv mput_fresh)
  qed simp
  from this [of "[]"] show "clean_selector sel \<Longrightarrow> ?thesis" by (simp add: normalize_selector_def)
qed

lemma normalizePlacementSelectors_idem [simp]:
  "normalizePlacementSelectors (normalizePlacementSelectors s) = normalizePlacementSelectors s"
  by (simp add: normalizePlacementSelectors_def normalize_selector_fixed normalize_selector_clean)

lemma trimmed_literals [simp]:
  "trimmed ''DATABASE_URL''" "trimmed ''managed''" "trimmed ''local-path''" "trimmed ''required''"
  "trimmed ''retain''" "trimmed ''recreate''" "trimmed ''rolling''" "trimmed ''linux/arm64''"
  "trimmed ''stateless''" "trimmed ''basic''"
  by (rule trimmed_plain; simp add: plain_char_def)+

lemma normalize_postgres_idem [simp]: "normalize_postgres (normalize_postgres p) = normalize_postgres p"
  by (simp add: normalize_postgres_def)

lemma normalize_storage_idem [simp]: "normalize_storage (normalize_storage s) = normalize_storage s"
  by (simp add: normalize_storage_def normalize_mount_def)

lemma default_strategy_Normalize:
  "TrimSpace (default_strategy c) = default_strategy c" "default_strategy c \<noteq> []"
  by (simp_all add: default_strategy_def)

lemma Normalize_idem: "Normalize (Normalize c) = Normalize c"
proof -
  have "or_default (TrimSpace (or_default (TrimSpace s) (default_strategy c))) e
      = or_default (TrimSpace s) (default_strategy c)" for s e
    by (simp add: or_default_def default_strategy_def)
  then show ?thesis
    by (simp add: Normalize_def normalizeStringList_def database_normalize_def
        option.map_comp comp_def)
qed

section \<open>Validate\<close>

datatype base_err =
    ImagePullCredential_revision | EnvironmentRevision_revision | EnvironmentRevision_with_secrets
  | Name_required | Name_not_dns | Image_required | ServicePort_required | ServicePort_range
  | HealthPath_required | HealthPath_slash | RequireTLS_domain

datatype mode_err =
    MetricsPort_range | MetricsPath_required | MetricsPath_slash | Replicas_min
  | StateMode_unknown | ResilienceMode_unknown | Unsafe_failover string string
  | Fallback_selectors | Pinned_selector | Hosting_with_managed_pg

datatype storage_err =
    Storage_too_many | Claim_required nat | Claim_not_dns nat | MountPath_required nat | MountPath_not_clean nat
  | Claim_duplicate nat string | MountPath_overlap nat string
  | Storage_state_mode | Storage_resilience_mode | Storage_replicas | Storage_strategy | Storage_node_id

datatype secret_err =
    SecretName_empty | SecretName_invalid string | Secret_at nat secret_err | Secret_duplicate nat string

datatype image_err = Image_no_version | Image_version_range

datatype pg_err =
    Pg_name_length string | Pg_name_label string | Pg_arch | Pg_instances | Pg_image image_err
  | Pg_database | Pg_database_reserved string | Pg_owner | Pg_owner_reserved string | Pg_connection_env secret_err
  | Pg_sync_replicas | Pg_durability | Pg_retention

datatype pg_connection_err =
    Pg_env_reserved string | Pg_env_is_secret string | Pg_secret_reserved string | Pg_env_not_secret string
  | Pg_connection_mode | Pg_size_invalid | Pg_size_min | Pg_class_required | Pg_class_dns

datatype hosting_err =
    Hosting_version | Hosting_max_replicas | Hosting_replicas_exceed int int
  | Quantity_required string string | Quantity_invalid string string | Quantity_sign string string
  | Limit_below_request string | Egress_cidr nat | Egress_ports_empty nat | Egress_port_range nat nat

datatype cfg_err =
    BaseErr base_err | ModeErr mode_err | StorageErr storage_err | SecretErr secret_err
  | PgErr pg_err | PgConnectionErr pg_connection_err | HostingErr hosting_err | Decode_error

text \<open>The functions of \<^verbatim>\<open>k8s.io/apimachinery\<close> the validation calls; a quantity is its exact value.\<close>

record k8s_lib =
  IsDNS1123Subdomain :: "string \<Rightarrow> bool"
  IsDNS1035Label :: "string \<Rightarrow> bool"
  ParseQuantity :: "string \<Rightarrow> rat option"

text \<open>\<^verbatim>\<open>^[a-z0-9]([-a-z0-9]*[a-z0-9])?$\<close> and \<^verbatim>\<open>^[A-Za-z_][A-Za-z0-9_]*$\<close>\<close>

definition appNamePattern :: rexp where
  "appNamePattern = RSeq (RCls is_name_char) (ropt (RSeq (RStar (RCls is_name_inner)) (RCls is_name_char)))"

definition is_env_start :: "char \<Rightarrow> bool" where
  "is_env_start c \<longleftrightarrow> is_lower c \<or> is_upper c \<or> c = CHR ''_''"

definition secretNamePattern :: rexp where
  "secretNamePattern = RSeq (RCls is_env_start) (RStar (RCls (\<lambda>c. is_env_start c \<or> is_digit c)))"

definition ValidAppName :: "string \<Rightarrow> bool" where
  "ValidAppName name \<longleftrightarrow> length name \<le> 63 \<and> rmatch appNamePattern name"

definition ValidateSecretName :: "string \<Rightarrow> secret_err + unit" where
  "ValidateSecretName name0 =
     (let name = TrimSpace name0 in
      if name = [] then Inl SecretName_empty
      else if \<not> rmatch secretNamePattern name then Inl (SecretName_invalid name)
      else Inr ())"

subsection \<open>Storage mounts\<close>

text \<open>
  \<^verbatim>\<open>path.Clean\<close>: the elements between slashes are pushed on a stack; empty ones and \<^verbatim>\<open>.\<close> are
  dropped, \<^verbatim>\<open>..\<close> removes the element before it and is dropped at the root.
\<close>

definition clean_step :: "bool \<Rightarrow> string list \<Rightarrow> string \<Rightarrow> string list" where
  "clean_step rooted st e =
     (if e = [] \<or> e = ''.'' then st
      else if e = ''..'' then
        (case st of [] \<Rightarrow> if rooted then [] else [''..'']
         | t # st' \<Rightarrow> if t = ''..'' then ''..'' # st else st')
      else e # st)"

fun join_slash :: "string list \<Rightarrow> string" where
  "join_slash [] = []"
| "join_slash [e] = e"
| "join_slash (e # f # r) = e @ ''/'' @ join_slash (f # r)"

definition path_IsAbs :: "string \<Rightarrow> bool" where
  "path_IsAbs s = HasPrefix s ''/''"

definition path_Clean :: "string \<Rightarrow> string" where
  "path_Clean s =
     (let out = (if path_IsAbs s then ''/'' else []) @
                join_slash (rev (foldl (clean_step (path_IsAbs s)) [] (split_char (CHR ''/'') s)))
      in if out = [] then ''.'' else out)"

definition validateStorageMount :: "k8s_lib \<Rightarrow> nat \<Rightarrow> storage_mount \<Rightarrow> cfg_err + unit" where
  "validateStorageMount lib label mount =
     (if mount_ExistingClaim mount = [] then Inl (StorageErr (Claim_required label))
      else if \<not> IsDNS1123Subdomain lib (mount_ExistingClaim mount) then Inl (StorageErr (Claim_not_dns label))
      else if mount_MountPath mount = [] then Inl (StorageErr (MountPath_required label))
      else
        let isAbsolute = path_IsAbs (mount_MountPath mount);
            isClean = path_Clean (mount_MountPath mount) = mount_MountPath mount;
            isRoot = mount_MountPath mount = ''/''
        in if \<not> isAbsolute \<or> \<not> isClean \<or> isRoot then Inl (StorageErr (MountPath_not_clean label)) else Inr ())"

definition mountPathsOverlap :: "string \<Rightarrow> string \<Rightarrow> bool" where
  "mountPathsOverlap left right \<longleftrightarrow>
     left = right \<or> HasPrefix left (right @ ''/'') \<or> HasPrefix right (left @ ''/'')"

text \<open>
  The loop of \<^verbatim>\<open>validateStorage\<close>; \<open>seen\<close> holds the mounts before \<open>index\<close> in declared order, which is both
  \<^verbatim>\<open>mounts[:index]\<close> and, by its claims, the set \<^verbatim>\<open>seenClaims\<close>. Index 0 stands for the label
  \<^verbatim>\<open>storage\<close>, index n + 1 for \<^verbatim>\<open>storage.additionalMounts[n]\<close>.
\<close>

fun validate_mounts :: "k8s_lib \<Rightarrow> nat \<Rightarrow> storage_mount list \<Rightarrow> storage_mount list \<Rightarrow> cfg_err + unit" where
  "validate_mounts lib index seen [] = Inr ()"
| "validate_mounts lib index seen (m # ms) =
     rbind (validateStorageMount lib index m) (\<lambda>_.
       if mount_ExistingClaim m \<in> set (map mount_ExistingClaim seen)
       then Inl (StorageErr (Claim_duplicate index (mount_ExistingClaim m)))
       else rbind (each (\<lambda>p. if mountPathsOverlap (mount_MountPath m) (mount_MountPath p)
                              then Inl (StorageErr (MountPath_overlap index (mount_MountPath p))) else Inr ()) seen)
              (\<lambda>_. validate_mounts lib (Suc index) (seen @ [m]) ms))"

definition validateStorage :: "k8s_lib \<Rightarrow> config \<Rightarrow> cfg_err + unit" where
  "validateStorage lib c = (case cfg_Storage c of None \<Rightarrow> Inr ()
     | Some s \<Rightarrow>
         if length (storage_AdditionalMounts s) > 7 then Inl (StorageErr Storage_too_many)
         else rbind (validate_mounts lib 0 [] (Mounts s)) (\<lambda>_.
           if state_Mode (cfg_State c) \<noteq> ''stateful'' then Inl (StorageErr Storage_state_mode)
           else if resilience_Mode (cfg_Resilience c) \<noteq> ''pinned'' then Inl (StorageErr Storage_resilience_mode)
           else if deploy_Replicas (cfg_Deploy c) \<noteq> 1 then Inl (StorageErr Storage_replicas)
           else if deploy_Strategy (cfg_Deploy c) \<noteq> ''recreate'' then Inl (StorageErr Storage_strategy)
           else if length (placement_Prefer (cfg_Placement c)) \<noteq> 1
                   \<or> TrimSpace (mget (hd (placement_Prefer (cfg_Placement c))) ''node-id'') = []
                then Inl (StorageErr Storage_node_id)
           else Inr ()))"

subsection \<open>PostgreSQL\<close>

text \<open>\<^verbatim>\<open>^[a-z_][a-z0-9_]{0,62}$\<close>\<close>

definition postgresIdentifierPattern :: rexp where
  "postgresIdentifierPattern = RSeq (RCls (\<lambda>c. is_lower c \<or> c = CHR ''_''))
     (rupto 62 (RCls (\<lambda>c. is_lower c \<or> is_digit c \<or> c = CHR ''_'')))"

definition rlit :: "string \<Rightarrow> rexp" where
  "rlit s = foldr (\<lambda>c r. RSeq (RCls (\<lambda>x. x = c)) r) s REps"

definition is_re_space :: "char \<Rightarrow> bool" where
  "is_re_space c \<longleftrightarrow> c \<in> {CHR 0x09, CHR 0x0A, CHR 0x0C, CHR 0x0D, CHR 0x20}"

definition is_tag_start :: "char \<Rightarrow> bool" where
  "is_tag_start c \<longleftrightarrow> is_lower c \<or> is_upper c \<or> c = CHR ''_'' \<or> c = CHR ''-''"

definition is_tag_char :: "char \<Rightarrow> bool" where
  "is_tag_char c \<longleftrightarrow> is_tag_start c \<or> is_digit c \<or> c = CHR ''.''"

text \<open>
  \<^verbatim>\<open>^[^@\s]+:([0-9]+)(?:\.[0-9]+)*(?:[A-Za-z_-][A-Za-z0-9_.-]*)?@sha256:[0-9a-f]{64}$\<close>
\<close>

definition postgresImagePattern :: rexp where
  "postgresImagePattern =
     RSeq (rplus (RCls (\<lambda>c. c \<noteq> CHR ''@'' \<and> \<not> is_re_space c))) (RSeq (rlit '':'')
     (RSeq (rplus (RCls is_digit)) (RSeq (RStar (RSeq (rlit ''.'') (rplus (RCls is_digit))))
     (RSeq (ropt (RSeq (RCls is_tag_start) (RStar (RCls is_tag_char))))
     (RSeq (rlit ''@sha256:'') (rpow 64 (RCls is_hex)))))))"

text \<open>
  The submatch: the tag has no colon and no at sign, so it starts after the last colon before the
  at sign, and the group takes all its leading digits.
\<close>

definition image_major_digits :: "string \<Rightarrow> string" where
  "image_major_digits img = takeWhile is_digit
     (snd (the (cut_last (CHR '':'') (takeWhile (\<lambda>c. c \<noteq> CHR ''@'') img))))"

definition PostgresImageMajor :: "string \<Rightarrow> image_err + int" where
  "PostgresImageMajor img =
     (if \<not> rmatch postgresImagePattern img then Inl Image_no_version
      else let majorVersion = int (read_nat (image_major_digits img)) in
        if majorVersion < 14 \<or> majorVersion > 18 then Inl Image_version_range
        else Inr majorVersion)"

definition reservedManagedEnvironments :: "string list" where
  "reservedManagedEnvironments = [''PGSSLMODE'', ''PGCHANNELBINDING'', ''PGREQUIREAUTH'']"

definition validatePostgresConnection :: "postgres_config \<Rightarrow> string list \<Rightarrow> cfg_err + unit" where
  "validatePostgresConnection p secrets =
     (let isSecret = pg_ConnectionEnv p \<in> set secrets in
      if pg_ConnectionMode p = ''managed'' then
        rbind (each (\<lambda>name. if pg_ConnectionEnv p = name then Inl (PgConnectionErr (Pg_env_reserved (pg_ConnectionEnv p))) else Inr ())
                 reservedManagedEnvironments) (\<lambda>_.
          if isSecret then Inl (PgConnectionErr (Pg_env_is_secret (pg_ConnectionEnv p)))
          else each (\<lambda>name. if name \<in> set secrets then Inl (PgConnectionErr (Pg_secret_reserved name)) else Inr ())
                 reservedManagedEnvironments)
      else if pg_ConnectionMode p = ''external'' then
        (if \<not> isSecret then Inl (PgConnectionErr (Pg_env_not_secret (pg_ConnectionEnv p))) else Inr ())
      else Inl (PgConnectionErr Pg_connection_mode))"

definition validatePostgresStorage :: "k8s_lib \<Rightarrow> pg_storage_config \<Rightarrow> cfg_err + unit" where
  "validatePostgresStorage lib st = (case ParseQuantity lib (pgs_Size st) of
     None \<Rightarrow> Inl (PgConnectionErr Pg_size_invalid)
   | Some q \<Rightarrow>
       if q \<le> 0 then Inl (PgConnectionErr Pg_size_invalid)
       else if q < 1073741824 then Inl (PgConnectionErr Pg_size_min)
       else if pgs_StorageClass st = [] then Inl (PgConnectionErr Pg_class_required)
       else if \<not> IsDNS1123Subdomain lib (pgs_StorageClass st) then Inl (PgConnectionErr Pg_class_dns)
       else Inr ())"

definition validate_postgres :: "k8s_lib \<Rightarrow> string \<Rightarrow> string \<Rightarrow> string list \<Rightarrow> postgres_config \<Rightarrow> cfg_err + unit" where
  "validate_postgres lib appName placementArch secrets p =
     (if length (appName @ ''-db'') > 50 then Inl (PgErr (Pg_name_length (appName @ ''-db'')))
      else if \<not> IsDNS1035Label lib (appName @ ''-db'') then Inl (PgErr (Pg_name_label (appName @ ''-db'')))
      else if placementArch \<noteq> ''linux/amd64'' \<and> placementArch \<noteq> ''linux/arm64'' then Inl (PgErr Pg_arch)
      else if pg_Instances p < 3 \<or> pg_Instances p > 9 then Inl (PgErr Pg_instances)
      else rbind (map_err (\<lambda>e. PgErr (Pg_image e)) (PostgresImageMajor (pg_Image p))) (\<lambda>_.
        if \<not> rmatch postgresIdentifierPattern (pg_Database p) then Inl (PgErr Pg_database)
        else if pg_Database p \<in> {''postgres'', ''template0'', ''template1''}
             then Inl (PgErr (Pg_database_reserved (pg_Database p)))
        else if \<not> rmatch postgresIdentifierPattern (pg_Owner p) then Inl (PgErr Pg_owner)
        else if pg_Owner p \<in> {''cnpg_pooler_pgbouncer'', ''postgres'', ''streaming_replica''}
                \<or> HasPrefix (pg_Owner p) ''pg_'' \<or> HasPrefix (pg_Owner p) ''cnpg_''
             then Inl (PgErr (Pg_owner_reserved (pg_Owner p)))
        else rbind (map_err (\<lambda>e. PgErr (Pg_connection_env e)) (ValidateSecretName (pg_ConnectionEnv p))) (\<lambda>_.
          rbind (validatePostgresConnection p secrets) (\<lambda>_.
          rbind (validatePostgresStorage lib (pg_Storage p)) (\<lambda>_.
            if pgy_Replicas (pg_Synchronous p) < 1 \<or> pgy_Replicas (pg_Synchronous p) \<ge> pg_Instances p
            then Inl (PgErr Pg_sync_replicas)
            else if pgy_DataDurability (pg_Synchronous p) \<noteq> ''required''
                    \<and> pgy_DataDurability (pg_Synchronous p) \<noteq> ''preferred'' then Inl (PgErr Pg_durability)
            else if pg_RetentionPolicy p \<noteq> ''retain'' then Inl (PgErr Pg_retention)
            else Inr ())))))"

definition database_validate :: "k8s_lib \<Rightarrow> database_config \<Rightarrow> string \<Rightarrow> string \<Rightarrow> string list \<Rightarrow> cfg_err + unit" where
  "database_validate lib c appName placementArch secrets =
     (case database_Postgres c of None \<Rightarrow> Inr ()
      | Some p \<Rightarrow> validate_postgres lib appName placementArch secrets p)"

subsection \<open>Hosting profile\<close>

definition parse_quantity_field :: "k8s_lib \<Rightarrow> string \<Rightarrow> string \<Rightarrow> string \<Rightarrow> cfg_err + rat" where
  "parse_quantity_field lib pre name val =
     (if TrimSpace val = [] then Inl (HostingErr (Quantity_required pre name))
      else case ParseQuantity lib val of None \<Rightarrow> Inl (HostingErr (Quantity_invalid pre name))
        | Some q \<Rightarrow> if q \<le> 0 then Inl (HostingErr (Quantity_sign pre name)) else Inr q)"

text \<open>The resource list is the triple of its cpu, memory and ephemeral-storage quantities.\<close>

definition parseResourceQuantities :: "k8s_lib \<Rightarrow> resource_quantities \<Rightarrow> string \<Rightarrow> cfg_err + (rat \<times> rat \<times> rat)" where
  "parseResourceQuantities lib vals pre =
     rbind (parse_quantity_field lib pre ''cpu'' (rq_CPU vals)) (\<lambda>cpu.
     rbind (parse_quantity_field lib pre ''memory'' (rq_Memory vals)) (\<lambda>mem.
     rbind (parse_quantity_field lib pre ''ephemeralStorage'' (rq_EphemeralStorage vals)) (\<lambda>eph.
     Inr (cpu, mem, eph))))"

fun check_ports :: "nat \<Rightarrow> nat \<Rightarrow> int list \<Rightarrow> cfg_err + unit" where
  "check_ports index portIndex [] = Inr ()"
| "check_ports index portIndex (p # ps) =
     (if p < 1 \<or> p > 65535 then Inl (HostingErr (Egress_port_range index portIndex))
      else check_ports index (Suc portIndex) ps)"

fun check_egress :: "nat \<Rightarrow> egress_rule list \<Rightarrow> cfg_err + unit" where
  "check_egress index [] = Inr ()"
| "check_egress index (rule # rules) =
     (if ParseCIDR (TrimSpace (egress_CIDR rule)) = None then Inl (HostingErr (Egress_cidr index))
      else (case egress_Ports rule of
          None \<Rightarrow> Inl (HostingErr (Egress_ports_empty index))
        | Some [] \<Rightarrow> Inl (HostingErr (Egress_ports_empty index))
        | Some ports \<Rightarrow> rbind (check_ports index 0 ports) (\<lambda>_. check_egress (Suc index) rules)))"

definition hosting_Validate :: "k8s_lib \<Rightarrow> hosting_config option \<Rightarrow> int \<Rightarrow> cfg_err + unit" where
  "hosting_Validate lib h replicas = (case h of None \<Rightarrow> Inr ()
     | Some c \<Rightarrow>
         if hosting_Version c \<noteq> ''v1'' then Inl (HostingErr Hosting_version)
         else if hosting_MaxReplicas c < 1 \<or> hosting_MaxReplicas c > 1000 then Inl (HostingErr Hosting_max_replicas)
         else if replicas > hosting_MaxReplicas c
              then Inl (HostingErr (Hosting_replicas_exceed replicas (hosting_MaxReplicas c)))
         else
           rbind (parseResourceQuantities lib (hres_Requests (hosting_Resources c)) ''hosting.resources.requests'')
             (\<lambda>(rc, rm, re).
           rbind (parseResourceQuantities lib (hres_Limits (hosting_Resources c)) ''hosting.resources.limits'')
             (\<lambda>(lc, lm, le).
           rbind (each (\<lambda>(name, lim, req). if lim < req then Inl (HostingErr (Limit_below_request name)) else Inr ())
                    [(''cpu'', lc, rc), (''memory'', lm, rm), (''ephemeralStorage'', le, re)]) (\<lambda>_.
           check_egress 0 (network_Egress (hosting_Network c))))))"

definition ResourceRequirements :: "k8s_lib \<Rightarrow> hosting_config option \<Rightarrow> cfg_err + ((rat \<times> rat \<times> rat) \<times> (rat \<times> rat \<times> rat)) option" where
  "ResourceRequirements lib h = (case h of None \<Rightarrow> Inr None
     | Some c \<Rightarrow>
         rbind (parseResourceQuantities lib (hres_Requests (hosting_Resources c)) ''hosting.resources.requests'') (\<lambda>requests.
         rbind (parseResourceQuantities lib (hres_Limits (hosting_Resources c)) ''hosting.resources.limits'') (\<lambda>limits.
         Inr (Some (requests, limits)))))"

subsection \<open>The whole configuration\<close>

fun validate_secrets :: "nat \<Rightarrow> string list \<Rightarrow> string list \<Rightarrow> secret_err + unit" where
  "validate_secrets i seen [] = Inr ()"
| "validate_secrets i seen (secret # rest) =
     rbind (map_err (Secret_at i) (ValidateSecretName secret)) (\<lambda>_.
       if secret \<in> set seen then Inl (Secret_duplicate i secret)
       else validate_secrets (Suc i) (secret # seen) rest)"

definition validate_metrics :: "metrics_config option \<Rightarrow> cfg_err + unit" where
  "validate_metrics m = (case m of None \<Rightarrow> Inr ()
     | Some m \<Rightarrow>
         if metrics_Port m < 1 \<or> metrics_Port m > 65535 then Inl (ModeErr MetricsPort_range)
         else if metrics_Path m = [] then Inl (ModeErr MetricsPath_required)
         else if \<not> HasPrefix (metrics_Path m) ''/'' then Inl (ModeErr MetricsPath_slash)
         else Inr ())"

definition hostingReplicas :: "config \<Rightarrow> int" where
  "hostingReplicas c =
     (if resilience_Mode (cfg_Resilience c) = ''resilient'' \<and> deploy_Replicas (cfg_Deploy c) < 2
      then 2 else deploy_Replicas (cfg_Deploy c))"

definition Validate :: "k8s_lib \<Rightarrow> config \<Rightarrow> cfg_err + unit" where
  "Validate lib c =
     (if cfg_ImagePullCredential c \<noteq> [] \<and> \<not> ValidRevision (cfg_ImagePullCredential c)
      then Inl (BaseErr ImagePullCredential_revision)
      else if cfg_EnvironmentRevision c \<noteq> [] \<and> \<not> ValidRevision (cfg_EnvironmentRevision c)
      then Inl (BaseErr EnvironmentRevision_revision)
      else if cfg_EnvironmentRevision c \<noteq> [] \<and> cfg_Secrets c \<noteq> []
      then Inl (BaseErr EnvironmentRevision_with_secrets)
      else if cfg_Name c = [] then Inl (BaseErr Name_required)
      else if length (cfg_Name c) > 63 \<or> \<not> rmatch appNamePattern (cfg_Name c) then Inl (BaseErr Name_not_dns)
      else if cfg_Image c = [] then Inl (BaseErr Image_required)
      else if service_Port (cfg_Service c) = 0 then Inl (BaseErr ServicePort_required)
      else if service_Port (cfg_Service c) < 1 \<or> service_Port (cfg_Service c) > 65535 then Inl (BaseErr ServicePort_range)
      else if health_Path (service_Health (cfg_Service c)) = [] then Inl (BaseErr HealthPath_required)
      else if \<not> HasPrefix (health_Path (service_Health (cfg_Service c))) ''/'' then Inl (BaseErr HealthPath_slash)
      else if routing_RequireTLS (cfg_Routing c) \<and> routing_Domain (cfg_Routing c) = [] then Inl (BaseErr RequireTLS_domain)
      else rbind (validate_metrics (cfg_Metrics c)) (\<lambda>_.
        if deploy_Replicas (cfg_Deploy c) < 1 then Inl (ModeErr Replicas_min)
        else if state_Mode (cfg_State c) \<notin> {''stateless'', ''stateful'', ''cache''} then Inl (ModeErr StateMode_unknown)
        else if resilience_Mode (cfg_Resilience c) \<notin> {''basic'', ''resilient'', ''fallback'', ''pinned''}
        then Inl (ModeErr ResilienceMode_unknown)
        else if state_Mode (cfg_State c) \<noteq> ''stateless''
                \<and> (resilience_Mode (cfg_Resilience c) = ''resilient'' \<or> resilience_Mode (cfg_Resilience c) = ''fallback'')
                \<and> \<not> resilience_AllowUnsafeStatefulFailover (cfg_Resilience c)
        then Inl (ModeErr (Unsafe_failover (resilience_Mode (cfg_Resilience c)) (state_Mode (cfg_State c))))
        else if resilience_Mode (cfg_Resilience c) = ''fallback''
                \<and> (placement_Prefer (cfg_Placement c) = [] \<or> placement_Fallback (cfg_Placement c) = [])
        then Inl (ModeErr Fallback_selectors)
        else if resilience_Mode (cfg_Resilience c) = ''pinned'' \<and> length (placement_Prefer (cfg_Placement c)) \<noteq> 1
        then Inl (ModeErr Pinned_selector)
        else rbind (validateStorage lib c) (\<lambda>_.
          rbind (map_err SecretErr (validate_secrets 0 [] (cfg_Secrets c))) (\<lambda>_.
          rbind (database_validate lib (cfg_Database c) (cfg_Name c) (placement_Arch (cfg_Placement c)) (cfg_Secrets c)) (\<lambda>_.
          rbind (hosting_Validate lib (cfg_Hosting c) (hostingReplicas c)) (\<lambda>_.
            (case (cfg_Hosting c, database_Postgres (cfg_Database c)) of
               (Some _, Some p) \<Rightarrow> if pg_ConnectionMode p = ''managed'' then Inl (ModeErr Hosting_with_managed_pg) else Inr ()
             | _ \<Rightarrow> Inr ())))))))"

text \<open>\<^verbatim>\<open>Parse\<close>, over the YAML decoder of \<^verbatim>\<open>gopkg.in/yaml.v3\<close>.\<close>

definition Parse :: "k8s_lib \<Rightarrow> (string \<Rightarrow> config option) \<Rightarrow> string \<Rightarrow> cfg_err + config" where
  "Parse lib yaml_decode data = (case yaml_decode data of None \<Rightarrow> Inl Decode_error
     | Some cfg \<Rightarrow> rbind (Validate lib (Normalize cfg)) (\<lambda>_. Inr (Normalize cfg)))"

section \<open>What validation guarantees\<close>

text \<open>The two copies of the application-name check agree.\<close>

lemma ValidAppName_eq: "ValidAppName s = registryauth_ValidAppName s"
  by (simp add: ValidAppName_def registryauth_ValidAppName_def appNamePattern_def appPattern_def)

lemma rmatch_appNamePattern: "rmatch appNamePattern s = rmatch appPattern s"
  by (simp add: appNamePattern_def appPattern_def)

lemma rmatch_secretName:
  "rmatch secretNamePattern s \<longleftrightarrow> s \<noteq> [] \<and> is_env_start (hd s) \<and> list_all (\<lambda>c. is_env_start c \<or> is_digit c) (tl s)"
  unfolding rmatch_iff_lang secretNamePattern_def lang_cls_seq lang_cls_star by (cases s) auto

lemma rmatch_identifier:
  "rmatch postgresIdentifierPattern s \<longleftrightarrow> s \<noteq> [] \<and> length s \<le> 63 \<and> (is_lower (hd s) \<or> hd s = CHR ''_'') \<and>
     list_all (\<lambda>c. is_lower c \<or> is_digit c \<or> c = CHR ''_'') (tl s)"
  unfolding rmatch_iff_lang postgresIdentifierPattern_def lang_cls_seq lang_cls_upto by (cases s) auto

subsection \<open>Secrets\<close>

lemma validate_secrets_iff:
  "validate_secrets i seen ss = Inr () \<longleftrightarrow>
     (\<forall>s \<in> set ss. ValidateSecretName s = Inr ()) \<and> distinct ss \<and> set ss \<inter> set seen = {}"
  by (induction i seen ss rule: validate_secrets.induct) (auto simp: res_simps)

subsection \<open>Mounts\<close>

text \<open>A path lies in the tree mounted at \<open>m\<close>.\<close>

definition inside :: "string \<Rightarrow> string \<Rightarrow> bool" where
  "inside p m \<longleftrightarrow> p = m \<or> HasPrefix p (m @ ''/'')"

lemma inside_both_overlap: "inside p l \<Longrightarrow> inside p r \<Longrightarrow> mountPathsOverlap l r"
proof -
  assume l: "inside p l" and r: "inside p r"
  have "prefix (a @ ''/'') b \<or> a = b \<or> prefix (b @ ''/'') a"
    if "prefix (a @ ''/'') p" "prefix (b @ ''/'') p" for a b :: string
  proof -
    have "prefix (a @ ''/'') (b @ ''/'') \<or> prefix (b @ ''/'') (a @ ''/'')"
      using prefix_same_cases [OF that] .
    then show ?thesis by (auto simp: prefix_snoc)
  qed
  with l r show ?thesis
    by (auto simp: inside_def mountPathsOverlap_def HasPrefix_def)
qed

lemma overlap_inside: "mountPathsOverlap l r \<longleftrightarrow> (\<exists>p. inside p l \<and> inside p r)"
proof
  assume "mountPathsOverlap l r"
  then have "inside l l \<and> inside l r \<or> inside r l \<and> inside r r"
    by (auto simp: mountPathsOverlap_def inside_def)
  then show "\<exists>p. inside p l \<and> inside p r" by blast
qed (auto intro: inside_both_overlap)

lemma mountPathsOverlap_sym: "mountPathsOverlap l r = mountPathsOverlap r l"
  by (auto simp: mountPathsOverlap_def)

definition mount_apart :: "storage_mount \<Rightarrow> storage_mount \<Rightarrow> bool" where
  "mount_apart a b \<longleftrightarrow> mount_ExistingClaim a \<noteq> mount_ExistingClaim b \<and>
     \<not> mountPathsOverlap (mount_MountPath a) (mount_MountPath b)"

lemma validate_mounts_Cons:
  "validate_mounts lib i seen (m # ms) = Inr () \<longleftrightarrow>
     validateStorageMount lib i m = Inr () \<and> (\<forall>p \<in> set seen. mount_apart p m) \<and>
     validate_mounts lib (Suc i) (seen @ [m]) ms = Inr ()"
  by (auto simp: res_simps mount_apart_def mountPathsOverlap_sym image_iff simp del: each.simps)

lemma validate_mounts_apart:
  "validate_mounts lib i seen ms = Inr () \<Longrightarrow> sorted_wrt mount_apart seen \<Longrightarrow> sorted_wrt mount_apart (seen @ ms)"
proof (induction ms arbitrary: i seen)
  case (Cons m ms)
  then have "sorted_wrt mount_apart (seen @ [m])"
    by (auto simp: validate_mounts_Cons sorted_wrt_append simp del: validate_mounts.simps)
  moreover from Cons.prems have "validate_mounts lib (Suc i) (seen @ [m]) ms = Inr ()"
    by (simp only: validate_mounts_Cons)
  ultimately show ?case using Cons.IH [of "Suc i" "seen @ [m]"] by simp
qed simp

lemma validate_mounts_each:
  "validate_mounts lib i seen ms = Inr () \<Longrightarrow> m \<in> set ms \<Longrightarrow> \<exists>j. validateStorageMount lib j m = Inr ()"
  by (induction ms arbitrary: i seen) (auto simp: validate_mounts_Cons simp del: validate_mounts.simps(2))

lemma validateStorageMount_ok:
  "validateStorageMount lib j m = Inr () \<Longrightarrow> HasPrefix (mount_MountPath m) ''/'' \<and>
     path_Clean (mount_MountPath m) = mount_MountPath m \<and> mount_MountPath m \<noteq> ''/'' \<and>
     IsDNS1123Subdomain lib (mount_ExistingClaim m)"
  by (auto simp: validateStorageMount_def Let_def path_IsAbs_def split: if_splits)

lemma Validate_storage: "Validate lib c = Inr () \<Longrightarrow> validateStorage lib c = Inr ()"
  by (auto simp: Validate_def res_simps split: if_splits)

lemma validateStorage_mounts:
  assumes "validateStorage lib c = Inr ()" and "cfg_Storage c = Some s"
  shows "length (Mounts s) \<le> 8" and "validate_mounts lib 0 [] (Mounts s) = Inr ()"
  using assms by (auto simp: validateStorage_def res_simps Mounts_def split: if_splits)

text \<open>
  The mounts of an accepted configuration are at most eight, have distinct claims and clean
  absolute mount paths, and no path lies in two of the mounted trees.
\<close>

lemma accepted_mounts_apart:
  assumes "Validate lib c = Inr ()" and "cfg_Storage c = Some s"
    and "i < j" and "j < length (Mounts s)"
  shows "mount_apart (Mounts s ! i) (Mounts s ! j)"
proof -
  have "sorted_wrt mount_apart ([] @ Mounts s)"
    using validate_mounts_apart [OF validateStorage_mounts(2) [OF Validate_storage [OF assms(1)] assms(2)]]
    by simp
  with assms(3,4) show ?thesis by (simp add: sorted_wrt_nth_less)
qed

subsection \<open>PostgreSQL\<close>

lemma Validate_database:
  "Validate lib c = Inr () \<Longrightarrow>
     database_validate lib (cfg_Database c) (cfg_Name c) (placement_Arch (cfg_Placement c)) (cfg_Secrets c) = Inr ()"
  by (auto simp: Validate_def res_simps split: if_splits)

lemma validate_postgres_ok:
  assumes "validate_postgres lib name arch secrets p = Inr ()"
  shows "3 \<le> pg_Instances p" and "pg_Instances p \<le> 9"
    and "1 \<le> pgy_Replicas (pg_Synchronous p)" and "pgy_Replicas (pg_Synchronous p) < pg_Instances p"
    and "\<exists>v. PostgresImageMajor (pg_Image p) = Inr v \<and> 14 \<le> v \<and> v \<le> 18"
    and "validatePostgresConnection p secrets = Inr ()"
    and "rmatch postgresIdentifierPattern (pg_Owner p)"
    and "\<not> HasPrefix (pg_Owner p) ''pg_'' \<and> pg_Owner p \<noteq> ''postgres''"
    and "\<exists>q. ParseQuantity lib (pgs_Size (pg_Storage p)) = Some q \<and> 1073741824 \<le> q"
  using assms
  by (auto simp: validate_postgres_def validatePostgresStorage_def PostgresImageMajor_def Let_def res_simps
      split: if_splits option.splits)

text \<open>
  In managed mode neither the connection variable nor a secret is one of the transport-security
  variables, and the connection variable is no secret; in external mode it is one.
\<close>

lemma validatePostgresConnection_iff:
  "validatePostgresConnection p secrets = Inr () \<longleftrightarrow>
     (pg_ConnectionMode p = ''managed'' \<and> pg_ConnectionEnv p \<notin> set reservedManagedEnvironments \<union> set secrets
        \<and> set reservedManagedEnvironments \<inter> set secrets = {}) \<or>
     (pg_ConnectionMode p = ''external'' \<and> pg_ConnectionEnv p \<in> set secrets)"
  by (auto simp: validatePostgresConnection_def Let_def res_simps reservedManagedEnvironments_def)

subsection \<open>Hosting\<close>

lemma check_ports_iff: "check_ports i j ps = Inr () \<longleftrightarrow> (\<forall>p \<in> set ps. 1 \<le> p \<and> p \<le> 65535)"
  by (induction i j ps rule: check_ports.induct) auto

lemma check_egress_iff:
  "check_egress i rules = Inr () \<longleftrightarrow>
     (\<forall>r \<in> set rules. ParseCIDR (TrimSpace (egress_CIDR r)) \<noteq> None \<and>
        (\<exists>ps. egress_Ports r = Some ps \<and> ps \<noteq> [] \<and> (\<forall>p \<in> set ps. 1 \<le> p \<and> p \<le> 65535)))"
proof (induction i rules rule: check_egress.induct)
  case (2 i rule rules)
  then show ?case
    by (auto simp: res_simps check_ports_iff split: option.splits list.splits)
qed simp

lemma parse_quantity_pos: "parse_quantity_field lib pre n v = Inr q \<Longrightarrow> 0 < q"
  by (auto simp: parse_quantity_field_def split: if_splits option.splits)

lemma hosting_Validate_ok:
  assumes "hosting_Validate lib (Some h) replicas = Inr ()"
  shows "1 \<le> hosting_MaxReplicas h" and "hosting_MaxReplicas h \<le> 1000" and "replicas \<le> hosting_MaxReplicas h"
    and "check_egress 0 (network_Egress (hosting_Network h)) = Inr ()"
    and "\<exists>rc rm re lc lm le. ResourceRequirements lib (Some h) = Inr (Some ((rc, rm, re), (lc, lm, le))) \<and>
           0 < rc \<and> 0 < rm \<and> 0 < re \<and> rc \<le> lc \<and> rm \<le> lm \<and> re \<le> le"
  using assms
  by (auto simp: hosting_Validate_def ResourceRequirements_def parseResourceQuantities_def res_simps not_less
      split: if_splits dest: parse_quantity_pos)

lemma Validate_hosting: "Validate lib c = Inr () \<Longrightarrow> hosting_Validate lib (cfg_Hosting c) (hostingReplicas c) = Inr ()"
  by (auto simp: Validate_def res_simps split: if_splits)

subsection \<open>Parsed configurations\<close>

lemma Parse_normal_valid:
  "Parse lib dec data = Inr c \<Longrightarrow> Normalize c = c \<and> Validate lib c = Inr ()"
  by (auto simp: Parse_def res_simps Normalize_idem split: option.splits)

end
