(* ===== verification/Config_Codec.thy ===== *)
theory Config_Codec
  imports App_Config
begin

text \<open>
  \<^verbatim>\<open>Config.JSON\<close> and \<^verbatim>\<open>FromJSON\<close> of \<^verbatim>\<open>internal/appconfig/config.go\<close>: the struct tags of the
  configuration as an encoder and a decoder over \<open>json\<close> values, composed with the printer and the
  parser. The decoder follows \<^verbatim>\<open>encoding/json\<close>: members are matched without regard to case, unknown
  ones are ignored, null leaves a field alone, a wrong type is an error, a pointer or map already
  present is decoded into. A repeated array member replaces the earlier one.
  The round trip returns the normalised configuration, with the keys of its selectors sorted (Go
  prints maps in key order; the order is not part of the Go value).
\<close>

section \<open>Decoding into Go values\<close>

fun fold_name :: "string \<Rightarrow> string" where
  "fold_name [] = []"
| "fold_name (c # s) =
     (if c = CHR 0xC5 \<and> prefix [CHR 0xBF] s then CHR ''s'' # fold_name (drop 1 s)
      else if c = CHR 0xE2 \<and> prefix [CHR 0x84, CHR 0xAA] s then CHR ''k'' # fold_name (drop 2 s)
      else to_lower_char c # fold_name s)"

type_synonym 'a dec = "json \<Rightarrow> 'a \<Rightarrow> 'a option"
type_synonym 'a fields = "(string \<times> 'a dec) list"

definition dec_field :: "'a fields \<Rightarrow> string \<Rightarrow> 'a dec" where
  "dec_field fs k v x = (case find (\<lambda>(n, d). fold_name n = fold_name k) fs of
     None \<Rightarrow> Some x | Some (n, d) \<Rightarrow> d v x)"

fun dec_members :: "'a fields \<Rightarrow> (string \<times> json) list \<Rightarrow> 'a \<Rightarrow> 'a option" where
  "dec_members fs [] x = Some x"
| "dec_members fs ((k, v) # ms) x = Option.bind (dec_field fs k v x) (dec_members fs ms)"

fun dec_struct :: "'a fields \<Rightarrow> 'a dec" where
  "dec_struct fs JNull x = Some x"
| "dec_struct fs (JObj ms) x = dec_members fs ms x"
| "dec_struct fs _ x = None"

fun dec_string :: "string dec" where
  "dec_string JNull x = Some x"
| "dec_string (JStr s) x = Some s"
| "dec_string _ x = None"

fun dec_int :: "int dec" where
  "dec_int JNull x = Some x"
| "dec_int (JNum l) x = read_int l"
| "dec_int _ x = None"

fun dec_bool :: "bool dec" where
  "dec_bool JNull x = Some x"
| "dec_bool (JBool b) x = Some b"
| "dec_bool _ x = None"

definition dec_ptr :: "'a \<Rightarrow> 'a dec \<Rightarrow> 'a option dec" where
  "dec_ptr zero d v x = (if v = JNull then Some None
     else map_option Some (d v (case x of None \<Rightarrow> zero | Some y \<Rightarrow> y)))"

fun dec_all :: "'a \<Rightarrow> 'a dec \<Rightarrow> json list \<Rightarrow> 'a list option" where
  "dec_all zero d [] = Some []"
| "dec_all zero d (v # vs) = Option.bind (d v zero) (\<lambda>y. map_option ((#) y) (dec_all zero d vs))"

fun dec_slice :: "'a \<Rightarrow> 'a dec \<Rightarrow> 'a list option dec" where
  "dec_slice zero d JNull x = Some None"
| "dec_slice zero d (JArr vs) x = map_option Some (dec_all zero d vs)"
| "dec_slice zero d _ x = None"

definition dec_list :: "'a \<Rightarrow> 'a dec \<Rightarrow> 'a list dec" where
  "dec_list zero d v x = map_option (\<lambda>r. case r of None \<Rightarrow> [] | Some ys \<Rightarrow> ys) (dec_slice zero d v (Some x))"

fun dec_entries :: "(string \<times> json) list \<Rightarrow> gomap \<Rightarrow> gomap option" where
  "dec_entries [] m = Some m"
| "dec_entries ((k, v) # ms) m = Option.bind (dec_string v []) (\<lambda>s. dec_entries ms (mput m k s))"

fun dec_map :: "gomap dec" where
  "dec_map JNull m = Some []"
| "dec_map (JObj ms) m = dec_entries ms m"
| "dec_map _ m = None"

section \<open>The struct tags\<close>

abbreviation fld :: "string \<Rightarrow> 'f dec \<Rightarrow> ('r \<Rightarrow> 'f) \<Rightarrow> (('f \<Rightarrow> 'f) \<Rightarrow> 'r \<Rightarrow> 'r) \<Rightarrow> string \<times> 'r dec" where
  "fld n d get upd \<equiv> (n, \<lambda>v x. map_option (\<lambda>y. upd (\<lambda>_. y) x) (d v (get x)))"

definition omitempty :: "bool \<Rightarrow> string \<Rightarrow> json \<Rightarrow> (string \<times> json) list" where
  "omitempty emp k v = (if emp then [] else [(k, v)])"

definition enc_map :: "gomap \<Rightarrow> json" where
  "enc_map m = JObj (map (\<lambda>(k, v). (k, JStr v)) (sort_key fst m))"

definition enc_service :: "service_config \<Rightarrow> json" where
  "enc_service s = JObj [(''port'', JInt (service_Port s)),
     (''health'', JObj [(''path'', JStr (health_Path (service_Health s)))])]"

definition dec_service :: "service_config dec" where
  "dec_service = dec_struct [fld ''port'' dec_int service_Port service_Port_update,
     fld ''health'' (dec_struct [fld ''path'' dec_string health_Path health_Path_update])
       service_Health service_Health_update]"

definition enc_metrics :: "metrics_config \<Rightarrow> json" where
  "enc_metrics m = JObj [(''port'', JInt (metrics_Port m)), (''path'', JStr (metrics_Path m))]"

definition dec_metrics :: "metrics_config dec" where
  "dec_metrics = dec_struct [fld ''port'' dec_int metrics_Port metrics_Port_update,
     fld ''path'' dec_string metrics_Path metrics_Path_update]"

definition enc_routing :: "routing_config \<Rightarrow> json" where
  "enc_routing r = JObj ([(''domain'', JStr (routing_Domain r))]
     @ omitempty (\<not> routing_RequireTLS r) ''require_tls'' (JBool (routing_RequireTLS r))
     @ omitempty (routing_EnableProxyRetries r = None) ''enable_proxy_retries''
         (JBool (the (routing_EnableProxyRetries r))))"

definition dec_routing :: "routing_config dec" where
  "dec_routing = dec_struct [fld ''domain'' dec_string routing_Domain routing_Domain_update,
     fld ''require_tls'' dec_bool routing_RequireTLS routing_RequireTLS_update,
     fld ''enable_proxy_retries'' (dec_ptr False dec_bool) routing_EnableProxyRetries routing_EnableProxyRetries_update]"

definition enc_deploy :: "deploy_config \<Rightarrow> json" where
  "enc_deploy d = JObj [(''replicas'', JInt (deploy_Replicas d)), (''strategy'', JStr (deploy_Strategy d))]"

definition dec_deploy :: "deploy_config dec" where
  "dec_deploy = dec_struct [fld ''replicas'' dec_int deploy_Replicas deploy_Replicas_update,
     fld ''strategy'' dec_string deploy_Strategy deploy_Strategy_update]"

definition enc_placement :: "placement_config \<Rightarrow> json" where
  "enc_placement p = JObj ([(''arch'', JStr (placement_Arch p)), (''spread'', JBool (placement_Spread p))]
     @ omitempty (placement_Prefer p = []) ''prefer'' (JArr (map enc_map (placement_Prefer p)))
     @ omitempty (placement_Fallback p = []) ''fallback'' (JArr (map enc_map (placement_Fallback p))))"

definition dec_placement :: "placement_config dec" where
  "dec_placement = dec_struct [fld ''arch'' dec_string placement_Arch placement_Arch_update,
     fld ''spread'' dec_bool placement_Spread placement_Spread_update,
     fld ''prefer'' (dec_list [] dec_map) placement_Prefer placement_Prefer_update,
     fld ''fallback'' (dec_list [] dec_map) placement_Fallback placement_Fallback_update]"

definition enc_mount :: "storage_mount \<Rightarrow> json" where
  "enc_mount m = JObj [(''existing_claim'', JStr (mount_ExistingClaim m)), (''mount_path'', JStr (mount_MountPath m))]"

definition dec_mount :: "storage_mount dec" where
  "dec_mount = dec_struct [fld ''existing_claim'' dec_string mount_ExistingClaim mount_ExistingClaim_update,
     fld ''mount_path'' dec_string mount_MountPath mount_MountPath_update]"

definition zero_mount :: storage_mount where
  "zero_mount = \<lparr>mount_ExistingClaim = [], mount_MountPath = []\<rparr>"

definition enc_storage :: "storage_config \<Rightarrow> json" where
  "enc_storage s = JObj ([(''existing_claim'', JStr (storage_ExistingClaim s)), (''mount_path'', JStr (storage_MountPath s))]
     @ omitempty (storage_AdditionalMounts s = []) ''additional_mounts'' (JArr (map enc_mount (storage_AdditionalMounts s))))"

definition dec_storage :: "storage_config dec" where
  "dec_storage = dec_struct [fld ''existing_claim'' dec_string storage_ExistingClaim storage_ExistingClaim_update,
     fld ''mount_path'' dec_string storage_MountPath storage_MountPath_update,
     fld ''additional_mounts'' (dec_list zero_mount dec_mount) storage_AdditionalMounts storage_AdditionalMounts_update]"

definition zero_storage :: storage_config where
  "zero_storage = \<lparr>storage_ExistingClaim = [], storage_MountPath = [], storage_AdditionalMounts = []\<rparr>"

definition enc_postgres :: "postgres_config \<Rightarrow> json" where
  "enc_postgres p = JObj [(''instances'', JInt (pg_Instances p)), (''image'', JStr (pg_Image p)),
     (''database'', JStr (pg_Database p)), (''owner'', JStr (pg_Owner p)),
     (''connectionEnv'', JStr (pg_ConnectionEnv p)), (''connectionMode'', JStr (pg_ConnectionMode p)),
     (''storage'', JObj [(''size'', JStr (pgs_Size (pg_Storage p))), (''storageClass'', JStr (pgs_StorageClass (pg_Storage p)))]),
     (''synchronous'', JObj [(''replicas'', JInt (pgy_Replicas (pg_Synchronous p))),
                             (''dataDurability'', JStr (pgy_DataDurability (pg_Synchronous p)))]),
     (''retentionPolicy'', JStr (pg_RetentionPolicy p))]"

definition dec_postgres :: "postgres_config dec" where
  "dec_postgres = dec_struct [fld ''instances'' dec_int pg_Instances pg_Instances_update,
     fld ''image'' dec_string pg_Image pg_Image_update,
     fld ''database'' dec_string pg_Database pg_Database_update,
     fld ''owner'' dec_string pg_Owner pg_Owner_update,
     fld ''connectionEnv'' dec_string pg_ConnectionEnv pg_ConnectionEnv_update,
     fld ''connectionMode'' dec_string pg_ConnectionMode pg_ConnectionMode_update,
     fld ''storage'' (dec_struct [fld ''size'' dec_string pgs_Size pgs_Size_update,
                                 fld ''storageClass'' dec_string pgs_StorageClass pgs_StorageClass_update])
       pg_Storage pg_Storage_update,
     fld ''synchronous'' (dec_struct [fld ''replicas'' dec_int pgy_Replicas pgy_Replicas_update,
                                     fld ''dataDurability'' dec_string pgy_DataDurability pgy_DataDurability_update])
       pg_Synchronous pg_Synchronous_update,
     fld ''retentionPolicy'' dec_string pg_RetentionPolicy pg_RetentionPolicy_update]"

definition zero_postgres :: postgres_config where
  "zero_postgres = \<lparr>pg_Instances = 0, pg_Image = [], pg_Database = [], pg_Owner = [], pg_ConnectionEnv = [],
     pg_ConnectionMode = [], pg_Storage = \<lparr>pgs_Size = [], pgs_StorageClass = []\<rparr>,
     pg_Synchronous = \<lparr>pgy_Replicas = 0, pgy_DataDurability = []\<rparr>, pg_RetentionPolicy = []\<rparr>"

definition enc_quantities :: "resource_quantities \<Rightarrow> json" where
  "enc_quantities q = JObj [(''cpu'', JStr (rq_CPU q)), (''memory'', JStr (rq_Memory q)),
     (''ephemeralStorage'', JStr (rq_EphemeralStorage q))]"

definition dec_quantities :: "resource_quantities dec" where
  "dec_quantities = dec_struct [fld ''cpu'' dec_string rq_CPU rq_CPU_update,
     fld ''memory'' dec_string rq_Memory rq_Memory_update,
     fld ''ephemeralStorage'' dec_string rq_EphemeralStorage rq_EphemeralStorage_update]"

definition enc_egress :: "egress_rule \<Rightarrow> json" where
  "enc_egress r = JObj [(''cidr'', JStr (egress_CIDR r)),
     (''ports'', case egress_Ports r of None \<Rightarrow> JNull | Some ps \<Rightarrow> JArr (map JInt ps))]"

definition dec_egress :: "egress_rule dec" where
  "dec_egress = dec_struct [fld ''cidr'' dec_string egress_CIDR egress_CIDR_update,
     fld ''ports'' (dec_slice 0 dec_int) egress_Ports egress_Ports_update]"

definition zero_egress :: egress_rule where
  "zero_egress = \<lparr>egress_CIDR = [], egress_Ports = None\<rparr>"

definition enc_hosting :: "hosting_config \<Rightarrow> json" where
  "enc_hosting h = JObj ([(''version'', JStr (hosting_Version h)),
     (''resources'', JObj [(''requests'', enc_quantities (hres_Requests (hosting_Resources h))),
                           (''limits'', enc_quantities (hres_Limits (hosting_Resources h)))]),
     (''maxReplicas'', JInt (hosting_MaxReplicas h)),
     (''network'', JObj (omitempty (network_AllowDNS (hosting_Network h) = None) ''allow_dns''
                           (JBool (the (network_AllowDNS (hosting_Network h))))
                         @ omitempty (network_Egress (hosting_Network h) = []) ''egress''
                             (JArr (map enc_egress (network_Egress (hosting_Network h))))))]
     @ omitempty (\<not> hosting_ReadOnlyRootFilesystem h) ''read_only_root_filesystem''
         (JBool (hosting_ReadOnlyRootFilesystem h)))"

definition dec_hosting :: "hosting_config dec" where
  "dec_hosting = dec_struct [fld ''version'' dec_string hosting_Version hosting_Version_update,
     fld ''resources'' (dec_struct [fld ''requests'' dec_quantities hres_Requests hres_Requests_update,
                                   fld ''limits'' dec_quantities hres_Limits hres_Limits_update])
       hosting_Resources hosting_Resources_update,
     fld ''maxReplicas'' dec_int hosting_MaxReplicas hosting_MaxReplicas_update,
     fld ''network'' (dec_struct [fld ''allow_dns'' (dec_ptr False dec_bool) network_AllowDNS network_AllowDNS_update,
                                 fld ''egress'' (dec_list zero_egress dec_egress) network_Egress network_Egress_update])
       hosting_Network hosting_Network_update,
     fld ''read_only_root_filesystem'' dec_bool hosting_ReadOnlyRootFilesystem hosting_ReadOnlyRootFilesystem_update]"

definition zero_quantities :: resource_quantities where
  "zero_quantities = \<lparr>rq_CPU = [], rq_Memory = [], rq_EphemeralStorage = []\<rparr>"

definition zero_hosting :: hosting_config where
  "zero_hosting = \<lparr>hosting_Version = [],
     hosting_Resources = \<lparr>hres_Requests = zero_quantities, hres_Limits = zero_quantities\<rparr>,
     hosting_MaxReplicas = 0, hosting_Network = \<lparr>network_AllowDNS = None, network_Egress = []\<rparr>,
     hosting_ReadOnlyRootFilesystem = False\<rparr>"

definition enc_state :: "state_config \<Rightarrow> json" where
  "enc_state s = JObj [(''mode'', JStr (state_Mode s))]"

definition dec_state :: "state_config dec" where
  "dec_state = dec_struct [fld ''mode'' dec_string state_Mode state_Mode_update]"

definition enc_resilience :: "resilience_config \<Rightarrow> json" where
  "enc_resilience r = JObj ([(''mode'', JStr (resilience_Mode r))]
     @ omitempty (\<not> resilience_AllowUnsafeStatefulFailover r) ''allow_unsafe_stateful_failover''
         (JBool (resilience_AllowUnsafeStatefulFailover r)))"

definition dec_resilience :: "resilience_config dec" where
  "dec_resilience = dec_struct [fld ''mode'' dec_string resilience_Mode resilience_Mode_update,
     fld ''allow_unsafe_stateful_failover'' dec_bool resilience_AllowUnsafeStatefulFailover
       resilience_AllowUnsafeStatefulFailover_update]"

definition enc_database :: "database_config \<Rightarrow> json" where
  "enc_database d = JObj (omitempty (database_Postgres d = None) ''postgres'' (enc_postgres (the (database_Postgres d))))"

definition dec_database :: "database_config dec" where
  "dec_database = dec_struct [fld ''postgres'' (dec_ptr zero_postgres dec_postgres)
     database_Postgres database_Postgres_update]"

definition enc_config :: "config \<Rightarrow> json" where
  "enc_config c = JObj (
       omitempty (cfg_ImagePullCredential c = []) ''image_pull_credential'' (JStr (cfg_ImagePullCredential c))
     @ omitempty (cfg_EnvironmentRevision c = []) ''environment_revision'' (JStr (cfg_EnvironmentRevision c))
     @ [(''name'', JStr (cfg_Name c)), (''image'', JStr (cfg_Image c)), (''service'', enc_service (cfg_Service c))]
     @ omitempty (cfg_Metrics c = None) ''metrics'' (enc_metrics (the (cfg_Metrics c)))
     @ [(''routing'', enc_routing (cfg_Routing c)), (''deploy'', enc_deploy (cfg_Deploy c)),
        (''placement'', enc_placement (cfg_Placement c))]
     @ omitempty (cfg_Storage c = None) ''storage'' (enc_storage (the (cfg_Storage c)))
     @ omitempty (cfg_Secrets c = []) ''secrets'' (JArr (map JStr (cfg_Secrets c)))
     @ [(''state'', enc_state (cfg_State c)), (''resilience'', enc_resilience (cfg_Resilience c)),
        (''database'', enc_database (cfg_Database c))]
     @ omitempty (cfg_Hosting c = None) ''hosting'' (enc_hosting (the (cfg_Hosting c))))"

definition config_fields :: "config fields" where
  "config_fields = [
     fld ''image_pull_credential'' dec_string cfg_ImagePullCredential cfg_ImagePullCredential_update,
     fld ''environment_revision'' dec_string cfg_EnvironmentRevision cfg_EnvironmentRevision_update,
     fld ''name'' dec_string cfg_Name cfg_Name_update,
     fld ''image'' dec_string cfg_Image cfg_Image_update,
     fld ''service'' dec_service cfg_Service cfg_Service_update,
     fld ''metrics'' (dec_ptr \<lparr>metrics_Port = 0, metrics_Path = []\<rparr> dec_metrics) cfg_Metrics cfg_Metrics_update,
     fld ''routing'' dec_routing cfg_Routing cfg_Routing_update,
     fld ''deploy'' dec_deploy cfg_Deploy cfg_Deploy_update,
     fld ''placement'' dec_placement cfg_Placement cfg_Placement_update,
     fld ''storage'' (dec_ptr zero_storage dec_storage) cfg_Storage cfg_Storage_update,
     fld ''secrets'' (dec_list [] dec_string) cfg_Secrets cfg_Secrets_update,
     fld ''state'' dec_state cfg_State cfg_State_update,
     fld ''resilience'' dec_resilience cfg_Resilience cfg_Resilience_update,
     fld ''database'' dec_database cfg_Database cfg_Database_update,
     fld ''hosting'' (dec_ptr zero_hosting dec_hosting) cfg_Hosting cfg_Hosting_update]"

definition dec_config :: "config dec" where
  "dec_config = dec_struct config_fields"

definition zero_config :: config where
  "zero_config = \<lparr>cfg_ImagePullCredential = [], cfg_EnvironmentRevision = [], cfg_Name = [], cfg_Image = [],
     cfg_Service = \<lparr>service_Port = 0, service_Health = \<lparr>health_Path = []\<rparr>\<rparr>, cfg_Metrics = None,
     cfg_Routing = \<lparr>routing_Domain = [], routing_RequireTLS = False, routing_EnableProxyRetries = None\<rparr>,
     cfg_Deploy = \<lparr>deploy_Replicas = 0, deploy_Strategy = []\<rparr>,
     cfg_Placement = \<lparr>placement_Arch = [], placement_Spread = False, placement_Prefer = [], placement_Fallback = []\<rparr>,
     cfg_Storage = None, cfg_Secrets = [], cfg_State = \<lparr>state_Mode = []\<rparr>,
     cfg_Resilience = \<lparr>resilience_Mode = [], resilience_AllowUnsafeStatefulFailover = False\<rparr>,
     cfg_Database = \<lparr>database_Postgres = None\<rparr>, cfg_Hosting = None\<rparr>"

definition config_JSON :: "config \<Rightarrow> string" where
  "config_JSON c = print_json (enc_config c)"

definition FromJSON :: "string \<Rightarrow> cfg_err + config" where
  "FromJSON data = (case json_parse data of None \<Rightarrow> Inl Decode_error
     | Some j \<Rightarrow> (case dec_config j zero_config of None \<Rightarrow> Inl Decode_error
         | Some cfg \<Rightarrow> Inr (Normalize cfg)))"

section \<open>Round trip\<close>

named_theorems codec \<open>equations that decode an encoded value\<close>

lemma dec_members_append:
  "dec_members fs (ms @ ms') x = Option.bind (dec_members fs ms x) (dec_members fs ms')"
  by (induction fs ms x rule: dec_members.induct) (auto split: bind_splits)

lemma dec_members_omitempty:
  "dec_members fs (omitempty emp k v) x = (if emp then Some x else dec_field fs k v x)"
  by (auto simp: omitempty_def split: bind_split)

lemma dec_field_Cons:
  "dec_field ((n, d) # fs) k v x = (if fold_name n = fold_name k then d v x else dec_field fs k v x)"
  by (simp add: dec_field_def)

lemma dec_int_JInt [codec]: "int64 i \<Longrightarrow> dec_int (JInt i) x = Some i"
  by (simp add: JInt_def)

lemma dec_all_map:
  "(\<And>x. x \<in> set xs \<Longrightarrow> d (e x) zero = Some (f x)) \<Longrightarrow> dec_all zero d (map e xs) = Some (map f xs)"
  by (induction xs) auto

lemma dec_list_map:
  "(\<And>x. x \<in> set xs \<Longrightarrow> d (e x) zero = Some (f x)) \<Longrightarrow> dec_list zero d (JArr (map e xs)) y = Some (map f xs)"
  by (simp add: dec_list_def dec_all_map)

lemma dec_ptr_obj [codec]: "dec_ptr zero d (JObj ms) None = map_option Some (d (JObj ms) zero)"
  "dec_ptr zero d (JBool b) None = map_option Some (d (JBool b) zero)"
  by (simp_all add: dec_ptr_def)

definition canon_map :: "gomap \<Rightarrow> gomap" where
  "canon_map m = sort_key fst m"

lemma dec_entries_fresh:
  "distinct (map fst (m @ ms)) \<Longrightarrow> dec_entries (map (\<lambda>(k, v). (k, JStr v)) ms) m = Some (m @ ms)"
proof (induction ms arbitrary: m)
  case (Cons kv ms)
  obtain k v where kv: "kv = (k, v)" by (cases kv)
  have "mput m k v = m @ [(k, v)]" using Cons.prems by (intro mput_fresh) (auto simp: kv)
  with Cons.IH [of "m @ [(k, v)]"] Cons.prems show ?case by (simp add: kv)
qed simp

lemma dec_map_enc: "distinct (map fst m) \<Longrightarrow> dec_map (enc_map m) [] = Some (canon_map m)"
proof -
  assume "distinct (map fst m)"
  then have "distinct (map fst ([] @ sort_key fst m))"
    by (simp add: distinct_map)
  from dec_entries_fresh [OF this] show ?thesis by (simp add: enc_map_def canon_map_def)
qed

lemmas codec_eval = dec_field_Cons dec_members_append dec_members_omitempty to_lower_char_def is_upper_def

lemma dec_enc_service: "int64 (service_Port s) \<Longrightarrow> dec_service (enc_service s) z = Some s"
  by (cases s; cases "service_Health s") (simp add: dec_service_def enc_service_def codec_eval codec)

lemma dec_enc_metrics: "int64 (metrics_Port s) \<Longrightarrow> dec_metrics (enc_metrics s) z = Some s"
  by (cases s) (simp add: dec_metrics_def enc_metrics_def codec_eval codec)

lemma dec_enc_routing:
  "dec_routing (enc_routing s) \<lparr>routing_Domain = d, routing_RequireTLS = False, routing_EnableProxyRetries = None\<rparr> = Some s"
  by (cases s) (auto simp: dec_routing_def enc_routing_def codec_eval codec)

lemma dec_enc_deploy: "int64 (deploy_Replicas s) \<Longrightarrow> dec_deploy (enc_deploy s) z = Some s"
  by (cases s) (simp add: dec_deploy_def enc_deploy_def codec_eval codec)

definition canon_placement :: "placement_config \<Rightarrow> placement_config" where
  "canon_placement p = p\<lparr>placement_Prefer := map canon_map (placement_Prefer p),
                         placement_Fallback := map canon_map (placement_Fallback p)\<rparr>"

lemma dec_enc_placement:
  assumes "\<forall>m \<in> set (placement_Prefer s) \<union> set (placement_Fallback s). distinct (map fst m)"
  shows "dec_placement (enc_placement s)
     \<lparr>placement_Arch = a, placement_Spread = b, placement_Prefer = [], placement_Fallback = []\<rparr> = Some (canon_placement s)"
proof -
  have "dec_list [] dec_map (JArr (map enc_map ms)) y = Some (map canon_map ms)"
    if "set ms \<subseteq> set (placement_Prefer s) \<union> set (placement_Fallback s)" for ms y
    using that assms by (intro dec_list_map dec_map_enc) auto
  then show ?thesis
    by (cases s) (auto simp: dec_placement_def enc_placement_def canon_placement_def codec_eval codec)
qed

lemma dec_enc_mount: "dec_mount (enc_mount m) z = Some m"
  by (cases m) (simp add: dec_mount_def enc_mount_def codec_eval)

lemma dec_enc_storage: "dec_storage (enc_storage s) zero_storage = Some s"
proof -
  have "dec_list zero_mount dec_mount (JArr (map enc_mount ms)) y = Some ms" for ms y
    using dec_list_map [of ms dec_mount enc_mount zero_mount id] by (simp add: dec_enc_mount)
  then show ?thesis
    by (cases s) (auto simp: dec_storage_def enc_storage_def zero_storage_def codec_eval codec)
qed

definition ints_postgres :: "postgres_config \<Rightarrow> bool" where
  "ints_postgres p \<longleftrightarrow> int64 (pg_Instances p) \<and> int64 (pgy_Replicas (pg_Synchronous p))"

lemma dec_enc_postgres: "ints_postgres p \<Longrightarrow> dec_postgres (enc_postgres p) z = Some p"
  by (cases p; cases "pg_Storage p"; cases "pg_Synchronous p")
     (simp add: dec_postgres_def enc_postgres_def ints_postgres_def codec_eval codec)

lemma dec_enc_quantities: "dec_quantities (enc_quantities q) z = Some q"
  by (cases q) (simp add: dec_quantities_def enc_quantities_def codec_eval)

lemma dec_enc_egress:
  assumes "\<forall>ps. egress_Ports r = Some ps \<longrightarrow> (\<forall>p \<in> set ps. int64 p)"
  shows "dec_egress (enc_egress r) zero_egress = Some r"
proof -
  have "dec_all 0 dec_int (map JInt ps) = Some ps" if "egress_Ports r = Some ps" for ps
    using dec_all_map [of ps dec_int JInt 0 id] that assms by (simp add: dec_int_JInt)
  then show ?thesis
    by (cases r) (auto simp: dec_egress_def enc_egress_def zero_egress_def codec_eval split: option.splits)
qed

definition ints_hosting :: "hosting_config \<Rightarrow> bool" where
  "ints_hosting h \<longleftrightarrow> int64 (hosting_MaxReplicas h) \<and>
     (\<forall>r \<in> set (network_Egress (hosting_Network h)). \<forall>ps. egress_Ports r = Some ps \<longrightarrow> (\<forall>p \<in> set ps. int64 p))"

lemma dec_enc_hosting:
  assumes "ints_hosting h"
  shows "dec_hosting (enc_hosting h) zero_hosting = Some h"
proof -
  have "dec_list zero_egress dec_egress (JArr (map enc_egress (network_Egress (hosting_Network h)))) y
      = Some (network_Egress (hosting_Network h))" for y
    using dec_list_map [of "network_Egress (hosting_Network h)" dec_egress enc_egress zero_egress id] assms
    by (simp add: dec_enc_egress ints_hosting_def)
  then show ?thesis
    using assms
    by (cases h; cases "hosting_Resources h"; cases "hosting_Network h")
       (auto simp: dec_hosting_def enc_hosting_def zero_hosting_def ints_hosting_def dec_enc_quantities codec_eval codec)
qed

text \<open>
  The Go values the encoder meets: integers are 64-bit, the keys of a map are distinct.
\<close>

definition go_config :: "config \<Rightarrow> bool" where
  "go_config c \<longleftrightarrow> int64 (service_Port (cfg_Service c)) \<and> int64 (deploy_Replicas (cfg_Deploy c)) \<and>
     (\<forall>m. cfg_Metrics c = Some m \<longrightarrow> int64 (metrics_Port m)) \<and>
     (\<forall>m \<in> set (placement_Prefer (cfg_Placement c)) \<union> set (placement_Fallback (cfg_Placement c)). distinct (map fst m)) \<and>
     (\<forall>p. database_Postgres (cfg_Database c) = Some p \<longrightarrow> ints_postgres p) \<and>
     (\<forall>h. cfg_Hosting c = Some h \<longrightarrow> ints_hosting h)"

definition canon_config :: "config \<Rightarrow> config" where
  "canon_config c = c\<lparr>cfg_Placement := canon_placement (cfg_Placement c)\<rparr>"

lemma dec_ptr_enc:
  "d (e (the x)) zero = Some (the x) \<Longrightarrow> e (the x) \<noteq> JNull \<Longrightarrow> x \<noteq> None \<Longrightarrow> dec_ptr zero d (e (the x)) None = Some x"
  by (auto simp: dec_ptr_def)

lemma enc_not_null [simp]:
  "enc_metrics m \<noteq> JNull" "enc_storage s \<noteq> JNull" "enc_postgres p \<noteq> JNull" "enc_hosting h \<noteq> JNull"
  by (simp_all add: enc_metrics_def enc_storage_def enc_postgres_def enc_hosting_def)

lemma dec_enc_strings: "dec_list [] dec_string (JArr (map JStr ss)) y = Some ss"
  using dec_list_map [of ss dec_string JStr "[]" id] by simp

lemma config_field:
  "dec_field config_fields ''image_pull_credential'' v x = map_option (\<lambda>y. x\<lparr>cfg_ImagePullCredential := y\<rparr>) (dec_string v (cfg_ImagePullCredential x))"
  "dec_field config_fields ''environment_revision'' v x = map_option (\<lambda>y. x\<lparr>cfg_EnvironmentRevision := y\<rparr>) (dec_string v (cfg_EnvironmentRevision x))"
  "dec_field config_fields ''name'' v x = map_option (\<lambda>y. x\<lparr>cfg_Name := y\<rparr>) (dec_string v (cfg_Name x))"
  "dec_field config_fields ''image'' v x = map_option (\<lambda>y. x\<lparr>cfg_Image := y\<rparr>) (dec_string v (cfg_Image x))"
  "dec_field config_fields ''service'' v x = map_option (\<lambda>y. x\<lparr>cfg_Service := y\<rparr>) (dec_service v (cfg_Service x))"
  "dec_field config_fields ''metrics'' v x = map_option (\<lambda>y. x\<lparr>cfg_Metrics := y\<rparr>) ((dec_ptr \<lparr>metrics_Port = 0, metrics_Path = []\<rparr> dec_metrics) v (cfg_Metrics x))"
  "dec_field config_fields ''routing'' v x = map_option (\<lambda>y. x\<lparr>cfg_Routing := y\<rparr>) (dec_routing v (cfg_Routing x))"
  "dec_field config_fields ''deploy'' v x = map_option (\<lambda>y. x\<lparr>cfg_Deploy := y\<rparr>) (dec_deploy v (cfg_Deploy x))"
  "dec_field config_fields ''placement'' v x = map_option (\<lambda>y. x\<lparr>cfg_Placement := y\<rparr>) (dec_placement v (cfg_Placement x))"
  "dec_field config_fields ''storage'' v x = map_option (\<lambda>y. x\<lparr>cfg_Storage := y\<rparr>) ((dec_ptr zero_storage dec_storage) v (cfg_Storage x))"
  "dec_field config_fields ''secrets'' v x = map_option (\<lambda>y. x\<lparr>cfg_Secrets := y\<rparr>) ((dec_list [] dec_string) v (cfg_Secrets x))"
  "dec_field config_fields ''state'' v x = map_option (\<lambda>y. x\<lparr>cfg_State := y\<rparr>) (dec_state v (cfg_State x))"
  "dec_field config_fields ''resilience'' v x = map_option (\<lambda>y. x\<lparr>cfg_Resilience := y\<rparr>) (dec_resilience v (cfg_Resilience x))"
  "dec_field config_fields ''database'' v x = map_option (\<lambda>y. x\<lparr>cfg_Database := y\<rparr>) (dec_database v (cfg_Database x))"
  "dec_field config_fields ''hosting'' v x = map_option (\<lambda>y. x\<lparr>cfg_Hosting := y\<rparr>) ((dec_ptr zero_hosting dec_hosting) v (cfg_Hosting x))"
  by (simp_all add: config_fields_def dec_field_Cons to_lower_char_def is_upper_def)

text \<open>An omitted member leaves the zero value, which is the value it stands for.\<close>

lemma omit_string:
  "cfg_ImagePullCredential x = [] \<Longrightarrow> dec_members config_fields
     (omitempty (cfg_ImagePullCredential c = []) ''image_pull_credential'' (JStr (cfg_ImagePullCredential c))) x
     = Some (x\<lparr>cfg_ImagePullCredential := cfg_ImagePullCredential c\<rparr>)"
  "cfg_EnvironmentRevision x = [] \<Longrightarrow> dec_members config_fields
     (omitempty (cfg_EnvironmentRevision c = []) ''environment_revision'' (JStr (cfg_EnvironmentRevision c))) x
     = Some (x\<lparr>cfg_EnvironmentRevision := cfg_EnvironmentRevision c\<rparr>)"
  "cfg_Secrets x = [] \<Longrightarrow> dec_members config_fields
     (omitempty (cfg_Secrets c = []) ''secrets'' (JArr (map JStr (cfg_Secrets c)))) x
     = Some (x\<lparr>cfg_Secrets := cfg_Secrets c\<rparr>)"
  by (cases x; auto simp: dec_members_omitempty config_field dec_enc_strings)+

lemma omit_ptr:
  "cfg_Metrics x = None \<Longrightarrow> go_config c \<Longrightarrow> dec_members config_fields
     (omitempty (cfg_Metrics c = None) ''metrics'' (enc_metrics (the (cfg_Metrics c)))) x
     = Some (x\<lparr>cfg_Metrics := cfg_Metrics c\<rparr>)"
  "cfg_Storage x = None \<Longrightarrow> dec_members config_fields
     (omitempty (cfg_Storage c = None) ''storage'' (enc_storage (the (cfg_Storage c)))) x
     = Some (x\<lparr>cfg_Storage := cfg_Storage c\<rparr>)"
  "cfg_Hosting x = None \<Longrightarrow> go_config c \<Longrightarrow> dec_members config_fields
     (omitempty (cfg_Hosting c = None) ''hosting'' (enc_hosting (the (cfg_Hosting c)))) x
     = Some (x\<lparr>cfg_Hosting := cfg_Hosting c\<rparr>)"
  by (cases x; auto simp: dec_members_omitempty config_field dec_ptr_def dec_enc_metrics dec_enc_storage
      dec_enc_hosting go_config_def)+

lemma dec_enc_resilience:
  "dec_resilience (enc_resilience r) \<lparr>resilience_Mode = m, resilience_AllowUnsafeStatefulFailover = False\<rparr> = Some r"
  by (cases r) (simp add: dec_resilience_def enc_resilience_def codec_eval)

lemma dec_enc_database:
  "(\<And>p. database_Postgres d = Some p \<Longrightarrow> ints_postgres p) \<Longrightarrow>
   dec_database (enc_database d) \<lparr>database_Postgres = None\<rparr> = Some d"
  by (cases d) (auto simp: dec_database_def enc_database_def codec_eval dec_ptr_def dec_enc_postgres)

lemma dec_enc_state: "dec_state (enc_state s) z = Some s"
  by (cases s; cases z) (simp add: dec_state_def enc_state_def codec_eval)

lemma dec_enc_config:
  assumes "go_config c"
  shows "dec_config (enc_config c) zero_config = Some (canon_config c)"
proof -
  have ints: "int64 (service_Port (cfg_Service c))" "int64 (deploy_Replicas (cfg_Deploy c))"
    and keys: "\<forall>m \<in> set (placement_Prefer (cfg_Placement c)) \<union> set (placement_Fallback (cfg_Placement c)). distinct (map fst m)"
    and pg: "\<And>p. database_Postgres (cfg_Database c) = Some p \<Longrightarrow> ints_postgres p"
    using assms by (auto simp: go_config_def)
  show ?thesis
    unfolding dec_config_def enc_config_def dec_struct.simps
    by (simp add: dec_members_append zero_config_def omit_string omit_ptr(1,3) [OF _ assms] omit_ptr(2) config_field
        dec_enc_service ints dec_enc_routing dec_enc_deploy dec_enc_placement [OF keys]
        dec_enc_state dec_enc_resilience dec_enc_database [OF pg] canon_config_def)
qed

lemma wf_JInt [simp]: "wf_json (JInt i)"
  by (auto simp: JInt_def)

lemma wf_omitempty [simp]: "(\<forall>m \<in> set (omitempty emp k v). wf_json (snd m)) \<longleftrightarrow> emp \<or> wf_json v"
  by (simp add: omitempty_def)

lemma wf_enc_parts [simp]:
  "wf_json (enc_map m)" "wf_json (enc_service s)" "wf_json (enc_metrics t)" "wf_json (enc_deploy d)"
  "wf_json (enc_mount mt)" "wf_json (enc_postgres p)" "wf_json (enc_quantities q)" "wf_json (enc_egress e)"
  by (auto simp: enc_map_def enc_service_def enc_metrics_def enc_deploy_def enc_mount_def enc_postgres_def
      enc_quantities_def enc_egress_def split: option.split)

lemma wf_enc_groups [simp]:
  "wf_json (enc_routing r)" "wf_json (enc_placement p)" "wf_json (enc_storage s)" "wf_json (enc_hosting h)"
  "wf_json (enc_state st)" "wf_json (enc_resilience rs)" "wf_json (enc_database d)"
  by (simp_all add: enc_routing_def enc_placement_def enc_storage_def enc_hosting_def enc_state_def
      enc_resilience_def enc_database_def ball_Un)

lemma wf_enc_config: "wf_json (enc_config c)"
  by (simp add: enc_config_def ball_Un)

theorem FromJSON_JSON:
  "go_config c \<Longrightarrow> FromJSON (config_JSON c) = Inr (Normalize (canon_config c))"
  by (simp add: FromJSON_def config_JSON_def parse_print wf_enc_config dec_enc_config)

lemma canon_map_same: "distinct (map fst m) \<Longrightarrow> same_map (canon_map m) m"
  by (simp add: same_map_iff canon_map_def fun_eq_iff)
     (metis (no_types, opaque_lifting) distinct_map map_of_eq_Some_iff not_Some_eq set_sort
       distinct_sort)

lemma FromJSON_normal: "FromJSON s = Inr c \<Longrightarrow> Normalize c = c"
  by (auto simp: FromJSON_def Normalize_idem split: option.splits)

subsection \<open>Stored configurations\<close>

lemma clean_canon: "clean_selector m \<Longrightarrow> clean_selector (canon_map m)"
  by (simp add: clean_selector_def canon_map_def distinct_map)

lemma Normalize_selectors:
  assumes "Normalize c = c"
  shows "map normalize_selector (placement_Prefer (cfg_Placement c)) = placement_Prefer (cfg_Placement c)"
    and "map normalize_selector (placement_Fallback (cfg_Placement c)) = placement_Fallback (cfg_Placement c)"
proof -
  have "cfg_Placement (Normalize c) = cfg_Placement c" using assms by simp
  then show "map normalize_selector (placement_Prefer (cfg_Placement c)) = placement_Prefer (cfg_Placement c)"
    and "map normalize_selector (placement_Fallback (cfg_Placement c)) = placement_Fallback (cfg_Placement c)"
    by (cases "cfg_Placement c"; simp add: Normalize_def normalizePlacementSelectors_def)+
qed

lemma map_fixed_clean: "map normalize_selector ms = ms \<Longrightarrow> m \<in> set ms \<Longrightarrow> clean_selector m"
  by (metis imageE image_set normalize_selector_clean)

lemma normalize_canon_maps: "map normalize_selector ms = ms \<Longrightarrow>
   normalizePlacementSelectors (map canon_map ms) = map canon_map ms"
  by (auto simp: normalizePlacementSelectors_def clean_canon map_fixed_clean intro!: normalize_selector_fixed)

lemma Normalize_canon:
  assumes "Normalize c = c"
  shows "Normalize (canon_config c) = canon_config c"
proof -
  note sels = Normalize_selectors [OF assms]
  have "Normalize (canon_config c) = (Normalize c)\<lparr>cfg_Placement := cfg_Placement (Normalize (canon_config c))\<rparr>"
    by (simp add: Normalize_def canon_config_def default_strategy_def)
  also have "cfg_Placement (Normalize (canon_config c)) =
      (cfg_Placement (Normalize c))\<lparr>placement_Prefer := map canon_map (placement_Prefer (cfg_Placement c)),
         placement_Fallback := map canon_map (placement_Fallback (cfg_Placement c))\<rparr>"
    by (simp add: Normalize_def canon_config_def canon_placement_def normalize_canon_maps [OF sels(1)]
        normalize_canon_maps [OF sels(2)])
  finally show ?thesis by (simp add: assms canon_config_def canon_placement_def)
qed

lemma mget_canon: "distinct (map fst m) \<Longrightarrow> mget (canon_map m) k = mget m k"
  using canon_map_same [of m] by (simp add: mget_def same_map_iff)

lemma validateStorage_canon: "go_config c \<Longrightarrow> validateStorage lib (canon_config c) = validateStorage lib c"
proof -
  assume go: "go_config c"
  have "length ms = 1 \<Longrightarrow> \<forall>m \<in> set ms. distinct (map fst m) \<Longrightarrow>
      mget (hd (map canon_map ms)) ''node-id'' = mget (hd ms) ''node-id''" for ms :: "gomap list"
    by (cases ms) (auto simp: mget_canon)
  with go show ?thesis
    by (simp add: validateStorage_def canon_config_def canon_placement_def go_config_def ball_Un
        cong: if_cong option.case_cong conj_cong disj_cong)
qed

lemma canon_fields:
  "cfg_ImagePullCredential (canon_config c) = cfg_ImagePullCredential c"
  "cfg_EnvironmentRevision (canon_config c) = cfg_EnvironmentRevision c"
  "cfg_Name (canon_config c) = cfg_Name c" "cfg_Image (canon_config c) = cfg_Image c"
  "cfg_Service (canon_config c) = cfg_Service c" "cfg_Metrics (canon_config c) = cfg_Metrics c"
  "cfg_Routing (canon_config c) = cfg_Routing c" "cfg_Deploy (canon_config c) = cfg_Deploy c"
  "cfg_Secrets (canon_config c) = cfg_Secrets c" "cfg_State (canon_config c) = cfg_State c"
  "cfg_Resilience (canon_config c) = cfg_Resilience c" "cfg_Database (canon_config c) = cfg_Database c"
  "cfg_Hosting (canon_config c) = cfg_Hosting c" "hostingReplicas (canon_config c) = hostingReplicas c"
  "placement_Arch (cfg_Placement (canon_config c)) = placement_Arch (cfg_Placement c)"
  "(placement_Prefer (cfg_Placement (canon_config c)) = []) = (placement_Prefer (cfg_Placement c) = [])"
  "(placement_Fallback (cfg_Placement (canon_config c)) = []) = (placement_Fallback (cfg_Placement c) = [])"
  "length (placement_Prefer (cfg_Placement (canon_config c))) = length (placement_Prefer (cfg_Placement c))"
  by (simp_all add: canon_config_def canon_placement_def hostingReplicas_def)

lemma Validate_canon: "go_config c \<Longrightarrow> Validate lib (canon_config c) = Validate lib c"
  unfolding Validate_def canon_fields by (simp only: validateStorage_canon)

end
