(* ===== verification/Db_Schema.thy ===== *)
theory Db_Schema
  imports Config_Codec
begin

text \<open>
  The tables of the deployment journal (\<^verbatim>\<open>internal/db/migrations/*.sql\<close>) with their keys, unique
  indexes and checks, the domain structs (\<^verbatim>\<open>internal/domain\<close>) and the helpers of
  \<^verbatim>\<open>internal/db/errors.go\<close>. Columns hold the stored text; times are written by \<open>formatTime\<close> and read
  back by \<open>parse_time\<close>. A repository method is a function from the database to an error, which leaves
  the database as it was (the transaction is rolled back), or to its result and the new database.
  Failures of the driver and of the connection are not modelled.
\<close>

section \<open>Domain structs\<close>

record app =
  app_ID :: string
  app_Name :: string
  app_Image :: string
  app_DesiredStateJSON :: string
  app_CreatedAt :: gotime
  app_UpdatedAt :: gotime
  app_DeletedAt :: "gotime option"

record deployment =
  dep_ID :: string
  dep_AppID :: string
  dep_Status :: string
  dep_FailureReason :: string
  dep_CreatedAt :: gotime
  dep_UpdatedAt :: gotime

record route =
  route_ID :: string
  route_AppID :: string
  route_Domain :: string
  route_TargetPort :: int
  route_Status :: string
  route_TLSEnabled :: bool
  route_CreatedAt :: gotime
  route_UpdatedAt :: gotime

record deploy_request =
  req_AppName :: string
  req_RequestID :: string
  req_State :: string
  req_RequestedState :: string
  req_PreviousAppID :: string
  req_PreviousState :: string
  req_ReportWithdrawal :: bool
  req_ResponseJSON :: string
  req_CreatedAt :: gotime
  req_UpdatedAt :: gotime

record candidate_binding =
  bind_AppName :: string
  bind_RequestID :: string
  bind_AppID :: string
  bind_DeploymentID :: string
  bind_CreatedAt :: gotime

record runtime_checkpoint =
  chk_AppName :: string
  chk_RequestID :: string
  chk_Stage :: string
  chk_IntentJSON :: string
  chk_GateJSON :: string

record candidate_generation =
  gen_AppName :: string
  gen_AppID :: string
  gen_RequestID :: string
  gen_RequestedState :: string
  gen_State :: string

section \<open>Rows\<close>

record app_row =
  a_id :: string
  a_name :: string
  a_image :: string
  a_state :: string
  a_created :: string
  a_updated :: string
  a_deleted :: "string option"

record dep_row =
  d_id :: string
  d_app_id :: string
  d_status :: string
  d_failure :: "string option"
  d_created :: string
  d_updated :: string

record route_row =
  r_id :: string
  r_app_id :: string
  r_domain :: string
  r_port :: int
  r_status :: string
  r_tls :: int
  r_created :: string
  r_updated :: string

record req_row =
  q_app :: string
  q_id :: string
  q_state :: string
  q_requested :: string
  q_prev_id :: "string option"
  q_prev_state :: "string option"
  q_report :: bool
  q_response :: "string option"
  q_created :: string
  q_updated :: string

record chk_row =
  c_app :: string
  c_id :: string
  c_stage :: string
  c_intent :: string
  c_gate :: string
  c_created :: string
  c_updated :: string

record bind_row =
  b_app :: string
  b_id :: string
  b_app_id :: string
  b_dep_id :: string
  b_created :: string

record withdrawal_row =
  w_app :: string
  w_id :: string
  w_at :: string

record db =
  apps :: "app_row list"
  deployments :: "dep_row list"
  routes :: "route_row list"
  requests :: "req_row list"
  checkpoints :: "chk_row list"
  bindings :: "bind_row list"
  withdrawals :: "withdrawal_row list"

definition empty_db :: db where
  "empty_db = \<lparr>apps = [], deployments = [], routes = [], requests = [], checkpoints = [], bindings = [], withdrawals = []\<rparr>"

datatype db_err =
    ErrNotFound | ErrDeployRequestIdentity | ErrCandidateBindingConflict | ErrCandidateFinalizationConflict
  | ErrRuntimeCheckpointConflict | ErrRuntimeCheckpointTerminal | ErrRuntimeCheckpointTransition
  | ErrRuntimeCheckpointIdentity | ErrJoinTokenExpired | ErrJoinTokenUsed
  | ErrRegistryCredentialLimit | ErrRegistryCredentialExists | ErrInvalidRegistryCredential
  | ErrEnvironmentBundleLimit | ErrEnvironmentBundleExists | ErrInvalidEnvironmentBundle
  | ErrConstraint | ErrParseTime | ErrConfig cfg_err

type_synonym 'a tx = "db \<Rightarrow> db_err + ('a \<times> db)"

section \<open>Stored values\<close>

definition formatOptionalTime :: "gotime option \<Rightarrow> string option" where
  "formatOptionalTime t = map_option formatTime t"

definition parseStoredTime :: "string \<Rightarrow> db_err + gotime" where
  "parseStoredTime s = of_option ErrParseTime (parse_time s)"

definition parseOptionalStoredTime :: "string option \<Rightarrow> db_err + gotime option" where
  "parseOptionalStoredTime s = (case s of None \<Rightarrow> Inr None | Some v \<Rightarrow> rbind (parseStoredTime v) (\<lambda>t. Inr (Some t)))"

definition optionalString :: "string \<Rightarrow> string option" where
  "optionalString s = (if s = [] then None else Some s)"

definition parseOptionalString :: "string option \<Rightarrow> string" where
  "parseOptionalString s = (case s of None \<Rightarrow> [] | Some v \<Rightarrow> v)"

text \<open>\<^verbatim>\<open>mapRowsAffected\<close>: no affected row is \<^verbatim>\<open>ErrNotFound\<close>.\<close>

definition mapRowsAffected :: "nat \<Rightarrow> 'a \<Rightarrow> db_err + 'a" where
  "mapRowsAffected rows x = (if rows = 0 then Inl ErrNotFound else Inr x)"

lemma parseStoredTime_formatTime [simp]: "wf_time t \<Longrightarrow> parseStoredTime (formatTime t) = Inr t"
  by (simp add: parseStoredTime_def parse_formatTime)

lemma parseOptional_formatOptional [simp]:
  "(\<forall>u. t = Some u \<longrightarrow> wf_time u) \<Longrightarrow> parseOptionalStoredTime (formatOptionalTime t) = Inr t"
  by (cases t) (simp_all add: parseOptionalStoredTime_def formatOptionalTime_def)

lemma parse_optionalString [simp]: "parseOptionalString (optionalString s) = s"
  by (simp add: parseOptionalString_def optionalString_def)

lemma mapRowsAffected_Inr_iff [res_simps]: "mapRowsAffected n x = Inr y \<longleftrightarrow> n \<noteq> 0 \<and> x = y"
  by (auto simp: mapRowsAffected_def)

section \<open>Keys\<close>

text \<open>The primary key of a request, shared by its checkpoint, binding and withdrawal.\<close>

definition q_key :: "req_row \<Rightarrow> string \<times> string" where "q_key r = (q_app r, q_id r)"
definition c_key :: "chk_row \<Rightarrow> string \<times> string" where "c_key r = (c_app r, c_id r)"
definition b_key :: "bind_row \<Rightarrow> string \<times> string" where "b_key r = (b_app r, b_id r)"
definition w_key :: "withdrawal_row \<Rightarrow> string \<times> string" where "w_key r = (w_app r, w_id r)"

lemmas key_defs = q_key_def c_key_def b_key_def w_key_def

section \<open>Inserts\<close>

text \<open>An \<^verbatim>\<open>INSERT\<close> fails on a violated primary key, unique index or check.\<close>

definition insert_app :: "app_row \<Rightarrow> db \<Rightarrow> db_err + db" where
  "insert_app r d = (if \<exists>x \<in> set (apps d). a_id x = a_id r \<or> a_name x = a_name r then Inl ErrConstraint
     else Inr (d\<lparr>apps := apps d @ [r]\<rparr>))"

definition insert_deployment :: "dep_row \<Rightarrow> db \<Rightarrow> db_err + db" where
  "insert_deployment r d = (if \<exists>x \<in> set (deployments d). d_id x = d_id r then Inl ErrConstraint
     else Inr (d\<lparr>deployments := deployments d @ [r]\<rparr>))"

definition insert_route :: "route_row \<Rightarrow> db \<Rightarrow> db_err + db" where
  "insert_route r d =
     (if \<exists>x \<in> set (routes d). r_id x = r_id r \<or> r_domain x = r_domain r \<or> r_app_id x = r_app_id r then Inl ErrConstraint
      else Inr (d\<lparr>routes := routes d @ [r]\<rparr>))"

definition insert_request :: "req_row \<Rightarrow> db \<Rightarrow> db_err + db" where
  "insert_request r d =
     (if (\<exists>x \<in> set (requests d). q_key x = q_key r)
         \<or> (q_state r = ''pending'' \<and> (\<exists>x \<in> set (requests d). q_app x = q_app r \<and> q_state x = ''pending''))
      then Inl ErrConstraint else Inr (d\<lparr>requests := requests d @ [r]\<rparr>))"

definition insert_checkpoint :: "chk_row \<Rightarrow> db \<Rightarrow> db_err + db" where
  "insert_checkpoint r d = (if \<exists>x \<in> set (checkpoints d). c_key x = c_key r then Inl ErrConstraint
     else Inr (d\<lparr>checkpoints := checkpoints d @ [r]\<rparr>))"

definition insert_binding :: "bind_row \<Rightarrow> db \<Rightarrow> db_err + db" where
  "insert_binding r d = (if \<exists>x \<in> set (bindings d). b_key x = b_key r then Inl ErrConstraint
     else Inr (d\<lparr>bindings := bindings d @ [r]\<rparr>))"

definition insert_withdrawal :: "withdrawal_row \<Rightarrow> db \<Rightarrow> db_err + db" where
  "insert_withdrawal r d = (if \<exists>x \<in> set (withdrawals d). w_key x = w_key r then Inl ErrConstraint
     else Inr (d\<lparr>withdrawals := withdrawals d @ [r]\<rparr>))"

text \<open>
  \<^verbatim>\<open>INSERT ... ON CONFLICT(app_id) DO UPDATE\<close> on routes: the conflict target is checked first, so an
  existing route of the app is rewritten (its id and creation time stay), which fails when another
  route has the domain; a new row must respect every index.
\<close>

definition upsert_route :: "route_row \<Rightarrow> db \<Rightarrow> db_err + db" where
  "upsert_route r d =
     (if \<exists>x \<in> set (routes d). r_app_id x = r_app_id r then
        if \<exists>x \<in> set (routes d). r_app_id x \<noteq> r_app_id r \<and> r_domain x = r_domain r then Inl ErrConstraint
        else Inr (d\<lparr>routes := tupd (\<lambda>x. r_app_id x = r_app_id r)
               (\<lambda>x. x\<lparr>r_domain := r_domain r, r_port := r_port r, r_status := r_status r,
                      r_tls := r_tls r, r_updated := r_updated r\<rparr>) (routes d)\<rparr>)
      else insert_route r d)"

definition delete_routes :: "string \<Rightarrow> db \<Rightarrow> db" where
  "delete_routes appID d = d\<lparr>routes := tdel (\<lambda>x. r_app_id x = appID) (routes d)\<rparr>"

lemmas insert_defs = insert_app_def insert_deployment_def insert_route_def insert_request_def
  insert_checkpoint_def insert_binding_def insert_withdrawal_def

section \<open>The schema invariant\<close>

text \<open>
  What the keys, unique indexes, checks and foreign keys of the schema promise: the contract under
  which the repositories read the tables.
\<close>

definition terminal :: "string \<Rightarrow> bool" where
  "terminal s \<longleftrightarrow> s = ''applied'' \<or> s = ''withdrawn''"

definition stages :: "string set" where
  "stages = {''prepared'', ''fenced'', ''activated'', ''recovering'', ''withdrawn''}"

definition req_ok :: "req_row \<Rightarrow> bool" where
  "req_ok r \<longleftrightarrow> (q_state r = ''pending'' \<and> q_response r = None) \<or> (terminal (q_state r) \<and> q_response r \<noteq> None)"

definition one_pending :: "req_row list \<Rightarrow> bool" where
  "one_pending t \<longleftrightarrow> (\<forall>x \<in> set t. \<forall>y \<in> set t.
     q_state x = ''pending'' \<and> q_state y = ''pending'' \<and> q_app x = q_app y \<longrightarrow> x = y)"

definition keys_ok :: "db \<Rightarrow> bool" where
  "keys_ok d \<longleftrightarrow> keyed a_id (apps d) \<and> keyed a_name (apps d) \<and> keyed d_id (deployments d) \<and>
     keyed r_id (routes d) \<and> keyed r_domain (routes d) \<and> keyed r_app_id (routes d) \<and>
     keyed q_key (requests d) \<and> keyed c_key (checkpoints d) \<and> keyed b_key (bindings d) \<and> keyed w_key (withdrawals d)"

definition refs_ok :: "db \<Rightarrow> bool" where
  "refs_ok d \<longleftrightarrow>
     (\<forall>c \<in> set (checkpoints d). c_key c \<in> q_key ` set (requests d)) \<and>
     (\<forall>b \<in> set (bindings d). b_key b \<in> q_key ` set (requests d) \<and> b_app_id b \<in> a_id ` set (apps d)
        \<and> b_dep_id b \<in> d_id ` set (deployments d)) \<and>
     (\<forall>w \<in> set (withdrawals d). w_key w \<in> q_key ` set (requests d))"

definition schema_ok :: "db \<Rightarrow> bool" where
  "schema_ok d \<longleftrightarrow> keys_ok d \<and> refs_ok d \<and> (\<forall>r \<in> set (requests d). req_ok r) \<and> one_pending (requests d) \<and>
     (\<forall>c \<in> set (checkpoints d). c_stage c \<in> stages)"

lemma schema_ok_empty: "schema_ok empty_db"
  by (simp add: schema_ok_def empty_db_def keys_ok_def refs_ok_def one_pending_def)

end
