(* ===== verification/Inventory_Repo.thy ===== *)
theory Inventory_Repo
  imports Db_Schema
begin

text \<open>
  The inventory repositories: \<^verbatim>\<open>AppRepository\<close>, \<^verbatim>\<open>DeploymentRepository\<close> and \<^verbatim>\<open>RouteRepository\<close>
  (\<^verbatim>\<open>app_repository.go\<close>, \<^verbatim>\<open>deployment_repository.go\<close>, \<^verbatim>\<open>route_repository.go\<close>), one function per method.
  \<^verbatim>\<open>ORDER BY\<close> sorts by the stored text.
\<close>

section \<open>Apps\<close>

definition scanApp :: "app_row \<Rightarrow> db_err + app" where
  "scanApp a =
     rbind (parseStoredTime (a_created a)) (\<lambda>created.
     rbind (parseStoredTime (a_updated a)) (\<lambda>updated.
     rbind (parseOptionalStoredTime (a_deleted a)) (\<lambda>deleted.
     Inr \<lparr>app_ID = a_id a, app_Name = a_name a, app_Image = a_image a, app_DesiredStateJSON = a_state a,
          app_CreatedAt = created, app_UpdatedAt = updated, app_DeletedAt = deleted\<rparr>)))"

definition app_to_row :: "app \<Rightarrow> app_row" where
  "app_to_row a = \<lparr>a_id = app_ID a, a_name = app_Name a, a_image = app_Image a, a_state = app_DesiredStateJSON a,
     a_created = formatTime (app_CreatedAt a), a_updated = formatTime (app_UpdatedAt a),
     a_deleted = formatOptionalTime (app_DeletedAt a)\<rparr>"

definition app_Create :: "app \<Rightarrow> unit tx" where
  "app_Create a d = rbind (insert_app (app_to_row a) d) (\<lambda>d'. Inr ((), d'))"

definition app_Update :: "app \<Rightarrow> unit tx" where
  "app_Update a d =
     mapRowsAffected (taff (\<lambda>x. a_id x = app_ID a) (apps d))
       ((), d\<lparr>apps := tupd (\<lambda>x. a_id x = app_ID a)
              (\<lambda>x. x\<lparr>a_image := app_Image a, a_state := app_DesiredStateJSON a,
                     a_updated := formatTime (app_UpdatedAt a), a_deleted := formatOptionalTime (app_DeletedAt a)\<rparr>)
              (apps d)\<rparr>)"

definition app_findOne :: "(app_row \<Rightarrow> bool) \<Rightarrow> db \<Rightarrow> db_err + app" where
  "app_findOne P d = rbind (of_option ErrNotFound (tsel P (apps d))) scanApp"

definition app_FindByName :: "string \<Rightarrow> db \<Rightarrow> db_err + app" where
  "app_FindByName name = app_findOne (\<lambda>a. a_name a = name)"

definition app_FindByID :: "string \<Rightarrow> db \<Rightarrow> db_err + app" where
  "app_FindByID ident = app_findOne (\<lambda>a. a_id a = ident)"

definition FindActiveByName :: "string \<Rightarrow> db \<Rightarrow> db_err + app" where
  "FindActiveByName name d = rbind (app_FindByName name d) (\<lambda>a.
     if app_DeletedAt a \<noteq> None then Inl ErrNotFound else Inr a)"

definition app_List :: "db \<Rightarrow> db_err + app list" where
  "app_List d = mapM scanApp (sort_key a_name (filter (\<lambda>a. a_deleted a = None) (apps d)))"

definition MarkDeleted :: "string \<Rightarrow> gotime \<Rightarrow> app tx" where
  "MarkDeleted name deletedAt d =
     (let P = (\<lambda>x. a_name x = name \<and> a_deleted x = None);
          d' = d\<lparr>apps := tupd P (\<lambda>x. x\<lparr>a_updated := formatTime deletedAt, a_deleted := Some (formatTime deletedAt)\<rparr>) (apps d)\<rparr>
      in rbind (mapRowsAffected (taff P (apps d)) d') (\<lambda>d'.
         rbind (app_FindByName name d') (\<lambda>a. Inr (a, d'))))"

section \<open>Deployments\<close>

definition scanDeployment :: "dep_row \<Rightarrow> db_err + deployment" where
  "scanDeployment r =
     rbind (parseStoredTime (d_created r)) (\<lambda>created.
     rbind (parseStoredTime (d_updated r)) (\<lambda>updated.
     Inr \<lparr>dep_ID = d_id r, dep_AppID = d_app_id r, dep_Status = d_status r,
          dep_FailureReason = parseOptionalString (d_failure r), dep_CreatedAt = created, dep_UpdatedAt = updated\<rparr>))"

definition deployment_Create :: "deployment \<Rightarrow> unit tx" where
  "deployment_Create dep d = rbind (insert_deployment
     \<lparr>d_id = dep_ID dep, d_app_id = dep_AppID dep, d_status = dep_Status dep,
      d_failure = optionalString (dep_FailureReason dep), d_created = formatTime (dep_CreatedAt dep),
      d_updated = formatTime (dep_UpdatedAt dep)\<rparr> d) (\<lambda>d'. Inr ((), d'))"

definition deployment_FindByID :: "string \<Rightarrow> db \<Rightarrow> db_err + deployment" where
  "deployment_FindByID ident d = rbind (of_option ErrNotFound (tsel (\<lambda>x. d_id x = ident) (deployments d))) scanDeployment"

definition deployment_UpdateStatus :: "string \<Rightarrow> string \<Rightarrow> string \<Rightarrow> gotime \<Rightarrow> unit tx" where
  "deployment_UpdateStatus ident status reason updatedAt d =
     mapRowsAffected (taff (\<lambda>x. d_id x = ident) (deployments d))
       ((), d\<lparr>deployments := tupd (\<lambda>x. d_id x = ident)
              (\<lambda>x. x\<lparr>d_status := status, d_failure := optionalString reason, d_updated := formatTime updatedAt\<rparr>)
              (deployments d)\<rparr>)"

text \<open>
  \<^verbatim>\<open>ORDER BY created_at DESC\<close>: descending text order; rows with equal text, whose order SQL leaves
  open, stay in the order of insertion.
\<close>

definition sort_desc :: "('r \<Rightarrow> string) \<Rightarrow> 'r list \<Rightarrow> 'r list" where
  "sort_desc key t = rev (sort_key key (rev t))"

definition deployment_ListByApp :: "string \<Rightarrow> db \<Rightarrow> db_err + deployment list" where
  "deployment_ListByApp appID d =
     mapM scanDeployment (sort_desc d_created (filter (\<lambda>x. d_app_id x = appID) (deployments d)))"

section \<open>Routes\<close>

definition scanRoute :: "route_row \<Rightarrow> db_err + route" where
  "scanRoute r =
     rbind (parseStoredTime (r_created r)) (\<lambda>created.
     rbind (parseStoredTime (r_updated r)) (\<lambda>updated.
     Inr \<lparr>route_ID = r_id r, route_AppID = r_app_id r, route_Domain = r_domain r, route_TargetPort = r_port r,
          route_Status = r_status r, route_TLSEnabled = (r_tls r \<noteq> 0), route_CreatedAt = created, route_UpdatedAt = updated\<rparr>))"

definition boolToInt :: "bool \<Rightarrow> int" where
  "boolToInt b = (if b then 1 else 0)"

definition route_to_row :: "route \<Rightarrow> route_row" where
  "route_to_row x = \<lparr>r_id = route_ID x, r_app_id = route_AppID x, r_domain = route_Domain x, r_port = route_TargetPort x,
     r_status = route_Status x, r_tls = boolToInt (route_TLSEnabled x), r_created = formatTime (route_CreatedAt x),
     r_updated = formatTime (route_UpdatedAt x)\<rparr>"

definition route_Create :: "route \<Rightarrow> unit tx" where
  "route_Create x d = rbind (insert_route (route_to_row x) d) (\<lambda>d'. Inr ((), d'))"

definition UpsertForApp :: "route \<Rightarrow> unit tx" where
  "UpsertForApp x d = rbind (upsert_route (route_to_row x) d) (\<lambda>d'. Inr ((), d'))"

definition DeleteByApp :: "string \<Rightarrow> unit tx" where
  "DeleteByApp appID d = Inr ((), delete_routes appID d)"

definition FindByDomain :: "string \<Rightarrow> db \<Rightarrow> db_err + route" where
  "FindByDomain dn d = rbind (of_option ErrNotFound (tsel (\<lambda>x. r_domain x = dn) (routes d))) scanRoute"

definition route_List :: "db \<Rightarrow> db_err + route list" where
  "route_List d = mapM scanRoute (sort_key r_domain (routes d))"

definition route_ListByApp :: "string \<Rightarrow> db \<Rightarrow> db_err + route list" where
  "route_ListByApp appID d = mapM scanRoute (sort_key r_domain (filter (\<lambda>x. r_app_id x = appID) (routes d)))"

definition route_UpdateStatus :: "string \<Rightarrow> string \<Rightarrow> gotime \<Rightarrow> unit tx" where
  "route_UpdateStatus ident status updatedAt d =
     mapRowsAffected (taff (\<lambda>x. r_id x = ident) (routes d))
       ((), d\<lparr>routes := tupd (\<lambda>x. r_id x = ident) (\<lambda>x. x\<lparr>r_status := status, r_updated := formatTime updatedAt\<rparr>) (routes d)\<rparr>)"

section \<open>Round trips\<close>

lemma scanApp_row:
  assumes "wf_time (app_CreatedAt a)" "wf_time (app_UpdatedAt a)" "\<forall>t. app_DeletedAt a = Some t \<longrightarrow> wf_time t"
  shows "scanApp (app_to_row a) = Inr a"
  using assms by (simp add: scanApp_def app_to_row_def)

lemma scanRoute_row:
  "wf_time (route_CreatedAt x) \<Longrightarrow> wf_time (route_UpdatedAt x) \<Longrightarrow> scanRoute (route_to_row x) = Inr x"
  by (simp add: scanRoute_def route_to_row_def boolToInt_def)

text \<open>An app that was created is found under its name.\<close>

lemma app_Create_Find:
  assumes "app_Create a d = Inr ((), d')"
    and "wf_time (app_CreatedAt a)" "wf_time (app_UpdatedAt a)" "\<forall>t. app_DeletedAt a = Some t \<longrightarrow> wf_time t"
  shows "app_FindByName (app_Name a) d' = Inr a"
proof -
  have "tsel (\<lambda>x. a_name x = app_Name a) (apps d') = Some (app_to_row a)"
    using assms(1)
    by (auto simp: app_Create_def insert_app_def res_simps tsel_append app_to_row_def tsel_None_iff
        split: if_splits option.splits dest!: tsel_SomeD)
  then show ?thesis
    using scanApp_row [OF assms(2-4)] by (simp add: app_FindByName_def app_findOne_def)
qed

end
