(* ===== verification/Binding_Repo.thy ===== *)
theory Binding_Repo
  imports Request_Repo Inventory_Repo
begin

text \<open>
  Candidate bindings and finalization: \<^verbatim>\<open>CandidateBindingRepository\<close>
  (\<^verbatim>\<open>candidate_binding_repository.go\<close>, \<^verbatim>\<open>candidate_generation_repository.go\<close>) and
  \<^verbatim>\<open>CandidateFinalizationRepository\<close> (\<^verbatim>\<open>candidate_finalization_repository.go\<close>). A binding ties one
  request to one app row and one deployment row; finalization commits app, deployment, route and the
  immutable reply together. SHA-256 is a parameter (\<open>sha256\<close>, bytes to bytes).
\<close>

section \<open>Admission\<close>

definition validateCandidateDeployRequest :: "k8s_lib \<Rightarrow> deploy_request \<Rightarrow> db_err + config" where
  "validateCandidateDeployRequest lib req = (case FromJSON (req_RequestedState req) of
     Inl _ \<Rightarrow> Inl ErrCandidateBindingConflict
   | Inr cfg \<Rightarrow>
       if config_JSON cfg \<noteq> req_RequestedState req \<or> cfg_Name cfg \<noteq> req_AppName req \<or> cfg_Hosting cfg = None
          \<or> state_Mode (cfg_State cfg) \<noteq> ''stateless'' \<or> length (cfg_Secrets cfg) \<noteq> 0 \<or> \<not> is_ok (Validate lib cfg)
       then Inl ErrCandidateBindingConflict
       else Inr cfg)"

definition validateCandidateDomainAdmission :: "db \<Rightarrow> string \<Rightarrow> config \<Rightarrow> db_err + unit" where
  "validateCandidateDomainAdmission d app cfg =
     (let dom = routing_Domain (cfg_Routing cfg) in
      if dom = [] then Inr ()
      else if \<exists>r \<in> set (routes d). r_domain r = dom \<and>
                (\<exists>a \<in> set (apps d). a_id a = r_app_id r \<and> a_name a \<noteq> app)
      then Inl ErrCandidateBindingConflict
      else each (\<lambda>q. case FromJSON (q_requested q) of
             Inl _ \<Rightarrow> Inl ErrCandidateBindingConflict
           | Inr other \<Rightarrow> if routing_Domain (cfg_Routing other) = dom
                          then Inl ErrCandidateBindingConflict else Inr ())
         (filter (\<lambda>q. q_state q = ''pending'' \<and> q_app q \<noteq> app) (requests d)))"

definition validateCandidatePredecessor ::
  "k8s_lib \<Rightarrow> db \<Rightarrow> string \<Rightarrow> string \<Rightarrow> string \<Rightarrow> config \<Rightarrow> bool \<Rightarrow> db_err + unit" where
  "validateCandidatePredecessor lib d app previousID previousState candidate withdrawal =
     (case tsel (\<lambda>a. a_name a = app) (apps d) of
        None \<Rightarrow> if previousID \<noteq> [] then Inl ErrCandidateBindingConflict else Inr ()
      | Some a \<Rightarrow>
          if previousID = [] then
            (if a_deleted a = None then Inl ErrCandidateBindingConflict else Inr ())
          else if a_deleted a \<noteq> None \<or> a_id a \<noteq> previousID \<or> a_state a \<noteq> previousState
          then Inl ErrCandidateBindingConflict
          else (case FromJSON (a_state a) of
              Inl _ \<Rightarrow> Inl ErrCandidateBindingConflict
            | Inr pre \<Rightarrow>
                if config_JSON pre \<noteq> a_state a \<or> cfg_Name pre \<noteq> app \<or> cfg_Hosting pre = None
                   \<or> state_Mode (cfg_State pre) \<noteq> ''stateless''
                   \<or> (\<not> withdrawal \<and> service_Port (cfg_Service pre) \<noteq> service_Port (cfg_Service candidate))
                   \<or> \<not> is_ok (Validate lib pre)
                then Inl ErrCandidateBindingConflict else Inr ()))"

section \<open>Bindings\<close>

definition find_binding :: "db \<Rightarrow> string \<Rightarrow> string \<Rightarrow> bind_row option" where
  "find_binding d app rid = tsel (\<lambda>b. b_key b = (app, rid)) (bindings d)"

definition scan_binding :: "bind_row \<Rightarrow> db_err + candidate_binding" where
  "scan_binding b = rbind (parseStoredTime (b_created b)) (\<lambda>t.
     Inr \<lparr>bind_AppName = b_app b, bind_RequestID = b_id b, bind_AppID = b_app_id b,
          bind_DeploymentID = b_dep_id b, bind_CreatedAt = t\<rparr>)"

definition WithdrawalRequested :: "string \<Rightarrow> string \<Rightarrow> db \<Rightarrow> bool" where
  "WithdrawalRequested app rid d \<longleftrightarrow> (\<exists>w \<in> set (withdrawals d). w_key w = (app, rid))"

definition pending_app :: "string \<Rightarrow> string \<Rightarrow> gotime \<Rightarrow> string \<Rightarrow> string \<Rightarrow> app_row" where
  "pending_app ident name now img requested =
     \<lparr>a_id = ident, a_name = name, a_image = img, a_state = requested, a_created = formatTime now,
      a_updated = formatTime now, a_deleted = Some (formatTime now)\<rparr>"

definition pending_deployment :: "string \<Rightarrow> string \<Rightarrow> gotime \<Rightarrow> dep_row" where
  "pending_deployment ident appID now =
     \<lparr>d_id = ident, d_app_id = appID, d_status = ''pending'', d_failure = None,
      d_created = formatTime now, d_updated = formatTime now\<rparr>"

definition new_binding :: "string \<Rightarrow> string \<Rightarrow> string \<Rightarrow> string \<Rightarrow> gotime \<Rightarrow> bind_row" where
  "new_binding app rid appID depID now =
     \<lparr>b_app = app, b_id = rid, b_app_id = appID, b_dep_id = depID, b_created = formatTime now\<rparr>"

text \<open>The branch of \<^verbatim>\<open>beginCandidate\<close> for a request that already has a binding.\<close>

definition replay_candidate :: "deploy_request \<Rightarrow> bind_row \<Rightarrow> gotime \<Rightarrow> bool \<Rightarrow> (candidate_binding \<times> bool) tx" where
  "replay_candidate req b now withdrawal d =
     rbind (of_option ErrNotFound (find_request d (req_AppName req) (req_RequestID req))) (\<lambda>r.
     if q_requested r \<noteq> req_RequestedState req \<or> q_report r \<noteq> req_ReportWithdrawal req
     then Inl ErrCandidateBindingConflict
     else rbind (scan_binding b) (\<lambda>binding.
       if withdrawal \<and> q_state r = ''pending'' \<and> \<not> WithdrawalRequested (req_AppName req) (req_RequestID req) d
       then Inr ((binding, False),
                 d\<lparr>withdrawals := withdrawals d @
                     [\<lparr>w_app = req_AppName req, w_id = req_RequestID req, w_at = formatTime now\<rparr>]\<rparr>)
       else Inr ((binding, False), d)))"

text \<open>The inserts of a new candidate: request, app row when none exists, deployment, binding, withdrawal.\<close>

definition insert_candidate ::
  "deploy_request \<Rightarrow> config \<Rightarrow> app_row option \<Rightarrow> app_row option \<Rightarrow> string \<Rightarrow> string \<Rightarrow> gotime \<Rightarrow> bool
   \<Rightarrow> (candidate_binding \<times> bool) tx" where
  "insert_candidate req cfg active existing proposedAppID deploymentID now withdrawal d =
     rbind (map_err (\<lambda>_. ErrCandidateBindingConflict) (insert_request (new_request req active now now) d)) (\<lambda>d1.
     rbind (if parseOptionalString (map_option a_id existing) \<noteq> []
            then Inr (parseOptionalString (map_option a_id existing), d1)
            else if active \<noteq> None then Inr (parseOptionalString (map_option a_id active), d1)
            else rbind (insert_app (pending_app proposedAppID (req_AppName req) now (cfg_Image cfg) (req_RequestedState req)) d1)
                   (\<lambda>d2. Inr (proposedAppID, d2))) (\<lambda>(actualID, d2).
     rbind (insert_deployment (pending_deployment deploymentID actualID now) d2) (\<lambda>d3.
     rbind (insert_binding (new_binding (req_AppName req) (req_RequestID req) actualID deploymentID now) d3) (\<lambda>d4.
     rbind (if withdrawal then insert_withdrawal \<lparr>w_app = req_AppName req, w_id = req_RequestID req, w_at = formatTime now\<rparr> d4
            else Inr d4) (\<lambda>d5.
     Inr ((\<lparr>bind_AppName = req_AppName req, bind_RequestID = req_RequestID req, bind_AppID = actualID,
            bind_DeploymentID = deploymentID, bind_CreatedAt = now\<rparr>, True), d5))))))"

text \<open>
  \<^verbatim>\<open>beginCandidate\<close>. \<open>active\<close> is the row of the first app query (\<^verbatim>\<open>previousID\<close>, \<^verbatim>\<open>previousState\<close>), \<open>existing\<close>
  the row of the second (\<^verbatim>\<open>deletedID\<close>, \<^verbatim>\<open>deletedState\<close>, \<^verbatim>\<open>deletedAt\<close>). Both identifiers of a row are
  non-null columns, so \<^verbatim>\<open>previousID.Valid = previousState.Valid\<close>.
\<close>

definition beginCandidate ::
  "k8s_lib \<Rightarrow> deploy_request \<Rightarrow> string \<Rightarrow> string \<Rightarrow> gotime \<Rightarrow> bool \<Rightarrow> (candidate_binding \<times> bool) tx" where
  "beginCandidate lib req proposedAppID deploymentID now withdrawal d =
     (if TrimSpace (req_AppName req) = [] \<or> \<not> deployRequestID (req_RequestID req) \<or> TrimSpace proposedAppID = []
         \<or> TrimSpace deploymentID = [] \<or> IsZero now
      then Inl ErrCandidateBindingConflict
      else rbind (validateCandidateDeployRequest lib req) (\<lambda>cfg.
        case find_binding d (req_AppName req) (req_RequestID req) of
          Some b \<Rightarrow> replay_candidate req b now withdrawal d
        | None \<Rightarrow>
            if tsel (\<lambda>r. q_app r = req_AppName req \<and> q_state r = ''pending'') (requests d) \<noteq> None
            then Inl ErrCandidateBindingConflict
            else if find_request d (req_AppName req) (req_RequestID req) \<noteq> None
            then Inl ErrCandidateBindingConflict
            else
              let active = active_app d (req_AppName req);
                  existing = tsel (\<lambda>a. a_name a = req_AppName req) (apps d);
                  previousID = parseOptionalString (map_option a_id active);
                  previousState = parseOptionalString (map_option a_state active)
              in if active = None \<and> opt_holds (\<lambda>e. a_id e \<noteq> [] \<and> a_deleted e = None) existing
                 then Inl ErrCandidateBindingConflict
                 else if opt_holds (\<lambda>a. \<not> opt_holds (\<lambda>e. a_id e = a_id a \<and> a_deleted e = None \<and> a_state e = a_state a) existing) active
                 then Inl ErrCandidateBindingConflict
                 else rbind (if withdrawal then Inr () else validateCandidateDomainAdmission d (req_AppName req) cfg) (\<lambda>_.
                      rbind (validateCandidatePredecessor lib d (req_AppName req) previousID previousState cfg withdrawal) (\<lambda>_.
                      insert_candidate req cfg active existing proposedAppID deploymentID now withdrawal d))))"

definition binding_Begin :: "k8s_lib \<Rightarrow> deploy_request \<Rightarrow> string \<Rightarrow> string \<Rightarrow> gotime \<Rightarrow> (candidate_binding \<times> bool) tx" where
  "binding_Begin lib req proposedAppID deploymentID now = beginCandidate lib req proposedAppID deploymentID now False"

definition BeginWithdrawal :: "k8s_lib \<Rightarrow> deploy_request \<Rightarrow> string \<Rightarrow> string \<Rightarrow> gotime \<Rightarrow> (candidate_binding \<times> bool) tx" where
  "BeginWithdrawal lib req proposedAppID deploymentID now = beginCandidate lib req proposedAppID deploymentID now True"

text \<open>The part of \<^verbatim>\<open>Bind\<close> that finds or inserts the app row of the request.\<close>

definition bind_app_row :: "string \<Rightarrow> string \<Rightarrow> string \<Rightarrow> string \<Rightarrow> app_row \<Rightarrow> db \<Rightarrow> db_err + db" where
  "bind_app_row app appID previousID previousState row d =
     (case tsel (\<lambda>a. a_name a = app) (apps d) of
        None \<Rightarrow> if previousID \<noteq> [] then Inl ErrCandidateBindingConflict else insert_app row d
      | Some a \<Rightarrow>
          if a_deleted a = None then
            (if a_id a \<noteq> appID \<or> previousID \<noteq> a_id a \<or> a_state a \<noteq> previousState
             then Inl ErrCandidateBindingConflict else Inr d)
          else if a_id a \<noteq> appID then Inl ErrCandidateBindingConflict else Inr d)"

definition bind_new :: "k8s_lib \<Rightarrow> string \<Rightarrow> string \<Rightarrow> string \<Rightarrow> string \<Rightarrow> gotime \<Rightarrow> req_row \<Rightarrow> candidate_binding tx" where
  "bind_new lib app rid appID depID now r d =
     (if q_state r \<noteq> ''pending'' then Inl ErrCandidateBindingConflict
      else if (q_prev_id r = None) \<noteq> (q_prev_state r = None)
              \<or> (parseOptionalString (q_prev_id r) = []) \<noteq> (parseOptionalString (q_prev_state r) = [])
      then Inl ErrCandidateBindingConflict
      else
        let previousID = parseOptionalString (q_prev_id r); previousState = parseOptionalString (q_prev_state r) in
        case FromJSON (q_requested r) of
          Inl _ \<Rightarrow> Inl ErrCandidateBindingConflict
        | Inr cfg \<Rightarrow>
            if config_JSON cfg \<noteq> q_requested r \<or> cfg_Name cfg \<noteq> app \<or> cfg_Hosting cfg = None
               \<or> state_Mode (cfg_State cfg) \<noteq> ''stateless'' \<or> \<not> is_ok (Validate lib cfg)
            then Inl ErrCandidateBindingConflict
            else rbind (validateCandidatePredecessor lib d app previousID previousState cfg False) (\<lambda>_.
              rbind (bind_app_row app appID previousID previousState
                       (pending_app appID app now (cfg_Image cfg) (q_requested r)) d) (\<lambda>d1.
              rbind (insert_deployment (pending_deployment depID appID now) d1) (\<lambda>d2.
              rbind (insert_binding (new_binding app rid appID depID now) d2) (\<lambda>d3.
              Inr (\<lparr>bind_AppName = app, bind_RequestID = rid, bind_AppID = appID,
                    bind_DeploymentID = depID, bind_CreatedAt = now\<rparr>, d3))))))"

definition Bind :: "k8s_lib \<Rightarrow> string \<Rightarrow> string \<Rightarrow> string \<Rightarrow> string \<Rightarrow> gotime \<Rightarrow> candidate_binding tx" where
  "Bind lib app rid appID depID now d =
     (if TrimSpace app = [] \<or> \<not> deployRequestID rid \<or> TrimSpace appID = [] \<or> TrimSpace depID = [] \<or> IsZero now
      then Inl ErrCandidateBindingConflict
      else case find_binding d app rid of
        Some b \<Rightarrow> rbind (scan_binding b) (\<lambda>binding.
          if bind_AppID binding \<noteq> appID \<or> bind_DeploymentID binding \<noteq> depID then Inl ErrCandidateBindingConflict
          else Inr (binding, d))
      | None \<Rightarrow> rbind (of_option ErrNotFound (find_request d app rid)) (\<lambda>r. bind_new lib app rid appID depID now r d))"

definition binding_Find :: "string \<Rightarrow> string \<Rightarrow> db \<Rightarrow> db_err + candidate_binding" where
  "binding_Find app rid d =
     (if TrimSpace app = [] \<or> \<not> deployRequestID rid then Inl ErrCandidateBindingConflict
      else rbind (of_option ErrNotFound (find_binding d app rid)) scan_binding)"

text \<open>The join of bindings and requests, ordered by the stored text of \<^verbatim>\<open>created_at\<close>, then request.\<close>

definition GenerationsByApp :: "string \<Rightarrow> string \<Rightarrow> db \<Rightarrow> candidate_generation list" where
  "GenerationsByApp app appID d =
     concat (map (\<lambda>b. map (\<lambda>r. \<lparr>gen_AppName = b_app b, gen_AppID = b_app_id b, gen_RequestID = b_id b,
                                gen_RequestedState = q_requested r, gen_State = q_state r\<rparr>)
                        (filter (\<lambda>r. q_key r = b_key b) (requests d)))
       (sort_key b_created (sort_key b_id (filter (\<lambda>b. b_app b = app \<and> b_app_id b = appID) (bindings d)))))"

section \<open>Finalization\<close>

text \<open>The three members \<^verbatim>\<open>Finalize\<close> reads of the saved intent.\<close>

record saved_intent =
  si_AppName :: string
  si_RequestID :: string
  si_RequestedState :: string

definition dec_saved_intent :: "saved_intent dec" where
  "dec_saved_intent = dec_struct [fld ''app_name'' dec_string si_AppName si_AppName_update,
     fld ''request_id'' dec_string si_RequestID si_RequestID_update,
     fld ''requested_state'' dec_string si_RequestedState si_RequestedState_update]"

definition read_saved_intent :: "string \<Rightarrow> saved_intent option" where
  "read_saved_intent s = (case json_parse s of None \<Rightarrow> None
     | Some j \<Rightarrow> dec_saved_intent j \<lparr>si_AppName = [], si_RequestID = [], si_RequestedState = []\<rparr>)"

definition str_member :: "string \<Rightarrow> string \<Rightarrow> (string \<times> json) list" where
  "str_member k s = omitempty (s = []) k (JStr s)"

text \<open>A Go conversion \<^verbatim>\<open>int32(x)\<close> wraps around.\<close>

definition to_int32 :: "int \<Rightarrow> int" where
  "to_int32 i = (i + 2 ^ 31) mod 2 ^ 32 - 2 ^ 31"

definition reply_JSON :: "app \<Rightarrow> deployment \<Rightarrow> int \<Rightarrow> string \<Rightarrow> bool \<Rightarrow> string" where
  "reply_JSON a dep replicas requested withdrawn = print_json (JObj (
     [(''app'', JObj (str_member ''id'' (app_ID a) @ str_member ''name'' (app_Name a) @ str_member ''image'' (app_Image a)
        @ omitempty (to_int32 replicas = 0) ''replicas'' (JInt (to_int32 replicas))
        @ str_member ''desired_state'' (app_DesiredStateJSON a)
        @ str_member ''created_at'' (formatTime (app_CreatedAt a)) @ str_member ''updated_at'' (formatTime (app_UpdatedAt a)))),
      (''deployment'', JObj (str_member ''id'' (dep_ID dep) @ str_member ''app_id'' (dep_AppID dep)
        @ str_member ''status'' (dep_Status dep) @ str_member ''failure_reason'' (dep_FailureReason dep)
        @ str_member ''created_at'' (formatTime (dep_CreatedAt dep)) @ str_member ''updated_at'' (formatTime (dep_UpdatedAt dep))))]
     @ omitempty (\<not> withdrawn) ''withdrawal_confirmed'' (JBool withdrawn)
     @ str_member ''requested_state'' requested))"

definition hex_encode :: "nat list \<Rightarrow> string" where
  "hex_encode bs = concat (map (\<lambda>b. [hex_char (b div 16), hex_char (b mod 16)]) bs)"

definition route_id_for :: "(string \<Rightarrow> nat list) \<Rightarrow> string \<Rightarrow> string \<Rightarrow> string" where
  "route_id_for sha256 app rid = ''route_'' @ hex_encode (take 16 (sha256 (app @ [CHR 0x00] @ rid)))"

text \<open>The reads and checks of \<^verbatim>\<open>Finalize\<close> on a pending request, before its writes.\<close>

definition finalize_checks ::
  "k8s_lib \<Rightarrow> string \<Rightarrow> string \<Rightarrow> string \<Rightarrow> string \<Rightarrow> req_row \<Rightarrow> bind_row \<Rightarrow> db \<Rightarrow> db_err + (config \<times> app \<times> deployment)" where
  "finalize_checks lib app rid outcome expectedGate r b d =
     rbind (of_option ErrNotFound (find_checkpoint d app rid)) (\<lambda>c.
     let wantedStage = (if outcome = ''withdrawn'' then ''withdrawn'' else ''activated'');
         previousID = parseOptionalString (q_prev_id r); previousState = parseOptionalString (q_prev_state r) in
     if c_stage c \<noteq> wantedStage \<or> c_gate c \<noteq> expectedGate then Inl ErrCandidateFinalizationConflict
     else if \<not> opt_holds (\<lambda>i. si_AppName i = app \<and> si_RequestID i = rid
                    \<and> si_RequestedState i = q_requested r) (read_saved_intent (c_intent c))
     then Inl ErrCandidateFinalizationConflict
     else rbind (map_err ErrConfig (FromJSON (q_requested r))) (\<lambda>cfg.
       rbind (map_err ErrConfig (Validate lib cfg)) (\<lambda>_.
       if cfg_Name cfg \<noteq> app \<or> cfg_Hosting cfg = None \<or> state_Mode (cfg_State cfg) \<noteq> ''stateless''
       then Inl ErrCandidateFinalizationConflict
       else rbind (rbind (of_option ErrNotFound (tsel (\<lambda>a. a_id a = b_app_id b) (apps d))) scanApp) (\<lambda>a.
         if app_Name a \<noteq> app \<or> (previousID = []) \<noteq> (previousState = []) then Inl ErrCandidateFinalizationConflict
         else if previousID \<noteq> [] \<and> (app_ID a \<noteq> previousID \<or> app_DesiredStateJSON a \<noteq> previousState \<or> app_DeletedAt a \<noteq> None)
         then Inl ErrCandidateFinalizationConflict
         else if previousID = [] \<and> app_DeletedAt a = None then Inl ErrCandidateFinalizationConflict
         else rbind (rbind (of_option ErrNotFound (tsel (\<lambda>x. d_id x = b_dep_id b) (deployments d))) scanDeployment) (\<lambda>dep.
           if dep_AppID dep \<noteq> b_app_id b \<or> dep_Status dep \<noteq> ''pending'' then Inl ErrCandidateFinalizationConflict
           else Inr (cfg, a, dep))))))"

text \<open>The app and route writes of the two outcomes; the result is the app struct and the new database.\<close>

definition finalize_applied ::
  "(string \<Rightarrow> nat list) \<Rightarrow> string \<Rightarrow> string \<Rightarrow> string \<Rightarrow> bool \<Rightarrow> gotime \<Rightarrow> config \<Rightarrow> app \<Rightarrow> db \<Rightarrow> db_err + (app \<times> db)" where
  "finalize_applied sha256 app rid requested tls now cfg a d =
     (let appID = app_ID a;
          d1 = d\<lparr>apps := tupd (\<lambda>x. a_id x = appID) (\<lambda>x. x\<lparr>a_image := cfg_Image cfg, a_state := requested,
                 a_updated := formatTime now, a_deleted := None\<rparr>) (apps d)\<rparr>;
          a' = a\<lparr>app_Image := cfg_Image cfg, app_DesiredStateJSON := requested, app_UpdatedAt := now, app_DeletedAt := None\<rparr>
      in rbind (mapRowsAffected (taff (\<lambda>x. a_id x = appID) (apps d)) d1) (\<lambda>d1.
         rbind (if routing_Domain (cfg_Routing cfg) = [] then Inr (delete_routes appID d1)
                else upsert_route \<lparr>r_id = route_id_for sha256 app rid, r_app_id = appID,
                       r_domain = routing_Domain (cfg_Routing cfg), r_port = service_Port (cfg_Service cfg),
                       r_status = ''pending'', r_tls = (if tls then 1 else 0),
                       r_created = formatTime now, r_updated = formatTime now\<rparr> d1) (\<lambda>d2.
         Inr (a', d2))))"

definition finalize_withdrawn :: "req_row \<Rightarrow> app \<Rightarrow> db \<Rightarrow> db_err + (app \<times> db)" where
  "finalize_withdrawn r a d =
     Inr (a, if parseOptionalString (q_prev_id r) = [] then delete_routes (app_ID a) d else d)"

text \<open>The last writes: deployment status, immutable reply and request state.\<close>

definition finalize_commit ::
  "string \<Rightarrow> string \<Rightarrow> string \<Rightarrow> gotime \<Rightarrow> string \<Rightarrow> app \<Rightarrow> deployment \<Rightarrow> string tx" where
  "finalize_commit app rid outcome now requested a dep d =
     (let status = (if outcome = ''applied'' then ''healthy'' else ''failed'');
          reason = (if outcome = ''applied'' then [] else ''Deployment withdrawn after confirmed runtime recovery'');
          P = (\<lambda>x. d_id x = dep_ID dep \<and> d_status x = ''pending'');
          d1 = d\<lparr>deployments := tupd P (\<lambda>x. x\<lparr>d_status := status, d_failure := optionalString reason,
                     d_updated := formatTime now\<rparr>) (deployments d)\<rparr> in
      rbind (mapRowsAffected (taff P (deployments d)) d1) (\<lambda>d1.
      rbind (map_err ErrConfig (FromJSON (app_DesiredStateJSON a))) (\<lambda>resultCfg.
      let dep' = dep\<lparr>dep_Status := status, dep_FailureReason := reason, dep_UpdatedAt := now\<rparr>;
          encoded = reply_JSON a dep' (deploy_Replicas (cfg_Deploy resultCfg)) requested (outcome = ''withdrawn'');
          Q = (\<lambda>x. q_key x = (app, rid) \<and> q_state x = ''pending'');
          d2 = d1\<lparr>requests := tupd Q (\<lambda>x. x\<lparr>q_state := outcome, q_response := Some encoded,
                     q_updated := formatTime now\<rparr>) (requests d1)\<rparr> in
      rbind (mapRowsAffected (taff Q (requests d1)) d2) (\<lambda>d2. Inr (encoded, d2)))))"

definition Finalize ::
  "k8s_lib \<Rightarrow> (string \<Rightarrow> nat list) \<Rightarrow> string \<Rightarrow> string \<Rightarrow> string \<Rightarrow> string \<Rightarrow> bool \<Rightarrow> gotime \<Rightarrow> string tx" where
  "Finalize lib sha256 app rid outcome expectedGate tls now d =
     (if app = [] \<or> \<not> deployRequestID rid \<or> (outcome \<noteq> ''applied'' \<and> outcome \<noteq> ''withdrawn'')
         \<or> expectedGate = [] \<or> IsZero now
      then Inl ErrCandidateFinalizationConflict
      else rbind (of_option ErrNotFound (find_request d app rid)) (\<lambda>r.
        rbind (of_option ErrNotFound (find_binding d app rid)) (\<lambda>b.
        if q_state r \<noteq> ''pending'' then
          (case q_response r of
             Some response \<Rightarrow>
               if q_state r = outcome \<and> json_Valid response then Inr (response, d) else Inl ErrCandidateFinalizationConflict
           | None \<Rightarrow> Inl ErrCandidateFinalizationConflict)
        else rbind (finalize_checks lib app rid outcome expectedGate r b d) (\<lambda>(cfg, a, dep).
          rbind (if outcome = ''applied'' then finalize_applied sha256 app rid (q_requested r) tls now cfg a d
                 else finalize_withdrawn r a d) (\<lambda>(a', d1).
          finalize_commit app rid outcome now (q_requested r) a' dep d1)))))"

end
