(* ===== verification/Io.thy ===== *)
theory Io
  imports Binding_Repo
begin

text \<open>
  Effectful server code: a function of a world that returns an error or a value, and the world it
  leaves behind. Unlike a database transaction, an error keeps the effects made before it, which is
  what makes recovery of a half-done operation necessary.
\<close>

text \<open>
  Errors of the runtime: the ones the server asks for by name, an API status with its code, several
  joined errors, an error wrapped in another, any other.
\<close>

datatype rt_err = RtNotFound | RtNotReady | RtSuperseded | RtStatus int | RtJoined "rt_err list" | RtWrapped rt_err | RtOther string

text \<open>
  Errors of the server: an error value with its text, one returned by the database or the runtime
  unchanged, a gRPC status, a cancelled context, or \<^verbatim>\<open>requiredSecretNotSetError\<close> with the secret's name.
\<close>

datatype grpc_code = InvalidArgument | FailedPrecondition | Internal | Unauthenticated | PermissionDenied
  | NotFound | AlreadyExists | ResourceExhausted

datatype srv_err = ErrText string | ErrDb db_err | ErrRt rt_err | ErrStatus grpc_code string | ErrCtx | ErrMissingSecret string

type_synonym ('s, 'a) io = "'s \<Rightarrow> (srv_err + 'a) \<times> 's"

definition io_ret :: "'a \<Rightarrow> ('s, 'a) io" where
  "io_ret x s = (Inr x, s)"

definition io_fail :: "srv_err \<Rightarrow> ('s, 'a) io" where
  "io_fail e s = (Inl e, s)"

definition io_bind :: "('s, 'a) io \<Rightarrow> ('a \<Rightarrow> ('s, 'b) io) \<Rightarrow> ('s, 'b) io" where
  "io_bind m f s = (case m s of (Inl e, s') \<Rightarrow> (Inl e, s') | (Inr x, s') \<Rightarrow> f x s')"

text \<open>\<^verbatim>\<open>x, err := m; ...\<close> where the code inspects the error itself.\<close>

definition io_try :: "('s, 'a) io \<Rightarrow> (srv_err + 'a \<Rightarrow> ('s, 'b) io) \<Rightarrow> ('s, 'b) io" where
  "io_try m f s = (case m s of (r, s') \<Rightarrow> f r s')"

text \<open>\<^verbatim>\<open>if err != nil { return errors.New(...) }\<close>: the error is replaced.\<close>

definition io_wrap :: "srv_err \<Rightarrow> ('s, 'a) io \<Rightarrow> ('s, 'a) io" where
  "io_wrap e m s = (case m s of (Inl _, s') \<Rightarrow> (Inl e, s') | (Inr x, s') \<Rightarrow> (Inr x, s'))"

definition io_guard :: "bool \<Rightarrow> srv_err \<Rightarrow> ('s, unit) io" where
  "io_guard b e = (if b then io_ret () else io_fail e)"

definition io_of :: "srv_err + 'a \<Rightarrow> ('s, 'a) io" where
  "io_of r = (case r of Inl e \<Rightarrow> io_fail e | Inr x \<Rightarrow> io_ret x)"

lemma io_simps [simp]:
  "io_ret x s = (Inr x, s)" "io_fail e s = (Inl e, s)"
  "io_bind (io_ret x) f = f x" "io_bind (io_fail e) f = io_fail e"
  "io_try (io_ret x) g = g (Inr x)" "io_try (io_fail e) g = g (Inl e)"
  "io_guard True e = io_ret ()" "io_guard False e = io_fail e"
  "io_of (Inl e) = io_fail e" "io_of (Inr x) = io_ret x"
  by (auto simp: io_ret_def io_fail_def io_bind_def io_try_def io_guard_def io_of_def fun_eq_iff)

lemma io_bind_guard [simp]: "io_bind (io_guard b e) f = (if b then f () else io_fail e)"
  by simp

section \<open>Invariants of programs\<close>

text \<open>
  \<open>keeps R m\<close>: whatever \<open>m\<close> returns, the world before and after are related by the preorder \<open>R\<close>.
\<close>

locale world_preorder =
  fixes R :: "'s \<Rightarrow> 's \<Rightarrow> bool"
  assumes R_refl: "R s s" and R_trans: "R s t \<Longrightarrow> R t u \<Longrightarrow> R s u"
begin

definition keeps :: "('s, 'a) io \<Rightarrow> bool" where
  "keeps m \<longleftrightarrow> (\<forall>s. R s (snd (m s)))"

lemma keeps_ret: "keeps (io_ret x)"
  by (simp add: keeps_def R_refl)

lemma keeps_fail: "keeps (io_fail e)"
  by (simp add: keeps_def R_refl)

lemma keeps_bind: "keeps m \<Longrightarrow> (\<And>x. keeps (f x)) \<Longrightarrow> keeps (io_bind m f)"
  unfolding keeps_def io_bind_def
  by (auto split: prod.splits sum.splits) (metis R_trans snd_conv)+

lemma keeps_try: "keeps m \<Longrightarrow> (\<And>r. keeps (f r)) \<Longrightarrow> keeps (io_try m f)"
  unfolding keeps_def io_try_def
  by (auto split: prod.splits) (metis R_trans snd_conv)

lemma keeps_wrap: "keeps m \<Longrightarrow> keeps (io_wrap e m)"
  unfolding keeps_def io_wrap_def
  by (auto split: prod.splits sum.splits) (metis snd_conv)+

lemma keeps_of: "keeps (io_of r)"
  by (cases r) (simp_all add: keeps_ret keeps_fail)

lemma keeps_if: "keeps m \<Longrightarrow> keeps n \<Longrightarrow> keeps (if b then m else n)"
  by simp

lemma keeps_split: "(\<And>a b. keeps (f a b)) \<Longrightarrow> keeps (case p of (a, b) \<Rightarrow> f a b)"
  by (cases p) simp

lemma keeps_option: "keeps m \<Longrightarrow> (\<And>x. keeps (f x)) \<Longrightarrow> keeps (case z of None \<Rightarrow> m | Some x \<Rightarrow> f x)"
  by (cases z) simp_all

lemma keeps_sum: "(\<And>e. keeps (f e)) \<Longrightarrow> (\<And>x. keeps (g x)) \<Longrightarrow> keeps (case z of Inl e \<Rightarrow> f e | Inr x \<Rightarrow> g x)"
  by (cases z) simp_all

lemma keeps_guard: "keeps (io_guard b e)"
  by (cases b) (simp_all add: keeps_ret keeps_fail)

lemmas keeps_intros = keeps_ret keeps_fail keeps_bind keeps_try keeps_wrap keeps_of keeps_if keeps_split keeps_option keeps_sum keeps_guard

end

end
