(* ===== verification/Candidate_Names.thy ===== *)
theory Candidate_Names
  imports Io
begin

text \<open>
  The activation gate and target (\<^verbatim>\<open>internal/ingress/activation.go\<close>), their JSON, and the pure helpers
  of \<^verbatim>\<open>internal/ingress\<close> that derive a candidate's names and selectors. SHA-256 is the parameter
  \<open>sha256\<close>; the Kubernetes type \<^verbatim>\<open>ServicePort\<close> is the type parameter \<open>'p\<close> with the operations of
  \<open>port_api\<close>.
\<close>

section \<open>Gate and target\<close>

record gate =
  gate_App :: string
  gate_Namespace :: string
  gate_UID :: string
  gate_ResourceVersion :: string
  gate_OperationID :: string

definition zero_gate :: gate where
  "zero_gate = \<lparr>gate_App = [], gate_Namespace = [], gate_UID = [], gate_ResourceVersion = [], gate_OperationID = []\<rparr>"

record 'p target =
  target_Selector :: gomap
  target_Ports :: "'p list"

text \<open>
  What the code uses of \<^verbatim>\<open>corev1.ServicePort\<close>: its JSON, the fields it compares, and
  \<^verbatim>\<open>apiequality.Semantic.DeepEqual\<close> on targets.
\<close>

record 'p port_api =
  port_enc :: "'p \<Rightarrow> json"
  port_dec :: "json \<Rightarrow> 'p option"
  port_Name :: "'p \<Rightarrow> string"
  port_Port :: "'p \<Rightarrow> int"
  port_TargetPortIs :: "'p \<Rightarrow> int \<Rightarrow> bool"
  port_Protocol :: "'p \<Rightarrow> string"
  DeepEqual :: "'p target \<Rightarrow> 'p target \<Rightarrow> bool"

section \<open>JSON\<close>

definition enc_gate :: "gate \<Rightarrow> json" where
  "enc_gate g = JObj ([(''app'', JStr (gate_App g)), (''namespace'', JStr (gate_Namespace g)), (''uid'', JStr (gate_UID g)),
     (''resource_version'', JStr (gate_ResourceVersion g))]
     @ omitempty (gate_OperationID g = []) ''operation_id'' (JStr (gate_OperationID g)))"

text \<open>\<^verbatim>\<open>DisallowUnknownFields\<close>: a member that matches no field is an error.\<close>

definition known_fields :: "'a fields \<Rightarrow> json \<Rightarrow> bool" where
  "known_fields fs j = (case j of
     JObj ms \<Rightarrow> list_all (\<lambda>(k, v). list_ex (\<lambda>(n, d). fold_name n = fold_name k) fs) ms | _ \<Rightarrow> True)"

definition dec_strict :: "'a fields \<Rightarrow> 'a dec" where
  "dec_strict fs v x = (if known_fields fs v then dec_struct fs v x else None)"

definition gate_fields :: "gate fields" where
  "gate_fields = [fld ''app'' dec_string gate_App gate_App_update,
     fld ''namespace'' dec_string gate_Namespace gate_Namespace_update,
     fld ''uid'' dec_string gate_UID gate_UID_update,
     fld ''resource_version'' dec_string gate_ResourceVersion gate_ResourceVersion_update,
     fld ''operation_id'' dec_string gate_OperationID gate_OperationID_update]"

definition decodeGate :: "string \<Rightarrow> gate option" where
  "decodeGate s = Option.bind (json_parse s) (\<lambda>j. dec_strict gate_fields j zero_gate)"

definition gate_JSON :: "gate \<Rightarrow> string" where
  "gate_JSON g = print_json (enc_gate g)"

text \<open>An empty selector or port list stands for the nil one, which prints as null.\<close>

definition enc_target :: "'p port_api \<Rightarrow> 'p target \<Rightarrow> json" where
  "enc_target api t = JObj [(''selector'', if target_Selector t = [] then JNull else enc_map (target_Selector t)),
     (''ports'', if target_Ports t = [] then JNull else JArr (map (port_enc api) (target_Ports t)))]"

definition dec_target :: "'p port_api \<Rightarrow> 'p \<Rightarrow> 'p target dec" where
  "dec_target api zero = dec_strict [fld ''selector'' dec_map target_Selector target_Selector_update,
     fld ''ports'' (dec_list zero (\<lambda>v _. port_dec api v)) target_Ports target_Ports_update]"

section \<open>Names\<close>

text \<open>\<^verbatim>\<open>hex.EncodeToString(sum[:])\<close> of a SHA-256 sum.\<close>

definition sha_hex :: "(string \<Rightarrow> nat list) \<Rightarrow> string \<Rightarrow> string" where
  "sha_hex sha256 s = hex_encode (sha256 s)"

definition candidateGeneration :: "(string \<Rightarrow> nat list) \<Rightarrow> string \<Rightarrow> string \<Rightarrow> string" where
  "candidateGeneration sha256 app rid = take 32 (sha_hex sha256 (app @ [CHR 0x00] @ rid))"

definition candidateNameForGeneration :: "string \<Rightarrow> string \<Rightarrow> string" where
  "candidateNameForGeneration app generation =
     (let suffix = ''-candidate-'' @ generation;
          name = map to_lower_char (TrimSpace app);
          maxPrefix = 63 - length suffix
      in (if length name > maxPrefix then TrimSuffix (take maxPrefix name) ''-'' else name) @ suffix)"

definition candidateDeploymentName :: "(string \<Rightarrow> nat list) \<Rightarrow> string \<Rightarrow> string \<Rightarrow> string" where
  "candidateDeploymentName sha256 app rid = candidateNameForGeneration app (candidateGeneration sha256 app rid)"

definition CandidateSelector :: "(string \<Rightarrow> nat list) \<Rightarrow> string \<Rightarrow> string \<Rightarrow> gomap option" where
  "CandidateSelector sha256 app rid =
     (if TrimSpace app = [] \<or> \<not> ValidRevision rid then None
      else Some [(''deployer.io/app'', app), (''deployer.io/candidate-generation'', candidateGeneration sha256 app rid)])"

definition registrySecretName :: "(string \<Rightarrow> nat list) \<Rightarrow> string \<Rightarrow> string \<Rightarrow> string" where
  "registrySecretName sha256 app revision =
     take 253 (map to_lower_char (TrimSpace app) @ ''-pull-'' @ take 24 (sha_hex sha256 (app @ [CHR 0x00] @ revision)))"

definition CandidateRegistrySecretName :: "(string \<Rightarrow> nat list) \<Rightarrow> config \<Rightarrow> string" where
  "CandidateRegistrySecretName sha256 cfg =
     (if cfg_ImagePullCredential cfg = [] then [] else registrySecretName sha256 (cfg_Name cfg) (cfg_ImagePullCredential cfg))"

definition ValidateCandidateReferences :: "(string \<Rightarrow> nat list) \<Rightarrow> config \<Rightarrow> string \<Rightarrow> string \<Rightarrow> srv_err + unit" where
  "ValidateCandidateReferences sha256 cfg revision pullSecret =
     (if length (cfg_Secrets cfg) > 0 \<or> revision \<noteq> cfg_EnvironmentRevision cfg
      then Inl (ErrText ''candidate environment reference does not match saved configuration'')
      else
        let expected = (if cfg_ImagePullCredential cfg \<noteq> []
                        then registrySecretName sha256 (cfg_Name cfg) (cfg_ImagePullCredential cfg) else [])
        in if pullSecret \<noteq> expected
           then Inl (ErrText ''candidate registry reference does not match saved configuration'')
           else Inr ())"

definition IsInactiveCandidateTarget :: "'p port_api \<Rightarrow> (string \<Rightarrow> nat list) \<Rightarrow> config \<Rightarrow> string \<Rightarrow> 'p target \<Rightarrow> bool" where
  "IsInactiveCandidateTarget api sha256 cfg rid t =
     (let selector = [(''deployer.io/app'', cfg_Name cfg),
                      (''deployer.io/candidate-generation'', ''inactive-'' @ candidateGeneration sha256 (cfg_Name cfg) rid)];
          n = to_int32 (service_Port (cfg_Service cfg))
      in if \<not> same_map (target_Selector t) selector then False
         else (case target_Ports t of
             [p] \<Rightarrow> port_Name api p = ''http'' \<and> port_Port api p = n \<and> port_TargetPortIs api p n
                    \<and> (port_Protocol api p = [] \<or> port_Protocol api p = ''TCP'')
           | _ \<Rightarrow> False))"

definition candidateRecoveryID :: "(string \<Rightarrow> nat list) \<Rightarrow> string \<Rightarrow> string \<Rightarrow> string" where
  "candidateRecoveryID sha256 app rid = sha_hex sha256 (''candidate-recovery-v1'' @ [CHR 0x00] @ app @ [CHR 0x00] @ rid)"

definition CandidateBootstrapOperationID :: "(string \<Rightarrow> nat list) \<Rightarrow> string \<Rightarrow> string \<Rightarrow> string" where
  "CandidateBootstrapOperationID sha256 app rid = sha_hex sha256 (''candidate-bootstrap-v1'' @ [CHR 0x00] @ app @ [CHR 0x00] @ rid)"

section \<open>Properties\<close>

lemma gate_field:
  "dec_field gate_fields ''app'' v x = map_option (\<lambda>y. x\<lparr>gate_App := y\<rparr>) (dec_string v (gate_App x))"
  "dec_field gate_fields ''namespace'' v x = map_option (\<lambda>y. x\<lparr>gate_Namespace := y\<rparr>) (dec_string v (gate_Namespace x))"
  "dec_field gate_fields ''uid'' v x = map_option (\<lambda>y. x\<lparr>gate_UID := y\<rparr>) (dec_string v (gate_UID x))"
  "dec_field gate_fields ''resource_version'' v x = map_option (\<lambda>y. x\<lparr>gate_ResourceVersion := y\<rparr>) (dec_string v (gate_ResourceVersion x))"
  "dec_field gate_fields ''operation_id'' v x = map_option (\<lambda>y. x\<lparr>gate_OperationID := y\<rparr>) (dec_string v (gate_OperationID x))"
  by (simp_all add: gate_fields_def dec_field_Cons to_lower_char_def is_upper_def)

lemma gate_known: "known_fields gate_fields (enc_gate g)"
  by (simp add: known_fields_def enc_gate_def omitempty_def gate_fields_def to_lower_char_def is_upper_def)

lemma wf_enc_gate: "wf_json (enc_gate g)"
  by (simp add: enc_gate_def ball_Un)

text \<open>A recorded gate is read back exactly.\<close>

lemma decodeGate_JSON: "decodeGate (gate_JSON g) = Some g"
proof -
  have "dec_struct gate_fields (enc_gate g) zero_gate = Some g"
    unfolding enc_gate_def
    by (cases g) (simp add: dec_members_append dec_members_omitempty gate_field zero_gate_def)
  then show ?thesis
    by (simp add: decodeGate_def gate_JSON_def parse_print wf_enc_gate dec_strict_def gate_known)
qed

lemma candidateNameForGeneration_length:
  assumes "length generation \<le> 52"
  shows "length (candidateNameForGeneration app generation) \<le> 63"
  using assms by (auto simp: candidateNameForGeneration_def Let_def TrimSuffix_def)

text \<open>The references the server derives from a configuration are the ones the runtime accepts.\<close>

lemma derived_references_valid:
  "cfg_Secrets cfg = [] \<Longrightarrow>
   ValidateCandidateReferences sha cfg (cfg_EnvironmentRevision cfg) (CandidateRegistrySecretName sha cfg) = Inr ()"
  by (simp add: ValidateCandidateReferences_def CandidateRegistrySecretName_def)

end
