(* ===== verification/Journal.thy ===== *)
theory Journal
  imports Binding_Repo
begin

text \<open>
  The deployment journal as a state machine: one step per repository write, with any arguments. The
  locale \<open>journal_op\<close> is the contract every write fulfils (it keeps the schema and only lets rows
  evolve); it is interpreted for each write of the model, and its lemmas say what a client may rely on:
  a terminal request never changes, a binding and an intent are immutable, checkpoint stages follow
  the transition graph.
\<close>

section \<open>How rows evolve\<close>

definition rows_evolve :: "('r \<Rightarrow> 'r \<Rightarrow> bool) \<Rightarrow> 'r list \<Rightarrow> 'r list \<Rightarrow> bool" where
  "rows_evolve R t t' \<longleftrightarrow> (\<forall>x \<in> set t. \<exists>y \<in> set t'. R x y)"

definition app_evo :: "app_row \<Rightarrow> app_row \<Rightarrow> bool" where
  "app_evo x y \<longleftrightarrow> a_id y = a_id x \<and> a_name y = a_name x"

definition dep_evo :: "dep_row \<Rightarrow> dep_row \<Rightarrow> bool" where
  "dep_evo x y \<longleftrightarrow> d_id y = d_id x \<and> d_app_id y = d_app_id x \<and> d_created y = d_created x"

text \<open>A request keeps its identity, its requested state and its predecessor; a pending one may end.\<close>

definition req_evo :: "req_row \<Rightarrow> req_row \<Rightarrow> bool" where
  "req_evo x y \<longleftrightarrow> y = x \<or>
     (q_state x = ''pending'' \<and> terminal (q_state y) \<and> q_response y \<noteq> None \<and>
      y = x\<lparr>q_state := q_state y, q_response := q_response y, q_updated := q_updated y\<rparr>)"

inductive stage_step :: "string \<Rightarrow> string \<Rightarrow> bool" where
  "validCheckpointTransition s t \<Longrightarrow> stage_step s t"

definition chk_evo :: "chk_row \<Rightarrow> chk_row \<Rightarrow> bool" where
  "chk_evo x y \<longleftrightarrow> c_key y = c_key x \<and> c_intent y = c_intent x \<and> stage_step\<^sup>*\<^sup>* (c_stage x) (c_stage y)"

definition evolves :: "db \<Rightarrow> db \<Rightarrow> bool" where
  "evolves d d' \<longleftrightarrow> rows_evolve app_evo (apps d) (apps d') \<and> rows_evolve dep_evo (deployments d) (deployments d') \<and>
     rows_evolve req_evo (requests d) (requests d') \<and> rows_evolve chk_evo (checkpoints d) (checkpoints d') \<and>
     set (bindings d) \<subseteq> set (bindings d') \<and> set (withdrawals d) \<subseteq> set (withdrawals d')"

lemma evo_refl [simp]: "app_evo x x" "dep_evo y y" "req_evo q q" "chk_evo c c"
  by (simp_all add: app_evo_def dep_evo_def req_evo_def chk_evo_def)

lemma rows_evolve_refl: "(\<And>x. R x x) \<Longrightarrow> rows_evolve R t t"
  by (auto simp: rows_evolve_def)

lemma rows_evolve_append: "(\<And>x. R x x) \<Longrightarrow> rows_evolve R t (t @ u)"
  by (auto simp: rows_evolve_def)

lemma rows_evolve_tupd: "(\<And>x. R x x) \<Longrightarrow> (\<And>x. x \<in> set t \<Longrightarrow> P x \<Longrightarrow> R x (f x)) \<Longrightarrow> rows_evolve R t (tupd P f t)"
  unfolding rows_evolve_def
proof
  fix x assume h: "\<And>x. R x x" "\<And>x. x \<in> set t \<Longrightarrow> P x \<Longrightarrow> R x (f x)" "x \<in> set t"
  then have "(if P x then f x else x) \<in> set (tupd P f t)" by (auto simp: tupd_def)
  moreover have "R x (if P x then f x else x)" using h by simp
  ultimately show "\<exists>y \<in> set (tupd P f t). R x y" by blast
qed

lemma rows_evolve_trans:
  "rows_evolve R t u \<Longrightarrow> rows_evolve R u v \<Longrightarrow> (\<And>x y z. R x y \<Longrightarrow> R y z \<Longrightarrow> R x z) \<Longrightarrow> rows_evolve R t v"
  unfolding rows_evolve_def by meson

lemma req_evo_trans: "req_evo x y \<Longrightarrow> req_evo y z \<Longrightarrow> req_evo x z"
  by (auto simp: req_evo_def terminal_def)

lemma chk_evo_trans: "chk_evo x y \<Longrightarrow> chk_evo y z \<Longrightarrow> chk_evo x z"
  by (auto simp: chk_evo_def)

lemma evolves_refl [simp]: "evolves d d"
  by (simp add: evolves_def rows_evolve_refl)

lemma evolves_trans [trans]: "evolves d d' \<Longrightarrow> evolves d' d'' \<Longrightarrow> evolves d d''"
  unfolding evolves_def
  by (auto intro: rows_evolve_trans [of app_evo] rows_evolve_trans [of dep_evo] rows_evolve_trans [of req_evo]
      rows_evolve_trans [of chk_evo] req_evo_trans chk_evo_trans simp: app_evo_def dep_evo_def)

lemma req_evo_fixed:
  assumes "req_evo x y"
  shows "q_key y = q_key x" and "q_requested y = q_requested x" and "q_prev_id y = q_prev_id x"
    and "q_prev_state y = q_prev_state x" and "q_report y = q_report x"
  using assms by (cases x; cases y; auto simp: req_evo_def q_key_def)+

lemma image_evolves: "rows_evolve R t t' \<Longrightarrow> (\<And>x y. R x y \<Longrightarrow> f y = f x) \<Longrightarrow> f ` set t \<subseteq> f ` set t'"
proof
  fix k assume h: "rows_evolve R t t'" "\<And>x y. R x y \<Longrightarrow> f y = f x" "k \<in> f ` set t"
  then obtain x y where "k = f x" and y: "y \<in> set t'" and "R x y" by (auto simp: rows_evolve_def)
  with h(2) [of x y] have "k = f y" by simp
  with y show "k \<in> f ` set t'" by simp
qed

lemma evolves_keys:
  assumes "evolves d d'"
  shows "q_key ` set (requests d) \<subseteq> q_key ` set (requests d')"
    and "a_id ` set (apps d) \<subseteq> a_id ` set (apps d')"
    and "d_id ` set (deployments d) \<subseteq> d_id ` set (deployments d')"
  using assms req_evo_fixed(1) image_evolves [of req_evo _ _ q_key] image_evolves [of app_evo _ _ a_id]
    image_evolves [of dep_evo _ _ d_id]
  by (simp_all add: evolves_def app_evo_def dep_evo_def)

section \<open>Single statements\<close>

text \<open>The two obligations of a write, together.\<close>

definition good :: "db \<Rightarrow> db \<Rightarrow> bool" where
  "good d d' \<longleftrightarrow> schema_ok d' \<and> evolves d d'"

lemma good_trans: "good d d' \<Longrightarrow> good d' d'' \<Longrightarrow> good d d''"
  using evolves_trans by (auto simp: good_def)

lemma good_refl: "schema_ok d \<Longrightarrow> good d d"
  by (simp add: good_def)

lemma refs_ok_evolves:
  "refs_ok d \<Longrightarrow> evolves d d' \<Longrightarrow> checkpoints d' = checkpoints d \<Longrightarrow> bindings d' = bindings d \<Longrightarrow>
   withdrawals d' = withdrawals d \<Longrightarrow> refs_ok d'"
  unfolding refs_ok_def using evolves_keys [of d d'] by auto

lemmas evolves_intros = rows_evolve_refl rows_evolve_append rows_evolve_tupd

lemma insert_app_good: "insert_app r d = Inr d' \<Longrightarrow> schema_ok d \<Longrightarrow> good d d'"
  by (auto simp: insert_app_def good_def schema_ok_def keys_ok_def evolves_def intro!: evolves_intros keyed_insert
      refs_ok_evolves [of d] split: if_splits)

lemma insert_deployment_good: "insert_deployment r d = Inr d' \<Longrightarrow> schema_ok d \<Longrightarrow> good d d'"
  by (auto simp: insert_deployment_def good_def schema_ok_def keys_ok_def evolves_def intro!: evolves_intros keyed_insert
      refs_ok_evolves [of d] split: if_splits)

lemma insert_request_good: "insert_request r d = Inr d' \<Longrightarrow> schema_ok d \<Longrightarrow> req_ok r \<Longrightarrow> good d d'"
  by (auto simp: insert_request_def good_def schema_ok_def keys_ok_def evolves_def one_pending_def
      intro!: evolves_intros keyed_insert refs_ok_evolves [of d] split: if_splits)

lemma insert_checkpoint_good:
  "insert_checkpoint r d = Inr d' \<Longrightarrow> schema_ok d \<Longrightarrow> c_key r \<in> q_key ` set (requests d) \<Longrightarrow> c_stage r \<in> stages \<Longrightarrow> good d d'"
  by (auto simp: insert_checkpoint_def good_def schema_ok_def keys_ok_def evolves_def refs_ok_def
      intro!: evolves_intros keyed_insert split: if_splits)

lemma insert_binding_good:
  "insert_binding r d = Inr d' \<Longrightarrow> schema_ok d \<Longrightarrow> b_key r \<in> q_key ` set (requests d) \<Longrightarrow>
   b_app_id r \<in> a_id ` set (apps d) \<Longrightarrow> b_dep_id r \<in> d_id ` set (deployments d) \<Longrightarrow> good d d'"
  by (auto simp: insert_binding_def good_def schema_ok_def keys_ok_def evolves_def refs_ok_def
      intro!: evolves_intros keyed_insert split: if_splits)

lemma add_withdrawal_good:
  "schema_ok d \<Longrightarrow> w_key r \<in> q_key ` set (requests d) \<Longrightarrow> \<not> (\<exists>x \<in> set (withdrawals d). w_key x = w_key r) \<Longrightarrow>
   good d (d\<lparr>withdrawals := withdrawals d @ [r]\<rparr>)"
  by (auto simp: good_def schema_ok_def keys_ok_def evolves_def refs_ok_def intro!: evolves_intros keyed_insert)

lemma insert_withdrawal_good:
  "insert_withdrawal r d = Inr d' \<Longrightarrow> schema_ok d \<Longrightarrow> w_key r \<in> q_key ` set (requests d) \<Longrightarrow> good d d'"
  by (auto simp: insert_withdrawal_def intro!: add_withdrawal_good split: if_splits)

text \<open>Routes carry no foreign key; only their unique indexes matter.\<close>

lemma routes_good:
  "schema_ok d \<Longrightarrow> keyed r_id rs \<Longrightarrow> keyed r_domain rs \<Longrightarrow> keyed r_app_id rs \<Longrightarrow> good d (d\<lparr>routes := rs\<rparr>)"
  by (auto simp: good_def schema_ok_def keys_ok_def evolves_def refs_ok_def intro!: evolves_intros)

lemma insert_route_good: "insert_route r d = Inr d' \<Longrightarrow> schema_ok d \<Longrightarrow> good d d'"
  by (auto simp: insert_route_def schema_ok_def keys_ok_def intro!: routes_good keyed_insert split: if_splits)

lemma delete_routes_good: "schema_ok d \<Longrightarrow> good d (delete_routes a d)"
  by (auto simp: delete_routes_def schema_ok_def keys_ok_def intro!: routes_good keyed_delete)

lemma keyed_upsert_domain:
  assumes "keyed r_app_id t" and "keyed r_domain t"
    and "\<not> (\<exists>x \<in> set t. r_app_id x \<noteq> a \<and> r_domain x = dn)"
    and "\<And>x. r_domain (f x) = dn" "\<And>x. r_app_id (f x) = r_app_id x"
  shows "keyed r_domain (tupd (\<lambda>x. r_app_id x = a) f t)"
proof -
  let ?g = "\<lambda>x. if r_app_id x = a then f x else x"
  have "x = y" if xy: "x \<in> set t" "y \<in> set t" "r_domain (?g x) = r_domain (?g y)" for x y
    using xy assms(3,4) keyed_unique [OF assms(1) xy(1,2)] keyed_unique [OF assms(2) xy(1,2)]
    by (auto split: if_splits)
  then have "inj_on (r_domain \<circ> ?g) (set t)" by (auto simp: inj_on_def)
  moreover have "distinct t" using assms(1) by (simp add: keyed_def distinct_map)
  ultimately show ?thesis by (simp add: keyed_def tupd_def distinct_map)
qed

lemma upsert_route_good: "upsert_route r d = Inr d' \<Longrightarrow> schema_ok d \<Longrightarrow> good d d'"
proof (cases "\<exists>x \<in> set (routes d). r_app_id x = r_app_id r")
  case True
  assume h: "upsert_route r d = Inr d'" and ok: "schema_ok d"
  let ?P = "\<lambda>x. r_app_id x = r_app_id r"
  let ?f = "\<lambda>x. x\<lparr>r_domain := r_domain r, r_port := r_port r, r_status := r_status r, r_tls := r_tls r, r_updated := r_updated r\<rparr>"
  from h True have d': "d' = d\<lparr>routes := tupd ?P ?f (routes d)\<rparr>"
    and other: "\<not> (\<exists>x \<in> set (routes d). r_app_id x \<noteq> r_app_id r \<and> r_domain x = r_domain r)"
    by (auto simp: upsert_route_def split: if_splits)
  have "keyed r_id (tupd ?P ?f (routes d))" "keyed r_app_id (tupd ?P ?f (routes d))"
    using ok by (auto simp: schema_ok_def keys_ok_def intro!: keyed_update)
  moreover have "keyed r_domain (tupd ?P ?f (routes d))"
    using ok other by (intro keyed_upsert_domain) (auto simp: schema_ok_def keys_ok_def)
  ultimately show ?thesis using ok by (simp add: d' routes_good)
qed (simp add: upsert_route_def insert_route_good)

lemma update_apps_good:
  "schema_ok d \<Longrightarrow> (\<And>x. app_evo x (f x)) \<Longrightarrow> good d (d\<lparr>apps := tupd P f (apps d)\<rparr>)"
  by (auto simp: good_def schema_ok_def keys_ok_def evolves_def app_evo_def
      intro!: evolves_intros keyed_update refs_ok_evolves [of d])

lemma update_deployments_good:
  "schema_ok d \<Longrightarrow> (\<And>x. dep_evo x (f x)) \<Longrightarrow> good d (d\<lparr>deployments := tupd P f (deployments d)\<rparr>)"
  by (auto simp: good_def schema_ok_def keys_ok_def evolves_def dep_evo_def
      intro!: evolves_intros keyed_update refs_ok_evolves [of d])

text \<open>Ending a pending request.\<close>

lemma update_requests_good:
  assumes ok: "schema_ok d"
    and P: "\<And>x. P x \<Longrightarrow> q_state x = ''pending''"
    and f: "\<And>x. f x = x\<lparr>q_state := s, q_response := Some resp, q_updated := u\<rparr>" and s: "terminal s"
  shows "good d (d\<lparr>requests := tupd P f (requests d)\<rparr>)"
proof -
  have ev: "evolves d (d\<lparr>requests := tupd P f (requests d)\<rparr>)"
    unfolding evolves_def using P s
    by (auto simp: f req_evo_def intro!: evolves_intros)
  have "keyed q_key (tupd P f (requests d))"
    using ok by (intro keyed_update) (auto simp: schema_ok_def keys_ok_def f q_key_def)
  moreover have "\<forall>x \<in> set (tupd P f (requests d)). req_ok x"
    using ok s by (auto simp: schema_ok_def set_tupd f req_ok_def)
  moreover have "one_pending (tupd P f (requests d))"
    using ok s unfolding schema_ok_def one_pending_def
    by (auto simp: set_tupd f terminal_def)
  ultimately show ?thesis
    using ok ev refs_ok_evolves [OF _ ev] by (simp add: good_def schema_ok_def keys_ok_def)
qed

lemma update_checkpoints_good:
  assumes ok: "schema_ok d" and P: "\<And>x. P x \<Longrightarrow> c_stage x = e"
    and f: "\<And>x. f x = x\<lparr>c_stage := n, c_gate := g, c_updated := u\<rparr>" and t: "validCheckpointTransition e n"
  shows "good d (d\<lparr>checkpoints := tupd P f (checkpoints d)\<rparr>)"
proof -
  have "stage_step e n" using t by (rule stage_step.intros)
  then have ev: "evolves d (d\<lparr>checkpoints := tupd P f (checkpoints d)\<rparr>)"
    unfolding evolves_def using P
    by (auto simp: f chk_evo_def c_key_def intro!: evolves_intros)
  have "keyed c_key (tupd P f (checkpoints d))"
    using ok by (intro keyed_update) (auto simp: schema_ok_def keys_ok_def f c_key_def)
  moreover have "\<forall>c \<in> set (tupd P f (checkpoints d)). c_stage c \<in> stages \<and> c_key c \<in> q_key ` set (requests d)"
    using ok t by (auto simp: schema_ok_def refs_ok_def set_tupd f stages_def validCheckpointTransition_def c_key_def)
  ultimately show ?thesis
    using ok ev by (simp add: good_def schema_ok_def keys_ok_def refs_ok_def)
qed

section \<open>The writes\<close>

lemma find_request_key: "find_request d app rid = Some r \<Longrightarrow> r \<in> set (requests d) \<and> q_key r = (app, rid)"
  unfolding find_request_def by (auto dest: tsel_SomeD)

lemma find_request_in: "find_request d app rid = Some r \<Longrightarrow> (app, rid) \<in> q_key ` set (requests d)"
  by (metis find_request_key image_eqI)

lemma new_request_ok [simp]: "req_ok (new_request req prev t u)"
  by (simp add: req_ok_def new_request_def)

lemma request_Begin_good: "request_Begin req d = Inr (x, d') \<Longrightarrow> schema_ok d \<Longrightarrow> good d d'"
  by (auto simp: request_Begin_def res_simps Let_def good_refl intro: insert_request_good
      split: if_splits option.splits)

lemma request_Complete_good: "request_Complete app rid s resp t d = Inr (x, d') \<Longrightarrow> schema_ok d \<Longrightarrow> good d d'"
  by (auto simp: request_Complete_def res_simps Let_def terminal_def
      intro!: update_requests_good split: if_splits)

lemma SaveActivationIntent_good: "SaveActivationIntent app rid i t d = Inr (x, d') \<Longrightarrow> schema_ok d \<Longrightarrow> good d d'"
  by (auto simp: SaveActivationIntent_def res_simps good_refl c_key_def stages_def find_request_in
      intro!: insert_checkpoint_good [of _ d] split: if_splits option.splits)

lemma RecordActivationGate_good: "RecordActivationGate app rid e n g t d = Inr (x, d') \<Longrightarrow> schema_ok d \<Longrightarrow> good d d'"
  by (auto simp: RecordActivationGate_def res_simps Let_def
      intro!: update_checkpoints_good [where e = e] split: if_splits)

lemma replay_candidate_good: "replay_candidate req b now w d = Inr (x, d') \<Longrightarrow> schema_ok d \<Longrightarrow> good d d'"
  by (auto simp: replay_candidate_def res_simps good_refl WithdrawalRequested_def w_key_def find_request_in
      intro!: add_withdrawal_good split: if_splits)

lemma insert_app_in: "insert_app r d = Inr d' \<Longrightarrow> a_id r \<in> a_id ` set (apps d')"
  by (auto simp: insert_app_def split: if_splits)

lemma insert_deployment_in: "insert_deployment r d = Inr d' \<Longrightarrow> d_id r \<in> d_id ` set (deployments d')"
  by (auto simp: insert_deployment_def split: if_splits)

lemma insert_request_in:
  "insert_request r d = Inr d' \<Longrightarrow> q_key r \<in> q_key ` set (requests d') \<and> apps d' = apps d"
  by (auto simp: insert_request_def split: if_splits)

text \<open>The app row a new candidate is bound to exists after the statement that may insert it.\<close>

lemma candidate_app_good:
  assumes "schema_ok d" and "\<And>a. active = Some a \<Longrightarrow> a \<in> set (apps d)" and "\<And>a. existing = Some a \<Longrightarrow> a \<in> set (apps d)"
    and run: "(if parseOptionalString (map_option a_id existing) \<noteq> []
          then Inr (parseOptionalString (map_option a_id existing), d)
          else if active \<noteq> None then Inr (parseOptionalString (map_option a_id active), d)
          else rbind (insert_app r d) (\<lambda>d2. Inr (pid, d2))) = Inr (actual, d')" and "a_id r = pid"
  shows "good d d' \<and> actual \<in> a_id ` set (apps d')"
proof -
  show ?thesis
  proof (cases "parseOptionalString (map_option a_id existing) \<noteq> []")
    case True
    then obtain a where "existing = Some a" by (cases existing) (simp_all add: parseOptionalString_def)
    with True run assms(1,3) show ?thesis by (auto simp: parseOptionalString_def good_refl)
  next
    case False
    show ?thesis
    proof (cases active)
      case None
      with False run show ?thesis
        using assms(1,5) by (auto simp: res_simps intro: insert_app_good dest: insert_app_in)
    next
      case (Some a)
      with False run assms(1,2) show ?thesis by (auto simp: parseOptionalString_def good_refl)
    qed
  qed
qed

lemma insert_candidate_good:
  assumes ok: "schema_ok d"
    and run: "insert_candidate req cfg active existing pid did now w d = Inr (x, d')"
    and act: "\<And>a. active = Some a \<Longrightarrow> a \<in> set (apps d)" and ex: "\<And>a. existing = Some a \<Longrightarrow> a \<in> set (apps d)"
  shows "good d d'"
proof -
  let ?k = "(req_AppName req, req_RequestID req)"
  from run obtain d1 actual d2 d3 d4 where
    i1: "insert_request (new_request req active now now) d = Inr d1"
    and i2: "(if parseOptionalString (map_option a_id existing) \<noteq> []
            then Inr (parseOptionalString (map_option a_id existing), d1)
            else if active \<noteq> None then Inr (parseOptionalString (map_option a_id active), d1)
            else rbind (insert_app (pending_app pid (req_AppName req) now (cfg_Image cfg) (req_RequestedState req)) d1)
                   (\<lambda>d2. Inr (pid, d2))) = Inr (actual, d2)"
    and i3: "insert_deployment (pending_deployment did actual now) d2 = Inr d3"
    and i4: "insert_binding (new_binding (req_AppName req) (req_RequestID req) actual did now) d3 = Inr d4"
    and i5: "(if w then insert_withdrawal \<lparr>w_app = req_AppName req, w_id = req_RequestID req, w_at = formatTime now\<rparr> d4
              else Inr d4) = Inr d'"
    unfolding insert_candidate_def by (auto simp: res_simps split: prod.splits)
  have g1: "good d d1" and app1: "apps d1 = apps d" and k1: "?k \<in> q_key ` set (requests d1)"
    using insert_request_good [OF i1 ok new_request_ok] insert_request_in [OF i1]
    by (auto simp: new_request_def q_key_def)
  have g2: "good d1 d2 \<and> actual \<in> a_id ` set (apps d2)"
    using candidate_app_good [OF _ _ _ i2] act ex g1 app1 by (simp add: good_def pending_app_def)
  have g3: "good d2 d3" and n3: "did \<in> d_id ` set (deployments d3)"
    using insert_deployment_good [OF i3] insert_deployment_in [OF i3] g2
    by (auto simp: good_def pending_deployment_def)
  have "evolves d1 d3" "evolves d2 d3" using g2 g3 evolves_trans by (auto simp: good_def)
  then have k3: "?k \<in> q_key ` set (requests d3)" and a3: "actual \<in> a_id ` set (apps d3)"
    using evolves_keys k1 g2 by blast+
  have g4: "good d3 d4"
    using insert_binding_good [OF i4] g3 k3 a3 n3 by (simp add: good_def new_binding_def b_key_def)
  have "?k \<in> q_key ` set (requests d4)" using g4 evolves_keys(1) [of d3 d4] k3 unfolding good_def by blast
  then have "good d4 d'"
    using i5 g4 insert_withdrawal_good [of _ d4 d'] by (auto simp: good_def w_key_def split: if_splits)
  with g1 g2 g3 g4 show ?thesis by (blast intro: good_trans)
qed

lemma active_app_in: "active_app d n = Some a \<Longrightarrow> a \<in> set (apps d)"
  unfolding active_app_def by (auto dest: tsel_SomeD)

lemma beginCandidate_good:
  assumes "beginCandidate lib req pid did now w d = Inr (x, d')" and "schema_ok d"
  shows "good d d'"
proof -
  from assms(1) consider b where "replay_candidate req b now w d = Inr (x, d')"
    | cfg where "insert_candidate req cfg (active_app d (req_AppName req))
        (tsel (\<lambda>a. a_name a = req_AppName req) (apps d)) pid did now w d = Inr (x, d')"
    unfolding beginCandidate_def Let_def by (auto simp: res_simps split: if_splits option.splits)
  then show ?thesis
    using assms(2) by cases (auto intro: replay_candidate_good insert_candidate_good dest: active_app_in tsel_SomeD)
qed

lemma bind_app_row_good:
  "bind_app_row app appID p ps row d = Inr d' \<Longrightarrow> schema_ok d \<Longrightarrow> a_id row = appID \<Longrightarrow>
   good d d' \<and> appID \<in> a_id ` set (apps d')"
proof (cases "tsel (\<lambda>a. a_name a = app) (apps d)")
  case None
  assume "bind_app_row app appID p ps row d = Inr d'" "schema_ok d" "a_id row = appID"
  with None show ?thesis
    by (auto simp: bind_app_row_def split: if_splits intro: insert_app_good dest: insert_app_in)
next
  case (Some a)
  assume "bind_app_row app appID p ps row d = Inr d'" "schema_ok d" "a_id row = appID"
  with Some tsel_SomeD [OF Some] show ?thesis
    by (auto simp: bind_app_row_def good_refl split: if_splits intro: rev_image_eqI [of a])
qed

lemma bind_new_good:
  assumes run: "bind_new lib app rid appID depID now r d = Inr (x, d')" and ok: "schema_ok d"
    and r: "find_request d app rid = Some r"
  shows "good d d'"
proof -
  from run obtain d1 d2 p ps row where i1: "bind_app_row app appID p ps row d = Inr d1" "a_id row = appID"
    and i2: "insert_deployment (pending_deployment depID appID now) d1 = Inr d2"
    and i3: "insert_binding (new_binding app rid appID depID now) d2 = Inr d'"
    unfolding bind_new_def Let_def by (auto simp: res_simps pending_app_def split: if_splits sum.splits)
  have g1: "good d d1 \<and> appID \<in> a_id ` set (apps d1)" using bind_app_row_good [OF i1(1) ok i1(2)] .
  have g2: "good d1 d2" and n2: "depID \<in> d_id ` set (deployments d2)"
    using insert_deployment_good [OF i2] insert_deployment_in [OF i2] g1 by (auto simp: good_def pending_deployment_def)
  have "evolves d d2" "evolves d1 d2" using g1 g2 evolves_trans by (auto simp: good_def)
  then have "(app, rid) \<in> q_key ` set (requests d2)" "appID \<in> a_id ` set (apps d2)"
    using evolves_keys find_request_in [OF r] g1 by blast+
  then have "good d2 d'"
    using insert_binding_good [OF i3] g2 n2 by (simp add: good_def new_binding_def b_key_def)
  with g1 g2 show ?thesis by (blast intro: good_trans)
qed

lemma Bind_good: "Bind lib app rid appID depID now d = Inr (x, d') \<Longrightarrow> schema_ok d \<Longrightarrow> good d d'"
  by (auto simp: Bind_def res_simps good_refl intro: bind_new_good split: if_splits option.splits)

lemma finalize_applied_good: "finalize_applied sha app rid rq tls now cfg a d = Inr (a', d') \<Longrightarrow> schema_ok d \<Longrightarrow> good d d'"
proof -
  assume run: "finalize_applied sha app rid rq tls now cfg a d = Inr (a', d')" and ok: "schema_ok d"
  let ?d1 = "d\<lparr>apps := tupd (\<lambda>x. a_id x = app_ID a) (\<lambda>x. x\<lparr>a_image := cfg_Image cfg, a_state := rq,
                 a_updated := formatTime now, a_deleted := None\<rparr>) (apps d)\<rparr>"
  have g1: "good d ?d1" using ok by (intro update_apps_good) (auto simp: app_evo_def)
  have "good ?d1 d'"
    using run g1 delete_routes_good [of ?d1] upsert_route_good
    by (auto simp: finalize_applied_def Let_def res_simps good_def split: if_splits)
  with g1 show ?thesis by (rule good_trans)
qed

lemma finalize_withdrawn_good: "finalize_withdrawn r a d = Inr (a', d') \<Longrightarrow> schema_ok d \<Longrightarrow> good d d'"
  by (auto simp: finalize_withdrawn_def good_refl delete_routes_good split: if_splits)

lemma finalize_commit_good:
  assumes run: "finalize_commit app rid out now rq a dep d = Inr (x, d')" and ok: "schema_ok d" and out: "terminal out"
  shows "good d d'"
proof -
  let ?d1 = "d\<lparr>deployments := tupd (\<lambda>x. d_id x = dep_ID dep \<and> d_status x = ''pending'')
     (\<lambda>x. x\<lparr>d_status := if out = ''applied'' then ''healthy'' else ''failed'',
            d_failure := optionalString (if out = ''applied'' then [] else ''Deployment withdrawn after confirmed runtime recovery''),
            d_updated := formatTime now\<rparr>) (deployments d)\<rparr>"
  have g1: "good d ?d1" using ok by (intro update_deployments_good) (auto simp: dep_evo_def)
  then have ok1: "schema_ok ?d1" by (simp add: good_def)
  have "d' = ?d1\<lparr>requests := tupd (\<lambda>q. q_key q = (app, rid) \<and> q_state q = ''pending'')
      (\<lambda>q. q\<lparr>q_state := out, q_response := Some x, q_updated := formatTime now\<rparr>) (requests ?d1)\<rparr>"
    using run unfolding finalize_commit_def Let_def by (auto simp: res_simps)
  then have "good ?d1 d'"
    by (simp only:) (rule update_requests_good [OF ok1], use out in simp_all)
  with g1 show ?thesis by (rule good_trans)
qed

text \<open>A successful finalization either replays a saved reply or makes the writes of one outcome.\<close>

lemma Finalize_cases:
  assumes "Finalize lib sha app rid out g tls now d = Inr (x, d')"
  obtains (replay) r b where "find_request d app rid = Some r" "find_binding d app rid = Some b"
      "q_state r = out" "terminal out" "q_response r = Some x" "d' = d"
    | (commit) r b cfg a dep a' d1 where "find_request d app rid = Some r" "find_binding d app rid = Some b"
      "q_state r = ''pending''" "terminal out"
      "finalize_checks lib app rid out g r b d = Inr (cfg, a, dep)"
      "(if out = ''applied'' then finalize_applied sha app rid (q_requested r) tls now cfg a d
        else finalize_withdrawn r a d) = Inr (a', d1)"
      "finalize_commit app rid out now (q_requested r) a' dep d1 = Inr (x, d')"
proof -
  from assms obtain r b where r: "find_request d app rid = Some r" and b: "find_binding d app rid = Some b"
    and out: "terminal out"
    and rest: "(if q_state r \<noteq> ''pending'' then
          (case q_response r of
             Some response \<Rightarrow>
               if q_state r = out \<and> json_Valid response then Inr (response, d) else Inl ErrCandidateFinalizationConflict
           | None \<Rightarrow> Inl ErrCandidateFinalizationConflict)
        else rbind (finalize_checks lib app rid out g r b d) (\<lambda>(cfg, a, dep).
          rbind (if out = ''applied'' then finalize_applied sha app rid (q_requested r) tls now cfg a d
                 else finalize_withdrawn r a d) (\<lambda>(a', d1).
          finalize_commit app rid out now (q_requested r) a' dep d1))) = Inr (x, d')"
    unfolding Finalize_def rbind_Inr_iff of_option_Inr_iff if_Inl_Inr_iff terminal_def by blast
  show thesis
  proof (cases "q_state r = ''pending''")
    case True
    with rest obtain v w where v: "finalize_checks lib app rid out g r b d = Inr v"
      and w: "(if out = ''applied'' then finalize_applied sha app rid (q_requested r) tls now (fst v) (fst (snd v)) d
        else finalize_withdrawn r (fst (snd v)) d) = Inr w"
      and c: "finalize_commit app rid out now (q_requested r) (fst w) (snd (snd v)) (snd w) = Inr (x, d')"
      by (auto simp: rbind_Inr_iff split_beta)
    then show thesis using commit [of r b "fst v" "fst (snd v)" "snd (snd v)" "fst w" "snd w"] r b True out by simp
  next
    case False
    with rest show thesis using replay r b out by (auto split: option.splits if_splits)
  qed
qed

lemma Finalize_good:
  assumes "Finalize lib sha app rid out g tls now d = Inr (x, d')" and ok: "schema_ok d"
  shows "good d d'"
  using assms(1)
proof (cases rule: Finalize_cases)
  case (commit r b cfg a dep a' d1)
  then have g1: "good d d1"
    using ok finalize_applied_good finalize_withdrawn_good by (auto split: if_splits)
  then have "good d1 d'" using commit finalize_commit_good by (auto simp: good_def)
  with g1 show ?thesis by (rule good_trans)
qed (simp add: ok good_refl)

text \<open>The inventory writes.\<close>

lemma app_Create_good: "app_Create a d = Inr (x, d') \<Longrightarrow> schema_ok d \<Longrightarrow> good d d'"
  by (auto simp: app_Create_def res_simps intro: insert_app_good)

lemma app_Update_good: "app_Update a d = Inr (x, d') \<Longrightarrow> schema_ok d \<Longrightarrow> good d d'"
  by (auto simp: app_Update_def res_simps app_evo_def intro!: update_apps_good)

lemma MarkDeleted_good: "MarkDeleted n t d = Inr (x, d') \<Longrightarrow> schema_ok d \<Longrightarrow> good d d'"
  by (auto simp: MarkDeleted_def Let_def res_simps app_evo_def intro!: update_apps_good)

lemma deployment_Create_good: "deployment_Create a d = Inr (x, d') \<Longrightarrow> schema_ok d \<Longrightarrow> good d d'"
  by (auto simp: deployment_Create_def res_simps intro: insert_deployment_good)

lemma deployment_UpdateStatus_good: "deployment_UpdateStatus i st re t d = Inr (x, d') \<Longrightarrow> schema_ok d \<Longrightarrow> good d d'"
  by (auto simp: deployment_UpdateStatus_def res_simps dep_evo_def intro!: update_deployments_good)

lemma route_Create_good: "route_Create a d = Inr (x, d') \<Longrightarrow> schema_ok d \<Longrightarrow> good d d'"
  by (auto simp: route_Create_def res_simps intro: insert_route_good)

lemma UpsertForApp_good: "UpsertForApp a d = Inr (x, d') \<Longrightarrow> schema_ok d \<Longrightarrow> good d d'"
  by (auto simp: UpsertForApp_def res_simps intro: upsert_route_good)

lemma DeleteByApp_good: "DeleteByApp a d = Inr (x, d') \<Longrightarrow> schema_ok d \<Longrightarrow> good d d'"
  by (auto simp: DeleteByApp_def intro: delete_routes_good)

lemma route_UpdateStatus_good: "route_UpdateStatus i st t d = Inr (x, d') \<Longrightarrow> schema_ok d \<Longrightarrow> good d d'"
  by (auto simp: route_UpdateStatus_def res_simps schema_ok_def keys_ok_def intro!: routes_good keyed_update)

section \<open>The contract of a write\<close>

locale journal_op =
  fixes op :: "'a tx"
  assumes good_op: "op d = Inr (x, d') \<Longrightarrow> schema_ok d \<Longrightarrow> good d d'"
begin

lemma keeps_schema: "op d = Inr (x, d') \<Longrightarrow> schema_ok d \<Longrightarrow> schema_ok d'"
  using good_op by (simp add: good_def)

text \<open>A request that has ended reads the same after the write.\<close>

lemma terminal_fixed:
  assumes "op d = Inr (x, d')" and "schema_ok d" and r: "find_request d app rid = Some r" and t: "terminal (q_state r)"
  shows "find_request d' app rid = Some r"
proof -
  have g: "good d d'" using good_op [OF assms(1,2)] .
  have rin: "r \<in> set (requests d)" and k: "q_key r = (app, rid)" using find_request_key [OF r] by simp_all
  obtain y where y: "y \<in> set (requests d')" "req_evo r y"
    using g rin by (auto simp: good_def evolves_def rows_evolve_def)
  then have "y = r" using t by (auto simp: req_evo_def terminal_def)
  with y g k show ?thesis
    by (auto simp: good_def schema_ok_def keys_ok_def find_request_def keyed_tsel_iff)
qed

text \<open>A binding never changes.\<close>

lemma binding_fixed:
  assumes "op d = Inr (x, d')" and "schema_ok d" and "find_binding d app rid = Some b"
  shows "find_binding d' app rid = Some b"
proof -
  have g: "good d d'" using good_op [OF assms(1,2)] .
  have "b \<in> set (bindings d)" "b_key b = (app, rid)"
    using assms(3) unfolding find_binding_def by (auto dest: tsel_SomeD)
  with g show ?thesis
    by (auto simp: good_def schema_ok_def keys_ok_def evolves_def find_binding_def keyed_tsel_iff)
qed

end

section \<open>Every write fulfils the contract\<close>

interpretation request_begin_op: journal_op "request_Begin req" for req
  by unfold_locales (rule request_Begin_good)

interpretation request_complete_op: journal_op "request_Complete app rid st resp t" for app rid st resp t
  by unfold_locales (rule request_Complete_good)

interpretation save_intent_op: journal_op "SaveActivationIntent app rid intent t" for app rid intent t
  by unfold_locales (rule SaveActivationIntent_good)

interpretation record_gate_op: journal_op "RecordActivationGate app rid e n g t" for app rid e n g t
  by unfold_locales (rule RecordActivationGate_good)

interpretation binding_begin_op: journal_op "binding_Begin lib req pid did t" for lib req pid did t
  by unfold_locales (simp add: binding_Begin_def beginCandidate_good)

interpretation binding_withdraw_op: journal_op "BeginWithdrawal lib req pid did t" for lib req pid did t
  by unfold_locales (simp add: BeginWithdrawal_def beginCandidate_good)

interpretation bind_op: journal_op "Bind lib app rid aid did t" for lib app rid aid did t
  by unfold_locales (rule Bind_good)

interpretation finalize_op: journal_op "Finalize lib sha app rid out g tls t" for lib sha app rid out g tls t
  by unfold_locales (rule Finalize_good)

interpretation create_app_op: journal_op "app_Create a" for a
  by unfold_locales (rule app_Create_good)

interpretation update_app_op: journal_op "app_Update a" for a
  by unfold_locales (rule app_Update_good)

interpretation mark_deleted_op: journal_op "MarkDeleted n t" for n t
  by unfold_locales (rule MarkDeleted_good)

interpretation create_deployment_op: journal_op "deployment_Create dep" for dep
  by unfold_locales (rule deployment_Create_good)

interpretation deployment_status_op: journal_op "deployment_UpdateStatus i st re t" for i st re t
  by unfold_locales (rule deployment_UpdateStatus_good)

interpretation create_route_op: journal_op "route_Create x" for x
  by unfold_locales (rule route_Create_good)

interpretation upsert_route_op: journal_op "UpsertForApp x" for x
  by unfold_locales (rule UpsertForApp_good)

interpretation delete_route_op: journal_op "DeleteByApp i" for i
  by unfold_locales (rule DeleteByApp_good)

interpretation route_status_op: journal_op "route_UpdateStatus i st t" for i st t
  by unfold_locales (rule route_UpdateStatus_good)

section \<open>The journal as a transition system\<close>

inductive jstep :: "k8s_lib \<Rightarrow> (string \<Rightarrow> nat list) \<Rightarrow> db \<Rightarrow> db \<Rightarrow> bool" for lib sha where
  request_begin: "request_Begin req d = Inr (x, d') \<Longrightarrow> jstep lib sha d d'"
| request_complete: "request_Complete app rid st resp t d = Inr (x, d') \<Longrightarrow> jstep lib sha d d'"
| save_intent: "SaveActivationIntent app rid intent t d = Inr (x, d') \<Longrightarrow> jstep lib sha d d'"
| record_gate: "RecordActivationGate app rid e n g t d = Inr (x, d') \<Longrightarrow> jstep lib sha d d'"
| binding_begin: "binding_Begin lib req pid did t d = Inr (x, d') \<Longrightarrow> jstep lib sha d d'"
| binding_withdraw: "BeginWithdrawal lib req pid did t d = Inr (x, d') \<Longrightarrow> jstep lib sha d d'"
| bind: "Bind lib app rid aid did t d = Inr (x, d') \<Longrightarrow> jstep lib sha d d'"
| finalize: "Finalize lib sha app rid out g tls t d = Inr (x, d') \<Longrightarrow> jstep lib sha d d'"
| create_app: "app_Create a d = Inr (x, d') \<Longrightarrow> jstep lib sha d d'"
| update_app: "app_Update a d = Inr (x, d') \<Longrightarrow> jstep lib sha d d'"
| mark_deleted: "MarkDeleted n t d = Inr (x, d') \<Longrightarrow> jstep lib sha d d'"
| create_deployment: "deployment_Create dep d = Inr (x, d') \<Longrightarrow> jstep lib sha d d'"
| deployment_status: "deployment_UpdateStatus i st re t d = Inr (x, d') \<Longrightarrow> jstep lib sha d d'"
| create_route: "route_Create x d = Inr (y, d') \<Longrightarrow> jstep lib sha d d'"
| upsert_route: "UpsertForApp x d = Inr (y, d') \<Longrightarrow> jstep lib sha d d'"
| delete_route: "DeleteByApp i d = Inr (x, d') \<Longrightarrow> jstep lib sha d d'"
| route_status: "route_UpdateStatus i st t d = Inr (x, d') \<Longrightarrow> jstep lib sha d d'"

definition jreach :: "k8s_lib \<Rightarrow> (string \<Rightarrow> nat list) \<Rightarrow> db \<Rightarrow> db \<Rightarrow> bool" where
  "jreach lib sha d d' \<longleftrightarrow> (jstep lib sha)\<^sup>*\<^sup>* d d'"

lemma jstep_good: "jstep lib sha d d' \<Longrightarrow> schema_ok d \<Longrightarrow> good d d'"
  by (erule jstep.cases)
     (auto intro: request_begin_op.good_op request_complete_op.good_op save_intent_op.good_op record_gate_op.good_op
       binding_begin_op.good_op binding_withdraw_op.good_op bind_op.good_op finalize_op.good_op
       create_app_op.good_op update_app_op.good_op mark_deleted_op.good_op create_deployment_op.good_op
       deployment_status_op.good_op create_route_op.good_op upsert_route_op.good_op delete_route_op.good_op
       route_status_op.good_op)

lemma jreach_good: "jreach lib sha d d' \<Longrightarrow> schema_ok d \<Longrightarrow> good d d'"
  unfolding jreach_def
proof (induction rule: rtranclp_induct)
  case base
  then show ?case by (rule good_refl)
next
  case (step y z)
  then have "good d y" by simp
  moreover from this have "good y z" using jstep_good [OF step(2)] by (simp add: good_def)
  ultimately show ?case by (rule good_trans)
qed

text \<open>A run of the journal is itself a write that fulfils the contract.\<close>

interpretation run_op: journal_op "\<lambda>d. if jreach lib sha d d' then Inr ((), d') else Inl ErrNotFound" for lib sha d'
  by unfold_locales (auto intro: jreach_good split: if_splits)

lemma jreach_terminal_fixed:
  "jreach lib sha d d' \<Longrightarrow> schema_ok d \<Longrightarrow> find_request d app rid = Some r \<Longrightarrow> terminal (q_state r) \<Longrightarrow>
   find_request d' app rid = Some r"
  by (rule run_op.terminal_fixed [of lib sha d d' "()" d']) simp_all

lemma jreach_binding_fixed:
  "jreach lib sha d d' \<Longrightarrow> schema_ok d \<Longrightarrow> find_binding d app rid = Some b \<Longrightarrow> find_binding d' app rid = Some b"
  by (rule run_op.binding_fixed [of lib sha d d' "()" d']) simp_all

end
