(* ===== verification/Finalization.thy ===== *)
theory Finalization
  imports Journal
begin

text \<open>
  Properties of the candidate life cycle over the journal: the stage graph of checkpoints, the effect
  of finalization on app, deployment, route and request, the replay of a saved reply, and the admission
  of a new candidate.
\<close>

section \<open>Checkpoint stages\<close>

inductive_simps stage_step_iff: "stage_step s t"

lemma stage_after_recovering: "stage_step\<^sup>*\<^sup>* s t \<Longrightarrow> s = ''recovering'' \<or> s = ''withdrawn'' \<Longrightarrow>
  t = s \<or> t = ''withdrawn''"
  by (induction rule: rtranclp_induct) (auto simp: stage_step_iff validCheckpointTransition_def)

lemma chk_find_iff:
  "schema_ok d \<Longrightarrow> find_checkpoint d app rid = Some c \<longleftrightarrow> c \<in> set (checkpoints d) \<and> c_key c = (app, rid)"
  by (simp add: find_checkpoint_def schema_ok_def keys_ok_def keyed_tsel_iff)

lemma bind_find_iff:
  "schema_ok d \<Longrightarrow> find_binding d app rid = Some b \<longleftrightarrow> b \<in> set (bindings d) \<and> b_key b = (app, rid)"
  by (simp add: find_binding_def schema_ok_def keys_ok_def keyed_tsel_iff)

lemma req_find_iff:
  "schema_ok d \<Longrightarrow> find_request d app rid = Some r \<longleftrightarrow> r \<in> set (requests d) \<and> q_key r = (app, rid)"
  by (simp add: find_request_def schema_ok_def keys_ok_def keyed_tsel_iff)

lemma checkpoint_evolves:
  assumes "good d d'" and "schema_ok d" and "find_checkpoint d app rid = Some c"
  obtains c' where "find_checkpoint d' app rid = Some c'" and "c_intent c' = c_intent c"
    and "stage_step\<^sup>*\<^sup>* (c_stage c) (c_stage c')"
proof -
  have "c \<in> set (checkpoints d)" "c_key c = (app, rid)" using assms(2,3) chk_find_iff by simp_all
  with assms(1) obtain c' where "c' \<in> set (checkpoints d')" "chk_evo c c'"
    by (auto simp: good_def evolves_def rows_evolve_def)
  with \<open>c_key c = (app, rid)\<close> assms(1) show thesis
    using that chk_find_iff [of d' app rid c'] by (auto simp: good_def chk_evo_def)
qed

section \<open>What finalization commits\<close>

lemma finalize_checks_ok:
  assumes "finalize_checks lib app rid out g r b d = Inr (cfg, a, dep)"
  shows "FromJSON (q_requested r) = Inr cfg" and "Validate lib cfg = Inr ()" and "cfg_Name cfg = app"
    and "\<exists>row. tsel (\<lambda>x. a_id x = b_app_id b) (apps d) = Some row \<and> scanApp row = Inr a"
    and "app_Name a = app"
    and "\<exists>row. tsel (\<lambda>x. d_id x = b_dep_id b) (deployments d) = Some row \<and> scanDeployment row = Inr dep"
    and "dep_AppID dep = b_app_id b" and "dep_Status dep = ''pending''"
    and "\<exists>c. find_checkpoint d app rid = Some c \<and> c_gate c = g \<and>
           c_stage c = (if out = ''withdrawn'' then ''withdrawn'' else ''activated'')"
  using assms unfolding finalize_checks_def Let_def
  by (auto simp: res_simps split: if_splits)

lemma scanApp_fields: "scanApp row = Inr a \<Longrightarrow> app_ID a = a_id row \<and> app_Name a = a_name row \<and>
   app_DesiredStateJSON a = a_state row \<and> app_Image a = a_image row \<and> (app_DeletedAt a = None \<longleftrightarrow> a_deleted row = None)"
  by (auto simp: scanApp_def parseOptionalStoredTime_def res_simps split: option.splits)

lemma scanDeployment_fields: "scanDeployment row = Inr dep \<Longrightarrow> dep_ID dep = d_id row \<and> dep_AppID dep = d_app_id row \<and>
   dep_Status dep = d_status row"
  by (auto simp: scanDeployment_def res_simps)

lemma reply_JSON_valid: "json_Valid (reply_JSON a dep n rq w)"
  by (simp add: json_Valid_def reply_JSON_def parse_print str_member_def ball_Un)

lemma finalize_commit_ok:
  assumes "finalize_commit app rid out now rq a dep d = Inr (resp, d')"
  shows "json_Valid resp" and "apps d' = apps d" and "routes d' = routes d" and "checkpoints d' = checkpoints d"
    and "bindings d' = bindings d"
    and "requests d' = tupd (\<lambda>x. q_key x = (app, rid) \<and> q_state x = ''pending'')
           (\<lambda>x. x\<lparr>q_state := out, q_response := Some resp, q_updated := formatTime now\<rparr>) (requests d)"
    and "deployments d' = tupd (\<lambda>x. d_id x = dep_ID dep \<and> d_status x = ''pending'')
           (\<lambda>x. x\<lparr>d_status := if out = ''applied'' then ''healthy'' else ''failed'',
             d_failure := optionalString (if out = ''applied'' then [] else ''Deployment withdrawn after confirmed runtime recovery''),
             d_updated := formatTime now\<rparr>) (deployments d)"
    and "\<exists>r \<in> set (requests d). q_key r = (app, rid) \<and> q_state r = ''pending''"
  using assms unfolding finalize_commit_def Let_def by (auto simp: res_simps reply_JSON_valid)

lemma tsel_tupd_hit:
  assumes "\<And>x. key (f x) = key x" and "tsel (\<lambda>x. key x = k) t = Some r" and "P r"
  shows "tsel (\<lambda>x. key x = k) (tupd P f t) = Some (f r)"
  using assms by (simp add: tsel_tupd_same)

text \<open>The request ends with the outcome and the reply; its deployment gets the matching status.\<close>

lemma Finalize_request:
  assumes "Finalize lib sha app rid out g tls now d = Inr (resp, d')" and "schema_ok d"
  shows "\<exists>r. find_request d' app rid = Some r \<and> q_state r = out \<and> q_response r = Some resp"
  using assms(1)
proof (cases rule: Finalize_cases)
  case (commit r b cfg a dep a' d1)
  have "requests d1 = requests d"
    using commit(6) by (auto simp: finalize_applied_def finalize_withdrawn_def Let_def res_simps upsert_route_def
        insert_route_def delete_routes_def split: if_splits)
  then have "find_request d' app rid = Some (r\<lparr>q_state := out, q_response := Some resp, q_updated := formatTime now\<rparr>)"
    using commit(1,3) find_request_key [OF commit(1)] finalize_commit_ok(6) [OF commit(7)]
      tsel_tupd_hit [of q_key _ "(app, rid)" "requests d" r "\<lambda>x. q_key x = (app, rid) \<and> q_state x = ''pending''"]
    by (simp add: find_request_def q_key_def)
  then show ?thesis by simp
qed auto

lemma finalize_step_frame:
  assumes "(if out = ''applied'' then finalize_applied sha app rid rq tls now cfg a d else finalize_withdrawn r a d) = Inr (a', d1)"
  shows "requests d1 = requests d" and "deployments d1 = deployments d" and "checkpoints d1 = checkpoints d"
    and "bindings d1 = bindings d"
  using assms by (auto simp: finalize_applied_def finalize_withdrawn_def Let_def res_simps upsert_route_def
      insert_route_def delete_routes_def split: if_splits)

lemma Finalize_deployment:
  assumes run: "Finalize lib sha app rid out g tls now d = Inr (resp, d')"
    and pend: "find_request d app rid = Some r" "q_state r = ''pending''" and b: "find_binding d app rid = Some b"
  shows "\<exists>dep. tsel (\<lambda>x. d_id x = b_dep_id b) (deployments d') = Some dep \<and>
     d_status dep = (if out = ''applied'' then ''healthy'' else ''failed'')"
  using run
proof (cases rule: Finalize_cases)
  case (commit r' b' cfg a dep a' d1)
  with b have [simp]: "b' = b" by simp
  obtain row where row: "tsel (\<lambda>x. d_id x = b_dep_id b) (deployments d) = Some row" "scanDeployment row = Inr dep"
    using finalize_checks_ok(6) [OF commit(5)] by auto
  have "d_id row = b_dep_id b" "dep_ID dep = b_dep_id b" "d_status row = ''pending''"
    using tsel_SomeD [OF row(1)] scanDeployment_fields [OF row(2)] finalize_checks_ok(8) [OF commit(5)] by auto
  then show ?thesis
    using row(1) finalize_commit_ok(7) [OF commit(7)] finalize_step_frame(2) [OF commit(6)]
    by (simp add: tsel_tupd_same)
qed (use pend in \<open>auto simp: terminal_def\<close>)

lemma tupd_hit: "x \<in> set t \<Longrightarrow> P x \<Longrightarrow> f x \<in> set (tupd P f t)"
  by (auto simp: tupd_def)

text \<open>Applied: the app row is live with the requested state, and its route is the requested one.\<close>

lemma upsert_route_find:
  assumes "upsert_route x d = Inr d'" and "schema_ok d"
  shows "\<exists>row \<in> set (routes d'). r_app_id row = r_app_id x \<and> r_domain row = r_domain x \<and> r_port row = r_port x
     \<and> apps d' = apps d"
proof (cases "\<exists>y \<in> set (routes d). r_app_id y = r_app_id x")
  case True
  then obtain y where "y \<in> set (routes d)" "r_app_id y = r_app_id x" by blast
  then have hit: "f y \<in> set (tupd (\<lambda>y. r_app_id y = r_app_id x) f (routes d))" for f by (simp add: tupd_hit)
  from assms(1) True have "d' = d\<lparr>routes := tupd (\<lambda>y. r_app_id y = r_app_id x)
      (\<lambda>y. y\<lparr>r_domain := r_domain x, r_port := r_port x, r_status := r_status x, r_tls := r_tls x,
            r_updated := r_updated x\<rparr>) (routes d)\<rparr>"
    by (auto simp: upsert_route_def split: if_splits)
  with \<open>r_app_id y = r_app_id x\<close> hit show ?thesis
    by (intro bexI [of _ "y\<lparr>r_domain := r_domain x, r_port := r_port x, r_status := r_status x, r_tls := r_tls x,
            r_updated := r_updated x\<rparr>"]) simp_all
next
  case False
  with assms(1) show ?thesis by (auto simp: upsert_route_def insert_route_def split: if_splits)
qed

lemma Finalize_applied_app:
  assumes run: "Finalize lib sha app rid ''applied'' g tls now d = Inr (resp, d')" and ok: "schema_ok d"
    and pend: "find_request d app rid = Some r" "q_state r = ''pending''" and b: "find_binding d app rid = Some b"
  obtains cfg row where "FromJSON (q_requested r) = Inr cfg" and "Validate lib cfg = Inr ()"
    and "tsel (\<lambda>x. a_id x = b_app_id b) (apps d') = Some row" and "a_name row = app"
    and "a_state row = q_requested r" and "a_image row = cfg_Image cfg" and "a_deleted row = None"
    and "routing_Domain (cfg_Routing cfg) = [] \<Longrightarrow> \<forall>x \<in> set (routes d'). r_app_id x \<noteq> b_app_id b"
    and "routing_Domain (cfg_Routing cfg) \<noteq> [] \<Longrightarrow> \<exists>x \<in> set (routes d'). r_app_id x = b_app_id b \<and>
           r_domain x = routing_Domain (cfg_Routing cfg) \<and> r_port x = service_Port (cfg_Service cfg)"
  using run
proof (cases rule: Finalize_cases)
  case (commit r' b' cfg a dep a' d1)
  with pend b have [simp]: "r' = r" "b' = b" by simp_all
  note chk = finalize_checks_ok [OF commit(5), simplified]
  obtain row where row: "tsel (\<lambda>x. a_id x = b_app_id b) (apps d) = Some row" "scanApp row = Inr a"
    using chk(4) by auto
  then have id: "app_ID a = b_app_id b" "a_name row = app"
    using tsel_SomeD [OF row(1)] scanApp_fields [OF row(2)] chk(5) by auto
  let ?f = "\<lambda>x. x\<lparr>a_image := cfg_Image cfg, a_state := q_requested r, a_updated := formatTime now, a_deleted := None\<rparr>"
  let ?d = "d\<lparr>apps := tupd (\<lambda>x. a_id x = app_ID a) ?f (apps d)\<rparr>"
  have step: "if routing_Domain (cfg_Routing cfg) = [] then d1 = delete_routes (app_ID a) ?d
     else upsert_route \<lparr>r_id = route_id_for sha app rid, r_app_id = app_ID a, r_domain = routing_Domain (cfg_Routing cfg),
       r_port = service_Port (cfg_Service cfg), r_status = ''pending'', r_tls = if tls then 1 else 0,
       r_created = formatTime now, r_updated = formatTime now\<rparr> ?d = Inr d1"
    using commit(6) by (auto simp: finalize_applied_def Let_def res_simps)
  have "good d ?d" using ok by (intro update_apps_good) (auto simp: app_evo_def)
  then have "apps d1 = apps ?d"
    using step upsert_route_find by (fastforce simp: delete_routes_def good_def split: if_splits)
  then have "tsel (\<lambda>x. a_id x = b_app_id b) (apps d') = Some (?f row)"
    using row(1) id finalize_commit_ok(2) [OF commit(7)] tsel_SomeD [OF row(1)] by (simp add: tsel_tupd_same)
  moreover have "routes d' = routes d1" using finalize_commit_ok(3) [OF commit(7)] .
  ultimately show thesis
    using that [of cfg "?f row"] chk(1,2) id step upsert_route_find [of _ ?d d1] \<open>good d ?d\<close>
    by (fastforce simp: delete_routes_def good_def split: if_splits)
qed (use pend in \<open>auto simp: terminal_def\<close>)

text \<open>Withdrawn: no app row changes, and the routes of a predecessor stay.\<close>

lemma Finalize_withdrawn_frame:
  assumes run: "Finalize lib sha app rid ''withdrawn'' g tls now d = Inr (resp, d')"
    and pend: "find_request d app rid = Some r"
  shows "apps d' = apps d" and "parseOptionalString (q_prev_id r) \<noteq> [] \<Longrightarrow> routes d' = routes d"
proof -
  from run show "apps d' = apps d"
  proof (cases rule: Finalize_cases)
    case (commit r' b' cfg a dep a' d1)
    then show ?thesis
      using finalize_commit_ok(2) [OF commit(7)]
      by (auto simp: finalize_withdrawn_def delete_routes_def split: if_splits)
  qed simp
  assume prev: "parseOptionalString (q_prev_id r) \<noteq> []"
  from run show "routes d' = routes d"
  proof (cases rule: Finalize_cases)
    case (commit r' b' cfg a dep a' d1)
    with pend prev show ?thesis
      using finalize_commit_ok(3) [OF commit(7)] by (auto simp: finalize_withdrawn_def split: if_splits)
  qed simp
qed

section \<open>Replay\<close>

text \<open>
  Once finalized, a request answers every later finalization: with the same outcome by the same reply
  and no write, with another outcome by a conflict. The journal may have moved on in between.
\<close>

lemma Finalize_binding: "Finalize lib sha app rid out g tls now d = Inr (resp, d') \<Longrightarrow> \<exists>b. find_binding d app rid = Some b"
  by (cases rule: Finalize_cases) auto

lemma saved_reply_valid:
  assumes run: "Finalize lib sha app rid out g tls now d = Inr (resp, d')"
  shows "json_Valid resp"
  using run
proof (cases rule: Finalize_cases)
  case (replay r b)
  with run show ?thesis by (auto simp: Finalize_def terminal_def split: if_splits)
next
  case commit
  then show ?thesis by (blast dest: finalize_commit_ok(1))
qed

lemma Finalize_again:
  assumes run: "Finalize lib sha app rid out g tls now d = Inr (resp, d1)" and ok: "schema_ok d"
    and later: "jreach lib' sha' d1 d2"
    and args: "out' = ''applied'' \<or> out' = ''withdrawn''" "g' \<noteq> []" "\<not> IsZero now'"
  shows "Finalize lib2 sha2 app rid out' g' tls' now' d2 =
     (if out' = out then Inr (resp, d2) else Inl ErrCandidateFinalizationConflict)"
proof -
  have out: "terminal out" "app \<noteq> []" "deployRequestID rid"
    using run by (auto simp: Finalize_def terminal_def split: if_splits)
  have ok1: "schema_ok d1" and ev: "good d d1" using Finalize_good [OF run ok] by (auto simp: good_def)
  obtain r where r: "find_request d1 app rid = Some r" "q_state r = out" "q_response r = Some resp"
    using Finalize_request [OF run ok] by blast
  obtain b where "find_binding d app rid = Some b" using Finalize_binding [OF run] by blast
  then have "find_binding d1 app rid = Some b" using finalize_op.binding_fixed [OF run ok] by blast
  then have b2: "find_binding d2 app rid = Some b" using jreach_binding_fixed [OF later ok1] by blast
  have r2: "find_request d2 app rid = Some r" using jreach_terminal_fixed [OF later ok1 r(1)] r(2) out by simp
  show ?thesis
    using out r r2 b2 args saved_reply_valid [OF run] by (auto simp: Finalize_def terminal_def)
qed

section \<open>Admission\<close>

lemma insert_candidate_rows:
  assumes "insert_candidate req cfg active existing pid did now w d = Inr ((bnd, fresh), d')"
  shows "fresh" and "bind_AppName bnd = req_AppName req" and "bind_RequestID bnd = req_RequestID req"
    and "bind_DeploymentID bnd = did" and "bind_CreatedAt bnd = now"
    and "new_binding (req_AppName req) (req_RequestID req) (bind_AppID bnd) did now \<in> set (bindings d')"
    and "new_request req active now now \<in> set (requests d')"
    and "pending_deployment did (bind_AppID bnd) now \<in> set (deployments d')"
    and "w \<Longrightarrow> WithdrawalRequested (req_AppName req) (req_RequestID req) d'"
  using assms unfolding insert_candidate_def
  by (auto simp: res_simps insert_request_def insert_app_def insert_deployment_def insert_binding_def
      insert_withdrawal_def WithdrawalRequested_def w_key_def split: if_splits)

lemma beginCandidate_fresh:
  assumes "beginCandidate lib req pid did now w d = Inr ((bnd, True), d')"
  obtains cfg where "validateCandidateDeployRequest lib req = Inr cfg"
    and "insert_candidate req cfg (active_app d (req_AppName req)) (tsel (\<lambda>a. a_name a = req_AppName req) (apps d))
           pid did now w d = Inr ((bnd, True), d')"
    and "\<not> w \<Longrightarrow> validateCandidateDomainAdmission d (req_AppName req) cfg = Inr ()"
    and "tsel (\<lambda>r. q_app r = req_AppName req \<and> q_state r = ''pending'') (requests d) = None"
  using assms unfolding beginCandidate_def Let_def replay_candidate_def
  by (auto simp: res_simps split: if_splits option.splits)

text \<open>Submitting the same request again returns the same binding, whatever identifiers are proposed.\<close>

lemma beginCandidate_again:
  assumes run: "beginCandidate lib req pid did now False d = Inr ((bnd, True), d1)" and ok: "schema_ok d"
    and wf: "wf_time now" and later: "jreach lib sha d1 d2"
    and args: "TrimSpace pid' \<noteq> []" "TrimSpace did' \<noteq> []" "\<not> IsZero now'"
  shows "beginCandidate lib req pid' did' now' False d2 = Inr ((bnd, False), d2)"
proof -
  let ?a = "req_AppName req" and ?i = "req_RequestID req"
  obtain cfg where cfg: "validateCandidateDeployRequest lib req = Inr cfg"
    and ins: "insert_candidate req cfg (active_app d ?a) (tsel (\<lambda>a. a_name a = ?a) (apps d)) pid did now False d = Inr ((bnd, True), d1)"
    by (rule beginCandidate_fresh [OF run])
  have ok1: "schema_ok d1" using beginCandidate_good [OF run ok] by (simp add: good_def)
  have g2: "good d1 d2" using jreach_good [OF later ok1] .
  let ?b = "new_binding ?a ?i (bind_AppID bnd) did now"
  have b2: "find_binding d2 ?a ?i = Some ?b"
    using insert_candidate_rows(6) [OF ins] jreach_binding_fixed [OF later ok1] bind_find_iff [OF ok1, of ?a ?i ?b]
    by (simp add: new_binding_def b_key_def)
  obtain r where r: "r \<in> set (requests d2)" "req_evo (new_request req (active_app d ?a) now now) r"
    using g2 insert_candidate_rows(7) [OF ins] by (auto simp: good_def evolves_def rows_evolve_def)
  then have r2: "find_request d2 ?a ?i = Some r" "q_requested r = req_RequestedState req" "q_report r = req_ReportWithdrawal req"
    using g2 req_find_iff [of d2 ?a ?i r] req_evo_fixed [OF r(2)] by (auto simp: good_def new_request_def q_key_def)
  have ids: "TrimSpace ?a \<noteq> []" "deployRequestID ?i"
    using run by (auto simp: beginCandidate_def split: if_splits)
  have "scan_binding ?b = Inr bnd"
    using wf insert_candidate_rows(2-5) [OF ins] by (cases bnd) (simp add: scan_binding_def new_binding_def)
  with b2 r2 cfg ids args show ?thesis by (simp add: beginCandidate_def replay_candidate_def)
qed

text \<open>
  An admitted candidate's domain belongs to no route of another live or deleted app and to no other
  app's pending request, and the app has no other pending request.
\<close>

lemma beginCandidate_admission:
  assumes run: "beginCandidate lib req pid did now False d = Inr ((bnd, True), d')"
    and cfg: "FromJSON (req_RequestedState req) = Inr cfg" and dn: "routing_Domain (cfg_Routing cfg) \<noteq> []"
  shows "x \<in> set (routes d) \<Longrightarrow> r_domain x = routing_Domain (cfg_Routing cfg) \<Longrightarrow> a \<in> set (apps d) \<Longrightarrow>
           a_id a = r_app_id x \<Longrightarrow> a_name a = req_AppName req"
    and "q \<in> set (requests d) \<Longrightarrow> q_state q = ''pending'' \<Longrightarrow>
           q_app q \<noteq> req_AppName req \<and> (\<exists>other. FromJSON (q_requested q) = Inr other \<and>
             routing_Domain (cfg_Routing other) \<noteq> routing_Domain (cfg_Routing cfg))"
proof -
  obtain c where v: "validateCandidateDeployRequest lib req = Inr c"
    and adm: "validateCandidateDomainAdmission d (req_AppName req) c = Inr ()"
    and np: "tsel (\<lambda>r. q_app r = req_AppName req \<and> q_state r = ''pending'') (requests d) = None"
    by (rule beginCandidate_fresh [OF run]) simp
  have [simp]: "c = cfg" using v cfg by (auto simp: validateCandidateDeployRequest_def split: if_splits)
  show "x \<in> set (routes d) \<Longrightarrow> r_domain x = routing_Domain (cfg_Routing cfg) \<Longrightarrow> a \<in> set (apps d) \<Longrightarrow>
           a_id a = r_app_id x \<Longrightarrow> a_name a = req_AppName req"
    using adm dn by (auto simp: validateCandidateDomainAdmission_def Let_def split: if_splits)
  assume q: "q \<in> set (requests d)" "q_state q = ''pending''"
  then have "q_app q \<noteq> req_AppName req" using np by (auto simp: tsel_None_iff)
  with q adm dn show "q_app q \<noteq> req_AppName req \<and> (\<exists>other. FromJSON (q_requested q) = Inr other \<and>
             routing_Domain (cfg_Routing other) \<noteq> routing_Domain (cfg_Routing cfg))"
    by (cases "FromJSON (q_requested q)")
       (auto simp: validateCandidateDomainAdmission_def Let_def res_simps split: if_splits dest!: bspec [of _ _ q])
qed

text \<open>A request with a binding is never completed by the path for requests without one.\<close>

lemma Complete_bound:
  assumes "find_binding d app rid = Some b"
    and "st = ''applied'' \<or> st = ''withdrawn''" and "json_Valid resp" and "resp \<noteq> ''null''"
  shows "request_Complete app rid st resp t d = Inl ErrNotFound"
proof -
  have "b \<in> set (bindings d)" "b_key b = (app, rid)"
    using assms(1) unfolding find_binding_def by (auto dest: tsel_SomeD)
  then have "taff (\<lambda>r. q_key r = (app, rid) \<and> q_state r = ''pending'' \<and> \<not> has_binding d r) (requests d) = 0"
    by (auto simp: has_binding_def)
  with assms(2-4) show ?thesis by (auto simp: request_Complete_def mapRowsAffected_def)
qed

end
