(* ===== verification/Candidate_Ops.thy ===== *)
theory Candidate_Ops
  imports Candidate_Names Finalization
begin

text \<open>
  The candidate life cycle of \<^verbatim>\<open>internal/server\<close>: activation (\<^verbatim>\<open>candidate_operation.go\<close>), restoring
  traffic (\<^verbatim>\<open>candidate_recovery.go\<close>), recovery (\<^verbatim>\<open>candidate_recovery_complete.go\<close>) and completion
  (\<^verbatim>\<open>candidate_completion.go\<close>). The Go interfaces are records of effectful functions over one world;
  nil interfaces do not exist in the model. \<open>cancelled\<close> is what \<^verbatim>\<open>ctx.Err()\<close> reports where the code
  asks; a call cut short by its context is a call that returns an error.
\<close>

section \<open>Interfaces\<close>

record 's checkpoint_repo =
  repo_SaveActivationIntent :: "string \<Rightarrow> string \<Rightarrow> string \<Rightarrow> ('s, unit) io"
  repo_RecordActivationGate :: "string \<Rightarrow> string \<Rightarrow> string \<Rightarrow> string \<Rightarrow> string \<Rightarrow> ('s, unit) io"
  repo_FindRuntimeCheckpoint :: "string \<Rightarrow> string \<Rightarrow> ('s, runtime_checkpoint) io"

record 's request_repo =
  requests_Find :: "string \<Rightarrow> string \<Rightarrow> ('s, deploy_request) io"

text \<open>
  \<^verbatim>\<open>CandidateOperationRuntime\<close>, \<^verbatim>\<open>CandidateRecoveryRuntime\<close>, \<^verbatim>\<open>CandidateRetirementRuntime\<close> and
  \<^verbatim>\<open>CandidateCompletionRuntime\<close>, all implemented by the ingress controller.
\<close>

record ('s, 'p) runtime =
  CaptureActivationGate :: "string \<Rightarrow> ('s, gate \<times> 'p target) io"
  FenceActivationGate :: "gate \<Rightarrow> string \<Rightarrow> ('s, gate) io"
  ReplaceActivationTarget :: "gate \<Rightarrow> 'p target \<Rightarrow> ('s, gate) io"
  PrepareCandidateDeployment :: "config \<Rightarrow> string \<Rightarrow> string \<Rightarrow> string \<Rightarrow> ('s, unit) io"
  ActivatePreparedCandidate :: "gate \<Rightarrow> config \<Rightarrow> string \<Rightarrow> string \<Rightarrow> string \<Rightarrow> ('s, gate) io"
  RetireCandidateDeployment :: "config \<Rightarrow> string \<Rightarrow> string \<Rightarrow> string \<Rightarrow> ('s, unit) io"
  CandidateRetired :: "config \<Rightarrow> string \<Rightarrow> string \<Rightarrow> string \<Rightarrow> ('s, bool) io"
  RestoredCandidateTargetReady :: "gate \<Rightarrow> 'p target \<Rightarrow> config \<Rightarrow> ('s, bool) io"
  ReconcileCandidateRoute :: "gate \<Rightarrow> 'p target \<Rightarrow> config \<Rightarrow> ('s, unit) io"

record 's finalizer =
  finalizer_Finalize :: "string \<Rightarrow> string \<Rightarrow> string \<Rightarrow> string \<Rightarrow> bool \<Rightarrow> gotime \<Rightarrow> ('s, string) io"

text \<open>What the functions use of the libraries and packages below them.\<close>

record 'p libs =
  lib_k8s :: k8s_lib
  lib_sha256 :: "string \<Rightarrow> nat list"
  lib_port :: "'p port_api"
  lib_zero_port :: 'p

section \<open>The intent\<close>

record 'p candidateOperationIntent =
  intent_AppName :: string
  intent_RequestID :: string
  intent_RequestedState :: string
  intent_SecretRevision :: string
  intent_RegistrySecret :: string
  intent_InitialGate :: gate
  intent_PredecessorTarget :: "'p target"

definition enc_intent :: "'p libs \<Rightarrow> 'p candidateOperationIntent \<Rightarrow> json" where
  "enc_intent L i = JObj [(''app_name'', JStr (intent_AppName i)), (''request_id'', JStr (intent_RequestID i)),
     (''requested_state'', JStr (intent_RequestedState i)), (''secret_revision'', JStr (intent_SecretRevision i)),
     (''registry_secret'', JStr (intent_RegistrySecret i)), (''initial_gate'', enc_gate (intent_InitialGate i)),
     (''predecessor_target'', enc_target (lib_port L) (intent_PredecessorTarget i))]"

definition intent_JSON :: "'p libs \<Rightarrow> 'p candidateOperationIntent \<Rightarrow> string" where
  "intent_JSON L i = print_json (enc_intent L i)"

definition intent_fields :: "'p libs \<Rightarrow> 'p candidateOperationIntent fields" where
  "intent_fields L = [fld ''app_name'' dec_string intent_AppName intent_AppName_update,
     fld ''request_id'' dec_string intent_RequestID intent_RequestID_update,
     fld ''requested_state'' dec_string intent_RequestedState intent_RequestedState_update,
     fld ''secret_revision'' dec_string intent_SecretRevision intent_SecretRevision_update,
     fld ''registry_secret'' dec_string intent_RegistrySecret intent_RegistrySecret_update,
     fld ''initial_gate'' (dec_strict gate_fields) intent_InitialGate intent_InitialGate_update,
     fld ''predecessor_target'' (dec_target (lib_port L) (lib_zero_port L)) intent_PredecessorTarget intent_PredecessorTarget_update]"

definition dec_intent :: "'p libs \<Rightarrow> 'p candidateOperationIntent dec" where
  "dec_intent L = dec_strict (intent_fields L)"

definition zero_intent :: "'p candidateOperationIntent" where
  "zero_intent = \<lparr>intent_AppName = [], intent_RequestID = [], intent_RequestedState = [], intent_SecretRevision = [],
     intent_RegistrySecret = [], intent_InitialGate = zero_gate,
     intent_PredecessorTarget = \<lparr>target_Selector = [], target_Ports = []\<rparr>\<rparr>"

definition decodeCandidateIntent :: "'p libs \<Rightarrow> string \<Rightarrow> 'p candidateOperationIntent option" where
  "decodeCandidateIntent L s = (case Option.bind (json_parse s) (\<lambda>j. dec_intent L j zero_intent) of
     None \<Rightarrow> None
   | Some i \<Rightarrow> if intent_JSON L i \<noteq> s \<or> intent_AppName i = [] \<or> intent_RequestID i = [] then None else Some i)"

definition validInitialCapture :: "gate \<Rightarrow> 'p target \<Rightarrow> string \<Rightarrow> bool" where
  "validInitialCapture g t app \<longleftrightarrow> gate_App g = app \<and> gate_Namespace g \<noteq> [] \<and> gate_UID g \<noteq> [] \<and>
     gate_ResourceVersion g \<noteq> [] \<and> length (target_Selector t) > 0 \<and> length (target_Ports t) > 0"

definition validSavedGate :: "gate \<Rightarrow> gate \<Rightarrow> string \<Rightarrow> string \<Rightarrow> bool \<Rightarrow> bool" where
  "validSavedGate g initial app rid requireOperation =
     (if gate_App g \<noteq> app \<or> gate_Namespace g = [] \<or> gate_UID g = [] \<or> gate_ResourceVersion g = []
         \<or> gate_UID g \<noteq> gate_UID initial \<or> gate_Namespace g \<noteq> gate_Namespace initial then False
      else if requireOperation \<and> gate_OperationID g \<noteq> rid then False
      else True)"

definition intentMatches :: "'p candidateOperationIntent \<Rightarrow> string \<Rightarrow> string \<Rightarrow> string \<Rightarrow> string \<Rightarrow> string \<Rightarrow> bool" where
  "intentMatches i app rid requested secretRevision registrySecret \<longleftrightarrow>
     intent_AppName i = app \<and> intent_RequestID i = rid \<and> intent_RequestedState i = requested \<and>
     intent_SecretRevision i = secretRevision \<and> intent_RegistrySecret i = registrySecret"

section \<open>Activation\<close>

text \<open>The tail shared by a fresh and a resumed operation: prepare, activate, record the activated gate.\<close>

definition activate_fenced ::
  "'s checkpoint_repo \<Rightarrow> ('s, 'p) runtime \<Rightarrow> string \<Rightarrow> string \<Rightarrow> config \<Rightarrow> string \<Rightarrow> string \<Rightarrow> gate \<Rightarrow> gate \<Rightarrow> ('s, gate) io" where
  "activate_fenced repo rt app rid cfg secretRevision registrySecret initial fenced =
     io_bind (PrepareCandidateDeployment rt cfg secretRevision rid registrySecret) (\<lambda>_.
     io_bind (ActivatePreparedCandidate rt fenced cfg secretRevision rid registrySecret) (\<lambda>activated.
     if \<not> validSavedGate activated initial app rid True then io_fail (ErrText ''activated candidate gate is invalid'')
     else io_bind (io_wrap (ErrText ''activated gate cannot be recorded'')
            (repo_RecordActivationGate repo app rid ''fenced'' ''activated'' (gate_JSON activated))) (\<lambda>_.
          io_ret activated)))"

definition startCandidateOperation ::
  "'p libs \<Rightarrow> 's checkpoint_repo \<Rightarrow> ('s, 'p) runtime \<Rightarrow> string \<Rightarrow> string \<Rightarrow> string \<Rightarrow> config \<Rightarrow> string \<Rightarrow> string \<Rightarrow> ('s, gate) io" where
  "startCandidateOperation L repo rt app rid requested cfg secretRevision registrySecret =
     io_bind (CaptureActivationGate rt app) (\<lambda>(g, predecessor).
     if \<not> validInitialCapture g predecessor app then io_fail (ErrText ''captured activation gate is invalid'')
     else
       let intent = \<lparr>intent_AppName = app, intent_RequestID = rid, intent_RequestedState = requested,
             intent_SecretRevision = secretRevision, intent_RegistrySecret = registrySecret,
             intent_InitialGate = g, intent_PredecessorTarget = predecessor\<rparr> in
       io_bind (io_wrap (ErrText ''candidate activation intent cannot be recorded'')
         (repo_SaveActivationIntent repo app rid (intent_JSON L intent))) (\<lambda>_.
       io_bind (FenceActivationGate rt g rid) (\<lambda>fenced.
       if \<not> validSavedGate fenced g app rid True then io_fail (ErrText ''fenced activation gate is invalid'')
       else io_bind (io_wrap (ErrText ''fenced activation gate cannot be recorded'')
              (repo_RecordActivationGate repo app rid ''prepared'' ''fenced'' (gate_JSON fenced))) (\<lambda>_.
            activate_fenced repo rt app rid cfg secretRevision registrySecret g fenced))))"

definition resumeCandidateOperation ::
  "'p libs \<Rightarrow> 's checkpoint_repo \<Rightarrow> ('s, 'p) runtime \<Rightarrow> string \<Rightarrow> string \<Rightarrow> string \<Rightarrow> config \<Rightarrow> string \<Rightarrow> string
   \<Rightarrow> runtime_checkpoint \<Rightarrow> ('s, gate) io" where
  "resumeCandidateOperation L repo rt app rid requested cfg secretRevision registrySecret c =
     (if chk_AppName c \<noteq> app \<or> chk_RequestID c \<noteq> rid
      then io_fail (ErrText ''candidate activation checkpoint identity is invalid'')
      else case decodeCandidateIntent L (chk_IntentJSON c) of
          None \<Rightarrow> io_fail (ErrText ''candidate activation intent is ambiguous'')
        | Some i \<Rightarrow>
            if \<not> intentMatches i app rid requested secretRevision registrySecret
               \<or> \<not> validInitialCapture (intent_InitialGate i) (intent_PredecessorTarget i) app
            then io_fail (ErrText ''candidate activation intent is ambiguous'')
            else if chk_Stage c = ''activated'' then
              (case decodeGate (chk_GateJSON c) of
                 None \<Rightarrow> io_fail (ErrText ''activated candidate gate is invalid'')
               | Some g \<Rightarrow> if \<not> validSavedGate g (intent_InitialGate i) app rid True
                           then io_fail (ErrText ''activated candidate gate is invalid'') else io_ret g)
            else if chk_Stage c = ''prepared''
            then io_fail (ErrText ''candidate activation checkpoint requires manual recovery'')
            else if chk_Stage c = ''fenced'' then
              (case decodeGate (chk_GateJSON c) of
                 None \<Rightarrow> io_fail (ErrText ''fenced candidate gate is invalid'')
               | Some g \<Rightarrow> if \<not> validSavedGate g (intent_InitialGate i) app rid True
                           then io_fail (ErrText ''fenced candidate gate is invalid'')
                           else activate_fenced repo rt app rid cfg secretRevision registrySecret (intent_InitialGate i) g)
            else io_fail (ErrText ''candidate activation checkpoint stage is ambiguous''))"

definition AdvanceCandidateOperation ::
  "'p libs \<Rightarrow> 's checkpoint_repo \<Rightarrow> 's request_repo \<Rightarrow> ('s, 'p) runtime \<Rightarrow> string \<Rightarrow> string \<Rightarrow> config \<Rightarrow> string \<Rightarrow> string
   \<Rightarrow> ('s, gate) io" where
  "AdvanceCandidateOperation L repo reqs rt app rid cfg secretRevision registrySecret =
     (if app = [] \<or> cfg_Name cfg \<noteq> app \<or> \<not> ValidRevision rid
      then io_fail (ErrText ''candidate operation identity is invalid'')
      else case Validate (lib_k8s L) cfg of
          Inl _ \<Rightarrow> io_fail (ErrText ''candidate configuration is invalid'')
        | Inr _ \<Rightarrow>
            if cfg_Hosting cfg = None \<or> state_Mode (cfg_State cfg) \<noteq> ''stateless''
            then io_fail (ErrText ''candidate requires hosted stateless configuration'')
            else io_bind (io_of (ValidateCandidateReferences (lib_sha256 L) cfg secretRevision registrySecret)) (\<lambda>_.
              let requested = config_JSON cfg in
              io_bind (requests_Find reqs app rid) (\<lambda>r.
              if req_AppName r \<noteq> app \<or> req_RequestID r \<noteq> rid \<or> req_State r \<noteq> ''pending'' \<or> req_RequestedState r \<noteq> requested
              then io_fail (ErrText ''candidate operation request identity is not pending'')
              else io_try (repo_FindRuntimeCheckpoint repo app rid) (\<lambda>res. case res of
                  Inl e \<Rightarrow>
                    if e = ErrDb ErrNotFound
                    then startCandidateOperation L repo rt app rid requested cfg secretRevision registrySecret
                    else io_fail (ErrText ''candidate activation checkpoint is unavailable'')
                | Inr c \<Rightarrow> resumeCandidateOperation L repo rt app rid requested cfg secretRevision registrySecret c))))"

section \<open>Restoring traffic\<close>

definition recovery_JSON :: "string \<Rightarrow> string" where
  "recovery_JSON recoveryID = print_json (JObj [(''recovery_id'', JStr recoveryID)])"

definition recovery_err :: srv_err where
  "recovery_err = ErrText ''candidate recovery identity is ambiguous''"

text \<open>
  A saved recovery identity is compared as text; text equal to the canonical form decodes to the same
  identity, so the code's other two comparisons add nothing.
\<close>

text \<open>The part of \<^verbatim>\<open>RestoreCandidateTraffic\<close> that runs under the durable recovery identity.\<close>

definition restore_target ::
  "'p libs \<Rightarrow> 's checkpoint_repo \<Rightarrow> ('s, 'p) runtime \<Rightarrow> string \<Rightarrow> string \<Rightarrow> 'p candidateOperationIntent \<Rightarrow> string \<Rightarrow> ('s, gate) io" where
  "restore_target L repo rt app rid i recoveryID =
     io_bind (CaptureActivationGate rt app) (\<lambda>(current, tgt).
     if \<not> validSavedGate current (intent_InitialGate i) app recoveryID False then io_fail recovery_err
     else if gate_OperationID current \<noteq> gate_OperationID (intent_InitialGate i) \<and> gate_OperationID current \<noteq> rid
             \<and> gate_OperationID current \<noteq> recoveryID then io_fail recovery_err
     else io_bind
       (if gate_OperationID current \<noteq> recoveryID then
          io_bind (FenceActivationGate rt current recoveryID) (\<lambda>fenced.
          if \<not> validSavedGate fenced (intent_InitialGate i) app recoveryID True then io_fail recovery_err
          else io_ret (fenced, \<lparr>target_Selector = [], target_Ports = []\<rparr>))
        else io_ret (current, tgt)) (\<lambda>(current, tgt).
     io_bind
       (if \<not> DeepEqual (lib_port L) tgt (intent_PredecessorTarget i) then
          io_bind (ReplaceActivationTarget rt current (intent_PredecessorTarget i)) (\<lambda>replaced.
          if \<not> validSavedGate replaced (intent_InitialGate i) app recoveryID True then io_fail recovery_err
          else io_ret replaced)
        else io_ret current) (\<lambda>current.
     io_bind (repo_RecordActivationGate repo app rid ''recovering'' ''withdrawn'' (gate_JSON current)) (\<lambda>_.
     io_ret current))))"

definition RestoreCandidateTraffic ::
  "'p libs \<Rightarrow> bool \<Rightarrow> 's checkpoint_repo \<Rightarrow> 's request_repo \<Rightarrow> ('s, 'p) runtime \<Rightarrow> string \<Rightarrow> string \<Rightarrow> ('s, gate) io" where
  "RestoreCandidateTraffic L cancelled repo reqs rt app rid =
     (if cancelled then io_fail ErrCtx
      else if app = [] \<or> \<not> ValidRevision rid then io_fail recovery_err
      else io_bind (requests_Find reqs app rid) (\<lambda>r.
        if req_AppName r \<noteq> app \<or> req_RequestID r \<noteq> rid \<or> req_State r \<noteq> ''pending'' then io_fail recovery_err
        else io_bind (repo_FindRuntimeCheckpoint repo app rid) (\<lambda>c.
        if chk_AppName c \<noteq> app \<or> chk_RequestID c \<noteq> rid then io_fail recovery_err
        else case decodeCandidateIntent L (chk_IntentJSON c) of
            None \<Rightarrow> io_fail recovery_err
          | Some i \<Rightarrow>
              if intent_AppName i \<noteq> app \<or> intent_RequestID i \<noteq> rid \<or> intent_RequestedState i \<noteq> req_RequestedState r
                 \<or> \<not> validInitialCapture (intent_InitialGate i) (intent_PredecessorTarget i) app
              then io_fail recovery_err
              else
                let recoveryID = candidateRecoveryID (lib_sha256 L) app rid in
                if recoveryID = rid \<or> recoveryID = gate_OperationID (intent_InitialGate i) then io_fail recovery_err
                else if chk_Stage c = ''prepared'' \<or> chk_Stage c = ''fenced'' \<or> chk_Stage c = ''activated'' then
                  io_bind (repo_RecordActivationGate repo app rid (chk_Stage c) ''recovering'' (recovery_JSON recoveryID)) (\<lambda>_.
                  restore_target L repo rt app rid i recoveryID)
                else if chk_Stage c = ''recovering'' then
                  (if chk_GateJSON c \<noteq> recovery_JSON recoveryID then io_fail recovery_err
                   else restore_target L repo rt app rid i recoveryID)
                else if chk_Stage c = ''withdrawn'' then
                  (case decodeGate (chk_GateJSON c) of
                     None \<Rightarrow> io_fail recovery_err
                   | Some g \<Rightarrow> if \<not> validSavedGate g (intent_InitialGate i) app recoveryID True then io_fail recovery_err
                               else io_ret g)
                else io_fail recovery_err)))"

section \<open>Recovery\<close>

definition recover_predecessor :: "'p libs \<Rightarrow> string \<Rightarrow> deploy_request \<Rightarrow> srv_err + config option" where
  "recover_predecessor L app r =
     (if (req_PreviousAppID r = []) \<noteq> (req_PreviousState r = []) then Inl (ErrText ''candidate predecessor is incomplete'')
      else if req_PreviousState r = [] then Inr None
      else case FromJSON (req_PreviousState r) of
          Inl _ \<Rightarrow> Inl (ErrText ''candidate predecessor is invalid'')
        | Inr previous \<Rightarrow>
            if \<not> is_ok (Validate (lib_k8s L) previous) \<or> cfg_Name previous \<noteq> app
            then Inl (ErrText ''candidate predecessor is invalid'') else Inr (Some previous))"

text \<open>The observations after traffic is restored: retirement, unchanged traffic, predecessor health.\<close>

definition confirm_recovery ::
  "'p libs \<Rightarrow> 's checkpoint_repo \<Rightarrow> ('s, 'p) runtime \<Rightarrow> string \<Rightarrow> string \<Rightarrow> config \<Rightarrow> config option \<Rightarrow> gate \<Rightarrow> ('s, bool) io" where
  "confirm_recovery L repo rt app rid cfg previous g =
     (let pullSecret = CandidateRegistrySecretName (lib_sha256 L) cfg in
      io_bind (RetireCandidateDeployment rt cfg (cfg_EnvironmentRevision cfg) rid pullSecret) (\<lambda>_.
      io_bind (CandidateRetired rt cfg (cfg_EnvironmentRevision cfg) rid pullSecret) (\<lambda>retired.
      if \<not> retired then io_ret False
      else io_bind (repo_FindRuntimeCheckpoint repo app rid) (\<lambda>c.
        case decodeCandidateIntent L (chk_IntentJSON c) of
          None \<Rightarrow> io_fail (ErrText ''noncanonical candidate intent'')
        | Some i \<Rightarrow>
            io_bind (CaptureActivationGate rt app) (\<lambda>(current, tgt).
            if current \<noteq> g \<or> \<not> DeepEqual (lib_port L) tgt (intent_PredecessorTarget i)
            then io_fail (ErrText ''restored traffic changed during retirement'')
            else case previous of None \<Rightarrow> io_ret True
              | Some p \<Rightarrow> RestoredCandidateTargetReady rt g (intent_PredecessorTarget i) p)))))"

definition RecoverCandidateOperation ::
  "'p libs \<Rightarrow> bool \<Rightarrow> 's checkpoint_repo \<Rightarrow> 's request_repo \<Rightarrow> ('s, 'p) runtime \<Rightarrow> string \<Rightarrow> string \<Rightarrow> ('s, bool) io" where
  "RecoverCandidateOperation L cancelled repo reqs rt app rid =
     io_bind (requests_Find reqs app rid) (\<lambda>r.
     case FromJSON (req_RequestedState r) of
       Inl _ \<Rightarrow> io_fail (ErrText ''candidate recovery request is invalid'')
     | Inr cfg \<Rightarrow>
         if \<not> is_ok (Validate (lib_k8s L) cfg) \<or> cfg_Hosting cfg = None \<or> state_Mode (cfg_State cfg) \<noteq> ''stateless''
            \<or> req_AppName r \<noteq> app \<or> req_RequestID r \<noteq> rid \<or> req_State r \<noteq> ''pending'' \<or> cfg_Name cfg \<noteq> app
         then io_fail (ErrText ''candidate recovery request is invalid'')
         else io_bind (io_of (recover_predecessor L app r)) (\<lambda>previous.
           io_bind (if req_PreviousAppID r = [] then
               io_bind (repo_FindRuntimeCheckpoint repo app rid) (\<lambda>c.
               case decodeCandidateIntent L (chk_IntentJSON c) of
                 None \<Rightarrow> io_fail (ErrText ''initial candidate target was not inactive'')
               | Some i \<Rightarrow> io_guard (IsInactiveCandidateTarget (lib_port L) (lib_sha256 L) cfg rid (intent_PredecessorTarget i))
                    (ErrText ''initial candidate target was not inactive''))
             else io_ret ()) (\<lambda>_.
           io_bind (RestoreCandidateTraffic L cancelled repo reqs rt app rid) (\<lambda>g.
           confirm_recovery L repo rt app rid cfg previous g))))"

section \<open>Completion\<close>

record pb_app =
  pba_Id :: string
  pba_Name :: string
  pba_Image :: string
  pba_Replicas :: int
  pba_DesiredState :: string
  pba_CreatedAt :: string
  pba_UpdatedAt :: string

record pb_deployment =
  pbd_Id :: string
  pbd_AppId :: string
  pbd_Status :: string
  pbd_FailureReason :: string
  pbd_CreatedAt :: string
  pbd_UpdatedAt :: string

record deploy_response =
  pbr_App :: "pb_app option"
  pbr_Deployment :: "pb_deployment option"
  pbr_WithdrawalConfirmed :: bool
  pbr_RequestedState :: string

fun dec_int32 :: "int dec" where
  "dec_int32 JNull x = Some x"
| "dec_int32 (JNum l) x = (case read_int l of None \<Rightarrow> None
     | Some i \<Rightarrow> if - (2 ^ 31) \<le> i \<and> i < 2 ^ 31 then Some i else None)"
| "dec_int32 _ x = None"

definition pb_app_fields :: "pb_app fields" where
  "pb_app_fields = [fld ''id'' dec_string pba_Id pba_Id_update, fld ''name'' dec_string pba_Name pba_Name_update,
     fld ''image'' dec_string pba_Image pba_Image_update, fld ''replicas'' dec_int32 pba_Replicas pba_Replicas_update,
     fld ''desired_state'' dec_string pba_DesiredState pba_DesiredState_update,
     fld ''created_at'' dec_string pba_CreatedAt pba_CreatedAt_update,
     fld ''updated_at'' dec_string pba_UpdatedAt pba_UpdatedAt_update]"

definition pb_deployment_fields :: "pb_deployment fields" where
  "pb_deployment_fields = [fld ''id'' dec_string pbd_Id pbd_Id_update, fld ''app_id'' dec_string pbd_AppId pbd_AppId_update,
     fld ''status'' dec_string pbd_Status pbd_Status_update,
     fld ''failure_reason'' dec_string pbd_FailureReason pbd_FailureReason_update,
     fld ''created_at'' dec_string pbd_CreatedAt pbd_CreatedAt_update,
     fld ''updated_at'' dec_string pbd_UpdatedAt pbd_UpdatedAt_update]"

definition zero_pb_app :: pb_app where
  "zero_pb_app = \<lparr>pba_Id = [], pba_Name = [], pba_Image = [], pba_Replicas = 0, pba_DesiredState = [], pba_CreatedAt = [], pba_UpdatedAt = []\<rparr>"

definition zero_pb_deployment :: pb_deployment where
  "zero_pb_deployment = \<lparr>pbd_Id = [], pbd_AppId = [], pbd_Status = [], pbd_FailureReason = [], pbd_CreatedAt = [], pbd_UpdatedAt = []\<rparr>"

definition response_fields :: "deploy_response fields" where
  "response_fields = [fld ''app'' (dec_ptr zero_pb_app (dec_struct pb_app_fields)) pbr_App pbr_App_update,
     fld ''deployment'' (dec_ptr zero_pb_deployment (dec_struct pb_deployment_fields)) pbr_Deployment pbr_Deployment_update,
     fld ''withdrawal_confirmed'' dec_bool pbr_WithdrawalConfirmed pbr_WithdrawalConfirmed_update,
     fld ''requested_state'' dec_string pbr_RequestedState pbr_RequestedState_update]"

definition decodeCandidateReply :: "string \<Rightarrow> srv_err + deploy_response" where
  "decodeCandidateReply s = (case Option.bind (json_parse s) (\<lambda>j. dec_struct response_fields j
       \<lparr>pbr_App = None, pbr_Deployment = None, pbr_WithdrawalConfirmed = False, pbr_RequestedState = []\<rparr>) of
     None \<Rightarrow> Inl (ErrText ''saved candidate response is invalid'')
   | Some reply \<Rightarrow> if pbr_App reply = None \<or> pbr_Deployment reply = None
                   then Inl (ErrText ''saved candidate response is invalid'') else Inr reply)"

text \<open>The configuration whose route is published: the candidate's, or the restored predecessor's.\<close>

definition withdrawn_route_config :: "'p libs \<Rightarrow> string \<Rightarrow> deploy_request \<Rightarrow> config \<Rightarrow> srv_err + config" where
  "withdrawn_route_config L app r cfg =
     (if req_PreviousAppID r \<noteq> [] then
        (case FromJSON (req_PreviousState r) of
           Inl _ \<Rightarrow> Inl (ErrText ''candidate predecessor configuration is invalid'')
         | Inr c \<Rightarrow> if \<not> is_ok (Validate (lib_k8s L) c) \<or> cfg_Name c \<noteq> app
                    then Inl (ErrText ''candidate predecessor configuration is invalid'') else Inr c)
      else Inr (cfg\<lparr>cfg_Routing := (cfg_Routing cfg)\<lparr>routing_Domain := []\<rparr>\<rparr>))"

text \<open>Observe the selected workload, publish the route, observe again and commit.\<close>

definition complete_observed ::
  "'p libs \<Rightarrow> 's finalizer \<Rightarrow> ('s, 'p) runtime \<Rightarrow> string \<Rightarrow> string \<Rightarrow> string \<Rightarrow> bool \<Rightarrow> gotime \<Rightarrow> deploy_request \<Rightarrow> config
   \<Rightarrow> 'p candidateOperationIntent \<Rightarrow> runtime_checkpoint \<Rightarrow> ('s, deploy_response option) io" where
  "complete_observed L fin rt app rid outcome tls now r cfg i c =
     (let wantedStage = (if outcome = ''withdrawn'' then ''withdrawn'' else ''activated'');
          operationID = (if outcome = ''withdrawn'' then candidateRecoveryID (lib_sha256 L) app rid else rid) in
      case decodeGate (chk_GateJSON c) of
        None \<Rightarrow> io_fail (ErrText ''candidate completion checkpoint is invalid'')
      | Some g \<Rightarrow>
          if chk_AppName c \<noteq> app \<or> chk_RequestID c \<noteq> rid \<or> chk_Stage c \<noteq> wantedStage
             \<or> \<not> validSavedGate g (intent_InitialGate i) app operationID True
          then io_fail (ErrText ''candidate completion checkpoint is invalid'')
          else io_bind (CaptureActivationGate rt app) (\<lambda>(current, tgt).
          if current \<noteq> g then io_fail (ErrText ''candidate traffic changed before completion'')
          else io_bind
            (if outcome = ''applied'' then
               (case CandidateSelector (lib_sha256 L) app rid of
                  None \<Rightarrow> io_fail (ErrText ''candidate generation is not selected'')
                | Some sel \<Rightarrow>
                    if \<not> same_map (target_Selector tgt) sel then io_fail (ErrText ''candidate generation is not selected'')
                    else io_bind (RestoredCandidateTargetReady rt g tgt cfg) (\<lambda>ready.
                      io_ret (if ready then Some cfg else None)))
             else if \<not> DeepEqual (lib_port L) tgt (intent_PredecessorTarget i)
             then io_fail (ErrText ''candidate predecessor target changed'')
             else io_bind (io_of (withdrawn_route_config L app r cfg)) (\<lambda>c. io_ret (Some c)))
            (\<lambda>routeConfig. case routeConfig of
               None \<Rightarrow> io_ret None
             | Some routeConfig \<Rightarrow>
                 io_bind (ReconcileCandidateRoute rt g tgt routeConfig) (\<lambda>_.
                 io_bind (CaptureActivationGate rt app) (\<lambda>(current, afterTarget).
                 if current \<noteq> g \<or> \<not> DeepEqual (lib_port L) tgt afterTarget
                 then io_fail (ErrText ''candidate traffic changed during route reconciliation'')
                 else io_bind (finalizer_Finalize fin app rid outcome (chk_GateJSON c) tls now) (\<lambda>result.
                   io_bind (io_of (decodeCandidateReply result)) (\<lambda>reply. io_ret (Some reply))))))))"

definition CompleteCandidateOperation ::
  "'p libs \<Rightarrow> bool \<Rightarrow> 's checkpoint_repo \<Rightarrow> 's request_repo \<Rightarrow> 's finalizer \<Rightarrow> ('s, 'p) runtime \<Rightarrow> string \<Rightarrow> string \<Rightarrow> string
   \<Rightarrow> bool \<Rightarrow> gotime \<Rightarrow> ('s, deploy_response option) io" where
  "CompleteCandidateOperation L cancelled repo reqs fin rt app rid outcome tls now =
     (if app = [] \<or> \<not> ValidRevision rid \<or> (outcome \<noteq> ''applied'' \<and> outcome \<noteq> ''withdrawn'') \<or> IsZero now
      then io_fail (ErrText ''candidate completion is not configured or invalid'')
      else io_bind (requests_Find reqs app rid) (\<lambda>r.
        if req_AppName r \<noteq> app \<or> req_RequestID r \<noteq> rid
        then io_fail (ErrText ''candidate completion request identity changed'')
        else if req_State r \<noteq> ''pending'' then
          (if req_State r \<noteq> outcome then io_fail (ErrText ''candidate outcome is already terminal'')
           else io_bind (io_of (decodeCandidateReply (req_ResponseJSON r))) (\<lambda>reply. io_ret (Some reply)))
        else case FromJSON (req_RequestedState r) of
            Inl _ \<Rightarrow> io_fail (ErrText ''candidate completion configuration is invalid'')
          | Inr cfg \<Rightarrow>
              if \<not> is_ok (Validate (lib_k8s L) cfg) \<or> cfg_Name cfg \<noteq> app \<or> cfg_Hosting cfg = None
                 \<or> state_Mode (cfg_State cfg) \<noteq> ''stateless''
              then io_fail (ErrText ''candidate completion configuration is invalid'')
              else if (req_PreviousAppID r = []) \<noteq> (req_PreviousState r = [])
              then io_fail (ErrText ''candidate predecessor is incomplete'')
              else io_bind (repo_FindRuntimeCheckpoint repo app rid) (\<lambda>c.
                case decodeCandidateIntent L (chk_IntentJSON c) of
                  None \<Rightarrow> io_fail (ErrText ''candidate completion intent changed'')
                | Some i \<Rightarrow>
                    if \<not> intentMatches i app rid (req_RequestedState r) (cfg_EnvironmentRevision cfg)
                           (CandidateRegistrySecretName (lib_sha256 L) cfg)
                    then io_fail (ErrText ''candidate completion intent changed'')
                    else if outcome = ''withdrawn'' then
                      io_bind (RecoverCandidateOperation L cancelled repo reqs rt app rid) (\<lambda>recovered.
                      if \<not> recovered then io_ret None
                      else io_bind (repo_FindRuntimeCheckpoint repo app rid) (\<lambda>c'.
                        if chk_IntentJSON c' \<noteq> chk_IntentJSON c
                        then io_fail (ErrText ''candidate intent changed during recovery'')
                        else complete_observed L fin rt app rid outcome tls now r cfg i c'))
                    else complete_observed L fin rt app rid outcome tls now r cfg i c)))"

end
