(* ===== verification/Candidate_World.thy ===== *)
theory Candidate_World
  imports Candidate_Ops
begin

text \<open>
  The candidate operations run against the journal: the repositories of \<^verbatim>\<open>internal/db\<close> serve the
  interfaces, and the runtime is arbitrary but observed (every call is logged with the database it
  finds). The locale \<open>candidate_host\<close> is what the operations need of their collaborators to keep a
  preorder on worlds; it is interpreted for the journal and for the log. The theorems are about the
  order of durable writes and runtime calls.
\<close>

section \<open>Hosts that keep a preorder\<close>

locale candidate_host = world_preorder R for R :: "'s \<Rightarrow> 's \<Rightarrow> bool" +
  fixes repo :: "'s checkpoint_repo" and reqs :: "'s request_repo" and rt :: "('s, 'p) runtime" and fin :: "'s finalizer"
  assumes keeps_repo: "keeps (repo_SaveActivationIntent repo a r i)" "keeps (repo_RecordActivationGate repo a r e n g)"
      "keeps (repo_FindRuntimeCheckpoint repo a r)"
    and keeps_reqs: "keeps (requests_Find reqs a r)"
    and keeps_gate: "keeps (CaptureActivationGate rt a)" "keeps (FenceActivationGate rt x r)"
      "keeps (ReplaceActivationTarget rt x t)"
    and keeps_work: "keeps (PrepareCandidateDeployment rt cfg i r p)" "keeps (ActivatePreparedCandidate rt x cfg i r p)"
      "keeps (RetireCandidateDeployment rt cfg i r p)" "keeps (CandidateRetired rt cfg i r p)"
      "keeps (RestoredCandidateTargetReady rt x t cfg)" "keeps (ReconcileCandidateRoute rt x t cfg)"
    and keeps_fin: "keeps (finalizer_Finalize fin a r out g tls now)"
begin

lemmas keeps_calls = keeps_repo keeps_reqs keeps_gate keeps_work keeps_fin

lemmas keeps_rules = keeps_intros keeps_calls

lemma keeps_activate: "keeps (activate_fenced repo rt app rid cfg srev rsec initial fenced)"
  unfolding activate_fenced_def by (intro keeps_rules)

lemma keeps_advance: "keeps (AdvanceCandidateOperation L repo reqs rt app rid cfg srev rsec)"
  unfolding AdvanceCandidateOperation_def startCandidateOperation_def resumeCandidateOperation_def Let_def
  by (intro keeps_rules keeps_activate)

lemma keeps_restore: "keeps (RestoreCandidateTraffic L cancelled repo reqs rt app rid)"
  unfolding RestoreCandidateTraffic_def restore_target_def Let_def by (intro keeps_rules)

lemma keeps_recover: "keeps (RecoverCandidateOperation L cancelled repo reqs rt app rid)"
  unfolding RecoverCandidateOperation_def confirm_recovery_def Let_def by (intro keeps_rules keeps_restore)

lemma keeps_complete: "keeps (CompleteCandidateOperation L cancelled repo reqs fin rt app rid out tls now)"
  unfolding CompleteCandidateOperation_def complete_observed_def Let_def by (intro keeps_rules keeps_recover)

end

section \<open>The world of a server\<close>

text \<open>
  The calls a server makes: those of the candidate operations, applying and deleting an app, queries,
  admission checks, the passive preparation of a candidate and the steps of its deletion.
\<close>

datatype 'p call = CCapture string | CFence gate string | CReplace gate "'p target" | CPrepare string | CActivate gate string
  | CRetire string | CRetired string | CReady gate "'p target" | CReconcile gate "'p target"
  | CApply config gomap string | CDelete string | CQuery string | CAdmit config | CDepend string | CBootstrap string | CErase string

text \<open>\<open>w_env\<close> is the cluster and everything else outside the database; \<open>w_log\<close> the runtime calls made.\<close>

record ('k, 'p) world =
  w_db :: db
  w_env :: 'k
  w_log :: "('p call \<times> db) list"

definition tx_io :: "('k \<Rightarrow> 'a tx) \<Rightarrow> (('k, 'p) world, 'a) io" where
  "tx_io f s = (case f (w_env s) (w_db s) of Inl e \<Rightarrow> (Inl (ErrDb e), s) | Inr (x, d) \<Rightarrow> (Inr x, s\<lparr>w_db := d\<rparr>))"

definition read_io :: "(db \<Rightarrow> db_err + 'a) \<Rightarrow> (('k, 'p) world, 'a) io" where
  "read_io f s = (case f (w_db s) of Inl e \<Rightarrow> (Inl (ErrDb e), s) | Inr x \<Rightarrow> (Inr x, s))"

definition call_io :: "'p call \<Rightarrow> ('k, 'a) io \<Rightarrow> (('k, 'p) world, 'a) io" where
  "call_io c m s = (case m (w_env s) of (r, k) \<Rightarrow> (r, s\<lparr>w_env := k, w_log := w_log s @ [(c, w_db s)]\<rparr>))"

text \<open>\<^verbatim>\<open>now\<close> is the repository's clock, read from the environment.\<close>

definition db_checkpoints :: "('k \<Rightarrow> gotime) \<Rightarrow> (('k, 'p) world) checkpoint_repo" where
  "db_checkpoints now = \<lparr>repo_SaveActivationIntent = (\<lambda>a r i. tx_io (\<lambda>k. SaveActivationIntent a r i (now k))),
     repo_RecordActivationGate = (\<lambda>a r e n g. tx_io (\<lambda>k. RecordActivationGate a r e n g (now k))),
     repo_FindRuntimeCheckpoint = (\<lambda>a r. read_io (FindRuntimeCheckpoint a r))\<rparr>"

definition db_requests :: "(('k, 'p) world) request_repo" where
  "db_requests = \<lparr>requests_Find = (\<lambda>a r. read_io (request_Find a r))\<rparr>"

definition db_finalizer :: "'p libs \<Rightarrow> (('k, 'p) world) finalizer" where
  "db_finalizer L = \<lparr>finalizer_Finalize = (\<lambda>a r out g tls now. tx_io (\<lambda>_. Finalize (lib_k8s L) (lib_sha256 L) a r out g tls now))\<rparr>"

definition observed :: "('k, 'p) runtime \<Rightarrow> (('k, 'p) world, 'p) runtime" where
  "observed rt = \<lparr>CaptureActivationGate = (\<lambda>a. call_io (CCapture a) (CaptureActivationGate rt a)),
     FenceActivationGate = (\<lambda>g r. call_io (CFence g r) (FenceActivationGate rt g r)),
     ReplaceActivationTarget = (\<lambda>g t. call_io (CReplace g t) (ReplaceActivationTarget rt g t)),
     PrepareCandidateDeployment = (\<lambda>cfg i r p. call_io (CPrepare r) (PrepareCandidateDeployment rt cfg i r p)),
     ActivatePreparedCandidate = (\<lambda>g cfg i r p. call_io (CActivate g r) (ActivatePreparedCandidate rt g cfg i r p)),
     RetireCandidateDeployment = (\<lambda>cfg i r p. call_io (CRetire r) (RetireCandidateDeployment rt cfg i r p)),
     CandidateRetired = (\<lambda>cfg i r p. call_io (CRetired r) (CandidateRetired rt cfg i r p)),
     RestoredCandidateTargetReady = (\<lambda>g t cfg. call_io (CReady g t) (RestoredCandidateTargetReady rt g t cfg)),
     ReconcileCandidateRoute = (\<lambda>g t cfg. call_io (CReconcile g t) (ReconcileCandidateRoute rt g t cfg))\<rparr>"

lemma host_simps [simp]:
  "repo_SaveActivationIntent (db_checkpoints now) a r i = tx_io (\<lambda>k. SaveActivationIntent a r i (now k))"
  "repo_RecordActivationGate (db_checkpoints now) a r e n x = tx_io (\<lambda>k. RecordActivationGate a r e n x (now k))"
  "repo_FindRuntimeCheckpoint (db_checkpoints now) a r = read_io (FindRuntimeCheckpoint a r)"
  "requests_Find db_requests a r = read_io (request_Find a r)"
  "finalizer_Finalize (db_finalizer L) a r out x tls t = tx_io (\<lambda>_. Finalize (lib_k8s L) (lib_sha256 L) a r out x tls t)"
  "CaptureActivationGate (observed rt) a = call_io (CCapture a) (CaptureActivationGate rt a)"
  "FenceActivationGate (observed rt) g r = call_io (CFence g r) (FenceActivationGate rt g r)"
  "ReplaceActivationTarget (observed rt) g t' = call_io (CReplace g t') (ReplaceActivationTarget rt g t')"
  "PrepareCandidateDeployment (observed rt) cfg i r p = call_io (CPrepare r) (PrepareCandidateDeployment rt cfg i r p)"
  "ActivatePreparedCandidate (observed rt) g cfg i r p = call_io (CActivate g r) (ActivatePreparedCandidate rt g cfg i r p)"
  "RetireCandidateDeployment (observed rt) cfg i r p = call_io (CRetire r) (RetireCandidateDeployment rt cfg i r p)"
  "CandidateRetired (observed rt) cfg i r p = call_io (CRetired r) (CandidateRetired rt cfg i r p)"
  "RestoredCandidateTargetReady (observed rt) g t' cfg = call_io (CReady g t') (RestoredCandidateTargetReady rt g t' cfg)"
  "ReconcileCandidateRoute (observed rt) g t' cfg = call_io (CReconcile g t') (ReconcileCandidateRoute rt g t' cfg)"
  by (simp_all add: db_checkpoints_def db_requests_def db_finalizer_def observed_def)

section \<open>Every operation is a run of the journal\<close>

interpretation journal_pre: world_preorder "\<lambda>s t. jreach lib sha (w_db s) (w_db t)" for lib sha
  by unfold_locales (auto simp: jreach_def)

lemma jreach_refl [simp]: "jreach lib sha d d"
  by (simp add: jreach_def)

lemma tx_io_jreach: "(\<And>k d x d'. f k d = Inr (x, d') \<Longrightarrow> jstep lib sha d d') \<Longrightarrow> jreach lib sha (w_db s) (w_db (snd (tx_io f s)))"
  by (auto simp: tx_io_def jreach_def split: sum.splits)

lemma read_io_same [simp]: "snd (read_io f s) = s"
  by (auto simp: read_io_def split: sum.splits)

lemma call_io_db [simp]: "w_db (snd (call_io c m s)) = w_db s"
  by (auto simp: call_io_def split: prod.splits)

interpretation journal_host: candidate_host "\<lambda>s t. jreach (lib_k8s L) (lib_sha256 L) (w_db s) (w_db t)"
    "db_checkpoints now" db_requests "observed rt" "db_finalizer L" for L now rt
  by unfold_locales
     (simp_all add: journal_pre.keeps_def,
      (blast intro: tx_io_jreach jstep.save_intent jstep.record_gate jstep.finalize)+)

interpretation log_pre: world_preorder "\<lambda>s t. \<exists>z. w_log t = w_log s @ z"
  by unfold_locales auto

lemma tx_io_log [simp]: "w_log (snd (tx_io f s)) = w_log s"
  by (auto simp: tx_io_def split: sum.splits)

lemma call_io_log [simp]: "w_log (snd (call_io c m s)) = w_log s @ [(c, w_db s)]"
  by (auto simp: call_io_def split: prod.splits)

interpretation log_host: candidate_host "\<lambda>s t. \<exists>z. w_log t = w_log s @ z"
    "db_checkpoints now" db_requests "observed rt" "db_finalizer L" for L now rt
  by unfold_locales (simp_all add: log_pre.keeps_def)

section \<open>Calls made, and the database each call finds\<close>

text \<open>\<open>emits P m s\<close>: \<open>m\<close> run at \<open>s\<close> only adds log entries that satisfy \<open>P\<close>.\<close>

definition emits :: "('p call \<times> db \<Rightarrow> bool) \<Rightarrow> (('k, 'p) world, 'a) io \<Rightarrow> ('k, 'p) world \<Rightarrow> bool" where
  "emits P m s \<longleftrightarrow> (\<exists>z. w_log (snd (m s)) = w_log s @ z \<and> list_all P z)"

definition calls_since :: "('k, 'p) world \<Rightarrow> ('k, 'p) world \<Rightarrow> ('p call \<times> db) list" where
  "calls_since s t = drop (length (w_log s)) (w_log t)"

lemma emits_calls: "emits P m s \<Longrightarrow> list_all P (calls_since s (snd (m s)))"
  by (auto simp: emits_def calls_since_def)

lemma emits_ret [intro]: "emits P (io_ret x) s" "emits P (io_fail e) s" "emits P (io_of r) s"
  by (cases r; simp add: emits_def)+

lemma emits_bind [intro]:
  assumes "emits P m s" and "\<And>x s'. m s = (Inr x, s') \<Longrightarrow> emits P (f x) s'"
  shows "emits P (io_bind m f) s"
proof (cases "m s")
  case (Pair r s')
  show ?thesis
  proof (cases r)
    case (Inr x)
    with Pair assms(2) [of x s'] assms(1) show ?thesis by (fastforce simp: emits_def io_bind_def)
  qed (use Pair assms(1) in \<open>auto simp: emits_def io_bind_def\<close>)
qed

lemma emits_try:
  assumes "emits P m s" and "\<And>r s'. m s = (r, s') \<Longrightarrow> emits P (f r) s'"
  shows "emits P (io_try m f) s"
proof (cases "m s")
  case (Pair r s')
  with assms(2) [OF this] assms(1) show ?thesis by (fastforce simp: emits_def io_try_def)
qed

lemma emits_wrap: "emits P m s \<Longrightarrow> emits P (io_wrap e m) s"
  by (auto simp: emits_def io_wrap_def split: prod.splits sum.splits)

lemma emits_db [intro]: "emits P (tx_io f) s" "emits P (read_io g) s"
  by (simp_all add: emits_def)

lemma emits_call [intro]: "P (c, w_db s) \<Longrightarrow> emits P (call_io c m) s"
  by (simp add: emits_def)

lemma emits_if: "(b \<Longrightarrow> emits P m s) \<Longrightarrow> (\<not> b \<Longrightarrow> emits P n s) \<Longrightarrow> emits P (if b then m else n) s"
  by simp

lemma emits_option:
  "(z = None \<Longrightarrow> emits P m s) \<Longrightarrow> (\<And>x. z = Some x \<Longrightarrow> emits P (f x) s) \<Longrightarrow>
   emits P (case z of None \<Rightarrow> m | Some x \<Rightarrow> f x) s"
  by (cases z) simp_all

lemma emits_sum:
  "(\<And>e. z = Inl e \<Longrightarrow> emits P (f e) s) \<Longrightarrow> (\<And>x. z = Inr x \<Longrightarrow> emits P (g x) s) \<Longrightarrow>
   emits P (case z of Inl e \<Rightarrow> f e | Inr x \<Rightarrow> g x) s"
  by (cases z) simp_all

lemma emits_split: "(\<And>a b. p = (a, b) \<Longrightarrow> emits P (f a b) s) \<Longrightarrow> emits P (case p of (a, b) \<Rightarrow> f a b) s"
  by (cases p) simp

lemma emits_guard: "emits P (io_guard b e) s"
  by (cases b) auto

lemmas emits_rules = emits_ret emits_bind emits_wrap emits_db emits_call emits_if emits_option emits_sum emits_split emits_guard

lemma emits_mono: "emits P m s \<Longrightarrow> (\<And>x. P x \<Longrightarrow> Q x) \<Longrightarrow> emits Q m s"
  by (auto simp: emits_def list_all_iff)

lemma io_wrap_ok: "io_wrap e m s = (Inr x, s') \<longleftrightarrow> m s = (Inr x, s')"
  by (auto simp: io_wrap_def split: prod.splits sum.splits)

lemma tx_io_ok: "tx_io f s = (Inr x, s') \<longleftrightarrow> (\<exists>d. f (w_env s) (w_db s) = Inr (x, d) \<and> s' = s\<lparr>w_db := d\<rparr>)"
  by (auto simp: tx_io_def split: sum.splits)

lemma read_io_ok: "read_io f s = (Inr x, s') \<longleftrightarrow> f (w_db s) = Inr x \<and> s' = s"
  by (auto simp: read_io_def split: sum.splits)

lemma read_io_err: "read_io f s = (Inl e, s') \<longleftrightarrow> (\<exists>e'. f (w_db s) = Inl e' \<and> e = ErrDb e') \<and> s' = s"
  by (auto simp: read_io_def split: sum.splits)

lemma call_io_ok: "call_io c m s = (r, s') \<longleftrightarrow> (\<exists>k. m (w_env s) = (r, k) \<and> s' = s\<lparr>w_env := k, w_log := w_log s @ [(c, w_db s)]\<rparr>)"
  by (auto simp: call_io_def split: prod.splits)

lemma io_bind_ok: "io_bind m f s = (Inr y, s') \<longleftrightarrow> (\<exists>x t. m s = (Inr x, t) \<and> f x t = (Inr y, s'))"
  by (auto simp: io_bind_def split: prod.splits sum.splits)

lemmas io_ok = io_bind_ok io_wrap_ok tx_io_ok read_io_ok call_io_ok

lemma io_of_ok: "io_of r s = (Inr x, s') \<longleftrightarrow> r = Inr x \<and> s' = s"
  by (cases r) auto

text \<open>\<open>ensures Q m s\<close>: when \<open>m\<close> run at \<open>s\<close> returns a value, the value and the world satisfy \<open>Q\<close>.\<close>

definition ensures :: "('a \<Rightarrow> 's \<Rightarrow> bool) \<Rightarrow> ('s, 'a) io \<Rightarrow> 's \<Rightarrow> bool" where
  "ensures Q m s \<longleftrightarrow> (\<forall>x s'. m s = (Inr x, s') \<longrightarrow> Q x s')"

lemma ensuresD: "ensures Q m s \<Longrightarrow> m s = (Inr x, s') \<Longrightarrow> Q x s'"
  by (simp add: ensures_def)

lemma ensures_ret: "Q x s \<Longrightarrow> ensures Q (io_ret x) s"
  by (simp add: ensures_def)

lemma ensures_fail: "ensures Q (io_fail e) s"
  by (simp add: ensures_def)

lemma ensures_bind: "(\<And>x s'. m s = (Inr x, s') \<Longrightarrow> ensures Q (f x) s') \<Longrightarrow> ensures Q (io_bind m f) s"
  by (auto simp: ensures_def io_bind_ok)

lemma ensures_if: "(b \<Longrightarrow> ensures Q m s) \<Longrightarrow> (\<not> b \<Longrightarrow> ensures Q n s) \<Longrightarrow> ensures Q (if b then m else n) s"
  by simp

lemma ensures_option:
  "(z = None \<Longrightarrow> ensures Q m s) \<Longrightarrow> (\<And>x. z = Some x \<Longrightarrow> ensures Q (f x) s) \<Longrightarrow>
   ensures Q (case z of None \<Rightarrow> m | Some x \<Rightarrow> f x) s"
  by (cases z) simp_all

lemma ensures_sum:
  "(\<And>e. z = Inl e \<Longrightarrow> ensures Q (f e) s) \<Longrightarrow> (\<And>x. z = Inr x \<Longrightarrow> ensures Q (g x) s) \<Longrightarrow>
   ensures Q (case z of Inl e \<Rightarrow> f e | Inr x \<Rightarrow> g x) s"
  by (cases z) simp_all

lemma ensures_split: "(\<And>a b. p = (a, b) \<Longrightarrow> ensures Q (f a b) s) \<Longrightarrow> ensures Q (case p of (a, b) \<Rightarrow> f a b) s"
  by (cases p) simp

lemmas ensures_rules = ensures_ret ensures_fail ensures_bind ensures_if ensures_option ensures_sum ensures_split

section \<open>Checkpoints written\<close>

lemma SaveActivationIntent_find:
  "SaveActivationIntent app rid i t d = Inr (x, d') \<Longrightarrow> find_checkpoint d app rid = None \<Longrightarrow>
   \<exists>c. find_checkpoint d' app rid = Some c \<and> c_stage c = ''prepared'' \<and> c_intent c = i"
  by (auto simp: SaveActivationIntent_def res_simps insert_checkpoint_def find_checkpoint_def c_key_def tsel_append
      split: if_splits option.splits)

lemma RecordActivationGate_find:
  assumes "RecordActivationGate app rid e n g t d = Inr (x, d')"
  shows "\<exists>c. find_checkpoint d app rid = Some c \<and> c_stage c = e \<and>
     find_checkpoint d' app rid = Some (c\<lparr>c_stage := n, c_gate := g, c_updated := formatTime t\<rparr>)"
    and "validCheckpointTransition e n"
proof -
  from assms obtain c where c: "find_checkpoint d app rid = Some c" "c_stage c = e"
    and d': "d' = d\<lparr>checkpoints := tupd (\<lambda>x. c_key x = (app, rid) \<and> c_stage x = e)
      (\<lambda>x. x\<lparr>c_stage := n, c_gate := g, c_updated := formatTime t\<rparr>) (checkpoints d)\<rparr>"
    and "validCheckpointTransition e n"
    by (auto simp: RecordActivationGate_def res_simps Let_def split: if_splits)
  then show "validCheckpointTransition e n" by simp
  have "c_key c = (app, rid)" using c(1) by (auto simp: find_checkpoint_def dest: tsel_SomeD)
  with c d' show "\<exists>c. find_checkpoint d app rid = Some c \<and> c_stage c = e \<and>
     find_checkpoint d' app rid = Some (c\<lparr>c_stage := n, c_gate := g, c_updated := formatTime t\<rparr>)"
    using tsel_tupd_hit [of c_key "\<lambda>x. x\<lparr>c_stage := n, c_gate := g, c_updated := formatTime t\<rparr>" "(app, rid)"
        "checkpoints d" c "\<lambda>x. c_key x = (app, rid) \<and> c_stage x = e"]
    by (auto simp: find_checkpoint_def c_key_def)
qed

end
