(* ===== verification/Candidate_Safety.thy ===== *)
theory Candidate_Safety
  imports Candidate_World
begin

text \<open>
  Safety of the candidate operations: which durable state each runtime call finds, which calls are
  possible in each stage, and what a returned result says about the journal.
\<close>

section \<open>Activation\<close>

text \<open>
  What the journal must hold when activation calls the runtime: the capture happens before any
  checkpoint exists, a fence finds the intent that names the gate it fences, and preparing and
  activating find the recorded fence.
\<close>

definition advance_call_ok :: "'p libs \<Rightarrow> string \<Rightarrow> string \<Rightarrow> 'p call \<times> db \<Rightarrow> bool" where
  "advance_call_ok L app rid = (\<lambda>(c, d). case c of
     CCapture a \<Rightarrow> a = app \<and> find_checkpoint d app rid = None
   | CFence g r \<Rightarrow> r = rid \<and> (\<exists>row i. find_checkpoint d app rid = Some row \<and> c_stage row = ''prepared'' \<and>
       c_intent row = intent_JSON L i \<and> intent_InitialGate i = g \<and> intent_AppName i = app \<and> intent_RequestID i = rid)
   | CPrepare r \<Rightarrow> r = rid \<and> (\<exists>row. find_checkpoint d app rid = Some row \<and> c_stage row = ''fenced'')
   | CActivate g r \<Rightarrow> r = rid \<and> (\<exists>row. find_checkpoint d app rid = Some row \<and> c_stage row = ''fenced'' \<and>
       decodeGate (c_gate row) = Some g)
   | _ \<Rightarrow> False)"

lemma advance_calls:
  "find_checkpoint d app rid = None \<Longrightarrow> advance_call_ok L app rid (CCapture app, d)"
  "find_checkpoint d app rid = Some c \<Longrightarrow> c_stage c = ''prepared'' \<Longrightarrow> c_intent c = intent_JSON L i \<Longrightarrow>
   intent_InitialGate i = g \<Longrightarrow> intent_AppName i = app \<Longrightarrow> intent_RequestID i = rid \<Longrightarrow>
   advance_call_ok L app rid (CFence g rid, d)"
  "find_checkpoint d app rid = Some c \<Longrightarrow> c_stage c = ''fenced'' \<Longrightarrow> advance_call_ok L app rid (CPrepare rid, d)"
  "find_checkpoint d app rid = Some c \<Longrightarrow> c_stage c = ''fenced'' \<Longrightarrow> decodeGate (c_gate c) = Some g \<Longrightarrow>
   advance_call_ok L app rid (CActivate g rid, d)"
  by (auto simp: advance_call_ok_def)

lemma emits_activate_fenced:
  assumes "find_checkpoint (w_db s) app rid = Some row" and "c_stage row = ''fenced''" and "decodeGate (c_gate row) = Some g"
  shows "emits (advance_call_ok L app rid)
    (activate_fenced (db_checkpoints now) (observed rt) app rid cfg srev rsec initial g) s"
  unfolding activate_fenced_def using assms
  by (auto simp: io_ok advance_calls intro!: emits_bind emits_call emits_wrap emits_if)

lemma emits_recorded:
  assumes "RecordActivationGate app rid ''prepared'' ''fenced'' (gate_JSON f) t d = Inr (x, d')" and "w_db s = d'"
  shows "emits (advance_call_ok L app rid)
    (activate_fenced (db_checkpoints now) (observed rt) app rid cfg srev rsec initial f) s"
  using RecordActivationGate_find(1) [OF assms(1)] assms(2) by (auto intro!: emits_activate_fenced simp: decodeGate_JSON)

lemma saved_fence_ok:
  assumes "SaveActivationIntent app rid (intent_JSON L i) t d = Inr (x, d')" and "find_checkpoint d app rid = None"
    and "intent_InitialGate i = g" and "intent_AppName i = app" and "intent_RequestID i = rid"
  shows "advance_call_ok L app rid (CFence g rid, d')"
  using SaveActivationIntent_find [OF assms(1,2)] assms(3-5) by (auto intro: advance_calls(2))

lemma emits_start:
  assumes "find_checkpoint (w_db s) app rid = None"
  shows "emits (advance_call_ok L app rid)
    (startCandidateOperation L (db_checkpoints now) (observed rt) app rid requested cfg srev rsec) s"
  unfolding startCandidateOperation_def Let_def using assms
  apply (auto intro!: emits_bind emits_wrap emits_if emits_call simp: advance_calls(1) io_ok)
   apply (erule saved_fence_ok, simp_all)
  apply (erule emits_recorded, simp)
  done

lemma FindRuntimeCheckpoint_ok:
  "FindRuntimeCheckpoint app rid d = Inr c \<longleftrightarrow> validateCheckpointIdentity app rid = Inr () \<and>
     (\<exists>row. find_checkpoint d app rid = Some row \<and> c = \<lparr>chk_AppName = c_app row, chk_RequestID = c_id row,
        chk_Stage = c_stage row, chk_IntentJSON = c_intent row, chk_GateJSON = c_gate row\<rparr>)"
  by (auto simp: FindRuntimeCheckpoint_def res_simps)

lemma FindRuntimeCheckpoint_none: "FindRuntimeCheckpoint app rid d = Inl ErrNotFound \<Longrightarrow> find_checkpoint d app rid = None"
  by (cases "find_checkpoint d app rid")
     (auto simp: FindRuntimeCheckpoint_def validateCheckpointIdentity_def res_simps split: if_splits)

lemma emits_resume:
  assumes "FindRuntimeCheckpoint app rid (w_db s) = Inr c"
  shows "emits (advance_call_ok L app rid)
    (resumeCandidateOperation L (db_checkpoints now) (observed rt) app rid requested cfg srev rsec c) s"
proof -
  from assms obtain row where "find_checkpoint (w_db s) app rid = Some row" "chk_Stage c = c_stage row"
    "chk_GateJSON c = c_gate row" by (auto simp: FindRuntimeCheckpoint_ok)
  then show ?thesis
    unfolding resumeCandidateOperation_def
    by (auto intro!: emits_if emits_activate_fenced split: option.split)
qed

lemma emits_advance:
  "emits (advance_call_ok L app rid)
    (AdvanceCandidateOperation L (db_checkpoints now) db_requests (observed rt) app rid cfg srev rsec) s"
  unfolding AdvanceCandidateOperation_def Let_def
  by (auto intro!: emits_if emits_bind emits_try emits_start emits_resume FindRuntimeCheckpoint_none split: sum.split
      simp: io_ok read_io_err)

text \<open>A gate returned is the one recorded as activated, and it belongs to this operation.\<close>

definition gate_recorded :: "db \<Rightarrow> string \<Rightarrow> string \<Rightarrow> string \<Rightarrow> string \<Rightarrow> gate \<Rightarrow> bool" where
  "gate_recorded d app rid stage op g \<longleftrightarrow> (\<exists>row. find_checkpoint d app rid = Some row \<and> c_stage row = stage \<and>
     decodeGate (c_gate row) = Some g \<and> gate_App g = app \<and> gate_OperationID g = op)"

lemma validSavedGateD:
  "validSavedGate g i app op b \<Longrightarrow> gate_App g = app" "validSavedGate g i app op True \<Longrightarrow> gate_OperationID g = op"
  by (auto simp: validSavedGate_def split: if_splits)

lemma gate_recorded_write:
  assumes "RecordActivationGate app rid e n (gate_JSON g) t d = Inr (x, d')" and "gate_App g = app" and "gate_OperationID g = op"
  shows "gate_recorded d' app rid n op g"
  using RecordActivationGate_find(1) [OF assms(1)] assms(2,3) by (auto simp: gate_recorded_def decodeGate_JSON)

lemma gate_recorded_read:
  assumes "FindRuntimeCheckpoint app rid d = Inr c" and "decodeGate (chk_GateJSON c) = Some g" and "validSavedGate g i app op True"
  shows "gate_recorded d app rid (chk_Stage c) op g"
  using assms by (auto simp: gate_recorded_def FindRuntimeCheckpoint_ok validSavedGate_def split: if_splits)

lemma activate_fenced_result:
  "activate_fenced (db_checkpoints now) (observed rt) app rid cfg srev rsec initial f s = (Inr g, s') \<Longrightarrow>
   gate_recorded (w_db s') app rid ''activated'' rid g"
  by (auto simp: activate_fenced_def io_ok intro: gate_recorded_write dest: validSavedGateD split: if_splits)

lemma advance_result:
  "AdvanceCandidateOperation L (db_checkpoints now) db_requests (observed rt) app rid cfg srev rsec s = (Inr g, s') \<Longrightarrow>
   gate_recorded (w_db s') app rid ''activated'' rid g"
  unfolding AdvanceCandidateOperation_def startCandidateOperation_def resumeCandidateOperation_def Let_def io_try_def
  by (auto simp: io_ok dest: activate_fenced_result gate_recorded_read split: if_splits sum.splits prod.splits option.splits)

text \<open>Once recovery has begun, activation touches neither the runtime nor the journal, whatever is written later.\<close>

definition abandoned :: "db \<Rightarrow> string \<Rightarrow> string \<Rightarrow> bool" where
  "abandoned d app rid = (case find_checkpoint d app rid of None \<Rightarrow> False
     | Some row \<Rightarrow> c_stage row = ''recovering'' \<or> c_stage row = ''withdrawn'')"

lemma abandoned_stays:
  assumes "schema_ok d" and "abandoned d app rid" and "jreach lib sha d d'"
  shows "abandoned d' app rid"
proof -
  obtain row where row: "find_checkpoint d app rid = Some row" "c_stage row = ''recovering'' \<or> c_stage row = ''withdrawn''"
    using assms(2) by (auto simp: abandoned_def split: option.splits)
  from checkpoint_evolves [OF jreach_good [OF assms(3,1)] assms(1) row(1)]
  obtain row' where row': "find_checkpoint d' app rid = Some row'" "stage_step\<^sup>*\<^sup>* (c_stage row) (c_stage row')" by blast
  with stage_after_recovering [OF row'(2)] row(2) show ?thesis by (auto simp: abandoned_def)
qed

lemma resume_abandoned:
  assumes "abandoned (w_db s) app rid" and "FindRuntimeCheckpoint app rid (w_db s) = Inr c"
    and "resumeCandidateOperation L (db_checkpoints now) (observed rt) app rid requested cfg srev rsec c s = (x, t)"
  shows "t = s \<and> (\<exists>e. x = Inl e)"
  using assms unfolding resumeCandidateOperation_def FindRuntimeCheckpoint_ok abandoned_def
  by (auto split: option.splits if_splits)

lemma advance_abandoned:
  assumes "abandoned (w_db s) app rid"
    and "AdvanceCandidateOperation L (db_checkpoints now) db_requests (observed rt) app rid cfg srev rsec s = (x, t)"
  shows "t = s \<and> (\<exists>e. x = Inl e)"
proof -
  have "FindRuntimeCheckpoint app rid (w_db s) \<noteq> Inl ErrNotFound"
    using FindRuntimeCheckpoint_none assms(1) by (fastforce simp: abandoned_def)
  then show ?thesis
    using assms unfolding AdvanceCandidateOperation_def Let_def io_try_def io_bind_def
    by (auto simp: read_io_ok read_io_err io_of_def dest: resume_abandoned split: if_splits sum.splits prod.splits)
qed

section \<open>Restoring traffic\<close>

text \<open>
  Every call that restores traffic finds the recovery identity already saved: fences carry it, and the
  target put back is the one the intent recorded before activation.
\<close>

definition restore_call_ok :: "'p libs \<Rightarrow> string \<Rightarrow> string \<Rightarrow> 'p call \<times> db \<Rightarrow> bool" where
  "restore_call_ok L app rid = (\<lambda>(c, d). case find_checkpoint d app rid of None \<Rightarrow> False | Some row \<Rightarrow>
     c_stage row = ''recovering'' \<and>
     (case c of CCapture a \<Rightarrow> a = app
      | CFence g r \<Rightarrow> r = candidateRecoveryID (lib_sha256 L) app rid \<and> gate_App g = app
      | CReplace g t \<Rightarrow> gate_OperationID g = candidateRecoveryID (lib_sha256 L) app rid \<and>
          (\<exists>i. decodeCandidateIntent L (c_intent row) = Some i \<and> t = intent_PredecessorTarget i)
      | _ \<Rightarrow> False))"

lemma emits_restore_target:
  assumes "find_checkpoint (w_db s) app rid = Some row" and "c_stage row = ''recovering''"
    and "decodeCandidateIntent L (c_intent row) = Some i"
  shows "emits (restore_call_ok L app rid) (restore_target L (db_checkpoints now) (observed rt) app rid i
    (candidateRecoveryID (lib_sha256 L) app rid)) s"
  unfolding restore_target_def using assms
  by (auto intro!: emits_bind emits_if emits_call simp: io_ok restore_call_ok_def split: if_splits)
     (erule validSavedGateD)+

lemma emits_restore_recorded:
  assumes "RecordActivationGate app rid e ''recovering'' x t d = Inr (u, d')"
    and "w_db s = d'" and "FindRuntimeCheckpoint app rid d = Inr c" and "decodeCandidateIntent L (chk_IntentJSON c) = Some i"
  shows "emits (restore_call_ok L app rid) (restore_target L (db_checkpoints now) (observed rt) app rid i
    (candidateRecoveryID (lib_sha256 L) app rid)) s"
  using RecordActivationGate_find(1) [OF assms(1)] assms(2-4)
  by (auto intro!: emits_restore_target simp: FindRuntimeCheckpoint_ok)

lemma emits_restore_resumed:
  assumes "FindRuntimeCheckpoint app rid (w_db s) = Inr c" and "decodeCandidateIntent L (chk_IntentJSON c) = Some i"
    and "chk_Stage c = ''recovering''"
  shows "emits (restore_call_ok L app rid) (restore_target L (db_checkpoints now) (observed rt) app rid i
    (candidateRecoveryID (lib_sha256 L) app rid)) s"
  using assms by (auto intro!: emits_restore_target simp: FindRuntimeCheckpoint_ok)

lemma emits_restore:
  "emits (restore_call_ok L app rid)
    (RestoreCandidateTraffic L cancelled (db_checkpoints now) db_requests (observed rt) app rid) s"
  unfolding RestoreCandidateTraffic_def Let_def host_simps
  apply (intro emits_rules)
  subgoal by (simp only: io_ok, elim exE conjE, erule emits_restore_recorded, simp_all)
  subgoal by (rule emits_restore_resumed) (simp_all add: io_ok)
  done

lemma restore_target_result:
  "restore_target L (db_checkpoints now) (observed rt) app rid i op s = (Inr g, s') \<Longrightarrow>
   gate_recorded (w_db s') app rid ''withdrawn'' op g"
  unfolding restore_target_def
  by (auto simp: io_ok intro: gate_recorded_write dest: validSavedGateD split: if_splits)

lemma restore_result:
  "RestoreCandidateTraffic L cancelled (db_checkpoints now) db_requests (observed rt) app rid s = (Inr g, s') \<Longrightarrow>
   gate_recorded (w_db s') app rid ''withdrawn'' (candidateRecoveryID (lib_sha256 L) app rid) g"
  unfolding RestoreCandidateTraffic_def Let_def
  by (auto simp: io_ok dest: restore_target_result gate_recorded_read split: if_splits option.splits)

section \<open>Recovery and completion\<close>

text \<open>
  Calls made once the traffic is settled: they find the checkpoint in the settled stage and speak of
  the gate recorded there. Retiring the candidate is such a call, and only a withdrawn one is retired.
\<close>

definition settled_call_ok :: "string \<Rightarrow> string \<Rightarrow> string \<Rightarrow> 'p call \<times> db \<Rightarrow> bool" where
  "settled_call_ok stage app rid = (\<lambda>(c, d). case find_checkpoint d app rid of None \<Rightarrow> False | Some row \<Rightarrow>
     c_stage row = stage \<and>
     (case c of CCapture a \<Rightarrow> a = app
      | CRetire r \<Rightarrow> r = rid \<and> stage = ''withdrawn''
      | CRetired r \<Rightarrow> r = rid \<and> stage = ''withdrawn''
      | CReady g t \<Rightarrow> decodeGate (c_gate row) = Some g
      | CReconcile g t \<Rightarrow> decodeGate (c_gate row) = Some g
      | _ \<Rightarrow> False))"

definition recover_call_ok :: "'p libs \<Rightarrow> string \<Rightarrow> string \<Rightarrow> 'p call \<times> db \<Rightarrow> bool" where
  "recover_call_ok L app rid x \<longleftrightarrow> restore_call_ok L app rid x \<or> settled_call_ok ''withdrawn'' app rid x"

lemma settled_calls:
  assumes "gate_recorded d app rid stage op g"
  shows "settled_call_ok stage app rid (CCapture app, d)" "settled_call_ok stage app rid (CReady g t, d)"
    "settled_call_ok stage app rid (CReconcile g t, d)"
    "stage = ''withdrawn'' \<Longrightarrow> settled_call_ok stage app rid (CRetire rid, d)"
    "stage = ''withdrawn'' \<Longrightarrow> settled_call_ok stage app rid (CRetired rid, d)"
  using assms by (auto simp: settled_call_ok_def gate_recorded_def)

lemma emits_confirm:
  assumes "gate_recorded (w_db s) app rid ''withdrawn'' op g"
  shows "emits (settled_call_ok ''withdrawn'' app rid)
    (confirm_recovery L (db_checkpoints now) (observed rt) app rid cfg previous g) s"
  unfolding confirm_recovery_def Let_def host_simps
  by (intro emits_rules) (use assms in \<open>auto simp: io_ok intro: settled_calls\<close>)

lemma emits_recover:
  "emits (recover_call_ok L app rid)
    (RecoverCandidateOperation L cancelled (db_checkpoints now) db_requests (observed rt) app rid) s"
proof -
  have restore: "emits (recover_call_ok L app rid) (RestoreCandidateTraffic L cancelled (db_checkpoints now) db_requests (observed rt) app rid) s" for s
    by (rule emits_mono [OF emits_restore]) (simp add: recover_call_ok_def)
  have confirm: "emits (recover_call_ok L app rid) (confirm_recovery L (db_checkpoints now) (observed rt) app rid cfg previous g) s'"
    if "RestoreCandidateTraffic L cancelled (db_checkpoints now) db_requests (observed rt) app rid s = (Inr g, s')" for s s' cfg previous g
    by (rule emits_mono [OF emits_confirm [OF restore_result [OF that]]]) (simp add: recover_call_ok_def)
  show ?thesis
    unfolding RecoverCandidateOperation_def host_simps by (intro emits_rules restore) (erule confirm)
qed

definition complete_call_ok :: "'p libs \<Rightarrow> string \<Rightarrow> string \<Rightarrow> string \<Rightarrow> 'p call \<times> db \<Rightarrow> bool" where
  "complete_call_ok L app rid outcome x \<longleftrightarrow>
     (if outcome = ''withdrawn'' then recover_call_ok L app rid x else settled_call_ok ''activated'' app rid x)"

lemma settled_read:
  assumes "FindRuntimeCheckpoint app rid d = Inr c" and "decodeGate (chk_GateJSON c) = Some g"
    and "chk_Stage c = stage" and "validSavedGate g i app op True" and "d' = d"
  shows "settled_call_ok stage app rid (CCapture app, d')" "settled_call_ok stage app rid (CReady g t, d')"
    "settled_call_ok stage app rid (CReconcile g t, d')"
  using settled_calls(1-3) [OF gate_recorded_read [OF assms(1,2,4)]] assms(3,5) by simp_all

lemma emits_observed:
  assumes "FindRuntimeCheckpoint app rid (w_db s) = Inr c"
  shows "emits (settled_call_ok (if outcome = ''withdrawn'' then ''withdrawn'' else ''activated'') app rid)
    (complete_observed L (db_finalizer L) (observed rt) app rid outcome tls t r cfg i c) s"
proof -
  define stage where "stage = (if outcome = ''withdrawn'' then ''withdrawn'' else ''activated'')"
  define op where "op = (if outcome = ''withdrawn'' then candidateRecoveryID (lib_sha256 L) app rid else rid)"
  have route: "w_db s'' = w_db s'"
    if "(if outcome = ''applied'' then
          case CandidateSelector (lib_sha256 L) app rid of None \<Rightarrow> io_fail e
          | Some sel \<Rightarrow> if \<not> same_map (target_Selector tgt) sel then io_fail e'
              else io_bind (call_io (CReady g tgt) m) (\<lambda>ready. io_ret (if ready then Some cfg else None))
        else if \<not> DeepEqual (lib_port L) tgt x then io_fail e''
        else io_bind (io_of (withdrawn_route_config L app r cfg)) (\<lambda>c. io_ret (Some c))) s' = (Inr y, s'')"
    for s' s'' y g tgt m e e' e'' x
    using that by (auto simp: io_ok io_of_def split: if_splits option.splits sum.splits)
  show ?thesis
    unfolding complete_observed_def Let_def host_simps stage_def [symmetric] op_def [symmetric]
  proof ((intro emits_rules; simp only: de_Morgan_disj not_not), goal_cases)
    case (1 g)
    then show ?case by (intro settled_read [OF assms]) auto
  next
    case (2 g)
    then show ?case by (intro settled_read [OF assms]) (auto simp: call_io_ok)
  next
    case (3 g)
    then show ?case by (intro settled_read [OF assms]) (auto simp: call_io_ok dest!: route)
  next
    case (4 g)
    then show ?case by (intro settled_read [OF assms]) (auto simp: call_io_ok dest!: route)
  qed
qed

lemma emits_complete:
  "emits (complete_call_ok L app rid outcome)
    (CompleteCandidateOperation L cancelled (db_checkpoints now) db_requests (db_finalizer L) (observed rt) app rid outcome tls t) s"
proof -
  let ?ok = "complete_call_ok L app rid outcome"
  have obs: "emits ?ok (complete_observed L (db_finalizer L) (observed rt) app rid outcome tls t r cfg i c) s'"
    if "FindRuntimeCheckpoint app rid (w_db s') = Inr c" for s' r cfg i c
    by (rule emits_mono [OF emits_observed [OF that]]) (auto simp: complete_call_ok_def recover_call_ok_def split: if_splits)
  have rec: "emits ?ok (RecoverCandidateOperation L cancelled (db_checkpoints now) db_requests (observed rt) app rid) s'"
    if "outcome = ''withdrawn''" for s'
    by (rule emits_mono [OF emits_recover]) (simp add: complete_call_ok_def that)
  show ?thesis
    unfolding CompleteCandidateOperation_def host_simps
    by (intro emits_rules rec) (assumption | rule obs, simp add: read_io_ok)+
qed

text \<open>A reply returned is the durable one: the request has ended with this outcome and this response.\<close>

definition reply_durable :: "db \<Rightarrow> string \<Rightarrow> string \<Rightarrow> string \<Rightarrow> deploy_response \<Rightarrow> bool" where
  "reply_durable d app rid outcome reply \<longleftrightarrow> (\<exists>r. find_request d app rid = Some r \<and> q_state r = outcome \<and>
     decodeCandidateReply (parseOptionalString (q_response r)) = Inr reply)"

lemma observed_result:
  assumes "complete_observed L (db_finalizer L) (observed rt) app rid outcome tls t r cfg i c s = (Inr (Some reply), s')"
    and "schema_ok (w_db s)"
  shows "reply_durable (w_db s') app rid outcome reply"
proof -
  have "\<exists>d res d'. good (w_db s) d \<and> Finalize (lib_k8s L) (lib_sha256 L) app rid outcome (chk_GateJSON c) tls t d = Inr (res, d') \<and>
     w_db s' = d' \<and> decodeCandidateReply res = Inr reply"
    using assms(1) good_refl [OF assms(2)] unfolding complete_observed_def Let_def
    by (auto simp: io_bind_ok tx_io_ok call_io_ok io_of_ok split: if_splits option.splits prod.splits)
  then obtain d res d' where run: "Finalize (lib_k8s L) (lib_sha256 L) app rid outcome (chk_GateJSON c) tls t d = Inr (res, d')"
    and "schema_ok d" "w_db s' = d'" "decodeCandidateReply res = Inr reply" by (auto simp: good_def)
  with Finalize_request [OF run] show ?thesis by (auto simp: reply_durable_def parseOptionalString_def)
qed

lemma request_Find_ok:
  "request_Find app rid d = Inr r \<longleftrightarrow> (\<exists>row. find_request d app rid = Some row \<and> scan_request row = Inr r)"
  by (auto simp: request_Find_def res_simps)

lemma scan_request_fields: "scan_request row = Inr r \<Longrightarrow> req_AppName r = q_app row \<and> req_RequestID r = q_id row \<and>
   req_State r = q_state row \<and> req_RequestedState r = q_requested row \<and> req_ResponseJSON r = parseOptionalString (q_response row)"
  by (auto simp: scan_request_def res_simps)

lemma recover_schema:
  assumes "RecoverCandidateOperation L cancelled (db_checkpoints now) db_requests (observed rt) app rid s = (x, s')"
    and "schema_ok (w_db s)"
  shows "schema_ok (w_db s')"
proof -
  have "jreach (lib_k8s L) (lib_sha256 L) (w_db s) (w_db s')"
    using journal_host.keeps_recover [of L L cancelled now rt app rid] assms(1)
    unfolding journal_pre.keeps_def by (metis snd_conv)
  then show ?thesis using jreach_good assms(2) by (auto simp: good_def)
qed

lemma complete_ensures:
  assumes ok: "schema_ok (w_db s)"
  shows "ensures (\<lambda>x s'. \<forall>reply. x = Some reply \<longrightarrow> reply_durable (w_db s') app rid outcome reply)
    (CompleteCandidateOperation L cancelled (db_checkpoints now) db_requests (db_finalizer L) (observed rt) app rid outcome tls t) s"
proof -
  let ?Q = "\<lambda>x s'. \<forall>reply. x = Some reply \<longrightarrow> reply_durable (w_db s') app rid outcome reply"
  have obs: "ensures ?Q (complete_observed L (db_finalizer L) (observed rt) app rid outcome tls t r cfg i c) s'"
    if "schema_ok (w_db s')" for r cfg i c s'
    using observed_result that unfolding ensures_def by blast
  have saved: "reply_durable (w_db s) app rid outcome reply"
    if "request_Find app rid (w_db s) = Inr r" "\<not> req_State r \<noteq> outcome" "decodeCandidateReply (req_ResponseJSON r) = Inr reply" for r reply
    using that by (auto simp: reply_durable_def request_Find_ok dest: scan_request_fields)
  show ?thesis
    unfolding CompleteCandidateOperation_def host_simps
    apply (intro ensures_rules obs)
       apply (simp add: read_io_ok io_of_ok saved)
      apply simp
    subgoal by (simp only: read_io_ok, elim conjE, simp, erule recover_schema, simp add: ok)
    apply (simp add: read_io_ok ok)
    done
qed

text \<open>A finished operation answers from the journal: nothing is called and nothing is written.\<close>

lemma complete_terminal:
  assumes "request_Find app rid (w_db s) = Inr r" and "terminal (req_State r)" and "app \<noteq> []" and "ValidRevision rid"
    and "terminal outcome" and "\<not> IsZero t"
  shows "CompleteCandidateOperation L cancelled repo db_requests fin rt app rid outcome tls t s =
    (if outcome = req_State r
     then (case decodeCandidateReply (req_ResponseJSON r) of Inl e \<Rightarrow> Inl e | Inr reply \<Rightarrow> Inr (Some reply))
     else Inl (ErrText ''candidate outcome is already terminal''), s)"
proof -
  have "req_AppName r = app" "req_RequestID r = rid"
    using assms(1) by (auto simp: request_Find_ok q_key_def dest!: scan_request_fields find_request_key)
  moreover have "req_State r \<noteq> ''pending''" using assms(2) by (auto simp: terminal_def)
  ultimately show ?thesis
    using assms unfolding CompleteCandidateOperation_def
    by (auto simp: io_bind_def read_io_def io_of_def terminal_def split: sum.splits)
qed

end
