(* ===== verification/Intent_Codec.thy ===== *)
theory Intent_Codec
  imports Candidate_Ops
begin

text \<open>
  The saved intent and the saved reply are read back exactly. An intent is compared by its text, so a
  selector counts as the sorted list its JSON prints.
\<close>

section \<open>Intents\<close>

text \<open>What the code relies on of \<^verbatim>\<open>corev1.ServicePort\<close>: its JSON is read back.\<close>

definition port_codec :: "'p port_api \<Rightarrow> 'p \<Rightarrow> bool" where
  "port_codec api p \<longleftrightarrow> port_dec api (port_enc api p) = Some p \<and> wf_json (port_enc api p)"

definition go_target :: "'p port_api \<Rightarrow> 'p target \<Rightarrow> bool" where
  "go_target api t \<longleftrightarrow> distinct (map fst (target_Selector t)) \<and> canon_map (target_Selector t) = target_Selector t \<and>
     list_all (port_codec api) (target_Ports t)"

lemma wf_enc_target: "go_target api t \<Longrightarrow> wf_json (enc_target api t)"
  by (auto simp: enc_target_def go_target_def list_all_iff port_codec_def)

lemma dec_enc_target:
  assumes "go_target api t"
  shows "dec_target api zero (enc_target api t) \<lparr>target_Selector = [], target_Ports = []\<rparr> = Some t"
proof -
  have ports: "dec_list zero (\<lambda>v _. port_dec api v) (JArr (map (port_enc api) (target_Ports t))) y = Some (target_Ports t)" for y
    using dec_list_map [of "target_Ports t" "\<lambda>v _. port_dec api v" "port_enc api" zero id] assms
    by (simp add: go_target_def list_all_iff port_codec_def)
  have none: "dec_list zero (\<lambda>v _. port_dec api v) JNull y = Some []" for y by (simp add: dec_list_def)
  have sel: "dec_map (enc_map (target_Selector t)) [] = Some (target_Selector t)"
    using assms dec_map_enc [of "target_Selector t"] by (simp add: go_target_def)
  show ?thesis
    unfolding dec_target_def enc_target_def dec_strict_def
    by (cases t) (use ports none sel in \<open>auto simp: known_fields_def dec_field_Cons to_lower_char_def is_upper_def\<close>)
qed

lemma dec_enc_gate: "dec_strict gate_fields (enc_gate g) zero_gate = Some g"
  using decodeGate_JSON [of g] by (simp add: decodeGate_def gate_JSON_def parse_print wf_enc_gate)

lemma dec_enc_intent:
  assumes "go_target (lib_port L) (intent_PredecessorTarget i)"
  shows "dec_intent L (enc_intent L i) zero_intent = Some i"
proof -
  have "known_fields (intent_fields L) (enc_intent L i)"
    by (simp add: known_fields_def intent_fields_def enc_intent_def to_lower_char_def is_upper_def)
  moreover have "dec_struct (intent_fields L) (enc_intent L i) zero_intent = Some i"
    by (cases i) (use assms in \<open>simp add: intent_fields_def enc_intent_def zero_intent_def dec_field_Cons to_lower_char_def
       is_upper_def dec_enc_gate dec_enc_target\<close>)
  ultimately show ?thesis by (simp add: dec_intent_def dec_strict_def)
qed

theorem decode_intent_JSON:
  assumes "go_target (lib_port L) (intent_PredecessorTarget i)" and "intent_AppName i \<noteq> []" and "intent_RequestID i \<noteq> []"
  shows "decodeCandidateIntent L (intent_JSON L i) = Some i"
proof -
  have "wf_json (enc_intent L i)"
    using wf_enc_target [OF assms(1)] wf_enc_gate by (simp add: enc_intent_def)
  then show ?thesis
    using assms(2,3) dec_enc_intent [OF assms(1)] by (simp add: decodeCandidateIntent_def intent_JSON_def parse_print)
qed

section \<open>Replies\<close>

definition reply_value :: "app \<Rightarrow> deployment \<Rightarrow> int \<Rightarrow> string \<Rightarrow> bool \<Rightarrow> deploy_response" where
  "reply_value a dep replicas requested withdrawn =
     \<lparr>pbr_App = Some \<lparr>pba_Id = app_ID a, pba_Name = app_Name a, pba_Image = app_Image a, pba_Replicas = to_int32 replicas,
        pba_DesiredState = app_DesiredStateJSON a, pba_CreatedAt = formatTime (app_CreatedAt a), pba_UpdatedAt = formatTime (app_UpdatedAt a)\<rparr>,
      pbr_Deployment = Some \<lparr>pbd_Id = dep_ID dep, pbd_AppId = dep_AppID dep, pbd_Status = dep_Status dep,
        pbd_FailureReason = dep_FailureReason dep, pbd_CreatedAt = formatTime (dep_CreatedAt dep), pbd_UpdatedAt = formatTime (dep_UpdatedAt dep)\<rparr>,
      pbr_WithdrawalConfirmed = withdrawn, pbr_RequestedState = requested\<rparr>"

lemma to_int32_range: "- (2 ^ 31) \<le> to_int32 i" "to_int32 i < 2 ^ 31"
  by (simp_all add: to_int32_def)

lemma dec_int32_JInt: "dec_int32 (JInt (to_int32 i)) x = Some (to_int32 i)"
proof -
  have "int64 (to_int32 i)" using to_int32_range [of i] by (simp add: int64_def)
  then show ?thesis using to_int32_range [of i] by (simp add: JInt_def)
qed

lemma pb_app_field:
  "dec_field pb_app_fields ''id'' v x = map_option (\<lambda>y. x\<lparr>pba_Id := y\<rparr>) (dec_string v (pba_Id x))"
  "dec_field pb_app_fields ''name'' v x = map_option (\<lambda>y. x\<lparr>pba_Name := y\<rparr>) (dec_string v (pba_Name x))"
  "dec_field pb_app_fields ''image'' v x = map_option (\<lambda>y. x\<lparr>pba_Image := y\<rparr>) (dec_string v (pba_Image x))"
  "dec_field pb_app_fields ''replicas'' v x = map_option (\<lambda>y. x\<lparr>pba_Replicas := y\<rparr>) (dec_int32 v (pba_Replicas x))"
  "dec_field pb_app_fields ''desired_state'' v x = map_option (\<lambda>y. x\<lparr>pba_DesiredState := y\<rparr>) (dec_string v (pba_DesiredState x))"
  "dec_field pb_app_fields ''created_at'' v x = map_option (\<lambda>y. x\<lparr>pba_CreatedAt := y\<rparr>) (dec_string v (pba_CreatedAt x))"
  "dec_field pb_app_fields ''updated_at'' v x = map_option (\<lambda>y. x\<lparr>pba_UpdatedAt := y\<rparr>) (dec_string v (pba_UpdatedAt x))"
  by (simp_all add: pb_app_fields_def dec_field_Cons to_lower_char_def is_upper_def)

lemma pb_deployment_field:
  "dec_field pb_deployment_fields ''id'' v x = map_option (\<lambda>y. x\<lparr>pbd_Id := y\<rparr>) (dec_string v (pbd_Id x))"
  "dec_field pb_deployment_fields ''app_id'' v x = map_option (\<lambda>y. x\<lparr>pbd_AppId := y\<rparr>) (dec_string v (pbd_AppId x))"
  "dec_field pb_deployment_fields ''status'' v x = map_option (\<lambda>y. x\<lparr>pbd_Status := y\<rparr>) (dec_string v (pbd_Status x))"
  "dec_field pb_deployment_fields ''failure_reason'' v x = map_option (\<lambda>y. x\<lparr>pbd_FailureReason := y\<rparr>) (dec_string v (pbd_FailureReason x))"
  "dec_field pb_deployment_fields ''created_at'' v x = map_option (\<lambda>y. x\<lparr>pbd_CreatedAt := y\<rparr>) (dec_string v (pbd_CreatedAt x))"
  "dec_field pb_deployment_fields ''updated_at'' v x = map_option (\<lambda>y. x\<lparr>pbd_UpdatedAt := y\<rparr>) (dec_string v (pbd_UpdatedAt x))"
  by (simp_all add: pb_deployment_fields_def dec_field_Cons to_lower_char_def is_upper_def)

lemma response_field:
  "dec_field response_fields ''app'' v x = map_option (\<lambda>y. x\<lparr>pbr_App := y\<rparr>) (dec_ptr zero_pb_app (dec_struct pb_app_fields) v (pbr_App x))"
  "dec_field response_fields ''deployment'' v x = map_option (\<lambda>y. x\<lparr>pbr_Deployment := y\<rparr>)
     (dec_ptr zero_pb_deployment (dec_struct pb_deployment_fields) v (pbr_Deployment x))"
  "dec_field response_fields ''withdrawal_confirmed'' v x = map_option (\<lambda>y. x\<lparr>pbr_WithdrawalConfirmed := y\<rparr>) (dec_bool v (pbr_WithdrawalConfirmed x))"
  "dec_field response_fields ''requested_state'' v x = map_option (\<lambda>y. x\<lparr>pbr_RequestedState := y\<rparr>) (dec_string v (pbr_RequestedState x))"
  by (simp_all add: response_fields_def dec_field_Cons to_lower_char_def is_upper_def)

lemma dec_app_members:
  "dec_members pb_app_fields (str_member ''id'' i @ str_member ''name'' n @ str_member ''image'' im
      @ omitempty (to_int32 k = 0) ''replicas'' (JInt (to_int32 k)) @ str_member ''desired_state'' ds
      @ str_member ''created_at'' c @ str_member ''updated_at'' u) zero_pb_app =
   Some \<lparr>pba_Id = i, pba_Name = n, pba_Image = im, pba_Replicas = to_int32 k, pba_DesiredState = ds, pba_CreatedAt = c, pba_UpdatedAt = u\<rparr>"
  by (simp add: str_member_def dec_members_append dec_members_omitempty pb_app_field zero_pb_app_def dec_int32_JInt)

lemma dec_deployment_members:
  "dec_members pb_deployment_fields (str_member ''id'' i @ str_member ''app_id'' ai @ str_member ''status'' st
      @ str_member ''failure_reason'' fr @ str_member ''created_at'' c @ str_member ''updated_at'' u) zero_pb_deployment =
   Some \<lparr>pbd_Id = i, pbd_AppId = ai, pbd_Status = st, pbd_FailureReason = fr, pbd_CreatedAt = c, pbd_UpdatedAt = u\<rparr>"
  by (simp add: str_member_def dec_members_append dec_members_omitempty pb_deployment_field zero_pb_deployment_def)

text \<open>The reply finalization stores is the reply completion hands back.\<close>

lemma decode_reply_JSON: "decodeCandidateReply (reply_JSON a dep n rq w) = Inr (reply_value a dep n rq w)"
proof -
  have "json_parse (reply_JSON a dep n rq w) = Some (JObj (
     [(''app'', JObj (str_member ''id'' (app_ID a) @ str_member ''name'' (app_Name a) @ str_member ''image'' (app_Image a)
        @ omitempty (to_int32 n = 0) ''replicas'' (JInt (to_int32 n))
        @ str_member ''desired_state'' (app_DesiredStateJSON a)
        @ str_member ''created_at'' (formatTime (app_CreatedAt a)) @ str_member ''updated_at'' (formatTime (app_UpdatedAt a)))),
      (''deployment'', JObj (str_member ''id'' (dep_ID dep) @ str_member ''app_id'' (dep_AppID dep)
        @ str_member ''status'' (dep_Status dep) @ str_member ''failure_reason'' (dep_FailureReason dep)
        @ str_member ''created_at'' (formatTime (dep_CreatedAt dep)) @ str_member ''updated_at'' (formatTime (dep_UpdatedAt dep))))]
     @ omitempty (\<not> w) ''withdrawal_confirmed'' (JBool w) @ str_member ''requested_state'' rq))"
    unfolding reply_JSON_def by (rule parse_print) (simp add: str_member_def ball_Un)
  then show ?thesis
    by (simp add: decodeCandidateReply_def response_field dec_members_append [of response_fields] dec_members_omitempty dec_ptr_def
        dec_app_members dec_deployment_members str_member_def [of "''requested_state''" rq] reply_value_def)
qed

end
