(* ===== verification/Samples.thy ===== *)
theory Samples
  imports Candidate_Safety Intent_Codec
begin

text \<open>
  Concrete inputs for the witnesses: an instance of every parameter of the model (Kubernetes
  validators, quantity parser, digest, service ports, runtime) and an app taken through the journal.
\<close>

section \<open>Parameters\<close>

definition sample_lib :: k8s_lib where
  "sample_lib = \<lparr>IsDNS1123Subdomain = (\<lambda>s. s \<noteq> [] \<and> length s \<le> 253 \<and> list_all (\<lambda>c. is_name_inner c \<or> c = CHR ''.'') s),
     IsDNS1035Label = (\<lambda>s. s \<noteq> [] \<and> length s \<le> 63 \<and> is_lower (hd s) \<and> list_all is_name_inner s),
     ParseQuantity = (\<lambda>s. if TrimSuffix s ''Gi'' \<noteq> s then map_option (\<lambda>n. of_int n * 1073741824) (read_int (TrimSuffix s ''Gi''))
       else map_option of_int (read_int s))\<rparr>"

text \<open>A stand-in digest of 32 bytes.\<close>

definition sample_sha :: "string \<Rightarrow> nat list" where
  "sample_sha s = replicate 31 7 @ [sum_list (map of_char s) mod 256]"

definition sample_config :: config where
  "sample_config = Normalize (zero_config\<lparr>cfg_Name := ''web'', cfg_Image := ''ghcr.io/acme/web:1'',
     cfg_Service := \<lparr>service_Port = 8080, service_Health = \<lparr>health_Path = ''/healthz''\<rparr>\<rparr>,
     cfg_Routing := \<lparr>routing_Domain = ''web.example.org'', routing_RequireTLS = True, routing_EnableProxyRetries = None\<rparr>,
     cfg_Deploy := \<lparr>deploy_Replicas = 2, deploy_Strategy = []\<rparr>,
     cfg_Hosting := Some \<lparr>hosting_Version = ''v1'',
       hosting_Resources = \<lparr>hres_Requests = \<lparr>rq_CPU = ''1'', rq_Memory = ''1000'', rq_EphemeralStorage = ''1000''\<rparr>,
         hres_Limits = \<lparr>rq_CPU = ''2'', rq_Memory = ''2000'', rq_EphemeralStorage = ''2000''\<rparr>\<rparr>,
       hosting_MaxReplicas = 4,
       hosting_Network = \<lparr>network_AllowDNS = Some True, network_Egress = [\<lparr>egress_CIDR = ''10.0.0.0/8'', egress_Ports = Some [443]\<rparr>]\<rparr>,
       hosting_ReadOnlyRootFilesystem = True\<rparr>\<rparr>)"

lemma sample_valid: "Validate sample_lib sample_config = Inr ()"
  by code_simp

section \<open>A runtime\<close>

definition sample_ports :: "int port_api" where
  "sample_ports = \<lparr>port_enc = (\<lambda>p. JInt p), port_dec = (\<lambda>j. dec_int j 0), port_Name = (\<lambda>_. ''http''),
     port_Port = (\<lambda>p. p), port_TargetPortIs = (=), port_Protocol = (\<lambda>_. ''TCP''), DeepEqual = (=)\<rparr>"

definition sample_libs :: "int libs" where
  "sample_libs = \<lparr>lib_k8s = sample_lib, lib_sha256 = sample_sha, lib_port = sample_ports, lib_zero_port = 0\<rparr>"

text \<open>A cluster with one service: its gate, its target, and a resource version that counts writes.\<close>

definition sample_gate :: "string \<Rightarrow> nat \<Rightarrow> gate" where
  "sample_gate op n = \<lparr>gate_App = ''web'', gate_Namespace = ''apps'', gate_UID = ''u-1'', gate_ResourceVersion = show_nat n, gate_OperationID = op\<rparr>"

type_synonym cluster = "(string \<times> nat) \<times> int target"

definition sample_now :: "cluster \<Rightarrow> gotime" where
  "sample_now k = GoTime 2026 1 2 3 4 5 (snd (fst k))"

definition sample_runtime :: "(cluster, int) runtime" where
  "sample_runtime = \<lparr>CaptureActivationGate = (\<lambda>_ ((op, n), t). (Inr (sample_gate op n, t), ((op, n), t))),
     FenceActivationGate = (\<lambda>g op ((_, n), t). (Inr (sample_gate op (Suc n)), ((op, Suc n), t))),
     ReplaceActivationTarget = (\<lambda>g t ((op, n), _). (Inr (sample_gate op (Suc n)), ((op, Suc n), t))),
     PrepareCandidateDeployment = (\<lambda>_ _ _ _ k. (Inr (), k)),
     ActivatePreparedCandidate = (\<lambda>g _ _ rid _ ((op, n), t). (Inr (sample_gate op (Suc n)),
        ((op, Suc n), t\<lparr>target_Selector := the (CandidateSelector sample_sha ''web'' rid)\<rparr>))),
     RetireCandidateDeployment = (\<lambda>_ _ _ _ k. (Inr (), k)), CandidateRetired = (\<lambda>_ _ _ _ k. (Inr True, k)),
     RestoredCandidateTargetReady = (\<lambda>_ _ _ k. (Inr True, k)), ReconcileCandidateRoute = (\<lambda>_ _ _ k. (Inr (), k))\<rparr>"

definition sample_rid :: string where
  "sample_rid = replicate 64 (CHR ''a'')"

definition sample_request :: deploy_request where
  "sample_request = \<lparr>req_AppName = ''web'', req_RequestID = sample_rid, req_State = ''pending'',
     req_RequestedState = config_JSON sample_config, req_PreviousAppID = [], req_PreviousState = [],
     req_ReportWithdrawal = True, req_ResponseJSON = [], req_CreatedAt = GoTime 2026 1 2 3 4 5 0,
     req_UpdatedAt = GoTime 2026 1 2 3 4 5 0\<rparr>"

definition sample_time :: gotime where
  "sample_time = GoTime 2026 1 2 3 4 5 0"

definition sample_target :: "int target" where
  "sample_target = \<lparr>target_Selector = [(''deployer.io/app'', ''web'')], target_Ports = [8080]\<rparr>"

definition sample_intent :: "int candidateOperationIntent" where
  "sample_intent = \<lparr>intent_AppName = ''web'', intent_RequestID = sample_rid, intent_RequestedState = config_JSON sample_config,
     intent_SecretRevision = [], intent_RegistrySecret = [], intent_InitialGate = sample_gate ''boot'' 2,
     intent_PredecessorTarget = sample_target\<rparr>"

text \<open>The journal of the app while its first candidate is in the given stage.\<close>

definition sample_db :: "string \<Rightarrow> gate \<Rightarrow> db" where
  "sample_db stage g = empty_db\<lparr>
     apps := [pending_app ''app-1'' ''web'' sample_time (cfg_Image sample_config) (config_JSON sample_config)],
     deployments := [pending_deployment ''dep-1'' ''app-1'' sample_time],
     requests := [new_request sample_request None sample_time sample_time],
     checkpoints := [\<lparr>c_app = ''web'', c_id = sample_rid, c_stage = stage, c_intent = intent_JSON sample_libs sample_intent, c_gate = gate_JSON g,
       c_created = formatTime sample_time, c_updated = formatTime sample_time\<rparr>],
     bindings := [new_binding ''web'' sample_rid ''app-1'' ''dep-1'' sample_time]\<rparr>"

lemma sample_wf [simp]: "wf_time sample_time" "\<not> IsZero sample_time"
  by (simp_all add: sample_time_def IsZero_def zero_time_def wf_time_def days_in_def)

lemma sample_rid_valid [simp]: "ValidRevision sample_rid" "deployRequestID sample_rid"
  by (code_simp)+

lemma sample_go: "go_config sample_config"
proof -
  have "service_Port (cfg_Service sample_config) = 8080" "deploy_Replicas (cfg_Deploy sample_config) = 2"
    "cfg_Metrics sample_config = None" "placement_Prefer (cfg_Placement sample_config) = []"
    "placement_Fallback (cfg_Placement sample_config) = []" "database_Postgres (cfg_Database sample_config) = None"
    "map_option hosting_MaxReplicas (cfg_Hosting sample_config) = Some 4"
    "map_option (\<lambda>h. map egress_Ports (network_Egress (hosting_Network h))) (cfg_Hosting sample_config) = Some [Some [443]]"
    by code_simp+
  then show ?thesis by (auto simp: go_config_def ints_hosting_def int64_def)
qed

lemma sample_FromJSON [simp]: "FromJSON (config_JSON sample_config) = Inr sample_config"
proof -
  have "Normalize (canon_config sample_config) = sample_config" by code_simp
  then show ?thesis using FromJSON_JSON [OF sample_go] by simp
qed

lemma sample_fields [simp]:
  "cfg_Name sample_config = ''web''" "cfg_Hosting sample_config \<noteq> None" "state_Mode (cfg_State sample_config) = ''stateless''"
  "cfg_Secrets sample_config = []" "routing_Domain (cfg_Routing sample_config) = ''web.example.org''"
  "cfg_EnvironmentRevision sample_config = []" "cfg_ImagePullCredential sample_config = []"
  by (code_simp)+

lemma sample_schema [simp]: "stage \<in> stages \<Longrightarrow> schema_ok (sample_db stage g)"
  by (simp add: schema_ok_def sample_db_def keys_ok_def refs_ok_def one_pending_def empty_db_def keyed_def
      new_request_def new_binding_def pending_app_def pending_deployment_def req_ok_def c_key_def b_key_def q_key_def w_key_def
      sample_request_def)

lemma sample_target_ok: "go_target (lib_port sample_libs) sample_target"
proof -
  have "port_codec sample_ports 8080" by (simp add: port_codec_def sample_ports_def codec int64_def)
  then show ?thesis by (simp add: go_target_def sample_libs_def sample_target_def canon_map_def)
qed

lemma sample_decode_intent [simp]: "decodeCandidateIntent sample_libs (intent_JSON sample_libs sample_intent) = Some sample_intent"
  by (rule decode_intent_JSON) (use sample_target_ok in \<open>simp_all add: sample_intent_def sample_rid_def\<close>)

lemma sample_read_intent [simp]: "read_saved_intent (intent_JSON sample_libs sample_intent) = Some \<lparr>si_AppName = ''web'',
   si_RequestID = sample_rid, si_RequestedState = config_JSON sample_config\<rparr>"
proof -
  have "wf_json (enc_intent sample_libs sample_intent)"
    by (simp add: enc_intent_def enc_target_def enc_gate_def sample_libs_def sample_intent_def sample_target_def sample_ports_def
        omitempty_def sample_gate_def)
  then show ?thesis
    by (simp add: read_saved_intent_def intent_JSON_def parse_print dec_saved_intent_def enc_intent_def dec_field_Cons
        dec_field_def [where fs = "[]"]
        to_lower_char_def is_upper_def sample_intent_def)
qed

lemma gate_JSON_nonempty [simp]: "gate_JSON g \<noteq> []"
  by (simp add: gate_JSON_def enc_gate_def print_json.simps)

lemmas sample_rows = sample_db_def empty_db_def new_request_def new_binding_def pending_app_def pending_deployment_def
  q_key_def c_key_def b_key_def sample_request_def

lemma sample_finds:
  "find_request (sample_db stage g) ''web'' sample_rid = Some (new_request sample_request None sample_time sample_time)"
  "find_binding (sample_db stage g) ''web'' sample_rid = Some (new_binding ''web'' sample_rid ''app-1'' ''dep-1'' sample_time)"
  "q_state (new_request sample_request None sample_time sample_time) = ''pending''"
  by (simp_all add: find_request_def find_binding_def sample_rows)

lemma sample_Finalize: "\<exists>resp d'. Finalize sample_lib sample_sha ''web'' sample_rid ''applied'' (gate_JSON g) True sample_time (sample_db ''activated'' g) = Inr (resp, d')"
  by (simp add: Finalize_def find_request_def find_binding_def finalize_checks_def finalize_applied_def finalize_commit_def sample_rows
      find_checkpoint_def Let_def sample_valid scanApp_def scanDeployment_def parseOptionalStoredTime_def
      upsert_route_def insert_route_def mapRowsAffected_def taff_def tupd_def parseOptionalString_def)

lemma sample_Finalize_withdrawn: "\<exists>resp d'. Finalize sample_lib sample_sha ''web'' sample_rid ''withdrawn'' (gate_JSON g) True sample_time (sample_db ''withdrawn'' g) = Inr (resp, d')"
  by (simp add: Finalize_def find_request_def find_binding_def finalize_checks_def finalize_withdrawn_def finalize_commit_def sample_rows
      find_checkpoint_def Let_def sample_valid scanApp_def scanDeployment_def parseOptionalStoredTime_def
      mapRowsAffected_def taff_def tupd_def delete_routes_def parseOptionalString_def)

lemma sample_trim: "TrimSpace ''web'' = ''web''" "TrimSpace ''app-1'' = ''app-1''" "TrimSpace ''dep-1'' = ''dep-1''"
  by code_simp+

lemma sample_begin: "\<exists>b d'. beginCandidate sample_lib sample_request ''app-1'' ''dep-1'' sample_time False empty_db = Inr ((b, True), d')"
  by (simp add: beginCandidate_def validateCandidateDeployRequest_def sample_request_def sample_valid find_binding_def
      find_request_def active_app_def validateCandidateDomainAdmission_def validateCandidatePredecessor_def Let_def
      insert_candidate_def insert_request_def insert_app_def insert_deployment_def insert_binding_def sample_rows
      sample_trim parseOptionalString_def)

text \<open>A server over a database, with the cluster's service still on its predecessor.\<close>

definition sample_world :: "db \<Rightarrow> (cluster, int) world" where
  "sample_world d = \<lparr>w_db = d, w_env = ((''boot'', 2), sample_target), w_log = []\<rparr>"

lemma sample_abandoned: "abandoned (sample_db ''recovering'' g) ''web'' sample_rid"
  by (simp add: abandoned_def find_checkpoint_def sample_rows)

lemma sample_stages [simp]: "schema_ok (sample_db ''activated'' g)" "schema_ok (sample_db ''recovering'' g)" "schema_ok (sample_db ''withdrawn'' g)"
  "schema_ok (sample_db ''fenced'' g)"
  by (rule sample_schema, simp add: stages_def)+

text \<open>The journal after the first candidate has been applied, and after it has begun.\<close>

lemma sample_applied:
  obtains resp d r where "Finalize sample_lib sample_sha ''web'' sample_rid ''applied'' (gate_JSON g) True sample_time (sample_db ''activated'' g) = Inr (resp, d)"
    and "schema_ok d" and "find_request d ''web'' sample_rid = Some r" and "q_state r = ''applied''" and "q_response r = Some resp"
proof -
  obtain resp d where run: "Finalize sample_lib sample_sha ''web'' sample_rid ''applied'' (gate_JSON g) True sample_time (sample_db ''activated'' g) = Inr (resp, d)"
    using sample_Finalize by blast
  with that Finalize_request [OF run] Finalize_good [OF run] show thesis by (auto simp: good_def)
qed

lemma sample_begun:
  obtains b d where "beginCandidate sample_lib sample_request ''app-1'' ''dep-1'' sample_time False empty_db = Inr ((b, True), d)"
    and "jreach sample_lib sample_sha empty_db d" and "bindings d \<noteq> []"
proof -
  obtain b d where run: "beginCandidate sample_lib sample_request ''app-1'' ''dep-1'' sample_time False empty_db = Inr ((b, True), d)"
    using sample_begin by blast
  then have "jstep sample_lib sample_sha empty_db d" by (auto intro: jstep.binding_begin simp: binding_Begin_def)
  moreover have "bindings d \<noteq> []"
    by (rule beginCandidate_fresh [OF run], drule insert_candidate_rows(6)) auto
  ultimately show thesis using that run by (auto simp: jreach_def)
qed

text \<open>Operations of the sample server: a finished activation, a finished restoration, a completion.\<close>

lemma sample_libs_simps [simp]:
  "lib_k8s sample_libs = sample_lib" "lib_sha256 sample_libs = sample_sha" "DeepEqual (lib_port sample_libs) x y \<longleftrightarrow> x = y"
  by (simp_all add: sample_libs_def sample_ports_def)

lemma sample_intent_simps [simp]:
  "intent_AppName sample_intent = ''web''" "intent_RequestID sample_intent = sample_rid"
  "intent_RequestedState sample_intent = config_JSON sample_config" "intent_SecretRevision sample_intent = []"
  "intent_RegistrySecret sample_intent = []" "intent_InitialGate sample_intent = sample_gate ''boot'' 2"
  "intent_PredecessorTarget sample_intent = sample_target"
  by (simp_all add: sample_intent_def)

lemma sample_find_request [simp]: "request_Find ''web'' sample_rid (sample_db stage g) = Inr (sample_request\<lparr>req_CreatedAt := sample_time, req_UpdatedAt := sample_time\<rparr>)"
  by (simp add: request_Find_def sample_finds scan_request_def new_request_def sample_request_def parseOptionalString_def)

lemma sample_request_simps [simp]:
  "req_AppName sample_request = ''web''" "req_RequestID sample_request = sample_rid" "req_State sample_request = ''pending''"
  "req_RequestedState sample_request = config_JSON sample_config" "req_PreviousAppID sample_request = []"
  "req_PreviousState sample_request = []"
  by (simp_all add: sample_request_def)

lemma sample_find_checkpoint [simp]: "FindRuntimeCheckpoint ''web'' sample_rid (sample_db stage g) = Inr \<lparr>chk_AppName = ''web'', chk_RequestID = sample_rid,
   chk_Stage = stage, chk_IntentJSON = intent_JSON sample_libs sample_intent, chk_GateJSON = gate_JSON g\<rparr>"
  by (simp add: FindRuntimeCheckpoint_def validateCheckpointIdentity_def sample_trim find_checkpoint_def sample_rows)

lemma sample_refs [simp]: "ValidateCandidateReferences sample_sha sample_config [] [] = Inr ()"
  "CandidateRegistrySecretName sample_sha sample_config = []"
  by (simp_all add: ValidateCandidateReferences_def CandidateRegistrySecretName_def)

lemma sample_capture [simp]: "validInitialCapture (sample_gate ''boot'' 2) sample_target ''web''"
  by (simp add: validInitialCapture_def sample_gate_def sample_target_def show_nat_nonempty)

lemma sample_saved_gate [simp]: "validSavedGate (sample_gate op n) (sample_gate ''boot'' 2) ''web'' op b"
  by (simp add: validSavedGate_def sample_gate_def show_nat_nonempty)

lemma sample_world_db [simp]: "w_db (sample_world d) = d" "w_env (sample_world d) = ((''boot'', 2), sample_target)"
  by (simp_all add: sample_world_def)

lemma sample_advance:
  "AdvanceCandidateOperation sample_libs (db_checkpoints sample_now) db_requests (observed sample_runtime) ''web'' sample_rid
     sample_config [] [] (sample_world (sample_db ''activated'' (sample_gate sample_rid 3)))
   = (Inr (sample_gate sample_rid 3), sample_world (sample_db ''activated'' (sample_gate sample_rid 3)))"
  by (simp add: AdvanceCandidateOperation_def resumeCandidateOperation_def intentMatches_def sample_valid Let_def
      io_bind_def io_try_def read_io_def decodeGate_JSON)

definition sample_recovery :: string where
  "sample_recovery = candidateRecoveryID sample_sha ''web'' sample_rid"

lemma sample_recovery_fresh: "sample_recovery \<noteq> sample_rid" "sample_recovery \<noteq> ''boot''"
  by code_simp+

lemma sample_restore:
  "RestoreCandidateTraffic sample_libs False (db_checkpoints sample_now) db_requests (observed sample_runtime) ''web'' sample_rid
     (sample_world (sample_db ''withdrawn'' (sample_gate sample_recovery 5)))
   = (Inr (sample_gate sample_recovery 5), sample_world (sample_db ''withdrawn'' (sample_gate sample_recovery 5)))"
  using sample_recovery_fresh
  by (simp add: RestoreCandidateTraffic_def Let_def io_bind_def read_io_def decodeGate_JSON flip: sample_recovery_def)
     (simp add: sample_gate_def)

text \<open>A server whose service selects the activated candidate.\<close>

definition sample_live :: "(cluster, int) world" where
  "sample_live = \<lparr>w_db = sample_db ''activated'' (sample_gate sample_rid 3),
     w_env = ((sample_rid, 3), \<lparr>target_Selector = the (CandidateSelector sample_sha ''web'' sample_rid), target_Ports = [8080]\<rparr>), w_log = []\<rparr>"

lemma sample_selector: "CandidateSelector sample_sha ''web'' sample_rid = Some [(''deployer.io/app'', ''web''),
   (''deployer.io/candidate-generation'', candidateGeneration sample_sha ''web'' sample_rid)]"
  by (simp add: CandidateSelector_def sample_trim)

lemma sample_Finalize_reply: "\<exists>a dep n w d'. Finalize sample_lib sample_sha ''web'' sample_rid ''applied'' (gate_JSON g) True sample_time (sample_db ''activated'' g)
   = Inr (reply_JSON a dep n (config_JSON sample_config) w, d')"
  by (simp add: Finalize_def find_request_def find_binding_def finalize_checks_def finalize_applied_def finalize_commit_def sample_rows
      find_checkpoint_def Let_def sample_valid scanApp_def scanDeployment_def parseOptionalStoredTime_def
      upsert_route_def insert_route_def mapRowsAffected_def taff_def tupd_def parseOptionalString_def) blast

lemma sample_complete:
  "\<exists>reply s'. CompleteCandidateOperation sample_libs False (db_checkpoints sample_now) db_requests (db_finalizer sample_libs)
     (observed sample_runtime) ''web'' sample_rid ''applied'' True sample_time sample_live = (Inr (Some reply), s')"
proof -
  obtain a dep n w d' where fin: "Finalize sample_lib sample_sha ''web'' sample_rid ''applied'' (gate_JSON (sample_gate sample_rid 3)) True
      sample_time (sample_db ''activated'' (sample_gate sample_rid 3)) = Inr (reply_JSON a dep n (config_JSON sample_config) w, d')"
    using sample_Finalize_reply by blast
  show ?thesis
    by (simp add: CompleteCandidateOperation_def complete_observed_def Let_def io_bind_def read_io_def call_io_def tx_io_def
        sample_live_def sample_runtime_def sample_selector sample_valid intentMatches_def decodeGate_JSON fin decode_reply_JSON
        same_map_iff)
qed

lemma sample_ended: "\<exists>r d. request_Find ''web'' sample_rid d = Inr r \<and> req_State r = ''applied'' \<and>
   decodeCandidateReply (req_ResponseJSON r) = Inr (reply_value a dep n rq w)"
proof -
  define d where "d = empty_db\<lparr>requests := [(new_request sample_request None sample_time sample_time)
    \<lparr>q_state := ''applied'', q_response := Some (reply_JSON a dep n rq w)\<rparr>]\<rparr>"
  have "\<exists>r. request_Find ''web'' sample_rid d = Inr r \<and> req_State r = ''applied'' \<and> req_ResponseJSON r = reply_JSON a dep n rq w"
    by (simp add: d_def request_Find_def find_request_def q_key_def new_request_def scan_request_def empty_db_def parseOptionalString_def)
  then show ?thesis using decode_reply_JSON [of a dep n rq w] by auto
qed

section \<open>Other configurations\<close>

definition storage_config_sample :: config where
  "storage_config_sample = sample_config\<lparr>cfg_Hosting := None, cfg_Deploy := \<lparr>deploy_Replicas = 1, deploy_Strategy = ''recreate''\<rparr>,
     cfg_State := \<lparr>state_Mode = ''stateful''\<rparr>, cfg_Resilience := \<lparr>resilience_Mode = ''pinned'', resilience_AllowUnsafeStatefulFailover = False\<rparr>,
     cfg_Placement := (cfg_Placement sample_config)\<lparr>placement_Prefer := [[(''node-id'', ''node-a'')]]\<rparr>,
     cfg_Storage := Some \<lparr>storage_ExistingClaim = ''data'', storage_MountPath = ''/data'',
       storage_AdditionalMounts = [\<lparr>mount_ExistingClaim = ''logs'', mount_MountPath = ''/logs''\<rparr>]\<rparr>\<rparr>"

lemma storage_config_sample_valid: "Validate sample_lib storage_config_sample = Inr ()"
  by code_simp

lemma storage_config_sample_storage:
  "cfg_Storage storage_config_sample = Some \<lparr>storage_ExistingClaim = ''data'', storage_MountPath = ''/data'',
       storage_AdditionalMounts = [\<lparr>mount_ExistingClaim = ''logs'', mount_MountPath = ''/logs''\<rparr>]\<rparr>"
  by (simp add: storage_config_sample_def)

definition postgres_sample :: postgres_config where
  "postgres_sample = \<lparr>pg_Instances = 3, pg_Image = ''ghcr.io/cnpg/pg:16.4@sha256:'' @ sample_rid, pg_Database = ''app'', pg_Owner = ''app'',
     pg_ConnectionEnv = ''DATABASE_URL'', pg_ConnectionMode = ''managed'',
     pg_Storage = \<lparr>pgs_Size = ''2Gi'', pgs_StorageClass = ''local-path''\<rparr>,
     pg_Synchronous = \<lparr>pgy_Replicas = 1, pgy_DataDurability = ''required''\<rparr>, pg_RetentionPolicy = ''retain''\<rparr>"

definition postgres_config_sample :: config where
  "postgres_config_sample = sample_config\<lparr>cfg_Hosting := None, cfg_Database := \<lparr>database_Postgres = Some postgres_sample\<rparr>\<rparr>"

lemma postgres_config_sample_valid: "Validate sample_lib postgres_config_sample = Inr ()"
  by code_simp

definition credential_sample :: credential where
  "credential_sample = \<lparr>cr_AppName = ''web'', cr_Revision = sample_rid, cr_Registry = ''ghcr.io'', cr_Username = ''bot'', cr_Password = ''hunter2''\<rparr>"

definition image_sample :: string where
  "image_sample = ''ghcr.io/acme/web@sha256:'' @ sample_rid"

lemma credential_sample_valid: "credential_ValidateFor credential_sample ''web'' sample_rid image_sample = Inr ()"
  by code_simp

end
