(* ===== verification/Config_Theorems.thy ===== *)
theory Config_Theorems
  imports Samples
begin

text \<open>
  What the configuration component promises: stored configurations read back, validation bounds, and
  the codecs it rests on.
\<close>

section \<open>Stored configurations\<close>



text \<open>Normalizing is idempotent: a configuration read back and normalized again does not drift.\<close>

theorem normalize_stable: "Normalize (Normalize c) = Normalize c"
  by (rule Normalize_idem)

text \<open>C2. Whatever YAML decoder is used, a configuration returned by Parse is normalized and valid.\<close>

theorem parsed_config_valid:
  assumes "Parse lib yaml_decode data = Inr c"
  shows "Normalize c = c \<and> Validate lib c = Inr ()"
  using assms by (rule Parse_normal_valid)

theorem parsed_config_valid_witness: "Normalize sample_config = sample_config \<and> Validate sample_lib sample_config = Inr ()"
proof (rule parsed_config_valid [where yaml_decode = "\<lambda>_. Some sample_config" and data = "''name: web''"])
  have "Normalize sample_config = sample_config" by (simp add: sample_config_def Normalize_idem)
  then show "Parse sample_lib (\<lambda>_. Some sample_config) ''name: web'' = Inr sample_config"
    by (simp add: Parse_def sample_valid)
qed

section \<open>What validation rejects\<close>

text \<open>C3. In a valid configuration no path lies inside two of the storage mounts, and no two mounts
  use the same claim.\<close>

theorem valid_mounts_disjoint:
  assumes "Validate lib c = Inr ()" and "cfg_Storage c = Some s" and "i < j" and "j < length (Mounts s)"
  shows "\<not> (inside p (mount_MountPath (Mounts s ! i)) \<and> inside p (mount_MountPath (Mounts s ! j))) \<and>
    mount_ExistingClaim (Mounts s ! i) \<noteq> mount_ExistingClaim (Mounts s ! j)"
  using accepted_mounts_apart [OF assms] inside_both_overlap by (auto simp: mount_apart_def)

theorem valid_mounts_disjoint_witness: "\<not> (inside ''/data/x'' ''/data'' \<and> inside ''/data/x'' ''/logs'') \<and> ''data'' \<noteq> ''logs''"
  using valid_mounts_disjoint [OF storage_config_sample_valid storage_config_sample_storage, of 0 1 "''/data/x''"]
  by (simp add: Mounts_def)

text \<open>C4. A valid configuration with a managed PostgreSQL has three to nine instances, at least one
  synchronous replica and fewer than instances, a supported major version and at least 1Gi of storage.\<close>

theorem valid_postgres_quorum:
  assumes "Validate lib c = Inr ()" and "database_Postgres (cfg_Database c) = Some p"
  shows "3 \<le> pg_Instances p \<and> pg_Instances p \<le> 9 \<and> 1 \<le> pgy_Replicas (pg_Synchronous p) \<and>
    pgy_Replicas (pg_Synchronous p) < pg_Instances p \<and>
    (\<exists>v. PostgresImageMajor (pg_Image p) = Inr v \<and> 14 \<le> v \<and> v \<le> 18) \<and>
    (\<exists>q. ParseQuantity lib (pgs_Size (pg_Storage p)) = Some q \<and> 1073741824 \<le> q)"
proof -
  have "validate_postgres lib (cfg_Name c) (placement_Arch (cfg_Placement c)) (cfg_Secrets c) p = Inr ()"
    using Validate_database [OF assms(1)] assms(2) by (simp add: database_validate_def)
  from validate_postgres_ok [OF this] show ?thesis by blast
qed

theorem valid_postgres_quorum_witness:
  "3 \<le> pg_Instances postgres_sample \<and> (\<exists>v. PostgresImageMajor (pg_Image postgres_sample) = Inr v \<and> 14 \<le> v \<and> v \<le> 18)"
  using valid_postgres_quorum [OF postgres_config_sample_valid, of postgres_sample]
  by (simp add: postgres_config_sample_def)

text \<open>A valid hosted configuration stays within its replica ceiling of at most 1000, and every
  resource request is positive and at most its limit.\<close>

theorem valid_hosting_bounds:
  assumes "Validate lib c = Inr ()" and "cfg_Hosting c = Some h"
  shows "1 \<le> hosting_MaxReplicas h \<and> hosting_MaxReplicas h \<le> 1000 \<and> hostingReplicas c \<le> hosting_MaxReplicas h \<and>
    (\<exists>rc rm re lc lm le. ResourceRequirements lib (Some h) = Inr (Some ((rc, rm, re), (lc, lm, le))) \<and>
       0 < rc \<and> 0 < rm \<and> 0 < re \<and> rc \<le> lc \<and> rm \<le> lm \<and> re \<le> le)"
proof -
  have "hosting_Validate lib (Some h) (hostingReplicas c) = Inr ()" using Validate_hosting [OF assms(1)] assms(2) by simp
  from hosting_Validate_ok [OF this] show ?thesis by blast
qed

theorem valid_hosting_bounds_witness: "hostingReplicas sample_config \<le> hosting_MaxReplicas (the (cfg_Hosting sample_config))"
proof -
  obtain h where "cfg_Hosting sample_config = Some h" by (cases "cfg_Hosting sample_config") (use sample_fields(2) in simp_all)
  with valid_hosting_bounds [OF sample_valid this] show ?thesis by simp
qed

text \<open>The secret list is accepted exactly when every name is a legal environment name and no name
  occurs twice.\<close>

theorem secret_list_accepted_iff:
  "validate_secrets 0 [] ss = Inr () \<longleftrightarrow> list_all (\<lambda>s. ValidateSecretName s = Inr ()) ss \<and> distinct ss"
  by (simp add: validate_secrets_iff list_all_iff)

text \<open>A registry credential validated for an app and revision only serves images of its own
  registry that are pinned by digest.\<close>

theorem credential_image_pinned:
  assumes "credential_ValidateFor c app rv img = Inr ()"
  shows "\<exists>name digest. img = cr_Registry c @ ''/'' @ name @ ''@sha256:'' @ digest \<and> length digest = 64 \<and> list_all is_hex digest \<and>
    2 \<le> length (split_char (CHR ''/'') name) \<and> cr_Registry c \<in> {''docker.io'', ''ghcr.io''} \<and> cr_AppName c = app \<and> cr_Revision c = rv"
  by (rule ValidateFor_shape [OF assms]) (auto simp: ValidRevision_iff)

theorem credential_image_pinned_witness:
  "\<exists>name digest. image_sample = ''ghcr.io'' @ ''/'' @ name @ ''@sha256:'' @ digest \<and> length digest = 64"
  using credential_image_pinned [OF credential_sample_valid] by (auto simp: credential_sample_def)

section \<open>Codecs\<close>

text \<open>For a valid credential the Docker configuration document is well-formed JSON with one entry, for
  the credential's registry, that carries its user name and password in base64.\<close>

theorem docker_config_document:
  assumes "credential_Validate c = Inr ()"
  shows "\<exists>text. DockerConfigJSON c = Inr text \<and> json_parse text = Some (JObj [(''auths'', JObj
      [(if cr_Registry c = ''docker.io'' then ''https://index.docker.io/v1/'' else cr_Registry c,
        JObj [(''auth'', JStr (b64_encode (map of_char (cr_Username c @ '':'' @ cr_Password c))))])])])"
  using DockerConfigJSON_parses [OF assms] .

theorem docker_config_document_witness: "\<exists>text. DockerConfigJSON credential_sample = Inr text"
proof -
  have "credential_Validate credential_sample = Inr ()" by code_simp
  from docker_config_document [OF this] show ?thesis by blast
qed

text \<open>Reading a stored configuration always terminates with its grammar's answer: with any more fuel
  than the parser is given, the result is the same.\<close>

theorem stored_config_read_total:
  "FromJSON s = (case pval (2 * length s + 2 + k) s of None \<Rightarrow> Inl Decode_error
     | Some (j, rest) \<Rightarrow> if skip_ws rest \<noteq> [] then Inl Decode_error
         else (case dec_config j zero_config of None \<Rightarrow> Inl Decode_error | Some cfg \<Rightarrow> Inr (Normalize cfg)))"
proof -
  have "pval (2 * length s + 2 + k) s = pval (2 * length s + 2) s" by (rule fuel_enough) simp
  then show ?thesis by (auto simp: FromJSON_def json_parse_def split: option.splits)
qed

text \<open>Times are stored without loss: a stored time is read back to the nanosecond.\<close>

theorem stored_time_roundtrip:
  assumes "wf_time t"
  shows "parseStoredTime (formatTime t) = Inr t \<and> parse_time (formatEventTime t) = Some t"
  using parse_formatEventTime [OF assms] assms by simp

theorem stored_time_roundtrip_witness: "parseStoredTime (formatTime sample_time) = Inr sample_time"
  using stored_time_roundtrip [OF sample_wf(1)] by simp

text \<open>Event times are stored in a layout whose text order is the time order.\<close>

theorem event_time_order:
  assumes "wf_time t" and "wf_time u"
  shows "formatEventTime t < formatEventTime u \<longleftrightarrow> t < u"
  using assms by (rule formatEventTime_less_iff)

theorem event_time_order_witness: "\<not> formatEventTime sample_time < formatEventTime sample_time"
  using event_time_order [OF sample_wf(1) sample_wf(1)] by simp

end
