(* ===== verification/Journal_Theorems.thy ===== *)
theory Journal_Theorems
  imports Samples
begin

text \<open>
  What the deployment journal promises: the schema is an invariant of every run, ended requests and
  bindings never change, and finalization is atomic, final and repeatable.
\<close>

section \<open>Runs\<close>

text \<open>C5. Starting from an empty database, every sequence of repository writes keeps the schema: keys
  are unique, references resolve, stages are known, at most one request per app is pending and an ended
  request has its response.\<close>

theorem journal_schema_invariant:
  assumes "jreach lib sha empty_db d"
  shows "schema_ok d"
  using jreach_good [OF assms schema_ok_empty] by (simp add: good_def)

theorem journal_schema_invariant_witness: "\<exists>d. schema_ok d \<and> bindings d \<noteq> []"
  by (rule sample_begun) (auto dest: journal_schema_invariant)

text \<open>C6. A request that has ended is never changed again, by any later writes.\<close>

theorem ended_request_immutable:
  assumes "schema_ok d" and "find_request d app rid = Some r" and "terminal (q_state r)" and "jreach lib sha d d'"
  shows "find_request d' app rid = Some r"
  using jreach_terminal_fixed [OF assms(4,1,2,3)] .

theorem ended_request_immutable_witness: "\<exists>d r. find_request d ''web'' sample_rid = Some r \<and> q_state r = ''applied''"
proof (rule sample_applied)
  fix resp d r
  assume "schema_ok d" "find_request d ''web'' sample_rid = Some r" "q_state r = ''applied''"
  with ended_request_immutable [of d "''web''" sample_rid r sample_lib sample_sha d] show ?thesis
    by (auto simp: terminal_def)
qed

text \<open>A binding of a request to its app and deployment never changes.\<close>

theorem binding_immutable:
  assumes "schema_ok d" and "find_binding d app rid = Some b" and "jreach lib sha d d'"
  shows "find_binding d' app rid = Some b"
  using jreach_binding_fixed [OF assms(3,1,2)] .

theorem binding_immutable_witness:
  "find_binding (sample_db ''fenced'' (sample_gate [] 2)) ''web'' sample_rid = Some (new_binding ''web'' sample_rid ''app-1'' ''dep-1'' sample_time)"
  by (rule binding_immutable [where d = "sample_db ''fenced'' (sample_gate [] 2)" and lib = sample_lib and sha = sample_sha])
     (simp_all add: sample_finds stages_def)

text \<open>C7. A candidate whose recovery has begun stays abandoned: no write takes its checkpoint back to a
  stage from which it could be activated.\<close>

theorem abandoned_forever:
  assumes "schema_ok d" and "abandoned d app rid" and "jreach lib sha d d'"
  shows "abandoned d' app rid"
  using abandoned_stays [OF assms] .

theorem abandoned_forever_witness: "abandoned (sample_db ''recovering'' (sample_gate [] 2)) ''web'' sample_rid"
  by (rule abandoned_forever [where d = "sample_db ''recovering'' (sample_gate [] 2)" and lib = sample_lib and sha = sample_sha])
     (simp_all add: sample_abandoned)

section \<open>Finalization\<close>

text \<open>C8. Finalizing as applied commits everything together: the app row is live with the requested
  state and image, its route is the requested one (or none), the deployment is healthy and the request
  has ended with the returned reply.\<close>

theorem finalize_applied_effect:
  assumes "Finalize lib sha app rid ''applied'' g tls now d = Inr (resp, d')" and "schema_ok d"
    and "find_request d app rid = Some r" and "q_state r = ''pending''" and "find_binding d app rid = Some b"
  shows "\<exists>cfg row dep r'. FromJSON (q_requested r) = Inr cfg \<and> Validate lib cfg = Inr () \<and>
    tsel (\<lambda>x. a_id x = b_app_id b) (apps d') = Some row \<and> a_name row = app \<and> a_state row = q_requested r \<and>
    a_image row = cfg_Image cfg \<and> a_deleted row = None \<and>
    (if routing_Domain (cfg_Routing cfg) = [] then \<not> list_ex (\<lambda>x. r_app_id x = b_app_id b) (routes d')
     else list_ex (\<lambda>x. r_app_id x = b_app_id b \<and> r_domain x = routing_Domain (cfg_Routing cfg) \<and>
       r_port x = service_Port (cfg_Service cfg)) (routes d')) \<and>
    tsel (\<lambda>x. d_id x = b_dep_id b) (deployments d') = Some dep \<and> d_status dep = ''healthy'' \<and>
    find_request d' app rid = Some r' \<and> q_state r' = ''applied'' \<and> q_response r' = Some resp"
proof -
  obtain cfg row where 1: "FromJSON (q_requested r) = Inr cfg" "Validate lib cfg = Inr ()"
    "tsel (\<lambda>x. a_id x = b_app_id b) (apps d') = Some row" "a_name row = app"
    "a_state row = q_requested r" "a_image row = cfg_Image cfg" "a_deleted row = None"
    "routing_Domain (cfg_Routing cfg) = [] \<Longrightarrow> \<forall>x \<in> set (routes d'). r_app_id x \<noteq> b_app_id b"
    "routing_Domain (cfg_Routing cfg) \<noteq> [] \<Longrightarrow> \<exists>x \<in> set (routes d'). r_app_id x = b_app_id b \<and>
       r_domain x = routing_Domain (cfg_Routing cfg) \<and> r_port x = service_Port (cfg_Service cfg)"
    using Finalize_applied_app [OF assms] by metis
  obtain dep where 2: "tsel (\<lambda>x. d_id x = b_dep_id b) (deployments d') = Some dep" "d_status dep = ''healthy''"
    using Finalize_deployment [OF assms(1,3,4,5)] by auto
  obtain r' where 3: "find_request d' app rid = Some r'" "q_state r' = ''applied''" "q_response r' = Some resp"
    using Finalize_request [OF assms(1,2)] by blast
  from 1 2 3 show ?thesis by (auto simp: list_ex_iff)
qed

theorem finalize_applied_effect_witness:
  "\<exists>resp d' row. Finalize sample_lib sample_sha ''web'' sample_rid ''applied'' (gate_JSON (sample_gate [] 2)) True sample_time (sample_db ''activated'' (sample_gate [] 2)) = Inr (resp, d') \<and>
     tsel (\<lambda>x. a_id x = ''app-1'') (apps d') = Some row \<and> a_deleted row = None"
proof -
  obtain resp d' where run: "Finalize sample_lib sample_sha ''web'' sample_rid ''applied'' (gate_JSON (sample_gate [] 2)) True
      sample_time (sample_db ''activated'' (sample_gate [] 2)) = Inr (resp, d')"
    using sample_Finalize by blast
  from finalize_applied_effect [OF run sample_stages(1) sample_finds(1,3,2)] run show ?thesis by (auto simp: new_binding_def)
qed

text \<open>C9. Finalizing as withdrawn leaves the inventory as it was: no app row changes, and where there was
  a predecessor no route changes either; the deployment is marked failed.\<close>

theorem finalize_withdrawn_effect:
  assumes "Finalize lib sha app rid ''withdrawn'' g tls now d = Inr (resp, d')" and "schema_ok d"
    and "find_request d app rid = Some r" and "q_state r = ''pending''" and "find_binding d app rid = Some b"
  shows "apps d' = apps d \<and> (parseOptionalString (q_prev_id r) \<noteq> [] \<longrightarrow> routes d' = routes d) \<and>
    (\<exists>dep. tsel (\<lambda>x. d_id x = b_dep_id b) (deployments d') = Some dep \<and> d_status dep = ''failed'') \<and>
    (\<exists>r'. find_request d' app rid = Some r' \<and> q_state r' = ''withdrawn'' \<and> q_response r' = Some resp)"
  using Finalize_withdrawn_frame [OF assms(1,3)] Finalize_deployment [OF assms(1,3,4,5)] Finalize_request [OF assms(1,2)]
  by auto

theorem finalize_withdrawn_effect_witness:
  "\<exists>resp d'. Finalize sample_lib sample_sha ''web'' sample_rid ''withdrawn'' (gate_JSON (sample_gate [] 2)) True sample_time (sample_db ''withdrawn'' (sample_gate [] 2)) = Inr (resp, d') \<and>
     apps d' = apps (sample_db ''withdrawn'' (sample_gate [] 2))"
proof -
  obtain resp d' where run: "Finalize sample_lib sample_sha ''web'' sample_rid ''withdrawn'' (gate_JSON (sample_gate [] 2)) True
      sample_time (sample_db ''withdrawn'' (sample_gate [] 2)) = Inr (resp, d')"
    using sample_Finalize_withdrawn by blast
  from finalize_withdrawn_effect [OF run sample_stages(3) sample_finds(1,3,2)] run show ?thesis by blast
qed

text \<open>C10. Finalization is final and repeatable: after it has succeeded once, whatever is written later,
  finalizing again with the same outcome returns the same reply and writes nothing, and with the other
  outcome is refused.\<close>

theorem finalize_idempotent:
  assumes "Finalize lib sha app rid out g tls now d = Inr (resp, d1)" and "schema_ok d" and "jreach lib' sha' d1 d2"
    and "out' = ''applied'' \<or> out' = ''withdrawn''" and "g' \<noteq> []" and "\<not> IsZero now'"
  shows "Finalize lib2 sha2 app rid out' g' tls' now' d2 =
    (if out' = out then Inr (resp, d2) else Inl ErrCandidateFinalizationConflict)"
  using Finalize_again [OF assms] .

theorem finalize_idempotent_witness:
  "\<exists>resp d. Finalize sample_lib sample_sha ''web'' sample_rid ''applied'' (gate_JSON (sample_gate [] 2)) False sample_time d = Inr (resp, d)"
proof (rule sample_applied)
  fix resp d r
  assume "Finalize sample_lib sample_sha ''web'' sample_rid ''applied'' (gate_JSON (sample_gate [] 2)) True sample_time (sample_db ''activated'' (sample_gate [] 2)) = Inr (resp, d)"
  from finalize_idempotent [OF this sample_stages(1) jreach_refl, of "''applied''" "gate_JSON (sample_gate [] 2)" sample_time sample_lib sample_sha False]
  show ?thesis by auto
qed

section \<open>Admission\<close>

text \<open>Submitting the same request again, whatever was written in between and whatever identifiers
  are proposed, returns the binding of the first submission and writes nothing.\<close>

theorem begin_idempotent:
  assumes "beginCandidate lib req pid did now False d = Inr ((bnd, True), d1)" and "schema_ok d" and "wf_time now"
    and "jreach lib sha d1 d2" and "TrimSpace pid' \<noteq> []" and "TrimSpace did' \<noteq> []" and "\<not> IsZero now'"
  shows "beginCandidate lib req pid' did' now' False d2 = Inr ((bnd, False), d2)"
  using beginCandidate_again [OF assms] .

theorem begin_idempotent_witness:
  "\<exists>b d. beginCandidate sample_lib sample_request ''app-1'' ''dep-1'' sample_time False d = Inr ((b, False), d)"
proof (rule sample_begun)
  fix b d
  assume "beginCandidate sample_lib sample_request ''app-1'' ''dep-1'' sample_time False empty_db = Inr ((b, True), d)"
  from begin_idempotent [OF this schema_ok_empty sample_wf(1) jreach_refl, of "''app-1''" "''dep-1''" sample_time]
  show ?thesis by (auto simp: sample_trim)
qed

text \<open>C11. A candidate is admitted only when no other app owns a route for its domain and no other app's
  pending request asks for it; the app itself has no other pending request.\<close>

theorem admitted_domain_free:
  assumes "beginCandidate lib req pid did now False d = Inr ((bnd, True), d')"
    and "FromJSON (req_RequestedState req) = Inr cfg" and "routing_Domain (cfg_Routing cfg) \<noteq> []"
  shows "list_all (\<lambda>x. r_domain x \<noteq> routing_Domain (cfg_Routing cfg) \<or>
       list_all (\<lambda>a. a_id a \<noteq> r_app_id x \<or> a_name a = req_AppName req) (apps d)) (routes d) \<and>
    list_all (\<lambda>q. q_state q \<noteq> ''pending'' \<or> q_app q \<noteq> req_AppName req \<and>
       (\<exists>other. FromJSON (q_requested q) = Inr other \<and> routing_Domain (cfg_Routing other) \<noteq> routing_Domain (cfg_Routing cfg))) (requests d)"
  using beginCandidate_admission [OF assms] by (fastforce simp: list_all_iff)

theorem admitted_domain_free_witness:
  "list_all (\<lambda>x. r_domain x \<noteq> ''web.example.org'' \<or> list_all (\<lambda>a. a_id a \<noteq> r_app_id x \<or> a_name a = ''web'') (apps empty_db)) (routes empty_db)"
proof (rule sample_begun)
  fix b d
  assume "beginCandidate sample_lib sample_request ''app-1'' ''dep-1'' sample_time False empty_db = Inr ((b, True), d)"
  from admitted_domain_free [OF this, of sample_config] show ?thesis by (simp add: sample_request_def)
qed

text \<open>The completion path for requests without a candidate refuses a request that has one, so a
  candidate's outcome is only ever committed by finalization.\<close>

theorem bound_request_not_completed:
  assumes "find_binding d app rid = Some b" and "st = ''applied'' \<or> st = ''withdrawn''" and "json_Valid resp" and "resp \<noteq> ''null''"
  shows "request_Complete app rid st resp t d = Inl ErrNotFound"
  using Complete_bound [OF assms] .

theorem bound_request_not_completed_witness:
  "request_Complete ''web'' sample_rid ''applied'' (print_json (JObj [])) sample_time (sample_db ''fenced'' (sample_gate [] 2)) = Inl ErrNotFound"
  by (rule bound_request_not_completed [OF sample_finds(2)])
     (simp, simp add: json_Valid_def parse_print, simp add: print_json.simps)

section \<open>Inventory\<close>

text \<open>An app that was created is found by its name, with every field as it was given.\<close>

theorem created_app_found:
  assumes "app_Create a d = Inr ((), d')" and "wf_time (app_CreatedAt a)" and "wf_time (app_UpdatedAt a)"
    and "pred_option wf_time (app_DeletedAt a)"
  shows "app_FindByName (app_Name a) d' = Inr a"
  using app_Create_Find [OF assms(1-3)] assms(4) by (cases "app_DeletedAt a") auto

theorem created_app_found_witness:
  "\<exists>a d'. app_Create a empty_db = Inr ((), d') \<and> app_FindByName ''web'' d' = Inr a"
proof -
  define a where "a = \<lparr>app_ID = ''app-1'', app_Name = ''web'', app_Image = ''img'', app_DesiredStateJSON = ''{}'',
    app_CreatedAt = sample_time, app_UpdatedAt = sample_time, app_DeletedAt = None\<rparr>"
  have "\<exists>d'. app_Create a empty_db = Inr ((), d')" by (simp add: app_Create_def insert_app_def empty_db_def)
  then show ?thesis using created_app_found [of a empty_db] by (auto simp: a_def)
qed

end
