(* ===== verification/Candidate_Theorems.thy ===== *)
theory Candidate_Theorems
  imports Samples
begin

text \<open>
  What the candidate operations promise: durable writes precede the runtime calls they announce, an
  abandoned candidate is never activated, and a returned result is one the journal holds.
\<close>

section \<open>Activation\<close>

text \<open>C12. Every runtime call of an activation finds its announcement in the journal: the gate is captured
  before any checkpoint exists, fenced only when the saved intent names it, and the candidate is
  prepared and activated only under the recorded fence.\<close>

theorem advance_writes_ahead:
  "list_all (advance_call_ok L app rid)
     (calls_since s (snd (AdvanceCandidateOperation L (db_checkpoints now) db_requests (observed rt) app rid cfg srev rsec s)))"
  by (rule emits_calls [OF emits_advance])

text \<open>An activation that returns a gate has recorded it: the checkpoint is activated and its gate is
  the one returned, owned by this request.\<close>

theorem advance_result_recorded:
  assumes "AdvanceCandidateOperation L (db_checkpoints now) db_requests (observed rt) app rid cfg srev rsec s = (Inr g, s')"
  shows "gate_recorded (w_db s') app rid ''activated'' rid g"
  using advance_result [OF assms] .

theorem advance_result_recorded_witness:
  "gate_recorded (sample_db ''activated'' (sample_gate sample_rid 3)) ''web'' sample_rid ''activated'' sample_rid (sample_gate sample_rid 3)"
  using advance_result_recorded [OF sample_advance] by simp

text \<open>C13. Once recovery of a candidate has begun, activation is refused for good: after any later writes
  it returns an error, calls nothing and writes nothing.\<close>

theorem abandoned_never_activated:
  assumes "schema_ok d" and "abandoned d app rid" and "jreach lib sha d (w_db s)"
  shows "\<exists>e. AdvanceCandidateOperation L (db_checkpoints now) db_requests (observed rt) app rid cfg srev rsec s = (Inl e, s)"
proof -
  have "abandoned (w_db s) app rid" using abandoned_stays [OF assms] .
  then show ?thesis using advance_abandoned
    by (cases "AdvanceCandidateOperation L (db_checkpoints now) db_requests (observed rt) app rid cfg srev rsec s") blast
qed

theorem abandoned_never_activated_witness:
  "\<exists>e. AdvanceCandidateOperation sample_libs (db_checkpoints sample_now) db_requests (observed sample_runtime) ''web'' sample_rid
     sample_config [] [] (sample_world (sample_db ''recovering'' (sample_gate [] 2))) = (Inl e, sample_world (sample_db ''recovering'' (sample_gate [] 2)))"
  by (rule abandoned_never_activated [OF sample_stages(2) sample_abandoned, of sample_lib sample_sha "sample_gate [] 2"])
     (simp add: sample_world_def)

section \<open>Recovery\<close>

text \<open>C14. Traffic is restored only under a saved recovery identity: every capture, fence and replacement
  finds the checkpoint recovering, fences carry the recovery identity, and the target put back is the
  one the intent recorded. Restoring never prepares, activates or retires a candidate.\<close>

theorem restore_writes_ahead:
  "list_all (restore_call_ok L app rid)
     (calls_since s (snd (RestoreCandidateTraffic L cancelled (db_checkpoints now) db_requests (observed rt) app rid s)))"
  by (rule emits_calls [OF emits_restore])

text \<open>A restoration that returns a gate has recorded it as withdrawn, under the recovery identity.\<close>

theorem restore_result_recorded:
  assumes "RestoreCandidateTraffic L cancelled (db_checkpoints now) db_requests (observed rt) app rid s = (Inr g, s')"
  shows "gate_recorded (w_db s') app rid ''withdrawn'' (candidateRecoveryID (lib_sha256 L) app rid) g"
  using restore_result [OF assms] .

theorem restore_result_recorded_witness:
  "gate_recorded (sample_db ''withdrawn'' (sample_gate sample_recovery 5)) ''web'' sample_rid ''withdrawn'' sample_recovery (sample_gate sample_recovery 5)"
  using restore_result_recorded [OF sample_restore] by (simp add: sample_recovery_def)

section \<open>Completion\<close>

text \<open>Completion observes and publishes only settled traffic: for an applied outcome every call finds
  the activated checkpoint and speaks of its gate; for a withdrawn one, calls restore traffic or find
  it recorded as withdrawn, and only then is the candidate retired.\<close>

theorem complete_calls_settled:
  "list_all (complete_call_ok L app rid outcome)
     (calls_since s (snd (CompleteCandidateOperation L cancelled (db_checkpoints now) db_requests (db_finalizer L) (observed rt)
        app rid outcome tls t s)))"
  by (rule emits_calls [OF emits_complete])

text \<open>C15. A reply returned by completion is durable: the request has ended with this outcome and its
  stored response decodes to this reply.\<close>

theorem complete_reply_durable:
  assumes "schema_ok (w_db s)"
    and "CompleteCandidateOperation L cancelled (db_checkpoints now) db_requests (db_finalizer L) (observed rt)
      app rid outcome tls t s = (Inr (Some reply), s')"
  shows "reply_durable (w_db s') app rid outcome reply"
  using ensuresD [OF complete_ensures [OF assms(1)] assms(2)] by simp

theorem complete_reply_durable_witness: "\<exists>d reply. reply_durable d ''web'' sample_rid ''applied'' reply"
proof -
  obtain reply s' where run: "CompleteCandidateOperation sample_libs False (db_checkpoints sample_now) db_requests (db_finalizer sample_libs)
     (observed sample_runtime) ''web'' sample_rid ''applied'' True sample_time sample_live = (Inr (Some reply), s')"
    using sample_complete by blast
  have "schema_ok (w_db sample_live)" by (simp add: sample_live_def)
  from complete_reply_durable [OF this run] show ?thesis by blast
qed

text \<open>Completion of an ended request answers from the journal and has no effect: the same outcome
  returns the stored reply, the other one is refused.\<close>

theorem complete_ended_request:
  assumes "request_Find app rid (w_db s) = Inr r" and "terminal (req_State r)" and "app \<noteq> []" and "ValidRevision rid"
    and "terminal outcome" and "\<not> IsZero t"
  shows "CompleteCandidateOperation L cancelled repo db_requests fin rt app rid outcome tls t s =
    (if outcome = req_State r
     then (case decodeCandidateReply (req_ResponseJSON r) of Inl e \<Rightarrow> Inl e | Inr reply \<Rightarrow> Inr (Some reply))
     else Inl (ErrText ''candidate outcome is already terminal''), s)"
  using complete_terminal [OF assms] .

theorem complete_ended_request_witness:
  "\<exists>s reply. CompleteCandidateOperation sample_libs False (db_checkpoints sample_now) db_requests (db_finalizer sample_libs)
     (observed sample_runtime) ''web'' sample_rid ''applied'' True sample_time s = (Inr (Some reply), s)"
proof -
  obtain r d reply where r: "request_Find ''web'' sample_rid d = Inr r" "req_State r = ''applied''"
    "decodeCandidateReply (req_ResponseJSON r) = Inr reply"
    using sample_ended by blast
  then have "CompleteCandidateOperation sample_libs False (db_checkpoints sample_now) db_requests (db_finalizer sample_libs)
     (observed sample_runtime) ''web'' sample_rid ''applied'' True sample_time (sample_world d) = (Inr (Some reply), sample_world d)"
    by (subst complete_ended_request [where r = r]) (simp_all add: terminal_def)
  then show ?thesis by blast
qed

section \<open>Refinement\<close>

text \<open>Whatever the runtime does and wherever it fails, each operation moves the database only along
  steps of the journal, so every property of journal runs holds of the server.\<close>

theorem operations_refine_journal:
  "jreach (lib_k8s L) (lib_sha256 L) (w_db s)
     (w_db (snd (AdvanceCandidateOperation L (db_checkpoints now) db_requests (observed rt) app rid cfg srev rsec s))) \<and>
   jreach (lib_k8s L) (lib_sha256 L) (w_db s)
     (w_db (snd (RecoverCandidateOperation L cancelled (db_checkpoints now) db_requests (observed rt) app rid s))) \<and>
   jreach (lib_k8s L) (lib_sha256 L) (w_db s)
     (w_db (snd (CompleteCandidateOperation L cancelled (db_checkpoints now) db_requests (db_finalizer L) (observed rt)
        app rid outcome tls t s)))"
  by (intro conjI journal_host.keeps_advance [unfolded journal_pre.keeps_def, rule_format]
      journal_host.keeps_recover [unfolded journal_pre.keeps_def, rule_format]
      journal_host.keeps_complete [unfolded journal_pre.keeps_def, rule_format])

section \<open>Names\<close>

text \<open>A candidate's deployment name fits a Kubernetes label, for every app name.\<close>

theorem candidate_name_fits: "length (candidateDeploymentName sha app rid) \<le> 63"
  unfolding candidateDeploymentName_def
  by (rule candidateNameForGeneration_length) (simp add: candidateGeneration_def)

text \<open>What an operation saves is what a later process reads: gates, intents (whatever codec of
  Kubernetes ports that reads back what it writes) and replies survive the journal exactly.\<close>

theorem saved_documents_roundtrip:
  assumes "go_target (lib_port L) (intent_PredecessorTarget i)" and "intent_AppName i \<noteq> []" and "intent_RequestID i \<noteq> []"
  shows "decodeCandidateIntent L (intent_JSON L i) = Some i \<and> decodeGate (gate_JSON g) = Some g \<and>
    decodeCandidateReply (reply_JSON a dep n rq w) = Inr (reply_value a dep n rq w)"
  using decode_intent_JSON [OF assms] decodeGate_JSON decode_reply_JSON by blast

theorem saved_documents_roundtrip_witness:
  "decodeCandidateIntent sample_libs (intent_JSON sample_libs sample_intent) = Some sample_intent"
  using saved_documents_roundtrip [of sample_libs sample_intent] sample_target_ok by (simp add: sample_rid_def)

end
