(* ===== verification/Workload.thy ===== *)
theory Workload
  imports Candidate_Names
begin

text \<open>
  The Kubernetes objects the controller renders for an app: \<^verbatim>\<open>deploymentForApp\<close> and \<^verbatim>\<open>serviceForApp\<close>
  (\<^verbatim>\<open>internal/ingress/resources.go\<close>), the isolated candidate (\<^verbatim>\<open>candidate.go\<close>), the inactive service
  (\<^verbatim>\<open>candidate_bootstrap.go\<close>) and the network policy (\<^verbatim>\<open>hosting_network.go\<close>). The API types are records with
  the fields this code reads or writes; \<open>..._Other\<close> stands for all remaining fields of a struct, empty when they
  have their zero values, which is how the code renders them. A label map is an association list.
\<close>

section \<open>API types\<close>

datatype int_or_string = IntPort int | StrPort string

record service_port =
  sp_Name :: string
  sp_Protocol :: string
  sp_Port :: int
  sp_TargetPort :: int_or_string
  sp_Other :: string

record service =
  svc_Name :: string
  svc_Namespace :: string
  svc_UID :: string
  svc_ResourceVersion :: string
  svc_Deleting :: bool
  svc_Labels :: gomap
  svc_Annotations :: gomap
  svc_Selector :: gomap
  svc_Ports :: "service_port list"
  svc_Type :: string
  svc_Other :: string

record container_port =
  kp_Name :: string
  kp_ContainerPort :: int
  kp_Protocol :: string
  kp_Other :: string

record probe =
  pr_HTTPGet :: "(string \<times> int_or_string \<times> string) option"
  pr_TimeoutSeconds :: int
  pr_PeriodSeconds :: int
  pr_SuccessThreshold :: int
  pr_FailureThreshold :: int
  pr_Other :: string

record security_context =
  sc_AllowPrivilegeEscalation :: "bool option"
  sc_RunAsNonRoot :: "bool option"
  sc_Drop :: "string list"
  sc_Seccomp :: string
  sc_ReadOnlyRootFilesystem :: "bool option"
  sc_Other :: string

record env_var =
  env_Name :: string
  env_Value :: string
  env_SecretKeyRef :: "(string \<times> string) option"

record container =
  ct_Name :: string
  ct_Image :: string
  ct_Ports :: "container_port list"
  ct_ReadinessProbe :: "probe option"
  ct_LivenessProbe :: "probe option"
  ct_StartupProbe :: "probe option"
  ct_VolumeMounts :: "(string \<times> string) list"
  ct_Resources :: "((rat \<times> rat \<times> rat) \<times> (rat \<times> rat \<times> rat)) option"
  ct_SecurityContext :: "security_context option"
  ct_EnvFrom :: "string list"
  ct_Env :: "env_var list"
  ct_ImagePullPolicy :: string
  ct_TerminationMessagePath :: string
  ct_TerminationMessagePolicy :: string
  ct_Other :: string

record spread_constraint =
  ts_MaxSkew :: int
  ts_TopologyKey :: string
  ts_WhenUnsatisfiable :: string
  ts_LabelSelector :: gomap
  ts_MatchLabelKeys :: "string list"

record affinity_term =
  at_LabelSelector :: gomap
  at_TopologyKey :: string

record pod_anti_affinity =
  pa_Preferred :: "(int \<times> affinity_term) list"
  pa_Required :: "affinity_term list"

text \<open>A preferred node term: its weight and the keys with their operators and values.\<close>

type_synonym node_term = "int \<times> (string \<times> string \<times> string list) list"

record affinity =
  af_Node :: "node_term list option"
  af_PodAnti :: "pod_anti_affinity option"

record pod_spec =
  ps_Containers :: "container list"
  ps_Volumes :: "(string \<times> string) list"
  ps_AutomountServiceAccountToken :: "bool option"
  ps_NodeSelector :: gomap
  ps_TopologySpreadConstraints :: "spread_constraint list"
  ps_Affinity :: "affinity option"
  ps_ImagePullSecrets :: "string list"
  ps_SecurityContext :: "string option"
  ps_RestartPolicy :: string
  ps_DNSPolicy :: string
  ps_SchedulerName :: string
  ps_TerminationGracePeriodSeconds :: "int option"
  ps_EnableServiceLinks :: "bool option"
  ps_Other :: string

record label_selector =
  ls_MatchLabels :: gomap
  ls_MatchExpressions :: "string list"

record deployment_spec =
  dp_Replicas :: "int option"
  dp_Selector :: "label_selector option"
  dp_TemplateLabels :: gomap
  dp_TemplateAnnotations :: gomap
  dp_Pod :: pod_spec
  dp_Strategy :: string
  dp_RollingUpdate :: "(int_or_string \<times> int_or_string) option"
  dp_MinReadySeconds :: int
  dp_RevisionHistoryLimit :: "int option"
  dp_ProgressDeadlineSeconds :: "int option"
  dp_SpecOther :: string

record deployment_status =
  st_ObservedGeneration :: int
  st_Replicas :: int
  st_UpdatedReplicas :: int
  st_ReadyReplicas :: int
  st_AvailableReplicas :: int
  st_UnavailableReplicas :: int

record workload =
  wl_Name :: string
  wl_Namespace :: string
  wl_UID :: string
  wl_ResourceVersion :: string
  wl_Deleting :: bool
  wl_Generation :: int
  wl_Labels :: gomap
  wl_Annotations :: gomap
  wl_Spec :: deployment_spec
  wl_Status :: deployment_status

definition sel_matches :: "gomap \<Rightarrow> gomap \<Rightarrow> bool" where
  "sel_matches sel labels \<longleftrightarrow> list_all (\<lambda>(k, v). map_of labels k = Some v) sel"

section \<open>Names and labels\<close>

definition appLabels :: "string \<Rightarrow> gomap" where
  "appLabels app = [(''app.kubernetes.io/name'', app), (''deployer.io/app'', app)]"

definition managedAppLabels :: "string \<Rightarrow> gomap" where
  "managedAppLabels app = mput (appLabels app) ''app.kubernetes.io/managed-by'' ''deployer''"

definition environmentSecretName :: "(string \<Rightarrow> nat list) \<Rightarrow> string \<Rightarrow> string \<Rightarrow> string" where
  "environmentSecretName sha256 app revision = app @ ''-env-'' @ take 24 (sha_hex sha256 (app @ [CHR 0x00] @ revision))"

definition placementArchitecture :: "string \<Rightarrow> string" where
  "placementArchitecture placement = (let placement = TrimSpace placement
     in if placement = ''any'' then []
        else case split_char CHR ''/'' placement of [_, arch] \<Rightarrow> arch | _ \<Rightarrow> placement)"

definition placementLabelKey :: "string \<Rightarrow> string" where
  "placementLabelKey key = (let k = TrimSpace key
     in if k = ''arch'' then ''kubernetes.io/arch''
        else if k \<in> {''location'', ''role'', ''node-id''} then ''deployer.io/'' @ k else k)"

definition traefikResourceReference :: "string \<Rightarrow> string \<Rightarrow> string" where
  "traefikResourceReference namespace name = namespace @ ''-'' @ name @ ''@kubernetescrd''"

definition retainedStorageVolumeNameForIndex :: "nat \<Rightarrow> string" where
  "retainedStorageVolumeNameForIndex index =
     (if index = 0 then ''retained-data'' else ''retained-data-'' @ show_int (int index + 1))"

definition preferredSchedulingTerms :: "gomap list \<Rightarrow> int \<Rightarrow> node_term list" where
  "preferredSchedulingTerms selectors weight =
     filter (\<lambda>(_, requirements). requirements \<noteq> [])
       (map (\<lambda>selector. (weight, map (\<lambda>key. (placementLabelKey key, ''In'', [mget selector key])) (sort (map fst selector)))) selectors)"

fun join_with :: "string \<Rightarrow> string list \<Rightarrow> string" where
  "join_with d [] = []"
| "join_with d [s] = s"
| "join_with d (s # t) = s @ d @ join_with d t"

section \<open>Rendering a deployment\<close>

text \<open>The errors of rendering, each with the validation error it wraps, if any.\<close>

datatype render_err =
    Storage_invalid cfg_err | Hosting_invalid cfg_err | Pinned_selectors | Environment_invalid | Secret_revision_missing
  | Candidate_request_id | Candidate_needs_hosting | Candidate_needs_stateless | Candidate_config cfg_err | Candidate_reference srv_err
  | Candidate_identity

definition zero_probe :: probe where
  "zero_probe = \<lparr>pr_HTTPGet = None, pr_TimeoutSeconds = 0, pr_PeriodSeconds = 0, pr_SuccessThreshold = 0, pr_FailureThreshold = 0, pr_Other = []\<rparr>"

definition zero_container :: container where
  "zero_container = \<lparr>ct_Name = [], ct_Image = [], ct_Ports = [], ct_ReadinessProbe = None, ct_LivenessProbe = None, ct_StartupProbe = None,
     ct_VolumeMounts = [], ct_Resources = None, ct_SecurityContext = None, ct_EnvFrom = [], ct_Env = [], ct_ImagePullPolicy = [],
     ct_TerminationMessagePath = [], ct_TerminationMessagePolicy = [], ct_Other = []\<rparr>"

definition zero_pod :: pod_spec where
  "zero_pod = \<lparr>ps_Containers = [], ps_Volumes = [], ps_AutomountServiceAccountToken = None, ps_NodeSelector = [],
     ps_TopologySpreadConstraints = [], ps_Affinity = None, ps_ImagePullSecrets = [], ps_SecurityContext = None, ps_RestartPolicy = [],
     ps_DNSPolicy = [], ps_SchedulerName = [], ps_TerminationGracePeriodSeconds = None, ps_EnableServiceLinks = None, ps_Other = []\<rparr>"

definition zero_status :: deployment_status where
  "zero_status = \<lparr>st_ObservedGeneration = 0, st_Replicas = 0, st_UpdatedReplicas = 0, st_ReadyReplicas = 0, st_AvailableReplicas = 0,
     st_UnavailableReplicas = 0\<rparr>"

definition http_port :: "string \<Rightarrow> int \<Rightarrow> container_port" where
  "http_port name port = \<lparr>kp_Name = name, kp_ContainerPort = port, kp_Protocol = [], kp_Other = []\<rparr>"

definition workloadReplicas :: "config \<Rightarrow> int" where
  "workloadReplicas cfg = (let replicas = to_int32 (deploy_Replicas (cfg_Deploy cfg))
     in if resilience_Mode (cfg_Resilience cfg) = ''resilient'' \<and> replicas < 2 then 2 else replicas)"

definition podLabels :: "config \<Rightarrow> gomap" where
  "podLabels cfg =
     (let l = mput (mput (appLabels (cfg_Name cfg)) ''deployer.io/state-mode'' (state_Mode (cfg_State cfg)))
                ''deployer.io/resilience-mode'' (resilience_Mode (cfg_Resilience cfg))
      in case cfg_Hosting cfg of None \<Rightarrow> l | Some h \<Rightarrow> mput l ''deployer.io/hosting-profile'' (hosting_Version h))"

text \<open>The object before the optional parts are added.\<close>

definition base_workload :: "config \<Rightarrow> string \<Rightarrow> workload" where
  "base_workload cfg namespace =
     (let port = to_int32 (service_Port (cfg_Service cfg));
          c = zero_container\<lparr>ct_Name := cfg_Name cfg, ct_Image := cfg_Image cfg, ct_Ports := [http_port ''http'' port],
                ct_ReadinessProbe := Some (zero_probe\<lparr>pr_HTTPGet := Some (health_Path (service_Health (cfg_Service cfg)), IntPort port, [])\<rparr>)\<rparr>
      in \<lparr>wl_Name = cfg_Name cfg, wl_Namespace = namespace, wl_UID = [], wl_ResourceVersion = [], wl_Deleting = False, wl_Generation = 0,
          wl_Labels = managedAppLabels (cfg_Name cfg), wl_Annotations = [],
          wl_Spec = \<lparr>dp_Replicas = Some (workloadReplicas cfg),
             dp_Selector = Some \<lparr>ls_MatchLabels = appLabels (cfg_Name cfg), ls_MatchExpressions = []\<rparr>,
             dp_TemplateLabels = podLabels cfg, dp_TemplateAnnotations = [], dp_Pod = zero_pod\<lparr>ps_Containers := [c]\<rparr>, dp_Strategy = [],
             dp_RollingUpdate = None, dp_MinReadySeconds = 0, dp_RevisionHistoryLimit = None, dp_ProgressDeadlineSeconds = None, dp_SpecOther = []\<rparr>,
          wl_Status = zero_status\<rparr>)"

definition on_spec :: "(deployment_spec \<Rightarrow> deployment_spec) \<Rightarrow> workload \<Rightarrow> workload" where
  "on_spec f d = d\<lparr>wl_Spec := f (wl_Spec d)\<rparr>"

definition on_pod :: "(pod_spec \<Rightarrow> pod_spec) \<Rightarrow> workload \<Rightarrow> workload" where
  "on_pod f = on_spec (\<lambda>s. s\<lparr>dp_Pod := f (dp_Pod s)\<rparr>)"

text \<open>\<^verbatim>\<open>Containers[0]\<close>; the code has put one container there.\<close>

definition on_container :: "(container \<Rightarrow> container) \<Rightarrow> workload \<Rightarrow> workload" where
  "on_container f = on_pod (\<lambda>p. p\<lparr>ps_Containers := (case ps_Containers p of [] \<Rightarrow> [] | c # cs \<Rightarrow> f c # cs)\<rparr>)"

definition annotate_template :: "string \<Rightarrow> string \<Rightarrow> workload \<Rightarrow> workload" where
  "annotate_template k v = on_spec (\<lambda>s. s\<lparr>dp_TemplateAnnotations := mput (dp_TemplateAnnotations s) k v\<rparr>)"

definition with_storage :: "config \<Rightarrow> workload \<Rightarrow> workload" where
  "with_storage cfg d = (case cfg_Storage cfg of None \<Rightarrow> d
     | Some s \<Rightarrow>
         let mounts = Mounts s;
             names = map retainedStorageVolumeNameForIndex [0..<length mounts];
             volumes = zip names (map mount_ExistingClaim mounts);
             volumeMounts = zip names (map mount_MountPath mounts);
             d = d\<lparr>wl_Annotations := [(''deployer.io/retained-storage-claim'', storage_ExistingClaim s),
                   (''deployer.io/retained-storage-claims'', join_with '','' (map mount_ExistingClaim mounts))]\<rparr>;
             d = on_spec (\<lambda>sp. sp\<lparr>dp_Strategy := ''Recreate'', dp_RollingUpdate := None\<rparr>) d;
             d = on_pod (\<lambda>p. p\<lparr>ps_Volumes := volumes\<rparr>) d
         in on_container (\<lambda>c. c\<lparr>ct_VolumeMounts := volumeMounts\<rparr>) d)"

definition hosted_context :: "hosting_config \<Rightarrow> security_context" where
  "hosted_context h = \<lparr>sc_AllowPrivilegeEscalation = Some False, sc_RunAsNonRoot = Some True, sc_Drop = [''ALL''], sc_Seccomp = ''RuntimeDefault'',
     sc_ReadOnlyRootFilesystem = (if hosting_ReadOnlyRootFilesystem h then Some True else None), sc_Other = []\<rparr>"

definition with_hosting :: "k8s_lib \<Rightarrow> config \<Rightarrow> workload \<Rightarrow> render_err + workload" where
  "with_hosting lib cfg d = (case cfg_Hosting cfg of None \<Rightarrow> Inr d
     | Some h \<Rightarrow> rbind (map_err Hosting_invalid (ResourceRequirements lib (Some h))) (\<lambda>resources.
         let d = on_pod (\<lambda>p. p\<lparr>ps_AutomountServiceAccountToken := Some False\<rparr>) d
         in Inr (on_container (\<lambda>c. c\<lparr>ct_Resources := resources, ct_SecurityContext := Some (hosted_context h)\<rparr>) d)))"

definition with_metrics :: "config \<Rightarrow> workload \<Rightarrow> workload" where
  "with_metrics cfg d = (case cfg_Metrics cfg of None \<Rightarrow> d
     | Some m \<Rightarrow>
         let d = on_spec (\<lambda>s. s\<lparr>dp_TemplateAnnotations := [(''prometheus.io/scrape'', ''true''), (''prometheus.io/path'', metrics_Path m),
                   (''prometheus.io/port'', show_int (metrics_Port m))]\<rparr>) d
         in if metrics_Port m \<noteq> service_Port (cfg_Service cfg)
            then on_container (\<lambda>c. c\<lparr>ct_Ports := ct_Ports c @ [http_port ''metrics'' (to_int32 (metrics_Port m))]\<rparr>) d else d)"

definition with_placement :: "config \<Rightarrow> workload \<Rightarrow> render_err + workload" where
  "with_placement cfg d =
     (let arch = placementArchitecture (placement_Arch (cfg_Placement cfg));
          d = (if arch \<noteq> [] then on_pod (\<lambda>p. p\<lparr>ps_NodeSelector := [(''kubernetes.io/arch'', arch)]\<rparr>) d else d)
      in if resilience_Mode (cfg_Resilience cfg) = ''pinned''
         then (case placement_Prefer (cfg_Placement cfg) of
             [prefer] \<Rightarrow> Inr (on_pod (\<lambda>p. p\<lparr>ps_NodeSelector := fold (\<lambda>(k, v) m. mput m (placementLabelKey k) v) prefer (ps_NodeSelector p)\<rparr>) d)
           | _ \<Rightarrow> Inl Pinned_selectors)
         else Inr d)"

definition with_spread :: "config \<Rightarrow> workload \<Rightarrow> workload" where
  "with_spread cfg d =
     (let resilient = (resilience_Mode (cfg_Resilience cfg) = ''resilient'')
      in if placement_Spread (cfg_Placement cfg) \<or> resilient
         then on_pod (\<lambda>p. p\<lparr>ps_TopologySpreadConstraints := [\<lparr>ts_MaxSkew = 1, ts_TopologyKey = ''kubernetes.io/hostname'',
                ts_WhenUnsatisfiable = (if resilient then ''DoNotSchedule'' else ''ScheduleAnyway''),
                ts_LabelSelector = appLabels (cfg_Name cfg), ts_MatchLabelKeys = [''pod-template-hash'']\<rparr>]\<rparr>) d
         else d)"

definition with_resilience :: "config \<Rightarrow> workload \<Rightarrow> workload" where
  "with_resilience cfg d =
     (let d = (if resilience_Mode (cfg_Resilience cfg) = ''resilient''
               then on_pod (\<lambda>p. p\<lparr>ps_Affinity := Some \<lparr>af_Node = None, af_PodAnti = Some \<lparr>pa_Preferred =
                        [(100, \<lparr>at_LabelSelector = appLabels (cfg_Name cfg), at_TopologyKey = ''kubernetes.io/hostname''\<rparr>)], pa_Required = []\<rparr>\<rparr>\<rparr>)
                      (on_spec (\<lambda>s. s\<lparr>dp_MinReadySeconds := 10, dp_Strategy := ''RollingUpdate'', dp_RollingUpdate := Some (IntPort 0, IntPort 1)\<rparr>) d)
               else d)
      in if resilience_Mode (cfg_Resilience cfg) = ''fallback''
         then on_pod (\<lambda>p. p\<lparr>ps_Affinity := Some \<lparr>af_Node = Some (preferredSchedulingTerms (placement_Prefer (cfg_Placement cfg)) 100
                @ preferredSchedulingTerms (placement_Fallback (cfg_Placement cfg)) 50), af_PodAnti = None\<rparr>\<rparr>) d
         else d)"

definition with_environment :: "(string \<Rightarrow> nat list) \<Rightarrow> config \<Rightarrow> string \<Rightarrow> workload \<Rightarrow> render_err + workload" where
  "with_environment sha256 cfg secretRevision d =
     (let revision = cfg_EnvironmentRevision cfg
      in if revision = [] then Inr d
         else if \<not> ValidRevision revision \<or> secretRevision \<noteq> revision \<or> length (cfg_Secrets cfg) > 0 then Inl Environment_invalid
         else Inr (on_container (\<lambda>c. c\<lparr>ct_EnvFrom := ct_EnvFrom c @ [environmentSecretName sha256 (cfg_Name cfg) revision]\<rparr>)
                (annotate_template ''deployer.io/secret-hash'' revision d)))"

definition with_secrets :: "config \<Rightarrow> string \<Rightarrow> workload \<Rightarrow> render_err + workload" where
  "with_secrets cfg secretRevision d =
     (if length (cfg_Secrets cfg) > 0
      then if TrimSpace secretRevision = [] then Inl Secret_revision_missing
           else Inr (on_container (\<lambda>c. c\<lparr>ct_Env := ct_Env c @
                  map (\<lambda>name. \<lparr>env_Name = name, env_Value = [], env_SecretKeyRef = Some (cfg_Name cfg, name)\<rparr>) (cfg_Secrets cfg)\<rparr>)
                (annotate_template ''deployer.io/secret-hash'' secretRevision d))
      else Inr d)"

definition plain_env :: "string \<Rightarrow> string \<Rightarrow> env_var" where
  "plain_env name v = \<lparr>env_Name = name, env_Value = v, env_SecretKeyRef = None\<rparr>"

definition with_database :: "config \<Rightarrow> workload \<Rightarrow> workload" where
  "with_database cfg d = (case database_Postgres (cfg_Database cfg) of None \<Rightarrow> d
     | Some p \<Rightarrow>
         if pg_ConnectionMode p = ''managed''
         then on_container (\<lambda>c. c\<lparr>ct_Env := ct_Env c @
                [\<lparr>env_Name = pg_ConnectionEnv p, env_Value = [], env_SecretKeyRef = Some (cfg_Name cfg @ ''-db-app'', ''uri'')\<rparr>,
                 plain_env ''PGSSLMODE'' ''require'', plain_env ''PGCHANNELBINDING'' ''require'', plain_env ''PGREQUIREAUTH'' ''scram-sha-256'']\<rparr>) d
         else d)"

definition deploymentForApp :: "k8s_lib \<Rightarrow> (string \<Rightarrow> nat list) \<Rightarrow> config \<Rightarrow> string \<Rightarrow> string \<Rightarrow> render_err + workload" where
  "deploymentForApp lib sha256 cfg0 namespace secretRevision =
     (let cfg = Normalize cfg0
      in rbind (if cfg_Storage cfg \<noteq> None then map_err Storage_invalid (Validate lib cfg) else Inr ()) (\<lambda>_.
         rbind (if cfg_Hosting cfg \<noteq> None then map_err Hosting_invalid (hosting_Validate lib (cfg_Hosting cfg) (hostingReplicas cfg)) else Inr ()) (\<lambda>_.
         rbind (with_hosting lib cfg (with_storage cfg (base_workload cfg namespace))) (\<lambda>d.
         rbind (with_placement cfg (with_metrics cfg d)) (\<lambda>d.
         rbind (with_environment sha256 cfg secretRevision (with_resilience cfg (with_spread cfg d))) (\<lambda>d.
         rbind (with_secrets cfg secretRevision d) (\<lambda>d.
         Inr (with_database cfg d))))))))"

section \<open>The isolated candidate\<close>

definition candidate_labels :: "string \<Rightarrow> string \<Rightarrow> gomap" where
  "candidate_labels app generation = [(''deployer.io/app'', app), (''deployer.io/candidate-generation'', generation)]"

definition isolate_affinity :: "gomap \<Rightarrow> affinity \<Rightarrow> affinity" where
  "isolate_affinity selector a = (case af_PodAnti a of None \<Rightarrow> a
     | Some p \<Rightarrow> a\<lparr>af_PodAnti := Some (p\<lparr>pa_Preferred := map (\<lambda>(w, t). (w, t\<lparr>at_LabelSelector := selector\<rparr>)) (pa_Preferred p),
         pa_Required := map (\<lambda>t. t\<lparr>at_LabelSelector := selector\<rparr>) (pa_Required p)\<rparr>)\<rparr>)"

text \<open>The hosting profile is set where this is called; its absence would be a nil dereference.\<close>

definition isolate_candidate :: "config \<Rightarrow> hosting_config \<Rightarrow> string \<Rightarrow> string \<Rightarrow> workload \<Rightarrow> workload" where
  "isolate_candidate cfg h generation registrySecret d =
     (let selector = candidate_labels (cfg_Name cfg) generation;
          d = d\<lparr>wl_Name := candidateNameForGeneration (cfg_Name cfg) generation,
                wl_Labels := mput (wl_Labels d) ''deployer.io/candidate-generation'' generation\<rparr>;
          d = on_pod (\<lambda>p. p\<lparr>ps_ImagePullSecrets := (if registrySecret \<noteq> [] then [registrySecret] else ps_ImagePullSecrets p)\<rparr>) d;
          d = on_spec (\<lambda>s. s\<lparr>dp_Selector := Some \<lparr>ls_MatchLabels = selector, ls_MatchExpressions = []\<rparr>,
                dp_TemplateLabels := selector @ [(''deployer.io/state-mode'', state_Mode (cfg_State cfg)),
                  (''deployer.io/resilience-mode'', resilience_Mode (cfg_Resilience cfg)), (''deployer.io/hosting-profile'', hosting_Version h)]\<rparr>) d
      in on_pod (\<lambda>p. p\<lparr>ps_TopologySpreadConstraints := map (\<lambda>t. t\<lparr>ts_LabelSelector := selector\<rparr>) (ps_TopologySpreadConstraints p),
           ps_Affinity := map_option (isolate_affinity selector) (ps_Affinity p)\<rparr>) d)"

definition candidateDeploymentForGeneration ::
    "k8s_lib \<Rightarrow> (string \<Rightarrow> nat list) \<Rightarrow> config \<Rightarrow> hosting_config \<Rightarrow> string \<Rightarrow> string \<Rightarrow> string \<Rightarrow> string \<Rightarrow> render_err + workload" where
  "candidateDeploymentForGeneration lib sha256 cfg h namespace secretRevision generation registrySecret =
     rbind (deploymentForApp lib sha256 cfg namespace secretRevision) (\<lambda>d. Inr (isolate_candidate cfg h generation registrySecret d))"

definition CandidateDeploymentForApp ::
    "k8s_lib \<Rightarrow> (string \<Rightarrow> nat list) \<Rightarrow> config \<Rightarrow> string \<Rightarrow> string \<Rightarrow> string \<Rightarrow> string \<Rightarrow> render_err + workload" where
  "CandidateDeploymentForApp lib sha256 cfg namespace secretRevision requestID registrySecret =
     (if TrimSpace requestID = [] \<or> \<not> ValidRevision requestID then Inl Candidate_request_id
      else case cfg_Hosting cfg of None \<Rightarrow> Inl Candidate_needs_hosting
      | Some h \<Rightarrow>
          if state_Mode (cfg_State cfg) \<noteq> ''stateless'' then Inl Candidate_needs_stateless
          else rbind (map_err Candidate_config (Validate lib cfg)) (\<lambda>_.
               rbind (map_err Candidate_reference (ValidateCandidateReferences sha256 cfg secretRevision registrySecret)) (\<lambda>_.
               candidateDeploymentForGeneration lib sha256 cfg h namespace secretRevision
                 (candidateGeneration sha256 (cfg_Name cfg) requestID) registrySecret)))"

section \<open>Services\<close>

definition serviceForApp :: "config \<Rightarrow> string \<Rightarrow> service" where
  "serviceForApp cfg0 namespace =
     (let cfg = Normalize cfg0; port = to_int32 (service_Port (cfg_Service cfg))
      in \<lparr>svc_Name = cfg_Name cfg, svc_Namespace = namespace, svc_UID = [], svc_ResourceVersion = [], svc_Deleting = False,
          svc_Labels = managedAppLabels (cfg_Name cfg),
          svc_Annotations = (if TrimSpace (routing_Domain (cfg_Routing cfg)) \<noteq> []
            then [(''traefik.ingress.kubernetes.io/service.serverstransport'', traefikResourceReference namespace (cfg_Name cfg))] else []),
          svc_Selector = appLabels (cfg_Name cfg),
          svc_Ports = [\<lparr>sp_Name = ''http'', sp_Protocol = [], sp_Port = port, sp_TargetPort = IntPort port, sp_Other = []\<rparr>],
          svc_Type = ''ClusterIP'', svc_Other = []\<rparr>)"

definition candidateServiceForApp :: "config \<Rightarrow> string \<Rightarrow> service" where
  "candidateServiceForApp cfg namespace =
     (let s = serviceForApp cfg namespace in s\<lparr>svc_Ports := map (\<lambda>p. p\<lparr>sp_Protocol := ''TCP''\<rparr>) (svc_Ports s)\<rparr>)"

text \<open>The selector of a service that selects no candidate yet.\<close>

definition inactive_selector :: "(string \<Rightarrow> nat list) \<Rightarrow> string \<Rightarrow> string \<Rightarrow> gomap" where
  "inactive_selector sha256 app rid = candidate_labels app (''inactive-'' @ candidateGeneration sha256 app rid)"

section \<open>Network policies\<close>

type_synonym policy_port = "string option \<times> int_or_string option"

record policy_peer =
  peer_NamespaceSelector :: "gomap option"
  peer_PodSelector :: "gomap option"
  peer_CIDR :: "string option"

type_synonym policy_rule = "policy_peer list \<times> policy_port list"

record network_policy =
  np_Name :: string
  np_Namespace :: string
  np_Deleting :: bool
  np_Labels :: gomap
  np_Annotations :: gomap
  np_PodSelector :: gomap
  np_PolicyTypes :: "string list"
  np_Ingress :: "policy_rule list"
  np_Egress :: "policy_rule list"
  np_Other :: string

definition peer_of :: "gomap option \<Rightarrow> gomap option \<Rightarrow> policy_peer" where
  "peer_of n p = \<lparr>peer_NamespaceSelector = n, peer_PodSelector = p, peer_CIDR = None\<rparr>"

definition cidr_peer :: "string \<Rightarrow> policy_peer" where
  "cidr_peer c = \<lparr>peer_NamespaceSelector = None, peer_PodSelector = None, peer_CIDR = Some c\<rparr>"

definition tcp_port :: "int \<Rightarrow> policy_port" where
  "tcp_port n = (Some ''TCP'', Some (IntPort n))"

definition dns_rule :: policy_rule where
  "dns_rule = ([peer_of (Some [(''kubernetes.io/metadata.name'', ''kube-system'')]) (Some [(''k8s-app'', ''kube-dns'')])],
     [(Some ''UDP'', Some (IntPort 53)), tcp_port 53])"

definition egress_of :: "egress_rule \<Rightarrow> policy_rule" where
  "egress_of rule = ([cidr_peer (egress_CIDR rule)],
     map (\<lambda>port. tcp_port (to_int32 port)) (case egress_Ports rule of None \<Rightarrow> [] | Some ports \<Rightarrow> ports))"

definition networkPolicyForHostedApp :: "config \<Rightarrow> string \<Rightarrow> network_policy option" where
  "networkPolicyForHostedApp cfg namespace = (case cfg_Hosting cfg of None \<Rightarrow> None
     | Some h \<Rightarrow>
         let namespace = (if TrimSpace namespace = [] then ''deployer-apps'' else namespace);
             port = tcp_port (to_int32 (service_Port (cfg_Service cfg)));
             ingress = [([peer_of (Some [(''kubernetes.io/metadata.name'', ''kube-system'')]) (Some [(''app.kubernetes.io/name'', ''traefik'')])], [port]),
                        ([peer_of None (Some [(''deployer.io/service-monitor-for'', cfg_Name cfg)])], [port])]
               @ (case cfg_Metrics cfg of None \<Rightarrow> []
                  | Some m \<Rightarrow> [([peer_of (Some [(''kubernetes.io/metadata.name'', ''deployer-monitoring'')]) None], [tcp_port (to_int32 (metrics_Port m))])]);
             egress = (if DNSAllowed (hosting_Network h) then [dns_rule] else []) @ map egress_of (network_Egress (hosting_Network h))
         in Some \<lparr>np_Name = cfg_Name cfg, np_Namespace = namespace, np_Deleting = False,
              np_Labels = mput (managedAppLabels (cfg_Name cfg)) ''deployer.io/hosting-profile'' (hosting_Version h), np_Annotations = [],
              np_PodSelector = mput (appLabels (cfg_Name cfg)) ''deployer.io/hosting-profile'' (hosting_Version h),
              np_PolicyTypes = [''Ingress'', ''Egress''], np_Ingress = ingress, np_Egress = egress, np_Other = []\<rparr>)"

text \<open>Called for hosted configurations only; without a policy the code would dereference nil.\<close>

definition candidateNetworkPolicyForApp :: "(string \<Rightarrow> nat list) \<Rightarrow> config \<Rightarrow> hosting_config \<Rightarrow> network_policy \<Rightarrow> string \<Rightarrow> render_err + network_policy" where
  "candidateNetworkPolicyForApp sha256 cfg h policy requestID =
     (case CandidateSelector sha256 (cfg_Name cfg) requestID of None \<Rightarrow> Inl Candidate_identity
      | Some selector \<Rightarrow>
          Inr (policy\<lparr>np_Name := candidateDeploymentName sha256 (cfg_Name cfg) requestID,
            np_Labels := mput (np_Labels policy) ''deployer.io/candidate-generation'' (candidateGeneration sha256 (cfg_Name cfg) requestID),
            np_PodSelector := mput selector ''deployer.io/hosting-profile'' (hosting_Version h)\<rparr>))"

section \<open>What is rendered\<close>

text \<open>The parts of a deployment that decide whom it serves and what its container may do.\<close>

definition ct_core :: "container \<Rightarrow> string \<times> string \<times> security_context option \<times> ((rat \<times> rat \<times> rat) \<times> (rat \<times> rat \<times> rat)) option" where
  "ct_core c = (ct_Name c, ct_Image c, ct_SecurityContext c, ct_Resources c)"

definition wl_core where
  "wl_core d = (wl_Name d, wl_Namespace d, wl_Labels d, dp_Replicas (wl_Spec d), dp_Selector (wl_Spec d), dp_TemplateLabels (wl_Spec d),
     ps_AutomountServiceAccountToken (dp_Pod (wl_Spec d)), ps_ImagePullSecrets (dp_Pod (wl_Spec d)), map ct_core (ps_Containers (dp_Pod (wl_Spec d))))"

lemma on_simps [simp]:
  "wl_Spec (on_spec f d) = f (wl_Spec d)" "wl_Name (on_spec f d) = wl_Name d" "wl_Labels (on_spec f d) = wl_Labels d"
  "wl_Annotations (on_spec f d) = wl_Annotations d" "wl_Namespace (on_spec f d) = wl_Namespace d"
  "wl_UID (on_spec f d) = wl_UID d" "wl_ResourceVersion (on_spec f d) = wl_ResourceVersion d"
  by (simp_all add: on_spec_def)

lemmas on_defs = on_pod_def on_container_def annotate_template_def

text \<open>Only the hosting profile touches the core.\<close>

lemma core_stages:
  "wl_core (with_storage cfg d) = wl_core d" "wl_core (with_metrics cfg d) = wl_core d" "wl_core (with_spread cfg d) = wl_core d"
  "wl_core (with_resilience cfg d) = wl_core d" "wl_core (with_database cfg d) = wl_core d"
  by (auto simp: with_storage_def with_metrics_def with_spread_def with_resilience_def with_database_def on_defs wl_core_def ct_core_def Let_def
      split: option.splits list.splits)

lemma core_results:
  "with_placement cfg d = Inr d' \<Longrightarrow> wl_core d' = wl_core d" "with_environment sha cfg r d = Inr d' \<Longrightarrow> wl_core d' = wl_core d"
  "with_secrets cfg r d = Inr d' \<Longrightarrow> wl_core d' = wl_core d"
  by (auto simp: with_placement_def with_environment_def with_secrets_def on_defs wl_core_def ct_core_def Let_def
      split: option.splits list.splits if_splits)

lemma annotation_stages:
  "wl_Annotations (with_metrics cfg d) = wl_Annotations d" "wl_Annotations (with_spread cfg d) = wl_Annotations d"
  "wl_Annotations (with_resilience cfg d) = wl_Annotations d" "wl_Annotations (with_database cfg d) = wl_Annotations d"
  by (auto simp: with_metrics_def with_spread_def with_resilience_def with_database_def on_defs Let_def split: option.splits)

lemma annotation_results:
  "with_hosting lib cfg d = Inr d' \<Longrightarrow> wl_Annotations d' = wl_Annotations d"
  "with_placement cfg d = Inr d' \<Longrightarrow> wl_Annotations d' = wl_Annotations d" "with_environment sha cfg r d = Inr d' \<Longrightarrow> wl_Annotations d' = wl_Annotations d"
  "with_secrets cfg r d = Inr d' \<Longrightarrow> wl_Annotations d' = wl_Annotations d"
  by (auto simp: with_hosting_def with_placement_def with_environment_def with_secrets_def on_defs res_simps Let_def
      split: option.splits list.splits if_splits)

lemma deploymentForApp_parts:
  assumes "deploymentForApp lib sha256 cfg namespace revision = Inr d"
  shows "\<exists>d1. with_hosting lib (Normalize cfg) (with_storage (Normalize cfg) (base_workload (Normalize cfg) namespace)) = Inr d1 \<and>
     wl_core d = wl_core d1 \<and> wl_Annotations d = wl_Annotations d1"
  using assms by (fastforce simp: deploymentForApp_def Let_def res_simps core_stages annotation_stages dest: core_results annotation_results split: if_splits)

lemma base_core:
  "wl_core (base_workload cfg namespace) = (cfg_Name cfg, namespace, managedAppLabels (cfg_Name cfg), Some (workloadReplicas cfg),
     Some \<lparr>ls_MatchLabels = appLabels (cfg_Name cfg), ls_MatchExpressions = []\<rparr>, podLabels cfg, None, [], [(cfg_Name cfg, cfg_Image cfg, None, None)])"
  by (simp add: base_workload_def wl_core_def ct_core_def Let_def zero_pod_def zero_container_def)

text \<open>The deployment of a hosted app runs one container, that of the configuration, with the hardened context and bounded resources.\<close>

lemma deploymentForApp_hosted:
  assumes "deploymentForApp lib sha256 cfg namespace revision = Inr d" and "cfg_Hosting (Normalize cfg) = Some h"
  shows "\<exists>resources. ResourceRequirements lib (Some h) = Inr resources \<and>
     wl_core d = (cfg_Name (Normalize cfg), namespace, managedAppLabels (cfg_Name (Normalize cfg)), Some (workloadReplicas (Normalize cfg)),
       Some \<lparr>ls_MatchLabels = appLabels (cfg_Name (Normalize cfg)), ls_MatchExpressions = []\<rparr>, podLabels (Normalize cfg), Some False, [],
       [(cfg_Name (Normalize cfg), cfg_Image (Normalize cfg), Some (hosted_context h), resources)])"
proof -
  obtain d1 where d1: "with_hosting lib (Normalize cfg) (with_storage (Normalize cfg) (base_workload (Normalize cfg) namespace)) = Inr d1" "wl_core d = wl_core d1"
    using deploymentForApp_parts [OF assms(1)] by blast
  have "wl_core (with_storage (Normalize cfg) (base_workload (Normalize cfg) namespace)) = wl_core (base_workload (Normalize cfg) namespace)"
    by (rule core_stages)
  then show ?thesis
    using d1 assms(2) unfolding base_core
    by (auto simp: with_hosting_def res_simps on_defs wl_core_def ct_core_def Let_def)
qed

lemma rendered_annotations:
  assumes "deploymentForApp lib sha256 cfg namespace revision = Inr d"
  shows "fst ` set (wl_Annotations d) \<subseteq> {''deployer.io/retained-storage-claim'', ''deployer.io/retained-storage-claims''}"
proof -
  obtain d1 where d1: "with_hosting lib (Normalize cfg) (with_storage (Normalize cfg) (base_workload (Normalize cfg) namespace)) = Inr d1"
      "wl_Annotations d = wl_Annotations d1"
    using deploymentForApp_parts [OF assms] by blast
  then show ?thesis using annotation_results(1) [OF d1(1)]
    by (auto simp: with_storage_def base_workload_def Let_def on_defs split: option.splits)
qed

text \<open>A valid configuration is always rendered when the revision of its secrets is given.\<close>

lemma Validate_facts:
  assumes "Validate lib c = Inr ()"
  shows "resilience_Mode (cfg_Resilience c) = ''pinned'' \<Longrightarrow> length (placement_Prefer (cfg_Placement c)) = 1"
    and "cfg_EnvironmentRevision c \<noteq> [] \<Longrightarrow> ValidRevision (cfg_EnvironmentRevision c) \<and> cfg_Secrets c = []"
  using assms by (auto simp: Validate_def res_simps split: if_splits)

lemma deploymentForApp_total:
  assumes valid: "Validate lib (Normalize cfg) = Inr ()"
    and env: "cfg_EnvironmentRevision (Normalize cfg) \<noteq> [] \<Longrightarrow> revision = cfg_EnvironmentRevision (Normalize cfg)"
    and secrets: "cfg_Secrets (Normalize cfg) \<noteq> [] \<Longrightarrow> TrimSpace revision \<noteq> []"
  shows "\<exists>d. deploymentForApp lib sha256 cfg namespace revision = Inr d"
proof -
  let ?c = "Normalize cfg"
  have hosting: "\<exists>d'. with_hosting lib ?c d = Inr d'" for d
    using Validate_hosting [OF valid] hosting_Validate_ok(5)
    by (cases "cfg_Hosting ?c") (fastforce simp: with_hosting_def Let_def)+
  have placement: "\<exists>d'. with_placement ?c d = Inr d'" for d
    using Validate_facts(1) [OF valid] by (auto simp: with_placement_def Let_def length_Suc_conv split: list.splits)
  have environment: "\<exists>d'. with_environment sha256 ?c revision d = Inr d'" for d
    using Validate_facts(2) [OF valid] env by (auto simp: with_environment_def Let_def)
  have sec: "\<exists>d'. with_secrets ?c revision d = Inr d'" for d using secrets by (auto simp: with_secrets_def)
  show ?thesis
    using valid Validate_hosting [OF valid] hosting placement environment sec
    unfolding deploymentForApp_def Let_def by (auto simp: rbind_def split: sum.splits) (metis sum.simps(4) Inl_Inr_False)+
qed

section \<open>Isolation of candidates\<close>

lemma inactive_not_generation: "''inactive-'' @ g \<noteq> candidateGeneration sha256 app rid"
proof -
  have digit: "hex_char (b mod 16) \<noteq> CHR ''n''" for b
  proof -
    have "hex_val (hex_char (b mod 16)) = Some (b mod 16)" by (rule hex_val_hex_char) simp
    moreover have "hex_val CHR ''n'' = None" by code_simp
    ultimately show ?thesis by (metis option.distinct(1))
  qed
  show ?thesis
  proof (cases "sha256 (app @ [CHR 0x00] @ rid)")
    case (Cons b bs)
    then obtain x rest where "candidateGeneration sha256 app rid = x # hex_char (b mod 16) # rest"
      by (simp add: candidateGeneration_def sha_hex_def hex_encode_def take_Cons')
    then show ?thesis using digit [of b] by auto
  qed (simp add: candidateGeneration_def sha_hex_def hex_encode_def)
qed

lemma candidateDeployment_core:
  assumes "candidateDeploymentForGeneration lib sha256 cfg h namespace revision generation registry = Inr d"
  shows "\<exists>d0. deploymentForApp lib sha256 cfg namespace revision = Inr d0 \<and> wl_Annotations d = wl_Annotations d0 \<and>
     wl_Name d = candidateNameForGeneration (cfg_Name cfg) generation \<and> wl_Namespace d = wl_Namespace d0 \<and>
     wl_Labels d = mput (wl_Labels d0) ''deployer.io/candidate-generation'' generation \<and>
     dp_Replicas (wl_Spec d) = dp_Replicas (wl_Spec d0) \<and>
     dp_Selector (wl_Spec d) = Some \<lparr>ls_MatchLabels = candidate_labels (cfg_Name cfg) generation, ls_MatchExpressions = []\<rparr> \<and>
     dp_TemplateLabels (wl_Spec d) = candidate_labels (cfg_Name cfg) generation @ [(''deployer.io/state-mode'', state_Mode (cfg_State cfg)),
       (''deployer.io/resilience-mode'', resilience_Mode (cfg_Resilience cfg)), (''deployer.io/hosting-profile'', hosting_Version h)] \<and>
     ps_AutomountServiceAccountToken (dp_Pod (wl_Spec d)) = ps_AutomountServiceAccountToken (dp_Pod (wl_Spec d0)) \<and>
     ps_Containers (dp_Pod (wl_Spec d)) = ps_Containers (dp_Pod (wl_Spec d0)) \<and>
     ps_Other (dp_Pod (wl_Spec d)) = ps_Other (dp_Pod (wl_Spec d0))"
proof -
  obtain d0 where d0: "deploymentForApp lib sha256 cfg namespace revision = Inr d0" "d = isolate_candidate cfg h generation registry d0"
    using assms by (auto simp: candidateDeploymentForGeneration_def res_simps)
  show ?thesis
    by (intro exI [of _ d0] conjI d0(1)) (simp_all add: d0(2) isolate_candidate_def Let_def on_defs)
qed

lemma CandidateDeploymentForApp_ok:
  assumes "CandidateDeploymentForApp lib sha256 cfg namespace revision rid registry = Inr d"
  shows "\<exists>h. cfg_Hosting cfg = Some h \<and> ValidRevision rid \<and> state_Mode (cfg_State cfg) = ''stateless'' \<and> Validate lib cfg = Inr () \<and>
     ValidateCandidateReferences sha256 cfg revision registry = Inr () \<and>
     candidateDeploymentForGeneration lib sha256 cfg h namespace revision (candidateGeneration sha256 (cfg_Name cfg) rid) registry = Inr d"
  using assms by (auto simp: CandidateDeploymentForApp_def res_simps split: if_splits option.splits)

text \<open>
  Pods of a candidate are selected by its own selector, and by no service of an app that was deployed
  in the ordinary way, no other generation's service and no inactive service.
\<close>

lemma candidate_pods_isolated:
  assumes "candidateDeploymentForGeneration lib sha256 cfg h namespace revision generation registry = Inr d"
  shows "sel_matches (candidate_labels (cfg_Name cfg) generation) (dp_TemplateLabels (wl_Spec d))"
    and "\<not> sel_matches (appLabels app) (dp_TemplateLabels (wl_Spec d))"
    and "sel_matches (candidate_labels app g) (dp_TemplateLabels (wl_Spec d)) \<Longrightarrow> app = cfg_Name cfg \<and> g = generation"
  using candidateDeployment_core [OF assms] by (auto simp: sel_matches_def candidate_labels_def appLabels_def)

lemma candidate_policy_selects:
  assumes "networkPolicyForHostedApp cfg namespace = Some policy" and "cfg_Hosting cfg = Some h"
    and "candidateNetworkPolicyForApp sha256 cfg h policy rid = Inr p"
    and "candidateDeploymentForGeneration lib sha256 cfg h namespace revision (candidateGeneration sha256 (cfg_Name cfg) rid) registry = Inr d"
  shows "sel_matches (np_PodSelector p) (dp_TemplateLabels (wl_Spec d))"
    and "set (np_Egress p) \<subseteq> (if DNSAllowed (hosting_Network h) then {dns_rule} else {}) \<union> egress_of ` set (network_Egress (hosting_Network h))"
    and "np_PolicyTypes p = [''Ingress'', ''Egress'']"
  using assms candidateDeployment_core [OF assms(4)]
  by (auto simp: candidateNetworkPolicyForApp_def networkPolicyForHostedApp_def CandidateSelector_def sel_matches_def candidate_labels_def Let_def
      split: option.splits if_splits)

end
