(* ===== verification/Workload_Match.thy ===== *)
theory Workload_Match
  imports Workload
begin

text \<open>
  \<^verbatim>\<open>internal/ingress/candidate_compare.go\<close>: the comparison of an installed candidate with the rendered one,
  after the defaults that the API server fills in are applied to both. The lemmas show that it is an
  equivalence, that defaulting is invisible to it, and that what it does not default must be equal.
\<close>

section \<open>Defaults\<close>

definition default_to :: "'a \<Rightarrow> 'a \<Rightarrow> 'a \<Rightarrow> 'a" where
  "default_to zero d x = (if x = zero then d else x)"

definition default_opt :: "'a \<Rightarrow> 'a option \<Rightarrow> 'a option" where
  "default_opt d x = (case x of None \<Rightarrow> Some d | Some y \<Rightarrow> Some y)"

text \<open>\<^verbatim>\<open>strings.LastIndexByte\<close> with the parts before and after.\<close>

definition last_cut :: "char \<Rightarrow> string \<Rightarrow> (string \<times> string) option" where
  "last_cut ch s = (if ch \<in> set s
     then Some (rev (tl (dropWhile (\<lambda>c. c \<noteq> ch) (rev s))), rev (takeWhile (\<lambda>c. c \<noteq> ch) (rev s))) else None)"

definition defaultImagePullPolicy :: "string \<Rightarrow> string" where
  "defaultImagePullPolicy img =
     (let (digest, last) = (case last_cut CHR ''@'' img of None \<Rightarrow> (False, img) | Some (l, _) \<Rightarrow> (True, l));
          tag = (case last_cut CHR '':'' last of None \<Rightarrow> [] | Some (_, t) \<Rightarrow> if CHR ''/'' \<in> set t then [] else t)
      in if (\<not> digest \<and> tag = []) \<or> tag = ''latest'' then ''Always'' else ''IfNotPresent'')"

definition normalizeCandidateProbe :: "probe \<Rightarrow> probe" where
  "normalizeCandidateProbe p = p\<lparr>
     pr_TimeoutSeconds := default_to 0 1 (pr_TimeoutSeconds p),
     pr_PeriodSeconds := default_to 0 10 (pr_PeriodSeconds p),
     pr_SuccessThreshold := default_to 0 1 (pr_SuccessThreshold p),
     pr_FailureThreshold := default_to 0 3 (pr_FailureThreshold p),
     pr_HTTPGet := map_option (\<lambda>(path, port, scheme). (path, port, default_to [] ''HTTP'' scheme)) (pr_HTTPGet p)\<rparr>"

definition normalize_container :: "container \<Rightarrow> container" where
  "normalize_container c = c\<lparr>
     ct_ImagePullPolicy := default_to [] (defaultImagePullPolicy (ct_Image c)) (ct_ImagePullPolicy c),
     ct_TerminationMessagePath := default_to [] ''/dev/termination-log'' (ct_TerminationMessagePath c),
     ct_TerminationMessagePolicy := default_to [] ''File'' (ct_TerminationMessagePolicy c),
     ct_Ports := map (\<lambda>p. p\<lparr>kp_Protocol := default_to [] ''TCP'' (kp_Protocol p)\<rparr>) (ct_Ports c),
     ct_ReadinessProbe := map_option normalizeCandidateProbe (ct_ReadinessProbe c),
     ct_LivenessProbe := map_option normalizeCandidateProbe (ct_LivenessProbe c),
     ct_StartupProbe := map_option normalizeCandidateProbe (ct_StartupProbe c)\<rparr>"

definition normalizeCandidatePodSpec :: "pod_spec \<Rightarrow> pod_spec" where
  "normalizeCandidatePodSpec p = p\<lparr>
     ps_SecurityContext := default_opt [] (ps_SecurityContext p),
     ps_RestartPolicy := default_to [] ''Always'' (ps_RestartPolicy p),
     ps_DNSPolicy := default_to [] ''ClusterFirst'' (ps_DNSPolicy p),
     ps_SchedulerName := default_to [] ''default-scheduler'' (ps_SchedulerName p),
     ps_TerminationGracePeriodSeconds := default_opt 30 (ps_TerminationGracePeriodSeconds p),
     ps_EnableServiceLinks := default_opt True (ps_EnableServiceLinks p),
     ps_Containers := map normalize_container (ps_Containers p)\<rparr>"

definition normalize_spec :: "deployment_spec \<Rightarrow> deployment_spec" where
  "normalize_spec s =
     (let strategy = default_to [] ''RollingUpdate'' (dp_Strategy s)
      in s\<lparr>dp_Replicas := default_opt 1 (dp_Replicas s),
           dp_RevisionHistoryLimit := default_opt 10 (dp_RevisionHistoryLimit s),
           dp_ProgressDeadlineSeconds := default_opt 600 (dp_ProgressDeadlineSeconds s),
           dp_Strategy := strategy,
           dp_RollingUpdate := (if strategy = ''RollingUpdate''
             then default_opt (StrPort ''25%'', StrPort ''25%'') (dp_RollingUpdate s) else dp_RollingUpdate s),
           dp_Pod := normalizeCandidatePodSpec (dp_Pod s)\<rparr>)"

definition normalizeCandidateDeployment :: "workload \<Rightarrow> workload" where
  "normalizeCandidateDeployment d = d\<lparr>wl_Spec := normalize_spec (wl_Spec d),
     wl_Annotations := filter (\<lambda>(k, _). k \<noteq> ''deployment.kubernetes.io/revision'') (wl_Annotations d)\<rparr>"

section \<open>Comparison\<close>

text \<open>
  \<^verbatim>\<open>apiequality.Semantic.DeepEqual\<close>: equal up to the order of map entries. Maps have distinct keys, so
  sorting them makes that equality of records.
\<close>

definition canon_term :: "affinity_term \<Rightarrow> affinity_term" where
  "canon_term t = t\<lparr>at_LabelSelector := canon_map (at_LabelSelector t)\<rparr>"

definition canon_affinity :: "affinity \<Rightarrow> affinity" where
  "canon_affinity a = a\<lparr>af_PodAnti := map_option (\<lambda>p. p\<lparr>pa_Preferred := map (\<lambda>(w, t). (w, canon_term t)) (pa_Preferred p),
     pa_Required := map canon_term (pa_Required p)\<rparr>) (af_PodAnti a)\<rparr>"

definition canon_pod :: "pod_spec \<Rightarrow> pod_spec" where
  "canon_pod p = p\<lparr>ps_NodeSelector := canon_map (ps_NodeSelector p),
     ps_TopologySpreadConstraints := map (\<lambda>t. t\<lparr>ts_LabelSelector := canon_map (ts_LabelSelector t)\<rparr>) (ps_TopologySpreadConstraints p),
     ps_Affinity := map_option canon_affinity (ps_Affinity p)\<rparr>"

definition canon_spec :: "deployment_spec \<Rightarrow> deployment_spec" where
  "canon_spec s = s\<lparr>dp_Selector := map_option (\<lambda>l. l\<lparr>ls_MatchLabels := canon_map (ls_MatchLabels l)\<rparr>) (dp_Selector s),
     dp_TemplateLabels := canon_map (dp_TemplateLabels s), dp_TemplateAnnotations := canon_map (dp_TemplateAnnotations s),
     dp_Pod := canon_pod (dp_Pod s)\<rparr>"

definition candidateDeploymentMatches :: "workload \<Rightarrow> workload \<Rightarrow> bool" where
  "candidateDeploymentMatches existing desired \<longleftrightarrow>
     dp_Selector (wl_Spec existing) \<noteq> None \<and> dp_Selector (wl_Spec desired) \<noteq> None \<and>
     (let a = normalizeCandidateDeployment existing; b = normalizeCandidateDeployment desired
      in wl_Name a = wl_Name b \<and> wl_Namespace a = wl_Namespace b \<and> same_map (wl_Labels a) (wl_Labels b) \<and>
         same_map (wl_Annotations a) (wl_Annotations b) \<and> canon_spec (wl_Spec a) = canon_spec (wl_Spec b))"

definition normalizeCandidatePolicy :: "network_policy \<Rightarrow> network_policy" where
  "normalizeCandidatePolicy p =
     (let ports = map (\<lambda>(peers, ports). (peers, map (\<lambda>(protocol, port). (default_opt ''TCP'' protocol, port)) ports))
      in p\<lparr>np_Ingress := ports (np_Ingress p), np_Egress := ports (np_Egress p),
           np_PolicyTypes := (if np_PolicyTypes p = [] then ''Ingress'' # (if length (np_Egress p) > 0 then [''Egress''] else []) else np_PolicyTypes p)\<rparr>)"

definition canon_peer :: "policy_peer \<Rightarrow> policy_peer" where
  "canon_peer p = p\<lparr>peer_NamespaceSelector := map_option canon_map (peer_NamespaceSelector p),
     peer_PodSelector := map_option canon_map (peer_PodSelector p)\<rparr>"

definition canon_rules :: "policy_rule list \<Rightarrow> policy_rule list" where
  "canon_rules = map (\<lambda>(peers, ports). (map canon_peer peers, ports))"

definition candidateNetworkPolicyMatches :: "network_policy \<Rightarrow> network_policy \<Rightarrow> bool" where
  "candidateNetworkPolicyMatches existing desired \<longleftrightarrow>
     (let a = normalizeCandidatePolicy existing; b = normalizeCandidatePolicy desired
      in np_Name a = np_Name b \<and> np_Namespace a = np_Namespace b \<and> same_map (np_Labels a) (np_Labels b) \<and>
         same_map (np_Annotations a) (np_Annotations b) \<and> same_map (np_PodSelector a) (np_PodSelector b) \<and>
         np_PolicyTypes a = np_PolicyTypes b \<and> canon_rules (np_Ingress a) = canon_rules (np_Ingress b) \<and>
         canon_rules (np_Egress a) = canon_rules (np_Egress b) \<and> np_Other a = np_Other b)"

definition candidateServicePortsMatch :: "service_port list \<Rightarrow> service_port list \<Rightarrow> bool" where
  "candidateServicePortsMatch a b \<longleftrightarrow>
     (let normalize = map (\<lambda>p. p\<lparr>sp_Protocol := default_to [] ''TCP'' (sp_Protocol p)\<rparr>) in normalize a = normalize b)"

section \<open>Properties\<close>

text \<open>An equivalence on deployments that have a selector.\<close>

lemma matches_refl: "dp_Selector (wl_Spec d) \<noteq> None \<Longrightarrow> candidateDeploymentMatches d d"
  by (simp add: candidateDeploymentMatches_def Let_def)

lemma matches_sym: "candidateDeploymentMatches a b \<Longrightarrow> candidateDeploymentMatches b a"
  by (auto simp: candidateDeploymentMatches_def Let_def same_map_iff)

lemma matches_trans: "candidateDeploymentMatches a b \<Longrightarrow> candidateDeploymentMatches b c \<Longrightarrow> candidateDeploymentMatches a c"
  by (auto simp: candidateDeploymentMatches_def Let_def same_map_iff)

lemma default_to_idem [simp]: "default_to zero d (default_to zero d x) = default_to zero d x"
  by (simp add: default_to_def)

lemma default_opt_idem [simp]: "default_opt d (default_opt d x) = default_opt d x"
  by (simp add: default_opt_def split: option.splits)

lemma normalize_probe_idem: "normalizeCandidateProbe (normalizeCandidateProbe p) = normalizeCandidateProbe p"
  by (cases "pr_HTTPGet p") (simp_all add: normalizeCandidateProbe_def split: prod.splits)

lemma normalize_container_idem: "normalize_container (normalize_container c) = normalize_container c"
  by (simp add: normalize_container_def option.map_comp comp_def normalize_probe_idem)

lemma normalize_pod_idem: "normalizeCandidatePodSpec (normalizeCandidatePodSpec p) = normalizeCandidatePodSpec p"
  by (simp add: normalizeCandidatePodSpec_def comp_def normalize_container_idem)

lemma normalize_idem: "normalizeCandidateDeployment (normalizeCandidateDeployment d) = normalizeCandidateDeployment d"
  by (simp add: normalizeCandidateDeployment_def normalize_spec_def Let_def normalize_pod_idem)

text \<open>Filling in the defaults is invisible to the comparison.\<close>

lemma matches_defaulted:
  assumes "dp_Selector (wl_Spec d) \<noteq> None"
  shows "candidateDeploymentMatches (normalizeCandidateDeployment d) d"
proof -
  have "dp_Selector (wl_Spec (normalizeCandidateDeployment d)) = dp_Selector (wl_Spec d)"
    by (simp add: normalizeCandidateDeployment_def normalize_spec_def Let_def)
  then show ?thesis using assms by (simp add: candidateDeploymentMatches_def normalize_idem)
qed

text \<open>What is not defaulted is compared exactly.\<close>

definition ct_exact where
  "ct_exact c = (ct_core c, ct_VolumeMounts c, ct_EnvFrom c, ct_Env c, ct_Other c)"

lemma ct_exact_normalize [simp]: "ct_exact (normalize_container c) = ct_exact c"
  by (simp add: ct_exact_def ct_core_def normalize_container_def)

lemma matches_exact:
  assumes "candidateDeploymentMatches a b"
  shows "wl_Name a = wl_Name b" and "wl_Namespace a = wl_Namespace b" and "same_map (wl_Labels a) (wl_Labels b)"
    and "default_opt 1 (dp_Replicas (wl_Spec a)) = default_opt 1 (dp_Replicas (wl_Spec b))"
    and "canon_map (dp_TemplateLabels (wl_Spec a)) = canon_map (dp_TemplateLabels (wl_Spec b))"
    and "map ct_exact (ps_Containers (dp_Pod (wl_Spec a))) = map ct_exact (ps_Containers (dp_Pod (wl_Spec b)))"
    and "ps_AutomountServiceAccountToken (dp_Pod (wl_Spec a)) = ps_AutomountServiceAccountToken (dp_Pod (wl_Spec b))"
    and "ps_Volumes (dp_Pod (wl_Spec a)) = ps_Volumes (dp_Pod (wl_Spec b))"
    and "ps_Other (dp_Pod (wl_Spec a)) = ps_Other (dp_Pod (wl_Spec b))"
proof -
  let ?n = "\<lambda>d. canon_spec (normalize_spec (wl_Spec d))"
  have eq: "?n a = ?n b" and names: "wl_Name a = wl_Name b" "wl_Namespace a = wl_Namespace b" "same_map (wl_Labels a) (wl_Labels b)"
    using assms by (simp_all add: candidateDeploymentMatches_def normalizeCandidateDeployment_def Let_def)
  then show "wl_Name a = wl_Name b" and "wl_Namespace a = wl_Namespace b" and "same_map (wl_Labels a) (wl_Labels b)" by blast+
  show "default_opt 1 (dp_Replicas (wl_Spec a)) = default_opt 1 (dp_Replicas (wl_Spec b))"
    using arg_cong [OF eq, of dp_Replicas] by (simp add: canon_spec_def normalize_spec_def Let_def)
  show "canon_map (dp_TemplateLabels (wl_Spec a)) = canon_map (dp_TemplateLabels (wl_Spec b))"
    using arg_cong [OF eq, of dp_TemplateLabels] by (simp add: canon_spec_def normalize_spec_def Let_def)
  have pod: "canon_pod (normalizeCandidatePodSpec (dp_Pod (wl_Spec a))) = canon_pod (normalizeCandidatePodSpec (dp_Pod (wl_Spec b)))"
    using arg_cong [OF eq, of dp_Pod] by (simp add: canon_spec_def normalize_spec_def Let_def)
  have "map normalize_container (ps_Containers (dp_Pod (wl_Spec a))) = map normalize_container (ps_Containers (dp_Pod (wl_Spec b)))"
    using arg_cong [OF pod, of ps_Containers] by (simp add: canon_pod_def normalizeCandidatePodSpec_def)
  then have "map ct_exact (map normalize_container (ps_Containers (dp_Pod (wl_Spec a)))) = map ct_exact (map normalize_container (ps_Containers (dp_Pod (wl_Spec b))))"
    by (rule arg_cong)
  then show "map ct_exact (ps_Containers (dp_Pod (wl_Spec a))) = map ct_exact (ps_Containers (dp_Pod (wl_Spec b)))" by (simp add: comp_def)
  show "ps_AutomountServiceAccountToken (dp_Pod (wl_Spec a)) = ps_AutomountServiceAccountToken (dp_Pod (wl_Spec b))"
    using arg_cong [OF pod, of ps_AutomountServiceAccountToken] by (simp add: canon_pod_def normalizeCandidatePodSpec_def)
  show "ps_Volumes (dp_Pod (wl_Spec a)) = ps_Volumes (dp_Pod (wl_Spec b))"
    using arg_cong [OF pod, of ps_Volumes] by (simp add: canon_pod_def normalizeCandidatePodSpec_def)
  show "ps_Other (dp_Pod (wl_Spec a)) = ps_Other (dp_Pod (wl_Spec b))"
    using arg_cong [OF pod, of ps_Other] by (simp add: canon_pod_def normalizeCandidatePodSpec_def)
qed

text \<open>An annotation that one of them lacks, other than the revision, makes them different.\<close>

lemma matches_annotation:
  assumes "candidateDeploymentMatches a b" and "k \<noteq> ''deployment.kubernetes.io/revision''"
  shows "map_of (wl_Annotations a) k = map_of (wl_Annotations b) k"
proof -
  have filt: "map_of (filter (\<lambda>(x, _). x \<noteq> ''deployment.kubernetes.io/revision'') m) k = map_of m k" for m :: gomap
    using assms(2) by (induction m) auto
  have "map_of (wl_Annotations (normalizeCandidateDeployment a)) = map_of (wl_Annotations (normalizeCandidateDeployment b))"
    using assms(1) by (simp add: candidateDeploymentMatches_def Let_def same_map_iff)
  then have "map_of (wl_Annotations (normalizeCandidateDeployment a)) k = map_of (wl_Annotations (normalizeCandidateDeployment b)) k" by simp
  then show ?thesis by (simp add: normalizeCandidateDeployment_def filt)
qed

end
