(* ===== verification/Activation.thy ===== *)
theory Activation
  imports Workload_Match Candidate_Ops
begin

text \<open>
  The controller's side of candidates: the activation gate (\<^verbatim>\<open>internal/ingress/activation.go\<close>), the bootstrap
  service (\<^verbatim>\<open>candidate_bootstrap.go\<close>), preparation (\<^verbatim>\<open>candidate.go\<close>), activation (\<^verbatim>\<open>candidate_activation.go\<close>),
  retirement (\<^verbatim>\<open>candidate_retirement.go\<close>), status (\<^verbatim>\<open>candidate_status.go\<close>) and the check of a restored
  predecessor (\<^verbatim>\<open>restored_candidate_target.go\<close>). The Kubernetes API server is the parameter \<open>kube\<close>: one
  function per client call on a state of its own, which other clients may change between calls.
\<close>

section \<open>The API server\<close>

datatype api_err = Api_NotFound | Api_Conflict | Api_AlreadyExists | Api_Error string

record 'k kube =
  GetService :: "string \<Rightarrow> 'k \<Rightarrow> (api_err + service) \<times> 'k"
  UpdateService :: "service \<Rightarrow> 'k \<Rightarrow> (api_err + service) \<times> 'k"
  CreateService :: "service \<Rightarrow> 'k \<Rightarrow> (api_err + service) \<times> 'k"
  GetDeployment :: "string \<Rightarrow> 'k \<Rightarrow> (api_err + workload) \<times> 'k"
  UpdateDeployment :: "workload \<Rightarrow> 'k \<Rightarrow> (api_err + workload) \<times> 'k"
  CreateDeployment :: "workload \<Rightarrow> 'k \<Rightarrow> (api_err + workload) \<times> 'k"
  ListDeployments :: "gomap \<Rightarrow> 'k \<Rightarrow> (api_err + workload list) \<times> 'k"
  GetPolicy :: "string \<Rightarrow> 'k \<Rightarrow> (api_err + network_policy) \<times> 'k"
  CreatePolicy :: "network_policy \<Rightarrow> 'k \<Rightarrow> (api_err + network_policy) \<times> 'k"
  ListPods :: "gomap \<Rightarrow> 'k \<Rightarrow> (api_err + string list) \<times> 'k"

text \<open>A controller with all its clients.\<close>

record 'k controller =
  ctl_namespace :: string
  ctl_kube :: "'k kube"
  ctl_lib :: k8s_lib
  ctl_sha256 :: "string \<Rightarrow> nat list"

definition of_api :: "api_err \<Rightarrow> srv_err" where
  "of_api e = ErrRt (case e of Api_NotFound \<Rightarrow> RtNotFound | Api_Conflict \<Rightarrow> RtStatus 409 | Api_AlreadyExists \<Rightarrow> RtStatus 409 | Api_Error t \<Rightarrow> RtOther t)"

text \<open>A client call whose error the code inspects, and one whose error it passes on.\<close>

definition api_try :: "('k \<Rightarrow> (api_err + 'a) \<times> 'k) \<Rightarrow> (api_err + 'a \<Rightarrow> ('k, 'b) io) \<Rightarrow> ('k, 'b) io" where
  "api_try m f k = (case m k of (r, k') \<Rightarrow> f r k')"

definition api_call :: "('k \<Rightarrow> (api_err + 'a) \<times> 'k) \<Rightarrow> ('k, 'a) io" where
  "api_call m = api_try m (\<lambda>r. case r of Inl e \<Rightarrow> io_fail (of_api e) | Inr x \<Rightarrow> io_ret x)"

definition requireAppResourceOwnership :: "string \<Rightarrow> string \<Rightarrow> string \<Rightarrow> gomap \<Rightarrow> ('k, unit) io" where
  "requireAppResourceOwnership kind name app labels =
     (if mget labels ''deployer.io/app'' \<noteq> app then io_fail (ErrText (kind @ '' ownership conflict'')) else io_ret ())"

definition render :: "render_err + 'a \<Rightarrow> ('k, 'a) io" where
  "render r = io_of (map_err (\<lambda>e. case e of Candidate_reference s \<Rightarrow> s | _ \<Rightarrow> ErrText ''invalid candidate configuration'') r)"

abbreviation superseded :: srv_err where
  "superseded \<equiv> ErrRt RtSuperseded"

section \<open>The activation gate\<close>

definition activationGateFor :: "service \<Rightarrow> gate" where
  "activationGateFor s = \<lparr>gate_App = svc_Name s, gate_Namespace = svc_Namespace s, gate_UID = svc_UID s,
     gate_ResourceVersion = svc_ResourceVersion s, gate_OperationID = mget (svc_Annotations s) ''deployer.io/activation-operation''\<rparr>"

definition ctl_CaptureActivationGate :: "'k controller \<Rightarrow> string \<Rightarrow> ('k, gate \<times> service_port target) io" where
  "ctl_CaptureActivationGate c app =
     io_bind (api_call (GetService (ctl_kube c) app)) (\<lambda>s.
     io_bind (requireAppResourceOwnership ''Service'' app app (svc_Labels s)) (\<lambda>_.
     if svc_UID s = [] \<or> svc_ResourceVersion s = [] then io_fail (ErrText ''service lacks activation identity'')
     else io_ret (activationGateFor s, \<lparr>target_Selector = svc_Selector s, target_Ports = svc_Ports s\<rparr>)))"

definition serviceAtGate :: "'k controller \<Rightarrow> gate \<Rightarrow> ('k, service) io" where
  "serviceAtGate c g =
     (if gate_App g = [] \<or> gate_Namespace g \<noteq> ctl_namespace c \<or> gate_UID g = [] \<or> gate_ResourceVersion g = [] then io_fail superseded
      else api_try (GetService (ctl_kube c) (gate_App g)) (\<lambda>r. case r of
          Inl e \<Rightarrow> io_fail (if e = Api_NotFound then superseded else of_api e)
        | Inr s \<Rightarrow> io_bind (requireAppResourceOwnership ''Service'' (svc_Name s) (gate_App g) (svc_Labels s)) (\<lambda>_.
            if activationGateFor s \<noteq> g then io_fail superseded else io_ret s)))"

definition updateActivationGate :: "'k controller \<Rightarrow> service \<Rightarrow> ('k, gate) io" where
  "updateActivationGate c s = api_try (UpdateService (ctl_kube c) s) (\<lambda>r. case r of
       Inl e \<Rightarrow> io_fail (if e = Api_Conflict \<or> e = Api_NotFound then superseded else of_api e)
     | Inr updated \<Rightarrow> io_ret (activationGateFor updated))"

definition ctl_FenceActivationGate :: "'k controller \<Rightarrow> gate \<Rightarrow> string \<Rightarrow> ('k, gate) io" where
  "ctl_FenceActivationGate c g operationID =
     (if \<not> ValidRevision operationID \<or> operationID = gate_OperationID g then io_fail (ErrText ''a new activation operation ID is required'')
      else io_bind (serviceAtGate c g) (\<lambda>s.
        updateActivationGate c (s\<lparr>svc_Annotations := mput (svc_Annotations s) ''deployer.io/activation-operation'' operationID\<rparr>)))"

definition ctl_ReplaceActivationTarget :: "'k controller \<Rightarrow> gate \<Rightarrow> service_port target \<Rightarrow> ('k, gate) io" where
  "ctl_ReplaceActivationTarget c g t =
     (if \<not> ValidRevision (gate_OperationID g) \<or> length (target_Selector t) = 0 \<or> length (target_Ports t) = 0
      then io_fail (ErrText ''invalid activation target'')
      else io_bind (serviceAtGate c g) (\<lambda>s. updateActivationGate c (s\<lparr>svc_Selector := target_Selector t, svc_Ports := target_Ports t\<rparr>)))"

section \<open>Bootstrap\<close>

definition ctl_InitialCandidateRequest :: "'k controller \<Rightarrow> gate \<Rightarrow> ('k, string) io" where
  "ctl_InitialCandidateRequest c g = io_bind (serviceAtGate c g) (\<lambda>s.
     let rid = mget (svc_Annotations s) ''deployer.io/initial-candidate-request''
     in if \<not> ValidRevision rid then io_fail (ErrText ''inactive candidate service has no valid request identity'') else io_ret rid)"

definition ctl_ResetInactiveCandidateService :: "'k controller \<Rightarrow> gate \<Rightarrow> config \<Rightarrow> string \<Rightarrow> string \<Rightarrow> ('k, gate \<times> service_port target) io" where
  "ctl_ResetInactiveCandidateService c g cfg oldID newID =
     (if \<not> ValidRevision oldID \<or> \<not> ValidRevision newID \<or> oldID = newID then io_fail (ErrText ''invalid candidate bootstrap reuse identities'')
      else if gate_App g \<noteq> cfg_Name cfg \<or> Validate (ctl_lib c) cfg \<noteq> Inr () \<or> cfg_Hosting cfg = None
      then io_fail (ErrText ''invalid candidate bootstrap configuration'')
      else io_bind (serviceAtGate c g) (\<lambda>s.
        if svc_Deleting s then io_fail (ErrText ''candidate bootstrap service is being deleted'')
        else if mget (svc_Annotations s) ''deployer.io/initial-candidate-request'' \<noteq> oldID
        then io_fail (ErrText ''inactive candidate bootstrap request changed'')
        else case CandidateSelector (ctl_sha256 c) (cfg_Name cfg) newID of None \<Rightarrow> io_fail (ErrText ''invalid candidate identity'')
          | Some sel \<Rightarrow>
              let s = s\<lparr>svc_Selector := mput sel ''deployer.io/candidate-generation'' (''inactive-'' @ candidateGeneration (ctl_sha256 c) (cfg_Name cfg) newID),
                    svc_Ports := svc_Ports (candidateServiceForApp cfg (ctl_namespace c)),
                    svc_Annotations := mput (mput (svc_Annotations s) ''deployer.io/initial-candidate-request'' newID)
                      ''deployer.io/activation-operation'' (CandidateBootstrapOperationID (ctl_sha256 c) (cfg_Name cfg) newID)\<rparr>
              in io_bind (updateActivationGate c s) (\<lambda>updated. io_ret (updated, \<lparr>target_Selector = svc_Selector s, target_Ports = svc_Ports s\<rparr>))))"

definition ctl_CreateInactiveCandidateService :: "'k controller \<Rightarrow> config \<Rightarrow> string \<Rightarrow> ('k, unit) io" where
  "ctl_CreateInactiveCandidateService c cfg rid =
     io_bind (render (CandidateDeploymentForApp (ctl_lib c) (ctl_sha256 c) cfg (ctl_namespace c) (cfg_EnvironmentRevision cfg) rid
        (CandidateRegistrySecretName (ctl_sha256 c) cfg))) (\<lambda>_.
     let s = candidateServiceForApp cfg (ctl_namespace c);
         s = s\<lparr>svc_Selector := inactive_selector (ctl_sha256 c) (cfg_Name cfg) rid,
               svc_Annotations := mput (svc_Annotations s) ''deployer.io/initial-candidate-request'' rid\<rparr>
     in io_bind (api_call (CreateService (ctl_kube c) s)) (\<lambda>_. io_ret ()))"

definition candidateManagedService :: "service \<Rightarrow> bool" where
  "candidateManagedService s \<longleftrightarrow> map_of (svc_Annotations s) ''deployer.io/activation-operation'' \<noteq> None \<or>
     map_of (svc_Annotations s) ''deployer.io/initial-candidate-request'' \<noteq> None \<or> map_of (svc_Selector s) ''deployer.io/candidate-generation'' \<noteq> None"

definition rejectLegacyCandidateMutation :: "'k controller \<Rightarrow> string \<Rightarrow> ('k, unit) io" where
  "rejectLegacyCandidateMutation c app = api_try (GetService (ctl_kube c) app) (\<lambda>r. case r of
       Inl e \<Rightarrow> if e = Api_NotFound then io_ret () else io_fail (of_api e)
     | Inr s \<Rightarrow> io_bind (requireAppResourceOwnership ''Service'' app app (svc_Labels s)) (\<lambda>_.
         if candidateManagedService s then io_fail (ErrText ''app uses isolated candidate deployments; legacy mutation is disabled'') else io_ret ()))"

section \<open>Preparation and activation\<close>

definition ensureCandidateNetworkPolicy :: "'k controller \<Rightarrow> network_policy \<Rightarrow> ('k, unit) io" where
  "ensureCandidateNetworkPolicy c desired = api_try (GetPolicy (ctl_kube c) (np_Name desired)) (\<lambda>r. case r of
       Inl e \<Rightarrow> if e = Api_NotFound
         then io_bind (io_wrap (ErrText ''create candidate NetworkPolicy'') (api_call (CreatePolicy (ctl_kube c) desired))) (\<lambda>_. io_ret ())
         else io_fail (ErrText ''read candidate NetworkPolicy'')
     | Inr existing \<Rightarrow>
         io_bind (requireAppResourceOwnership ''NetworkPolicy'' (np_Name existing) (mget (np_Labels desired) ''deployer.io/app'') (np_Labels existing)) (\<lambda>_.
         if \<not> candidateNetworkPolicyMatches existing desired
         then io_fail (ErrText ''candidate NetworkPolicy already exists with different immutable content'') else io_ret ()))"

text \<open>The policy of a configuration that \<^verbatim>\<open>CandidateDeploymentForApp\<close> has accepted, so its profile is there.\<close>

definition candidate_policy :: "'k controller \<Rightarrow> config \<Rightarrow> string \<Rightarrow> ('k, network_policy) io" where
  "candidate_policy c cfg rid = (case (cfg_Hosting cfg, networkPolicyForHostedApp cfg (ctl_namespace c)) of
       (Some h, Some p) \<Rightarrow> render (candidateNetworkPolicyForApp (ctl_sha256 c) cfg h p rid)
     | _ \<Rightarrow> io_fail (ErrText ''invalid candidate configuration''))"

definition ctl_PrepareCandidateDeployment :: "'k controller \<Rightarrow> config \<Rightarrow> string \<Rightarrow> string \<Rightarrow> string \<Rightarrow> ('k, unit) io" where
  "ctl_PrepareCandidateDeployment c cfg revision rid registry =
     io_bind (render (CandidateDeploymentForApp (ctl_lib c) (ctl_sha256 c) cfg (ctl_namespace c) revision rid registry)) (\<lambda>desired.
     io_bind (candidate_policy c cfg rid) (\<lambda>policy.
     io_bind (ensureCandidateNetworkPolicy c policy) (\<lambda>_.
     api_try (GetDeployment (ctl_kube c) (wl_Name desired)) (\<lambda>r. case r of
         Inl e \<Rightarrow> if e = Api_NotFound
           then io_bind (io_wrap (ErrText ''create candidate deployment'') (api_call (CreateDeployment (ctl_kube c) desired))) (\<lambda>_. io_ret ())
           else io_fail (ErrText ''read candidate deployment'')
       | Inr existing \<Rightarrow>
           io_bind (requireAppResourceOwnership ''Deployment'' (wl_Name existing) (cfg_Name cfg) (wl_Labels existing)) (\<lambda>_.
           if \<not> candidateDeploymentMatches existing desired
           then io_fail (ErrText ''candidate deployment already exists with different immutable content'') else io_ret ())))))"

definition fully_ready :: "int \<Rightarrow> deployment_status \<Rightarrow> bool" where
  "fully_ready replicas s \<longleftrightarrow> \<not> (replicas < 1 \<or> st_Replicas s \<noteq> replicas \<or> st_UpdatedReplicas s \<noteq> replicas \<or> st_ReadyReplicas s \<noteq> replicas \<or>
     st_AvailableReplicas s \<noteq> replicas \<or> st_UnavailableReplicas s \<noteq> 0)"

definition stale_observation :: "workload \<Rightarrow> bool" where
  "stale_observation d \<longleftrightarrow> wl_Generation d < 1 \<or> st_ObservedGeneration (wl_Status d) < wl_Generation d"

definition ctl_ActivatePreparedCandidate :: "'k controller \<Rightarrow> gate \<Rightarrow> config \<Rightarrow> string \<Rightarrow> string \<Rightarrow> string \<Rightarrow> ('k, gate) io" where
  "ctl_ActivatePreparedCandidate c g cfg revision rid registry =
     (if gate_App g \<noteq> cfg_Name cfg \<or> gate_OperationID g \<noteq> rid then io_fail superseded
      else
        io_bind (render (CandidateDeploymentForApp (ctl_lib c) (ctl_sha256 c) cfg (ctl_namespace c) revision rid registry)) (\<lambda>desired.
        io_bind (api_call (GetDeployment (ctl_kube c) (wl_Name desired))) (\<lambda>actual.
        if \<not> candidateDeploymentMatches actual desired then io_fail (ErrText ''candidate configuration changed'')
        else case dp_Replicas (wl_Spec desired) of None \<Rightarrow> io_fail (ErrRt RtNotReady)
        | Some replicas \<Rightarrow>
            if wl_Deleting actual \<or> wl_UID actual = [] \<or> stale_observation actual then io_fail (ErrRt RtNotReady)
            else if \<not> fully_ready replicas (wl_Status actual) then io_fail (ErrRt RtNotReady)
            else
              io_bind (candidate_policy c cfg rid) (\<lambda>policy.
              io_bind (api_call (GetPolicy (ctl_kube c) (np_Name policy))) (\<lambda>installed.
              io_bind (requireAppResourceOwnership ''NetworkPolicy'' (np_Name installed) (cfg_Name cfg) (np_Labels installed)) (\<lambda>_.
              if np_Deleting installed \<or> \<not> candidateNetworkPolicyMatches installed policy
              then io_fail (ErrText ''candidate network isolation changed'')
              else
                io_bind (serviceAtGate c g) (\<lambda>s.
                let t = candidateServiceForApp cfg (ctl_namespace c)
                in if map sp_Port (svc_Ports s) \<noteq> map sp_Port (svc_Ports t)
                   then io_fail (ErrText ''candidate port change requires route coordination'')
                   else ctl_ReplaceActivationTarget c g
                     \<lparr>target_Selector = (case dp_Selector (wl_Spec desired) of None \<Rightarrow> [] | Some l \<Rightarrow> ls_MatchLabels l), target_Ports = svc_Ports t\<rparr>)))))))"

section \<open>Retirement\<close>

definition tombstone :: "workload \<Rightarrow> workload" where
  "tombstone d = (on_spec (\<lambda>s. s\<lparr>dp_Replicas := Some 0\<rparr>) d)\<lparr>wl_Annotations := mput (wl_Annotations d) ''deployer.io/candidate-retired'' ''true''\<rparr>"

definition ctl_RetireCandidateDeployment :: "'k controller \<Rightarrow> config \<Rightarrow> string \<Rightarrow> string \<Rightarrow> string \<Rightarrow> ('k, unit) io" where
  "ctl_RetireCandidateDeployment c cfg revision rid registry =
     io_bind (render (CandidateDeploymentForApp (ctl_lib c) (ctl_sha256 c) cfg (ctl_namespace c) revision rid registry)) (\<lambda>desired.
     api_try (GetDeployment (ctl_kube c) (wl_Name desired)) (\<lambda>r. case r of
         Inl e \<Rightarrow> if e = Api_NotFound
           then io_bind (io_wrap (ErrText ''create candidate retirement tombstone'') (api_call (CreateDeployment (ctl_kube c) (tombstone desired)))) (\<lambda>_. io_ret ())
           else io_fail (ErrText ''read candidate deployment for retirement'')
       | Inr existing \<Rightarrow>
           if wl_UID existing = [] \<or> wl_ResourceVersion existing = [] \<or> wl_Deleting existing
           then io_fail (ErrText ''candidate deployment lacks a stable retirement identity'')
           else
             io_bind (requireAppResourceOwnership ''Deployment'' (wl_Name existing) (cfg_Name cfg) (wl_Labels existing)) (\<lambda>_.
             if \<not> candidateDeploymentMatches existing desired \<and> \<not> candidateDeploymentMatches existing (tombstone desired)
             then io_fail (ErrText ''candidate deployment identity or content changed'')
             else if candidateDeploymentMatches existing (tombstone desired) then io_ret ()
             else api_try (UpdateDeployment (ctl_kube c) (tombstone existing)) (\<lambda>r. case r of
                 Inl e \<Rightarrow> io_fail (ErrText (if e = Api_Conflict \<or> e = Api_NotFound then ''candidate retirement was superseded; retry after reread''
                   else ''retire candidate deployment''))
               | Inr _ \<Rightarrow> io_ret ()))))"

definition idle :: "deployment_status \<Rightarrow> bool" where
  "idle s \<longleftrightarrow> st_Replicas s = 0 \<and> st_UpdatedReplicas s = 0 \<and> st_ReadyReplicas s = 0 \<and> st_AvailableReplicas s = 0 \<and> st_UnavailableReplicas s = 0"

definition ctl_CandidateRetired :: "'k controller \<Rightarrow> config \<Rightarrow> string \<Rightarrow> string \<Rightarrow> string \<Rightarrow> ('k, bool) io" where
  "ctl_CandidateRetired c cfg revision rid registry =
     io_bind (render (CandidateDeploymentForApp (ctl_lib c) (ctl_sha256 c) cfg (ctl_namespace c) revision rid registry)) (\<lambda>desired.
     api_try (GetDeployment (ctl_kube c) (wl_Name desired)) (\<lambda>r. case r of
         Inl e \<Rightarrow> if e = Api_NotFound then io_ret False else io_fail (ErrText ''read candidate deployment retirement'')
       | Inr existing \<Rightarrow>
           if wl_UID existing = [] \<or> wl_ResourceVersion existing = [] \<or> wl_Deleting existing then io_ret False
           else
             io_bind (requireAppResourceOwnership ''Deployment'' (wl_Name existing) (cfg_Name cfg) (wl_Labels existing)) (\<lambda>_.
             if stale_observation existing then io_ret False
             else if \<not> idle (wl_Status existing) then io_ret False
             else if \<not> candidateDeploymentMatches existing (tombstone desired) then io_ret False
             else case CandidateSelector (ctl_sha256 c) (cfg_Name cfg) rid of None \<Rightarrow> io_fail (ErrText ''invalid candidate identity'')
               | Some selector \<Rightarrow>
                   io_bind (io_wrap (ErrText ''list candidate pods for retirement'') (api_call (ListPods (ctl_kube c) selector))) (\<lambda>pods.
                   io_ret (length pods = 0)))))"

section \<open>Status\<close>

record candidate_status =
  cs_State :: string
  cs_DesiredReplicas :: int
  cs_AvailableReplicas :: int
  cs_DeploymentName :: string
  cs_Selector :: gomap

definition candidateGenerationPattern :: rexp where
  "candidateGenerationPattern = rpow 32 (RCls is_hex)"

definition deploymentReplicas :: "workload \<Rightarrow> int" where
  "deploymentReplicas d = (case dp_Replicas (wl_Spec d) of None \<Rightarrow> 0 | Some n \<Rightarrow> n)"

definition candidateStatusForDeployment :: "workload \<Rightarrow> string" where
  "candidateStatusForDeployment d =
     (let desired = deploymentReplicas d; s = wl_Status d
      in if desired < 1 \<or> st_AvailableReplicas s < 1 \<or> wl_Deleting d then ''unavailable''
         else if stale_observation d \<or> st_Replicas s \<noteq> desired \<or> st_UpdatedReplicas s \<noteq> desired \<or> st_ReadyReplicas s \<noteq> desired \<or>
                 st_AvailableReplicas s \<noteq> desired \<or> st_UnavailableReplicas s \<noteq> 0 then ''degraded''
         else ''healthy'')"

definition status_not_selected :: srv_err where
  "status_not_selected = ErrText ''candidate status is not selected''"

text \<open>The candidate a service selects, once the service has been checked.\<close>

definition selected_status :: "'k controller \<Rightarrow> string \<Rightarrow> string \<Rightarrow> ('k, candidate_status) io" where
  "selected_status c app generation =
     (let expected = candidate_labels app generation
      in io_bind (io_wrap (ErrText ''list candidate Deployments'') (api_call (ListDeployments (ctl_kube c) expected))) (\<lambda>ds.
         case ds of
           [d] \<Rightarrow> io_bind (requireAppResourceOwnership ''Deployment'' (wl_Name d) app (wl_Labels d)) (\<lambda>_.
             if wl_Name d \<noteq> candidateNameForGeneration app generation \<or>
                (case dp_Selector (wl_Spec d) of None \<Rightarrow> True | Some l \<Rightarrow> length (ls_MatchExpressions l) \<noteq> 0 \<or> \<not> same_map (ls_MatchLabels l) expected) \<or>
                \<not> sel_matches expected (dp_TemplateLabels (wl_Spec d))
             then io_fail (ErrText ''candidate Deployment selector drifted'')
             else io_ret \<lparr>cs_State = candidateStatusForDeployment d, cs_DesiredReplicas = deploymentReplicas d,
                    cs_AvailableReplicas = st_AvailableReplicas (wl_Status d), cs_DeploymentName = wl_Name d, cs_Selector = expected\<rparr>)
         | _ \<Rightarrow> io_fail (ErrText ''candidate Deployment is not uniquely selected'')))"

text \<open>\<^verbatim>\<open>len(service.Spec.Selector)\<close> is the number of keys.\<close>

definition ctl_CandidateStatus :: "'k controller \<Rightarrow> string \<Rightarrow> ('k, candidate_status) io" where
  "ctl_CandidateStatus c app =
     (if TrimSpace app = [] then io_fail status_not_selected
      else api_try (GetService (ctl_kube c) app) (\<lambda>r. case r of
          Inl e \<Rightarrow> io_fail (if e = Api_NotFound then status_not_selected else ErrText ''get Service for candidate status'')
        | Inr s \<Rightarrow> io_bind (requireAppResourceOwnership ''Service'' (svc_Name s) app (svc_Labels s)) (\<lambda>_.
            let operation = map_of (svc_Annotations s) ''deployer.io/activation-operation'';
                operationID = TrimSpace (mget (svc_Annotations s) ''deployer.io/activation-operation'');
                generation = mget (svc_Selector s) ''deployer.io/candidate-generation''
            in if \<not> candidateManagedService s then io_fail status_not_selected
               else if (case map_of (svc_Annotations s) ''deployer.io/initial-candidate-request'' of None \<Rightarrow> False
                   | Some initialID \<Rightarrow> operation = None \<and> ValidRevision initialID \<and>
                       same_map (svc_Selector s) (inactive_selector (ctl_sha256 c) app initialID) \<and> \<not> svc_Deleting s)
               then io_ret \<lparr>cs_State = ''unavailable'', cs_DesiredReplicas = 0, cs_AvailableReplicas = 0, cs_DeploymentName = [], cs_Selector = []\<rparr>
               else if operation \<noteq> None \<and> operationID = [] then io_fail (ErrText ''candidate activation operation is invalid'')
               else if \<not> ValidRevision operationID then io_fail (ErrText ''candidate activation operation is invalid'')
               else if svc_Deleting s then io_fail (ErrText ''candidate Service is being deleted'')
               else if card (fst ` set (svc_Selector s)) \<noteq> 2 \<or> mget (svc_Selector s) ''deployer.io/app'' \<noteq> app \<or>
                       \<not> rmatch candidateGenerationPattern generation then io_fail (ErrText ''candidate Service selector is unavailable'')
               else if \<not> same_map (svc_Selector s) (candidate_labels app generation) then io_fail (ErrText ''candidate Service selector drifted'')
               else selected_status c app generation)))"

section \<open>The restored predecessor\<close>

definition restored_expected :: "'k controller \<Rightarrow> service_port target \<Rightarrow> config \<Rightarrow> ('k, workload) io" where
  "restored_expected c t previous =
     (let registry = CandidateRegistrySecretName (ctl_sha256 c) previous
      in if same_map (target_Selector t) (appLabels (cfg_Name previous))
         then if length (cfg_Secrets previous) > 0 \<and> cfg_EnvironmentRevision previous = []
              then io_fail (ErrText ''mutable legacy secrets cannot be restored'')
              else io_bind (io_wrap (ErrText ''render restored target'') (render (deploymentForApp (ctl_lib c) (ctl_sha256 c) previous (ctl_namespace c)
                     (cfg_EnvironmentRevision previous)))) (\<lambda>d.
                   let d = (if registry \<noteq> [] then on_pod (\<lambda>p. p\<lparr>ps_ImagePullSecrets := [registry]\<rparr>) d else d)
                   in if wl_Name d \<noteq> cfg_Name previous then io_fail (ErrText ''restored target deployment identity changed'') else io_ret d)
         else case cfg_Hosting previous of None \<Rightarrow> io_fail (ErrText ''restored candidate profile is unsupported'')
           | Some h \<Rightarrow>
               if state_Mode (cfg_State previous) \<noteq> ''stateless'' then io_fail (ErrText ''restored candidate profile is unsupported'')
               else case map_of (target_Selector t) ''deployer.io/candidate-generation'' of
                   None \<Rightarrow> io_fail (ErrText ''restored activation target selector is invalid'')
                 | Some generation \<Rightarrow>
                     if card (fst ` set (target_Selector t)) \<noteq> 2 \<or> mget (target_Selector t) ''deployer.io/app'' \<noteq> cfg_Name previous \<or>
                        \<not> rmatch candidateGenerationPattern generation
                     then io_fail (ErrText ''restored activation target selector is invalid'')
                     else io_bind (io_wrap (ErrText ''render restored target'') (render (candidateDeploymentForGeneration (ctl_lib c) (ctl_sha256 c) previous h
                            (ctl_namespace c) (cfg_EnvironmentRevision previous) generation registry))) (\<lambda>d.
                          if wl_Name d \<noteq> candidateNameForGeneration (cfg_Name previous) generation
                          then io_fail (ErrText ''restored target deployment identity changed'') else io_ret d))"

definition ctl_RestoredCandidateTargetReady :: "'k controller \<Rightarrow> gate \<Rightarrow> service_port target \<Rightarrow> config \<Rightarrow> ('k, bool) io" where
  "ctl_RestoredCandidateTargetReady c g t previous =
     io_bind (serviceAtGate c g) (\<lambda>s.
     if cfg_Name previous \<noteq> gate_App g \<or> svc_Deleting s then io_fail (ErrText ''restored activation service identity changed'')
     else if \<not> is_ok (Validate (ctl_lib c) previous) then io_fail (ErrText ''invalid predecessor configuration'')
     else if \<not> same_map (svc_Selector s) (target_Selector t) \<or> svc_Ports s \<noteq> target_Ports t then io_fail (ErrText ''restored activation target changed'')
     else if \<not> candidateServicePortsMatch (target_Ports t) (svc_Ports (serviceForApp previous (ctl_namespace c)))
     then io_fail (ErrText ''restored activation ports changed'')
     else if length (target_Selector t) = 0 then io_fail (ErrText ''restored activation target is empty'')
     else io_bind (restored_expected c t previous) (\<lambda>expected.
       api_try (GetDeployment (ctl_kube c) (wl_Name expected)) (\<lambda>r. case r of
           Inl e \<Rightarrow> if e = Api_NotFound then io_ret False else io_fail (ErrText ''get restored target Deployment'')
         | Inr actual \<Rightarrow>
             if wl_UID actual = [] then io_fail (ErrText ''restored target Deployment lacks identity'')
             else io_bind (requireAppResourceOwnership ''Deployment'' (wl_Name actual) (cfg_Name previous) (wl_Labels actual)) (\<lambda>_.
               if \<not> candidateDeploymentMatches actual expected then io_fail (ErrText ''restored target deployment changed'')
               else case dp_Replicas (wl_Spec actual) of None \<Rightarrow> io_ret False
                 | Some replicas \<Rightarrow> if wl_Deleting actual \<or> stale_observation actual then io_ret False
                     else io_ret (fully_ready replicas (wl_Status actual))))))"

end
