(* ===== verification/Gate_Safety.thy ===== *)
theory Gate_Safety
  imports Activation
begin

text \<open>
  What the controller's operations guarantee when the API server keeps its promise: every change of an
  object gives it a version it never had, and an update is accepted only for the version it names. Each
  operation on a gate is then one atomic compare-and-swap, whatever other clients do between its two calls; a
  gate that was used is spent for good.
\<close>

section \<open>The API server's promise\<close>

text \<open>
  \<open>sv\<close> are the stored services and \<open>seen\<close> the versions given out so far. Whatever clients do, a service is
  unchanged or has a new version.
\<close>

definition api_moves :: "('k \<Rightarrow> string \<Rightarrow> service option) \<Rightarrow> ('k \<Rightarrow> string set) \<Rightarrow> 'k \<Rightarrow> 'k \<Rightarrow> bool" where
  "api_moves sv seen k k' \<longleftrightarrow> seen k \<subseteq> seen k' \<and>
     (\<forall>n s. sv k' n = Some s \<longrightarrow> sv k n = Some s \<or> svc_ResourceVersion s \<notin> seen k)"

text \<open>
  A read returns what is stored, after which other clients may act. An update of a service with a version is
  rejected without effect, or it replaces exactly that version and gives a new one; the answer may still be
  lost on the way.
\<close>

definition service_law :: "'k kube \<Rightarrow> ('k \<Rightarrow> string \<Rightarrow> service option) \<Rightarrow> ('k \<Rightarrow> string set) \<Rightarrow> bool" where
  "service_law K sv seen \<longleftrightarrow>
     (\<forall>k n s. sv k n = Some s \<longrightarrow> svc_Name s = n \<and> svc_ResourceVersion s \<in> seen k) \<and>
     (\<forall>n k r k'. GetService K n k = (r, k') \<longrightarrow> api_moves sv seen k k' \<and> (\<forall>s. r = Inr s \<longrightarrow> sv k n = Some s)) \<and>
     (\<forall>s k r k'. UpdateService K s k = (r, k') \<longrightarrow> svc_ResourceVersion s \<noteq> [] \<longrightarrow>
        (k' = k \<and> (\<exists>e. r = Inl e)) \<or>
        (\<exists>cur v. sv k (svc_Name s) = Some cur \<and> svc_UID cur = svc_UID s \<and> svc_ResourceVersion cur = svc_ResourceVersion s \<and>
           v \<notin> seen k \<and> sv k' = (sv k)(svc_Name s \<mapsto> s\<lparr>svc_ResourceVersion := v\<rparr>) \<and> seen k' = insert v (seen k) \<and>
           (r = Inr (s\<lparr>svc_ResourceVersion := v\<rparr>) \<or> (\<exists>t. r = Inl (Api_Error t)))))"

lemma service_lawD:
  assumes "service_law K sv seen"
  shows "sv k n = Some s \<Longrightarrow> svc_Name s = n \<and> svc_ResourceVersion s \<in> seen k"
    and "GetService K n k = (r, k') \<Longrightarrow> api_moves sv seen k k'" and "GetService K n k = (Inr s, k') \<Longrightarrow> sv k n = Some s"
    and "UpdateService K s k = (u, k') \<Longrightarrow> svc_ResourceVersion s \<noteq> [] \<Longrightarrow>
      (k' = k \<and> (\<exists>e. u = Inl e)) \<or>
      (\<exists>cur v. sv k (svc_Name s) = Some cur \<and> svc_UID cur = svc_UID s \<and> svc_ResourceVersion cur = svc_ResourceVersion s \<and>
         v \<notin> seen k \<and> sv k' = (sv k)(svc_Name s \<mapsto> s\<lparr>svc_ResourceVersion := v\<rparr>) \<and> seen k' = insert v (seen k) \<and>
         (u = Inr (s\<lparr>svc_ResourceVersion := v\<rparr>) \<or> (\<exists>t. u = Inl (Api_Error t))))"
proof -
  note law = assms [unfolded service_law_def]
  show "sv k n = Some s \<Longrightarrow> svc_Name s = n \<and> svc_ResourceVersion s \<in> seen k" using conjunct1 [OF law] by blast
  show "GetService K n k = (r, k') \<Longrightarrow> api_moves sv seen k k'" "GetService K n k = (Inr s, k') \<Longrightarrow> sv k n = Some s"
    using conjunct1 [OF conjunct2 [OF law]] by blast+
qed (rule conjunct2 [OF conjunct2 [OF assms [unfolded service_law_def]], rule_format])

lemma api_moves_refl: "api_moves sv seen k k"
  by (simp add: api_moves_def)

lemma api_moves_trans: "api_moves sv seen k k1 \<Longrightarrow> api_moves sv seen k1 k2 \<Longrightarrow> api_moves sv seen k k2"
  unfolding api_moves_def by blast

section \<open>Compare and swap\<close>

text \<open>
  The abstract operation: at one moment, the service is replaced by \<open>f\<close> of it if it is exactly the one the gate
  names, and otherwise nothing happens and an error is returned.
\<close>

definition cas :: "('k \<Rightarrow> string \<Rightarrow> service option) \<Rightarrow> ('k \<Rightarrow> string set) \<Rightarrow> gate \<Rightarrow> (service \<Rightarrow> service) \<Rightarrow> 'k \<Rightarrow> srv_err + gate \<Rightarrow> 'k \<Rightarrow> bool" where
  "cas sv seen g f k r k' \<longleftrightarrow> (k' = k \<and> (\<exists>e. r = Inl e)) \<or>
     (\<exists>s v. sv k (gate_App g) = Some s \<and> activationGateFor s = g \<and> v \<notin> seen k \<and>
        sv k' = (sv k)(gate_App g \<mapsto> (f s)\<lparr>svc_ResourceVersion := v\<rparr>) \<and> seen k' = insert v (seen k) \<and>
        (r = Inr (activationGateFor ((f s)\<lparr>svc_ResourceVersion := v\<rparr>)) \<or> (\<exists>t. r = Inl (ErrRt (RtOther t)))))"

text \<open>An edit leaves the identity of a service alone.\<close>

definition keeps_identity :: "(service \<Rightarrow> service) \<Rightarrow> bool" where
  "keeps_identity f \<longleftrightarrow> (\<forall>s. svc_Name (f s) = svc_Name s \<and> svc_UID (f s) = svc_UID s \<and> svc_ResourceVersion (f s) = svc_ResourceVersion s)"

lemma serviceAtGate_cases:
  assumes "serviceAtGate c g k = (r, k1)"
  shows "(k1 = k \<or> k1 = snd (GetService (ctl_kube c) (gate_App g) k)) \<and>
     (\<forall>s. r = Inr s \<longrightarrow> GetService (ctl_kube c) (gate_App g) k = (Inr s, k1) \<and> activationGateFor s = g \<and> gate_ResourceVersion g \<noteq> [])"
  using assms
  by (auto simp: serviceAtGate_def api_try_def requireAppResourceOwnership_def split: if_splits prod.splits sum.splits)

lemma gate_names: "activationGateFor s = g \<Longrightarrow> svc_Name s = gate_App g \<and> svc_UID s = gate_UID g \<and> svc_ResourceVersion s = gate_ResourceVersion g"
  by (auto simp: activationGateFor_def)

lemma gate_edit_cas:
  assumes law: "service_law (ctl_kube c) sv seen" and f: "keeps_identity f"
    and run: "io_bind (serviceAtGate c g) (\<lambda>s. updateActivationGate c (f s)) k = (r, k2)"
  shows "\<exists>k1. api_moves sv seen k k1 \<and> cas sv seen g f k1 r k2 \<and> (k1 = k \<or> k1 = snd (GetService (ctl_kube c) (gate_App g) k))"
proof -
  obtain q k1 where read: "serviceAtGate c g k = (q, k1)" by (cases "serviceAtGate c g k") auto
  have moves: "api_moves sv seen k k1"
    using serviceAtGate_cases [OF read] service_lawD(2) [OF law] api_moves_refl [of sv seen k] by (metis prod.collapse)
  have k1: "k1 = k \<or> k1 = snd (GetService (ctl_kube c) (gate_App g) k)" using serviceAtGate_cases [OF read] by blast
  show ?thesis
  proof (cases q)
    case (Inl e)
    then have "r = Inl e" "k2 = k1" using run read by (simp_all add: io_bind_def)
    then show ?thesis using moves k1 by (auto simp: cas_def)
  next
    case (Inr s)
    from serviceAtGate_cases [OF read] this have get: "GetService (ctl_kube c) (gate_App g) k = (Inr s, k1)"
      and gate: "activationGateFor s = g" and rv: "svc_ResourceVersion s \<noteq> []" by (auto simp: activationGateFor_def)
    have stored: "sv k (gate_App g) = Some s" using service_lawD(3) [OF law get] .
    have id: "svc_Name (f s) = gate_App g" "svc_UID (f s) = svc_UID s" "svc_ResourceVersion (f s) = svc_ResourceVersion s"
      using f gate_names [OF gate] by (simp_all add: keeps_identity_def)
    obtain u where upd: "UpdateService (ctl_kube c) (f s) k1 = (u, k2)"
      and r: "r = (case u of Inl e \<Rightarrow> Inl (if e = Api_Conflict \<or> e = Api_NotFound then superseded else of_api e) | Inr x \<Rightarrow> Inr (activationGateFor x))"
      using run read Inr by (auto simp: io_bind_def updateActivationGate_def api_try_def split: prod.splits sum.splits)
    have "svc_ResourceVersion (f s) \<noteq> []" using rv id by simp
    from service_lawD(4) [OF law upd this]
    have "cas sv seen g f k1 r k2"
    proof (elim disjE exE conjE)
      fix cur v
      assume cur: "sv k1 (svc_Name (f s)) = Some cur" "svc_ResourceVersion cur = svc_ResourceVersion (f s)"
        and w: "v \<notin> seen k1" "sv k2 = (sv k1)(svc_Name (f s) \<mapsto> (f s)\<lparr>svc_ResourceVersion := v\<rparr>)" "seen k2 = insert v (seen k1)"
      note cur = cur [unfolded id] and w = w [unfolded id]
      have "svc_ResourceVersion s \<in> seen k" using service_lawD(1) [OF law stored] by blast
      then have "cur = s" using moves cur stored unfolding api_moves_def by (metis option.inject)
      then have s: "sv k1 (gate_App g) = Some s" using cur by simp
      show "cas sv seen g f k1 r k2" if "u = Inr ((f s)\<lparr>svc_ResourceVersion := v\<rparr>)"
        unfolding cas_def using s gate w r that by auto
      show "cas sv seen g f k1 r k2" if "u = Inl (Api_Error t)" for t
        unfolding cas_def using s gate w r that by (auto simp: of_api_def)
    qed (auto simp: cas_def r)
    then show ?thesis using moves k1 by blast
  qed
qed

section \<open>Gate operations\<close>

datatype gate_op = Fence string | Retarget "service_port target"

definition run_gate_op :: "'k controller \<Rightarrow> gate \<Rightarrow> gate_op \<Rightarrow> ('k, gate) io" where
  "run_gate_op c g op = (case op of Fence operationID \<Rightarrow> ctl_FenceActivationGate c g operationID | Retarget t \<Rightarrow> ctl_ReplaceActivationTarget c g t)"

text \<open>The effect each of them is to have on the service.\<close>

definition gate_edit :: "gate_op \<Rightarrow> service \<Rightarrow> service" where
  "gate_edit op s = (case op of
       Fence operationID \<Rightarrow> s\<lparr>svc_Annotations := mput (svc_Annotations s) ''deployer.io/activation-operation'' operationID\<rparr>
     | Retarget t \<Rightarrow> s\<lparr>svc_Selector := target_Selector t, svc_Ports := target_Ports t\<rparr>)"

lemma edit_identity: "keeps_identity (gate_edit op)"
  by (cases op) (simp_all add: keeps_identity_def gate_edit_def)

lemma run_gate_op_cas:
  assumes law: "service_law (ctl_kube c) sv seen" and run: "run_gate_op c g op k = (r, k2)"
  shows "\<exists>k1. api_moves sv seen k k1 \<and> cas sv seen g (gate_edit op) k1 r k2 \<and> (k1 = k \<or> k1 = snd (GetService (ctl_kube c) (gate_App g) k))"
proof -
  consider e where "r = Inl e" "k2 = k" | "io_bind (serviceAtGate c g) (\<lambda>s. updateActivationGate c (gate_edit op s)) k = (r, k2)"
    using run by (cases op) (auto simp: run_gate_op_def ctl_FenceActivationGate_def ctl_ReplaceActivationTarget_def gate_edit_def split: if_splits)
  then show ?thesis
  proof cases
    case 1
    then show ?thesis using api_moves_refl [of sv seen k] by (auto simp: cas_def)
  next
    case 2
    then show ?thesis using gate_edit_cas [OF law edit_identity] by blast
  qed
qed

text \<open>A gate is spent when its version was given out and is no longer the current one.\<close>

definition spent :: "('k \<Rightarrow> string \<Rightarrow> service option) \<Rightarrow> ('k \<Rightarrow> string set) \<Rightarrow> gate \<Rightarrow> 'k \<Rightarrow> bool" where
  "spent sv seen g k \<longleftrightarrow> gate_ResourceVersion g \<in> seen k \<and> (\<forall>s. sv k (gate_App g) = Some s \<longrightarrow> svc_ResourceVersion s \<noteq> gate_ResourceVersion g)"

lemma spent_moves: "spent sv seen g k \<Longrightarrow> api_moves sv seen k k' \<Longrightarrow> spent sv seen g k'"
  unfolding spent_def api_moves_def by (metis subsetD)

lemma spent_cas: "spent sv seen g k \<Longrightarrow> cas sv seen g f k r k' \<Longrightarrow> k' = k \<and> (\<exists>e. r = Inl e)"
  by (auto simp: spent_def cas_def activationGateFor_def)

lemma cas_spends:
  assumes law: "service_law K sv seen" and "cas sv seen g f k (Inr g') k'"
  shows "spent sv seen g k'"
proof -
  obtain s v where s: "sv k (gate_App g) = Some s" "activationGateFor s = g" "v \<notin> seen k"
      "sv k' = (sv k)(gate_App g \<mapsto> (f s)\<lparr>svc_ResourceVersion := v\<rparr>)" "seen k' = insert v (seen k)"
    using assms(2) by (auto simp: cas_def)
  have "svc_ResourceVersion s \<in> seen k" using service_lawD(1) [OF law s(1)] by blast
  then show ?thesis using gate_names [OF s(2)] s(3) unfolding spent_def s(4,5) by auto
qed

lemma spent_gate_refused:
  assumes law: "service_law (ctl_kube c) sv seen" and spent: "spent sv seen g k" and run: "run_gate_op c g op k = (r, k2)"
  shows "(\<exists>e. r = Inl e) \<and> (k2 = k \<or> k2 = snd (GetService (ctl_kube c) (gate_App g) k))"
proof -
  obtain k1 where k1: "api_moves sv seen k k1" "cas sv seen g (gate_edit op) k1 r k2" "k1 = k \<or> k1 = snd (GetService (ctl_kube c) (gate_App g) k)"
    using run_gate_op_cas [OF law run] by blast
  show ?thesis using spent_cas [OF spent_moves [OF spent k1(1)] k1(2)] k1(3) by blast
qed

end
