(* ===== verification/Runtime_Safety.thy ===== *)
theory Runtime_Safety
  imports Gate_Safety Candidate_World
begin

text \<open>
  What a successful activation has checked, and what retirement makes impossible. A deployment that matches the
  rendered candidate runs exactly its hardened container, so drift of the cluster cannot be activated.
\<close>

section \<open>Activation\<close>

lemma api_call_ok: "api_call m k = (Inr x, k') \<longleftrightarrow> m k = (Inr x, k')"
  by (auto simp: api_call_def api_try_def split: prod.splits sum.splits)

lemma render_ok: "render r k = (Inr x, k') \<longleftrightarrow> r = Inr x \<and> k' = k"
  by (cases r) (auto simp: render_def)

lemma ownership_ok: "requireAppResourceOwnership kind n app l k = (Inr u, k') \<longleftrightarrow> k' = k \<and> mget l ''deployer.io/app'' = app"
  by (auto simp: requireAppResourceOwnership_def)

lemma if_ok: "(if b then io_fail e else m) k = (Inr x, k') \<longleftrightarrow> \<not> b \<and> m k = (Inr x, k')"
  by simp

lemma candidate_policy_ok:
  "candidate_policy c cfg rid k = (Inr p, k') \<longleftrightarrow> k' = k \<and> (\<exists>h base. cfg_Hosting cfg = Some h \<and>
     networkPolicyForHostedApp cfg (ctl_namespace c) = Some base \<and> candidateNetworkPolicyForApp (ctl_sha256 c) cfg h base rid = Inr p)"
  by (auto simp: candidate_policy_def render_ok split: option.splits)

lemmas ctl_ok = io_bind_ok io_wrap_ok api_call_ok render_ok ownership_ok if_ok

text \<open>What an activation has seen when it switches the service.\<close>

lemma activation_checks:
  assumes "ctl_ActivatePreparedCandidate c g cfg revision rid registry k = (Inr g', k')"
  obtains desired actual k1 n policy installed k2 s k3 where
    "CandidateDeploymentForApp (ctl_lib c) (ctl_sha256 c) cfg (ctl_namespace c) revision rid registry = Inr desired"
    "GetDeployment (ctl_kube c) (wl_Name desired) k = (Inr actual, k1)" "candidateDeploymentMatches actual desired"
    "\<not> wl_Deleting actual" "\<not> stale_observation actual" "dp_Replicas (wl_Spec desired) = Some n" "fully_ready n (wl_Status actual)"
    "candidate_policy c cfg rid k1 = (Inr policy, k1)" "GetPolicy (ctl_kube c) (np_Name policy) k1 = (Inr installed, k2)"
    "candidateNetworkPolicyMatches installed policy" "\<not> np_Deleting installed" "gate_App g = cfg_Name cfg" "gate_OperationID g = rid"
    "serviceAtGate c g k2 = (Inr s, k3)"
    "ctl_ReplaceActivationTarget c g \<lparr>target_Selector = (case dp_Selector (wl_Spec desired) of None \<Rightarrow> [] | Some l \<Rightarrow> ls_MatchLabels l),
       target_Ports = svc_Ports (candidateServiceForApp cfg (ctl_namespace c))\<rparr> k3 = (Inr g', k')"
proof -
  from assms obtain desired actual k1 where d:
      "CandidateDeploymentForApp (ctl_lib c) (ctl_sha256 c) cfg (ctl_namespace c) revision rid registry = Inr desired"
      "GetDeployment (ctl_kube c) (wl_Name desired) k = (Inr actual, k1)" "candidateDeploymentMatches actual desired"
      "gate_App g = cfg_Name cfg" "gate_OperationID g = rid"
    and rest: "(case dp_Replicas (wl_Spec desired) of None \<Rightarrow> io_fail (ErrRt RtNotReady)
        | Some replicas \<Rightarrow>
            if wl_Deleting actual \<or> wl_UID actual = [] \<or> stale_observation actual then io_fail (ErrRt RtNotReady)
            else if \<not> fully_ready replicas (wl_Status actual) then io_fail (ErrRt RtNotReady)
            else
              io_bind (candidate_policy c cfg rid) (\<lambda>policy.
              io_bind (api_call (GetPolicy (ctl_kube c) (np_Name policy))) (\<lambda>installed.
              io_bind (requireAppResourceOwnership ''NetworkPolicy'' (np_Name installed) (cfg_Name cfg) (np_Labels installed)) (\<lambda>_.
              if np_Deleting installed \<or> \<not> candidateNetworkPolicyMatches installed policy
              then io_fail (ErrText ''candidate network isolation changed'')
              else
                io_bind (serviceAtGate c g) (\<lambda>s.
                let t = candidateServiceForApp cfg (ctl_namespace c)
                in if map sp_Port (svc_Ports s) \<noteq> map sp_Port (svc_Ports t)
                   then io_fail (ErrText ''candidate port change requires route coordination'')
                   else ctl_ReplaceActivationTarget c g
                     \<lparr>target_Selector = (case dp_Selector (wl_Spec desired) of None \<Rightarrow> [] | Some l \<Rightarrow> ls_MatchLabels l), target_Ports = svc_Ports t\<rparr>))))) k1 = (Inr g', k')"
    unfolding ctl_ActivatePreparedCandidate_def ctl_ok de_Morgan_disj not_not by blast
  from rest obtain n where n: "dp_Replicas (wl_Spec desired) = Some n" by (cases "dp_Replicas (wl_Spec desired)") auto
  from rest [unfolded n option.case ctl_ok de_Morgan_disj not_not Let_def] obtain policy k1' installed k2 s k3 where
    "\<not> wl_Deleting actual" "\<not> stale_observation actual" "fully_ready n (wl_Status actual)" "candidate_policy c cfg rid k1 = (Inr policy, k1')"
    "GetPolicy (ctl_kube c) (np_Name policy) k1' = (Inr installed, k2)" "candidateNetworkPolicyMatches installed policy" "\<not> np_Deleting installed"
    "serviceAtGate c g k2 = (Inr s, k3)"
    "ctl_ReplaceActivationTarget c g \<lparr>target_Selector = (case dp_Selector (wl_Spec desired) of None \<Rightarrow> [] | Some l \<Rightarrow> ls_MatchLabels l),
       target_Ports = svc_Ports (candidateServiceForApp cfg (ctl_namespace c))\<rparr> k3 = (Inr g', k')"
    unfolding n option.case by blast
  moreover from this(4) have "k1' = k1" unfolding candidate_policy_ok by blast
  ultimately show ?thesis using that d n by blast
qed

text \<open>The pods of a matching deployment run the hardened container of the configuration and nothing else.\<close>

lemma matching_candidate_hardened:
  assumes "CandidateDeploymentForApp lib sha256 cfg namespace revision rid registry = Inr desired" and "candidateDeploymentMatches actual desired"
  obtains h c resources where "cfg_Hosting (Normalize cfg) = Some h" "ps_Containers (dp_Pod (wl_Spec actual)) = [c]"
    "ct_core c = (cfg_Name (Normalize cfg), cfg_Image (Normalize cfg), Some (hosted_context h), resources)" "ResourceRequirements lib (Some h) = Inr resources"
    "ps_AutomountServiceAccountToken (dp_Pod (wl_Spec actual)) = Some False"
proof -
  obtain h where h: "cfg_Hosting cfg = Some h"
      "candidateDeploymentForGeneration lib sha256 cfg h namespace revision (candidateGeneration sha256 (cfg_Name cfg) rid) registry = Inr desired"
    using CandidateDeploymentForApp_ok [OF assms(1)] by blast
  obtain d0 where d0: "deploymentForApp lib sha256 cfg namespace revision = Inr d0"
      "ps_AutomountServiceAccountToken (dp_Pod (wl_Spec desired)) = ps_AutomountServiceAccountToken (dp_Pod (wl_Spec d0))"
      "ps_Containers (dp_Pod (wl_Spec desired)) = ps_Containers (dp_Pod (wl_Spec d0))"
    using candidateDeployment_core [OF h(2)] by blast
  have h': "cfg_Hosting (Normalize cfg) = Some h" using h(1) by (simp add: Normalize_def)
  obtain resources where r: "ResourceRequirements lib (Some h) = Inr resources" "ps_AutomountServiceAccountToken (dp_Pod (wl_Spec d0)) = Some False"
      "map ct_core (ps_Containers (dp_Pod (wl_Spec d0))) = [(cfg_Name (Normalize cfg), cfg_Image (Normalize cfg), Some (hosted_context h), resources)]"
    using deploymentForApp_hosted [OF d0(1) h'] by (auto simp: wl_core_def)
  have "map ct_core (ps_Containers (dp_Pod (wl_Spec actual))) = map fst (map ct_exact (ps_Containers (dp_Pod (wl_Spec actual))))"
    by (simp add: ct_exact_def comp_def)
  also have "\<dots> = map fst (map ct_exact (ps_Containers (dp_Pod (wl_Spec desired))))" using matches_exact(6) [OF assms(2)] by simp
  also have "\<dots> = map ct_core (ps_Containers (dp_Pod (wl_Spec d0)))" by (simp add: d0(3) ct_exact_def comp_def)
  finally obtain c where "ps_Containers (dp_Pod (wl_Spec actual)) = [c]"
      "ct_core c = (cfg_Name (Normalize cfg), cfg_Image (Normalize cfg), Some (hosted_context h), resources)"
    using r(3) by auto
  then show ?thesis using that h' r(1,2) d0(2) matches_exact(7) [OF assms(2)] by metis
qed

section \<open>Retirement\<close>

definition retired :: "workload \<Rightarrow> bool" where
  "retired d \<longleftrightarrow> map_of (wl_Annotations d) ''deployer.io/candidate-retired'' = Some ''true''"

lemma tombstone_retired: "retired (tombstone d)"
  by (simp add: retired_def tombstone_def)

text \<open>A rendered candidate is never mistaken for a retired one.\<close>

lemma retired_no_match:
  assumes "CandidateDeploymentForApp lib sha256 cfg namespace revision rid registry = Inr desired" and "retired actual"
  shows "\<not> candidateDeploymentMatches actual desired"
proof
  assume m: "candidateDeploymentMatches actual desired"
  obtain h where h: "candidateDeploymentForGeneration lib sha256 cfg h namespace revision (candidateGeneration sha256 (cfg_Name cfg) rid) registry = Inr desired"
    using CandidateDeploymentForApp_ok [OF assms(1)] by blast
  then obtain d0 where "deploymentForApp lib sha256 cfg namespace revision = Inr d0" "wl_Annotations desired = wl_Annotations d0"
    using candidateDeployment_core [OF h] by blast
  then have "fst ` set (wl_Annotations desired) \<subseteq> {''deployer.io/retained-storage-claim'', ''deployer.io/retained-storage-claims''}"
    using rendered_annotations by metis
  then have "map_of (wl_Annotations desired) ''deployer.io/candidate-retired'' = None" by (auto simp: map_of_eq_None_iff)
  then show False using matches_annotation [OF m, of "''deployer.io/candidate-retired''"] assms(2) by (simp add: retired_def)
qed

text \<open>\<open>dv\<close> are the stored deployments; nobody deletes a tombstone or removes its mark.\<close>

definition kept :: "('k \<Rightarrow> string \<Rightarrow> workload option) \<Rightarrow> 'k \<Rightarrow> 'k \<Rightarrow> bool" where
  "kept dv k k' \<longleftrightarrow> (\<forall>n d. dv k n = Some d \<and> retired d \<longrightarrow> (\<exists>d'. dv k' n = Some d' \<and> retired d'))"

definition tombstoned :: "('k \<Rightarrow> string \<Rightarrow> workload option) \<Rightarrow> string \<Rightarrow> 'k \<Rightarrow> bool" where
  "tombstoned dv n k \<longleftrightarrow> (\<exists>d. dv k n = Some d \<and> retired d)"

text \<open>
  A read returns what is stored or that there is nothing, after which other clients may act; an accepted write
  is stored with the annotations it has. The calls about policies leave deployments alone.
\<close>

definition deployment_law :: "'k kube \<Rightarrow> ('k \<Rightarrow> string \<Rightarrow> workload option) \<Rightarrow> bool" where
  "deployment_law K dv \<longleftrightarrow>
     (\<forall>n k r k'. GetDeployment K n k = (r, k') \<longrightarrow> kept dv k k' \<and> (\<forall>d. r = Inr d \<longrightarrow> dv k n = Some d \<and> wl_Name d = n) \<and> (r = Inl Api_NotFound \<longrightarrow> dv k n = None)) \<and>
     (\<forall>d k d' k'. CreateDeployment K d k = (Inr d', k') \<longrightarrow> dv k' (wl_Name d) = Some d' \<and> wl_Annotations d' = wl_Annotations d) \<and>
     (\<forall>d k d' k'. UpdateDeployment K d k = (Inr d', k') \<longrightarrow> dv k' (wl_Name d) = Some d' \<and> wl_Annotations d' = wl_Annotations d) \<and>
     (\<forall>n k. kept dv k (snd (GetPolicy K n k))) \<and> (\<forall>p k. kept dv k (snd (CreatePolicy K p k)))"

lemma deployment_lawD:
  assumes "deployment_law K dv"
  shows "GetDeployment K n k = (r, k') \<Longrightarrow> kept dv k k'" and "GetDeployment K n k = (Inr d, k') \<Longrightarrow> dv k n = Some d \<and> wl_Name d = n"
    and "GetDeployment K n k = (Inl Api_NotFound, k') \<Longrightarrow> dv k n = None"
    and "CreateDeployment K d k = (Inr d', k') \<Longrightarrow> dv k' (wl_Name d) = Some d' \<and> wl_Annotations d' = wl_Annotations d"
    and "UpdateDeployment K d k = (Inr d', k') \<Longrightarrow> dv k' (wl_Name d) = Some d' \<and> wl_Annotations d' = wl_Annotations d"
    and "kept dv k (snd (GetPolicy K n k))" and "kept dv k (snd (CreatePolicy K p k))"
  using assms unfolding deployment_law_def by blast+

lemma kept_tombstoned: "kept dv k k' \<Longrightarrow> tombstoned dv n k \<Longrightarrow> tombstoned dv n k'"
  by (auto simp: kept_def tombstoned_def)

lemma candidate_name:
  assumes "CandidateDeploymentForApp lib sha256 cfg namespace revision rid registry = Inr desired"
  shows "wl_Name desired = candidateDeploymentName sha256 (cfg_Name cfg) rid"
proof -
  obtain h where "candidateDeploymentForGeneration lib sha256 cfg h namespace revision (candidateGeneration sha256 (cfg_Name cfg) rid) registry = Inr desired"
    using CandidateDeploymentForApp_ok [OF assms] by blast
  then show ?thesis using candidateDeployment_core unfolding candidateDeploymentName_def by blast
qed

lemma retire_leaves_tombstone:
  assumes law: "deployment_law (ctl_kube c) dv" and run: "ctl_RetireCandidateDeployment c cfg revision rid registry k = (Inr (), k')"
  shows "tombstoned dv (candidateDeploymentName (ctl_sha256 c) (cfg_Name cfg) rid) k'"
proof -
  let ?n = "candidateDeploymentName (ctl_sha256 c) (cfg_Name cfg) rid"
  obtain desired where desired: "CandidateDeploymentForApp (ctl_lib c) (ctl_sha256 c) cfg (ctl_namespace c) revision rid registry = Inr desired"
    and rest: "api_try (GetDeployment (ctl_kube c) (wl_Name desired)) (\<lambda>r. case r of
         Inl e \<Rightarrow> if e = Api_NotFound
           then io_bind (io_wrap (ErrText ''create candidate retirement tombstone'') (api_call (CreateDeployment (ctl_kube c) (tombstone desired)))) (\<lambda>_. io_ret ())
           else io_fail (ErrText ''read candidate deployment for retirement'')
       | Inr existing \<Rightarrow>
           if wl_UID existing = [] \<or> wl_ResourceVersion existing = [] \<or> wl_Deleting existing
           then io_fail (ErrText ''candidate deployment lacks a stable retirement identity'')
           else
             io_bind (requireAppResourceOwnership ''Deployment'' (wl_Name existing) (cfg_Name cfg) (wl_Labels existing)) (\<lambda>_.
             if \<not> candidateDeploymentMatches existing desired \<and> \<not> candidateDeploymentMatches existing (tombstone desired)
             then io_fail (ErrText ''candidate deployment identity or content changed'')
             else if candidateDeploymentMatches existing (tombstone desired) then io_ret ()
             else api_try (UpdateDeployment (ctl_kube c) (tombstone existing)) (\<lambda>r. case r of
                 Inl e \<Rightarrow> io_fail (ErrText (if e = Api_Conflict \<or> e = Api_NotFound then ''candidate retirement was superseded; retry after reread''
                   else ''retire candidate deployment''))
               | Inr _ \<Rightarrow> io_ret ()))) k = (Inr (), k')"
    using run unfolding ctl_RetireCandidateDeployment_def ctl_ok by blast
  have name: "wl_Name desired = ?n" using candidate_name [OF desired] .
  obtain r k1 where get: "GetDeployment (ctl_kube c) ?n k = (r, k1)" by (cases "GetDeployment (ctl_kube c) ?n k") auto
  have written: "tombstoned dv ?n k'" if "dv k' (wl_Name d) = Some d'" "wl_Annotations d' = wl_Annotations (tombstone d)" "wl_Name d = ?n" for d d'
    using that tombstone_retired [of d] by (auto simp: tombstoned_def retired_def)
  have tname: "wl_Name (tombstone d) = wl_Name d" for d by (simp add: tombstone_def)
  show ?thesis
  proof (cases r)
    case (Inl e)
    then obtain d' where "CreateDeployment (ctl_kube c) (tombstone desired) k1 = (Inr d', k')"
      using rest get name by (auto simp: api_try_def ctl_ok split: if_splits)
    then show ?thesis using deployment_lawD(4) [OF law] written [of desired d'] name tname by metis
  next
    case (Inr existing)
    have e: "dv k ?n = Some existing" "wl_Name existing = ?n" using deployment_lawD(2) [OF law] get Inr by blast+
    from rest get name Inr consider
        "candidateDeploymentMatches existing (tombstone desired)" "k' = k1"
      | d' where "UpdateDeployment (ctl_kube c) (tombstone existing) k1 = (Inr d', k')"
      by (auto simp: api_try_def ctl_ok split: if_splits prod.splits sum.splits)
    then show ?thesis
    proof cases
      case 1
      have "retired existing"
        using matches_annotation [OF 1(1), of "''deployer.io/candidate-retired''"] tombstone_retired [of desired] by (simp add: retired_def)
      then have "tombstoned dv ?n k" using e by (auto simp: tombstoned_def)
      then show ?thesis unfolding 1(2) by (rule kept_tombstoned [OF deployment_lawD(1) [OF law get]])
    next
      case 2
      then show ?thesis using deployment_lawD(5) [OF law 2] written [of existing d'] e(2) tname by metis
    qed
  qed
qed

lemma ensure_policy_kept:
  assumes law: "deployment_law (ctl_kube c) dv" and run: "ensureCandidateNetworkPolicy c policy k = (Inr v, k1)"
  shows "kept dv k k1"
proof -
  obtain r k0 where get: "GetPolicy (ctl_kube c) (np_Name policy) k = (r, k0)" by (cases "GetPolicy (ctl_kube c) (np_Name policy) k") auto
  have k0: "kept dv k k0" using deployment_lawD(6) [OF law, of k "np_Name policy"] get by simp
  from run get have "k1 = k0 \<or> k1 = snd (CreatePolicy (ctl_kube c) policy k0)"
    by (auto simp: ensureCandidateNetworkPolicy_def api_try_def ctl_ok split: sum.splits if_splits)
  then show ?thesis using k0 deployment_lawD(7) [OF law, of k0 policy] unfolding kept_def by metis
qed

text \<open>While the tombstone is there, the candidate can be neither prepared nor activated again.\<close>

lemma tombstoned_refuses:
  assumes law: "deployment_law (ctl_kube c) dv" and t: "tombstoned dv (candidateDeploymentName (ctl_sha256 c) (cfg_Name cfg) rid) k"
  shows "\<exists>e. fst (ctl_PrepareCandidateDeployment c cfg revision rid registry k) = Inl e"
    and "\<exists>e. fst (ctl_ActivatePreparedCandidate c g cfg revision rid registry k) = Inl e"
proof -
  let ?n = "candidateDeploymentName (ctl_sha256 c) (cfg_Name cfg) rid"
  have read: "retired d" if "GetDeployment (ctl_kube c) ?n k1 = (Inr d, k2)" "tombstoned dv ?n k1" for d k1 k2
    using that deployment_lawD(2) [OF law that(1)] by (auto simp: tombstoned_def)
  show "\<exists>e. fst (ctl_ActivatePreparedCandidate c g cfg revision rid registry k) = Inl e"
  proof (rule ccontr)
    assume "\<nexists>e. fst (ctl_ActivatePreparedCandidate c g cfg revision rid registry k) = Inl e"
    then obtain g' k' where "ctl_ActivatePreparedCandidate c g cfg revision rid registry k = (Inr g', k')"
      by (cases "ctl_ActivatePreparedCandidate c g cfg revision rid registry k") (metis fst_conv sum.exhaust)
    then obtain desired actual k1 where "CandidateDeploymentForApp (ctl_lib c) (ctl_sha256 c) cfg (ctl_namespace c) revision rid registry = Inr desired"
        "GetDeployment (ctl_kube c) (wl_Name desired) k = (Inr actual, k1)" "candidateDeploymentMatches actual desired"
      by (rule activation_checks)
    then show False using read [of k actual k1] t candidate_name retired_no_match by metis
  qed
  show "\<exists>e. fst (ctl_PrepareCandidateDeployment c cfg revision rid registry k) = Inl e"
  proof (rule ccontr)
    assume "\<nexists>e. fst (ctl_PrepareCandidateDeployment c cfg revision rid registry k) = Inl e"
    then obtain u k' where run: "ctl_PrepareCandidateDeployment c cfg revision rid registry k = (Inr u, k')"
      by (cases "ctl_PrepareCandidateDeployment c cfg revision rid registry k") (metis fst_conv sum.exhaust)
    then obtain desired policy k0 k1 v where desired: "CandidateDeploymentForApp (ctl_lib c) (ctl_sha256 c) cfg (ctl_namespace c) revision rid registry = Inr desired"
      and p: "ensureCandidateNetworkPolicy c policy k0 = (Inr v, k1)" "k0 = k"
      and rest: "api_try (GetDeployment (ctl_kube c) (wl_Name desired)) (\<lambda>r. case r of
         Inl e \<Rightarrow> if e = Api_NotFound
           then io_bind (io_wrap (ErrText ''create candidate deployment'') (api_call (CreateDeployment (ctl_kube c) desired))) (\<lambda>_. io_ret ())
           else io_fail (ErrText ''read candidate deployment'')
       | Inr existing \<Rightarrow>
           io_bind (requireAppResourceOwnership ''Deployment'' (wl_Name existing) (cfg_Name cfg) (wl_Labels existing)) (\<lambda>_.
           if \<not> candidateDeploymentMatches existing desired
           then io_fail (ErrText ''candidate deployment already exists with different immutable content'') else io_ret ())) k1 = (Inr u, k')"
      unfolding ctl_PrepareCandidateDeployment_def ctl_ok candidate_policy_ok by blast
    have "kept dv k k1" using ensure_policy_kept [OF law p(1)] p(2) by simp
    then have t1: "tombstoned dv ?n k1" using t by (rule kept_tombstoned)
    obtain r k2 where get: "GetDeployment (ctl_kube c) ?n k1 = (r, k2)" by (cases "GetDeployment (ctl_kube c) ?n k1") auto
    show False
    proof (cases r)
      case (Inl e)
      then show False using rest get candidate_name [OF desired] t1 deployment_lawD(3) [OF law, of ?n k1 k2]
        by (auto simp: api_try_def tombstoned_def split: if_splits)
    next
      case (Inr d)
      then show False using rest get candidate_name [OF desired] t1 read [of k1 d k2] retired_no_match [OF desired, of d]
        by (auto simp: api_try_def ctl_ok)
    qed
  qed
qed

end
