(* ===== verification/Capacity.thy ===== *)
theory Capacity
  imports Activation
begin

text \<open>
  Capacity admission of hosted apps, \<^verbatim>\<open>internal/ingress/hosting.go\<close>, with the node predicates of
  \<^verbatim>\<open>nodes.go\<close> and \<^verbatim>\<open>postgres.go\<close>: the replicas and the surge of a rollout are placed one by one on the first node
  with room. The theorem is that this greedy test is exact: it accepts if and only if the pods can be placed at all.
\<close>

section \<open>Resources\<close>

text \<open>
  A resource list with the entries the code reads. Quantities compute exactly and are rationals; the numbers of pods of a
  node, which the code keeps in \<^verbatim>\<open>int64\<close>, are integers.
\<close>

record resource_list =
  rl_CPU :: "rat option"
  rl_Memory :: "rat option"
  rl_Ephemeral :: "rat option"
  rl_Pods :: "int option"

record resourceVector =
  rv_cpu :: rat
  rv_memory :: rat
  rv_ephemeral :: rat
  rv_pods :: int

definition or_zero :: "'a :: zero option \<Rightarrow> 'a" where
  "or_zero x = (case x of None \<Rightarrow> 0 | Some y \<Rightarrow> y)"

definition resourceVectorFromList :: "resource_list \<Rightarrow> resourceVector \<times> bool" where
  "resourceVectorFromList l = (\<lparr>rv_cpu = or_zero (rl_CPU l), rv_memory = or_zero (rl_Memory l), rv_ephemeral = or_zero (rl_Ephemeral l), rv_pods = or_zero (rl_Pods l)\<rparr>,
     rl_CPU l \<noteq> None \<and> rl_Memory l \<noteq> None \<and> rl_Ephemeral l \<noteq> None \<and> rl_Pods l \<noteq> None)"

definition resourceVectorFromRequests :: "resource_list \<Rightarrow> resourceVector" where
  "resourceVectorFromRequests l = \<lparr>rv_cpu = or_zero (rl_CPU l), rv_memory = or_zero (rl_Memory l), rv_ephemeral = or_zero (rl_Ephemeral l), rv_pods = 0\<rparr>"

definition anyNegative :: "resourceVector \<Rightarrow> bool" where
  "anyNegative r \<longleftrightarrow> rv_pods r < 0 \<or> rv_cpu r < 0 \<or> rv_memory r < 0 \<or> rv_ephemeral r < 0"

definition fits :: "resourceVector \<Rightarrow> resourceVector \<Rightarrow> bool" where
  "fits r request \<longleftrightarrow> rv_pods r \<ge> rv_pods request \<and> rv_cpu r \<ge> rv_cpu request \<and> rv_memory r \<ge> rv_memory request \<and> rv_ephemeral r \<ge> rv_ephemeral request"

definition subtract :: "resourceVector \<Rightarrow> resourceVector \<Rightarrow> resourceVector" where
  "subtract r v = \<lparr>rv_cpu = rv_cpu r - rv_cpu v, rv_memory = rv_memory r - rv_memory v, rv_ephemeral = rv_ephemeral r - rv_ephemeral v, rv_pods = rv_pods r - rv_pods v\<rparr>"

definition rv_add :: "resourceVector \<Rightarrow> resourceVector \<Rightarrow> resourceVector" where
  "rv_add r v = \<lparr>rv_cpu = rv_cpu r + rv_cpu v, rv_memory = rv_memory r + rv_memory v, rv_ephemeral = rv_ephemeral r + rv_ephemeral v, rv_pods = rv_pods r + rv_pods v\<rparr>"

definition zero_vector :: resourceVector where
  "zero_vector = \<lparr>rv_cpu = 0, rv_memory = 0, rv_ephemeral = 0, rv_pods = 0\<rparr>"

section \<open>Nodes and pods\<close>

record kube_node =
  kn_Name :: string
  kn_Unschedulable :: bool
  kn_Conditions :: "(string \<times> string) list"
  kn_TaintEffects :: "string list"
  kn_Labels :: gomap
  kn_Allocatable :: resource_list

record kube_pod =
  po_Namespace :: string
  po_Name :: string
  po_Phase :: string
  po_NodeName :: string
  po_PodResources :: bool
  po_Containers :: "resource_list list"
  po_InitContainers :: "resource_list list"
  po_Overhead :: resource_list

definition readyForScheduling :: "kube_node \<Rightarrow> bool" where
  "readyForScheduling n = (case find (\<lambda>(t, _). t = ''Ready'') (kn_Conditions n) of None \<Rightarrow> False | Some (_, s) \<Rightarrow> s = ''True'')"

definition hasBlockingTaint :: "kube_node \<Rightarrow> bool" where
  "hasBlockingTaint n \<longleftrightarrow> list_ex (\<lambda>e. e = ''NoSchedule'' \<or> e = ''NoExecute'') (kn_TaintEffects n)"

definition matchesPlacement :: "kube_node \<Rightarrow> config \<Rightarrow> bool" where
  "matchesPlacement n cfg =
     (let arch = placementArchitecture (placement_Arch (cfg_Placement cfg))
      in if arch \<noteq> [] \<and> mget (kn_Labels n) ''kubernetes.io/arch'' \<noteq> arch then False
         else if resilience_Mode (cfg_Resilience cfg) \<noteq> ''pinned'' then True
         else case placement_Prefer (cfg_Placement cfg) of
             [prefer] \<Rightarrow> list_all (\<lambda>(k, v). mget (kn_Labels n) (placementLabelKey k) = v) prefer
           | _ \<Rightarrow> True)"

definition podRequest :: "kube_pod \<Rightarrow> resourceVector" where
  "podRequest p = (fold (\<lambda>l r. rv_add r (resourceVectorFromRequests l)) (po_Containers p @ po_InitContainers p @ [po_Overhead p]) zero_vector)\<lparr>rv_pods := 1\<rparr>"

section \<open>Admission\<close>

datatype capacity_err =
    Clients_required | Requirements_invalid cfg_err | Negative_request | List_nodes_failed | Capacity_unknown string | No_eligible_nodes | List_pods_failed
  | Pod_unassigned string | Pod_resources_unsupported string | Too_few_nodes int int | No_room nat int

type_synonym free_map = "string \<Rightarrow> resourceVector option"

definition eligible :: "config \<Rightarrow> kube_node \<Rightarrow> bool" where
  "eligible cfg n \<longleftrightarrow> \<not> (kn_Unschedulable n \<or> \<not> readyForScheduling n \<or> hasBlockingTaint n \<or> \<not> matchesPlacement n cfg)"

fun node_capacities :: "config \<Rightarrow> kube_node list \<Rightarrow> free_map \<Rightarrow> string list \<Rightarrow> capacity_err + (free_map \<times> string list)" where
  "node_capacities cfg [] free names = Inr (free, names)"
| "node_capacities cfg (n # ns) free names =
     (if \<not> eligible cfg n then node_capacities cfg ns free names
      else (case resourceVectorFromList (kn_Allocatable n) of (capacity, known) \<Rightarrow>
        if \<not> known then Inl (Capacity_unknown (kn_Name n))
        else node_capacities cfg ns (free(kn_Name n \<mapsto> capacity)) (names @ [kn_Name n])))"

fun subtract_pods :: "kube_pod list \<Rightarrow> free_map \<Rightarrow> capacity_err + free_map" where
  "subtract_pods [] free = Inr free"
| "subtract_pods (p # ps) free =
     (if po_Phase p = ''Succeeded'' \<or> po_Phase p = ''Failed'' then subtract_pods ps free
      else if po_NodeName p = [] then Inl (Pod_unassigned (po_Namespace p @ ''/'' @ po_Name p))
      else case free (po_NodeName p) of None \<Rightarrow> subtract_pods ps free
        | Some remaining \<Rightarrow>
            if po_PodResources p then Inl (Pod_resources_unsupported (po_Namespace p @ ''/'' @ po_Name p))
            else subtract_pods ps (free(po_NodeName p \<mapsto> subtract remaining (podRequest p))))"

text \<open>A missing entry of the Go map reads as the zero vector.\<close>

definition free_at :: "free_map \<Rightarrow> string \<Rightarrow> resourceVector" where
  "free_at free n = (case free n of None \<Rightarrow> zero_vector | Some v \<Rightarrow> v)"

text \<open>
  The loop from \<open>index\<close> on, with \<open>fuel\<close> pods left; \<open>used\<close> are the nodes of the replicas that must be spread. No node
  chosen is the empty name.
\<close>

fun place_pods :: "bool \<Rightarrow> int \<Rightarrow> int \<Rightarrow> resourceVector \<Rightarrow> string list \<Rightarrow> nat \<Rightarrow> nat \<Rightarrow> free_map \<Rightarrow> string list \<Rightarrow> capacity_err + unit" where
  "place_pods resilient maxReplicas podCount requested names 0 index free used = Inr ()"
| "place_pods resilient maxReplicas podCount requested names (Suc fuel) index free used =
     (let spread = (resilient \<and> int index < maxReplicas)
      in case find (\<lambda>n. \<not> (spread \<and> n \<in> set used) \<and> fits (free_at free n) requested) names of
          None \<Rightarrow> Inl (No_room (Suc index) podCount)
        | Some chosen \<Rightarrow> if chosen = [] then Inl (No_room (Suc index) podCount)
            else place_pods resilient maxReplicas podCount requested names fuel (Suc index)
              (free(chosen \<mapsto> subtract (free_at free chosen) requested)) (if spread then chosen # used else used))"

definition to_int64 :: "int \<Rightarrow> int" where
  "to_int64 i = (i + 2 ^ 63) mod 2 ^ 64 - 2 ^ 63"

text \<open>Division in Go rounds towards zero.\<close>

definition go_quot :: "int \<Rightarrow> int \<Rightarrow> int" where
  "go_quot a b = sgn a * sgn b * (\<bar>a\<bar> div \<bar>b\<bar>)"

definition rolloutSurge :: "config \<Rightarrow> hosting_config \<Rightarrow> int" where
  "rolloutSurge cfg h = (if cfg_Storage cfg \<noteq> None then 0 else if resilience_Mode (cfg_Resilience cfg) = ''resilient'' then 1
     else go_quot (to_int64 (hosting_MaxReplicas h + 3)) 4)"

definition requestedVector :: "(rat \<times> rat \<times> rat) \<Rightarrow> resourceVector" where
  "requestedVector r = (case r of (c, m, e) \<Rightarrow> \<lparr>rv_cpu = c, rv_memory = m, rv_ephemeral = e, rv_pods = 1\<rparr>)"

text \<open>The answers of the two list calls are arguments, \<^const>\<open>None\<close> where the controller has no such client.\<close>

definition preflightHostingCapacity :: "k8s_lib \<Rightarrow> config \<Rightarrow> (api_err + kube_node list) option \<Rightarrow> (api_err + kube_pod list) option \<Rightarrow> capacity_err + unit" where
  "preflightHostingCapacity lib cfg nodes pods = (case cfg_Hosting cfg of None \<Rightarrow> Inr ()
     | Some h \<Rightarrow> if nodes = None \<or> pods = None then Inl Clients_required else
         rbind (map_err Requirements_invalid (ResourceRequirements lib (Some h))) (\<lambda>requirements.
         let requested = requestedVector (case requirements of None \<Rightarrow> (0, 0, 0) | Some (req, _) \<Rightarrow> req);
             resilient = (resilience_Mode (cfg_Resilience cfg) = ''resilient'');
             podCount = to_int64 (hosting_MaxReplicas h + rolloutSurge cfg h)
         in if anyNegative requested then Inl Negative_request
            else case the nodes of Inl _ \<Rightarrow> Inl List_nodes_failed
            | Inr ns \<Rightarrow>
                rbind (node_capacities cfg ns (\<lambda>_. None) []) (\<lambda>(free, names).
                let names = sort names
                in if length names = 0 then Inl No_eligible_nodes
                   else case the pods of Inl _ \<Rightarrow> Inl List_pods_failed
                   | Inr ps \<Rightarrow>
                       rbind (subtract_pods ps free) (\<lambda>free.
                       if resilient \<and> hosting_MaxReplicas h > int (length names) then Inl (Too_few_nodes (hosting_MaxReplicas h) (int (length names)))
                       else place_pods resilient (hosting_MaxReplicas h) podCount requested names (nat podCount) 0 free []))))"

section \<open>How many pods a node has room for\<close>

function cap :: "resourceVector \<Rightarrow> resourceVector \<Rightarrow> nat" where
  "cap r v = (if rv_pods r \<ge> 1 \<and> fits v r then Suc (cap r (subtract v r)) else 0)"
  by pat_completeness auto
termination
  by (relation "measure (\<lambda>(r, v). nat (rv_pods v))") (auto simp: fits_def subtract_def)

declare cap.simps [simp del]

lemma cap_pos: "rv_pods r \<ge> 1 \<Longrightarrow> 0 < cap r v \<longleftrightarrow> fits v r"
  by (subst cap.simps) simp

lemma cap_subtract: "rv_pods r \<ge> 1 \<Longrightarrow> fits v r \<Longrightarrow> cap r v = Suc (cap r (subtract v r))"
  by (subst cap.simps) simp

text \<open>Room for \<open>c\<close> copies of the request at once.\<close>

definition room :: "nat \<Rightarrow> resourceVector \<Rightarrow> resourceVector \<Rightarrow> bool" where
  "room c r v \<longleftrightarrow> rv_pods v \<ge> int c * rv_pods r \<and> rv_cpu v \<ge> of_nat c * rv_cpu r \<and> rv_memory v \<ge> of_nat c * rv_memory r \<and>
     rv_ephemeral v \<ge> of_nat c * rv_ephemeral r"

lemma copies_split:
  fixes x y :: "'a :: linordered_idom"
  assumes "0 \<le> x"
  shows "of_nat (Suc (Suc c)) * x \<le> y \<longleftrightarrow> x \<le> y \<and> of_nat (Suc c) * x \<le> y - x"
proof -
  have "0 \<le> of_nat (Suc c) * x" using assms by (intro mult_nonneg_nonneg) simp_all
  moreover have "of_nat (Suc (Suc c)) * x = of_nat (Suc c) * x + x" by (simp add: algebra_simps)
  ultimately show ?thesis by linarith
qed

lemma room_Suc:
  assumes "\<not> anyNegative r"
  shows "room (Suc (Suc c)) r v \<longleftrightarrow> fits v r \<and> room (Suc c) r (subtract v r)"
proof -
  have nonneg: "0 \<le> rv_pods r" "0 \<le> rv_cpu r" "0 \<le> rv_memory r" "0 \<le> rv_ephemeral r" using assms by (auto simp: anyNegative_def)
  show ?thesis
    using copies_split [OF nonneg(1), of c "rv_pods v"] copies_split [OF nonneg(2), of c "rv_cpu v"] copies_split [OF nonneg(3), of c "rv_memory v"] copies_split [OF nonneg(4), of c "rv_ephemeral v"]
    unfolding room_def fits_def subtract_def by auto
qed

lemma room_cap: "rv_pods r \<ge> 1 \<Longrightarrow> \<not> anyNegative r \<Longrightarrow> room (Suc c) r v \<longleftrightarrow> Suc c \<le> cap r v"
proof (induction c arbitrary: v)
  case 0
  then show ?case using cap_pos [of r v] by (auto simp: room_def fits_def)
next
  case (Suc c)
  show ?case
  proof (cases "fits v r")
    case True
    then show ?thesis using Suc.IH [OF Suc.prems, of "subtract v r"] cap_subtract [OF Suc.prems(1) True] room_Suc [OF Suc.prems(2), of c v] by simp
  next
    case False
    then show ?thesis using cap_pos [OF Suc.prems(1), of v] room_Suc [OF Suc.prems(2), of c v] by simp
  qed
qed

section \<open>The greedy loop\<close>

definition total_room :: "resourceVector \<Rightarrow> string list \<Rightarrow> free_map \<Rightarrow> nat" where
  "total_room r names free = (\<Sum>n \<in> set names. cap r (free_at free n))"

definition open_nodes :: "resourceVector \<Rightarrow> string list \<Rightarrow> free_map \<Rightarrow> string list \<Rightarrow> string set" where
  "open_nodes r names free used = {n \<in> set names. n \<notin> set used \<and> 0 < cap r (free_at free n)}"

lemma free_at_upd: "free_at (free(n \<mapsto> v)) m = (if m = n then v else free_at free m)"
  by (simp add: free_at_def)

text \<open>Placing a pod takes one from the room of its node.\<close>

lemma place_one:
  assumes "rv_pods r \<ge> 1" and "c \<in> set names" and "fits (free_at free c) r"
  shows "total_room r names free = Suc (total_room r names (free(c \<mapsto> subtract (free_at free c) r)))"
proof -
  have rest: "(\<Sum>n \<in> set names - {c}. cap r (free_at (free(c \<mapsto> subtract (free_at free c) r)) n)) = (\<Sum>n \<in> set names - {c}. cap r (free_at free n))"
    by (rule sum.cong) (auto simp: free_at_upd)
  show ?thesis
    unfolding total_room_def using assms rest cap_subtract [OF assms(1,3)]
    by (simp add: sum.remove [of "set names" c] free_at_upd)
qed

lemma place_open:
  assumes "c \<in> open_nodes r names free used"
  shows "card (open_nodes r names free used) = Suc (card (open_nodes r names (free(c \<mapsto> v)) (c # used)))"
proof -
  have "open_nodes r names (free(c \<mapsto> v)) (c # used) = open_nodes r names free used - {c}"
    by (auto simp: open_nodes_def free_at_upd)
  moreover have "finite (open_nodes r names free used)" by (simp add: open_nodes_def)
  ultimately show ?thesis using assms card_Suc_Diff1 by metis
qed

lemma find_None: "find P xs = None \<longleftrightarrow> (\<forall>x \<in> set xs. \<not> P x)"
  by (auto simp: find_None_iff)

lemma place_free:
  assumes r: "rv_pods r \<ge> 1" and named: "[] \<notin> set names" and phase: "\<not> resilient \<or> maxReplicas \<le> int index"
  shows "place_pods resilient maxReplicas podCount r names fuel index free used = Inr () \<longleftrightarrow> fuel \<le> total_room r names free"
  using phase
proof (induction fuel arbitrary: index free)
  case (Suc fuel)
  then have spread: "\<not> (resilient \<and> int index < maxReplicas)" by auto
  show ?case
  proof (cases "find (\<lambda>n. fits (free_at free n) r) names")
    case None
    then have "total_room r names free = 0" using cap_pos [OF r] by (auto simp: total_room_def find_None)
    then show ?thesis using None spread by (auto simp: Let_def)
  next
    case (Some c)
    then have c: "c \<in> set names" "fits (free_at free c) r" by (auto simp: find_Some_iff)
    then have "c \<noteq> []" using named by blast
    let ?f = "free(c \<mapsto> subtract (free_at free c) r)"
    have "place_pods resilient maxReplicas podCount r names (Suc fuel) index free used = place_pods resilient maxReplicas podCount r names fuel (Suc index) ?f used"
      using Some spread \<open>c \<noteq> []\<close> by (simp only: place_pods.simps Let_def simp_thms if_False option.case)
    also have "\<dots> = Inr () \<longleftrightarrow> fuel \<le> total_room r names ?f" using Suc.prems by (intro Suc.IH) auto
    also have "\<dots> \<longleftrightarrow> Suc fuel \<le> total_room r names free" using place_one [OF r c] by simp
    finally show ?thesis .
  qed
qed simp

lemma place_spread:
  assumes r: "rv_pods r \<ge> 1" and named: "[] \<notin> set names" and max: "maxReplicas = int (index + j)"
  shows "place_pods True maxReplicas podCount r names (j + t) index free used = Inr () \<longleftrightarrow>
    j \<le> card (open_nodes r names free used) \<and> j + t \<le> total_room r names free"
  using max
proof (induction j arbitrary: index free used)
  case 0
  then show ?case using place_free [OF r named, of True maxReplicas index podCount t free used] by simp
next
  case (Suc j)
  have spread: "int index < maxReplicas" using Suc.prems by simp
  have finite: "finite (open_nodes r names free used)" by (simp add: open_nodes_def)
  show ?case
  proof (cases "find (\<lambda>n. n \<notin> set used \<and> fits (free_at free n) r) names")
    case None
    then have "open_nodes r names free used = {}" using cap_pos [OF r] by (auto simp: open_nodes_def find_None)
    then show ?thesis using None spread by (simp add: Let_def)
  next
    case (Some c)
    then have c: "c \<in> set names" "fits (free_at free c) r" "c \<in> open_nodes r names free used"
      using cap_pos [OF r] by (auto simp: find_Some_iff open_nodes_def)
    then have "c \<noteq> []" using named by blast
    let ?f = "free(c \<mapsto> subtract (free_at free c) r)"
    have "place_pods True maxReplicas podCount r names (Suc j + t) index free used = place_pods True maxReplicas podCount r names (j + t) (Suc index) ?f (c # used)"
      using Some spread \<open>c \<noteq> []\<close> by (simp add: Let_def)
    also have "\<dots> = Inr () \<longleftrightarrow> j \<le> card (open_nodes r names ?f (c # used)) \<and> j + t \<le> total_room r names ?f"
      using Suc.prems by (intro Suc.IH) simp
    also have "\<dots> \<longleftrightarrow> Suc j \<le> card (open_nodes r names free used) \<and> Suc j + t \<le> total_room r names free"
      using place_open [OF c(3), of "subtract (free_at free c) r"] place_one [OF r c(1,2)] by simp
    finally show ?thesis .
  qed
qed

section \<open>Placements\<close>

text \<open>
  A placement of \<open>N\<close> pods: each on one of the nodes, every node with room for all of its pods together, and the first
  \<open>M\<close> on different nodes.
\<close>

definition placeable :: "nat \<Rightarrow> nat \<Rightarrow> resourceVector \<Rightarrow> string list \<Rightarrow> (string \<Rightarrow> resourceVector) \<Rightarrow> bool" where
  "placeable M N r names spare \<longleftrightarrow> (\<exists>a :: nat \<Rightarrow> string. (\<forall>i < N. a i \<in> set names) \<and>
     (\<forall>i < N. room (card {j. j < N \<and> a j = a i}) r (spare (a i))) \<and> inj_on a {..< M})"

lemma placement_room:
  assumes "\<forall>i < N. a i \<in> set names" and "\<And>n. n \<in> set names \<Longrightarrow> card {j. j < N \<and> a j = n} \<le> f n"
  shows "N \<le> (\<Sum>n \<in> set names. f n)"
proof -
  have "{..< N} = (\<Union>n \<in> set names. {j. j < N \<and> a j = n})" using assms(1) by auto
  then have "N = card (\<Union>n \<in> set names. {j. j < N \<and> a j = n})" by (metis card_lessThan)
  also have "\<dots> = (\<Sum>n \<in> set names. card {j. j < N \<and> a j = n})" by (rule card_UN_disjoint) auto
  also have "\<dots> \<le> (\<Sum>n \<in> set names. f n)" by (rule sum_mono) (rule assms(2))
  finally show ?thesis .
qed

lemma room_of_count:
  fixes i N :: nat
  assumes "rv_pods r \<ge> 1" and "\<not> anyNegative r" and "i < N"
  shows "room (card {j. j < N \<and> a j = a i}) r v \<longleftrightarrow> card {j. j < N \<and> a j = a i} \<le> cap r v"
proof -
  have "i \<in> {j. j < N \<and> a j = a i}" using assms(3) by simp
  moreover have "finite {j. j < N \<and> a j = a i}" by (rule finite_subset [of _ "{..< N}"]) auto
  ultimately obtain c where "card {j. j < N \<and> a j = a i} = Suc c" by (metis card_eq_0_iff empty_iff not0_implies_Suc)
  then show ?thesis using room_cap [OF assms(1,2)] by simp
qed

text \<open>A list that names every node as often as it has room, beginning with different nodes.\<close>

definition layout :: "nat \<Rightarrow> (string \<Rightarrow> nat) \<Rightarrow> string list \<Rightarrow> string list" where
  "layout M f names = (let p = take M (filter (\<lambda>n. 0 < f n) names)
     in p @ concat (map (\<lambda>n. replicate (f n - (if n \<in> set p then 1 else 0)) n) names))"

lemma count_concat_replicate: "distinct ns \<Longrightarrow> count_list (concat (map (\<lambda>n. replicate (f n) n) ns)) x = (if x \<in> set ns then f x else 0)"
proof -
  have rep: "count_list (replicate m y) x = (if y = x then m else 0)" for m and y x :: 'a by (induction m) auto
  show "distinct ns \<Longrightarrow> count_list (concat (map (\<lambda>n. replicate (f n) n) ns)) x = (if x \<in> set ns then f x else 0)"
    by (induction ns) (auto simp: rep)
qed

lemma count_distinct: "distinct xs \<Longrightarrow> count_list xs x = (if x \<in> set xs then 1 else 0)"
  by (induction xs) auto

lemma layout_count:
  assumes "distinct names" and "x \<in> set names"
  shows "count_list (layout M f names) x = f x"
proof -
  let ?p = "take M (filter (\<lambda>n. 0 < f n) names)"
  have "distinct ?p" using assms(1) by simp
  moreover have "x \<in> set ?p \<Longrightarrow> 0 < f x" using set_take_subset by fastforce
  ultimately show ?thesis
    using assms(2) count_concat_replicate [OF assms(1), of "\<lambda>n. f n - (if n \<in> set ?p then 1 else 0)" x] count_distinct [of ?p x]
    by (auto simp: layout_def Let_def)
qed

lemma layout_set: "set (layout M f names) \<subseteq> set names"
  using set_take_subset by (fastforce simp: layout_def Let_def split: if_splits)

lemma layout_length:
  assumes "distinct names"
  shows "length (layout M f names) = (\<Sum>n \<in> set names. f n)"
proof -
  have "length (layout M f names) = (\<Sum>x \<in> set names. count_list (layout M f names) x)"
    using sum_count_set [OF layout_set, of names M f] by simp
  also have "\<dots> = (\<Sum>n \<in> set names. f n)" by (rule sum.cong) (simp_all add: layout_count [OF assms])
  finally show ?thesis .
qed

lemma prefix_count: "card {j. j < N \<and> xs ! j = x} \<le> count_list xs x" if "N \<le> length xs"
proof -
  have "card {j. j < N \<and> xs ! j = x} \<le> card {j. j < length xs \<and> xs ! j = x}" using that by (intro card_mono) auto
  also have "\<dots> = count_list xs x" by (simp add: count_list_eq_length_filter length_filter_conv_card eq_commute)
  finally show ?thesis .
qed

lemma placeable_iff:
  assumes r: "rv_pods r \<ge> 1" "\<not> anyNegative r" and names: "distinct names" and "M \<le> N"
  shows "placeable M N r names spare \<longleftrightarrow> N \<le> (\<Sum>n \<in> set names. cap r (spare n)) \<and> M \<le> card {n \<in> set names. 0 < cap r (spare n)}"
proof
  assume "placeable M N r names spare"
  then obtain a where a: "\<forall>i < N. a i \<in> set names" "inj_on a {..< M}" and fit: "\<forall>i < N. room (card {j. j < N \<and> a j = a i}) r (spare (a i))"
    unfolding placeable_def by blast
  have fit: "card {j. j < N \<and> a j = a i} \<le> cap r (spare (a i))" if "i < N" for i using fit that room_of_count [OF r that, of a] by blast
  have count: "card {j. j < N \<and> a j = n} \<le> cap r (spare n)" for n
  proof (cases "\<exists>i < N. a i = n")
    case True
    then show ?thesis using fit by auto
  next
    case False
    then have none: "{j. j < N \<and> a j = n} = {}" by auto
    show ?thesis unfolding none by simp
  qed
  have "0 < cap r (spare (a i))" if "i < N" for i
  proof -
    have "i \<in> {j. j < N \<and> a j = a i}" using that by simp
    then have "0 < card {j. j < N \<and> a j = a i}" by (metis (no_types, lifting) card_gt_0_iff empty_iff finite_nat_set_iff_bounded mem_Collect_eq)
    then show ?thesis using count [of "a i"] by simp
  qed
  then have "a ` {..< M} \<subseteq> {n \<in> set names. 0 < cap r (spare n)}" using a(1) assms(4) by auto
  then have "card (a ` {..< M}) \<le> card {n \<in> set names. 0 < cap r (spare n)}" by (intro card_mono) auto
  then show "N \<le> (\<Sum>n \<in> set names. cap r (spare n)) \<and> M \<le> card {n \<in> set names. 0 < cap r (spare n)}"
    using placement_room [OF a(1), of "\<lambda>n. cap r (spare n)"] count card_image [OF a(2)] by simp
next
  assume N: "N \<le> (\<Sum>n \<in> set names. cap r (spare n)) \<and> M \<le> card {n \<in> set names. 0 < cap r (spare n)}"
  let ?f = "\<lambda>n. cap r (spare n)"
  let ?l = "layout M ?f names"
  have len: "N \<le> length ?l" using N layout_length [OF names, of M ?f] by simp
  have "card {n \<in> set names. 0 < ?f n} = length (filter (\<lambda>n. 0 < ?f n) names)"
    using distinct_card [of "filter (\<lambda>n. 0 < ?f n) names"] names by simp
  then have first: "take M ?l = take M (filter (\<lambda>n. 0 < ?f n) names)" using N by (simp add: layout_def Let_def)
  have in_names: "?l ! i \<in> set names" if "i < N" for i using layout_set [of M ?f names] len that by (meson nth_mem order_less_le_trans subsetD)
  have "distinct (take M ?l)" unfolding first using names by simp
  then have "inj_on (\<lambda>i. ?l ! i) {..< M}" using len assms(4)
    by (auto simp: inj_on_def distinct_conv_nth)
  moreover have "room (card {j. j < N \<and> ?l ! j = ?l ! i}) r (spare (?l ! i))" if "i < N" for i
    using room_of_count [OF r that, of "\<lambda>i. ?l ! i"] prefix_count [OF len, of "?l ! i"] layout_count [OF names in_names [OF that], of M ?f] by simp
  ultimately show "placeable M N r names spare" unfolding placeable_def using in_names by (intro exI [of _ "\<lambda>i. ?l ! i"]) blast
qed

section \<open>Exactness\<close>

text \<open>What is left of a node's allocatable resources after the requests of the live pods on it.\<close>

definition live_on :: "string \<Rightarrow> kube_pod \<Rightarrow> bool" where
  "live_on n p \<longleftrightarrow> po_Phase p \<noteq> ''Succeeded'' \<and> po_Phase p \<noteq> ''Failed'' \<and> po_NodeName p = n"

definition spare_on :: "free_map \<Rightarrow> kube_pod list \<Rightarrow> string \<Rightarrow> resourceVector" where
  "spare_on free ps n = fold (\<lambda>p v. subtract v (podRequest p)) (filter (live_on n) ps) (free_at free n)"

lemma node_capacities_names:
  "node_capacities cfg ns free names = Inr (free', names') \<Longrightarrow> names' = names @ map kn_Name (filter (eligible cfg) ns) \<and>
     (\<forall>n. n \<notin> kn_Name ` set (filter (eligible cfg) ns) \<longrightarrow> free' n = free n) \<and> (\<forall>n \<in> set names'. free n \<noteq> None \<or> n \<notin> set names \<longrightarrow> free' n \<noteq> None)"
proof (induction cfg ns free names rule: node_capacities.induct)
  case (2 cfg n ns free names)
  show ?case
  proof (cases "eligible cfg n")
    case True
    then obtain capacity where c: "resourceVectorFromList (kn_Allocatable n) = (capacity, True)"
        "node_capacities cfg ns (free(kn_Name n \<mapsto> capacity)) (names @ [kn_Name n]) = Inr (free', names')"
      using 2(3) by (auto split: prod.splits if_splits)
    let ?f = "free(kn_Name n \<mapsto> capacity)"
    have ih: "names' = (names @ [kn_Name n]) @ map kn_Name (filter (eligible cfg) ns)"
        "\<forall>m. m \<notin> kn_Name ` set (filter (eligible cfg) ns) \<longrightarrow> free' m = ?f m"
        "\<forall>m \<in> set names'. ?f m \<noteq> None \<or> m \<notin> set (names @ [kn_Name n]) \<longrightarrow> free' m \<noteq> None"
      using 2(2) [OF _ c(1) [symmetric] _ c(2)] True by blast+
    have "free' m = free m" if "m \<notin> kn_Name ` set (filter (eligible cfg) (n # ns))" for m
      using ih(2) that True by simp
    moreover have "free' m \<noteq> None" if "m \<in> set names'" "free m \<noteq> None \<or> m \<notin> set names" for m
      using ih(3) [rule_format, OF that(1)] that(2) by (cases "m = kn_Name n") simp_all
    ultimately show ?thesis using ih(1) True by simp
  next
    case False
    have "node_capacities cfg ns free names = Inr (free', names')" using 2(3) False by simp
    from 2(1) [OF False this] show ?thesis unfolding filter.simps if_not_P [OF False] .
  qed
qed auto

lemma subtract_pods_spare:
  "subtract_pods ps free = Inr free' \<Longrightarrow> free n \<noteq> None \<Longrightarrow> free_at free' n = spare_on free ps n"
proof (induction ps arbitrary: free)
  case (Cons p ps)
  show ?case
  proof (cases "po_Phase p = ''Succeeded'' \<or> po_Phase p = ''Failed''")
    case True
    then have "subtract_pods ps free = Inr free'" using Cons.prems(1) by simp
    then show ?thesis using Cons.IH [of free] Cons.prems(2) True by (auto simp: spare_on_def live_on_def)
  next
    case False
    show ?thesis
    proof (cases "free (po_NodeName p)")
      case None
      then have "subtract_pods ps free = Inr free'" "po_NodeName p \<noteq> n" using Cons.prems False by (auto split: if_splits)
      then show ?thesis using Cons.IH [of free] Cons.prems(2) by (auto simp: spare_on_def live_on_def)
    next
      case (Some v)
      let ?f = "free(po_NodeName p \<mapsto> subtract v (podRequest p))"
      have "subtract_pods ps ?f = Inr free'" using Cons.prems(1) False Some by (auto split: if_splits)
      moreover have "?f n \<noteq> None" using Cons.prems(2) by simp
      ultimately have ih: "free_at free' n = spare_on ?f ps n" by (rule Cons.IH)
      show ?thesis
      proof (cases "po_NodeName p = n")
        case True
        then show ?thesis using ih False Some by (simp add: spare_on_def live_on_def free_at_def)
      next
        case other: False
        then have "\<not> live_on n p" by (simp add: live_on_def)
        then show ?thesis using ih other by (simp add: spare_on_def free_at_def)
      qed
    qed
  qed
qed (simp add: spare_on_def)

lemma place_pods_exact:
  assumes r: "rv_pods r \<ge> 1" "\<not> anyNegative r" and names: "distinct names" and named: "[] \<notin> set names" and "M \<le> N"
  shows "place_pods resilient (int M) podCount r names N 0 free [] = Inr () \<longleftrightarrow> placeable (if resilient then M else 0) N r names (free_at free)"
proof (cases resilient)
  case True
  have "N = M + (N - M)" using assms(5) by simp
  then show ?thesis
    using place_spread [OF r(1) named, of "int M" 0 M podCount "N - M" free "[]"] placeable_iff [OF r names assms(5), of "free_at free"] True
    by (auto simp: open_nodes_def total_room_def)
next
  case False
  then show ?thesis
    using place_free [OF r(1) named, of False "int M" 0 podCount N free "[]"] placeable_iff [OF r names, of 0 N "free_at free"] by (simp add: total_room_def)
qed

lemma placeable_cong:
  assumes "set names = set names'" and "\<And>n. n \<in> set names \<Longrightarrow> spare n = spare' n"
  shows "placeable M N r names spare \<longleftrightarrow> placeable M N r names' spare'"
  unfolding placeable_def by (intro ex_cong1 conj_cong refl) (simp_all add: assms)

text \<open>
  Once nodes and pods have been read, the check accepts exactly when all replicas and the surge can be placed on the
  eligible nodes, resilient replicas on different ones.
\<close>

lemma preflight_exact:
  assumes h: "cfg_Hosting cfg = Some h" "ResourceRequirements lib (Some h) = Inr (Some (req, limits))" "\<not> anyNegative (requestedVector req)"
    and max: "1 \<le> hosting_MaxReplicas h" "hosting_MaxReplicas h < 2 ^ 62"
    and nodes: "distinct (map kn_Name ns) \<and> [] \<notin> kn_Name ` set ns" "node_capacities cfg ns (\<lambda>_. None) [] = Inr (free, names)" "names \<noteq> []"
    and pods: "subtract_pods ps free = Inr free'"
  shows "preflightHostingCapacity lib cfg (Some (Inr ns)) (Some (Inr ps)) = Inr () \<longleftrightarrow>
    placeable (if resilience_Mode (cfg_Resilience cfg) = ''resilient'' then nat (hosting_MaxReplicas h) else 0)
      (nat (hosting_MaxReplicas h + rolloutSurge cfg h)) (requestedVector req) names (spare_on free ps)"
proof -
  let ?res = "resilience_Mode (cfg_Resilience cfg) = ''resilient''" and ?M = "nat (hosting_MaxReplicas h)"
    and ?N = "nat (hosting_MaxReplicas h + rolloutSurge cfg h)" and ?r = "requestedVector req" and ?n = "sort names"
  have r: "rv_pods ?r \<ge> 1" by (simp add: requestedVector_def split: prod.splits)
  have all: "names = map kn_Name (filter (eligible cfg) ns)" "n \<in> set names \<Longrightarrow> free n \<noteq> None" for n
    using node_capacities_names [OF nodes(2)] by auto
  have dist: "distinct ?n" using nodes(1) unfolding all(1) by (simp add: distinct_map_filter)
  have named: "[] \<notin> set ?n" using nodes(1) unfolding all(1) by auto
  have surge: "0 \<le> rolloutSurge cfg h" "rolloutSurge cfg h < 2 ^ 62" using max by (auto simp: rolloutSurge_def go_quot_def to_int64_def)
  have sum: "to_int64 (hosting_MaxReplicas h + rolloutSurge cfg h) = hosting_MaxReplicas h + rolloutSurge cfg h" using max surge by (simp add: to_int64_def)
  have le: "?M \<le> ?N" using surge by simp
  have spare: "placeable k ?N ?r ?n (free_at free') \<longleftrightarrow> placeable k ?N ?r names (spare_on free ps)" for k
    by (rule placeable_cong) (use all(2) subtract_pods_spare [OF pods] in auto)
  have few: "\<not> placeable ?M ?N ?r ?n (free_at free')" if "hosting_MaxReplicas h > int (length names)"
  proof
    assume "placeable ?M ?N ?r ?n (free_at free')"
    then have "?M \<le> card {n \<in> set ?n. 0 < cap ?r (free_at free' n)}" using placeable_iff [OF r h(3) dist le] by blast
    also have "\<dots> \<le> card (set ?n)" by (intro card_mono) auto
    also have "\<dots> \<le> length names" using card_length [of names] by simp
    finally show False using that by linarith
  qed
  have ne: "sort names \<noteq> []" using nodes(3) by (metis length_0_conv length_sort)
  have run: "preflightHostingCapacity lib cfg (Some (Inr ns)) (Some (Inr ps)) =
      (if ?res \<and> hosting_MaxReplicas h > int (length names) then Inl (Too_few_nodes (hosting_MaxReplicas h) (int (length names)))
       else place_pods ?res (hosting_MaxReplicas h) (hosting_MaxReplicas h + rolloutSurge cfg h) ?r ?n ?N 0 free' [])"
    using h nodes pods ne by (simp add: preflightHostingCapacity_def Let_def sum)
  have loop: "place_pods ?res (hosting_MaxReplicas h) (hosting_MaxReplicas h + rolloutSurge cfg h) ?r ?n ?N 0 free' [] = Inr () \<longleftrightarrow>
      placeable (if ?res then ?M else 0) ?N ?r ?n (free_at free')"
    using place_pods_exact [OF r h(3) dist named le, of ?res "hosting_MaxReplicas h + rolloutSurge cfg h" free'] max by simp
  show ?thesis unfolding run spare [symmetric] using few loop by (simp split: if_splits)
qed

text \<open>When the nodes and the pods are read without an error.\<close>

lemma node_capacities_ok:
  "(\<exists>r. node_capacities cfg ns free names = Inr r) \<longleftrightarrow> (\<forall>n \<in> set ns. eligible cfg n \<longrightarrow> snd (resourceVectorFromList (kn_Allocatable n)))"
  by (induction cfg ns free names rule: node_capacities.induct) (auto simp del: fun_upd_apply split: prod.splits)

lemma subtract_pods_ok:
  "(\<exists>r. subtract_pods ps free = Inr r) \<longleftrightarrow>
     (\<forall>p \<in> set ps. po_Phase p = ''Succeeded'' \<or> po_Phase p = ''Failed'' \<or> po_NodeName p \<noteq> [] \<and> (free (po_NodeName p) \<noteq> None \<longrightarrow> \<not> po_PodResources p))"
proof (induction ps arbitrary: free)
  case (Cons p ps)
  have keep: "((free(n \<mapsto> v)) m \<noteq> None) = (free m \<noteq> None)" if "free n \<noteq> None" for n m v using that by simp
  show ?case
  proof (cases "po_Phase p = ''Succeeded'' \<or> po_Phase p = ''Failed'' \<or> free (po_NodeName p) = None")
    case True
    then show ?thesis using Cons.IH [of free] by auto
  next
    case False
    then obtain v where v: "free (po_NodeName p) = Some v" by auto
    show ?thesis
      using Cons.IH [of "free(po_NodeName p \<mapsto> subtract v (podRequest p))", unfolded keep [of "po_NodeName p", unfolded v, OF option.distinct(2)]] False v
      by (simp del: fun_upd_apply)
  qed
qed simp

text \<open>What the requests of the live pods on a node leave of its allocatable resources.\<close>

definition spare_of :: "kube_node list \<Rightarrow> kube_pod list \<Rightarrow> string \<Rightarrow> resourceVector" where
  "spare_of ns ps n = (case find (\<lambda>k. kn_Name k = n) ns of None \<Rightarrow> zero_vector
     | Some k \<Rightarrow> fold (\<lambda>p v. subtract v (podRequest p)) (filter (live_on n) ps) (fst (resourceVectorFromList (kn_Allocatable k))))"

lemma node_capacities_value:
  "node_capacities cfg ns free names = Inr (free', names') \<Longrightarrow> distinct (map kn_Name ns) \<Longrightarrow> k \<in> set ns \<Longrightarrow> eligible cfg k \<Longrightarrow>
     free' (kn_Name k) = Some (fst (resourceVectorFromList (kn_Allocatable k)))"
proof (induction cfg ns free names rule: node_capacities.induct)
  case (2 cfg n ns free names)
  show ?case
  proof (cases "k = n")
    case True
    then obtain capacity where c: "resourceVectorFromList (kn_Allocatable n) = (capacity, True)"
        "node_capacities cfg ns (free(kn_Name n \<mapsto> capacity)) (names @ [kn_Name n]) = Inr (free', names')"
      using 2(3,6) by (auto split: prod.splits if_splits)
    have "kn_Name n \<notin> kn_Name ` set (filter (eligible cfg) ns)" using 2(4) by auto
    then show ?thesis using node_capacities_names [OF c(2)] c(1) True by simp
  next
    case False
    then have k: "k \<in> set ns" "distinct (map kn_Name ns)" using 2(4,5) by auto
    show ?thesis
    proof (cases "eligible cfg n")
      case True
      then obtain capacity where c: "resourceVectorFromList (kn_Allocatable n) = (capacity, True)"
          "node_capacities cfg ns (free(kn_Name n \<mapsto> capacity)) (names @ [kn_Name n]) = Inr (free', names')"
        using 2(3) by (auto split: prod.splits if_splits)
      then show ?thesis using 2(2) [OF _ c(1) [symmetric] _ c(2) k(2,1) 2(6)] True by blast
    next
      case False
      have "node_capacities cfg ns free names = Inr (free', names')" using 2(3) False by simp
      from 2(1) [OF False this k(2,1) 2(6)] show ?thesis .
    qed
  qed
qed simp

lemma spare_on_of:
  assumes "node_capacities cfg ns (\<lambda>_. None) [] = Inr (free, names)" and dist: "distinct (map kn_Name ns)" and "n \<in> set names"
  shows "spare_on free ps n = spare_of ns ps n"
proof -
  obtain k where k: "k \<in> set ns" "eligible cfg k" "n = kn_Name k" using node_capacities_names [OF assms(1)] assms(3) by auto
  have "find (\<lambda>j. kn_Name j = n) ns = Some k"
  proof (cases "find (\<lambda>j. kn_Name j = n) ns")
    case None
    then show ?thesis using k(1,3) by (auto simp: find_None)
  next
    case (Some j)
    then have "j \<in> set ns" "kn_Name j = n" by (auto simp: find_Some_iff)
    then have "j = k" using k(1,3) dist by (auto simp: distinct_map dest: inj_onD)
    then show ?thesis using Some by simp
  qed
  then show ?thesis using node_capacities_value [OF assms(1,2) k(1,2)] k(3) by (simp add: spare_on_def spare_of_def free_at_def)
qed

text \<open>The readings the check insists on.\<close>

definition measurable :: "config \<Rightarrow> kube_node list \<Rightarrow> kube_pod list \<Rightarrow> bool" where
  "measurable cfg ns ps \<longleftrightarrow> (\<exists>n \<in> set ns. eligible cfg n) \<and> (\<forall>n \<in> set ns. eligible cfg n \<longrightarrow> snd (resourceVectorFromList (kn_Allocatable n))) \<and>
     (\<forall>p \<in> set ps. po_Phase p = ''Succeeded'' \<or> po_Phase p = ''Failed'' \<or>
        po_NodeName p \<noteq> [] \<and> ((\<exists>n \<in> set ns. eligible cfg n \<and> kn_Name n = po_NodeName p) \<longrightarrow> \<not> po_PodResources p))"

lemma preflight_iff:
  assumes h: "cfg_Hosting cfg = Some h" "ResourceRequirements lib (Some h) = Inr (Some (req, limits))"
    and max: "1 \<le> hosting_MaxReplicas h" "hosting_MaxReplicas h < 2 ^ 62"
    and nodes: "distinct (map kn_Name ns) \<and> [] \<notin> kn_Name ` set ns"
  shows "preflightHostingCapacity lib cfg (Some (Inr ns)) (Some (Inr ps)) = Inr () \<longleftrightarrow>
    \<not> anyNegative (requestedVector req) \<and> measurable cfg ns ps \<and>
    placeable (if resilience_Mode (cfg_Resilience cfg) = ''resilient'' then nat (hosting_MaxReplicas h) else 0)
      (nat (hosting_MaxReplicas h + rolloutSurge cfg h)) (requestedVector req) (map kn_Name (filter (eligible cfg) ns)) (spare_of ns ps)"
proof (cases "\<not> anyNegative (requestedVector req) \<and> (\<exists>r. node_capacities cfg ns (\<lambda>_. None) [] = Inr r)")
  case False
  then have "\<not> anyNegative (requestedVector req) \<Longrightarrow> \<not> measurable cfg ns ps" using node_capacities_ok [of cfg ns "\<lambda>_. None" "[]"] by (auto simp: measurable_def)
  moreover have "preflightHostingCapacity lib cfg (Some (Inr ns)) (Some (Inr ps)) \<noteq> Inr ()"
    using False h by (cases "node_capacities cfg ns (\<lambda>_. None) []") (auto simp: preflightHostingCapacity_def Let_def)
  ultimately show ?thesis by blast
next
  case True
  then obtain free names where read: "\<not> anyNegative (requestedVector req)" "node_capacities cfg ns (\<lambda>_. None) [] = Inr (free, names)" by auto
  have all: "names = map kn_Name (filter (eligible cfg) ns)" using node_capacities_names [OF read(2)] by simp
  have known: "free m \<noteq> None \<longleftrightarrow> (\<exists>n \<in> set ns. eligible cfg n \<and> kn_Name n = m)" for m
    using node_capacities_names [OF read(2)] by (cases "m \<in> set names") (auto simp: all)
  have measured: "measurable cfg ns ps \<longleftrightarrow> names \<noteq> [] \<and> (\<exists>r. subtract_pods ps free = Inr r)"
    unfolding measurable_def subtract_pods_ok known using True node_capacities_ok [of cfg ns "\<lambda>_. None" "[]"] by (auto simp: all filter_empty_conv)
  show ?thesis
  proof (cases "measurable cfg ns ps")
    case True
    then obtain free' where ps: "names \<noteq> []" "subtract_pods ps free = Inr free'" using measured by auto
    have "placeable m k r names (spare_on free ps) \<longleftrightarrow> placeable m k r names (spare_of ns ps)" for m k r
      by (rule placeable_cong [OF refl]) (use spare_on_of [OF read(2)] nodes in blast)
    then show ?thesis using preflight_exact [OF h read(1) max nodes read(2) ps] True read(1) by (simp add: all)
  next
    case False
    have "sort names = [] \<longleftrightarrow> names = []" by (metis length_0_conv length_sort)
    then have "preflightHostingCapacity lib cfg (Some (Inr ns)) (Some (Inr ps)) \<noteq> Inr ()"
      using False measured h read by (cases "subtract_pods ps free") (auto simp: preflightHostingCapacity_def Let_def)
    then show ?thesis using False by blast
  qed
qed

end
