(* ===== verification/Runtime_Theorems.thy ===== *)
theory Runtime_Theorems
  imports Runtime_Safety Capacity Samples
begin

text \<open>
  The properties of the candidate runtime: operations on the activation gate, what an activation requires, the
  isolation of candidates, the finality of retirement and the capacity check. The witnesses run on \<open>log_kube\<close>, an API server
  that keeps the list of accepted writes and has no other clients.
\<close>

section \<open>An API server\<close>

type_synonym kube_log = "service list \<times> workload list"

definition version_at :: "nat \<Rightarrow> string" where
  "version_at n = replicate (Suc n) CHR ''v''"

text \<open>The newest write of a name, the version being its place in the log.\<close>

fun stored_service :: "service list \<Rightarrow> string \<Rightarrow> service option" where
  "stored_service [] n = None"
| "stored_service (s # k) n = (if svc_Name s = n then Some (s\<lparr>svc_ResourceVersion := version_at (length k)\<rparr>) else stored_service k n)"


definition services_of :: "kube_log \<Rightarrow> string \<Rightarrow> service option" where
  "services_of k = stored_service (fst k)"

definition deployments_of :: "kube_log \<Rightarrow> string \<Rightarrow> workload option" where
  "deployments_of k n = find (\<lambda>d. wl_Name d = n) (snd k)"

definition found :: "'a option \<Rightarrow> 'k \<Rightarrow> (api_err + 'a) \<times> 'k" where
  "found x k = ((case x of None \<Rightarrow> Inl Api_NotFound | Some y \<Rightarrow> Inr y), k)"

definition log_kube :: "kube_log kube" where
  "log_kube = \<lparr>GetService = (\<lambda>n k. found (services_of k n) k),
     UpdateService = (\<lambda>s k. case services_of k (svc_Name s) of None \<Rightarrow> (Inl Api_NotFound, k)
       | Some cur \<Rightarrow> if svc_UID cur = svc_UID s \<and> svc_ResourceVersion cur = svc_ResourceVersion s
           then (Inr (s\<lparr>svc_ResourceVersion := version_at (length (fst k))\<rparr>), (s # fst k, snd k)) else (Inl Api_Conflict, k)),
     CreateService = (\<lambda>s k. (Inl Api_AlreadyExists, k)),
     GetDeployment = (\<lambda>n k. found (deployments_of k n) k),
     UpdateDeployment = (\<lambda>d k. (Inr d, (fst k, d # snd k))),
     CreateDeployment = (\<lambda>d k. (Inr d, (fst k, d # snd k))),
     ListDeployments = (\<lambda>l k. (Inr [], k)),
     GetPolicy = (\<lambda>n k. (case networkPolicyForHostedApp sample_config ''apps'' of None \<Rightarrow> Inl Api_NotFound
       | Some p \<Rightarrow> (case candidateNetworkPolicyForApp sample_sha sample_config (the (cfg_Hosting sample_config)) p sample_rid of
           Inl _ \<Rightarrow> Inl Api_NotFound | Inr q \<Rightarrow> Inr q), k)),
     CreatePolicy = (\<lambda>p k. (Inr p, k)),
     ListPods = (\<lambda>l k. (Inr [], k))\<rparr>"

lemma version_eq [simp]: "version_at m = version_at n \<longleftrightarrow> m = n"
  unfolding version_at_def by (metis length_replicate nat.inject)




definition log_controller :: "kube_log controller" where
  "log_controller = \<lparr>ctl_namespace = ''apps'', ctl_kube = log_kube, ctl_lib = sample_lib, ctl_sha256 = sample_sha\<rparr>"

lemma log_controller_simps [simp]:
  "ctl_namespace log_controller = ''apps''" "ctl_kube log_controller = log_kube" "ctl_lib log_controller = sample_lib" "ctl_sha256 log_controller = sample_sha"
  by (simp_all add: log_controller_def)

section \<open>A prepared candidate\<close>

definition sample_candidate :: workload where
  "sample_candidate = (case CandidateDeploymentForApp sample_lib sample_sha sample_config ''apps'' [] sample_rid [] of Inl _ \<Rightarrow> base_workload sample_config [] | Inr d \<Rightarrow> d)"

lemma sample_rendered: "CandidateDeploymentForApp sample_lib sample_sha sample_config ''apps'' [] sample_rid [] = Inr sample_candidate"
proof -
  have norm: "Normalize sample_config = sample_config" by (simp add: sample_config_def Normalize_idem)
  obtain d where d: "deploymentForApp sample_lib sample_sha sample_config ''apps'' [] = Inr d"
    using deploymentForApp_total [of sample_lib sample_config "[]" sample_sha "''apps''"] by (auto simp: norm sample_valid)
  obtain h where h: "cfg_Hosting sample_config = Some h" using sample_fields(2) by blast
  have "TrimSpace sample_rid \<noteq> []" by code_simp
  then have "\<exists>d. CandidateDeploymentForApp sample_lib sample_sha sample_config ''apps'' [] sample_rid [] = Inr d"
    by (simp add: CandidateDeploymentForApp_def h sample_valid ValidateCandidateReferences_def candidateDeploymentForGeneration_def d)
  then show ?thesis by (auto simp: sample_candidate_def)
qed

















section \<open>Replica counts\<close>

text \<open>The replicas of a hosted app are rendered as configured; validation bounds them.\<close>

lemma hosted_replicas:
  assumes "Validate lib cfg = Inr ()" and "cfg_Hosting cfg = Some h"
  shows "workloadReplicas cfg = hostingReplicas cfg" and "1 \<le> workloadReplicas cfg \<and> workloadReplicas cfg \<le> 1000"
proof -
  have "hosting_Validate lib (Some h) (hostingReplicas cfg) = Inr ()" using Validate_hosting [OF assms(1)] assms(2) by simp
  then have "hostingReplicas cfg \<le> 1000" using hosting_Validate_ok(2,3) by fastforce
  moreover have "1 \<le> deploy_Replicas (cfg_Deploy cfg)" using assms(1) by (auto simp: Validate_def res_simps split: if_splits)
  ultimately show "workloadReplicas cfg = hostingReplicas cfg" "1 \<le> workloadReplicas cfg \<and> workloadReplicas cfg \<le> 1000"
    by (auto simp: workloadReplicas_def hostingReplicas_def to_int32_def Let_def split: if_splits)
qed

text \<open>Without a hosting profile nothing bounds them, and the conversion to 32 bits can lose all of them.\<close>

definition wide_config :: config where
  "wide_config = sample_config\<lparr>cfg_Hosting := None, cfg_Deploy := \<lparr>deploy_Replicas = 4294967296, deploy_Strategy = []\<rparr>\<rparr>"

lemma replicas_wrap: "Validate sample_lib wide_config = Inr ()" "workloadReplicas wide_config = 0"
  by (code_simp)+

section \<open>A cluster with capacity\<close>

definition wide_list :: resource_list where
  "wide_list = \<lparr>rl_CPU = Some 8, rl_Memory = Some 4000, rl_Ephemeral = Some 9000, rl_Pods = Some 110\<rparr>"

definition wide_node :: "string \<Rightarrow> kube_node" where
  "wide_node n = \<lparr>kn_Name = n, kn_Unschedulable = False, kn_Conditions = [(''Ready'', ''True'')], kn_TaintEffects = [], kn_Labels = [(''kubernetes.io/arch'', ''arm64'')], kn_Allocatable = wide_list\<rparr>"

definition two_nodes :: "kube_node list" where
  "two_nodes = [wide_node ''n2'', wide_node ''n1'']"

definition busy_pod :: "string \<Rightarrow> rat \<Rightarrow> kube_pod" where
  "busy_pod n memory = \<lparr>po_Namespace = ''apps'', po_Name = ''db'', po_Phase = ''Running'', po_NodeName = n, po_PodResources = False,
     po_Containers = [\<lparr>rl_CPU = Some 1, rl_Memory = Some memory, rl_Ephemeral = None, rl_Pods = None\<rparr>], po_InitContainers = [],
     po_Overhead = \<lparr>rl_CPU = None, rl_Memory = None, rl_Ephemeral = None, rl_Pods = None\<rparr>\<rparr>"

section \<open>The activation gate\<close>





section \<open>Candidates\<close>



text \<open>C19. 
  C4. Until it is activated a candidate gets no traffic: the pods of its template are selected by its own selector
  and by the policy that isolates it, and not by the service of an app deployed in the ordinary way, by the
  service of another generation or by an inactive service.
\<close>
theorem candidate_isolated:
  assumes "CandidateDeploymentForApp lib sha256 cfg namespace revision rid registry = Inr d"
  shows "sel_matches (candidate_labels (cfg_Name cfg) (candidateGeneration sha256 (cfg_Name cfg) rid)) (dp_TemplateLabels (wl_Spec d)) \<and>
     (\<forall>app. \<not> sel_matches (appLabels app) (dp_TemplateLabels (wl_Spec d))) \<and>
     (\<forall>app g. sel_matches (candidate_labels app g) (dp_TemplateLabels (wl_Spec d)) \<longrightarrow> app = cfg_Name cfg \<and> g = candidateGeneration sha256 (cfg_Name cfg) rid) \<and>
     (\<forall>app rid'. \<not> sel_matches (inactive_selector sha256 app rid') (dp_TemplateLabels (wl_Spec d)))"
proof -
  obtain h where "candidateDeploymentForGeneration lib sha256 cfg h namespace revision (candidateGeneration sha256 (cfg_Name cfg) rid) registry = Inr d"
    using CandidateDeploymentForApp_ok [OF assms] by blast
  note iso = candidate_pods_isolated [OF this]
  have "\<not> sel_matches (inactive_selector sha256 app rid') (dp_TemplateLabels (wl_Spec d))" for app rid'
    using iso(3) [of app "''inactive-'' @ candidateGeneration sha256 app rid'"] inactive_not_generation unfolding inactive_selector_def by blast
  then show ?thesis using iso by blast
qed

theorem candidate_isolated_witness:
  "CandidateDeploymentForApp sample_lib sample_sha sample_config ''apps'' [] sample_rid [] = Inr sample_candidate \<and>
   \<not> sel_matches (appLabels ''web'') (dp_TemplateLabels (wl_Spec sample_candidate))"
  using candidate_isolated [OF sample_rendered] sample_rendered by blast



text \<open>C21. 
  C6. The capacity check is exact. Once nodes and pods have been listed, it accepts a hosted app if and only if its
  request is not negative, every eligible node reports its capacity and there is one, every live pod is assigned to a
  node and readable, and all replicas up to the maximum together with the surge of a rollout can be placed on the
  eligible nodes beside the live pods, resilient replicas on different nodes. Placing the pods one by one on the first
  node with room is enough to find out.
\<close>
theorem capacity_exact:
  assumes "cfg_Hosting cfg = Some h" and "ResourceRequirements lib (Some h) = Inr (Some (req, limits))"
    and "1 \<le> hosting_MaxReplicas h" and "hosting_MaxReplicas h < 2 ^ 62" and "distinct (map kn_Name ns) \<and> [] \<notin> kn_Name ` set ns"
  shows "preflightHostingCapacity lib cfg (Some (Inr ns)) (Some (Inr ps)) = Inr () \<longleftrightarrow>
    \<not> anyNegative (requestedVector req) \<and> measurable cfg ns ps \<and>
    placeable (if resilience_Mode (cfg_Resilience cfg) = ''resilient'' then nat (hosting_MaxReplicas h) else 0)
      (nat (hosting_MaxReplicas h + rolloutSurge cfg h)) (requestedVector req) (map kn_Name (filter (eligible cfg) ns)) (spare_of ns ps)"
  by (rule preflight_iff [OF assms])

text \<open>Five pods of 1000 units of memory fit beside a pod of 3000, and not beside one of 3500.\<close>

theorem capacity_exact_witness:
  "placeable 0 5 \<lparr>rv_cpu = 1, rv_memory = 1000, rv_ephemeral = 1000, rv_pods = 1\<rparr> (map kn_Name (filter (eligible sample_config) two_nodes))
     (spare_of two_nodes [busy_pod ''n1'' 3000]) \<and>
   \<not> placeable 0 5 \<lparr>rv_cpu = 1, rv_memory = 1000, rv_ephemeral = 1000, rv_pods = 1\<rparr> (map kn_Name (filter (eligible sample_config) two_nodes))
     (spare_of two_nodes [busy_pod ''n1'' 3500])"
proof -
  obtain h where h: "cfg_Hosting sample_config = Some h" using sample_fields(2) by blast
  have "map_option hosting_MaxReplicas (cfg_Hosting sample_config) = Some 4" "ResourceRequirements sample_lib (cfg_Hosting sample_config) = Inr (Some ((1, 1000, 1000), (2, 2000, 2000)))"
    "map_option (rolloutSurge sample_config) (cfg_Hosting sample_config) = Some 1" "resilience_Mode (cfg_Resilience sample_config) \<noteq> ''resilient''"
    by (code_simp)+
  then have vals: "hosting_MaxReplicas h = 4" "ResourceRequirements sample_lib (Some h) = Inr (Some ((1, 1000, 1000), (2, 2000, 2000)))"
    "rolloutSurge sample_config h = 1" "resilience_Mode (cfg_Resilience sample_config) \<noteq> ''resilient''" using h by auto
  have nodes: "distinct (map kn_Name two_nodes) \<and> [] \<notin> kn_Name ` set two_nodes" by (simp add: two_nodes_def wide_node_def)
  have runs: "preflightHostingCapacity sample_lib sample_config (Some (Inr two_nodes)) (Some (Inr [busy_pod ''n1'' 3000])) = Inr ()"
    "preflightHostingCapacity sample_lib sample_config (Some (Inr two_nodes)) (Some (Inr [busy_pod ''n1'' 3500])) \<noteq> Inr ()"
    "\<not> anyNegative (requestedVector (1, 1000, 1000))" "measurable sample_config two_nodes [busy_pod ''n1'' 3500]"
    by (code_simp)+
  show ?thesis
    using capacity_exact [OF h vals(2) _ _ nodes, of "[busy_pod ''n1'' 3000]"] capacity_exact [OF h vals(2) _ _ nodes, of "[busy_pod ''n1'' 3500]"] runs vals
    by (simp add: requestedVector_def)
qed

end
