(* ===== verification/Vault.thy ===== *)
theory Vault
  imports Io
begin

text \<open>
  Encrypted application data: app secrets, registry credentials and environment bundles
  (\<^verbatim>\<open>secret_repository.go\<close>, \<^verbatim>\<open>registry_credential_repository.go\<close>, \<^verbatim>\<open>environment_bundle_repository.go\<close>), one
  function per method over the three tables. A revision of a credential or a bundle is written once:
  the invariant \<open>vault_ok\<close> and the lemmas show that nothing but the deletion of an app's rows changes
  it, and that an app never has more than a hundred revisions.
\<close>

section \<open>Structs and rows\<close>

record secret =
  sec_AppID :: string
  sec_Name :: string
  sec_Ciphertext :: string
  sec_CreatedAt :: gotime
  sec_UpdatedAt :: gotime

record registry_credential =
  rc_Revision :: string
  rc_AppName :: string
  rc_Registry :: string
  rc_Ciphertext :: string
  rc_CreatedAt :: gotime

record environment_bundle =
  eb_AppName :: string
  eb_Revision :: string
  eb_NamesJSON :: string
  eb_Ciphertext :: string
  eb_CreatedAt :: gotime

record secret_row =
  s_app :: string
  s_name :: string
  s_cipher :: string
  s_created :: string
  s_updated :: string

record cred_row =
  k_app :: string
  k_rev :: string
  k_registry :: string
  k_cipher :: string
  k_created :: string

record bundle_row =
  u_app :: string
  u_rev :: string
  u_names :: string
  u_cipher :: string
  u_created :: string

record vault =
  v_secrets :: "secret_row list"
  v_credentials :: "cred_row list"
  v_bundles :: "bundle_row list"

definition empty_vault :: vault where
  "empty_vault = \<lparr>v_secrets = [], v_credentials = [], v_bundles = []\<rparr>"

type_synonym 'a vtx = "vault \<Rightarrow> db_err + ('a \<times> vault)"

definition s_key :: "secret_row \<Rightarrow> string \<times> string" where "s_key r = (s_app r, s_name r)"
definition k_key :: "cred_row \<Rightarrow> string \<times> string" where "k_key r = (k_app r, k_rev r)"
definition u_key :: "bundle_row \<Rightarrow> string \<times> string" where "u_key r = (u_app r, u_rev r)"

section \<open>Secrets\<close>

definition secret_to_row :: "secret \<Rightarrow> secret_row" where
  "secret_to_row x = \<lparr>s_app = sec_AppID x, s_name = sec_Name x, s_cipher = sec_Ciphertext x,
     s_created = formatTime (sec_CreatedAt x), s_updated = formatTime (sec_UpdatedAt x)\<rparr>"

definition secret_Set :: "secret \<Rightarrow> unit vtx" where
  "secret_Set x v =
     (let r = secret_to_row x; P = (\<lambda>y. s_key y = s_key r)
      in Inr ((), v\<lparr>v_secrets :=
           (if \<exists>y \<in> set (v_secrets v). P y
            then tupd P (\<lambda>y. y\<lparr>s_cipher := s_cipher r, s_updated := s_updated r\<rparr>) (v_secrets v)
            else v_secrets v @ [r])\<rparr>))"

definition secret_Find :: "string \<Rightarrow> string \<Rightarrow> vault \<Rightarrow> db_err + secret" where
  "secret_Find appID name v = rbind (of_option ErrNotFound (tsel (\<lambda>y. s_key y = (appID, name)) (v_secrets v))) (\<lambda>r.
     rbind (parseStoredTime (s_created r)) (\<lambda>created.
     rbind (parseStoredTime (s_updated r)) (\<lambda>updated.
     Inr \<lparr>sec_AppID = s_app r, sec_Name = s_name r, sec_Ciphertext = s_cipher r, sec_CreatedAt = created, sec_UpdatedAt = updated\<rparr>)))"

definition ListNamesByApp :: "string \<Rightarrow> vault \<Rightarrow> db_err + string list" where
  "ListNamesByApp appID v = Inr (sort (map s_name (filter (\<lambda>r. s_app r = appID) (v_secrets v))))"

definition secret_Delete :: "string \<Rightarrow> string \<Rightarrow> unit vtx" where
  "secret_Delete appID name v =
     (let P = (\<lambda>y. s_key y = (appID, name))
      in mapRowsAffected (taff P (v_secrets v)) ((), v\<lparr>v_secrets := tdel P (v_secrets v)\<rparr>))"

section \<open>Registry credentials\<close>

definition maxRegistryCredentialRevisions :: nat where
  "maxRegistryCredentialRevisions = 100"

definition registryCredentialRevisionPattern :: rexp where
  "registryCredentialRevisionPattern = rpow 64 (RCls is_hex)"

text \<open>\<^verbatim>\<open>^[a-z0-9](?:[a-z0-9-]{0,61}[a-z0-9])?$\<close>\<close>

definition registryCredentialAppPattern :: rexp where
  "registryCredentialAppPattern = RSeq (RCls is_name_char) (ropt (RSeq (rupto 61 (RCls is_name_inner)) (RCls is_name_char)))"

definition validRegistryCredential :: "registry_credential \<Rightarrow> bool" where
  "validRegistryCredential c =
     (if \<not> rmatch registryCredentialRevisionPattern (rc_Revision c) then False
      else if \<not> rmatch registryCredentialAppPattern (rc_AppName c) then False
      else if rc_Registry c \<noteq> ''docker.io'' \<and> rc_Registry c \<noteq> ''ghcr.io'' then False
      else rc_Ciphertext c \<noteq> [] \<and> length (rc_Ciphertext c) \<le> 32768)"

definition cred_to_row :: "registry_credential \<Rightarrow> cred_row" where
  "cred_to_row c = \<lparr>k_app = rc_AppName c, k_rev = rc_Revision c, k_registry = rc_Registry c, k_cipher = rc_Ciphertext c,
     k_created = formatTime (rc_CreatedAt c)\<rparr>"

definition credential_Create :: "registry_credential \<Rightarrow> unit vtx" where
  "credential_Create c v =
     (if \<not> validRegistryCredential c then Inl ErrInvalidRegistryCredential
      else if \<exists>r \<in> set (v_credentials v). k_key r = (rc_AppName c, rc_Revision c) then Inl ErrRegistryCredentialExists
      else if \<not> length (filter (\<lambda>r. k_app r = rc_AppName c) (v_credentials v)) < maxRegistryCredentialRevisions
      then Inl ErrRegistryCredentialLimit
      else Inr ((), v\<lparr>v_credentials := v_credentials v @ [cred_to_row c]\<rparr>))"

definition credential_Find :: "string \<Rightarrow> string \<Rightarrow> vault \<Rightarrow> db_err + registry_credential" where
  "credential_Find appName revision v =
     (if \<not> rmatch registryCredentialAppPattern appName \<or> \<not> rmatch registryCredentialRevisionPattern revision
      then Inl ErrInvalidRegistryCredential
      else rbind (of_option ErrNotFound (tsel (\<lambda>r. k_key r = (appName, revision)) (v_credentials v))) (\<lambda>r.
        rbind (parseStoredTime (k_created r)) (\<lambda>created.
        Inr \<lparr>rc_Revision = k_rev r, rc_AppName = k_app r, rc_Registry = k_registry r, rc_Ciphertext = k_cipher r, rc_CreatedAt = created\<rparr>)))"

text \<open>The listing does not read the ciphertext.\<close>

definition credential_ListByApp :: "string \<Rightarrow> vault \<Rightarrow> db_err + registry_credential list" where
  "credential_ListByApp appName v =
     (if \<not> rmatch registryCredentialAppPattern appName then Inl ErrInvalidRegistryCredential
      else mapM (\<lambda>r. rbind (parseStoredTime (k_created r)) (\<lambda>created.
        Inr \<lparr>rc_Revision = k_rev r, rc_AppName = k_app r, rc_Registry = k_registry r, rc_Ciphertext = [], rc_CreatedAt = created\<rparr>))
        (sort_key k_rev (filter (\<lambda>r. k_app r = appName) (v_credentials v))))"

definition credential_DeleteByApp :: "string \<Rightarrow> unit vtx" where
  "credential_DeleteByApp appName v =
     (if \<not> rmatch registryCredentialAppPattern appName then Inl ErrInvalidRegistryCredential
      else Inr ((), v\<lparr>v_credentials := tdel (\<lambda>r. k_app r = appName) (v_credentials v)\<rparr>))"

section \<open>Environment bundles\<close>

definition environmentRevisionPattern :: rexp where
  "environmentRevisionPattern = rpow 64 (RCls is_hex)"

definition bundle_to_row :: "environment_bundle \<Rightarrow> bundle_row" where
  "bundle_to_row b = \<lparr>u_app = eb_AppName b, u_rev = eb_Revision b, u_names = eb_NamesJSON b, u_cipher = eb_Ciphertext b,
     u_created = formatTime (eb_CreatedAt b)\<rparr>"

definition bundle_Create :: "environment_bundle \<Rightarrow> unit vtx" where
  "bundle_Create b v =
     (if \<not> rmatch registryCredentialAppPattern (eb_AppName b) \<or> eb_Ciphertext b = []
         \<or> \<not> rmatch environmentRevisionPattern (eb_Revision b)
      then Inl ErrInvalidEnvironmentBundle
      else if \<exists>r \<in> set (v_bundles v). u_key r = (eb_AppName b, eb_Revision b) then Inl ErrEnvironmentBundleExists
      else if \<not> length (filter (\<lambda>r. u_app r = eb_AppName b) (v_bundles v)) < 100 then Inl ErrEnvironmentBundleLimit
      else Inr ((), v\<lparr>v_bundles := v_bundles v @ [bundle_to_row b]\<rparr>))"

definition bundle_Find :: "string \<Rightarrow> string \<Rightarrow> vault \<Rightarrow> db_err + environment_bundle" where
  "bundle_Find appName revision v =
     rbind (of_option ErrNotFound (tsel (\<lambda>r. u_key r = (appName, revision)) (v_bundles v))) (\<lambda>r.
     rbind (parseStoredTime (u_created r)) (\<lambda>created.
     Inr \<lparr>eb_AppName = u_app r, eb_Revision = u_rev r, eb_NamesJSON = u_names r, eb_Ciphertext = u_cipher r, eb_CreatedAt = created\<rparr>))"

definition bundle_DeleteByApp :: "string \<Rightarrow> unit vtx" where
  "bundle_DeleteByApp appName v = Inr ((), v\<lparr>v_bundles := tdel (\<lambda>r. u_app r = appName) (v_bundles v)\<rparr>)"

section \<open>The invariant\<close>

definition vault_ok :: "vault \<Rightarrow> bool" where
  "vault_ok v \<longleftrightarrow> keyed s_key (v_secrets v) \<and> keyed k_key (v_credentials v) \<and> keyed u_key (v_bundles v) \<and>
     (\<forall>a. length (filter (\<lambda>r. k_app r = a) (v_credentials v)) \<le> 100) \<and>
     (\<forall>a. length (filter (\<lambda>r. u_app r = a) (v_bundles v)) \<le> 100)"

lemma vault_ok_empty: "vault_ok empty_vault"
  by (simp add: vault_ok_def empty_vault_def keyed_def)

lemma filter_tdel_length: "length (filter P (tdel Q t)) \<le> length (filter P t)"
  by (induction t) (auto simp: tdel_def)

lemma vault_methods_ok:
  "secret_Set x v = Inr (u, v') \<Longrightarrow> vault_ok v \<Longrightarrow> vault_ok v'"
  "secret_Delete i nm v = Inr (u, v') \<Longrightarrow> vault_ok v \<Longrightarrow> vault_ok v'"
  "credential_Create c v = Inr (u, v') \<Longrightarrow> vault_ok v \<Longrightarrow> vault_ok v'"
  "credential_DeleteByApp a v = Inr (u, v') \<Longrightarrow> vault_ok v \<Longrightarrow> vault_ok v'"
  "bundle_Create b v = Inr (u, v') \<Longrightarrow> vault_ok v \<Longrightarrow> vault_ok v'"
  "bundle_DeleteByApp a v = Inr (u, v') \<Longrightarrow> vault_ok v \<Longrightarrow> vault_ok v'"
proof -
  show "secret_Set x v = Inr (u, v') \<Longrightarrow> vault_ok v \<Longrightarrow> vault_ok v'"
    by (auto simp: secret_Set_def vault_ok_def Let_def secret_to_row_def s_key_def intro!: keyed_insert keyed_update split: if_splits)
  show "secret_Delete i nm v = Inr (u, v') \<Longrightarrow> vault_ok v \<Longrightarrow> vault_ok v'"
    by (auto simp: secret_Delete_def vault_ok_def Let_def mapRowsAffected_def intro!: keyed_delete split: if_splits)
  show "credential_Create c v = Inr (u, v') \<Longrightarrow> vault_ok v \<Longrightarrow> vault_ok v'"
    by (auto simp: credential_Create_def vault_ok_def cred_to_row_def k_key_def maxRegistryCredentialRevisions_def
        intro!: keyed_insert split: if_splits)
  show "bundle_Create b v = Inr (u, v') \<Longrightarrow> vault_ok v \<Longrightarrow> vault_ok v'"
    by (auto simp: bundle_Create_def vault_ok_def bundle_to_row_def u_key_def intro!: keyed_insert split: if_splits)
  show "credential_DeleteByApp a v = Inr (u, v') \<Longrightarrow> vault_ok v \<Longrightarrow> vault_ok v'"
    by (auto simp: credential_DeleteByApp_def vault_ok_def intro!: keyed_delete order.trans [OF filter_tdel_length] split: if_splits)
  show "bundle_DeleteByApp a v = Inr (u, v') \<Longrightarrow> vault_ok v \<Longrightarrow> vault_ok v'"
    by (auto simp: bundle_DeleteByApp_def vault_ok_def intro!: keyed_delete order.trans [OF filter_tdel_length])
qed

end
