(* ===== verification/Node_Store.thy ===== *)
theory Node_Store
  imports Binding_Repo
begin

text \<open>
  The tables of the node fleet (\<^verbatim>\<open>nodes\<close>, \<^verbatim>\<open>admin_tokens\<close>, \<^verbatim>\<open>agent_tokens\<close>, \<^verbatim>\<open>node_join_tokens\<close>,
  \<^verbatim>\<open>events\<close>) with their domain structs and repositories: \<^verbatim>\<open>node_repository.go\<close>,
  \<^verbatim>\<open>admin_token_repository.go\<close>, \<^verbatim>\<open>agent_token_repository.go\<close> and \<^verbatim>\<open>join_token_repository.go\<close>, one
  function per method. The invariant \<open>store_ok\<close> is what the primary keys and the unique indexes
  promise; every method keeps it.
\<close>

section \<open>Domain structs\<close>

record admin_token =
  adm_TokenHash :: string
  adm_Name :: string
  adm_CreatedAt :: gotime
  adm_LastUsedAt :: "gotime option"
  adm_RevokedAt :: "gotime option"

record agent_token =
  agt_TokenHash :: string
  agt_NodeID :: string
  agt_CreatedAt :: gotime
  agt_LastUsedAt :: "gotime option"
  agt_RevokedAt :: "gotime option"

record join_token =
  join_TokenHash :: string
  join_IntendedNodeName :: string
  join_LabelsJSON :: string
  join_CreatedAt :: gotime
  join_ExpiresAt :: gotime
  join_UsedAt :: "gotime option"

record node =
  node_ID :: string
  node_Name :: string
  node_Status :: string
  node_LabelsJSON :: string
  node_Hostname :: string
  node_Arch :: string
  node_OS :: string
  node_Kernel :: string
  node_WireGuardIP :: string
  node_WireGuardPublicKey :: string
  node_VPNStatus :: string
  node_LastSeenAt :: "gotime option"
  node_CreatedAt :: gotime
  node_UpdatedAt :: gotime

section \<open>Rows\<close>

record admin_row =
  ad_hash :: string
  ad_name :: string
  ad_created :: string
  ad_used :: "string option"
  ad_revoked :: "string option"

record agent_row =
  ag_hash :: string
  ag_node :: string
  ag_created :: string
  ag_used :: "string option"
  ag_revoked :: "string option"

record join_row =
  j_hash :: string
  j_name :: string
  j_labels :: string
  j_created :: string
  j_expires :: string
  j_used :: "string option"

record node_row =
  n_id :: string
  n_name :: string
  n_status :: string
  n_labels :: string
  n_hostname :: string
  n_arch :: string
  n_os :: string
  n_kernel :: string
  n_ip :: string
  n_key :: string
  n_vpn :: string
  n_seen :: "string option"
  n_created :: string
  n_updated :: string

record event_row =
  e_id :: string
  e_created :: string
  e_type :: string
  e_severity :: string
  e_message :: string
  e_app :: "string option"
  e_node :: "string option"
  e_dep :: "string option"
  e_meta :: string

record store =
  nodes :: "node_row list"
  admin_tokens :: "admin_row list"
  agent_tokens :: "agent_row list"
  join_tokens :: "join_row list"
  events :: "event_row list"

definition empty_store :: store where
  "empty_store = \<lparr>nodes = [], admin_tokens = [], agent_tokens = [], join_tokens = [], events = []\<rparr>"

type_synonym 'a ntx = "store \<Rightarrow> db_err + ('a \<times> store)"

section \<open>Admin tokens\<close>

definition admin_to_row :: "admin_token \<Rightarrow> admin_row" where
  "admin_to_row t = \<lparr>ad_hash = adm_TokenHash t, ad_name = adm_Name t, ad_created = formatTime (adm_CreatedAt t),
     ad_used = formatOptionalTime (adm_LastUsedAt t), ad_revoked = formatOptionalTime (adm_RevokedAt t)\<rparr>"

definition admin_Create :: "admin_token \<Rightarrow> unit ntx" where
  "admin_Create t d =
     (if \<exists>x \<in> set (admin_tokens d). ad_hash x = adm_TokenHash t then Inl ErrConstraint
      else Inr ((), d\<lparr>admin_tokens := admin_tokens d @ [admin_to_row t]\<rparr>))"

definition admin_FindByHash :: "string \<Rightarrow> store \<Rightarrow> db_err + admin_token" where
  "admin_FindByHash h d = rbind (of_option ErrNotFound (tsel (\<lambda>x. ad_hash x = h) (admin_tokens d))) (\<lambda>x.
     rbind (parseStoredTime (ad_created x)) (\<lambda>created.
     rbind (parseOptionalStoredTime (ad_used x)) (\<lambda>used.
     rbind (parseOptionalStoredTime (ad_revoked x)) (\<lambda>revoked.
     Inr \<lparr>adm_TokenHash = ad_hash x, adm_Name = ad_name x, adm_CreatedAt = created, adm_LastUsedAt = used,
          adm_RevokedAt = revoked\<rparr>))))"

definition admin_MarkUsed :: "string \<Rightarrow> gotime \<Rightarrow> unit ntx" where
  "admin_MarkUsed h usedAt d =
     mapRowsAffected (taff (\<lambda>x. ad_hash x = h) (admin_tokens d))
       ((), d\<lparr>admin_tokens := tupd (\<lambda>x. ad_hash x = h) (\<lambda>x. x\<lparr>ad_used := Some (formatTime usedAt)\<rparr>) (admin_tokens d)\<rparr>)"

section \<open>Agent tokens\<close>

definition agent_to_row :: "agent_token \<Rightarrow> agent_row" where
  "agent_to_row t = \<lparr>ag_hash = agt_TokenHash t, ag_node = agt_NodeID t, ag_created = formatTime (agt_CreatedAt t),
     ag_used = formatOptionalTime (agt_LastUsedAt t), ag_revoked = formatOptionalTime (agt_RevokedAt t)\<rparr>"

definition agent_Create :: "agent_token \<Rightarrow> unit ntx" where
  "agent_Create t d =
     (if \<exists>x \<in> set (agent_tokens d). ag_hash x = agt_TokenHash t then Inl ErrConstraint
      else Inr ((), d\<lparr>agent_tokens := agent_tokens d @ [agent_to_row t]\<rparr>))"

definition agent_FindByHash :: "string \<Rightarrow> store \<Rightarrow> db_err + agent_token" where
  "agent_FindByHash h d = rbind (of_option ErrNotFound (tsel (\<lambda>x. ag_hash x = h) (agent_tokens d))) (\<lambda>x.
     rbind (parseStoredTime (ag_created x)) (\<lambda>created.
     rbind (parseOptionalStoredTime (ag_used x)) (\<lambda>used.
     rbind (parseOptionalStoredTime (ag_revoked x)) (\<lambda>revoked.
     Inr \<lparr>agt_TokenHash = ag_hash x, agt_NodeID = ag_node x, agt_CreatedAt = created, agt_LastUsedAt = used,
          agt_RevokedAt = revoked\<rparr>))))"

definition agent_MarkUsed :: "string \<Rightarrow> gotime \<Rightarrow> unit ntx" where
  "agent_MarkUsed h usedAt d =
     mapRowsAffected (taff (\<lambda>x. ag_hash x = h) (agent_tokens d))
       ((), d\<lparr>agent_tokens := tupd (\<lambda>x. ag_hash x = h) (\<lambda>x. x\<lparr>ag_used := Some (formatTime usedAt)\<rparr>) (agent_tokens d)\<rparr>)"

definition RevokeByNodeID :: "string \<Rightarrow> gotime \<Rightarrow> unit ntx" where
  "RevokeByNodeID nodeID revokedAt d = Inr ((), d\<lparr>agent_tokens :=
     tupd (\<lambda>x. ag_node x = nodeID \<and> ag_revoked x = None) (\<lambda>x. x\<lparr>ag_revoked := Some (formatTime revokedAt)\<rparr>) (agent_tokens d)\<rparr>)"

definition DeleteByNodeID :: "string \<Rightarrow> unit ntx" where
  "DeleteByNodeID nodeID d = Inr ((), d\<lparr>agent_tokens := tdel (\<lambda>x. ag_node x = nodeID) (agent_tokens d)\<rparr>)"

section \<open>Join tokens\<close>

text \<open>\<^verbatim>\<open>intended_node_name\<close> is nullable in the schema; \<^verbatim>\<open>Create\<close>, its only writer, stores a string.\<close>

definition join_to_row :: "join_token \<Rightarrow> join_row" where
  "join_to_row t = \<lparr>j_hash = join_TokenHash t, j_name = join_IntendedNodeName t, j_labels = join_LabelsJSON t,
     j_created = formatTime (join_CreatedAt t), j_expires = formatTime (join_ExpiresAt t),
     j_used = formatOptionalTime (join_UsedAt t)\<rparr>"

definition join_Create :: "join_token \<Rightarrow> unit ntx" where
  "join_Create t d =
     (if \<exists>x \<in> set (join_tokens d). j_hash x = join_TokenHash t then Inl ErrConstraint
      else Inr ((), d\<lparr>join_tokens := join_tokens d @ [join_to_row t]\<rparr>))"

definition join_FindByHash :: "string \<Rightarrow> store \<Rightarrow> db_err + join_token" where
  "join_FindByHash h d = rbind (of_option ErrNotFound (tsel (\<lambda>x. j_hash x = h) (join_tokens d))) (\<lambda>x.
     rbind (parseStoredTime (j_created x)) (\<lambda>created.
     rbind (parseStoredTime (j_expires x)) (\<lambda>expires.
     rbind (parseOptionalStoredTime (j_used x)) (\<lambda>used.
     Inr \<lparr>join_TokenHash = j_hash x, join_IntendedNodeName = j_name x, join_LabelsJSON = j_labels x,
          join_CreatedAt = created, join_ExpiresAt = expires, join_UsedAt = used\<rparr>))))"

text \<open>
  \<^verbatim>\<open>Consume\<close> is two statements outside a transaction: a read, and an update that only a row whose
  \<^verbatim>\<open>used_at\<close> is still NULL satisfies. \<open>consume_check\<close> and \<open>consume_update\<close> are the two; another
  connection may run between them.
\<close>

definition consume_check :: "string \<Rightarrow> gotime \<Rightarrow> store \<Rightarrow> db_err + join_token" where
  "consume_check h usedAt d = rbind (join_FindByHash h d) (\<lambda>t.
     if join_UsedAt t \<noteq> None then Inl ErrJoinTokenUsed
     else if \<not> usedAt < join_ExpiresAt t then Inl ErrJoinTokenExpired
     else Inr t)"

definition consume_update :: "string \<Rightarrow> gotime \<Rightarrow> join_token \<Rightarrow> join_token ntx" where
  "consume_update h usedAt t d =
     (let P = (\<lambda>x. j_hash x = h \<and> j_used x = None)
      in if taff P (join_tokens d) = 0 then Inl ErrJoinTokenUsed
         else Inr (t\<lparr>join_UsedAt := Some usedAt\<rparr>,
                   d\<lparr>join_tokens := tupd P (\<lambda>x. x\<lparr>j_used := Some (formatTime usedAt)\<rparr>) (join_tokens d)\<rparr>))"

definition Consume :: "string \<Rightarrow> gotime \<Rightarrow> join_token ntx" where
  "Consume h usedAt d = rbind (consume_check h usedAt d) (\<lambda>t. consume_update h usedAt t d)"

definition DeleteByNodeName :: "string \<Rightarrow> unit ntx" where
  "DeleteByNodeName name d = Inr ((), d\<lparr>join_tokens := tdel (\<lambda>x. j_name x = name) (join_tokens d)\<rparr>)"

section \<open>Nodes\<close>

text \<open>
  The indexes of \<^verbatim>\<open>nodes\<close>: the id, the name, and the address and the public key where they are not
  blank.
\<close>

definition node_conflict :: "node_row \<Rightarrow> node_row \<Rightarrow> bool" where
  "node_conflict r x \<longleftrightarrow> n_id x = n_id r \<or> n_name x = n_name r \<or> (n_ip r \<noteq> [] \<and> n_ip x = n_ip r)
     \<or> (n_key r \<noteq> [] \<and> n_key x = n_key r)"

definition insert_node :: "node_row \<Rightarrow> unit ntx" where
  "insert_node r d = (if \<exists>x \<in> set (nodes d). node_conflict r x then Inl ErrConstraint
     else Inr ((), d\<lparr>nodes := nodes d @ [r]\<rparr>))"

text \<open>An \<^verbatim>\<open>UPDATE nodes SET ... WHERE id = ?\<close> that keeps the id, and \<^verbatim>\<open>mapRowsAffected\<close>.\<close>

definition update_node :: "string \<Rightarrow> (node_row \<Rightarrow> node_row) \<Rightarrow> unit ntx" where
  "update_node ident f d =
     (case tsel (\<lambda>x. n_id x = ident) (nodes d) of None \<Rightarrow> Inl ErrNotFound
      | Some r \<Rightarrow>
          if \<exists>x \<in> set (nodes d). n_id x \<noteq> ident \<and> node_conflict (f r) x then Inl ErrConstraint
          else Inr ((), d\<lparr>nodes := tupd (\<lambda>x. n_id x = ident) f (nodes d)\<rparr>))"

definition node_to_row :: "node \<Rightarrow> node_row" where
  "node_to_row n = \<lparr>n_id = node_ID n, n_name = node_Name n, n_status = node_Status n, n_labels = node_LabelsJSON n,
     n_hostname = node_Hostname n, n_arch = node_Arch n, n_os = node_OS n, n_kernel = node_Kernel n,
     n_ip = node_WireGuardIP n, n_key = node_WireGuardPublicKey n, n_vpn = node_VPNStatus n,
     n_seen = formatOptionalTime (node_LastSeenAt n), n_created = formatTime (node_CreatedAt n),
     n_updated = formatTime (node_UpdatedAt n)\<rparr>"

definition node_Create :: "node \<Rightarrow> unit ntx" where
  "node_Create n =
     (let n = (if node_Status n = [] then n\<lparr>node_Status := ''pending''\<rparr> else n);
          n = (if node_LabelsJSON n = [] then n\<lparr>node_LabelsJSON := ''{}''\<rparr> else n)
      in insert_node (node_to_row n))"

definition scanNode :: "node_row \<Rightarrow> db_err + node" where
  "scanNode r =
     rbind (parseOptionalStoredTime (n_seen r)) (\<lambda>seen.
     rbind (parseStoredTime (n_created r)) (\<lambda>created.
     rbind (parseStoredTime (n_updated r)) (\<lambda>updated.
     Inr \<lparr>node_ID = n_id r, node_Name = n_name r, node_Status = n_status r, node_LabelsJSON = n_labels r,
          node_Hostname = n_hostname r, node_Arch = n_arch r, node_OS = n_os r, node_Kernel = n_kernel r,
          node_WireGuardIP = n_ip r, node_WireGuardPublicKey = n_key r, node_VPNStatus = n_vpn r,
          node_LastSeenAt = seen, node_CreatedAt = created, node_UpdatedAt = updated\<rparr>)))"

definition node_findOne :: "(node_row \<Rightarrow> bool) \<Rightarrow> store \<Rightarrow> db_err + node" where
  "node_findOne P d = rbind (of_option ErrNotFound (tsel P (nodes d))) scanNode"

definition node_FindByID :: "string \<Rightarrow> store \<Rightarrow> db_err + node" where
  "node_FindByID ident = node_findOne (\<lambda>x. n_id x = ident)"

definition node_FindByName :: "string \<Rightarrow> store \<Rightarrow> db_err + node" where
  "node_FindByName name = node_findOne (\<lambda>x. n_name x = name)"

definition node_List :: "store \<Rightarrow> db_err + node list" where
  "node_List d = mapM scanNode (sort_key n_name (nodes d))"

definition node_UpdateStatus :: "string \<Rightarrow> string \<Rightarrow> gotime \<Rightarrow> unit ntx" where
  "node_UpdateStatus ident st updatedAt = update_node ident (\<lambda>x. x\<lparr>n_status := st, n_updated := formatTime updatedAt\<rparr>)"

definition UpdateLastSeen :: "string \<Rightarrow> gotime \<Rightarrow> unit ntx" where
  "UpdateLastSeen ident seenAt = update_node ident
     (\<lambda>x. x\<lparr>n_seen := Some (formatTime seenAt), n_status := ''online'', n_updated := formatTime seenAt\<rparr>)"

definition UpdateHeartbeat :: "string \<Rightarrow> node \<Rightarrow> gotime \<Rightarrow> unit ntx" where
  "UpdateHeartbeat ident hb seenAt =
     (if node_LabelsJSON hb \<noteq> [] then
        update_node ident (\<lambda>x. x\<lparr>n_status := node_Status hb, n_labels := node_LabelsJSON hb, n_hostname := node_Hostname hb,
          n_arch := node_Arch hb, n_os := node_OS hb, n_kernel := node_Kernel hb, n_vpn := node_VPNStatus hb,
          n_seen := Some (formatTime seenAt), n_updated := formatTime seenAt\<rparr>)
      else
        update_node ident (\<lambda>x. x\<lparr>n_status := node_Status hb, n_hostname := node_Hostname hb,
          n_arch := node_Arch hb, n_os := node_OS hb, n_kernel := node_Kernel hb, n_vpn := node_VPNStatus hb,
          n_seen := Some (formatTime seenAt), n_updated := formatTime seenAt\<rparr>))"

definition SetWireGuard :: "string \<Rightarrow> string \<Rightarrow> string \<Rightarrow> gotime \<Rightarrow> unit ntx" where
  "SetWireGuard ident ip key updatedAt = update_node ident
     (\<lambda>x. x\<lparr>n_ip := ip, n_key := key, n_updated := formatTime updatedAt\<rparr>)"

definition Rename :: "string \<Rightarrow> string \<Rightarrow> gotime \<Rightarrow> unit ntx" where
  "Rename ident name updatedAt = update_node ident (\<lambda>x. x\<lparr>n_name := name, n_updated := formatTime updatedAt\<rparr>)"

definition node_Delete :: "string \<Rightarrow> unit ntx" where
  "node_Delete ident d = mapRowsAffected (taff (\<lambda>x. n_id x = ident) (nodes d))
     ((), d\<lparr>nodes := tdel (\<lambda>x. n_id x = ident) (nodes d)\<rparr>)"

section \<open>What the indexes promise\<close>

definition nodes_ok :: "node_row list \<Rightarrow> bool" where
  "nodes_ok t \<longleftrightarrow> keyed n_id t \<and> (\<forall>x \<in> set t. \<forall>y \<in> set t. node_conflict x y \<longrightarrow> n_id x = n_id y)"

definition store_ok :: "store \<Rightarrow> bool" where
  "store_ok d \<longleftrightarrow> nodes_ok (nodes d) \<and> keyed ad_hash (admin_tokens d) \<and> keyed ag_hash (agent_tokens d)
     \<and> keyed j_hash (join_tokens d) \<and> keyed e_id (events d)"

lemma store_ok_empty: "store_ok empty_store"
  by (simp add: store_ok_def empty_store_def nodes_ok_def)

text \<open>Two different nodes share no name, no address and no key, blanks apart.\<close>

lemma nodes_ok_unique:
  assumes "nodes_ok t" "x \<in> set t" "y \<in> set t" "node_conflict x y"
  shows "x = y"
  using assms by (auto simp: nodes_ok_def dest: keyed_unique)

lemma node_conflict_sym: "node_conflict x y \<longleftrightarrow> node_conflict y x"
  by (auto simp: node_conflict_def)

lemma nodes_ok_insert:
  "nodes_ok t \<Longrightarrow> \<forall>x \<in> set t. \<not> node_conflict r x \<Longrightarrow> nodes_ok (t @ [r])"
  using node_conflict_sym [of _ r] unfolding nodes_ok_def
  by (intro conjI keyed_insert) (auto simp: node_conflict_def [of r])

lemma nodes_ok_delete: "nodes_ok t \<Longrightarrow> nodes_ok (tdel P t)"
  by (auto simp: nodes_ok_def keyed_delete)

lemma nodes_ok_update:
  assumes ok: "nodes_ok t" and r: "r \<in> set t" "n_id r = i" and same: "\<And>x. n_id (f x) = n_id x"
    and free: "\<forall>x \<in> set t. n_id x \<noteq> i \<longrightarrow> \<not> node_conflict (f r) x"
  shows "nodes_ok (tupd (\<lambda>x. n_id x = i) f t)"
proof -
  have new: "x' = f r \<or> x' \<in> set t \<and> n_id x' \<noteq> i" if "x' \<in> set (tupd (\<lambda>x. n_id x = i) f t)" for x'
    using that ok r by (auto simp: set_tupd nodes_ok_def dest: keyed_unique)
  show ?thesis unfolding nodes_ok_def
  proof (intro conjI ballI impI)
    show "keyed n_id (tupd (\<lambda>x. n_id x = i) f t)" using ok same by (auto simp: nodes_ok_def intro: keyed_update)
    fix x y assume "x \<in> set (tupd (\<lambda>x. n_id x = i) f t)" "y \<in> set (tupd (\<lambda>x. n_id x = i) f t)" and c: "node_conflict x y"
    from new [OF this(1)] new [OF this(2)] show "n_id x = n_id y"
      using c free ok node_conflict_sym [of x y] by (auto simp: nodes_ok_def)
  qed
qed

lemma update_node_Inr:
  assumes "update_node i f d = Inr (u, d')"
  obtains r where "tsel (\<lambda>x. n_id x = i) (nodes d) = Some r" "d' = d\<lparr>nodes := tupd (\<lambda>x. n_id x = i) f (nodes d)\<rparr>"
    "\<forall>x \<in> set (nodes d). n_id x \<noteq> i \<longrightarrow> \<not> node_conflict (f r) x"
  using assms by (auto simp: update_node_def split: option.splits if_splits)

lemma update_node_ok:
  assumes "update_node i f d = Inr (u, d')" and "\<And>x. n_id (f x) = n_id x" and "store_ok d"
  shows "store_ok d'"
  using assms(1)
proof (rule update_node_Inr)
  fix r assume r: "tsel (\<lambda>x. n_id x = i) (nodes d) = Some r" "d' = d\<lparr>nodes := tupd (\<lambda>x. n_id x = i) f (nodes d)\<rparr>"
    "\<forall>x \<in> set (nodes d). n_id x \<noteq> i \<longrightarrow> \<not> node_conflict (f r) x"
  from tsel_SomeD [OF r(1)] r(2,3) assms(2,3) show "store_ok d'"
    unfolding store_ok_def by (auto intro: nodes_ok_update)
qed

lemmas node_update_defs = node_UpdateStatus_def UpdateLastSeen_def UpdateHeartbeat_def SetWireGuard_def Rename_def

text \<open>Every method keeps the keys.\<close>

lemma node_methods_ok:
  "node_UpdateStatus i st t d = Inr (u, d') \<Longrightarrow> store_ok d \<Longrightarrow> store_ok d'"
  "UpdateLastSeen i t d = Inr (u, d') \<Longrightarrow> store_ok d \<Longrightarrow> store_ok d'"
  "UpdateHeartbeat i hb t d = Inr (u, d') \<Longrightarrow> store_ok d \<Longrightarrow> store_ok d'"
  "SetWireGuard i ip k t d = Inr (u, d') \<Longrightarrow> store_ok d \<Longrightarrow> store_ok d'"
  "Rename i nm t d = Inr (u, d') \<Longrightarrow> store_ok d \<Longrightarrow> store_ok d'"
  unfolding node_update_defs by (auto split: if_splits intro: update_node_ok)

lemma node_Create_ok: "node_Create n d = Inr (u, d') \<Longrightarrow> store_ok d \<Longrightarrow> store_ok d'"
  by (auto simp: node_Create_def Let_def insert_node_def store_ok_def split: if_splits intro!: nodes_ok_insert)

lemma node_Delete_ok: "node_Delete i d = Inr (u, d') \<Longrightarrow> store_ok d \<Longrightarrow> store_ok d'"
  by (auto simp: node_Delete_def store_ok_def res_simps nodes_ok_delete)

lemma admin_methods_ok:
  "admin_Create t d = Inr (u, d') \<Longrightarrow> store_ok d \<Longrightarrow> store_ok d'"
  "admin_MarkUsed h w d = Inr (u, d') \<Longrightarrow> store_ok d \<Longrightarrow> store_ok d'"
  by (auto simp: admin_Create_def admin_MarkUsed_def admin_to_row_def store_ok_def res_simps
      split: if_splits intro!: keyed_insert keyed_update)

lemma agent_methods_ok:
  "agent_Create t d = Inr (u, d') \<Longrightarrow> store_ok d \<Longrightarrow> store_ok d'"
  "agent_MarkUsed h w d = Inr (u, d') \<Longrightarrow> store_ok d \<Longrightarrow> store_ok d'"
  "RevokeByNodeID i w d = Inr (u, d') \<Longrightarrow> store_ok d \<Longrightarrow> store_ok d'"
  "DeleteByNodeID i d = Inr (u, d') \<Longrightarrow> store_ok d \<Longrightarrow> store_ok d'"
  by (auto simp: agent_Create_def agent_MarkUsed_def RevokeByNodeID_def DeleteByNodeID_def agent_to_row_def store_ok_def res_simps
      split: if_splits intro!: keyed_insert keyed_update keyed_delete)

lemma join_methods_ok:
  "join_Create j d = Inr (u, d') \<Longrightarrow> store_ok d \<Longrightarrow> store_ok d'"
  "consume_update h w j d = Inr (j', d') \<Longrightarrow> store_ok d \<Longrightarrow> store_ok d'"
  "Consume h w d = Inr (j', d') \<Longrightarrow> store_ok d \<Longrightarrow> store_ok d'"
  "DeleteByNodeName nm d = Inr (u, d') \<Longrightarrow> store_ok d \<Longrightarrow> store_ok d'"
  by (auto simp: join_Create_def Consume_def consume_update_def DeleteByNodeName_def join_to_row_def store_ok_def res_simps Let_def
      split: if_splits intro!: keyed_insert keyed_update keyed_delete)

lemmas store_methods_ok = node_methods_ok node_Create_ok node_Delete_ok admin_methods_ok agent_methods_ok join_methods_ok

section \<open>Reading back\<close>

lemma scanNode_fields:
  "scanNode r = Inr n \<Longrightarrow> node_ID n = n_id r \<and> node_Name n = n_name r \<and> node_Status n = n_status r
     \<and> node_WireGuardIP n = n_ip r \<and> node_WireGuardPublicKey n = n_key r \<and> node_LabelsJSON n = n_labels r"
  by (auto simp: scanNode_def res_simps)

lemma node_findOne_Inr: "node_findOne P d = Inr n \<longleftrightarrow> (\<exists>r. tsel P (nodes d) = Some r \<and> scanNode r = Inr n)"
  by (auto simp: node_findOne_def res_simps)

lemma node_Find_row:
  "node_FindByID i d = Inr n \<Longrightarrow> \<exists>r \<in> set (nodes d). n_id r = i \<and> scanNode r = Inr n"
  "node_FindByName nm d = Inr n \<Longrightarrow> \<exists>r \<in> set (nodes d). n_name r = nm \<and> scanNode r = Inr n"
  by (auto simp: node_FindByID_def node_FindByName_def node_findOne_Inr dest!: tsel_SomeD)

lemma node_List_rows:
  assumes "node_List d = Inr ns"
  shows "\<forall>n \<in> set ns. \<exists>r \<in> set (nodes d). scanNode r = Inr n" and "\<forall>r \<in> set (nodes d). \<exists>n \<in> set ns. scanNode r = Inr n"
  using mapM_sets [OF assms [unfolded node_List_def]] by simp_all

lemma parseOptional_None: "parseOptionalStoredTime s = Inr t \<Longrightarrow> t = None \<longleftrightarrow> s = None"
  by (auto simp: parseOptionalStoredTime_def res_simps split: option.splits)

lemma admin_FindByHash_row:
  "admin_FindByHash h d = Inr t \<Longrightarrow> adm_TokenHash t = h \<and>
     (\<exists>x. tsel (\<lambda>x. ad_hash x = h) (admin_tokens d) = Some x \<and> ad_hash x = h \<and> (adm_RevokedAt t = None \<longleftrightarrow> ad_revoked x = None))"
  by (auto simp: admin_FindByHash_def res_simps dest: tsel_SomeD parseOptional_None)

lemma agent_FindByHash_row:
  "agent_FindByHash h d = Inr t \<Longrightarrow> agt_TokenHash t = h \<and>
     (\<exists>x. tsel (\<lambda>x. ag_hash x = h) (agent_tokens d) = Some x \<and> ag_hash x = h \<and> ag_node x = agt_NodeID t \<and>
        (agt_RevokedAt t = None \<longleftrightarrow> ag_revoked x = None))"
  by (auto simp: agent_FindByHash_def res_simps dest: tsel_SomeD parseOptional_None)

lemma join_FindByHash_row:
  "join_FindByHash h d = Inr t \<Longrightarrow> join_TokenHash t = h \<and>
     (\<exists>x. tsel (\<lambda>x. j_hash x = h) (join_tokens d) = Some x \<and> j_hash x = h \<and> (join_UsedAt t = None \<longleftrightarrow> j_used x = None))"
  by (auto simp: join_FindByHash_def res_simps dest: tsel_SomeD parseOptional_None)

end
