(* ===== verification/Access.thy ===== *)
theory Access
  imports Node_Store Io
begin

text \<open>
  Tokens (\<^verbatim>\<open>internal/security/tokens.go\<close>) and the authentication of gRPC calls
  (\<^verbatim>\<open>internal/server/auth.go\<close>, \<^verbatim>\<open>identity.go\<close>). HMAC-SHA256 and SHA-256 are parameters (\<open>hmac\<close>,
  \<open>sha256\<close>), the random bytes of a token an argument. The authenticator is written over the
  repository interfaces of the source; the locale \<open>token_store\<close> states what it needs of them and is
  interpreted for the repositories of \<open>Node_Store\<close>.
\<close>

section \<open>Tokens\<close>

datatype token_err = ErrInvalidPrefix | ErrEmptyKey | ErrRandom

definition AdminTokenPrefix :: string where "AdminTokenPrefix = ''dep_admin''"
definition JoinTokenPrefix :: string where "JoinTokenPrefix = ''dep_join''"
definition AgentTokenPrefix :: string where "AgentTokenPrefix = ''dep_agent''"

definition knownPrefixes :: "string list" where
  "knownPrefixes = [AdminTokenPrefix, JoinTokenPrefix, AgentTokenPrefix]"

definition validPrefix :: "string \<Rightarrow> bool" where
  "validPrefix pfx \<longleftrightarrow> list_ex (\<lambda>k. pfx = k) knownPrefixes"

text \<open>\<^verbatim>\<open>base64.RawURLEncoding\<close>: the URL alphabet, no padding.\<close>

definition b64url_char :: "nat \<Rightarrow> char" where
  "b64url_char n = (if n < 26 then char_of (65 + n) else if n < 52 then char_of (71 + n)
     else if n < 62 then char_of (n - 4) else if n = 62 then CHR ''-'' else CHR ''_'')"

fun RawURLEncoding :: "nat list \<Rightarrow> string" where
  "RawURLEncoding [] = []"
| "RawURLEncoding [a] = [b64url_char (a div 4), b64url_char (a mod 4 * 16)]"
| "RawURLEncoding [a, b] = [b64url_char (a div 4), b64url_char (a mod 4 * 16 + b div 16), b64url_char (b mod 16 * 4)]"
| "RawURLEncoding (a # b # c # r) = [b64url_char (a div 4), b64url_char (a mod 4 * 16 + b div 16),
     b64url_char (b mod 16 * 4 + c div 64), b64url_char (c mod 64)] @ RawURLEncoding r"

text \<open>\<open>raw\<close> is what \<^verbatim>\<open>rand.Read\<close> delivers for the 32 bytes asked for, None its error.\<close>

definition NewToken :: "nat list option \<Rightarrow> string \<Rightarrow> token_err + string" where
  "NewToken raw pfx =
     (if \<not> validPrefix pfx then Inl ErrInvalidPrefix
      else case raw of None \<Rightarrow> Inl ErrRandom | Some bs \<Rightarrow> Inr (pfx @ ''_'' @ RawURLEncoding bs))"

definition HashToken :: "(string \<Rightarrow> string \<Rightarrow> nat list) \<Rightarrow> string \<Rightarrow> string \<Rightarrow> token_err + string" where
  "HashToken hmac key token = (if key = [] then Inl ErrEmptyKey else Inr (hex_encode (hmac key token)))"

definition CompareTokenHash :: "string \<Rightarrow> string \<Rightarrow> bool" where
  "CompareTokenHash expected actual \<longleftrightarrow> expected = actual"

definition token_Prefix :: "string \<Rightarrow> token_err + string" where
  "token_Prefix token = of_option ErrInvalidPrefix
     (find (\<lambda>p. HasPrefix token (p @ ''_'') \<and> length token > length p + 1) knownPrefixes)"

definition RedactToken :: "string \<Rightarrow> string" where
  "RedactToken token =
     (if token = [] then []
      else case token_Prefix token of Inl _ \<Rightarrow> ''[REDACTED]''
        | Inr p \<Rightarrow>
            if length token \<le> length p + 9 then p @ ''_[REDACTED]''
            else p @ ''_'' @ take 4 (drop (length p + 1) token) @ ''...[REDACTED]'')"

section \<open>Callers\<close>

definition CallerAdmin :: string where "CallerAdmin = ''admin''"
definition CallerAgent :: string where "CallerAgent = ''agent''"

record caller =
  caller_Kind :: string
  caller_NodeID :: string
  caller_TokenID :: string

text \<open>A handler sees the caller the interceptor put into its context, or none.\<close>

type_synonym ctx = "caller option"

definition requireCaller :: "ctx \<Rightarrow> string \<Rightarrow> srv_err + unit" where
  "requireCaller ctx kind = (case ctx of None \<Rightarrow> Inl (ErrStatus Unauthenticated ''authorization bearer token is required'')
     | Some c \<Rightarrow> if caller_Kind c \<noteq> kind then Inl (ErrStatus PermissionDenied (kind @ '' token is required'')) else Inr ())"

section \<open>Authentication\<close>

record 's admin_repo =
  repo_admin_FindByHash :: "string \<Rightarrow> ('s, admin_token) io"
  repo_admin_MarkUsed :: "string \<Rightarrow> gotime \<Rightarrow> ('s, unit) io"

record 's agent_repo =
  repo_agent_FindByHash :: "string \<Rightarrow> ('s, agent_token) io"
  repo_agent_MarkUsed :: "string \<Rightarrow> gotime \<Rightarrow> ('s, unit) io"

record 's authenticator =
  auth_AdminTokens :: "'s admin_repo"
  auth_AgentTokens :: "'s agent_repo"
  auth_hashKey :: string

definition isPublicMethod :: "string \<Rightarrow> bool" where
  "isPublicMethod m \<longleftrightarrow> m = ''/deployer.v1.PlatformService/GetVersion'' \<or> m = ''/deployer.v1.NodeService/JoinNode''
     \<or> HasPrefix m ''/grpc.health.v1.Health/''"

definition isAgentOnlyMethod :: "string \<Rightarrow> bool" where
  "isAgentOnlyMethod m \<longleftrightarrow> m = ''/deployer.v1.NodeService/HeartbeatNode'' \<or> m = ''/deployer.v1.NodeService/GetWorkerBootstrap''"

definition isAdminOnlyMethod :: "string \<Rightarrow> bool" where
  "isAdminOnlyMethod m \<longleftrightarrow> \<not> isAgentOnlyMethod m"

text \<open>
  \<open>vals\<close> are the values of the \<^verbatim>\<open>authorization\<close> header. \<^verbatim>\<open>strings.EqualFold\<close> with the word Bearer
  is a comparison of lower-cased bytes: no letter of it folds to a character outside ASCII.
\<close>

definition bearerToken :: "string list \<Rightarrow> srv_err + string" where
  "bearerToken vals =
     (let missing = Inl (ErrStatus Unauthenticated ''authorization bearer token is required'')
      in case vals of [] \<Rightarrow> missing
         | v # _ \<Rightarrow>
             (case Cut (TrimSpace v) '' '' of None \<Rightarrow> missing
              | Some (scheme, token) \<Rightarrow>
                  if map to_lower_char scheme \<noteq> ''bearer'' \<or> TrimSpace token = [] then missing
                  else Inr (TrimSpace token)))"

definition opaqueTokenID :: "(string \<Rightarrow> nat list) \<Rightarrow> string \<Rightarrow> string" where
  "opaqueTokenID sha256 stored = hex_encode (take 8 (sha256 stored))"

text \<open>\<^verbatim>\<open>return Caller{}, status.Error(code, msg)\<close>.\<close>

abbreviation io_status :: "grpc_code \<Rightarrow> string \<Rightarrow> ('s, 'a) io" where
  "io_status c msg \<equiv> io_fail (ErrStatus c msg)"

text \<open>The lookup of a token: not found is Unauthenticated, any other failure Internal.\<close>

definition find_token :: "('s, 'a) io \<Rightarrow> string \<Rightarrow> ('a \<Rightarrow> ('s, 'b) io) \<Rightarrow> ('s, 'b) io" where
  "find_token m what k = io_try m (\<lambda>r. case r of
     Inl (ErrDb ErrNotFound) \<Rightarrow> io_status Unauthenticated ''invalid bearer token''
   | Inl _ \<Rightarrow> io_status Internal what
   | Inr t \<Rightarrow> k t)"

definition authenticate :: "(string \<Rightarrow> string \<Rightarrow> nat list) \<Rightarrow> (string \<Rightarrow> nat list) \<Rightarrow> 's authenticator \<Rightarrow> gotime \<Rightarrow>
    string list \<Rightarrow> string \<Rightarrow> ('s, caller) io" where
  "authenticate hmac sha256 a now vals m =
     (case bearerToken vals of Inl e \<Rightarrow> io_fail e
      | Inr rawToken \<Rightarrow>
     (case token_Prefix rawToken of Inl _ \<Rightarrow> io_status Unauthenticated ''invalid bearer token''
      | Inr pfx \<Rightarrow>
     (case HashToken hmac (auth_hashKey a) rawToken of Inl _ \<Rightarrow> io_status Internal ''token hashing is not configured''
      | Inr h \<Rightarrow>
          if pfx = AdminTokenPrefix then
            if isAgentOnlyMethod m then io_status PermissionDenied ''admin token cannot call agent RPC''
            else find_token (repo_admin_FindByHash (auth_AdminTokens a) h) ''authenticate admin token'' (\<lambda>token.
              if adm_RevokedAt token \<noteq> None then io_status PermissionDenied ''admin token is revoked''
              else io_bind (io_wrap (ErrStatus Internal ''record admin token usage'')
                     (repo_admin_MarkUsed (auth_AdminTokens a) h now)) (\<lambda>_.
                   io_ret \<lparr>caller_Kind = CallerAdmin, caller_NodeID = [], caller_TokenID = opaqueTokenID sha256 h\<rparr>))
          else if pfx = AgentTokenPrefix then
            find_token (repo_agent_FindByHash (auth_AgentTokens a) h) ''authenticate agent token'' (\<lambda>token.
              if agt_RevokedAt token \<noteq> None then io_status PermissionDenied ''agent token is revoked''
              else if isAdminOnlyMethod m then io_status PermissionDenied ''agent token cannot call admin RPC''
              else io_bind (io_wrap (ErrStatus Internal ''record agent token usage'')
                     (repo_agent_MarkUsed (auth_AgentTokens a) h now)) (\<lambda>_.
                   io_ret \<lparr>caller_Kind = CallerAgent, caller_NodeID = agt_NodeID token, caller_TokenID = opaqueTokenID sha256 h\<rparr>))
          else if pfx = JoinTokenPrefix then io_status PermissionDenied ''join tokens must be sent to JoinNode''
          else io_status Unauthenticated ''invalid bearer token'')))"

definition UnaryInterceptor :: "(string \<Rightarrow> string \<Rightarrow> nat list) \<Rightarrow> (string \<Rightarrow> nat list) \<Rightarrow> 's authenticator \<Rightarrow> gotime \<Rightarrow>
    string list \<Rightarrow> string \<Rightarrow> (ctx \<Rightarrow> ('s, 'a) io) \<Rightarrow> ('s, 'a) io" where
  "UnaryInterceptor hmac sha256 a now vals m handler =
     (if isPublicMethod m then handler None
      else io_bind (authenticate hmac sha256 a now vals m) (\<lambda>c. handler (Some c)))"

text \<open>The stream handler gets the server and the stream whose context carries the caller.\<close>

definition StreamInterceptor :: "(string \<Rightarrow> string \<Rightarrow> nat list) \<Rightarrow> (string \<Rightarrow> nat list) \<Rightarrow> 's authenticator \<Rightarrow> gotime \<Rightarrow>
    string list \<Rightarrow> string \<Rightarrow> ('srv \<Rightarrow> ctx \<Rightarrow> ('s, unit) io) \<Rightarrow> 'srv \<Rightarrow> ('s, unit) io" where
  "StreamInterceptor hmac sha256 a now vals m handler srv =
     (if isPublicMethod m then handler srv None
      else io_bind (authenticate hmac sha256 a now vals m) (\<lambda>c. handler srv (Some c)))"

section \<open>What authentication needs of the token tables\<close>

lemma AdminAgent_prefix [simp]: "AdminTokenPrefix \<noteq> AgentTokenPrefix" "AgentTokenPrefix \<noteq> AdminTokenPrefix"
  "JoinTokenPrefix \<noteq> AdminTokenPrefix" "JoinTokenPrefix \<noteq> AgentTokenPrefix" "AdminTokenPrefix \<noteq> JoinTokenPrefix"
  "AgentTokenPrefix \<noteq> JoinTokenPrefix"
  by (simp_all add: AdminTokenPrefix_def AgentTokenPrefix_def JoinTokenPrefix_def)

lemma caller_kinds [simp]: "CallerAdmin \<noteq> CallerAgent" "CallerAgent \<noteq> CallerAdmin"
  by (simp_all add: CallerAdmin_def CallerAgent_def)

text \<open>A request presents the token with hash \<open>h\<close> and the kind \<open>pfx\<close>.\<close>

definition presents :: "(string \<Rightarrow> string \<Rightarrow> nat list) \<Rightarrow> string \<Rightarrow> string list \<Rightarrow> string \<Rightarrow> string \<Rightarrow> bool" where
  "presents hmac key vals pfx h \<longleftrightarrow>
     (case bearerToken vals of Inl _ \<Rightarrow> False
      | Inr tok \<Rightarrow> token_Prefix tok = Inr pfx \<and> HashToken hmac key tok = Inr h)"

text \<open>
  The laws: a lookup changes nothing and succeeds with an unrevoked token exactly when the table
  holds it live; recording the use of a live token succeeds and changes only the record of uses,
  the relation \<open>same\<close>.
\<close>

locale token_store =
  fixes a :: "'s authenticator" and admin_live :: "'s \<Rightarrow> string \<Rightarrow> bool"
    and agent_live :: "'s \<Rightarrow> string \<Rightarrow> string \<Rightarrow> bool" and same :: "'s \<Rightarrow> 's \<Rightarrow> bool"
  assumes admin_find_same: "snd (repo_admin_FindByHash (auth_AdminTokens a) h s) = s"
    and admin_find: "admin_live s h \<longleftrightarrow> (\<exists>t. fst (repo_admin_FindByHash (auth_AdminTokens a) h s) = Inr t \<and> adm_RevokedAt t = None)"
    and agent_find_same: "snd (repo_agent_FindByHash (auth_AgentTokens a) h s) = s"
    and agent_find: "agent_live s h i \<longleftrightarrow>
        (\<exists>t. fst (repo_agent_FindByHash (auth_AgentTokens a) h s) = Inr t \<and> agt_RevokedAt t = None \<and> agt_NodeID t = i)"
    and admin_mark: "admin_live s h \<Longrightarrow> fst (repo_admin_MarkUsed (auth_AdminTokens a) h now s) = Inr ()"
    and admin_mark_same: "same s (snd (repo_admin_MarkUsed (auth_AdminTokens a) h now s))"
    and agent_mark: "agent_live s h i \<Longrightarrow> fst (repo_agent_MarkUsed (auth_AgentTokens a) h now s) = Inr ()"
    and agent_mark_same: "same s (snd (repo_agent_MarkUsed (auth_AgentTokens a) h now s))"
    and same_refl: "same s s"
begin

lemma find_admin_cases:
  obtains (none) e where "repo_admin_FindByHash (auth_AdminTokens a) h s = (Inl e, s)" "\<not> admin_live s h"
  | (some) t where "repo_admin_FindByHash (auth_AdminTokens a) h s = (Inr t, s)" "admin_live s h \<longleftrightarrow> adm_RevokedAt t = None"
  using admin_find_same [of h s] admin_find [of s h]
  by (cases "repo_admin_FindByHash (auth_AdminTokens a) h s"; cases "fst (repo_admin_FindByHash (auth_AdminTokens a) h s)") auto

lemma find_agent_cases:
  obtains (none) e where "repo_agent_FindByHash (auth_AgentTokens a) h s = (Inl e, s)" "\<And>i. \<not> agent_live s h i"
  | (some) t where "repo_agent_FindByHash (auth_AgentTokens a) h s = (Inr t, s)"
      "\<And>i. agent_live s h i \<longleftrightarrow> agt_RevokedAt t = None \<and> agt_NodeID t = i"
  using agent_find_same [of h s] agent_find [of s h]
  by (cases "repo_agent_FindByHash (auth_AgentTokens a) h s"; cases "fst (repo_agent_FindByHash (auth_AgentTokens a) h s)") auto

text \<open>Who is let in: the presenter of a live token of the kind the method asks for.\<close>

definition grants :: "(string \<Rightarrow> string \<Rightarrow> nat list) \<Rightarrow> (string \<Rightarrow> nat list) \<Rightarrow> string list \<Rightarrow> string \<Rightarrow> 's \<Rightarrow> caller \<Rightarrow> bool" where
  "grants hmac sha256 vals m s c \<longleftrightarrow> (\<exists>h.
     (presents hmac (auth_hashKey a) vals AdminTokenPrefix h \<and> \<not> isAgentOnlyMethod m \<and> admin_live s h \<and>
        caller_Kind c = CallerAdmin \<and> caller_NodeID c = [] \<and> caller_TokenID c = opaqueTokenID sha256 h) \<or>
     (presents hmac (auth_hashKey a) vals AgentTokenPrefix h \<and> isAgentOnlyMethod m \<and> agent_live s h (caller_NodeID c) \<and>
        caller_Kind c = CallerAgent \<and> caller_TokenID c = opaqueTokenID sha256 h))"

lemmas authenticate_run = presents_def authenticate_def find_token_def io_try_def io_bind_def io_wrap_def

lemma authenticate_admin:
  assumes "presents hmac (auth_hashKey a) vals AdminTokenPrefix h"
  shows "fst (authenticate hmac sha256 a now vals m s) = Inr c \<longleftrightarrow> \<not> isAgentOnlyMethod m \<and> admin_live s h \<and>
      caller_Kind c = CallerAdmin \<and> caller_NodeID c = [] \<and> caller_TokenID c = opaqueTokenID sha256 h"
  using assms admin_mark [of s h now]
  by (cases c; cases s h rule: find_admin_cases; cases "repo_admin_MarkUsed (auth_AdminTokens a) h now s")
     (auto simp: authenticate_run split: sum.splits srv_err.splits db_err.splits if_splits)

lemma authenticate_admin_frame:
  assumes "presents hmac (auth_hashKey a) vals AdminTokenPrefix h"
  shows "same s (snd (authenticate hmac sha256 a now vals m s))"
  using assms admin_mark_same [of s h now] same_refl
  by (cases s h rule: find_admin_cases; cases "repo_admin_MarkUsed (auth_AdminTokens a) h now s")
     (auto simp: authenticate_run split: sum.splits srv_err.splits db_err.splits if_splits)

lemma authenticate_agent:
  assumes "presents hmac (auth_hashKey a) vals AgentTokenPrefix h"
  shows "fst (authenticate hmac sha256 a now vals m s) = Inr c \<longleftrightarrow> isAgentOnlyMethod m \<and> agent_live s h (caller_NodeID c) \<and>
      caller_Kind c = CallerAgent \<and> caller_TokenID c = opaqueTokenID sha256 h"
proof (cases s h rule: find_agent_cases)
  case (none e)
  with assms show ?thesis by (auto simp: authenticate_run split: sum.splits srv_err.splits db_err.splits)
next
  case (some t)
  show ?thesis
  proof (cases "agt_RevokedAt t = None")
    case True
    then have "fst (repo_agent_MarkUsed (auth_AgentTokens a) h now s) = Inr ()" using some agent_mark by blast
    then obtain s' where "repo_agent_MarkUsed (auth_AgentTokens a) h now s = (Inr (), s')" by (metis prod.collapse)
    moreover have "agent_live s h (caller_NodeID c) \<longleftrightarrow> agt_NodeID t = caller_NodeID c" using some True by simp
    moreover obtain tok where "bearerToken vals = Inr tok" "token_Prefix tok = Inr AgentTokenPrefix" "HashToken hmac (auth_hashKey a) tok = Inr h"
      using assms by (auto simp: presents_def split: sum.splits)
    ultimately show ?thesis using some(1) True
      by (cases c) (simp add: authenticate_run isAdminOnlyMethod_def, blast)
  next
    case False
    then show ?thesis using assms some by (auto simp: authenticate_run split: sum.splits)
  qed
qed

lemma authenticate_agent_frame:
  assumes "presents hmac (auth_hashKey a) vals AgentTokenPrefix h"
  shows "same s (snd (authenticate hmac sha256 a now vals m s))"
  using assms agent_mark_same [of s h now] same_refl
  by (cases s h rule: find_agent_cases; cases "repo_agent_MarkUsed (auth_AgentTokens a) h now s")
     (auto simp: authenticate_run split: sum.splits srv_err.splits db_err.splits if_splits)

text \<open>Without an admin or an agent token nobody is let in and nothing changes.\<close>

lemma authenticate_other:
  assumes "\<not> (\<exists>h. presents hmac (auth_hashKey a) vals AdminTokenPrefix h \<or> presents hmac (auth_hashKey a) vals AgentTokenPrefix h)"
  shows "\<exists>e. authenticate hmac sha256 a now vals m s = (Inl e, s)"
  using assms by (auto simp: authenticate_run split: sum.splits)

theorem authenticate_grants: "fst (authenticate hmac sha256 a now vals m s) = Inr c \<longleftrightarrow> grants hmac sha256 vals m s c"
proof (cases "\<exists>h. presents hmac (auth_hashKey a) vals AdminTokenPrefix h \<or> presents hmac (auth_hashKey a) vals AgentTokenPrefix h")
  case True
  have uniq: "pfx = pfx' \<and> h = h'" if "presents hmac (auth_hashKey a) vals pfx h" "presents hmac (auth_hashKey a) vals pfx' h'" for pfx pfx' h h'
    using that by (auto simp: presents_def split: sum.splits)
  from True show ?thesis
    using authenticate_admin authenticate_agent uniq unfolding grants_def by (metis AdminAgent_prefix(1))
next
  case False
  then show ?thesis using authenticate_other [OF False, of sha256 now m s] by (auto simp: grants_def)
qed

theorem authenticate_frame: "same s (snd (authenticate hmac sha256 a now vals m s))"
proof (cases "\<exists>h. presents hmac (auth_hashKey a) vals AdminTokenPrefix h \<or> presents hmac (auth_hashKey a) vals AgentTokenPrefix h")
  case True
  then show ?thesis using authenticate_admin_frame authenticate_agent_frame by blast
next
  case False
  then show ?thesis using authenticate_other [OF False, of sha256 now m s] same_refl [of s] by auto
qed

end

section \<open>The world of the node services\<close>

text \<open>
  The store, everything outside the process (\<open>f_env\<close>: the cluster, the hub's network interface, the
  random source) and the calls made to it, each with the store it found.
\<close>

datatype fleet_call = KReadiness string | KDrain string | KCordon string | KUncordon string | KRemove string | KGuard string
  | KLabels node | KSync "node list" | KMaterial

record 'e fleet =
  f_store :: store
  f_env :: 'e
  f_log :: "(fleet_call \<times> store) list"

definition store_tx :: "'a ntx \<Rightarrow> ('e fleet, 'a) io" where
  "store_tx f s = (case f (f_store s) of Inl e \<Rightarrow> (Inl (ErrDb e), s) | Inr (x, d) \<Rightarrow> (Inr x, s\<lparr>f_store := d\<rparr>))"

definition store_read :: "(store \<Rightarrow> db_err + 'a) \<Rightarrow> ('e fleet, 'a) io" where
  "store_read f s = (case f (f_store s) of Inl e \<Rightarrow> (Inl (ErrDb e), s) | Inr x \<Rightarrow> (Inr x, s))"

definition fleet_call :: "fleet_call \<Rightarrow> ('e, 'a) io \<Rightarrow> ('e fleet, 'a) io" where
  "fleet_call c m s = (case m (f_env s) of (r, k) \<Rightarrow> (r, s\<lparr>f_env := k, f_log := f_log s @ [(c, f_store s)]\<rparr>))"

definition store_auth :: "string \<Rightarrow> ('e fleet) authenticator" where
  "store_auth key = \<lparr>
     auth_AdminTokens = \<lparr>repo_admin_FindByHash = (\<lambda>h. store_read (admin_FindByHash h)),
       repo_admin_MarkUsed = (\<lambda>h t. store_tx (admin_MarkUsed h t))\<rparr>,
     auth_AgentTokens = \<lparr>repo_agent_FindByHash = (\<lambda>h. store_read (agent_FindByHash h)),
       repo_agent_MarkUsed = (\<lambda>h t. store_tx (agent_MarkUsed h t))\<rparr>,
     auth_hashKey = key\<rparr>"

definition admin_live :: "store \<Rightarrow> string \<Rightarrow> bool" where
  "admin_live d h \<longleftrightarrow> (case admin_FindByHash h d of Inl _ \<Rightarrow> False | Inr t \<Rightarrow> adm_RevokedAt t = None)"

definition agent_live :: "store \<Rightarrow> string \<Rightarrow> string \<Rightarrow> bool" where
  "agent_live d h i \<longleftrightarrow> (case agent_FindByHash h d of Inl _ \<Rightarrow> False | Inr t \<Rightarrow> agt_RevokedAt t = None \<and> agt_NodeID t = i)"

text \<open>Two stores that differ at most in when tokens were last used.\<close>

definition same_but_used :: "store \<Rightarrow> store \<Rightarrow> bool" where
  "same_but_used d d' \<longleftrightarrow> nodes d' = nodes d \<and> join_tokens d' = join_tokens d \<and> events d' = events d \<and>
     map (ad_used_update (\<lambda>_. None)) (admin_tokens d') = map (ad_used_update (\<lambda>_. None)) (admin_tokens d) \<and>
     map (ag_used_update (\<lambda>_. None)) (agent_tokens d') = map (ag_used_update (\<lambda>_. None)) (agent_tokens d)"

lemma MarkUsed_same:
  "admin_MarkUsed h t d = Inr (u, d') \<Longrightarrow> same_but_used d d'"
  "agent_MarkUsed h t d = Inr (u, d') \<Longrightarrow> same_but_used d d'"
  by (auto simp: admin_MarkUsed_def agent_MarkUsed_def res_simps same_but_used_def tupd_def)

lemma MarkUsed_live:
  "admin_live d h \<Longrightarrow> \<exists>d'. admin_MarkUsed h t d = Inr ((), d')"
  "agent_live d h i \<Longrightarrow> \<exists>d'. agent_MarkUsed h t d = Inr ((), d')"
  by (auto simp: admin_live_def agent_live_def admin_MarkUsed_def agent_MarkUsed_def mapRowsAffected_def
      split: sum.splits dest!: admin_FindByHash_row agent_FindByHash_row tsel_SomeD)

lemma same_but_used_refl: "same_but_used d d"
  by (simp add: same_but_used_def)

lemma store_auth_simps [simp]:
  "repo_admin_FindByHash (auth_AdminTokens (store_auth key)) h = store_read (admin_FindByHash h)"
  "repo_admin_MarkUsed (auth_AdminTokens (store_auth key)) h t = store_tx (admin_MarkUsed h t)"
  "repo_agent_FindByHash (auth_AgentTokens (store_auth key)) h = store_read (agent_FindByHash h)"
  "repo_agent_MarkUsed (auth_AgentTokens (store_auth key)) h t = store_tx (agent_MarkUsed h t)"
  "auth_hashKey (store_auth key) = key"
  by (simp_all add: store_auth_def)

lemma store_read_simps [simp]:
  "snd (store_read f s) = s" "fst (store_read f s) = map_err ErrDb (f (f_store s))"
  by (auto simp: store_read_def map_err_def split: sum.splits)

lemma store_tx_same:
  "(\<And>x d. f (f_store s) = Inr (x, d) \<Longrightarrow> same_but_used (f_store s) d) \<Longrightarrow> same_but_used (f_store s) (f_store (snd (store_tx f s)))"
  by (auto simp: store_tx_def same_but_used_refl split: sum.splits)

interpretation fleet_auth: token_store "store_auth key" "\<lambda>s. admin_live (f_store s)" "\<lambda>s. agent_live (f_store s)"
    "\<lambda>s t. same_but_used (f_store s) (f_store t)" for key
proof unfold_locales
  fix s :: "'a fleet" and h now i
  show "admin_live (f_store s) h \<Longrightarrow> fst (repo_admin_MarkUsed (auth_AdminTokens (store_auth key)) h now s) = Inr ()"
    using MarkUsed_live(1) [of "f_store s" h now] by (auto simp: store_tx_def)
  show "agent_live (f_store s) h i \<Longrightarrow> fst (repo_agent_MarkUsed (auth_AgentTokens (store_auth key)) h now s) = Inr ()"
    using MarkUsed_live(2) [of "f_store s" h i now] by (auto simp: store_tx_def)
qed (auto simp: admin_live_def agent_live_def res_simps same_but_used_refl split: sum.splits
     intro: store_tx_same MarkUsed_same)

end
