(* ===== verification/Event_Log.thy ===== *)
theory Event_Log
  imports Access "HOL-Library.Product_Lexorder"
begin

text \<open>
  The event log: \<^verbatim>\<open>internal/db/event_repository.go\<close> (one function per method) and, of
  \<^verbatim>\<open>internal/server/event.go\<close>, the recorder, the retention pass and the delivery loop of
  \<^verbatim>\<open>WatchEvents\<close>. Rows are ordered by the pair of the stored time text and the id, as SQL orders them.
  The lemmas show that a page is the least (or greatest) part of the matching rows, that paging with
  the cursor visits every matching row once, and what pruning keeps.
\<close>

section \<open>Domain structs\<close>

record event =
  ev_ID :: string
  ev_CreatedAt :: gotime
  ev_Type :: string
  ev_Severity :: string
  ev_Message :: string
  ev_AppID :: string
  ev_NodeID :: string
  ev_DeploymentID :: string
  ev_MetadataJSON :: string

record event_cursor =
  cur_CreatedAt :: gotime
  cur_ID :: string

record event_filter =
  flt_AppID :: string
  flt_NodeID :: string
  flt_Type :: string
  flt_Severity :: string
  flt_Since :: "gotime option"
  flt_After :: "event_cursor option"
  flt_OldestFirst :: bool
  flt_Limit :: int

section \<open>The repository\<close>

definition event_to_row :: "event \<Rightarrow> event_row" where
  "event_to_row e = \<lparr>e_id = ev_ID e, e_created = formatEventTime (ev_CreatedAt e), e_type = ev_Type e, e_severity = ev_Severity e,
     e_message = ev_Message e, e_app = optionalString (ev_AppID e), e_node = optionalString (ev_NodeID e),
     e_dep = optionalString (ev_DeploymentID e), e_meta = ev_MetadataJSON e\<rparr>"

definition event_Create :: "event \<Rightarrow> unit ntx" where
  "event_Create e d =
     (let e = (if ev_MetadataJSON e = [] then e\<lparr>ev_MetadataJSON := ''{}''\<rparr> else e)
      in if \<exists>x \<in> set (events d). e_id x = ev_ID e then Inl ErrConstraint
         else Inr ((), d\<lparr>events := events d @ [event_to_row e]\<rparr>))"

definition scanEvent :: "event_row \<Rightarrow> db_err + event" where
  "scanEvent r = rbind (parseStoredTime (e_created r)) (\<lambda>created.
     Inr \<lparr>ev_ID = e_id r, ev_CreatedAt = created, ev_Type = e_type r, ev_Severity = e_severity r, ev_Message = e_message r,
          ev_AppID = parseOptionalString (e_app r), ev_NodeID = parseOptionalString (e_node r),
          ev_DeploymentID = parseOptionalString (e_dep r), ev_MetadataJSON = e_meta r\<rparr>)"

text \<open>The \<^verbatim>\<open>WHERE\<close> clause of \<^verbatim>\<open>List\<close>, the row order and the page size.\<close>

definition after_cursor :: "event_cursor \<Rightarrow> event_row \<Rightarrow> bool" where
  "after_cursor c r = (let t = formatEventTime (cur_CreatedAt c)
     in e_created r > t \<or> (e_created r = t \<and> e_id r > cur_ID c))"

definition event_matches :: "event_filter \<Rightarrow> event_row \<Rightarrow> bool" where
  "event_matches f r \<longleftrightarrow>
     (flt_AppID f = [] \<or> e_app r = Some (flt_AppID f)) \<and>
     (flt_NodeID f = [] \<or> e_node r = Some (flt_NodeID f)) \<and>
     (flt_Type f = [] \<or> e_type r = flt_Type f) \<and>
     (flt_Severity f = [] \<or> e_severity r = flt_Severity f) \<and>
     (case flt_Since f of None \<Rightarrow> True | Some t \<Rightarrow> e_created r \<ge> formatEventTime t) \<and>
     (case flt_After f of None \<Rightarrow> True | Some c \<Rightarrow> after_cursor c r)"

definition e_key :: "event_row \<Rightarrow> string \<times> string" where
  "e_key r = (e_created r, e_id r)"

definition oldest_first :: "event_row list \<Rightarrow> event_row list" where
  "oldest_first t = sort_key e_key t"

definition newest_first :: "event_row list \<Rightarrow> event_row list" where
  "newest_first t = rev (sort_key e_key t)"

definition list_limit :: "int \<Rightarrow> nat" where
  "list_limit n = nat (let n = (if n \<le> 0 then 100 else n) in if n > 1000 then 1000 else n)"

definition event_List :: "event_filter \<Rightarrow> store \<Rightarrow> db_err + event list" where
  "event_List f d = mapM scanEvent (take (list_limit (flt_Limit f))
     ((if flt_OldestFirst f then oldest_first else newest_first) (filter (event_matches f) (events d))))"

definition PruneBefore :: "gotime \<Rightarrow> nat ntx" where
  "PruneBefore cutoff d = (let P = (\<lambda>r. e_created r < formatEventTime cutoff)
     in Inr (taff P (events d), d\<lparr>events := tdel P (events d)\<rparr>))"

definition PruneToLimit :: "int \<Rightarrow> nat ntx" where
  "PruneToLimit maxCount d =
     (if maxCount < 1 then Inr (0, d)
      else let ids = map e_id (drop (nat maxCount) (newest_first (events d)));
               P = (\<lambda>r. e_id r \<in> set ids)
           in Inr (taff P (events d), d\<lparr>events := tdel P (events d)\<rparr>))"

section \<open>The recorder\<close>

text \<open>\<^verbatim>\<open>^[a-z][a-z0-9]*(\.[a-z][a-z0-9]*)+$\<close>\<close>

definition eventTypePattern :: rexp where
  "eventTypePattern = (let word = RSeq (RCls is_lower) (RStar (RCls is_name_char))
     in RSeq word (rplus (RSeq (RCls (\<lambda>c. c = CHR ''.'')) word)))"

definition validateEvent :: "event \<Rightarrow> srv_err + unit" where
  "validateEvent e =
     (if \<not> rmatch eventTypePattern (ev_Type e) then Inl (ErrText ''invalid event type'')
      else if ev_Severity e \<notin> {''info'', ''warning'', ''error''} then Inl (ErrText ''invalid event severity'')
      else if TrimSpace (ev_Message e) = [] then Inl (ErrText ''event message is required'')
      else if ev_MetadataJSON e \<noteq> [] \<and> \<not> json_Valid (ev_MetadataJSON e) then Inl (ErrText ''event metadata_json must be valid JSON'')
      else Inr ())"

text \<open>\<^verbatim>\<open>newID\<close>: sixteen random bytes, None when the random source fails.\<close>

definition newID :: "nat list option \<Rightarrow> string \<Rightarrow> srv_err + string" where
  "newID raw pfx = (case raw of None \<Rightarrow> Inl (ErrText ''generate id'') | Some bs \<Rightarrow> Inr (pfx @ ''_'' @ RawURLEncoding bs))"

text \<open>\<open>configured\<close>: the recorder has a repository.\<close>

definition Record :: "bool \<Rightarrow> nat list option \<Rightarrow> gotime \<Rightarrow> event \<Rightarrow> store \<Rightarrow> srv_err + (unit \<times> store)" where
  "Record configured raw now e d =
     rbind (validateEvent e) (\<lambda>_.
     rbind (if ev_ID e = [] then newID raw ''event'' else Inr (ev_ID e)) (\<lambda>ident.
     let e = e\<lparr>ev_ID := ident\<rparr>;
         e = (if IsZero (ev_CreatedAt e) then e\<lparr>ev_CreatedAt := now\<rparr> else e);
         e = (if ev_MetadataJSON e = [] then e\<lparr>ev_MetadataJSON := ''{}''\<rparr> else e)
     in if \<not> configured then Inl (ErrText ''event repository is not configured'')
        else map_err ErrDb (event_Create e d)))"

text \<open>One pass of \<^verbatim>\<open>RunEventRetention\<close>; \<open>cutoff\<close> is the present time less the maximal age.\<close>

definition prune :: "gotime \<Rightarrow> int \<Rightarrow> store \<Rightarrow> store" where
  "prune cutoff maxCount d =
     (let d = (case PruneBefore cutoff d of Inl _ \<Rightarrow> d | Inr (_, d') \<Rightarrow> d')
      in case PruneToLimit maxCount d of Inl _ \<Rightarrow> d | Inr (_, d') \<Rightarrow> d')"

section \<open>Watching\<close>

text \<open>
  \<open>sends sent e\<close> is the error of \<^verbatim>\<open>stream.Send\<close> for \<open>e\<close> after the events \<open>sent\<close>, None when it
  succeeds. The inner loop advances the cursor after every event that was sent.
\<close>

fun send_all :: "(event list \<Rightarrow> event \<Rightarrow> srv_err option) \<Rightarrow> event list \<Rightarrow> event_filter \<Rightarrow> event list \<Rightarrow>
    srv_err option \<times> event_filter \<times> event list" where
  "send_all sends [] f sent = (None, f, sent)"
| "send_all sends (e # es) f sent =
     (case sends sent e of Some err \<Rightarrow> (Some err, f, sent)
      | None \<Rightarrow> send_all sends es (f\<lparr>flt_After := Some \<lparr>cur_CreatedAt = ev_CreatedAt e, cur_ID = ev_ID e\<rparr>\<rparr>) (sent @ [e]))"

definition eventWatchBatchSize :: nat where
  "eventWatchBatchSize = 1000"

text \<open>\<^verbatim>\<open>sendNew\<close> on a store that does not change meanwhile; None is a loop that never ends.\<close>

partial_function (option) sendNew ::
    "(event list \<Rightarrow> event \<Rightarrow> srv_err option) \<Rightarrow> store \<Rightarrow> event_filter \<Rightarrow> event list \<Rightarrow> (srv_err option \<times> event_filter \<times> event list) option" where
  "sendNew sends d f sent =
     (case event_List f d of Inl _ \<Rightarrow> Some (Some (ErrStatus Internal ''watch events''), f, sent)
      | Inr es \<Rightarrow>
          (case send_all sends es f sent of
             (Some err, f', sent') \<Rightarrow> Some (Some err, f', sent')
           | (None, f', sent') \<Rightarrow>
               if length es < eventWatchBatchSize then Some (None, f', sent') else sendNew sends d f' sent'))"

section \<open>Order of the log\<close>

definition event_ok :: "event_row \<Rightarrow> bool" where
  "event_ok r \<longleftrightarrow> (\<exists>t. wf_time t \<and> e_created r = formatEventTime t)"

lemma e_key_inj: "keyed e_id t \<Longrightarrow> inj_on e_key (set t)"
  by (auto simp: inj_on_def e_key_def dest: keyed_unique)

lemma sorted_keys: "keyed e_id t \<Longrightarrow> sorted_wrt (<) (map e_key (sort_key e_key t))"
  using e_key_inj [of t] unfolding strict_sorted_iff by (simp add: distinct_map keyed_def)

lemma keyed_filter: "keyed key t \<Longrightarrow> keyed key (filter P t)"
  using keyed_delete [of key t "\<lambda>r. \<not> P r"] by (simp add: tdel_def)

lemma last_take: "0 < n \<Longrightarrow> n \<le> length L \<Longrightarrow> last (take n L) = L ! (n - 1)"
  by (subst last_conv_nth) auto

text \<open>What comes after the last row of a page is the rest.\<close>

lemma page_rest:
  assumes "sorted_wrt (<) (map (k :: 'a \<Rightarrow> 'k :: linorder) L)" and "0 < n" and "n \<le> length L"
  shows "filter (\<lambda>x. k x > k (last (take n L))) L = drop n L"
proof -
  have last: "last (take n L) = L ! (n - 1)" using assms(2,3) by (rule last_take)
  have lt: "k (L ! i) < k (L ! j)" if "i < j" "j < length L" for i j
    using assms(1) that by (auto simp: sorted_wrt_iff_nth_less)
  have "filter (\<lambda>x. k x > k (L ! (n - 1))) (take n L) = []"
  proof (rule filter_False, rule ballI)
    fix x assume "x \<in> set (take n L)"
    then obtain i where "i < n" "i < length L" "x = L ! i" by (auto simp: in_set_conv_nth)
    then have "k x = k (L ! (n - 1)) \<or> k x < k (L ! (n - 1))" using lt [of i "n - 1"] assms(2,3) by (cases "i = n - 1") simp_all
    then show "\<not> k x > k (L ! (n - 1))" by (elim disjE) (simp_all add: not_less)
  qed
  moreover have "filter (\<lambda>x. k x > k (L ! (n - 1))) (drop n L) = drop n L"
  proof (rule filter_True, rule ballI)
    fix x assume "x \<in> set (drop n L)"
    then obtain i where "i < length L - n" "x = L ! (n + i)" by (auto simp: in_set_conv_nth)
    then show "k x > k (L ! (n - 1))" using lt [of "n - 1" "n + i"] assms(2) by simp
  qed
  ultimately show ?thesis unfolding last by (metis append_take_drop_id filter_append self_append_conv2)
qed

lemma mapM_take_drop:
  "mapM f xs = Inr ys \<Longrightarrow> mapM f (take n xs) = Inr (take n ys) \<and> mapM f (drop n xs) = Inr (drop n ys)"
  by (simp add: mapM_Inr_iff)

definition cursor_of :: "event \<Rightarrow> event_cursor" where
  "cursor_of e = \<lparr>cur_CreatedAt = ev_CreatedAt e, cur_ID = ev_ID e\<rparr>"

lemma scan_created: "event_ok r \<Longrightarrow> scanEvent r = Inr e \<Longrightarrow> formatEventTime (ev_CreatedAt e) = e_created r \<and> ev_ID e = e_id r"
  by (auto simp: event_ok_def scanEvent_def parseStoredTime_def parse_formatEventTime res_simps)

lemma scan_total: "event_ok r \<Longrightarrow> \<exists>e. scanEvent r = Inr e"
  by (auto simp: event_ok_def scanEvent_def parseStoredTime_def parse_formatEventTime)

lemma after_cursor_key: "event_ok r \<Longrightarrow> scanEvent r = Inr e \<Longrightarrow> after_cursor (cursor_of e) x \<longleftrightarrow> e_key x > e_key r"
  using scan_created [of r e] by (auto simp: after_cursor_def cursor_of_def e_key_def Let_def less_prod_def')

lemma after_cursor_trans: "after_cursor c r \<Longrightarrow> e_key x > e_key r \<Longrightarrow> after_cursor c x"
  by (auto simp: after_cursor_def e_key_def Let_def less_prod_def' dest: less_trans)

section \<open>Delivery\<close>

lemma send_all_result:
  "send_all sends es f sent = (r, f', sent') \<Longrightarrow> \<exists>es'. prefix es' es \<and> sent' = sent @ es' \<and>
     (r = None \<longrightarrow> es' = es \<and> f' = (if es = [] then f else f\<lparr>flt_After := Some (cursor_of (last es))\<rparr>))"
proof (induction sends es f sent rule: send_all.induct)
  case (2 sends e es f sent)
  show ?case
  proof (cases "sends sent e")
    case None
    with 2 obtain es' where "prefix es' es" "sent' = (sent @ [e]) @ es'"
      "r = None \<longrightarrow> es' = es \<and> f' = (if es = [] then f\<lparr>flt_After := Some \<lparr>cur_CreatedAt = ev_CreatedAt e, cur_ID = ev_ID e\<rparr>\<rparr>
         else f\<lparr>flt_After := Some \<lparr>cur_CreatedAt = ev_CreatedAt e, cur_ID = ev_ID e\<rparr>\<rparr>\<lparr>flt_After := Some (cursor_of (last es))\<rparr>)"
      by fastforce
    then show ?thesis by (intro exI [of _ "e # es'"]) (auto simp: cursor_of_def)
  next
    case (Some err)
    then have "r = Some err" "sent' = sent" using 2(2) by simp_all
    then show ?thesis by simp
  qed
qed auto

text \<open>The rows that match after the cursor has moved to a matching row are those beyond it.\<close>

lemma matches_after:
  assumes "event_ok r" "scanEvent r = Inr e" "event_matches f r"
  shows "event_matches (f\<lparr>flt_After := Some (cursor_of e)\<rparr>) x \<longleftrightarrow> event_matches f x \<and> e_key x > e_key r"
  using assms after_cursor_key [OF assms(1,2), of x] after_cursor_trans [of _ r x]
  by (auto simp: event_matches_def split: option.splits)

lemma sort_filter_key: "sort_key k (filter P t) = filter P (sort_key k t)"
  by (simp add: filter_sort)

text \<open>The rows a watcher with filter \<open>f\<close> has yet to see, in order.\<close>

definition pending_rows :: "event_filter \<Rightarrow> store \<Rightarrow> event_row list" where
  "pending_rows f d = oldest_first (filter (event_matches f) (events d))"

lemma pending_next:
  assumes ok: "\<forall>r \<in> set (events d). event_ok r" and k: "keyed e_id (events d)"
    and n: "0 < n" "n \<le> length (pending_rows f d)" and es: "mapM scanEvent (pending_rows f d) = Inr es"
  shows "pending_rows (f\<lparr>flt_After := Some (cursor_of (last (take n es)))\<rparr>) d = drop n (pending_rows f d)"
proof -
  let ?L = "pending_rows f d"
  have L: "set ?L = {r \<in> set (events d). event_matches f r}" by (auto simp: pending_rows_def oldest_first_def)
  have len: "length es = length ?L" using es by (simp add: mapM_Inr_iff list_all2_lengthD)
  let ?r = "last (take n ?L)" and ?e = "last (take n es)"
  have r: "?r = ?L ! (n - 1)" "?e = es ! (n - 1)" "n - 1 < length ?L" using n len by (simp_all add: last_take)
  then have sc: "scanEvent ?r = Inr ?e" using es list_all2_nthD [of _ ?L es "n - 1"] by (simp add: mapM_Inr_iff)
  have "?r \<in> set ?L" using r by simp
  then have rok: "event_ok ?r" "event_matches f ?r" using L ok by auto
  have "pending_rows (f\<lparr>flt_After := Some (cursor_of ?e)\<rparr>) d = oldest_first (filter (\<lambda>x. e_key x > e_key ?r) (filter (event_matches f) (events d)))"
    using matches_after [OF rok(1) sc rok(2)] by (simp add: pending_rows_def conj_commute cong: filter_cong)
  also have "\<dots> = filter (\<lambda>x. e_key x > e_key ?r) ?L" by (simp add: oldest_first_def pending_rows_def sort_filter_key)
  also have "\<dots> = drop n ?L"
    using page_rest [of e_key ?L n] sorted_keys [OF keyed_filter [OF k, of "event_matches f"]] n
    by (simp add: pending_rows_def oldest_first_def)
  finally show ?thesis .
qed

lemma sendNew_delivers:
  assumes ok: "\<forall>r \<in> set (events d). event_ok r" and k: "keyed e_id (events d)"
  shows "flt_OldestFirst f \<Longrightarrow> flt_Limit f = 1000 \<Longrightarrow> mapM scanEvent (pending_rows f d) = Inr es \<Longrightarrow>
    \<exists>r f' es'. sendNew sends d f sent = Some (r, f', sent @ es') \<and> prefix es' es \<and> (r = None \<longrightarrow> es' = es)"
proof (induction "length (pending_rows f d)" arbitrary: f es sent rule: less_induct)
  case less
  let ?L = "pending_rows f d"
  have list: "event_List f d = Inr (take 1000 es)"
    using less(2,3) mapM_take_drop [OF less(4), of 1000] by (simp add: event_List_def list_limit_def pending_rows_def)
  have len: "length es = length ?L" using less(4) by (simp add: mapM_Inr_iff list_all2_lengthD)
  obtain r f' sent' where run: "send_all sends (take 1000 es) f sent = (r, f', sent')" by (metis prod_cases3)
  from send_all_result [OF this] obtain es' where es': "prefix es' (take 1000 es)" "sent' = sent @ es'"
    and fin: "r = None \<Longrightarrow> es' = take 1000 es \<and>
      f' = (if take 1000 es = [] then f else f\<lparr>flt_After := Some (cursor_of (last (take 1000 es)))\<rparr>)" by auto
  have step: "sendNew sends d f sent = (case r of Some err \<Rightarrow> Some (Some err, f', sent')
      | None \<Rightarrow> if length es < 1000 then Some (None, f', sent') else sendNew sends d f' sent')"
    by (subst sendNew.simps) (auto simp: list run eventWatchBatchSize_def split: option.splits)
  have pre: "prefix es' es" using es'(1) prefix_order.trans take_is_prefix by blast
  show ?case
  proof (cases r)
    case (Some err)
    then show ?thesis using step es' pre by auto
  next
    case None
    show ?thesis
    proof (cases "length es < 1000")
      case True
      then show ?thesis using step None fin [OF None] es' pre by auto
    next
      case False
      then have f': "f' = f\<lparr>flt_After := Some (cursor_of (last (take 1000 es)))\<rparr>" using fin [OF None] by auto
      have rest: "pending_rows f' d = drop 1000 ?L"
        unfolding f' using pending_next [OF ok k, of 1000 f es] False len less(4) by simp
      have "length (pending_rows f' d) < length ?L" using rest False len by simp
      moreover have "mapM scanEvent (pending_rows f' d) = Inr (drop 1000 es)"
        using rest mapM_take_drop [OF less(4), of 1000] by simp
      ultimately obtain r' f'' es'' where "sendNew sends d f' sent' = Some (r', f'', sent' @ es'')" "prefix es'' (drop 1000 es)"
        "r' = None \<longrightarrow> es'' = drop 1000 es"
        using less(1) [of f' "drop 1000 es" sent'] less(2,3) f' by auto
      then have "sendNew sends d f sent = Some (r', f'', sent @ take 1000 es @ es'')" "prefix (take 1000 es @ es'') (take 1000 es @ drop 1000 es)"
        "r' = None \<longrightarrow> take 1000 es @ es'' = take 1000 es @ drop 1000 es"
        using step None False fin [OF None] es'(2) by (simp_all only: same_prefix_prefix append_assoc option.case if_False same_append_eq)
      then show ?thesis unfolding append_take_drop_id by blast
    qed
  qed
qed

section \<open>Retention\<close>

lemma set_newest [simp]: "set (newest_first t) = set t"
  by (simp add: newest_first_def)

lemma newest_sorted: "keyed e_id t \<Longrightarrow> sorted_wrt (>) (map e_key (newest_first t))"
  using sorted_keys [of t] by (simp add: newest_first_def sorted_wrt_rev flip: rev_map)

lemma newest_distinct: "keyed e_id t \<Longrightarrow> distinct (map e_id (newest_first t))"
  by (auto simp: newest_first_def keyed_def distinct_map rev_map)

text \<open>Pruning to a limit keeps exactly the newest rows and counts the others.\<close>

lemma prune_ids:
  assumes "keyed e_id t" and "r \<in> set t"
  shows "e_id r \<in> set (map e_id (drop n (newest_first t))) \<longleftrightarrow> r \<in> set (drop n (newest_first t))"
proof
  assume "e_id r \<in> set (map e_id (drop n (newest_first t)))"
  then obtain x where x: "x \<in> set (drop n (newest_first t))" "e_id x = e_id r" by auto
  then have "x \<in> set t" using set_drop_subset [of n "newest_first t"] by auto
  then have "x = r" using keyed_unique [OF assms(1), of x r] assms(2) x(2) by simp
  then show "r \<in> set (drop n (newest_first t))" using x(1) by simp
qed auto

lemma take_drop_disjoint: "distinct xs \<Longrightarrow> x \<in> set xs \<Longrightarrow> x \<in> set (take n xs) \<longleftrightarrow> x \<notin> set (drop n xs)"
  using set_take_disj_set_drop_if_distinct [of xs n n] by (metis Un_iff append_take_drop_id disjoint_iff order_refl set_append)

lemma PruneToLimit_keeps:
  assumes "keyed e_id (events d)" and "1 \<le> n" and "PruneToLimit n d = Inr (c, d')"
  shows "set (events d') = set (take (nat n) (newest_first (events d)))" and "length (events d') = min (nat n) (length (events d))"
    and "c = length (events d) - nat n"
proof -
  let ?N = "newest_first (events d)" and ?P = "\<lambda>r. e_id r \<in> set (map e_id (drop (nat n) (newest_first (events d))))"
  have dist: "distinct ?N" using newest_distinct [OF assms(1)] by (simp add: distinct_map)
  have d': "events d' = tdel ?P (events d)" "c = taff ?P (events d)" using assms(2,3) by (auto simp: PruneToLimit_def Let_def)
  have P: "?P r \<longleftrightarrow> r \<in> set (drop (nat n) ?N)" if "r \<in> set (events d)" for r using prune_ids [OF assms(1) that] .
  have keep: "r \<in> set (take (nat n) ?N) \<longleftrightarrow> r \<notin> set (drop (nat n) ?N)" if "r \<in> set (events d)" for r
    using take_drop_disjoint [OF dist, of r] that by simp
  have sub: "set (take (nat n) ?N) \<subseteq> set (events d)" using set_take_subset [of "nat n" ?N] by simp
  show S: "set (events d') = set (take (nat n) ?N)" unfolding d' set_tdel using P keep sub by blast
  have k': "distinct (events d')" using keyed_delete [OF assms(1), of ?P] by (simp add: d' keyed_def distinct_map)
  have "length (events d') = card (set (take (nat n) ?N))" using distinct_card [OF k'] S by simp
  also have "\<dots> = min (nat n) (length (events d))" using dist by (simp add: distinct_card newest_first_def min.commute)
  finally show L: "length (events d') = min (nat n) (length (events d))" .
  have "taff ?P (events d) + length (events d') = length (events d)"
    unfolding d'(1) taff_def tdel_def by (rule sum_length_filter_compl)
  then show "c = length (events d) - nat n" using L d'(2) by linarith
qed

lemma PruneToLimit_newest:
  assumes "keyed e_id (events d)" and "x \<in> set (take n (newest_first (events d)))" and "y \<in> set (drop n (newest_first (events d)))"
  shows "e_key y < e_key x"
proof -
  let ?N = "newest_first (events d)"
  have "sorted_wrt (>) (map e_key (take n ?N @ drop n ?N))" using newest_sorted [OF assms(1)] by simp
  then show ?thesis using assms(2,3) unfolding map_append sorted_wrt_append by auto
qed

end
