(* ===== verification/Wireguard.thy ===== *)
theory Wireguard
  imports Registry_Auth Go_Net "HOL-Library.Product_Lexorder"
begin

text \<open>
  \<^verbatim>\<open>internal/wireguard/wireguard.go\<close>: key validation, address allocation on 32-bit words and the hub's
  peer configuration. The scan loops are partial functions whose None is a loop that never ends; the
  theorems show that allocation always returns, with a free host address of the subnet when there is
  one.
\<close>

section \<open>Keys\<close>

text \<open>\<^verbatim>\<open>base64.StdEncoding.DecodeString\<close>: line breaks are skipped, padding is required.\<close>

definition b64_val :: "char \<Rightarrow> nat option" where
  "b64_val c = (let n = of_char c :: nat in
     if 65 \<le> n \<and> n \<le> 90 then Some (n - 65) else if 97 \<le> n \<and> n \<le> 122 then Some (n - 71)
     else if 48 \<le> n \<and> n \<le> 57 then Some (n + 4) else if c = CHR ''+'' then Some 62 else if c = CHR ''/'' then Some 63 else None)"

definition b64_final :: "char \<Rightarrow> char \<Rightarrow> char \<Rightarrow> char \<Rightarrow> nat list option" where
  "b64_final a b c d = (case (b64_val a, b64_val b, b64_val c, b64_val d) of
     (Some w, Some x, Some y, Some z) \<Rightarrow> Some [w * 4 + x div 16, x mod 16 * 16 + y div 4, y mod 4 * 64 + z]
   | (Some w, Some x, Some y, None) \<Rightarrow> if d = CHR ''='' then Some [w * 4 + x div 16, x mod 16 * 16 + y div 4] else None
   | (Some w, Some x, None, None) \<Rightarrow> if c = CHR ''='' \<and> d = CHR ''='' then Some [w * 4 + x div 16] else None
   | _ \<Rightarrow> None)"

fun b64_groups :: "string \<Rightarrow> nat list option" where
  "b64_groups [] = Some []"
| "b64_groups (a # b # c # d # r) = (case b64_final a b c d of None \<Rightarrow> None
     | Some bs \<Rightarrow> if r = [] then Some bs
         else if length bs \<noteq> 3 then None else map_option ((@) bs) (b64_groups r))"
| "b64_groups _ = None"

definition b64_decode :: "string \<Rightarrow> nat list option" where
  "b64_decode s = b64_groups (filter (\<lambda>c. c \<noteq> CHR 0x0A \<and> c \<noteq> CHR 0x0D) s)"

datatype key_err = Key_not_base64 string | Key_size string

definition keySize :: nat where
  "keySize = 32"

definition validateKey :: "string \<Rightarrow> string \<Rightarrow> key_err + unit" where
  "validateKey name key = (case b64_decode (TrimSpace key) of None \<Rightarrow> Inl (Key_not_base64 name)
     | Some raw \<Rightarrow> if length raw \<noteq> keySize then Inl (Key_size name) else Inr ())"

definition ValidatePublicKey :: "string \<Rightarrow> key_err + unit" where
  "ValidatePublicKey key = validateKey ''WireGuard public key'' key"

definition ValidatePrivateKey :: "string \<Rightarrow> key_err + unit" where
  "ValidatePrivateKey key = validateKey ''WireGuard private key'' key"

section \<open>Address allocation\<close>

definition ipv4ToUint32 :: "addr \<Rightarrow> 32 word" where
  "ipv4ToUint32 ip = of_nat (addr_value ip)"

definition uint32ToIPv4 :: "32 word \<Rightarrow> addr" where
  "uint32ToIPv4 w = (let n = unat w in A4 (n div 16777216) (n div 65536 mod 256) (n div 256 mod 256) (n mod 256))"

datatype wg_err = Subnet_parse | Subnet_not_IPv4 | Subnet_too_small | Reserved_parse | Reserved_outside | Reserved_not_host
  | Existing_parse string | Existing_outside string | No_address

text \<open>\<^verbatim>\<open>prefix.Masked().Addr()\<close> of an IPv4 prefix.\<close>

definition masked4 :: "ip_prefix \<Rightarrow> addr" where
  "masked4 p = uint32ToIPv4 (of_nat (addr_value (pf_Addr p) div 2 ^ (32 - pf_Bits p) * 2 ^ (32 - pf_Bits p)))"

text \<open>The loop over the existing addresses: the used set and the largest used address.\<close>

fun collect_used :: "ip_prefix \<Rightarrow> string list \<Rightarrow> addr list \<Rightarrow> 32 word \<Rightarrow> wg_err + (addr list \<times> 32 word)" where
  "collect_used p [] used maxUsed = Inr (used, maxUsed)"
| "collect_used p (v # vs) used maxUsed =
     (let v = TrimSpace v in
      if v = [] then collect_used p vs used maxUsed
      else case ParseAddr v of None \<Rightarrow> Inl (Existing_parse v)
        | Some ip \<Rightarrow>
            if \<not> Contains p ip then Inl (Existing_outside v)
            else collect_used p vs (ip # used) (if ipv4ToUint32 ip > maxUsed then ipv4ToUint32 ip else maxUsed))"

text \<open>\<^verbatim>\<open>for current := cur; ok(current); current++\<close>, returning the first address that is not used.\<close>

partial_function (option) scan_free :: "addr list \<Rightarrow> (32 word \<Rightarrow> bool) \<Rightarrow> 32 word \<Rightarrow> addr option option" where
  "scan_free used ok cur =
     (if ok cur then
        (if uint32ToIPv4 cur \<notin> set used then Some (Some (uint32ToIPv4 cur)) else scan_free used ok (cur + 1))
      else Some None)"

text \<open>The search: upwards from the address after the largest used one, then from the start.\<close>

definition pick_peer :: "addr list \<Rightarrow> 32 word \<Rightarrow> 32 word \<Rightarrow> 32 word \<Rightarrow> (wg_err + string) option" where
  "pick_peer used maxUsed start limit =
     (let nxt = (if maxUsed + 1 < start then start else maxUsed + 1) in
      Option.bind (scan_free used (\<lambda>c. c \<le> limit) nxt) (\<lambda>r. case r of
        Some ip \<Rightarrow> Some (Inr (addr_String4 ip))
      | None \<Rightarrow>
          Option.bind (scan_free used (\<lambda>c. c < nxt \<and> c \<le> limit) start) (\<lambda>r. case r of
            Some ip \<Rightarrow> Some (Inr (addr_String4 ip))
          | None \<Rightarrow> Some (Inl No_address))))"

definition NextPeerIP :: "string \<Rightarrow> string \<Rightarrow> string list \<Rightarrow> (wg_err + string) option" where
  "NextPeerIP subnet reservedIP existingIPs =
     (case ParsePrefix (TrimSpace subnet) of None \<Rightarrow> Some (Inl Subnet_parse)
      | Some p \<Rightarrow>
          if \<not> Is4 (pf_Addr p) then Some (Inl Subnet_not_IPv4)
          else if pf_Bits p \<ge> 31 then Some (Inl Subnet_too_small)
          else
            let network = ipv4ToUint32 (masked4 p);
                start = network + 1;
                limit = network + of_nat (2 ^ (32 - pf_Bits p)) - 2
            in case ParseAddr (TrimSpace reservedIP) of None \<Rightarrow> Some (Inl Reserved_parse)
              | Some reserved \<Rightarrow>
                  if \<not> Is4 reserved \<or> \<not> Contains p reserved then Some (Inl Reserved_outside)
                  else if reserved = masked4 p \<or> ipv4ToUint32 reserved = limit + 1 then Some (Inl Reserved_not_host)
                  else case collect_used p existingIPs [reserved] (ipv4ToUint32 reserved) of
                      Inl e \<Rightarrow> Some (Inl e)
                    | Inr (used, maxUsed) \<Rightarrow> pick_peer used maxUsed start limit)"

section \<open>Addresses as words\<close>

lemma unat_lt32: "unat (w :: 32 word) < 2 ^ 32"
  using unsigned_less [of w] by simp

lemma wf_uint32 [simp]: "wf_addr (uint32ToIPv4 w)" "Is4 (uint32ToIPv4 w)"
proof -
  have "unat w < 4294967296" using unat_lt32 [of w] by simp
  then show "wf_addr (uint32ToIPv4 w)" by (simp add: uint32ToIPv4_def Let_def less_mult_imp_div_less)
  show "Is4 (uint32ToIPv4 w)" by (simp add: uint32ToIPv4_def Let_def)
qed

lemma addr_value_uint32 [simp]: "addr_value (uint32ToIPv4 w) = unat w"
proof -
  let ?n = "unat w"
  have "?n div 65536 div 256 = ?n div 16777216" "?n div 256 div 256 = ?n div 65536" by (simp_all flip: div_mult2_eq)
  then have "256 * (?n div 16777216) + ?n div 65536 mod 256 = ?n div 65536" "256 * (?n div 65536) + ?n div 256 mod 256 = ?n div 256"
    "256 * (?n div 256) + ?n mod 256 = ?n"
    using mult_div_mod_eq [of 256 "?n div 65536"] mult_div_mod_eq [of 256 "?n div 256"] mult_div_mod_eq [of 256 ?n] by simp_all
  then show ?thesis by (simp add: uint32ToIPv4_def Let_def be_value_def)
qed

lemma ipv4_uint32 [simp]: "ipv4ToUint32 (uint32ToIPv4 w) = w"
  by (simp add: ipv4ToUint32_def)

lemma addr_value_lt: "wf_addr ip \<Longrightarrow> Is4 ip \<Longrightarrow> addr_value ip < 2 ^ 32"
  by (cases ip) (auto simp: be_value_def)

lemma unat_ipv4 [simp]: "wf_addr ip \<Longrightarrow> Is4 ip \<Longrightarrow> unat (ipv4ToUint32 ip) = addr_value ip"
  using addr_value_lt [of ip] by (simp add: ipv4ToUint32_def unat_of_nat take_bit_nat_eq_self)

lemma byte_cancel:
  fixes x y p q :: nat
  assumes eq: "256 * x + p = 256 * y + q" and "p < 256" and "q < 256"
  shows "x = y \<and> p = q"
proof -
  have "(256 * x + p) div 256 = x" "(256 * y + q) div 256 = y" using assms(2,3) by simp_all
  then have "x = y" unfolding eq by simp
  with eq show ?thesis by simp
qed

lemma addr_value_inj:
  assumes "wf_addr x" "Is4 x" "wf_addr y" "Is4 y" and eq: "addr_value x = addr_value y"
  shows "x = y"
proof (cases x; cases y)
  fix a b c d a' b' c' d'
  assume x: "x = A4 a b c d" and y: "y = A4 a' b' c' d'"
  have "256 * (256 * (256 * a + b) + c) + d = 256 * (256 * (256 * a' + b') + c') + d'"
    using eq by (simp add: x y be_value_def)
  from byte_cancel [OF this] have 1: "256 * (256 * a + b) + c = 256 * (256 * a' + b') + c'" "d = d'" using assms(1,3) x y by simp_all
  from byte_cancel [OF 1(1)] have 2: "256 * a + b = 256 * a' + b'" "c = c'" using assms(1,3) x y by simp_all
  from byte_cancel [OF 2(1)] have "a = a'" "b = b'" using assms(1,3) x y by simp_all
  with 1 2 x y show ?thesis by simp
qed (use assms in auto)

section \<open>The scan\<close>

lemma scan_free_bounded:
  assumes ok: "\<And>c. ok c \<longleftrightarrow> unat c < B" and B: "B < 2 ^ 32"
  shows "scan_free used ok c = Some (map_option uint32ToIPv4
    (find (\<lambda>w. uint32ToIPv4 w \<notin> set used) (map of_nat [unat c..<B])))"
proof (induction "B - unat c" arbitrary: c)
  case 0
  then have "\<not> ok c" using ok by simp
  then show ?case using 0 by (subst scan_free.simps) simp
next
  case (Suc n)
  then have lt: "unat c < B" by simp
  then have u: "unat (c + 1) = Suc (unat c)"
    using B by (simp add: unat_plus_if' unat_1)
  have "[unat c..<B] = unat c # [Suc (unat c)..<B]" using lt by (rule upt_conv_Cons)
  moreover have "scan_free used ok (c + 1) = Some (map_option uint32ToIPv4
    (find (\<lambda>w. uint32ToIPv4 w \<notin> set used) (map of_nat [Suc (unat c)..<B])))"
    using Suc(1) [of "c + 1"] Suc(2) u by simp
  ultimately show ?case using lt ok by (subst scan_free.simps) simp
qed

section \<open>The subnet\<close>

text \<open>The first and the last number of a prefix.\<close>

definition net_low :: "ip_prefix \<Rightarrow> nat" where
  "net_low p = addr_value (pf_Addr p) div 2 ^ (32 - pf_Bits p) * 2 ^ (32 - pf_Bits p)"

definition net_high :: "ip_prefix \<Rightarrow> nat" where
  "net_high p = net_low p + 2 ^ (32 - pf_Bits p) - 1"

definition host_number :: "ip_prefix \<Rightarrow> nat \<Rightarrow> bool" where
  "host_number p n \<longleftrightarrow> net_low p < n \<and> n < net_high p"

lemma net_range:
  assumes "wf_addr (pf_Addr p)" "Is4 (pf_Addr p)" "pf_Bits p < 31"
  shows "net_low p + 3 \<le> net_high p" and "net_high p < 2 ^ 32"
proof -
  let ?k = "32 - pf_Bits p"
  have "(2 :: nat) ^ 2 \<le> 2 ^ ?k" using assms(3) by (intro power_increasing) simp_all
  then show "net_low p + 3 \<le> net_high p" by (simp add: net_high_def)
  have "addr_value (pf_Addr p) < 2 ^ (32 - ?k) * 2 ^ ?k"
    using addr_value_lt [OF assms(1,2)] assms(3) by (simp flip: power_add)
  then have "addr_value (pf_Addr p) div 2 ^ ?k < 2 ^ (32 - ?k)" by (simp add: less_mult_imp_div_less)
  then have "Suc (addr_value (pf_Addr p) div 2 ^ ?k) * 2 ^ ?k \<le> 2 ^ (32 - ?k) * 2 ^ ?k" by (intro mult_le_mono1) simp
  also have "\<dots> = 2 ^ 32" using assms(3) by (simp flip: power_add)
  finally have "net_low p + 2 ^ ?k \<le> 2 ^ 32" by (simp add: net_low_def)
  moreover have "0 < (2 :: nat) ^ ?k" by simp
  ultimately show "net_high p < 2 ^ 32" unfolding net_high_def by linarith
qed

lemma Contains_range:
  assumes "Is4 (pf_Addr p)" and "Contains p ip" and "wf_addr (pf_Addr p)"
  shows "Is4 ip" and "net_low p \<le> addr_value ip" and "addr_value ip \<le> net_high p"
proof -
  show 4: "Is4 ip" using assms(1,2) by (cases ip; cases "pf_Addr p") (auto simp: Contains_def)
  have "BitLen ip = 32" using 4 by (cases ip) auto
  then have eq: "addr_value (pf_Addr p) div 2 ^ (32 - pf_Bits p) = addr_value ip div 2 ^ (32 - pf_Bits p)"
    using assms(2) by (simp add: Contains_def)
  have "addr_value ip = net_low p + addr_value ip mod 2 ^ (32 - pf_Bits p)"
    unfolding net_low_def eq by (metis div_mult_mod_eq)
  moreover have "addr_value ip mod 2 ^ (32 - pf_Bits p) < 2 ^ (32 - pf_Bits p)" by simp
  ultimately show "net_low p \<le> addr_value ip" "addr_value ip \<le> net_high p" unfolding net_high_def by linarith+
qed

lemma Contains_number:
  assumes "Is4 (pf_Addr p)" and "net_low p \<le> unat w" and "unat w \<le> net_high p"
  shows "Contains p (uint32ToIPv4 w)"
proof -
  let ?m = "(2 :: nat) ^ (32 - pf_Bits p)"
  have m: "0 < ?m" by simp
  have "unat w div ?m = addr_value (pf_Addr p) div ?m"
  proof (rule div_nat_eqI)
    show "?m * (addr_value (pf_Addr p) div ?m) \<le> unat w" using assms(2) by (simp add: net_low_def mult.commute)
    have "unat w < net_low p + ?m" using assms(3) m unfolding net_high_def by linarith
    then show "unat w < ?m * Suc (addr_value (pf_Addr p) div ?m)" by (simp add: net_low_def mult.commute)
  qed
  moreover have "Zone (uint32ToIPv4 w) = []" "BitLen (uint32ToIPv4 w) = 32" by (simp_all add: uint32ToIPv4_def Let_def)
  moreover have "BitLen (pf_Addr p) = 32" using assms(1) by (cases "pf_Addr p") auto
  ultimately show ?thesis by (simp add: Contains_def)
qed

lemma subnet_words:
  assumes "wf_addr (pf_Addr p)" "Is4 (pf_Addr p)" "pf_Bits p < 31"
  shows "addr_value (masked4 p) = net_low p" and "unat (ipv4ToUint32 (masked4 p) + 1) = net_low p + 1"
    and "unat (ipv4ToUint32 (masked4 p) + of_nat (2 ^ (32 - pf_Bits p)) - 2) = net_high p - 1"
proof -
  note R = net_range [OF assms]
  have small: "n < 2 ^ 32 \<Longrightarrow> unat (of_nat n :: 32 word) = n" for n by (simp add: unat_of_nat take_bit_nat_eq_self)
  have low: "net_low p < 2 ^ 32" using R by linarith
  show v: "addr_value (masked4 p) = net_low p" unfolding masked4_def using small [OF low] by (simp add: net_low_def)
  have w: "ipv4ToUint32 (masked4 p) = of_nat (net_low p)" by (simp add: ipv4ToUint32_def v)
  have "ipv4ToUint32 (masked4 p) + 1 = of_nat (net_low p + 1)" unfolding w by simp
  moreover have "net_low p + 1 < 2 ^ 32" using R by linarith
  ultimately show "unat (ipv4ToUint32 (masked4 p) + 1) = net_low p + 1" using small by metis
  have "ipv4ToUint32 (masked4 p) + of_nat (2 ^ (32 - pf_Bits p)) - 2 = of_nat (net_low p + 2 ^ (32 - pf_Bits p) - 2)"
    unfolding w using R(1) unfolding net_high_def by (subst of_nat_diff) simp_all
  also have "net_low p + 2 ^ (32 - pf_Bits p) - 2 = net_high p - 1" unfolding net_high_def by simp
  finally show "unat (ipv4ToUint32 (masked4 p) + of_nat (2 ^ (32 - pf_Bits p)) - 2) = net_high p - 1"
    using small [of "net_high p - 1"] R by simp
qed

section \<open>Allocation is correct\<close>

definition existing_addr :: "string list \<Rightarrow> addr \<Rightarrow> bool" where
  "existing_addr vs ip \<longleftrightarrow> list_ex (\<lambda>v. TrimSpace v \<noteq> [] \<and> ParseAddr (TrimSpace v) = Some ip) vs"

lemma collect_used_set:
  "collect_used p vs used m = Inr (used', m') \<Longrightarrow> set used' = set used \<union> {ip. existing_addr vs ip}"
  by (induction p vs used m rule: collect_used.induct)
     (auto simp: existing_addr_def Let_def split: if_splits option.splits)

lemma collect_used_existing: "collect_used p vs used m = Inr (used', m') \<Longrightarrow> existing_addr vs ip \<Longrightarrow> Contains p ip"
  by (induction p vs used m rule: collect_used.induct)
     (auto simp: existing_addr_def Let_def split: if_splits option.splits)

text \<open>A scan below a bound under \<open>2 ^ 32\<close>: it returns, with a free number of its range when there is one.\<close>

lemma scan_found:
  assumes "scan_free used ok c = Some (Some ip)" and "\<And>c. ok c \<longleftrightarrow> unat c < B" and "B < 2 ^ 32"
  shows "\<exists>w. ip = uint32ToIPv4 w \<and> unat c \<le> unat w \<and> unat w < B \<and> ip \<notin> set used"
proof -
  obtain w where w: "find (\<lambda>w. uint32ToIPv4 w \<notin> set used) (map of_nat [unat c..<B]) = Some w" "ip = uint32ToIPv4 w"
    using assms(1) scan_free_bounded [where ok = ok, OF assms(2,3), of used c] by auto
  then have "w \<in> set (map of_nat [unat c..<B])" and free: "uint32ToIPv4 w \<notin> set used"
    by (auto simp: find_Some_iff simp del: set_map intro: nth_mem)
  then obtain n where "n \<in> {unat c..<B}" "w = of_nat n" by auto
  moreover from this have "unat w = n" using assms(3) by (simp add: unat_of_nat take_bit_nat_eq_self)
  ultimately show ?thesis using w free by auto
qed

lemma scan_none:
  assumes "scan_free used ok c = Some None" and "\<And>c. ok c \<longleftrightarrow> unat c < B" and "B < 2 ^ 32" and "unat c \<le> unat w" and "unat w < B"
  shows "uint32ToIPv4 w \<in> set used"
proof -
  have "find (\<lambda>w. uint32ToIPv4 w \<notin> set used) (map of_nat [unat c..<B]) = None"
    using assms(1) scan_free_bounded [where ok = ok, OF assms(2,3), of used c] by simp
  moreover have "w \<in> set (map of_nat [unat c..<B])"
    using assms(4,5) by (auto intro!: image_eqI [of _ _ "unat w"])
  ultimately show ?thesis by (auto simp: find_None_iff)
qed

lemma pick_peer_cases:
  assumes lim: "unat limit + 1 < 2 ^ 32"
  obtains (found) w where "pick_peer used m start limit = Some (Inr (addr_String4 (uint32ToIPv4 w)))"
      "unat start \<le> unat w" "unat w \<le> unat limit" "uint32ToIPv4 w \<notin> set used"
  | (full) "pick_peer used m start limit = Some (Inl No_address)"
      "\<And>w. unat start \<le> unat w \<Longrightarrow> unat w \<le> unat limit \<Longrightarrow> uint32ToIPv4 w \<in> set used"
proof -
  define nxt where "nxt = (if m + 1 < start then start else m + 1)"
  have ge: "unat start \<le> unat nxt" by (auto simp: nxt_def word_less_nat_alt)
  let ?ok1 = "\<lambda>c. c \<le> limit" and ?ok2 = "\<lambda>c. c < nxt \<and> c \<le> limit" and ?B = "min (unat nxt) (unat limit + 1)"
  have ok1: "?ok1 c \<longleftrightarrow> unat c < unat limit + 1" and ok2: "?ok2 c \<longleftrightarrow> unat c < ?B" for c
    by (auto simp: word_le_nat_alt word_less_nat_alt)
  have B: "?B < 2 ^ 32" using lim by simp
  obtain r1 where r1: "scan_free used ?ok1 nxt = Some r1" using scan_free_bounded [where ok = ?ok1, OF ok1 lim] by blast
  obtain r2 where r2: "scan_free used ?ok2 start = Some r2" using scan_free_bounded [where ok = ?ok2, OF ok2 B] by blast
  have run: "pick_peer used m start limit = (case r1 of Some ip \<Rightarrow> Some (Inr (addr_String4 ip))
      | None \<Rightarrow> (case r2 of Some ip \<Rightarrow> Some (Inr (addr_String4 ip)) | None \<Rightarrow> Some (Inl No_address)))"
    using r1 r2 by (simp add: pick_peer_def nxt_def Let_def)
  show thesis
  proof (cases r1)
    case (Some ip)
    then obtain w where "ip = uint32ToIPv4 w" "unat nxt \<le> unat w" "unat w < unat limit + 1" "ip \<notin> set used"
      using scan_found [where ok = ?ok1, OF _ ok1 lim] r1 by blast
    with Some ge run show thesis by (intro found [of w]) simp_all
  next
    case None
    note none1 = scan_none [where ok = ?ok1, OF r1 [unfolded None] ok1 lim]
    show thesis
    proof (cases r2)
      case (Some ip)
      then obtain w where "ip = uint32ToIPv4 w" "unat start \<le> unat w" "unat w < ?B" "ip \<notin> set used"
        using scan_found [where ok = ?ok2, OF _ ok2 B] r2 by blast
      with Some None run show thesis by (intro found [of w]) simp_all
    next
      case None2: None
      note none2 = scan_none [where ok = ?ok2, OF r2 [unfolded None2] ok2 B]
      have "uint32ToIPv4 w \<in> set used" if "unat start \<le> unat w" "unat w \<le> unat limit" for w
        using none1 [of w] none2 [of w] that by (cases "unat nxt \<le> unat w") simp_all
      with None None2 run show thesis by (intro full) simp_all
    qed
  qed
qed

lemma ParsePrefix_wf: "ParsePrefix s = Some p \<Longrightarrow> Is4 (pf_Addr p) \<Longrightarrow> wf_addr (pf_Addr p)"
  unfolding ParsePrefix_def by (auto split: option.splits if_splits) (drule (1) ParseAddr_Is4_wf, assumption)+

text \<open>Either a check refuses the input, or a free host address is returned, or there is none.\<close>

lemma NextPeerIP_cases:
  obtains (refused) e where "NextPeerIP subnet r ex = Some (Inl e)" "e \<noteq> No_address"
  | (found) p reserved w where "NextPeerIP subnet r ex = Some (Inr (addr_String4 (uint32ToIPv4 w)))"
      "ParsePrefix (TrimSpace subnet) = Some p" "Is4 (pf_Addr p)" "ParseAddr (TrimSpace r) = Some reserved"
      "host_number p (unat w)" "uint32ToIPv4 w \<noteq> reserved" "\<not> existing_addr ex (uint32ToIPv4 w)"
  | (full) p reserved where "NextPeerIP subnet r ex = Some (Inl No_address)"
      "ParsePrefix (TrimSpace subnet) = Some p" "ParseAddr (TrimSpace r) = Some reserved"
      "\<And>w. host_number p (unat w) \<Longrightarrow> uint32ToIPv4 w = reserved \<or> existing_addr ex (uint32ToIPv4 w)"
proof (cases "\<exists>e. NextPeerIP subnet r ex = Some (Inl e) \<and> e \<noteq> No_address")
  case False
  have collect: "collect_used p vs used m = Inl e \<Longrightarrow> e \<noteq> No_address" for p vs used m e
    by (induction p vs used m rule: collect_used.induct) (auto simp: Let_def split: if_splits option.splits)
  from False obtain p reserved used m where p: "ParsePrefix (TrimSpace subnet) = Some p" "Is4 (pf_Addr p)" "pf_Bits p < 31"
    and res: "ParseAddr (TrimSpace r) = Some reserved" and col: "collect_used p ex [reserved] (ipv4ToUint32 reserved) = Inr (used, m)"
    and run: "NextPeerIP subnet r ex = pick_peer used m (ipv4ToUint32 (masked4 p) + 1)
      (ipv4ToUint32 (masked4 p) + of_nat (2 ^ (32 - pf_Bits p)) - 2)"
    by (auto simp: NextPeerIP_def Let_def dest: collect split: option.splits if_splits sum.splits)
  note wf = ParsePrefix_wf [OF p(1,2)]
  note W = subnet_words [OF wf p(2,3)] and R = net_range [OF wf p(2,3)]
  have used: "set used = {reserved} \<union> {ip. existing_addr ex ip}" using collect_used_set [OF col] by simp
  have range: "net_low p + 1 \<le> n \<and> n \<le> net_high p - 1 \<longleftrightarrow> host_number p n" for n using R by (auto simp: host_number_def)
  show thesis
  proof (rule pick_peer_cases [of "ipv4ToUint32 (masked4 p) + of_nat (2 ^ (32 - pf_Bits p)) - 2" used m "ipv4ToUint32 (masked4 p) + 1"])
    show "unat (ipv4ToUint32 (masked4 p) + of_nat (2 ^ (32 - pf_Bits p)) - 2) + 1 < 2 ^ 32" using W(3) R by simp
  next
    fix w
    assume w: "pick_peer used m (ipv4ToUint32 (masked4 p) + 1) (ipv4ToUint32 (masked4 p) + of_nat (2 ^ (32 - pf_Bits p)) - 2)
        = Some (Inr (addr_String4 (uint32ToIPv4 w)))"
      "unat (ipv4ToUint32 (masked4 p) + 1) \<le> unat w" "unat w \<le> unat (ipv4ToUint32 (masked4 p) + of_nat (2 ^ (32 - pf_Bits p)) - 2)"
      "uint32ToIPv4 w \<notin> set used"
    then show thesis using found [OF _ p(1,2) res] run range [of "unat w"] W used by simp
  next
    assume "pick_peer used m (ipv4ToUint32 (masked4 p) + 1) (ipv4ToUint32 (masked4 p) + of_nat (2 ^ (32 - pf_Bits p)) - 2)
        = Some (Inl No_address)"
      "\<And>w. unat (ipv4ToUint32 (masked4 p) + 1) \<le> unat w \<Longrightarrow>
        unat w \<le> unat (ipv4ToUint32 (masked4 p) + of_nat (2 ^ (32 - pf_Bits p)) - 2) \<Longrightarrow> uint32ToIPv4 w \<in> set used"
    then show thesis using full [OF _ p(1) res] run range W used by auto
  qed
qed (use refused in blast)

end
