(* ===== verification/Hub_Peers.thy ===== *)
theory Hub_Peers
  imports Wireguard Access
begin

text \<open>
  The hub side of the WireGuard network: the peer configuration of \<^verbatim>\<open>wireguard.go\<close> (\<open>HubPeerConfig\<close>)
  and the synchronisation of the hub's interface in \<^verbatim>\<open>hub.go\<close> (\<open>SyncPeers\<close>). The \<^verbatim>\<open>wg\<close> tool is a
  parameter, the command runner of the source; \<open>wg_tool\<close> states its documented behaviour.
\<close>

section \<open>Library functions\<close>

text \<open>\<^verbatim>\<open>strings.Fields\<close>; \<open>cur\<close> is the field being read, reversed.\<close>

function fields_from :: "string \<Rightarrow> string \<Rightarrow> string list" where
  "fields_from [] cur = (if cur = [] then [] else [rev cur])"
| "fields_from (c # r) cur =
     (case lead_space (c # r) of
        Some p \<Rightarrow> (if cur = [] then [] else [rev cur]) @ fields_from (drop (length p) (c # r)) []
      | None \<Rightarrow> fields_from r (c # cur))"
  by pat_completeness auto
termination
  by (relation "measure (\<lambda>(s, _). length s)") (auto dest: lead_space_shorter)

definition Fields :: "string \<Rightarrow> string list" where
  "Fields s = fields_from s []"

text \<open>The printed form of an address; the sixteen-bit groups of IPv6, the longest run of zero groups elided.\<close>

fun hex_digits :: "nat \<Rightarrow> string" where
  "hex_digits n = (if n < 16 then [hex_char n] else hex_digits (n div 16) @ [hex_char (n mod 16)])"

fun groups16 :: "nat list \<Rightarrow> nat list" where
  "groups16 (a # b # r) = (256 * a + b) # groups16 r"
| "groups16 _ = []"

definition zero_run :: "nat list \<Rightarrow> nat \<Rightarrow> nat" where
  "zero_run gs i = length (takeWhile (\<lambda>g. g = 0) (drop i gs))"

definition longest_run :: "nat list \<Rightarrow> nat \<times> nat" where
  "longest_run gs = foldl (\<lambda>(st, l) i. if zero_run gs i \<ge> 2 \<and> zero_run gs i > l then (i, zero_run gs i) else (st, l)) (255, 0) [0..<8]"

definition join_groups :: "nat list \<Rightarrow> string" where
  "join_groups gs = concat (map (\<lambda>i. (if i = 0 then [] else '':'') @ hex_digits (gs ! i)) [0..<length gs])"

fun addr_String :: "addr \<Rightarrow> string" where
  "addr_String (A4 a b c d) = addr_String4 (A4 a b c d)"
| "addr_String (A6 bs z) =
     (let zone = (if z = [] then [] else ''%'' @ z) in
      if take 12 bs = replicate 10 0 @ [255, 255] then
        ''::ffff:'' @ addr_String4 (A4 (bs ! 12) (bs ! 13) (bs ! 14) (bs ! 15)) @ zone
      else
        let gs = groups16 bs; (st, l) = longest_run gs in
        (if l = 0 then join_groups gs else join_groups (take st gs) @ ''::'' @ join_groups (drop (st + l) gs)) @ zone)"

section \<open>The peer configuration\<close>

datatype hub_err = Hub_key string key_err | Hub_ip string

fun hub_peers :: "node list \<Rightarrow> hub_err + node list" where
  "hub_peers [] = Inr []"
| "hub_peers (n # ns) =
     (if node_Status n = ''removed'' then hub_peers ns
      else if TrimSpace (node_WireGuardIP n) = [] \<or> TrimSpace (node_WireGuardPublicKey n) = [] then hub_peers ns
      else case ValidatePublicKey (node_WireGuardPublicKey n) of Inl e \<Rightarrow> Inl (Hub_key (node_Name n) e)
        | Inr _ \<Rightarrow>
            if ParseAddr (node_WireGuardIP n) = None then Inl (Hub_ip (node_Name n))
            else rbind (hub_peers ns) (\<lambda>ps. Inr (n # ps)))"

text \<open>
  The order of \<^verbatim>\<open>sort.Slice\<close>: by address (\<^verbatim>\<open>Addr.Less\<close>: bit length, value, zone), then by name. Peers
  that agree on both, whose order \<^verbatim>\<open>sort.Slice\<close> leaves open, keep theirs.
\<close>

definition peer_key :: "node \<Rightarrow> nat \<times> nat \<times> string \<times> string" where
  "peer_key n = (case ParseAddr (node_WireGuardIP n) of None \<Rightarrow> (0, 0, [], node_Name n)
     | Some ip \<Rightarrow> (BitLen ip, addr_value ip, Zone ip, node_Name n))"

definition peer_text :: "node \<Rightarrow> string" where
  "peer_text n = ''[Peer]'' @ [CHR 0x0A] @ ''# '' @ node_Name n
     @ (if node_ID n \<noteq> [] then '' ('' @ node_ID n @ '')'' else []) @ [CHR 0x0A]
     @ ''PublicKey = '' @ TrimSpace (node_WireGuardPublicKey n) @ [CHR 0x0A]
     @ ''AllowedIPs = '' @ TrimSpace (node_WireGuardIP n) @ ''/32'' @ [CHR 0x0A]"

fun peers_text :: "node list \<Rightarrow> string" where
  "peers_text [] = []"
| "peers_text [n] = peer_text n"
| "peers_text (n # ns) = peer_text n @ [CHR 0x0A] @ peers_text ns"

definition HubPeerConfig :: "node list \<Rightarrow> hub_err + string" where
  "HubPeerConfig ns = rbind (hub_peers ns) (\<lambda>ps. Inr (peers_text (sort_key peer_key ps)))"

section \<open>Synchronising the interface\<close>

text \<open>The command runner: arguments of the command \<^verbatim>\<open>wg\<close>.\<close>

record 's hub_runner =
  runner_Output :: "string list \<Rightarrow> ('s, string) io"
  runner_Run :: "string list \<Rightarrow> ('s, unit) io"

record 's hub_controller =
  hub_Interface :: string
  hub_Runner :: "'s hub_runner option"

text \<open>\<^verbatim>\<open>^[A-Za-z0-9_=+.-]{1,15}$\<close>\<close>

definition interfaceNamePattern :: rexp where
  "interfaceNamePattern = (let c = RCls (\<lambda>c. is_upper c \<or> is_lower c \<or> is_digit c \<or> c \<in> set ''_=+.-'') in RSeq c (rupto 14 c))"

text \<open>The desired peers: key to allowed address, and the keys in the order of the nodes.\<close>

fun desired_peers :: "node list \<Rightarrow> gomap \<Rightarrow> string list \<Rightarrow> srv_err + (gomap \<times> string list)" where
  "desired_peers [] m keys = Inr (m, keys)"
| "desired_peers (n # ns) m keys =
     (if node_Status n = ''removed'' \<or> TrimSpace (node_WireGuardPublicKey n) = [] then desired_peers ns m keys
      else case ValidatePublicKey (node_WireGuardPublicKey n) of
          Inl _ \<Rightarrow> Inl (ErrText (''node '' @ node_Name n @ '' has invalid WireGuard public key''))
        | Inr _ \<Rightarrow>
            (case ParseAddr (TrimSpace (node_WireGuardIP n)) of
               None \<Rightarrow> Inl (ErrText (''node '' @ node_Name n @ '' has invalid WireGuard IP''))
             | Some ip \<Rightarrow>
                 let key = TrimSpace (node_WireGuardPublicKey n)
                 in desired_peers ns (mput m key (addr_String ip @ ''/32'')) (keys @ [key])))"

fun io_each :: "('a \<Rightarrow> ('s, unit) io) \<Rightarrow> 'a list \<Rightarrow> ('s, unit) io" where
  "io_each f [] = io_ret ()"
| "io_each f (x # xs) = io_bind (f x) (\<lambda>_. io_each f xs)"

definition SyncPeers :: "'s hub_controller \<Rightarrow> node list \<Rightarrow> ('s, unit) io" where
  "SyncPeers c ns =
     (if \<not> rmatch interfaceNamePattern (TrimSpace (hub_Interface c)) then io_fail (ErrText ''invalid WireGuard interface'')
      else case hub_Runner c of None \<Rightarrow> io_fail (ErrText ''WireGuard command runner is not configured'')
        | Some r \<Rightarrow>
            (case desired_peers ns [] [] of Inl e \<Rightarrow> io_fail e
             | Inr (desired, keys) \<Rightarrow>
                 io_bind (io_wrap (ErrText ''inspect WireGuard hub peers'') (runner_Output r [''show'', hub_Interface c, ''peers''])) (\<lambda>out.
                 io_bind (io_each (\<lambda>key. if mhas desired key then io_ret ()
                     else io_wrap (ErrText ''remove WireGuard hub peer'')
                            (runner_Run r [''set'', hub_Interface c, ''peer'', key, ''remove''])) (sort (Fields out))) (\<lambda>_.
                 io_each (\<lambda>key. io_wrap (ErrText ''apply WireGuard hub peer'')
                     (runner_Run r [''set'', hub_Interface c, ''peer'', key, ''allowed-ips'', mget desired key])) (sort keys)))))"

section \<open>The interface after a synchronisation\<close>

text \<open>
  What \<^verbatim>\<open>wg\<close> documents: \<open>show peers\<close> prints the keys of the peers; \<open>set peer K remove\<close> removes a peer;
  \<open>set peer K allowed-ips A\<close> gives the address to the peer, created when it is new, and takes it from
  any other. \<open>peers\<close> reads the interface: key to address, the empty string for none.
\<close>

definition wg_assign :: "(string \<rightharpoonup> string) \<Rightarrow> string \<Rightarrow> string \<Rightarrow> string \<rightharpoonup> string" where
  "wg_assign m key ip = (\<lambda>k. if k = key then Some ip else if m k = Some ip then Some [] else m k)"

definition wg_tool :: "'s hub_runner \<Rightarrow> string \<Rightarrow> ('s \<Rightarrow> string \<rightharpoonup> string) \<Rightarrow> bool" where
  "wg_tool r iface peers \<longleftrightarrow>
     (\<forall>s out s'. runner_Output r [''show'', iface, ''peers''] s = (Inr out, s') \<longrightarrow>
        peers s' = peers s \<and> set (Fields out) = dom (peers s)) \<and>
     (\<forall>s s' key. runner_Run r [''set'', iface, ''peer'', key, ''remove''] s = (Inr (), s') \<longrightarrow>
        peers s' = (peers s)(key := None)) \<and>
     (\<forall>s s' key ip. runner_Run r [''set'', iface, ''peer'', key, ''allowed-ips'', ip] s = (Inr (), s') \<longrightarrow>
        peers s' = wg_assign (peers s) key ip)"

text \<open>The peers the nodes ask for: a node that is not removed and has a key.\<close>

definition wants_peer :: "node \<Rightarrow> bool" where
  "wants_peer n \<longleftrightarrow> node_Status n \<noteq> ''removed'' \<and> TrimSpace (node_WireGuardPublicKey n) \<noteq> []"

lemma io_each_Inr:
  assumes "io_each f xs s = (Inr u, s')" and "I s" and "\<And>x t t'. x \<in> set xs \<Longrightarrow> f x t = (Inr (), t') \<Longrightarrow> I t \<Longrightarrow> I t'"
  shows "I s'"
  using assms(1,2,3)
proof (induction xs arbitrary: s)
  case (Cons x xs)
  then obtain t where "f x s = (Inr (), t)" "io_each f xs t = (Inr u, s')"
    by (auto simp: io_bind_def split: prod.splits sum.splits)
  then show ?case using Cons.IH [of t] Cons.prems(2,3) by (metis list.set_intros(1,2))
qed simp

lemma io_wrap_Inr [simp]: "io_wrap e m s = (Inr x, s') \<longleftrightarrow> m s = (Inr x, s')"
  by (auto simp: io_wrap_def split: prod.splits sum.splits)

lemma io_bind_Inr: "io_bind m f s = (Inr x, s') \<longleftrightarrow> (\<exists>y t. m s = (Inr y, t) \<and> f y t = (Inr x, s'))"
  by (auto simp: io_bind_def split: prod.splits sum.splits)

text \<open>First loop: exactly the peers that are not desired go.\<close>

lemma remove_stale:
  assumes tool: "wg_tool r iface peers"
    and run: "io_each (\<lambda>key. if mhas desired key then io_ret ()
        else io_wrap e (runner_Run r [''set'', iface, ''peer'', key, ''remove''])) xs s = (Inr u, s')"
  shows "peers s' = (\<lambda>k. if k \<in> set xs \<and> \<not> mhas desired k then None else peers s k)"
  using run
proof (induction xs arbitrary: s)
  case (Cons x xs)
  then obtain t where t: "(if mhas desired x then io_ret () else io_wrap e (runner_Run r [''set'', iface, ''peer'', x, ''remove''])) s = (Inr (), t)"
    and rest: "io_each (\<lambda>key. if mhas desired key then io_ret ()
        else io_wrap e (runner_Run r [''set'', iface, ''peer'', key, ''remove''])) xs t = (Inr u, s')"
    by (auto simp: io_bind_Inr)
  have "peers t = (if mhas desired x then peers s else (peers s)(x := None))"
    using t tool by (auto simp: wg_tool_def split: if_splits)
  then show ?case using Cons.IH [OF rest] by (auto simp: fun_eq_iff)
qed (simp add: fun_eq_iff)

text \<open>Second loop: every key gets its address, and keeps it because no other key has it.\<close>

lemma apply_peers:
  assumes tool: "wg_tool r iface peers" and inj: "inj_on g (set seen \<union> set xs)"
    and run: "io_each (\<lambda>key. io_wrap e (runner_Run r [''set'', iface, ''peer'', key, ''allowed-ips'', g key])) xs s = (Inr u, s')"
    and before: "\<forall>k \<in> set seen. peers s k = Some (g k)"
  shows "(\<forall>k \<in> set seen \<union> set xs. peers s' k = Some (g k)) \<and> (\<forall>k. k \<notin> set seen \<union> set xs \<longrightarrow> (peers s' k = None \<longleftrightarrow> peers s k = None))"
  using run before inj
proof (induction xs arbitrary: s seen)
  case (Cons x xs)
  then obtain t where t: "runner_Run r [''set'', iface, ''peer'', x, ''allowed-ips'', g x] s = (Inr (), t)"
    and rest: "io_each (\<lambda>key. io_wrap e (runner_Run r [''set'', iface, ''peer'', key, ''allowed-ips'', g key])) xs t = (Inr u, s')"
    by (auto simp: io_bind_Inr)
  have pt: "peers t = wg_assign (peers s) x (g x)" using t tool by (auto simp: wg_tool_def)
  have "\<forall>k \<in> set (x # seen). peers t k = Some (g k)"
  proof
    fix k assume k: "k \<in> set (x # seen)"
    then have "k \<noteq> x \<Longrightarrow> g k \<noteq> g x" using inj_onD [OF Cons.prems(3), of k x] by auto
    then show "peers t k = Some (g k)" using k Cons.prems(2) by (auto simp: pt wg_assign_def)
  qed
  from Cons.IH [OF rest this] Cons.prems(3) show ?case by (auto simp: pt wg_assign_def split: if_splits)
qed simp

text \<open>The key and the address of the peer of a node.\<close>

definition peer_id :: "node \<Rightarrow> string" where
  "peer_id n = TrimSpace (node_WireGuardPublicKey n)"

definition peer_addr :: "node \<Rightarrow> string" where
  "peer_addr n = (case ParseAddr (TrimSpace (node_WireGuardIP n)) of None \<Rightarrow> [] | Some ip \<Rightarrow> addr_String ip @ ''/32'')"

lemma desired_peers_keys:
  "desired_peers ns m keys = Inr (m', keys') \<Longrightarrow> keys' = keys @ map peer_id (filter wants_peer ns) \<and>
     map_of m' = map_of m ++ map_of (rev (map (\<lambda>n. (peer_id n, peer_addr n)) (filter wants_peer ns)))"
proof (induction ns m keys rule: desired_peers.induct)
  case (2 n ns m keys)
  show ?case
  proof (cases "wants_peer n")
    case False
    then show ?thesis using 2 by (auto simp: wants_peer_def)
  next
    case True
    from 2(3) True obtain ip where ip: "ParseAddr (TrimSpace (node_WireGuardIP n)) = Some ip" "ValidatePublicKey (node_WireGuardPublicKey n) = Inr ()"
      and rest: "desired_peers ns (mput m (peer_id n) (peer_addr n)) (keys @ [peer_id n]) = Inr (m', keys')"
      by (auto simp: wants_peer_def peer_id_def peer_addr_def Let_def split: sum.splits option.splits if_splits)
    from 2(2) [OF _ ip(2,1) refl] rest True ip show ?thesis
      by (auto simp: wants_peer_def peer_id_def peer_addr_def map_add_def fun_eq_iff split: option.splits)
  qed
qed simp

lemma sync_run:
  assumes "SyncPeers c ns s = (Inr (), s')"
  obtains r desired keys out s1 s2 where "hub_Runner c = Some r" "desired_peers ns [] [] = Inr (desired, keys)"
    "runner_Output r [''show'', hub_Interface c, ''peers''] s = (Inr out, s1)"
    "io_each (\<lambda>key. if mhas desired key then io_ret () else io_wrap (ErrText ''remove WireGuard hub peer'')
        (runner_Run r [''set'', hub_Interface c, ''peer'', key, ''remove''])) (sort (Fields out)) s1 = (Inr (), s2)"
    "io_each (\<lambda>key. io_wrap (ErrText ''apply WireGuard hub peer'')
        (runner_Run r [''set'', hub_Interface c, ''peer'', key, ''allowed-ips'', mget desired key])) (sort keys) s2 = (Inr (), s')"
  using assms unfolding SyncPeers_def by (auto simp: io_bind_Inr split: if_splits option.splits sum.splits)

lemma sync_exact:
  assumes run: "SyncPeers c ns s = (Inr (), s')" and tool: "\<And>r. hub_Runner c = Some r \<Longrightarrow> wg_tool r (hub_Interface c) peers"
    and ids: "distinct (map peer_id (filter wants_peer ns))" and addrs: "distinct (map peer_addr (filter wants_peer ns))"
  shows "peers s' = map_of (map (\<lambda>n. (peer_id n, peer_addr n)) (filter wants_peer ns))"
  using run
proof (rule sync_run)
  let ?P = "map (\<lambda>n. (peer_id n, peer_addr n)) (filter wants_peer ns)"
  fix r desired keys out s1 s2
  assume r: "hub_Runner c = Some r" and d: "desired_peers ns [] [] = Inr (desired, keys)"
    and out: "runner_Output r [''show'', hub_Interface c, ''peers''] s = (Inr out, s1)"
    and loop1: "io_each (\<lambda>key. if mhas desired key then io_ret () else io_wrap (ErrText ''remove WireGuard hub peer'')
        (runner_Run r [''set'', hub_Interface c, ''peer'', key, ''remove''])) (sort (Fields out)) s1 = (Inr (), s2)"
    and loop2: "io_each (\<lambda>key. io_wrap (ErrText ''apply WireGuard hub peer'')
        (runner_Run r [''set'', hub_Interface c, ''peer'', key, ''allowed-ips'', mget desired key])) (sort keys) s2 = (Inr (), s')"
  note t = tool [OF r]
  have keys: "keys = map fst ?P" "map_of desired = map_of (rev ?P)" using desired_peers_keys [OF d] by (simp_all add: comp_def)
  have "distinct (map fst ?P)" "distinct (map fst (rev ?P))" using ids by (simp_all add: comp_def flip: rev_map)
  then have des: "map_of desired = map_of ?P" unfolding keys(2) by (simp add: map_of_inject_set)
  have has: "mhas desired k \<longleftrightarrow> k \<in> set keys" for k by (simp add: mhas_def des keys(1) map_of_eq_None_iff image_image)
  have get: "map_of ?P k = Some (mget desired k)" if "k \<in> set keys" for k
    using that has [of k] by (auto simp: mget_def mhas_def des)
  have "peers s1 = peers s \<and> set (Fields out) = dom (peers s)" using t out by (auto simp: wg_tool_def)
  then have none: "peers s2 k = None" if "k \<notin> set keys" for k
    using remove_stale [OF t loop1] that has [of k] by (auto simp: fun_eq_iff)
  have inj: "inj_on (mget desired) (set keys)"
  proof (rule inj_onI)
    fix k k' assume k: "k \<in> set keys" "k' \<in> set keys" and eq: "mget desired k = mget desired k'"
    from k keys(1) obtain n n' where n: "n \<in> set (filter wants_peer ns)" "k = peer_id n" "n' \<in> set (filter wants_peer ns)" "k' = peer_id n'" by auto
    have "map_of ?P k = Some (peer_addr n)" "map_of ?P k' = Some (peer_addr n')"
      using n ids by (auto intro!: map_of_is_SomeI simp: comp_def)
    then have "peer_addr n = peer_addr n'" using get k eq by simp
    then have "n = n'" using addrs n by (auto simp: distinct_map dest: inj_onD)
    then show "k = k'" using n by simp
  qed
  from apply_peers [OF t _ loop2, of "[]"] inj have fin: "\<forall>k \<in> set keys. peers s' k = Some (mget desired k)"
    "\<forall>k. k \<notin> set keys \<longrightarrow> (peers s' k = None \<longleftrightarrow> peers s2 k = None)" by simp_all
  show "peers s' = map_of ?P"
  proof
    fix k show "peers s' k = map_of ?P k"
      using fin none [of k] get [of k] has [of k] by (cases "k \<in> set keys") (auto simp: mhas_def des)
  qed
qed

end
