(* ===== verification/Node_Service.thy ===== *)
theory Node_Service
  imports Event_Log Hub_Peers
begin

text \<open>
  \<^verbatim>\<open>internal/server/node.go\<close>: the node service, one function per RPC with its helpers, over the store
  and an arbitrary outside world. The cluster runtime, the peer synchroniser and the provider of join
  material are the interfaces of the source; an interface that a runtime may implement in addition
  (draining, the removal guard, label synchronisation) is an option. The clock and the random source
  are read from the outside world. The repositories are always configured. Texts of wrapped errors
  are abbreviated to their fixed part.
\<close>

section \<open>Durations\<close>

text \<open>Days since 1970 of a civil date and back, in the proleptic Gregorian calendar; durations are nanoseconds.\<close>

definition civil_days :: "int \<Rightarrow> int \<Rightarrow> int \<Rightarrow> int" where
  "civil_days y m d =
     (let y' = (if m \<le> 2 then y - 1 else y); era = y' div 400; yoe = y' mod 400;
          doy = (153 * ((m + 9) mod 12) + 2) div 5 + d - 1;
          doe = yoe * 365 + yoe div 4 - yoe div 100 + doy
      in era * 146097 + doe - 719468)"

definition days_civil :: "int \<Rightarrow> int \<times> int \<times> int" where
  "days_civil days =
     (let z = days + 719468; era = z div 146097; doe = z mod 146097;
          yoe = (doe - doe div 1460 + doe div 36524 - doe div 146096) div 365;
          doy = doe - (365 * yoe + yoe div 4 - yoe div 100);
          mp = (5 * doy + 2) div 153;
          d = doy - (153 * mp + 2) div 5 + 1;
          m = (if mp < 10 then mp + 3 else mp - 9)
      in (yoe + era * 400 + (if m \<le> 2 then 1 else 0), m, d))"

definition unix_nano :: "gotime \<Rightarrow> int" where
  "unix_nano t = ((civil_days (int (t_year t)) (int (t_month t)) (int (t_day t)) * 86400
     + int (t_hour t) * 3600 + int (t_min t) * 60 + int (t_sec t)) * 1000000000 + int (t_nano t))"

definition nano_time :: "int \<Rightarrow> gotime" where
  "nano_time n = (let secs = n div 1000000000; days = secs div 86400; s = secs mod 86400; (y, m, d) = days_civil days
     in GoTime (nat y) (nat m) (nat d) (nat (s div 3600)) (nat (s div 60 mod 60)) (nat (s mod 60)) (nat (n mod 1000000000)))"

definition time_Add :: "gotime \<Rightarrow> int \<Rightarrow> gotime" where
  "time_Add t d = nano_time (unix_nano t + d)"

text \<open>\<^verbatim>\<open>Time.Sub\<close> saturates at the bounds of int64.\<close>

definition time_Sub :: "gotime \<Rightarrow> gotime \<Rightarrow> int" where
  "time_Sub t u = max (- (2 ^ 63)) (min (2 ^ 63 - 1) (unix_nano t - unix_nano u))"

text \<open>\<^verbatim>\<open>time.Duration(seconds) * time.Second\<close> on int64, which wraps.\<close>

definition seconds_duration :: "int \<Rightarrow> int" where
  "seconds_duration n = sint (word_of_int n * 1000000000 :: 64 word)"

section \<open>Labels, names and responses\<close>

text \<open>A Go map that may be nil.\<close>

type_synonym nilmap = "gomap option"

fun clean_labels :: "gomap \<Rightarrow> gomap \<Rightarrow> gomap option" where
  "clean_labels [] clean = Some clean"
| "clean_labels ((k, v) # m) clean =
     (if TrimSpace k = [] then None else clean_labels m (mput clean (TrimSpace k) (TrimSpace v)))"

definition marshalLabels :: "nilmap \<Rightarrow> srv_err + string" where
  "marshalLabels labels = (case labels of None \<Rightarrow> Inr ''{}''
     | Some m \<Rightarrow> (case clean_labels m [] of None \<Rightarrow> Inl (ErrText ''label keys cannot be empty'')
         | Some clean \<Rightarrow> Inr (print_json (enc_map clean))))"

definition unmarshalLabels :: "string \<Rightarrow> nilmap" where
  "unmarshalLabels s =
     (if TrimSpace s = [] then Some []
      else case json_parse s of None \<Rightarrow> Some []
        | Some JNull \<Rightarrow> None
        | Some j \<Rightarrow> (case dec_map j [] of None \<Rightarrow> Some [] | Some m \<Rightarrow> Some m))"

definition nodeNamePattern :: rexp where
  "nodeNamePattern = RSeq (RCls is_name_char) (ropt (RSeq (RStar (RCls is_name_inner)) (RCls is_name_char)))"

definition validateNodeName :: "string \<Rightarrow> srv_err + unit" where
  "validateNodeName name =
     (if TrimSpace name = [] then Inl (ErrText ''node name is required'')
      else if length name > 63 \<or> \<not> rmatch nodeNamePattern name then Inl (ErrText ''node name must be a DNS-safe Kubernetes name'')
      else Inr ())"

definition formatProtoTime :: "gotime \<Rightarrow> string" where
  "formatProtoTime t = (if IsZero t then [] else formatTime t)"

definition formatOptionalProtoTime :: "gotime option \<Rightarrow> string" where
  "formatOptionalProtoTime t = (case t of None \<Rightarrow> [] | Some t \<Rightarrow> formatProtoTime t)"

record proto_node =
  pn_Id :: string
  pn_Name :: string
  pn_Status :: string
  pn_Labels :: nilmap
  pn_CreatedAt :: string
  pn_UpdatedAt :: string
  pn_LastSeenAt :: string
  pn_Hostname :: string
  pn_Arch :: string
  pn_Os :: string
  pn_Kernel :: string
  pn_WireguardIp :: string
  pn_WireguardPublicKey :: string
  pn_Schedulable :: bool
  pn_VpnStatus :: string
  pn_KubernetesStatus :: string
  pn_KubernetesMessage :: string

definition protoNode :: "node \<Rightarrow> proto_node" where
  "protoNode n = \<lparr>pn_Id = node_ID n, pn_Name = node_Name n, pn_Status = node_Status n, pn_Labels = unmarshalLabels (node_LabelsJSON n),
     pn_CreatedAt = formatProtoTime (node_CreatedAt n), pn_UpdatedAt = formatProtoTime (node_UpdatedAt n),
     pn_LastSeenAt = formatOptionalProtoTime (node_LastSeenAt n), pn_Hostname = node_Hostname n, pn_Arch = node_Arch n,
     pn_Os = node_OS n, pn_Kernel = node_Kernel n, pn_WireguardIp = node_WireGuardIP n,
     pn_WireguardPublicKey = node_WireGuardPublicKey n,
     pn_Schedulable = (node_Status n \<noteq> ''drained'' \<and> node_Status n \<noteq> ''removed''), pn_VpnStatus = node_VPNStatus n,
     pn_KubernetesStatus = [], pn_KubernetesMessage = []\<rparr>"

section \<open>The service\<close>

record 'e node_runtime =
  rt_NodeReadiness :: "string \<Rightarrow> ('e, string \<times> string \<times> bool) io"
  rt_CordonNode :: "string \<Rightarrow> ('e, unit) io"
  rt_UncordonNode :: "string \<Rightarrow> ('e, unit) io"
  rt_RemoveNode :: "string \<Rightarrow> ('e, unit) io"
  rt_DrainNode :: "(string \<Rightarrow> ('e, unit) io) option"
  rt_ValidateNodeRemoval :: "(node \<Rightarrow> ('e, unit) io) option"
  rt_SyncNodeLabels :: "(node \<Rightarrow> ('e, unit) io) option"

record worker_network =
  net_Subnet :: string
  net_HubIP :: string
  net_HubPublicKey :: string
  net_Endpoint :: string

text \<open>
  \<open>ns_events\<close>: no recorder, or one that has a repository or not. \<open>ns_random\<close> reads that many random
  bytes, \<open>ns_now\<close> the clock; \<open>ns_hmac\<close> is HMAC-SHA256.
\<close>

record 'e node_service =
  ns_hashKey :: string
  ns_events :: "bool option"
  ns_runtime :: "'e node_runtime option"
  ns_peers :: "(node list \<Rightarrow> ('e, unit) io) option"
  ns_workerJoin :: "('e, string \<times> string) io option"
  ns_network :: worker_network
  ns_offlineAfter :: int
  ns_now :: "'e \<Rightarrow> gotime"
  ns_random :: "nat \<Rightarrow> 'e \<Rightarrow> nat list option \<times> 'e"
  ns_hmac :: "string \<Rightarrow> string \<Rightarrow> nat list"

definition offline_after :: "int \<Rightarrow> int" where
  "offline_after d = (if d \<le> 0 then 120 * 1000000000 else d)"

definition io_now :: "'e node_service \<Rightarrow> ('e fleet, gotime) io" where
  "io_now svc s = (Inr (ns_now svc (f_env s)), s)"

definition io_random :: "'e node_service \<Rightarrow> nat \<Rightarrow> ('e fleet, nat list option) io" where
  "io_random svc n s = (case ns_random svc n (f_env s) of (r, k) \<Rightarrow> (Inr r, s\<lparr>f_env := k\<rparr>))"

text \<open>\<^verbatim>\<open>if err != nil { return nil, status.Error(codes.Internal, msg) }\<close>\<close>

abbreviation internally :: "string \<Rightarrow> ('s, 'a) io \<Rightarrow> ('s, 'a) io" where
  "internally msg m \<equiv> io_wrap (ErrStatus Internal msg) m"

definition store_record :: "(store \<Rightarrow> srv_err + (unit \<times> store)) \<Rightarrow> ('e fleet, unit) io" where
  "store_record f s = (case f (f_store s) of Inl e \<Rightarrow> (Inr (), s) | Inr (_, d) \<Rightarrow> (Inr (), s\<lparr>f_store := d\<rparr>))"

text \<open>\<^verbatim>\<open>recordEvent\<close> drops the error. The id is drawn only for an event that is valid and has none.\<close>

definition recordEvent :: "'e node_service \<Rightarrow> event \<Rightarrow> ('e fleet, unit) io" where
  "recordEvent svc e = (case ns_events svc of None \<Rightarrow> io_ret ()
     | Some configured \<Rightarrow>
         io_bind (if is_ok (validateEvent e) \<and> ev_ID e = [] then io_random svc 16 else io_ret None) (\<lambda>raw.
         io_bind (io_now svc) (\<lambda>now. store_record (Record configured raw now e))))"

definition metadataJSON :: "gomap \<Rightarrow> string" where
  "metadataJSON m = print_json (enc_map m)"

definition node_event :: "string \<Rightarrow> string \<Rightarrow> string \<Rightarrow> string \<Rightarrow> gomap \<Rightarrow> event" where
  "node_event ty sev msg nodeID meta = \<lparr>ev_ID = [], ev_CreatedAt = zero_time, ev_Type = ty, ev_Severity = sev, ev_Message = msg,
     ev_AppID = [], ev_NodeID = nodeID, ev_DeploymentID = [], ev_MetadataJSON = metadataJSON meta\<rparr>"

definition nodeWithReadiness :: "'e node_service \<Rightarrow> node \<Rightarrow> ('e fleet, proto_node) io" where
  "nodeWithReadiness svc n = (case ns_runtime svc of None \<Rightarrow> io_ret (protoNode n)
     | Some rt \<Rightarrow>
         io_bind (internally ''read Kubernetes node readiness'' (fleet_call (KReadiness (node_Name n)) (rt_NodeReadiness rt (node_Name n))))
           (\<lambda>(state, message, schedulable).
              io_ret ((protoNode n)\<lparr>pn_KubernetesStatus := state, pn_KubernetesMessage := message,
                pn_Schedulable := schedulable \<and> node_Status n \<noteq> ''drained'' \<and> node_Status n \<noteq> ''removed''\<rparr>)))"

definition findNode :: "string \<Rightarrow> ('e fleet, node) io" where
  "findNode ref0 =
     (let ref = TrimSpace ref0 in
      if ref = [] then io_status InvalidArgument ''node reference is required''
      else io_try (store_read (node_FindByName ref)) (\<lambda>r.
        io_try (if r = Inl (ErrDb ErrNotFound) then store_read (node_FindByID ref) else io_of r) (\<lambda>r. case r of
            Inl (ErrDb ErrNotFound) \<Rightarrow> io_status NotFound ''node not found''
          | Inl _ \<Rightarrow> io_status Internal ''get node''
          | Inr n \<Rightarrow> io_ret n)))"

section \<open>Joining\<close>

definition wg_text :: "wg_err \<Rightarrow> string" where
  "wg_text e = (case e of No_address \<Rightarrow> ''no WireGuard addresses available'' | _ \<Rightarrow> ''invalid WireGuard network'')"

text \<open>The last alternative is a loop that never ends; \<open>NextPeerIP_returns\<close> shows that there is none.\<close>

definition allocateWireGuardIP :: "'e node_service \<Rightarrow> ('e fleet, string) io" where
  "allocateWireGuardIP svc =
     io_bind (internally ''list nodes for WireGuard address allocation'' (store_read node_List)) (\<lambda>ns.
     let subnet0 = TrimSpace (net_Subnet (ns_network svc)); hub0 = TrimSpace (net_HubIP (ns_network svc));
         subnet = (if subnet0 = [] then ''10.8.0.0/24'' else subnet0);
         hub = (if hub0 = [] then ''10.8.0.1'' else hub0)
     in case NextPeerIP subnet hub (map node_WireGuardIP ns) of
          Some (Inl e) \<Rightarrow> io_status ResourceExhausted (wg_text e)
        | Some (Inr ip) \<Rightarrow> io_ret ip
        | None \<Rightarrow> io_fail (ErrText ''does not return''))"

record create_token_request =
  ct_NodeName :: string
  ct_Labels :: nilmap
  ct_TtlSeconds :: int

record create_token_response =
  ct_JoinToken :: string
  ct_ExpiresAt :: string
  ct_RespName :: string

definition new_token :: "'e node_service \<Rightarrow> string \<Rightarrow> string \<Rightarrow> ('e fleet, string) io" where
  "new_token svc pfx msg = io_bind (io_random svc 32) (\<lambda>raw. internally msg (io_of (map_err (\<lambda>_. ErrText msg) (NewToken raw pfx))))"

definition hash_token :: "'e node_service \<Rightarrow> string \<Rightarrow> string \<Rightarrow> ('e fleet, string) io" where
  "hash_token svc tok msg = internally msg (io_of (map_err (\<lambda>_. ErrText msg) (HashToken (ns_hmac svc) (ns_hashKey svc) tok)))"

definition new_node_id :: "'e node_service \<Rightarrow> ('e fleet, string) io" where
  "new_node_id svc = io_bind (io_random svc 16) (\<lambda>raw. internally ''create node id'' (io_of (newID raw ''node'')))"

definition zero_node :: node where
  "zero_node = \<lparr>node_ID = [], node_Name = [], node_Status = [], node_LabelsJSON = [], node_Hostname = [], node_Arch = [], node_OS = [],
     node_Kernel = [], node_WireGuardIP = [], node_WireGuardPublicKey = [], node_VPNStatus = [], node_LastSeenAt = None,
     node_CreatedAt = zero_time, node_UpdatedAt = zero_time\<rparr>"

text \<open>The rest of \<^verbatim>\<open>CreateJoinToken\<close> once the node of that name has been looked up.\<close>

definition issue_token :: "'e node_service \<Rightarrow> create_token_request \<Rightarrow> gotime \<Rightarrow> string \<Rightarrow> gotime \<Rightarrow> string \<Rightarrow> node option \<Rightarrow>
    ('e fleet, create_token_response) io" where
  "issue_token svc req now nodeName expiresAt labelsJSON existing =
     io_bind (case existing of Some n \<Rightarrow> if node_WireGuardIP n = [] then allocateWireGuardIP svc else io_ret (node_WireGuardIP n)
              | None \<Rightarrow> allocateWireGuardIP svc) (\<lambda>wireGuardIP.
     io_bind (new_token svc JoinTokenPrefix ''create join token'') (\<lambda>rawToken.
     io_bind (hash_token svc rawToken ''hash join token'') (\<lambda>tokenHash.
     io_bind (internally ''store join token'' (store_tx (join_Create \<lparr>join_TokenHash = tokenHash, join_IntendedNodeName = nodeName,
       join_LabelsJSON = labelsJSON, join_CreatedAt = now, join_ExpiresAt = expiresAt, join_UsedAt = None\<rparr>))) (\<lambda>_.
     io_bind (case existing of
         None \<Rightarrow>
           io_bind (new_node_id svc) (\<lambda>nodeID.
           internally ''create pending node'' (store_tx (node_Create (zero_node\<lparr>node_ID := nodeID, node_Name := nodeName,
             node_Status := ''pending'', node_LabelsJSON := labelsJSON,
             node_Arch := (case ct_Labels req of None \<Rightarrow> [] | Some m \<Rightarrow> mget m ''arch''),
             node_WireGuardIP := wireGuardIP, node_CreatedAt := now, node_UpdatedAt := now\<rparr>))))
       | Some n \<Rightarrow>
           if node_WireGuardIP n = [] then
             internally ''assign WireGuard address''
               (store_tx (SetWireGuard (node_ID n) wireGuardIP (node_WireGuardPublicKey n) now))
           else io_ret ()) (\<lambda>_.
     io_ret \<lparr>ct_JoinToken = rawToken, ct_ExpiresAt = formatProtoTime expiresAt, ct_RespName = nodeName\<rparr>)))))"

definition CreateJoinToken :: "'e node_service \<Rightarrow> ctx \<Rightarrow> create_token_request \<Rightarrow> ('e fleet, create_token_response) io" where
  "CreateJoinToken svc ctx req =
     io_bind (io_of (requireCaller ctx CallerAdmin)) (\<lambda>_.
     let nodeName = TrimSpace (ct_NodeName req) in
     case validateNodeName nodeName of Inl _ \<Rightarrow> io_status InvalidArgument ''invalid node name''
     | Inr _ \<Rightarrow>
     io_bind (io_now svc) (\<lambda>now.
     let ttl0 = seconds_duration (ct_TtlSeconds req);
         ttl = (if ttl0 \<le> 0 then 3600 * 1000000000 else ttl0);
         expiresAt = time_Add now ttl
     in case marshalLabels (ct_Labels req) of Inl _ \<Rightarrow> io_status InvalidArgument ''label keys cannot be empty''
     | Inr labelsJSON \<Rightarrow>
     io_try (store_read (node_FindByName nodeName)) (\<lambda>found.
     case found of
       Inr n \<Rightarrow> if node_Status n \<noteq> ''pending'' then io_status AlreadyExists ''node already exists''
                else issue_token svc req now nodeName expiresAt labelsJSON (Some n)
     | Inl (ErrDb ErrNotFound) \<Rightarrow> issue_token svc req now nodeName expiresAt labelsJSON None
     | Inl _ \<Rightarrow> io_status Internal ''find node'')))"


record join_request =
  jr_JoinToken :: string
  jr_PublicKey :: string
  jr_Hostname :: string
  jr_Arch :: string

record join_response =
  jr_NodeId :: string
  jr_NodeName :: string
  jr_AgentToken :: string
  jr_WireguardIp :: string

text \<open>
  The labels of the join token and the reported architecture. A stored \<^verbatim>\<open>null\<close> reads as a nil map,
  and writing an entry into it panics.
\<close>

definition enroll_labels :: "join_token \<Rightarrow> join_request \<Rightarrow> srv_err + string" where
  "enroll_labels token req =
     (let labels = unmarshalLabels (join_LabelsJSON token) in
      if jr_Arch req = [] then map_err (\<lambda>_. ErrStatus InvalidArgument ''label keys cannot be empty'') (marshalLabels labels)
      else case labels of None \<Rightarrow> Inl (ErrText ''panic: assignment to entry in nil map'')
        | Some m \<Rightarrow> map_err (\<lambda>_. ErrStatus InvalidArgument ''label keys cannot be empty'')
                     (marshalLabels (Some (mput m ''arch'' (jr_Arch req)))))"

text \<open>The node of the token's name, created when there is none.\<close>

definition enroll_node_row :: "'e node_service \<Rightarrow> string \<Rightarrow> gotime \<Rightarrow> ('e fleet, node) io" where
  "enroll_node_row svc nodeName now =
     io_try (store_read (node_FindByName nodeName)) (\<lambda>found. case found of
         Inr n \<Rightarrow> io_ret n
       | Inl (ErrDb ErrNotFound) \<Rightarrow>
           io_bind (new_node_id svc) (\<lambda>nodeID.
           let n = zero_node\<lparr>node_ID := nodeID, node_Name := nodeName, node_Status := ''pending'', node_CreatedAt := now, node_UpdatedAt := now\<rparr>
           in io_bind (internally ''create node'' (store_tx (node_Create n))) (\<lambda>_. io_ret n))
       | Inl _ \<Rightarrow> io_status Internal ''find node'')"

definition enrollNode :: "'e node_service \<Rightarrow> join_token \<Rightarrow> join_request \<Rightarrow> gotime \<Rightarrow> ('e fleet, join_response) io" where
  "enrollNode svc token req now =
     (let nodeName0 = TrimSpace (join_IntendedNodeName token);
          nodeName = (if nodeName0 = [] then TrimSpace (jr_Hostname req) else nodeName0)
      in if nodeName = [] then io_status InvalidArgument ''node name is required''
      else
     io_bind (io_of (enroll_labels token req)) (\<lambda>labelsJSON.
     io_bind (enroll_node_row svc nodeName now) (\<lambda>n.
     if node_Status n = ''removed'' then io_status PermissionDenied ''node has been removed''
     else
     io_bind (if node_WireGuardIP n = [] then allocateWireGuardIP svc else io_ret (node_WireGuardIP n)) (\<lambda>wireGuardIP.
     io_bind (internally ''store WireGuard peer metadata''
       (store_tx (SetWireGuard (node_ID n) wireGuardIP (TrimSpace (jr_PublicKey req)) now))) (\<lambda>_.
     io_bind (internally ''activate node'' (store_tx (UpdateHeartbeat (node_ID n)
       (zero_node\<lparr>node_Status := ''online'', node_LabelsJSON := labelsJSON, node_Hostname := TrimSpace (jr_Hostname req),
          node_Arch := TrimSpace (jr_Arch req)\<rparr>) now))) (\<lambda>_.
     io_bind (new_token svc AgentTokenPrefix ''create agent token'') (\<lambda>rawAgentToken.
     io_bind (hash_token svc rawAgentToken ''hash agent token'') (\<lambda>agentTokenHash.
     io_bind (internally ''store agent token'' (store_tx (agent_Create
       \<lparr>agt_TokenHash = agentTokenHash, agt_NodeID = node_ID n, agt_CreatedAt = now, agt_LastUsedAt = None, agt_RevokedAt = None\<rparr>))) (\<lambda>_.
     io_ret \<lparr>jr_NodeId = node_ID n, jr_NodeName = nodeName, jr_AgentToken = rawAgentToken, jr_WireguardIp = wireGuardIP\<rparr>)))))))))"

definition JoinNode :: "'e node_service \<Rightarrow> join_request \<Rightarrow> ('e fleet, join_response) io" where
  "JoinNode svc req =
     (let rawToken = TrimSpace (jr_JoinToken req); publicKey = TrimSpace (jr_PublicKey req) in
      if rawToken = [] then io_status Unauthenticated ''join token is required''
      else if \<not> is_ok (ValidatePublicKey publicKey) then io_status InvalidArgument ''invalid WireGuard public key''
      else if \<not> is_ok (token_Prefix rawToken) then io_status Unauthenticated ''invalid join token''
      else
     io_bind (hash_token svc rawToken ''hash join token'') (\<lambda>tokenHash.
     io_bind (io_now svc) (\<lambda>now.
     io_try (store_read (join_FindByHash tokenHash)) (\<lambda>found. case found of
         Inl (ErrDb ErrNotFound) \<Rightarrow> io_status Unauthenticated ''invalid join token''
       | Inl _ \<Rightarrow> io_status Internal ''find join token''
       | Inr token \<Rightarrow>
           if join_UsedAt token \<noteq> None then io_status PermissionDenied ''join token already used''
           else if \<not> now < join_ExpiresAt token then io_status PermissionDenied ''join token expired''
           else
     io_bind (enrollNode svc token req now) (\<lambda>resp.
     io_try (store_tx (Consume tokenHash now)) (\<lambda>consumed. case consumed of
         Inl (ErrDb ErrJoinTokenExpired) \<Rightarrow> io_status PermissionDenied ''join token expired''
       | Inl (ErrDb ErrJoinTokenUsed) \<Rightarrow> io_status PermissionDenied ''join token already used''
       | Inl _ \<Rightarrow> io_status Internal ''consume join token''
       | Inr _ \<Rightarrow>
     io_bind (recordEvent svc (node_event ''node.joined'' ''info'' (''node '' @ jr_NodeName resp @ '' joined the platform'')
       (jr_NodeId resp) [(''node_name'', jr_NodeName resp)])) (\<lambda>_.
     io_bind (recordEvent svc (node_event ''node.online'' ''info'' (''node '' @ jr_NodeName resp @ '' is online'')
       (jr_NodeId resp) [(''node_name'', jr_NodeName resp)])) (\<lambda>_.
     io_ret resp))))))))"

section \<open>Reading\<close>

fun io_map :: "('a \<Rightarrow> ('s, 'b) io) \<Rightarrow> 'a list \<Rightarrow> ('s, 'b list) io" where
  "io_map f [] = io_ret []"
| "io_map f (x # xs) = io_bind (f x) (\<lambda>y. io_bind (io_map f xs) (\<lambda>ys. io_ret (y # ys)))"

definition ListNodes :: "'e node_service \<Rightarrow> ctx \<Rightarrow> ('e fleet, proto_node list) io" where
  "ListNodes svc ctx =
     io_bind (io_of (requireCaller ctx CallerAdmin)) (\<lambda>_.
     io_bind (internally ''list nodes'' (store_read node_List)) (\<lambda>ns.
     io_map (nodeWithReadiness svc) ns))"

definition GetNode :: "'e node_service \<Rightarrow> ctx \<Rightarrow> string \<Rightarrow> ('e fleet, proto_node) io" where
  "GetNode svc ctx ref =
     io_bind (io_of (requireCaller ctx CallerAdmin)) (\<lambda>_.
     io_bind (findNode ref) (\<lambda>n. nodeWithReadiness svc n))"

section \<open>Agents\<close>

record heartbeat_request =
  hb_Status :: string
  hb_Hostname :: string
  hb_Arch :: string
  hb_Os :: string
  hb_Kernel :: string
  hb_VpnStatus :: string

text \<open>The lookup both agent RPCs begin with.\<close>

definition agent_node :: "ctx \<Rightarrow> string \<Rightarrow> ('e fleet, node) io" where
  "agent_node ctx msg =
     (case ctx of None \<Rightarrow> io_status PermissionDenied ''agent token is required''
      | Some c \<Rightarrow>
          if caller_Kind c \<noteq> CallerAgent then io_status PermissionDenied ''agent token is required''
          else io_try (store_read (node_FindByID (caller_NodeID c))) (\<lambda>found. case found of
              Inl (ErrDb ErrNotFound) \<Rightarrow> io_status NotFound ''node not found''
            | Inl _ \<Rightarrow> io_status Internal msg
            | Inr n \<Rightarrow>
                if node_Status n = ''removed'' then io_status PermissionDenied ''node has been removed'' else io_ret n))"

definition HeartbeatNode :: "'e node_service \<Rightarrow> ctx \<Rightarrow> heartbeat_request \<Rightarrow> ('e fleet, string) io" where
  "HeartbeatNode svc ctx req =
     (let statusValue = (if TrimSpace (hb_Status req) = [] then ''online'' else TrimSpace (hb_Status req));
          vpnStatus = TrimSpace (hb_VpnStatus req) in
     io_bind (agent_node ctx ''get heartbeat node'') (\<lambda>previous.
     if statusValue \<noteq> ''online'' \<and> statusValue \<noteq> ''offline'' then io_status InvalidArgument ''status must be online or offline''
     else if vpnStatus \<noteq> [] \<and> vpnStatus \<noteq> ''connected'' \<and> vpnStatus \<noteq> ''disconnected'' \<and> vpnStatus \<noteq> ''unknown'' then
       io_status InvalidArgument ''vpn_status must be connected, disconnected, or unknown''
     else
     let effectiveStatus = (if node_Status previous = ''drained'' then ''drained'' else statusValue) in
     io_bind (io_now svc) (\<lambda>now.
     io_try (store_tx (UpdateHeartbeat (node_ID previous) (zero_node\<lparr>node_Status := effectiveStatus,
         node_Hostname := TrimSpace (hb_Hostname req), node_Arch := TrimSpace (hb_Arch req), node_OS := TrimSpace (hb_Os req),
         node_Kernel := TrimSpace (hb_Kernel req), node_VPNStatus := vpnStatus\<rparr>) now)) (\<lambda>updated. case updated of
       Inl (ErrDb ErrNotFound) \<Rightarrow> io_status NotFound ''node not found''
     | Inl _ \<Rightarrow> io_status Internal ''update heartbeat''
     | Inr _ \<Rightarrow>
     let current = previous\<lparr>node_Status := effectiveStatus, node_Hostname := TrimSpace (hb_Hostname req), node_Arch := TrimSpace (hb_Arch req),
           node_OS := TrimSpace (hb_Os req), node_Kernel := TrimSpace (hb_Kernel req), node_VPNStatus := vpnStatus\<rparr> in
     io_bind (case Option.bind (ns_runtime svc) rt_SyncNodeLabels of None \<Rightarrow> io_ret ()
       | Some sync \<Rightarrow> internally ''sync Kubernetes node labels'' (fleet_call (KLabels current) (sync current))) (\<lambda>_.
     io_bind (if node_Status previous = effectiveStatus then io_ret ()
       else if effectiveStatus = ''online'' then
         recordEvent svc (node_event ''node.online'' ''info'' (''node '' @ node_Name previous @ '' is online'') (node_ID previous)
           [(''node_name'', node_Name previous)])
       else if effectiveStatus = ''offline'' then
         recordEvent svc (node_event ''node.offline'' ''warning'' (''node '' @ node_Name previous @ '' is offline'') (node_ID previous)
           [(''node_name'', node_Name previous)])
       else io_ret ()) (\<lambda>_.
     io_ret (formatProtoTime now)))))))"

record bootstrap_response =
  bs_NodeName :: string
  bs_WireguardIp :: string
  bs_WireguardSubnet :: string
  bs_WireguardHubIp :: string
  bs_WireguardHubPublicKey :: string
  bs_WireguardEndpoint :: string
  bs_K3SUrl :: string
  bs_K3SToken :: string

definition sync_peers :: "(node list \<Rightarrow> ('e, unit) io) \<Rightarrow> node list \<Rightarrow> ('e fleet, unit) io" where
  "sync_peers sync ns = internally ''synchronize WireGuard hub peers'' (fleet_call (KSync ns) (sync ns))"

definition GetWorkerBootstrap :: "'e node_service \<Rightarrow> ctx \<Rightarrow> ('e fleet, bootstrap_response) io" where
  "GetWorkerBootstrap svc ctx =
     io_bind (agent_node ctx ''get bootstrap node'') (\<lambda>n.
     let net = ns_network svc; unconfigured = io_status FailedPrecondition ''WireGuard peer synchronization is not configured'' in
     if TrimSpace (node_WireGuardIP n) = [] then unconfigured
     else case ns_peers svc of None \<Rightarrow> unconfigured
     | Some sync \<Rightarrow>
     io_bind (internally ''list WireGuard peers'' (store_read node_List)) (\<lambda>known.
     io_bind (sync_peers sync known) (\<lambda>_.
     let incomplete = io_status FailedPrecondition ''worker bootstrap configuration is incomplete'' in
     case ns_workerJoin svc of None \<Rightarrow> incomplete
     | Some material \<Rightarrow>
     if TrimSpace (net_HubIP net) = [] \<or> TrimSpace (net_HubPublicKey net) = [] \<or> TrimSpace (net_Endpoint net) = [] then incomplete
     else if \<not> is_ok (ValidatePublicKey (net_HubPublicKey net)) then io_status FailedPrecondition ''invalid WireGuard public key''
     else
     io_bind (io_wrap (ErrStatus FailedPrecondition ''k3s worker join material is unavailable'') (fleet_call KMaterial material)) (\<lambda>(url, token).
     io_bind (recordEvent svc (node_event ''node.worker.bootstrap.requested'' ''info''
       (''node '' @ node_Name n @ '' requested worker bootstrap material'') (node_ID n) [(''node_name'', node_Name n)])) (\<lambda>_.
     io_ret \<lparr>bs_NodeName = node_Name n, bs_WireguardIp = node_WireGuardIP n,
       bs_WireguardSubnet = (if TrimSpace (net_Subnet net) = [] then ''10.8.0.0/24'' else TrimSpace (net_Subnet net)),
       bs_WireguardHubIp = TrimSpace (net_HubIP net), bs_WireguardHubPublicKey = TrimSpace (net_HubPublicKey net),
       bs_WireguardEndpoint = TrimSpace (net_Endpoint net), bs_K3SUrl = url, bs_K3SToken = token\<rparr>)))))"

section \<open>Administration\<close>

definition DrainNode :: "'e node_service \<Rightarrow> ctx \<Rightarrow> string \<Rightarrow> ('e fleet, proto_node) io" where
  "DrainNode svc ctx ref =
     io_bind (io_of (requireCaller ctx CallerAdmin)) (\<lambda>_.
     io_bind (findNode ref) (\<lambda>n.
     if node_Status n = ''removed'' then io_status FailedPrecondition ''removed node cannot be drained''
     else
     io_bind (case ns_runtime svc of None \<Rightarrow> io_ret ()
       | Some rt \<Rightarrow> internally ''drain Kubernetes node'' (case rt_DrainNode rt of
           Some drain \<Rightarrow> fleet_call (KDrain (node_Name n)) (drain (node_Name n))
         | None \<Rightarrow> fleet_call (KCordon (node_Name n)) (rt_CordonNode rt (node_Name n)))) (\<lambda>_.
     io_bind (if node_Status n = ''drained'' then io_ret n
       else io_bind (io_now svc) (\<lambda>now.
         io_bind (internally ''mark node drained'' (store_tx (node_UpdateStatus (node_ID n) ''drained'' now))) (\<lambda>_.
         io_ret (n\<lparr>node_Status := ''drained'', node_UpdatedAt := now\<rparr>)))) (\<lambda>n.
     nodeWithReadiness svc n))))"

definition UncordonNode :: "'e node_service \<Rightarrow> ctx \<Rightarrow> string \<Rightarrow> ('e fleet, proto_node) io" where
  "UncordonNode svc ctx ref =
     io_bind (io_of (requireCaller ctx CallerAdmin)) (\<lambda>_.
     io_bind (findNode ref) (\<lambda>n.
     if node_Status n = ''removed'' then io_status FailedPrecondition ''removed node cannot be uncordoned''
     else
     io_bind (case ns_runtime svc of None \<Rightarrow> io_ret ()
       | Some rt \<Rightarrow> internally ''uncordon Kubernetes node'' (fleet_call (KUncordon (node_Name n)) (rt_UncordonNode rt (node_Name n)))) (\<lambda>_.
     io_bind (io_now svc) (\<lambda>now.
     let nextStatus = (case node_LastSeenAt n of None \<Rightarrow> ''offline''
           | Some seen \<Rightarrow> if time_Sub now seen < ns_offlineAfter svc then ''online'' else ''offline'') in
     io_bind (if node_Status n = nextStatus then io_ret n
       else io_bind (internally ''mark node schedulable'' (store_tx (node_UpdateStatus (node_ID n) nextStatus now))) (\<lambda>_.
         io_ret (n\<lparr>node_Status := nextStatus, node_UpdatedAt := now\<rparr>))) (\<lambda>n.
     nodeWithReadiness svc n)))))"

text \<open>The removal guard, when the runtime has one.\<close>

definition removal_guard :: "'e node_service \<Rightarrow> string \<Rightarrow> node \<Rightarrow> ('e fleet, unit) io" where
  "removal_guard svc msg n = (case Option.bind (ns_runtime svc) rt_ValidateNodeRemoval of None \<Rightarrow> io_ret ()
     | Some guard \<Rightarrow> io_wrap (ErrStatus FailedPrecondition msg) (fleet_call (KGuard (node_ID n)) (guard n)))"

definition remove_from_cluster :: "'e node_service \<Rightarrow> node \<Rightarrow> ('e fleet, unit) io" where
  "remove_from_cluster svc n = (case ns_runtime svc of None \<Rightarrow> io_ret ()
     | Some rt \<Rightarrow> internally ''remove Kubernetes node'' (fleet_call (KRemove (node_Name n)) (rt_RemoveNode rt (node_Name n))))"

text \<open>Revocation, the disabled peer, the status and the event: the first half of \<^verbatim>\<open>RemoveNode\<close>.\<close>

definition retire_node :: "'e node_service \<Rightarrow> node \<Rightarrow> ('e fleet, node) io" where
  "retire_node svc n =
     io_bind (removal_guard svc ''node removal blocked'' n) (\<lambda>_.
     io_bind (io_now svc) (\<lambda>now.
     io_bind (internally ''revoke node identity'' (store_tx (RevokeByNodeID (node_ID n) now))) (\<lambda>_.
     io_bind (internally ''disable WireGuard peer'' (store_tx (SetWireGuard (node_ID n) (node_WireGuardIP n) [] now))) (\<lambda>_.
     io_bind (internally ''mark node removed'' (store_tx (node_UpdateStatus (node_ID n) ''removed'' now))) (\<lambda>_.
     io_bind (recordEvent svc (node_event ''node.removed'' ''info'' (''node '' @ node_Name n @ '' was removed'') (node_ID n)
       [(''node_name'', node_Name n)])) (\<lambda>_.
     io_ret (n\<lparr>node_Status := ''removed'', node_WireGuardPublicKey := [], node_UpdatedAt := now\<rparr>)))))))"

definition RemoveNode :: "'e node_service \<Rightarrow> ctx \<Rightarrow> string \<Rightarrow> ('e fleet, proto_node) io" where
  "RemoveNode svc ctx ref =
     io_bind (io_of (requireCaller ctx CallerAdmin)) (\<lambda>_.
     io_bind (findNode ref) (\<lambda>n.
     io_bind (if node_Status n \<noteq> ''removed'' then retire_node svc n else io_ret n) (\<lambda>n.
     io_bind (remove_from_cluster svc n) (\<lambda>_.
     io_bind (case ns_peers svc of None \<Rightarrow> io_ret ()
       | Some sync \<Rightarrow> io_bind (internally ''list WireGuard peers'' (store_read node_List)) (sync_peers sync)) (\<lambda>_.
     nodeWithReadiness svc n)))))"

definition PurgeNode :: "'e node_service \<Rightarrow> ctx \<Rightarrow> string \<Rightarrow> ('e fleet, string \<times> string) io" where
  "PurgeNode svc ctx ref =
     io_bind (io_of (requireCaller ctx CallerAdmin)) (\<lambda>_.
     io_bind (findNode ref) (\<lambda>n.
     if node_Status n \<noteq> ''pending'' \<and> node_Status n \<noteq> ''removed'' then
       io_status FailedPrecondition ''only pending or removed nodes can be purged; drain and remove active Kubernetes nodes first''
     else
     io_bind (removal_guard svc ''node purge blocked'' n) (\<lambda>_.
     io_bind (io_now svc) (\<lambda>now.
     io_bind (internally ''revoke node identity'' (store_tx (RevokeByNodeID (node_ID n) now))) (\<lambda>_.
     io_bind (remove_from_cluster svc n) (\<lambda>_.
     io_bind (case ns_peers svc of None \<Rightarrow> io_ret ()
       | Some sync \<Rightarrow> io_bind (internally ''list WireGuard peers'' (store_read node_List))
           (\<lambda>known. sync_peers sync (filter (\<lambda>k. node_ID k \<noteq> node_ID n) known))) (\<lambda>_.
     io_bind (internally ''delete node agent tokens'' (store_tx (DeleteByNodeID (node_ID n)))) (\<lambda>_.
     io_bind (internally ''delete node join tokens'' (store_tx (DeleteByNodeName (node_Name n)))) (\<lambda>_.
     io_bind (internally ''delete node'' (store_tx (node_Delete (node_ID n)))) (\<lambda>_.
     io_bind (recordEvent svc (node_event ''node.purged'' ''warning'' (''node '' @ node_Name n @ '' was purged'') (node_ID n)
       [(''node_name'', node_Name n)])) (\<lambda>_.
     io_ret (ref, node_Name n))))))))))))"

definition RenameNode :: "'e node_service \<Rightarrow> ctx \<Rightarrow> string \<Rightarrow> string \<Rightarrow> ('e fleet, proto_node) io" where
  "RenameNode svc ctx ref newName0 =
     io_bind (io_of (requireCaller ctx CallerAdmin)) (\<lambda>_.
     io_bind (findNode ref) (\<lambda>n.
     let newName = TrimSpace newName0 in
     if \<not> is_ok (validateNodeName newName) then io_status InvalidArgument ''invalid node name''
     else if node_Name n = newName then nodeWithReadiness svc n
     else if node_Status n \<noteq> ''pending'' \<and> node_Status n \<noteq> ''removed'' then
       io_status FailedPrecondition ''only pending or removed nodes can be renamed; active Kubernetes nodes must be rejoined''
     else
     io_try (store_read (node_FindByName newName)) (\<lambda>found.
     if (case found of Inr x \<Rightarrow> node_ID x \<noteq> node_ID n | Inl _ \<Rightarrow> False) then io_status AlreadyExists ''node already exists''
     else if (case found of Inl e \<Rightarrow> e \<noteq> ErrDb ErrNotFound | Inr _ \<Rightarrow> False) then io_status Internal ''find node''
     else
     io_bind (io_now svc) (\<lambda>now.
     io_bind (internally ''rename node'' (store_tx (Rename (node_ID n) newName now))) (\<lambda>_.
     io_bind (internally ''delete old node join tokens'' (store_tx (DeleteByNodeName (node_Name n)))) (\<lambda>_.
     io_bind (recordEvent svc (node_event ''node.renamed'' ''info'' (''node '' @ node_Name n @ '' was renamed to '' @ newName) (node_ID n)
       [(''old_name'', node_Name n), (''new_name'', newName)])) (\<lambda>_.
     nodeWithReadiness svc (n\<lparr>node_Name := newName, node_UpdatedAt := now\<rparr>))))))))"

text \<open>One pass of the offline monitor over the nodes it listed.\<close>

definition mark_offline :: "'e node_service \<Rightarrow> gotime \<Rightarrow> int \<Rightarrow> node \<Rightarrow> ('e fleet, unit) io" where
  "mark_offline svc now offlineAfter n =
     (if node_Status n \<noteq> ''online'' \<or> (case node_LastSeenAt n of None \<Rightarrow> True | Some seen \<Rightarrow> time_Sub now seen < offlineAfter)
      then io_ret ()
      else io_bind (store_tx (node_UpdateStatus (node_ID n) ''offline'' now)) (\<lambda>_.
        recordEvent svc (node_event ''node.offline'' ''warning'' (''node '' @ node_Name n @ '' is offline'') (node_ID n)
          [(''node_name'', node_Name n)])))"

definition MarkOfflineNodes :: "'e node_service \<Rightarrow> gotime \<Rightarrow> int \<Rightarrow> ('e fleet, unit) io" where
  "MarkOfflineNodes svc now offlineAfter =
     io_bind (store_read node_List) (\<lambda>known. io_each (mark_offline svc now offlineAfter) known)"

end
