(* ===== verification/Secret_Cipher.thy ===== *)
theory Secret_Cipher
  imports Access
begin

text \<open>
  The cipher of \<^verbatim>\<open>internal/security/secrets.go\<close>. AES-GCM is the parameter \<open>aead\<close>, with its documented law
  as the predicate \<open>aead_law\<close>: what was sealed under a nonce is opened again. A ciphertext is the nonce
  and the sealed bytes in the unpadded URL base64 alphabet; decoding and the round trip are proved
  here, so that the encrypted rows of an app can be read back.
\<close>

section \<open>The URL alphabet, decoded\<close>

definition b64url_val :: "char \<Rightarrow> nat option" where
  "b64url_val c = (let n = of_char c :: nat in
     if 65 \<le> n \<and> n \<le> 90 then Some (n - 65) else if 97 \<le> n \<and> n \<le> 122 then Some (n - 71)
     else if 48 \<le> n \<and> n \<le> 57 then Some (n + 4) else if c = CHR ''-'' then Some 62
     else if c = CHR ''_'' then Some 63 else None)"

text \<open>\<^verbatim>\<open>DecodeString\<close>: the bits left over in a last group of two or three digits are ignored.\<close>

fun b64url_groups :: "nat list \<Rightarrow> nat list option" where
  "b64url_groups [] = Some []"
| "b64url_groups [a] = None"
| "b64url_groups [a, b] = Some [a * 4 + b div 16]"
| "b64url_groups [a, b, c] = Some [a * 4 + b div 16, b mod 16 * 16 + c div 4]"
| "b64url_groups (a # b # c # d # r) =
     map_option (\<lambda>t. [a * 4 + b div 16, b mod 16 * 16 + c div 4, c mod 4 * 64 + d] @ t) (b64url_groups r)"

fun b64url_digits :: "string \<Rightarrow> nat list option" where
  "b64url_digits [] = Some []"
| "b64url_digits (c # s) =
     (if c = CHR 0x0A \<or> c = CHR 0x0D then b64url_digits s
      else case b64url_val c of None \<Rightarrow> None | Some n \<Rightarrow> map_option ((#) n) (b64url_digits s))"

definition RawURLDecode :: "string \<Rightarrow> nat list option" where
  "RawURLDecode s = Option.bind (b64url_digits s) b64url_groups"

section \<open>The cipher\<close>

record aead =
  NonceSize :: nat
  Seal :: "nat list \<Rightarrow> nat list \<Rightarrow> nat list"
  Open :: "nat list \<Rightarrow> nat list \<Rightarrow> nat list option"

definition SecretKeyBytes :: nat where
  "SecretKeyBytes = 32"

text \<open>\<open>gcm\<close> builds the cipher from a key; it is given a key of the right length only.\<close>

definition NewSecretCipher :: "(nat list \<Rightarrow> srv_err + aead) \<Rightarrow> nat list \<Rightarrow> srv_err + aead" where
  "NewSecretCipher gcm key =
     (if length key \<noteq> SecretKeyBytes then Inl (ErrText ''secret encryption key must be exactly 32 bytes'') else gcm key)"

text \<open>\<open>nonce\<close> is what \<^verbatim>\<open>rand.Read\<close> delivers for the bytes asked for.\<close>

definition Encrypt :: "aead \<Rightarrow> nat list option \<Rightarrow> string \<Rightarrow> srv_err + string" where
  "Encrypt a nonce plaintext = (case nonce of None \<Rightarrow> Inl (ErrText ''generate secret nonce'')
     | Some n \<Rightarrow> Inr (RawURLEncoding (n @ Seal a n (map of_char plaintext))))"

definition Decrypt :: "aead \<Rightarrow> string \<Rightarrow> srv_err + string" where
  "Decrypt a encoded = (case RawURLDecode encoded of None \<Rightarrow> Inl (ErrText ''invalid secret ciphertext'')
     | Some bs \<Rightarrow>
         if length bs < NonceSize a then Inl (ErrText ''invalid secret ciphertext'')
         else case Open a (take (NonceSize a) bs) (drop (NonceSize a) bs) of
             None \<Rightarrow> Inl (ErrText ''invalid secret ciphertext'')
           | Some p \<Rightarrow> Inr (map char_of p))"

section \<open>Round trips\<close>

definition bytes_ok :: "nat list \<Rightarrow> bool" where
  "bytes_ok bs \<longleftrightarrow> list_all (\<lambda>b. b < 256) bs"

definition aead_law :: "aead \<Rightarrow> bool" where
  "aead_law a \<longleftrightarrow> (\<forall>n p. length n = NonceSize a \<longrightarrow> bytes_ok n \<longrightarrow> bytes_ok p \<longrightarrow>
     Open a n (Seal a n p) = Some p \<and> bytes_ok (Seal a n p))"

lemma b64url_val_char:
  assumes "n < 64"
  shows "b64url_val (b64url_char n) = Some n" and "b64url_char n \<noteq> CHR 0x0A" and "b64url_char n \<noteq> CHR 0x0D"
proof -
  have "n \<in> set [0..<64]" using assms by simp
  then show val: "b64url_val (b64url_char n) = Some n"
    by (simp add: upt_rec b64url_val_def b64url_char_def Let_def) (elim disjE; simp)
  have "b64url_val (CHR 0x0A) = None" "b64url_val (CHR 0x0D) = None" by (simp_all add: b64url_val_def Let_def)
  with val show "b64url_char n \<noteq> CHR 0x0A" "b64url_char n \<noteq> CHR 0x0D" by (metis option.distinct(1))+
qed

lemma digits_char: "n < 64 \<Longrightarrow> b64url_digits (b64url_char n # s) = map_option ((#) n) (b64url_digits s)"
  by (simp add: b64url_val_char)

lemma decode_encode: "bytes_ok bs \<Longrightarrow> RawURLDecode (RawURLEncoding bs) = Some bs"
proof (induction bs rule: RawURLEncoding.induct)
  case (4 a b c r)
  then have "a < 256" "b < 256" "c < 256" and IH: "RawURLDecode (RawURLEncoding r) = Some r" by (auto simp: bytes_ok_def)
  then show ?case
    by (auto simp: RawURLDecode_def digits_char bind_eq_Some_conv simp del: b64url_digits.simps(2))
qed (auto simp: RawURLDecode_def digits_char bytes_ok_def simp del: b64url_digits.simps(2))

theorem Decrypt_Encrypt:
  assumes "aead_law a" and "length n = NonceSize a" and "bytes_ok n" and "Encrypt a (Some n) p = Inr c"
  shows "Decrypt a c = Inr p"
proof -
  have p: "bytes_ok (map of_char p)" by (simp add: bytes_ok_def list_all_iff)
  with assms have s: "Open a n (Seal a n (map of_char p)) = Some (map of_char p)" "bytes_ok (n @ Seal a n (map of_char p))"
    by (simp_all add: aead_law_def) (simp add: bytes_ok_def)
  with assms(2,4) show ?thesis
    by (auto simp: Encrypt_def Decrypt_def decode_encode comp_def)
qed

end
