(* ===== verification/App_Status.thy ===== *)
theory App_Status
  imports Io
begin

text \<open>
  What the server reports of a running app: the warnings and the state computed from the runtime's view
  (\<^verbatim>\<open>runtimeWarnings\<close> and the \<^verbatim>\<open>database...\<close> functions of \<^verbatim>\<open>internal/server/app.go\<close>). A warning is a constructor
  with the values its text prints. The theorem of this theory is the exact policy under which a managed
  database is reported healthy.
\<close>

section \<open>The runtime's view of a database\<close>

record database_status =
  ds_Present :: bool
  ds_Phase :: string
  ds_DesiredInstances :: int
  ds_ReadyInstances :: int
  ds_Primary :: string
  ds_RunningNodes :: "string list"
  ds_RunningInstances :: "string list"
  ds_OwnedByDeployer :: bool
  ds_Image :: string
  ds_BootstrapDatabase :: string
  ds_BootstrapOwner :: string
  ds_DataChecksumsEnabled :: bool
  ds_StorageSize :: string
  ds_StorageClass :: string
  ds_SynchronousMethod :: string
  ds_SynchronousReplicas :: int
  ds_DataDurability :: string
  ds_FailoverQuorumEnabled :: bool
  ds_AntiAffinityType :: string
  ds_TopologyKey :: string
  ds_Architecture :: string
  ds_PasswordEncryption :: string
  ds_RejectsNonTLS :: bool
  ds_RequiresApplicationSCRAM :: bool
  ds_FailoverQuorumPresent :: bool
  ds_FailoverQuorumMethod :: string
  ds_FailoverQuorumStandbyNumber :: int
  ds_FailoverQuorumPrimary :: string
  ds_FailoverQuorumStandbyNames :: "string list"

datatype warning =
    Replicas_unavailable int int | Not_spread | Fallback_unsatisfied
  | External_mode | Db_status_unavailable | Db_status_error string
  | Db_absent | Db_not_ready int int | Db_too_many_ready int int | Db_no_primary | Db_too_few_nodes nat int | Db_too_many_nodes nat int
  | Db_no_phase | Db_phase string
  | Ha_ownership | Ha_image string string | Ha_database string string | Ha_owner string string | Ha_checksums
  | Ha_storage_size string string | Ha_storage_class string string | Ha_instances int int | Ha_sync_method string
  | Ha_sync_replicas int int | Ha_durability string string | Ha_quorum_disabled | Ha_anti_affinity string
  | Ha_topology string | Ha_architecture string string | Ha_password string | Ha_non_tls | Ha_scram
  | Ha_quorum_absent | Ha_quorum_method string | Ha_quorum_number int int | Ha_quorum_no_primary
  | Ha_quorum_primary string string | Ha_quorum_names | Ha_quorum_standbys string string | Ha_quorum_has_primary

definition warn :: "bool \<Rightarrow> warning \<Rightarrow> warning list" where
  "warn b w = (if b then [w] else [])"

section \<open>Helpers\<close>

text \<open>
  \<^verbatim>\<open>strings.EqualFold\<close>. The only characters outside ASCII that fold to an ASCII letter are the long s
  and the Kelvin sign; one side of every comparison is ASCII in a validated configuration.
\<close>

definition EqualFold :: "string \<Rightarrow> string \<Rightarrow> bool" where
  "EqualFold s t \<longleftrightarrow> fold_name s = fold_name t"

definition postgresStorageQuantitiesEqual :: "k8s_lib \<Rightarrow> string \<Rightarrow> string \<Rightarrow> bool" where
  "postgresStorageQuantitiesEqual lib actual desired = (case ParseQuantity lib (TrimSpace actual) of None \<Rightarrow> False
     | Some a \<Rightarrow> (case ParseQuantity lib (TrimSpace desired) of None \<Rightarrow> False | Some d \<Rightarrow> a = d))"

definition postgresArchitecture :: "string \<Rightarrow> string" where
  "postgresArchitecture placement = (let p = TrimSpace placement
     in if CHR ''/'' \<in> set p then rev (takeWhile (\<lambda>c. c \<noteq> CHR ''/'') (rev p)) else p)"

text \<open>A \<^verbatim>\<open>map[string]struct{}\<close> is the set of its keys.\<close>

definition uniqueNonEmptyStrings :: "string list \<Rightarrow> string set" where
  "uniqueNonEmptyStrings values = set (filter (\<lambda>v. v \<noteq> []) (map TrimSpace values))"

definition equalStringSets :: "string set \<Rightarrow> string set \<Rightarrow> bool" where
  "equalStringSets left right \<longleftrightarrow> card left = card right \<and> (\<forall>v \<in> left. v \<in> right)"

fun join_comma :: "string list \<Rightarrow> string" where
  "join_comma [] = []"
| "join_comma [s] = s"
| "join_comma (s # t) = s @ '', '' @ join_comma t"

definition formatStringSet :: "string set \<Rightarrow> string" where
  "formatStringSet values = join_comma (sorted_list_of_set values)"

section \<open>Warnings\<close>

definition runtimeWarnings :: "config \<Rightarrow> string \<Rightarrow> int \<Rightarrow> int \<Rightarrow> string list \<Rightarrow> warning list" where
  "runtimeWarnings cfg state desired available runningNodes =
     warn (desired > available) (Replicas_unavailable available desired)
     @ warn (resilience_Mode (cfg_Resilience cfg) = ''resilient'' \<and> desired \<ge> 2 \<and> length runningNodes < 2) Not_spread
     @ warn (resilience_Mode (cfg_Resilience cfg) = ''fallback'' \<and> state \<noteq> ''healthy'') Fallback_unsatisfied"

definition healthyPhase :: string where
  "healthyPhase = ''Cluster in healthy state''"

definition databaseRuntimeState :: "database_status \<Rightarrow> int \<Rightarrow> string" where
  "databaseRuntimeState s desired =
     (if \<not> ds_Present s then ''missing''
      else if desired > 0 \<and> ds_ReadyInstances s = desired \<and> TrimSpace (ds_Primary s) \<noteq> []
              \<and> EqualFold (TrimSpace (ds_Phase s)) healthyPhase
              \<and> (desired > 0 \<and> to_int32 (int (length (ds_RunningNodes s))) = desired) then ''healthy''
      else if ds_ReadyInstances s > 0 then ''degraded''
      else ''not_ready'')"

definition databaseReportedState :: "database_status \<Rightarrow> int \<Rightarrow> warning list \<Rightarrow> string" where
  "databaseReportedState s desired haWarnings =
     (if ds_Present s \<and> length haWarnings > 0 then ''degraded'' else databaseRuntimeState s desired)"

definition databaseRuntimeWarnings :: "database_status \<Rightarrow> int \<Rightarrow> warning list" where
  "databaseRuntimeWarnings s desired =
     (if \<not> ds_Present s then [Db_absent]
      else
        (if ds_ReadyInstances s < desired then [Db_not_ready (ds_ReadyInstances s) desired]
         else if ds_ReadyInstances s > desired then [Db_too_many_ready (ds_ReadyInstances s) desired] else [])
        @ warn (TrimSpace (ds_Primary s) = []) Db_no_primary
        @ (let n = length (ds_RunningNodes s) in
           if desired > 0 \<and> to_int32 (int n) < desired then [Db_too_few_nodes n desired]
           else if desired > 0 \<and> to_int32 (int n) > desired then [Db_too_many_nodes n desired] else [])
        @ (let phase = TrimSpace (ds_Phase s) in
           if phase = [] then [Db_no_phase]
           else if \<not> EqualFold phase healthyPhase then [Db_phase phase] else []))"

text \<open>The checks of the cluster's specification.\<close>

definition specWarnings :: "k8s_lib \<Rightarrow> config \<Rightarrow> postgres_config \<Rightarrow> database_status \<Rightarrow> int \<Rightarrow> warning list" where
  "specWarnings lib cfg p s desired =
     warn (\<not> ds_OwnedByDeployer s) Ha_ownership
     @ warn (TrimSpace (ds_Image s) \<noteq> TrimSpace (pg_Image p)) (Ha_image (ds_Image s) (pg_Image p))
     @ warn (ds_BootstrapDatabase s \<noteq> pg_Database p) (Ha_database (ds_BootstrapDatabase s) (pg_Database p))
     @ warn (ds_BootstrapOwner s \<noteq> pg_Owner p) (Ha_owner (ds_BootstrapOwner s) (pg_Owner p))
     @ warn (\<not> ds_DataChecksumsEnabled s) Ha_checksums
     @ warn (\<not> postgresStorageQuantitiesEqual lib (ds_StorageSize s) (pgs_Size (pg_Storage p)))
         (Ha_storage_size (ds_StorageSize s) (pgs_Size (pg_Storage p)))
     @ warn (TrimSpace (ds_StorageClass s) \<noteq> TrimSpace (pgs_StorageClass (pg_Storage p)))
         (Ha_storage_class (ds_StorageClass s) (pgs_StorageClass (pg_Storage p)))
     @ warn (ds_DesiredInstances s \<noteq> desired) (Ha_instances (ds_DesiredInstances s) desired)
     @ warn (\<not> EqualFold (TrimSpace (ds_SynchronousMethod s)) ''any'') (Ha_sync_method (ds_SynchronousMethod s))
     @ warn (ds_SynchronousReplicas s \<noteq> to_int32 (pgy_Replicas (pg_Synchronous p)))
         (Ha_sync_replicas (ds_SynchronousReplicas s) (to_int32 (pgy_Replicas (pg_Synchronous p))))
     @ warn (\<not> EqualFold (TrimSpace (ds_DataDurability s)) (TrimSpace (pgy_DataDurability (pg_Synchronous p))))
         (Ha_durability (ds_DataDurability s) (pgy_DataDurability (pg_Synchronous p)))
     @ warn (\<not> ds_FailoverQuorumEnabled s) Ha_quorum_disabled
     @ warn (\<not> EqualFold (TrimSpace (ds_AntiAffinityType s)) ''required'') (Ha_anti_affinity (ds_AntiAffinityType s))
     @ warn (TrimSpace (ds_TopologyKey s) \<noteq> ''kubernetes.io/hostname'') (Ha_topology (ds_TopologyKey s))
     @ (let arch = postgresArchitecture (placement_Arch (cfg_Placement cfg)) in
        warn (\<not> EqualFold (TrimSpace (ds_Architecture s)) arch) (Ha_architecture (ds_Architecture s) arch))
     @ warn (\<not> EqualFold (TrimSpace (ds_PasswordEncryption s)) ''scram-sha-256'') (Ha_password (ds_PasswordEncryption s))
     @ warn (\<not> ds_RejectsNonTLS s) Ha_non_tls
     @ warn (\<not> ds_RequiresApplicationSCRAM s) Ha_scram"

text \<open>The running instances that are not the primary.\<close>

definition expectedStandbyNames :: "database_status \<Rightarrow> string set" where
  "expectedStandbyNames s = set (filter (\<lambda>v. v \<noteq> [] \<and> v \<noteq> ds_Primary s) (map TrimSpace (ds_RunningInstances s)))"

text \<open>The checks of the failover quorum's status object, made only when there is one.\<close>

definition quorumWarnings :: "postgres_config \<Rightarrow> database_status \<Rightarrow> warning list" where
  "quorumWarnings p s =
     (let replicas = to_int32 (pgy_Replicas (pg_Synchronous p));
          standbys = uniqueNonEmptyStrings (ds_FailoverQuorumStandbyNames s);
          expected = expectedStandbyNames s
      in warn (\<not> EqualFold (TrimSpace (ds_FailoverQuorumMethod s)) ''any'') (Ha_quorum_method (ds_FailoverQuorumMethod s))
         @ warn (ds_FailoverQuorumStandbyNumber s \<noteq> replicas) (Ha_quorum_number (ds_FailoverQuorumStandbyNumber s) replicas)
         @ (if TrimSpace (ds_FailoverQuorumPrimary s) = [] then [Ha_quorum_no_primary]
            else warn (ds_FailoverQuorumPrimary s \<noteq> ds_Primary s) (Ha_quorum_primary (ds_FailoverQuorumPrimary s) (ds_Primary s)))
         @ warn (card standbys \<noteq> length (ds_FailoverQuorumStandbyNames s)) Ha_quorum_names
         @ warn (\<not> equalStringSets standbys expected) (Ha_quorum_standbys (formatStringSet standbys) (formatStringSet expected))
         @ warn (TrimSpace (ds_Primary s) \<noteq> [] \<and> ds_Primary s \<in> standbys) Ha_quorum_has_primary)"

definition databaseHAPolicyWarnings :: "k8s_lib \<Rightarrow> config \<Rightarrow> database_status \<Rightarrow> int \<Rightarrow> warning list" where
  "databaseHAPolicyWarnings lib cfg s desired =
     (if \<not> ds_Present s then []
      else case database_Postgres (cfg_Database cfg) of None \<Rightarrow> []
        | Some p \<Rightarrow>
            let warnings = specWarnings lib cfg p s desired
            in if \<not> ds_FailoverQuorumPresent s then warnings @ [Ha_quorum_absent] else warnings @ quorumWarnings p s)"

section \<open>The policy\<close>

text \<open>The specification of a managed cluster that the configuration asks for.\<close>

definition spec_met :: "k8s_lib \<Rightarrow> config \<Rightarrow> postgres_config \<Rightarrow> database_status \<Rightarrow> int \<Rightarrow> bool" where
  "spec_met lib cfg p s desired \<longleftrightarrow>
     ds_OwnedByDeployer s \<and> TrimSpace (ds_Image s) = TrimSpace (pg_Image p) \<and>
     ds_BootstrapDatabase s = pg_Database p \<and> ds_BootstrapOwner s = pg_Owner p \<and> ds_DataChecksumsEnabled s \<and>
     (\<exists>q. ParseQuantity lib (TrimSpace (ds_StorageSize s)) = Some q \<and>
          ParseQuantity lib (TrimSpace (pgs_Size (pg_Storage p))) = Some q) \<and>
     TrimSpace (ds_StorageClass s) = TrimSpace (pgs_StorageClass (pg_Storage p)) \<and>
     ds_DesiredInstances s = desired \<and> EqualFold (TrimSpace (ds_SynchronousMethod s)) ''any'' \<and>
     ds_SynchronousReplicas s = to_int32 (pgy_Replicas (pg_Synchronous p)) \<and>
     EqualFold (TrimSpace (ds_DataDurability s)) (TrimSpace (pgy_DataDurability (pg_Synchronous p))) \<and>
     ds_FailoverQuorumEnabled s \<and> EqualFold (TrimSpace (ds_AntiAffinityType s)) ''required'' \<and>
     TrimSpace (ds_TopologyKey s) = ''kubernetes.io/hostname'' \<and>
     EqualFold (TrimSpace (ds_Architecture s)) (postgresArchitecture (placement_Arch (cfg_Placement cfg))) \<and>
     EqualFold (TrimSpace (ds_PasswordEncryption s)) ''scram-sha-256'' \<and> ds_RejectsNonTLS s \<and> ds_RequiresApplicationSCRAM s"

text \<open>
  A quorum that agrees with the cluster: it names the current primary, and its standbys, listed once
  each, are exactly the other running instances.
\<close>

definition quorum_met :: "postgres_config \<Rightarrow> database_status \<Rightarrow> bool" where
  "quorum_met p s \<longleftrightarrow> ds_FailoverQuorumPresent s \<and> EqualFold (TrimSpace (ds_FailoverQuorumMethod s)) ''any'' \<and>
     ds_FailoverQuorumStandbyNumber s = to_int32 (pgy_Replicas (pg_Synchronous p)) \<and>
     TrimSpace (ds_Primary s) \<noteq> [] \<and> ds_FailoverQuorumPrimary s = ds_Primary s \<and>
     distinct (map TrimSpace (ds_FailoverQuorumStandbyNames s)) \<and> [] \<notin> TrimSpace ` set (ds_FailoverQuorumStandbyNames s) \<and>
     TrimSpace ` set (ds_FailoverQuorumStandbyNames s) = TrimSpace ` set (ds_RunningInstances s) - {[], ds_Primary s}"

lemma warn_Nil [simp]: "warn b w = [] \<longleftrightarrow> \<not> b"
  by (simp add: warn_def)

lemma specWarnings_Nil: "specWarnings lib cfg p s desired = [] \<longleftrightarrow> spec_met lib cfg p s desired"
  by (auto simp: specWarnings_def spec_met_def postgresStorageQuantitiesEqual_def Let_def split: option.splits)

lemma unique_count:
  "card (uniqueNonEmptyStrings vs) = length vs \<longleftrightarrow> distinct (map TrimSpace vs) \<and> [] \<notin> TrimSpace ` set vs"
proof -
  let ?f = "filter (\<lambda>v. v \<noteq> []) (map TrimSpace vs)"
  have "card (set ?f) \<le> length ?f" by (rule card_length)
  moreover have "length ?f \<le> length vs" using length_filter_le [of _ "map TrimSpace vs"] by simp
  ultimately have "card (set ?f) = length vs \<longleftrightarrow> card (set ?f) = length ?f \<and> length ?f = length (map TrimSpace vs)"
    unfolding length_map by presburger
  also have "\<dots> \<longleftrightarrow> distinct ?f \<and> ?f = map TrimSpace vs"
    by (metis card_distinct distinct_card filter_True length_filter_less less_irrefl)
  also have "\<dots> \<longleftrightarrow> distinct (map TrimSpace vs) \<and> [] \<notin> set (map TrimSpace vs)"
    using filter_id_conv [of "\<lambda>v. v \<noteq> []" "map TrimSpace vs"] by metis
  finally show ?thesis by (simp add: uniqueNonEmptyStrings_def)
qed

lemma equalStringSets_iff: "finite left \<Longrightarrow> finite right \<Longrightarrow> equalStringSets left right \<longleftrightarrow> left = right"
  by (auto simp: equalStringSets_def) (metis card_subset_eq subsetI)+

lemma quorumWarnings_Nil:
  "ds_FailoverQuorumPresent s \<Longrightarrow> TrimSpace (ds_Primary s) \<noteq> [] \<Longrightarrow> quorumWarnings p s = [] \<longleftrightarrow> quorum_met p s"
proof -
  assume present: "ds_FailoverQuorumPresent s" and primary: "TrimSpace (ds_Primary s) \<noteq> []"
  have names: "uniqueNonEmptyStrings vs = TrimSpace ` set vs - {[]}" for vs
    by (auto simp: uniqueNonEmptyStrings_def)
  have expected: "expectedStandbyNames s = TrimSpace ` set (ds_RunningInstances s) - {[], ds_Primary s}"
    by (auto simp: expectedStandbyNames_def)
  have sets: "equalStringSets (uniqueNonEmptyStrings (ds_FailoverQuorumStandbyNames s)) (expectedStandbyNames s) \<longleftrightarrow>
      uniqueNonEmptyStrings (ds_FailoverQuorumStandbyNames s) = expectedStandbyNames s"
    by (rule equalStringSets_iff) (simp_all add: uniqueNonEmptyStrings_def expectedStandbyNames_def)
  let ?N = "TrimSpace ` set (ds_FailoverQuorumStandbyNames s)"
    and ?E = "TrimSpace ` set (ds_RunningInstances s) - {[], ds_Primary s}"
  have diff: "[] \<notin> ?N \<Longrightarrow> ?N - {[]} = ?N" and none: "?N = ?E \<Longrightarrow> ds_Primary s \<notin> ?N" by blast+
  have named: "(if TrimSpace (ds_FailoverQuorumPrimary s) = [] then [w] else warn (ds_FailoverQuorumPrimary s \<noteq> ds_Primary s) v) = [] \<longleftrightarrow>
      ds_FailoverQuorumPrimary s = ds_Primary s" for w v
    using primary by auto
  have "quorumWarnings p s = [] \<longleftrightarrow> EqualFold (TrimSpace (ds_FailoverQuorumMethod s)) ''any'' \<and>
      ds_FailoverQuorumStandbyNumber s = to_int32 (pgy_Replicas (pg_Synchronous p)) \<and>
      ds_FailoverQuorumPrimary s = ds_Primary s \<and>
      (distinct (map TrimSpace (ds_FailoverQuorumStandbyNames s)) \<and> [] \<notin> ?N) \<and> ?N - {[]} = ?E \<and> ds_Primary s \<notin> ?N - {[]}"
    by (simp only: quorumWarnings_def Let_def append_is_Nil_conv warn_Nil sets unique_count not_not named
        primary simp_thms) (simp only: names expected)
  also have "\<dots> \<longleftrightarrow> quorum_met p s"
    unfolding quorum_met_def using present primary diff none by metis
  finally show ?thesis .
qed

theorem databaseReportedState_healthy:
  assumes "database_Postgres (cfg_Database cfg) = Some p"
  shows "databaseReportedState s desired (databaseHAPolicyWarnings lib cfg s desired) = ''healthy'' \<longleftrightarrow>
     ds_Present s \<and> desired > 0 \<and> ds_ReadyInstances s = desired \<and> EqualFold (TrimSpace (ds_Phase s)) healthyPhase \<and>
     to_int32 (int (length (ds_RunningNodes s))) = desired \<and> spec_met lib cfg p s desired \<and> quorum_met p s"
proof (cases "ds_Present s \<and> TrimSpace (ds_Primary s) \<noteq> []")
  case True
  then show ?thesis
    using assms quorumWarnings_Nil [of s p] specWarnings_Nil [of lib cfg p s desired]
    by (auto simp: databaseReportedState_def databaseRuntimeState_def databaseHAPolicyWarnings_def Let_def quorum_met_def)
next
  case False
  then show ?thesis
    by (auto simp: databaseReportedState_def databaseRuntimeState_def quorum_met_def)
qed

end
