(* ===== verification/App_World.thy ===== *)
theory App_World
  imports Candidate_World Vault Node_Service Secret_Cipher App_Status
begin

text \<open>
  The world of the app service: the journal database of \<open>Candidate_World\<close>, with the encrypted tables and
  the event table beside it, and everything outside the process. The service is a record of what
  \<^verbatim>\<open>NewAppService\<close> is given; the repositories are always configured (\<^verbatim>\<open>RunServer\<close> passes all of them), the
  runtime, the cipher and the event recorder may be missing. A Go type assertion on the runtime is a
  method that is present or not. The locales at the end state what a preorder on worlds has to satisfy
  for every handler to keep it.
\<close>

section \<open>The environment\<close>

record 'e app_env =
  x_vault :: vault
  x_store :: store
  x_out :: 'e

type_synonym ('e, 'p) app_world = "('e app_env, 'p) world"

definition out_io :: "('e, 'a) io \<Rightarrow> ('e app_env, 'a) io" where
  "out_io m k = (case m (x_out k) of (r, e) \<Rightarrow> (r, k\<lparr>x_out := e\<rparr>))"

definition silent :: "('e, 'a) io \<Rightarrow> (('e, 'p) app_world, 'a) io" where
  "silent m s = (case out_io m (w_env s) of (r, k) \<Rightarrow> (r, s\<lparr>w_env := k\<rparr>))"

definition rcall :: "'p call \<Rightarrow> ('e, 'a) io \<Rightarrow> (('e, 'p) app_world, 'a) io" where
  "rcall c m = call_io c (out_io m)"

definition in_vault :: "'a vtx \<Rightarrow> (('e, 'p) app_world, 'a) io" where
  "in_vault f s = (case f (x_vault (w_env s)) of Inl e \<Rightarrow> (Inl (ErrDb e), s)
     | Inr (x, v) \<Rightarrow> (Inr x, s\<lparr>w_env := (w_env s)\<lparr>x_vault := v\<rparr>\<rparr>))"

definition of_vault :: "(vault \<Rightarrow> db_err + 'a) \<Rightarrow> (('e, 'p) app_world, 'a) io" where
  "of_vault f s = (case f (x_vault (w_env s)) of Inl e \<Rightarrow> (Inl (ErrDb e), s) | Inr x \<Rightarrow> (Inr x, s))"

definition in_events :: "(store \<Rightarrow> srv_err + (unit \<times> store)) \<Rightarrow> (('e, 'p) app_world, unit) io" where
  "in_events f s = (case f (x_store (w_env s)) of Inl _ \<Rightarrow> (Inr (), s)
     | Inr (_, d) \<Rightarrow> (Inr (), s\<lparr>w_env := (w_env s)\<lparr>x_store := d\<rparr>\<rparr>))"

text \<open>A transaction of the journal database that does not read the environment.\<close>

abbreviation db_tx :: "'a tx \<Rightarrow> (('e, 'p) app_world, 'a) io" where
  "db_tx f \<equiv> tx_io (\<lambda>_. f)"

text \<open>
  \<^verbatim>\<open>x, err := m; if errors.Is(err, db.ErrNotFound) { missing } else if err != nil { broken }\<close>, then \<open>f x\<close>.
\<close>

definition io_found :: "('s, 'a) io \<Rightarrow> ('s, 'b) io \<Rightarrow> ('s, 'b) io \<Rightarrow> ('a \<Rightarrow> ('s, 'b) io) \<Rightarrow> ('s, 'b) io" where
  "io_found m missing broken f = io_try m (\<lambda>r. case r of Inr x \<Rightarrow> f x
     | Inl e \<Rightarrow> if e = ErrDb ErrNotFound then missing else broken)"

text \<open>A call whose error only decides between two continuations.\<close>

definition io_ok_or :: "('s, 'a) io \<Rightarrow> ('s, 'b) io \<Rightarrow> ('a \<Rightarrow> ('s, 'b) io) \<Rightarrow> ('s, 'b) io" where
  "io_ok_or m failed f = io_try m (\<lambda>r. case r of Inl _ \<Rightarrow> failed | Inr x \<Rightarrow> f x)"

fun io_each :: "('a \<Rightarrow> ('s, unit) io) \<Rightarrow> 'a list \<Rightarrow> ('s, unit) io" where
  "io_each f [] = io_ret ()"
| "io_each f (x # xs) = io_bind (f x) (\<lambda>_. io_each f xs)"

section \<open>Errors of the runtime\<close>

text \<open>\<^verbatim>\<open>errors.Is\<close> looks through wrapped and joined errors.\<close>

fun rt_is :: "rt_err \<Rightarrow> rt_err \<Rightarrow> bool" where
  "rt_is t (RtWrapped e) = rt_is t e"
| "rt_is t (RtJoined es) \<longleftrightarrow> (\<exists>e \<in> set es. rt_is t e)"
| "rt_is t e \<longleftrightarrow> e = t"

definition isNotReady :: "srv_err \<Rightarrow> bool" where
  "isNotReady e = (case e of ErrRt r \<Rightarrow> rt_is RtNotReady r | _ \<Rightarrow> False)"

text \<open>\<^verbatim>\<open>errors.As\<close> for an API status: the first one, depth first.\<close>

fun rt_codes :: "rt_err \<Rightarrow> int list" where
  "rt_codes RtNotFound = [404]"
| "rt_codes (RtStatus c) = [c]"
| "rt_codes (RtWrapped e) = rt_codes e"
| "rt_codes (RtJoined es) = concat (map rt_codes es)"
| "rt_codes e = []"

definition IsNotFound :: "srv_err \<Rightarrow> bool" where
  "IsNotFound e = (case e of ErrRt r \<Rightarrow> (case rt_codes r of [] \<Rightarrow> False | c # _ \<Rightarrow> c = 404) | _ \<Rightarrow> False)"

text \<open>
  The loop of \<^verbatim>\<open>definitiveRuntimeRejection\<close>: an explicit API rejection, under at most fifteen wrappers
  and under no joined error.
\<close>

fun rejection :: "nat \<Rightarrow> rt_err \<Rightarrow> bool" where
  "rejection 0 e = False"
| "rejection (Suc d) (RtJoined es) = False"
| "rejection (Suc d) RtNotFound = True"
| "rejection (Suc d) (RtStatus c) \<longleftrightarrow> 400 \<le> c \<and> c < 500 \<and> c \<noteq> 408"
| "rejection (Suc d) (RtWrapped e) = rejection d e"
| "rejection (Suc d) e = False"

definition definitiveRuntimeRejection :: "srv_err \<Rightarrow> bool" where
  "definitiveRuntimeRejection e = (case e of ErrRt r \<Rightarrow> rejection 16 r | _ \<Rightarrow> False)"

section \<open>The service\<close>

record ('e, 'p) app_runtime =
  ar_Reconcile :: "config \<Rightarrow> gomap \<Rightarrow> string \<Rightarrow> ('e, unit) io"
  ar_Delete :: "string \<Rightarrow> ('e, unit) io"
  ar_Status :: "string \<Rightarrow> ('e, string) io"
  ar_PreflightHosting :: "(config \<Rightarrow> ('e, unit) io) option"
  ar_ReconcileWithRegistry :: "(config \<Rightarrow> gomap \<Rightarrow> string \<Rightarrow> credential \<Rightarrow> ('e, unit) io) option"
  ar_StatusDetails :: "(string \<Rightarrow> ('e, string \<times> int \<times> int) io) option"
  ar_RuntimeStatus :: "(string \<Rightarrow> ('e, string \<times> int \<times> int \<times> string list) io) option"
  ar_DatabaseStatus :: "(string \<Rightarrow> ('e, database_status) io) option"
  ar_StreamLogs :: "(string \<Rightarrow> int \<Rightarrow> bool \<Rightarrow> ('e, unit) io) option"
  ar_CheckCandidateDeletion :: "(string \<Rightarrow> ('e, unit) io) option"
  ar_CandidateRequest :: "('e, 'p) runtime option"
  ar_PrepareCandidateDependencies :: "(config \<Rightarrow> gomap \<Rightarrow> string \<Rightarrow> string \<Rightarrow> credential option \<Rightarrow> ('e, string) io) option"
  ar_CreateInactiveCandidateService :: "(config \<Rightarrow> string \<Rightarrow> ('e, unit) io) option"
  ar_EnsureCandidateRecoveryNamespace :: "('e, unit) io option"
  ar_InitialCandidateRequest :: "(gate \<Rightarrow> ('e, string) io) option"
  ar_ResetInactiveCandidateService :: "(gate \<Rightarrow> config \<Rightarrow> string \<Rightarrow> string \<Rightarrow> ('e, gate \<times> 'p target) io) option"
  ar_BeginCandidateDeletion :: "(config \<Rightarrow> string \<Rightarrow> bool \<Rightarrow> ('e, gate) io) option"
  ar_CleanupCandidateDeletion :: "(gate \<Rightarrow> string \<Rightarrow> ('e, bool) io) option"
  ar_FinishCandidateDeletion :: "(gate \<Rightarrow> string \<Rightarrow> ('e, unit) io) option"
  ar_RetireLegacyCandidatePredecessor :: "(gate \<Rightarrow> ('e, bool) io) option"

text \<open>
  \<open>as_acquire\<close> waits for the app's mutation lock and fails when the context ends first (\<open>App_Locks\<close> is
  the lock itself); \<open>as_cancelled\<close> is what \<^verbatim>\<open>ctx.Err()\<close> reports; \<open>as_errtext\<close> and \<open>as_cfgtext\<close> are the texts
  of errors. \<open>as_events\<close>: no recorder, or one that has a repository or not.
\<close>

record ('e, 'p) app_service =
  as_libs :: "'p libs"
  as_yaml :: "string \<Rightarrow> config option"
  as_enableCandidateOperations :: bool
  as_runtime :: "('e, 'p) app_runtime option"
  as_cipher :: "aead option"
  as_routeTLSEnabled :: bool
  as_events :: "bool option"
  as_now :: "'e \<Rightarrow> gotime"
  as_random :: "nat \<Rightarrow> 'e \<Rightarrow> nat list option \<times> 'e"
  as_acquire :: "string \<Rightarrow> ('e, unit) io"
  as_cancelled :: "'e \<Rightarrow> bool"
  as_errtext :: "srv_err \<Rightarrow> string"
  as_cfgtext :: "cfg_err \<Rightarrow> string"

abbreviation as_k8s :: "('e, 'p) app_service \<Rightarrow> k8s_lib" where
  "as_k8s svc \<equiv> lib_k8s (as_libs svc)"

abbreviation as_sha256 :: "('e, 'p) app_service \<Rightarrow> string \<Rightarrow> nat list" where
  "as_sha256 svc \<equiv> lib_sha256 (as_libs svc)"

definition clock :: "('e, 'p) app_service \<Rightarrow> (('e, 'p) app_world, gotime) io" where
  "clock svc = silent (\<lambda>e. (Inr (as_now svc e), e))"

definition random :: "('e, 'p) app_service \<Rightarrow> nat \<Rightarrow> (('e, 'p) app_world, nat list option) io" where
  "random svc n = silent (\<lambda>e. case as_random svc n e of (r, e') \<Rightarrow> (Inr r, e'))"

definition cancelled :: "('e, 'p) app_service \<Rightarrow> (('e, 'p) app_world, bool) io" where
  "cancelled svc = silent (\<lambda>e. (Inr (as_cancelled svc e), e))"

definition acquireOperation :: "('e, 'p) app_service \<Rightarrow> string \<Rightarrow> (('e, 'p) app_world, unit) io" where
  "acquireOperation svc app = silent (as_acquire svc app)"

definition fresh_id :: "('e, 'p) app_service \<Rightarrow> string \<Rightarrow> (('e, 'p) app_world, string) io" where
  "fresh_id svc pfx = io_bind (random svc 16) (\<lambda>raw. io_of (newID raw pfx))"

definition encrypt :: "('e, 'p) app_service \<Rightarrow> aead \<Rightarrow> string \<Rightarrow> (('e, 'p) app_world, string) io" where
  "encrypt svc a plaintext = io_bind (random svc (NonceSize a)) (\<lambda>nonce. io_of (Encrypt a nonce plaintext))"

text \<open>The candidate runtime, its effects made on the outer part of the environment.\<close>

definition lift_runtime :: "('e, 'p) runtime \<Rightarrow> ('e app_env, 'p) runtime" where
  "lift_runtime rt = \<lparr>CaptureActivationGate = (\<lambda>a. out_io (CaptureActivationGate rt a)),
     FenceActivationGate = (\<lambda>g r. out_io (FenceActivationGate rt g r)),
     ReplaceActivationTarget = (\<lambda>g t. out_io (ReplaceActivationTarget rt g t)),
     PrepareCandidateDeployment = (\<lambda>cfg i r p. out_io (PrepareCandidateDeployment rt cfg i r p)),
     ActivatePreparedCandidate = (\<lambda>g cfg i r p. out_io (ActivatePreparedCandidate rt g cfg i r p)),
     RetireCandidateDeployment = (\<lambda>cfg i r p. out_io (RetireCandidateDeployment rt cfg i r p)),
     CandidateRetired = (\<lambda>cfg i r p. out_io (CandidateRetired rt cfg i r p)),
     RestoredCandidateTargetReady = (\<lambda>g t cfg. out_io (RestoredCandidateTargetReady rt g t cfg)),
     ReconcileCandidateRoute = (\<lambda>g t cfg. out_io (ReconcileCandidateRoute rt g t cfg))\<rparr>"

abbreviation on_world :: "('e, 'p) runtime \<Rightarrow> (('e, 'p) app_world, 'p) runtime" where
  "on_world rt \<equiv> observed (lift_runtime rt)"

definition app_checkpoints :: "('e, 'p) app_service \<Rightarrow> (('e, 'p) app_world) checkpoint_repo" where
  "app_checkpoints svc = db_checkpoints (\<lambda>k. as_now svc (x_out k))"

section \<open>Events\<close>

text \<open>\<^verbatim>\<open>metadataJSON\<close> of a map whose values need not be strings.\<close>

definition metadata_text :: "(string \<times> json) list \<Rightarrow> string" where
  "metadata_text m = print_json (JObj (sort_key fst m))"

definition app_recordEvent :: "('e, 'p) app_service \<Rightarrow> event \<Rightarrow> (('e, 'p) app_world, unit) io" where
  "app_recordEvent svc e = (case as_events svc of None \<Rightarrow> io_ret ()
     | Some configured \<Rightarrow>
         io_bind (if is_ok (validateEvent e) \<and> ev_ID e = [] then random svc 16 else io_ret None) (\<lambda>raw.
         io_bind (clock svc) (\<lambda>now. in_events (Record configured raw now e))))"

definition app_event :: "string \<Rightarrow> string \<Rightarrow> string \<Rightarrow> string \<Rightarrow> string \<Rightarrow> (string \<times> json) list \<Rightarrow> event" where
  "app_event ty sev msg appID depID meta = \<lparr>ev_ID = [], ev_CreatedAt = zero_time, ev_Type = ty, ev_Severity = sev, ev_Message = msg,
     ev_AppID = appID, ev_NodeID = [], ev_DeploymentID = depID, ev_MetadataJSON = metadata_text meta\<rparr>"

end
