(* ===== verification/App_Secrets.thy ===== *)
theory App_Secrets
  imports App_World
begin

text \<open>
  Encrypted application data as the server uses it: \<^verbatim>\<open>internal/server/secret.go\<close>,
  \<^verbatim>\<open>internal/server/environment.go\<close> and \<^verbatim>\<open>internal/server/registry_credentials.go\<close>, with the helpers of
  \<^verbatim>\<open>app.go\<close> they call. \<open>io_status\<close> is \<^verbatim>\<open>return nil, status.Error(code, text)\<close>.
\<close>

section \<open>Environment bundles\<close>

definition validEnvironmentRevision :: "string \<Rightarrow> bool" where
  "validEnvironmentRevision s \<longleftrightarrow> length s = 64 \<and> list_all is_hex s"

fun valid_values :: "nat \<Rightarrow> gomap \<Rightarrow> bool" where
  "valid_values used [] = True"
| "valid_values used ((name, v) # m) =
     (if \<not> is_ok (ValidateSecretName name) \<or> length name > 128 \<or> \<not> utf8_ValidString v \<or> CHR 0x00 \<in> set v \<or> length v > 8192
      then False
      else let used = used + (length name + length v) in if used > 32768 then False else valid_values used m)"

definition validEnvironmentValues :: "gomap \<Rightarrow> bool" where
  "validEnvironmentValues values = (if length values > 64 then False else valid_values 0 values)"

record env_payload =
  env_Purpose :: string
  env_AppName :: string
  env_Revision :: string
  env_Values :: gomap

definition env_JSON :: "env_payload \<Rightarrow> string" where
  "env_JSON p = print_json (JObj [(''Purpose'', JStr (env_Purpose p)), (''AppName'', JStr (env_AppName p)),
     (''Revision'', JStr (env_Revision p)), (''Values'', enc_map (env_Values p))])"

definition env_fields :: "env_payload fields" where
  "env_fields = [fld ''Purpose'' dec_string env_Purpose env_Purpose_update, fld ''AppName'' dec_string env_AppName env_AppName_update,
     fld ''Revision'' dec_string env_Revision env_Revision_update, fld ''Values'' dec_map env_Values env_Values_update]"

definition read_env :: "string \<Rightarrow> env_payload option" where
  "read_env s = Option.bind (json_parse s) (\<lambda>j. dec_struct env_fields j \<lparr>env_Purpose = [], env_AppName = [], env_Revision = [], env_Values = []\<rparr>)"

record env_metadata =
  em_AppName :: string
  em_Revision :: string
  em_Names :: "string list"
  em_CreatedAt :: string

definition environmentMetadata :: "string \<Rightarrow> string \<Rightarrow> gomap \<Rightarrow> gotime \<Rightarrow> env_metadata" where
  "environmentMetadata app revision values created =
     \<lparr>em_AppName = app, em_Revision = revision, em_Names = sort (map fst values), em_CreatedAt = formatTime created\<rparr>"

definition sameEnvironment :: "aead \<Rightarrow> environment_bundle \<Rightarrow> string \<Rightarrow> gomap \<Rightarrow> srv_err + env_metadata" where
  "sameEnvironment a row payload values = (case Decrypt a (eb_Ciphertext row) of
     Inl _ \<Rightarrow> Inl (ErrStatus Internal ''read environment bundle'')
   | Inr plain \<Rightarrow>
       if plain \<noteq> payload then Inl (ErrStatus AlreadyExists ''environment revision is immutable; use a new revision'')
       else Inr (environmentMetadata (eb_AppName row) (eb_Revision row) values (eb_CreatedAt row)))"

record create_bundle_request =
  cbr_AppName :: string
  cbr_Revision :: string
  cbr_Values :: gomap

text \<open>The part of \<^verbatim>\<open>CreateEnvironmentBundle\<close> for a revision that is not stored yet.\<close>

definition stage_bundle :: "('e, 'p) app_service \<Rightarrow> aead \<Rightarrow> string \<Rightarrow> string \<Rightarrow> string \<Rightarrow> gomap \<Rightarrow> (('e, 'p) app_world, env_metadata) io" where
  "stage_bundle svc a appName revision payload values =
     io_bind (internally ''encrypt environment bundle'' (encrypt svc a payload)) (\<lambda>ciphertext.
     io_bind (clock svc) (\<lambda>now.
     let bundle = \<lparr>eb_AppName = appName, eb_Revision = revision, eb_NamesJSON = print_json (JArr (map JStr (sort (map fst values)))),
           eb_Ciphertext = ciphertext, eb_CreatedAt = now\<rparr>
     in io_try (in_vault (bundle_Create bundle)) (\<lambda>r. case r of
         Inl e \<Rightarrow> io_ok_or (of_vault (bundle_Find appName revision))
           (if e = ErrDb ErrEnvironmentBundleLimit then io_status ResourceExhausted ''environment revision limit reached''
            else io_status Internal ''save environment bundle'')
           (\<lambda>old. io_of (sameEnvironment a old payload values))
       | Inr _ \<Rightarrow> io_ret (environmentMetadata appName revision values now))))"

definition CreateEnvironmentBundle :: "('e, 'p) app_service \<Rightarrow> ctx \<Rightarrow> create_bundle_request \<Rightarrow> (('e, 'p) app_world, env_metadata) io" where
  "CreateEnvironmentBundle svc ctx req =
     io_bind (io_of (requireCaller ctx CallerAdmin)) (\<lambda>_. case as_cipher svc of
       None \<Rightarrow> io_status FailedPrecondition ''environment bundles are not configured''
     | Some a \<Rightarrow>
         let appName = TrimSpace (cbr_AppName req); revision = cbr_Revision req; values = cbr_Values req in
         if \<not> ValidAppName appName \<or> \<not> validEnvironmentRevision revision \<or> \<not> validEnvironmentValues values
         then io_status InvalidArgument ''invalid environment bundle''
         else
           let payload = env_JSON \<lparr>env_Purpose = ''deployer.environment.v1'', env_AppName = appName, env_Revision = revision, env_Values = values\<rparr>
           in io_found (of_vault (bundle_Find appName revision))
                (stage_bundle svc a appName revision payload values)
                (io_status Internal ''read environment bundle'')
                (\<lambda>existing. io_of (sameEnvironment a existing payload values)))"

text \<open>The checks of \<^verbatim>\<open>resolveEnvironmentBundle\<close> on the decrypted text.\<close>

definition bundle_values :: "string \<Rightarrow> string \<Rightarrow> string \<Rightarrow> gomap option" where
  "bundle_values appName revision plain =
     (if length plain > 256 * 1024 then None
      else case read_env plain of None \<Rightarrow> None
        | Some p \<Rightarrow>
            if env_Purpose p \<noteq> ''deployer.environment.v1'' \<or> env_AppName p \<noteq> appName \<or> env_Revision p \<noteq> revision
               \<or> \<not> validEnvironmentValues (env_Values p) then None
            else Some (env_Values p))"

definition resolveEnvironmentBundle :: "('e, 'p) app_service \<Rightarrow> string \<Rightarrow> string \<Rightarrow> (('e, 'p) app_world, gomap) io" where
  "resolveEnvironmentBundle svc appName revision = (case as_cipher svc of
     None \<Rightarrow> io_status FailedPrecondition ''environment bundles are not configured''
   | Some a \<Rightarrow>
       io_found (of_vault (bundle_Find appName revision))
         (io_status FailedPrecondition ''environment revision is not staged'')
         (io_status Internal ''read environment bundle'')
         (\<lambda>bundle. case Decrypt a (eb_Ciphertext bundle) of
              Inl _ \<Rightarrow> io_status Internal ''decrypt environment bundle''
            | Inr plain \<Rightarrow> (case bundle_values appName revision plain of
                None \<Rightarrow> io_status FailedPrecondition ''environment revision is invalid''
              | Some values \<Rightarrow> io_ret values)))"

section \<open>Registry credentials\<close>

record cred_payload =
  cp_Purpose :: string
  cp_AppName :: string
  cp_Revision :: string
  cp_Registry :: string
  cp_Username :: string
  cp_Password :: string

definition credentialPayload :: "credential \<Rightarrow> cred_payload" where
  "credentialPayload c = \<lparr>cp_Purpose = ''deployer.registry.v1'', cp_AppName = cr_AppName c, cp_Revision = cr_Revision c,
     cp_Registry = cr_Registry c, cp_Username = cr_Username c, cp_Password = cr_Password c\<rparr>"

definition cred_JSON :: "cred_payload \<Rightarrow> string" where
  "cred_JSON p = print_json (JObj [(''purpose'', JStr (cp_Purpose p)), (''app_name'', JStr (cp_AppName p)),
     (''revision'', JStr (cp_Revision p)), (''registry'', JStr (cp_Registry p)), (''username'', JStr (cp_Username p)),
     (''password'', JStr (cp_Password p))])"

definition cred_fields :: "cred_payload fields" where
  "cred_fields = [fld ''purpose'' dec_string cp_Purpose cp_Purpose_update, fld ''app_name'' dec_string cp_AppName cp_AppName_update,
     fld ''revision'' dec_string cp_Revision cp_Revision_update, fld ''registry'' dec_string cp_Registry cp_Registry_update,
     fld ''username'' dec_string cp_Username cp_Username_update, fld ''password'' dec_string cp_Password cp_Password_update]"

definition read_cred :: "string \<Rightarrow> cred_payload option" where
  "read_cred s = Option.bind (json_parse s) (\<lambda>j. dec_struct cred_fields j
     \<lparr>cp_Purpose = [], cp_AppName = [], cp_Revision = [], cp_Registry = [], cp_Username = [], cp_Password = []\<rparr>)"

definition unresolvable :: "srv_err" where
  "unresolvable = ErrStatus FailedPrecondition ''registry credential cannot be resolved''"

definition credential_decode :: "aead \<Rightarrow> registry_credential \<Rightarrow> srv_err + credential" where
  "credential_decode a row = (case Decrypt a (rc_Ciphertext row) of Inl _ \<Rightarrow> Inl unresolvable
     | Inr plaintext \<Rightarrow>
         if length plaintext > 20000 then Inl unresolvable
         else case read_cred plaintext of None \<Rightarrow> Inl unresolvable
           | Some p \<Rightarrow>
               if cp_Purpose p \<noteq> ''deployer.registry.v1'' \<or> cp_AppName p \<noteq> rc_AppName row \<or> cp_Revision p \<noteq> rc_Revision row
                  \<or> cp_Registry p \<noteq> rc_Registry row then Inl unresolvable
               else
                 let c = \<lparr>cr_AppName = cp_AppName p, cr_Revision = cp_Revision p, cr_Registry = cp_Registry p,
                          cr_Username = cp_Username p, cr_Password = cp_Password p\<rparr>
                 in if \<not> is_ok (credential_Validate c) then Inl unresolvable else Inr c)"

record cred_metadata =
  cm_AppName :: string
  cm_Revision :: string
  cm_Registry :: string
  cm_CreatedAt :: string

definition registryMetadata :: "registry_credential \<Rightarrow> cred_metadata" where
  "registryMetadata row = \<lparr>cm_AppName = rc_AppName row, cm_Revision = rc_Revision row, cm_Registry = rc_Registry row,
     cm_CreatedAt = formatTime (rc_CreatedAt row)\<rparr>"

definition sameCredential :: "aead \<Rightarrow> registry_credential \<Rightarrow> string \<Rightarrow> srv_err + cred_metadata" where
  "sameCredential a row payload = rbind (credential_decode a row) (\<lambda>c.
     if cred_JSON (credentialPayload c) \<noteq> payload
     then Inl (ErrStatus AlreadyExists ''credential revision is immutable; use a new revision'')
     else Inr (registryMetadata row))"

definition stage_credential :: "('e, 'p) app_service \<Rightarrow> aead \<Rightarrow> credential \<Rightarrow> string \<Rightarrow> (('e, 'p) app_world, cred_metadata) io" where
  "stage_credential svc a c payload =
     io_bind (internally ''encrypt registry credential'' (encrypt svc a payload)) (\<lambda>ciphertext.
     io_bind (clock svc) (\<lambda>now.
     let row = \<lparr>rc_Revision = cr_Revision c, rc_AppName = cr_AppName c, rc_Registry = cr_Registry c, rc_Ciphertext = ciphertext,
           rc_CreatedAt = now\<rparr>
     in io_try (in_vault (credential_Create row)) (\<lambda>r. case r of
         Inl e \<Rightarrow> io_ok_or (of_vault (credential_Find (cr_AppName c) (cr_Revision c)))
           (if e = ErrDb ErrRegistryCredentialLimit then io_status ResourceExhausted ''registry credential revision limit reached''
            else io_status Internal ''save registry credential'')
           (\<lambda>old. io_of (sameCredential a old payload))
       | Inr _ \<Rightarrow> io_ret (registryMetadata row))))"

definition CreateRegistryCredential :: "('e, 'p) app_service \<Rightarrow> ctx \<Rightarrow> credential \<Rightarrow> (('e, 'p) app_world, cred_metadata) io" where
  "CreateRegistryCredential svc ctx c =
     io_bind (io_of (requireCaller ctx CallerAdmin)) (\<lambda>_. case as_cipher svc of
       None \<Rightarrow> io_status FailedPrecondition ''registry credentials are not configured''
     | Some a \<Rightarrow>
         if \<not> is_ok (credential_Validate c) then io_status InvalidArgument ''invalid registry credential''
         else
           let payload = cred_JSON (credentialPayload c)
           in io_found (of_vault (credential_Find (cr_AppName c) (cr_Revision c)))
                (stage_credential svc a c payload)
                (io_status Internal ''read registry credential'')
                (\<lambda>existing. io_of (sameCredential a existing payload)))"

definition ListRegistryCredentials :: "('e, 'p) app_service \<Rightarrow> ctx \<Rightarrow> string \<Rightarrow> (('e, 'p) app_world, cred_metadata list) io" where
  "ListRegistryCredentials svc ctx appName =
     io_bind (io_of (requireCaller ctx CallerAdmin)) (\<lambda>_.
     if as_cipher svc = None then io_status FailedPrecondition ''registry credentials are not configured''
     else if \<not> registryauth_ValidAppName appName then io_status InvalidArgument ''invalid app name''
     else io_bind (internally ''list registry credentials'' (of_vault (credential_ListByApp appName))) (\<lambda>rows.
       io_ret (map registryMetadata rows)))"

definition ResolveRegistryCredential :: "('e, 'p) app_service \<Rightarrow> string \<Rightarrow> string \<Rightarrow> string \<Rightarrow> (('e, 'p) app_world, credential) io" where
  "ResolveRegistryCredential svc appName revision img = (case as_cipher svc of
     None \<Rightarrow> io_status FailedPrecondition ''registry credentials are not configured''
   | Some a \<Rightarrow>
       if \<not> registryauth_ValidAppName appName \<or> \<not> ValidRevision revision
       then io_status InvalidArgument ''invalid registry credential reference''
       else io_bind (io_wrap (ErrStatus FailedPrecondition ''registry credential is unavailable for this app'')
              (of_vault (credential_Find appName revision))) (\<lambda>row.
            io_bind (io_of (credential_decode a row)) (\<lambda>c.
            if \<not> is_ok (credential_ValidateFor c appName revision img)
            then io_status FailedPrecondition ''registry credential does not match this app and image''
            else io_ret c)))"

definition no_private_pull :: "('s, 'a) io" where
  "no_private_pull = io_status FailedPrecondition ''private image pulling is unavailable''"

definition resolveRuntimeRegistry :: "('e, 'p) app_service \<Rightarrow> config \<Rightarrow> (('e, 'p) app_world, credential option) io" where
  "resolveRuntimeRegistry svc cfg =
     (if cfg_ImagePullCredential cfg = [] then io_ret None
      else if Option.bind (as_runtime svc) ar_ReconcileWithRegistry = None then no_private_pull
      else io_bind (ResolveRegistryCredential svc (cfg_Name cfg) (cfg_ImagePullCredential cfg) (cfg_Image cfg)) (\<lambda>c.
        if \<not> is_ok (credential_ValidateFor c (cfg_Name cfg) (cfg_ImagePullCredential cfg) (cfg_Image cfg))
        then io_status FailedPrecondition ''invalid registry credential binding''
        else io_ret (Some c)))"

definition reconcileRuntime :: "('e, 'p) app_runtime \<Rightarrow> config \<Rightarrow> gomap \<Rightarrow> string \<Rightarrow> credential option \<Rightarrow> (('e, 'p) app_world, unit) io" where
  "reconcileRuntime rt cfg values revision credential =
     (if cfg_ImagePullCredential cfg = [] then rcall (CApply cfg values revision) (ar_Reconcile rt cfg values revision)
      else case (ar_ReconcileWithRegistry rt, credential) of
          (Some private, Some c) \<Rightarrow> rcall (CApply cfg values revision) (private cfg values revision c)
        | _ \<Rightarrow> no_private_pull)"

section \<open>Secrets\<close>

definition referencesSecret :: "string list \<Rightarrow> string \<Rightarrow> bool" where
  "referencesSecret names name \<longleftrightarrow> list_ex (\<lambda>configured. configured = name) names"

text \<open>\<open>hashed\<close> is what was written to the SHA-256 sum so far.\<close>

fun resolve_loop :: "('e, 'p) app_service \<Rightarrow> aead \<Rightarrow> string \<Rightarrow> string list \<Rightarrow> gomap \<Rightarrow> string \<Rightarrow> (('e, 'p) app_world, gomap \<times> string) io" where
  "resolve_loop svc a appID [] values hashed = io_ret (values, sha_hex (as_sha256 svc) hashed)"
| "resolve_loop svc a appID (name # names) values hashed =
     io_found (of_vault (secret_Find appID name)) (io_fail (ErrMissingSecret name)) (io_status Internal ''read app secret'')
       (\<lambda>sec. case Decrypt a (sec_Ciphertext sec) of
            Inl _ \<Rightarrow> io_status Internal ''decrypt app secret''
          | Inr v \<Rightarrow> resolve_loop svc a appID names (mput values name v)
              (hashed @ name @ [CHR 0x00] @ sec_Ciphertext sec @ [CHR 0x00]))"

definition resolveSecretValues :: "('e, 'p) app_service \<Rightarrow> string \<Rightarrow> string list \<Rightarrow> (('e, 'p) app_world, gomap \<times> string) io" where
  "resolveSecretValues svc appID names =
     (if names = [] then io_ret ([], [])
      else case as_cipher svc of None \<Rightarrow> io_status FailedPrecondition ''secret management is not configured''
        | Some a \<Rightarrow> resolve_loop svc a appID names [] [])"

definition parseStoredConfigForDeployment :: "('e, 'p) app_service \<Rightarrow> string \<Rightarrow> srv_err + config" where
  "parseStoredConfigForDeployment svc data = (case FromJSON data of Inl e \<Rightarrow> Inl (ErrText (as_cfgtext svc e))
     | Inr cfg \<Rightarrow>
         if cfg_Hosting cfg = None then Inr cfg
         else case Validate (as_k8s svc) cfg of
             Inl e \<Rightarrow> Inl (ErrText (''validate stored desired state: '' @ as_cfgtext svc e))
           | Inr _ \<Rightarrow> Inr cfg)"

definition preflightHosting :: "('e, 'p) app_service \<Rightarrow> config \<Rightarrow> (('e, 'p) app_world, unit) io" where
  "preflightHosting svc cfg =
     (if cfg_Hosting cfg = None \<and> cfg_Storage cfg = None then io_ret ()
      else case Option.bind (as_runtime svc) ar_PreflightHosting of
          None \<Rightarrow> io_status FailedPrecondition ''hosting or retained storage preflight is unsupported by this runtime''
        | Some preflight \<Rightarrow> io_try (rcall (CAdmit cfg) (preflight cfg)) (\<lambda>r. case r of
              Inl e \<Rightarrow> io_status FailedPrecondition (''application runtime preflight: '' @ as_errtext svc e)
            | Inr _ \<Rightarrow> io_ret ()))"

definition activeApp :: "string \<Rightarrow> (('e, 'p) app_world, app) io" where
  "activeApp appName0 =
     (let appName = TrimSpace appName0 in
      if appName = [] then io_status InvalidArgument ''app_name is required''
      else io_found (read_io (FindActiveByName appName)) (io_status NotFound ''app not found'') (io_status Internal ''get app'') io_ret)"

definition appAndSecretName :: "('e, 'p) app_service \<Rightarrow> string \<Rightarrow> string \<Rightarrow> (('e, 'p) app_world, app \<times> string) io" where
  "appAndSecretName svc appName name0 = io_bind (activeApp appName) (\<lambda>a.
     let name = TrimSpace name0 in
     case ValidateSecretName name of
       Inl e \<Rightarrow> io_status InvalidArgument (as_cfgtext svc (SecretErr e))
     | Inr _ \<Rightarrow> io_ret (a, name))"

definition reconcileReferencedSecret :: "('e, 'p) app_service \<Rightarrow> app \<Rightarrow> string \<Rightarrow> (('e, 'p) app_world, unit) io" where
  "reconcileReferencedSecret svc a name = (case as_runtime svc of None \<Rightarrow> io_ret ()
     | Some rt \<Rightarrow> (case parseStoredConfigForDeployment svc (app_DesiredStateJSON a) of
           Inl _ \<Rightarrow> io_status Internal ''decode desired state''
         | Inr cfg \<Rightarrow>
             if \<not> referencesSecret (cfg_Secrets cfg) name then io_ret ()
             else io_try (resolveSecretValues svc (app_ID a) (cfg_Secrets cfg)) (\<lambda>r. case r of
                 Inl (ErrMissingSecret _) \<Rightarrow> io_ret ()
               | Inl e \<Rightarrow> io_fail e
               | Inr (values, revision) \<Rightarrow>
                   io_bind (resolveRuntimeRegistry svc cfg) (\<lambda>credential.
                   internally ''apply updated app secret'' (reconcileRuntime rt cfg values revision credential)))))"

definition secret_meta :: "app \<Rightarrow> string \<Rightarrow> (string \<times> json) list" where
  "secret_meta a name = [(''app_name'', JStr (app_Name a)), (''secret_name'', JStr name)]"

definition requireConfigured :: "('e, 'p) app_service \<Rightarrow> (('e, 'p) app_world, aead) io" where
  "requireConfigured svc = (case as_cipher svc of None \<Rightarrow> io_status FailedPrecondition ''secret management is not configured''
     | Some a \<Rightarrow> io_ret a)"

definition SetSecret :: "('e, 'p) app_service \<Rightarrow> ctx \<Rightarrow> string \<Rightarrow> string \<Rightarrow> string \<Rightarrow> (('e, 'p) app_world, unit) io" where
  "SetSecret svc ctx appName name0 val =
     io_bind (io_of (requireCaller ctx CallerAdmin)) (\<lambda>_.
     io_bind (requireConfigured svc) (\<lambda>cipher.
     io_bind (appAndSecretName svc appName name0) (\<lambda>(a, name).
     case parseStoredConfigForDeployment svc (app_DesiredStateJSON a) of
       Inl _ \<Rightarrow> io_status FailedPrecondition ''stored app configuration is invalid''
     | Inr cfg \<Rightarrow>
         io_bind (preflightHosting svc cfg) (\<lambda>_.
         io_bind (io_found (of_vault (secret_Find (app_ID a) name)) (io_ret (''secret.created'', ''created''))
             (io_status Internal ''read secret'') (\<lambda>_. io_ret (''secret.updated'', ''updated''))) (\<lambda>(eventType, eventMessage).
         io_bind (internally ''encrypt secret'' (encrypt svc cipher val)) (\<lambda>ciphertext.
         io_bind (clock svc) (\<lambda>now.
         io_bind (internally ''set secret'' (in_vault (secret_Set \<lparr>sec_AppID = app_ID a, sec_Name = name, sec_Ciphertext = ciphertext,
             sec_CreatedAt = now, sec_UpdatedAt = now\<rparr>))) (\<lambda>_.
         io_bind (app_recordEvent svc (app_event eventType ''info''
             (''secret '' @ name @ '' '' @ eventMessage @ '' for app '' @ app_Name a) (app_ID a) [] (secret_meta a name))) (\<lambda>_.
         reconcileReferencedSecret svc a name)))))))))"

definition ListSecrets :: "('e, 'p) app_service \<Rightarrow> ctx \<Rightarrow> string \<Rightarrow> (('e, 'p) app_world, string list) io" where
  "ListSecrets svc ctx appName =
     io_bind (io_of (requireCaller ctx CallerAdmin)) (\<lambda>_.
     io_bind (requireConfigured svc) (\<lambda>_.
     io_bind (activeApp appName) (\<lambda>a.
     internally ''list secrets'' (of_vault (ListNamesByApp (app_ID a))))))"

definition DeleteSecret :: "('e, 'p) app_service \<Rightarrow> ctx \<Rightarrow> string \<Rightarrow> string \<Rightarrow> (('e, 'p) app_world, unit) io" where
  "DeleteSecret svc ctx appName name0 =
     io_bind (io_of (requireCaller ctx CallerAdmin)) (\<lambda>_.
     io_bind (requireConfigured svc) (\<lambda>_.
     io_bind (appAndSecretName svc appName name0) (\<lambda>(a, name).
     case parseStoredConfigForDeployment svc (app_DesiredStateJSON a) of
       Inl _ \<Rightarrow> io_status Internal ''decode desired state''
     | Inr cfg \<Rightarrow>
         if referencesSecret (cfg_Secrets cfg) name then io_status FailedPrecondition ''secret is referenced by app configuration''
         else io_found (in_vault (secret_Delete (app_ID a) name)) (io_status NotFound ''secret not found'')
           (io_status Internal ''delete secret'') (\<lambda>_.
             app_recordEvent svc (app_event ''secret.deleted'' ''info''
               (''secret '' @ name @ '' deleted for app '' @ app_Name a) (app_ID a) [] (secret_meta a name))))))"

end
