(* ===== verification/App_Reading.thy ===== *)
theory App_Reading
  imports App_Secrets Intent_Codec
begin

text \<open>
  The queries of the app service (\<^verbatim>\<open>internal/server/app.go\<close>): responses, stored replies, route refresh,
  listing, inspection, status and logs. A query of a route may write: the status the runtime reports is
  stored, and a change of health is recorded as events.
\<close>

section \<open>Responses\<close>

text \<open>\<^verbatim>\<open>%q\<close> of an application name, which has no character to escape, puts it in quotes.\<close>

definition protoApp :: "('e, 'p) app_service \<Rightarrow> app \<Rightarrow> srv_err + pb_app" where
  "protoApp svc a = (case FromJSON (app_DesiredStateJSON a) of
     Inl e \<Rightarrow> Inl (ErrText (''decode desired state for app '' @ [dquote] @ app_Name a @ [dquote] @ '': '' @ as_cfgtext svc e))
   | Inr cfg \<Rightarrow> Inr \<lparr>pba_Id = app_ID a, pba_Name = app_Name a, pba_Image = app_Image a,
       pba_Replicas = to_int32 (deploy_Replicas (cfg_Deploy cfg)), pba_DesiredState = app_DesiredStateJSON a,
       pba_CreatedAt = formatProtoTime (app_CreatedAt a), pba_UpdatedAt = formatProtoTime (app_UpdatedAt a)\<rparr>)"

record pb_route =
  pbo_Id :: string
  pbo_AppId :: string
  pbo_Domain :: string
  pbo_TargetPort :: int
  pbo_Status :: string
  pbo_TlsEnabled :: bool

definition protoRoute :: "route \<Rightarrow> pb_route" where
  "protoRoute r = \<lparr>pbo_Id = route_ID r, pbo_AppId = route_AppID r, pbo_Domain = route_Domain r,
     pbo_TargetPort = to_int32 (route_TargetPort r), pbo_Status = route_Status r, pbo_TlsEnabled = route_TLSEnabled r\<rparr>"

definition protoDeployment :: "deployment \<Rightarrow> pb_deployment" where
  "protoDeployment d = \<lparr>pbd_Id = dep_ID d, pbd_AppId = dep_AppID d, pbd_Status = dep_Status d, pbd_FailureReason = dep_FailureReason d,
     pbd_CreatedAt = formatProtoTime (dep_CreatedAt d), pbd_UpdatedAt = formatProtoTime (dep_UpdatedAt d)\<rparr>"

text \<open>\<^verbatim>\<open>json.Marshal(response)\<close> by the struct tags of the generated type, and its inverse.\<close>

definition app_members :: "pb_app \<Rightarrow> (string \<times> json) list" where
  "app_members a = str_member ''id'' (pba_Id a) @ str_member ''name'' (pba_Name a) @ str_member ''image'' (pba_Image a)
     @ omitempty (pba_Replicas a = 0) ''replicas'' (JInt (pba_Replicas a)) @ str_member ''desired_state'' (pba_DesiredState a)
     @ str_member ''created_at'' (pba_CreatedAt a) @ str_member ''updated_at'' (pba_UpdatedAt a)"

definition deployment_members :: "pb_deployment \<Rightarrow> (string \<times> json) list" where
  "deployment_members d = str_member ''id'' (pbd_Id d) @ str_member ''app_id'' (pbd_AppId d) @ str_member ''status'' (pbd_Status d)
     @ str_member ''failure_reason'' (pbd_FailureReason d)
     @ str_member ''created_at'' (pbd_CreatedAt d) @ str_member ''updated_at'' (pbd_UpdatedAt d)"

definition response_JSON :: "deploy_response \<Rightarrow> string" where
  "response_JSON r = print_json (JObj (
     (case pbr_App r of None \<Rightarrow> [] | Some a \<Rightarrow> [(''app'', JObj (app_members a))])
     @ (case pbr_Deployment r of None \<Rightarrow> [] | Some d \<Rightarrow> [(''deployment'', JObj (deployment_members d))])
     @ omitempty (\<not> pbr_WithdrawalConfirmed r) ''withdrawal_confirmed'' (JBool (pbr_WithdrawalConfirmed r))
     @ str_member ''requested_state'' (pbr_RequestedState r)))"

definition decode_response :: "string \<Rightarrow> deploy_response option" where
  "decode_response s = Option.bind (json_parse s) (\<lambda>j. dec_struct response_fields j
     \<lparr>pbr_App = None, pbr_Deployment = None, pbr_WithdrawalConfirmed = False, pbr_RequestedState = []\<rparr>)"

section \<open>Tracked requests\<close>

record deploy_metadata =
  md_AppName :: string
  md_RequestId :: string
  md_State :: string
  md_RequestedState :: string
  md_Result :: "deploy_response option"

definition request_metadata :: "deploy_request \<Rightarrow> srv_err + deploy_metadata" where
  "request_metadata r =
     (let m = \<lparr>md_AppName = req_AppName r, md_RequestId = req_RequestID r, md_State = req_State r,
               md_RequestedState = req_RequestedState r, md_Result = None\<rparr>
      in if req_ResponseJSON r = [] then Inr m
         else case decode_response (req_ResponseJSON r) of
             None \<Rightarrow> Inl (ErrStatus Internal ''stored deployment result is invalid'')
           | Some response \<Rightarrow> Inr (m\<lparr>md_Result := Some response\<rparr>))"

definition GetDeployRequest :: "ctx \<Rightarrow> string \<Rightarrow> string \<Rightarrow> (('e, 'p) app_world, deploy_metadata) io" where
  "GetDeployRequest ctx app rid =
     io_bind (io_of (requireCaller ctx CallerAdmin)) (\<lambda>_.
     if TrimSpace app = [] \<or> \<not> ValidRevision rid then io_status InvalidArgument ''invalid deployment request identity''
     else io_found (read_io (request_Find app rid)) (io_status NotFound ''deployment request not found'')
       (io_status Internal ''read deployment request'') (\<lambda>r. io_of (request_metadata r)))"

section \<open>Routes\<close>

definition degraded :: "string \<Rightarrow> bool" where
  "degraded s \<longleftrightarrow> s = ''degraded'' \<or> s = ''unavailable''"

definition replica_meta :: "('e, 'p) app_service \<Rightarrow> app \<Rightarrow> (('e, 'p) app_world, (string \<times> json) list) io" where
  "replica_meta svc a = (case Option.bind (as_runtime svc) ar_StatusDetails of None \<Rightarrow> io_ret []
     | Some details \<Rightarrow> io_ok_or (rcall (CQuery (app_Name a)) (details (app_Name a))) (io_ret [])
         (\<lambda>(_, desired, available). io_ret [(''desired_replicas'', JInt desired), (''available_replicas'', JInt available)]))"

definition recordRouteHealthTransition :: "('e, 'p) app_service \<Rightarrow> app \<Rightarrow> route \<Rightarrow> string \<Rightarrow> string \<Rightarrow> (('e, 'p) app_world, unit) io" where
  "recordRouteHealthTransition svc a r previousStatus newStatus =
     (if degraded previousStatus = degraded newStatus then io_ret ()
      else io_bind (replica_meta svc a) (\<lambda>extra.
        let meta = [(''app_name'', JStr (app_Name a)), (''domain'', JStr (route_Domain r)), (''status'', JStr newStatus)] @ extra;
            record = (\<lambda>ty sev msg. app_recordEvent svc (app_event ty sev msg (app_ID a) [] meta))
        in if degraded newStatus then
             io_bind (record ''route.degraded'' ''warning'' (''route '' @ route_Domain r @ '' is degraded'')) (\<lambda>_.
             record ''app.health.degraded'' ''warning'' (''app '' @ app_Name a @ '' health is degraded''))
           else
             io_bind (record ''route.recovered'' ''info'' (''route '' @ route_Domain r @ '' recovered'')) (\<lambda>_.
             record ''app.health.recovered'' ''info'' (''app '' @ app_Name a @ '' health recovered''))))"

definition refreshRouteStatus :: "('e, 'p) app_service \<Rightarrow> app \<Rightarrow> route \<Rightarrow> (('e, 'p) app_world, route) io" where
  "refreshRouteStatus svc a r = (case as_runtime svc of None \<Rightarrow> io_ret r
     | Some rt \<Rightarrow>
         io_bind (internally ''read route status'' (rcall (CQuery (app_Name a)) (ar_Status rt (app_Name a)))) (\<lambda>runtimeStatus.
         if runtimeStatus = route_Status r then io_ret r
         else io_bind (clock svc) (\<lambda>updatedAt.
           io_bind (internally ''update route status'' (db_tx (route_UpdateStatus (route_ID r) runtimeStatus updatedAt))) (\<lambda>_.
           let r' = r\<lparr>route_Status := runtimeStatus, route_UpdatedAt := updatedAt\<rparr>
           in io_bind (recordRouteHealthTransition svc a r' (route_Status r) runtimeStatus) (\<lambda>_. io_ret r')))))"

definition refreshed :: "('e, 'p) app_service \<Rightarrow> route \<Rightarrow> (('e, 'p) app_world, pb_route) io" where
  "refreshed svc r =
     io_bind (internally ''get route app'' (read_io (app_FindByID (route_AppID r)))) (\<lambda>a.
     io_bind (refreshRouteStatus svc a r) (\<lambda>r'. io_ret (protoRoute r')))"

definition ListRoutes :: "('e, 'p) app_service \<Rightarrow> ctx \<Rightarrow> (('e, 'p) app_world, pb_route list) io" where
  "ListRoutes svc ctx =
     io_bind (io_of (requireCaller ctx CallerAdmin)) (\<lambda>_.
     io_bind (internally ''list routes'' (read_io route_List)) (\<lambda>rs. io_map (refreshed svc) rs))"

definition InspectRoute :: "('e, 'p) app_service \<Rightarrow> ctx \<Rightarrow> string \<Rightarrow> (('e, 'p) app_world, pb_route) io" where
  "InspectRoute svc ctx domain0 =
     io_bind (io_of (requireCaller ctx CallerAdmin)) (\<lambda>_.
     let domainName = TrimSpace domain0 in
     if domainName = [] then io_status InvalidArgument ''domain is required''
     else io_found (read_io (FindByDomain domainName)) (io_status NotFound ''route not found'') (io_status Internal ''get route'')
       (refreshed svc))"

section \<open>Apps\<close>

definition ListApps :: "('e, 'p) app_service \<Rightarrow> ctx \<Rightarrow> (('e, 'p) app_world, pb_app list) io" where
  "ListApps svc ctx =
     io_bind (io_of (requireCaller ctx CallerAdmin)) (\<lambda>_.
     io_bind (internally ''list apps'' (read_io app_List)) (\<lambda>l.
     io_map (\<lambda>a. internally ''decode desired state'' (io_of (protoApp svc a))) l))"

definition inspectApp :: "('e, 'p) app_service \<Rightarrow> ctx \<Rightarrow> string \<Rightarrow> (('e, 'p) app_world, app \<times> deployment list \<times> route list) io" where
  "inspectApp svc ctx name0 =
     io_bind (io_of (requireCaller ctx CallerAdmin)) (\<lambda>_.
     let name = TrimSpace name0 in
     if name = [] then io_status InvalidArgument ''name is required''
     else io_found (read_io (FindActiveByName name)) (io_status NotFound ''app not found'') (io_status Internal ''get app'') (\<lambda>a.
       io_bind (internally ''list app deployments'' (read_io (deployment_ListByApp (app_ID a)))) (\<lambda>ds.
       io_bind (internally ''list app routes'' (read_io (route_ListByApp (app_ID a)))) (\<lambda>rs.
       io_bind (io_map (refreshRouteStatus svc a) rs) (\<lambda>rs'. io_ret (a, ds, rs'))))))"

text \<open>\<^verbatim>\<open>InspectApp\<close> and \<^verbatim>\<open>GetApp\<close> have the same body.\<close>

definition GetApp :: "('e, 'p) app_service \<Rightarrow> ctx \<Rightarrow> string \<Rightarrow> (('e, 'p) app_world, pb_app \<times> pb_deployment list \<times> pb_route list) io" where
  "GetApp svc ctx name =
     io_bind (inspectApp svc ctx name) (\<lambda>(a, ds, rs).
     io_bind (internally ''decode desired state'' (io_of (protoApp svc a))) (\<lambda>p.
     io_ret (p, map protoDeployment ds, map protoRoute rs)))"

definition InspectApp :: "('e, 'p) app_service \<Rightarrow> ctx \<Rightarrow> string \<Rightarrow> (('e, 'p) app_world, pb_app \<times> pb_deployment list \<times> pb_route list) io" where
  "InspectApp svc ctx name =
     io_bind (inspectApp svc ctx name) (\<lambda>(a, ds, rs).
     io_bind (internally ''decode desired state'' (io_of (protoApp svc a))) (\<lambda>p.
     io_ret (p, map protoDeployment ds, map protoRoute rs)))"

record pb_database =
  pdb_State :: string
  pdb_Phase :: string
  pdb_DesiredInstances :: int
  pdb_ReadyInstances :: int
  pdb_Primary :: string
  pdb_RunningNodes :: "string list"

record app_status =
  gs_App :: pb_app
  gs_LatestDeployment :: "pb_deployment option"
  gs_Routes :: "pb_route list"
  gs_RuntimeStatus :: string
  gs_DesiredReplicas :: int
  gs_AvailableReplicas :: int
  gs_RunningNodes :: "string list"
  gs_Warnings :: "warning list"
  gs_Database :: "pb_database option"

definition appendDatabaseStatus :: "('e, 'p) app_service \<Rightarrow> config \<Rightarrow> string \<Rightarrow> app_status \<Rightarrow> (('e, 'p) app_world, app_status) io" where
  "appendDatabaseStatus svc cfg appName resp = (case database_Postgres (cfg_Database cfg) of None \<Rightarrow> io_ret resp
     | Some p \<Rightarrow>
         let desired = to_int32 (pg_Instances p);
             resp = resp\<lparr>gs_Database := Some \<lparr>pdb_State = ''unknown'', pdb_Phase = [], pdb_DesiredInstances = desired,
                        pdb_ReadyInstances = 0, pdb_Primary = [], pdb_RunningNodes = []\<rparr>,
                      gs_Warnings := gs_Warnings resp @ warn (pg_ConnectionMode p = ''external'') External_mode\<rparr>
         in case Option.bind (as_runtime svc) ar_DatabaseStatus of
              None \<Rightarrow> io_ret (resp\<lparr>gs_Warnings := gs_Warnings resp @ [Db_status_unavailable]\<rparr>)
            | Some query \<Rightarrow> io_try (rcall (CQuery appName) (query appName)) (\<lambda>r. case r of
                Inl e \<Rightarrow> io_ret (resp\<lparr>gs_Warnings := gs_Warnings resp @ [Db_status_error (as_errtext svc e)]\<rparr>)
              | Inr s \<Rightarrow>
                  let ha = databaseHAPolicyWarnings (as_k8s svc) cfg s desired
                  in io_ret (resp\<lparr>gs_Database := Some \<lparr>pdb_State = databaseReportedState s desired ha, pdb_Phase = ds_Phase s,
                               pdb_DesiredInstances = desired, pdb_ReadyInstances = ds_ReadyInstances s, pdb_Primary = ds_Primary s,
                               pdb_RunningNodes = ds_RunningNodes s\<rparr>,
                             gs_Warnings := gs_Warnings resp @ databaseRuntimeWarnings s desired @ ha\<rparr>)))"

definition report_runtime :: "('e, 'p) app_service \<Rightarrow> config \<Rightarrow> string \<Rightarrow> app_status \<Rightarrow> (('e, 'p) app_world, app_status) io" where
  "report_runtime svc cfg name resp = (case Option.bind (as_runtime svc) ar_RuntimeStatus of None \<Rightarrow> io_ret resp
     | Some query \<Rightarrow>
         io_bind (internally ''read app runtime status'' (rcall (CQuery name) (query name))) (\<lambda>(state, desired, available, ns).
         io_ret (resp\<lparr>gs_RuntimeStatus := state, gs_DesiredReplicas := desired, gs_AvailableReplicas := available,
           gs_RunningNodes := ns, gs_Warnings := runtimeWarnings cfg state desired available ns\<rparr>)))"

definition GetAppStatus :: "('e, 'p) app_service \<Rightarrow> ctx \<Rightarrow> string \<Rightarrow> (('e, 'p) app_world, app_status) io" where
  "GetAppStatus svc ctx name =
     io_bind (inspectApp svc ctx name) (\<lambda>(a, ds, rs).
     io_bind (internally ''decode desired state'' (io_of (protoApp svc a))) (\<lambda>p.
     case FromJSON (app_DesiredStateJSON a) of Inl _ \<Rightarrow> io_status Internal ''decode desired state''
     | Inr cfg \<Rightarrow>
         io_bind (report_runtime svc cfg (app_Name a) \<lparr>gs_App = p,
             gs_LatestDeployment = (case ds of [] \<Rightarrow> None | d # _ \<Rightarrow> Some (protoDeployment d)), gs_Routes = map protoRoute rs,
             gs_RuntimeStatus = [], gs_DesiredReplicas = pba_Replicas p, gs_AvailableReplicas = 0, gs_RunningNodes = [],
             gs_Warnings = [], gs_Database = None\<rparr>) (\<lambda>resp.
         appendDatabaseStatus svc cfg (app_Name a) resp)))"

text \<open>The lines sent to the stream are effects of the runtime's \<^verbatim>\<open>StreamLogs\<close>.\<close>

definition GetDeploymentLogs :: "('e, 'p) app_service \<Rightarrow> ctx \<Rightarrow> string \<Rightarrow> int \<Rightarrow> bool \<Rightarrow> (('e, 'p) app_world, unit) io" where
  "GetDeploymentLogs svc ctx appName tailLines follow =
     io_bind (io_of (requireCaller ctx CallerAdmin)) (\<lambda>_.
     let name = TrimSpace appName in
     if name = [] then io_status InvalidArgument ''app name is required''
     else if tailLines < 0 then io_status InvalidArgument ''tail lines cannot be negative''
     else io_found (read_io (FindActiveByName name)) (io_status NotFound ''app not found'') (io_status Internal ''get app'') (\<lambda>a.
       case Option.bind (as_runtime svc) ar_StreamLogs of
         None \<Rightarrow> io_status FailedPrecondition ''app log runtime is not configured''
       | Some stream \<Rightarrow> io_try (rcall (CQuery (app_Name a)) (stream (app_Name a) tailLines follow)) (\<lambda>r. case r of
             Inl e \<Rightarrow> io_bind (cancelled svc) (\<lambda>c. if c then io_fail ErrCtx
               else io_status Internal (''stream app logs: '' @ as_errtext svc e))
           | Inr _ \<Rightarrow> io_ret ())))"

section \<open>Stored replies are read back\<close>

lemma dec_pb_app: "- (2 ^ 31) \<le> pba_Replicas a \<Longrightarrow> pba_Replicas a < 2 ^ 31 \<Longrightarrow>
  dec_members pb_app_fields (app_members a) zero_pb_app = Some a"
  using dec_app_members [of "pba_Id a" "pba_Name a" "pba_Image a" "pba_Replicas a"]
  by (simp add: app_members_def to_int32_def)

lemma dec_pb_deployment: "dec_members pb_deployment_fields (deployment_members d) zero_pb_deployment = Some d"
  using dec_deployment_members by (simp add: deployment_members_def)

lemma wf_members [simp]: "wf_json (JObj (app_members a))" "wf_json (JObj (deployment_members d))"
  by (simp_all add: app_members_def deployment_members_def str_member_def ball_Un)

lemma response_JSON_parse: "json_parse (response_JSON r) = Some (JObj (
     (case pbr_App r of None \<Rightarrow> [] | Some a \<Rightarrow> [(''app'', JObj (app_members a))])
     @ (case pbr_Deployment r of None \<Rightarrow> [] | Some d \<Rightarrow> [(''deployment'', JObj (deployment_members d))])
     @ omitempty (\<not> pbr_WithdrawalConfirmed r) ''withdrawal_confirmed'' (JBool (pbr_WithdrawalConfirmed r))
     @ str_member ''requested_state'' (pbr_RequestedState r)))"
  unfolding response_JSON_def
  by (rule parse_print) (use wf_members in \<open>auto simp: str_member_def ball_Un split: option.splits\<close>)

lemma decode_response_JSON:
  assumes "\<And>a. pbr_App r = Some a \<Longrightarrow> - (2 ^ 31) \<le> pba_Replicas a \<and> pba_Replicas a < 2 ^ 31"
  shows "decode_response (response_JSON r) = Some r"
  by (cases r) (use assms in \<open>auto simp: decode_response_def response_JSON_parse dec_members_append [of response_fields] dec_members_omitempty
      response_field dec_ptr_def dec_pb_app dec_pb_deployment str_member_def split: option.splits\<close>)

lemma protoApp_range: "protoApp svc a = Inr p \<Longrightarrow> - (2 ^ 31) \<le> pba_Replicas p \<and> pba_Replicas p < 2 ^ 31"
  using to_int32_range by (auto simp: protoApp_def split: sum.splits)

lemma response_JSON_valid: "json_Valid (response_JSON r)" "response_JSON r \<noteq> ''null''" "response_JSON r \<noteq> []"
proof -
  show "json_Valid (response_JSON r)" by (simp add: json_Valid_def response_JSON_parse)
  show "response_JSON r \<noteq> ''null''" "response_JSON r \<noteq> []" by (simp_all add: response_JSON_def print_json.simps)
qed

end
