(* ===== verification/App_Candidates.thy ===== *)
theory App_Candidates
  imports App_Reading
begin

text \<open>
  Tracked candidate requests: submission (\<^verbatim>\<open>candidate_submission.go\<close>), the retry after a withdrawn first
  release (\<^verbatim>\<open>candidate_retry.go\<close>), recovery of a request that was never prepared
  (\<^verbatim>\<open>candidate_unprepared_recovery.go\<close>), reclaiming earlier workloads (\<^verbatim>\<open>candidate_capacity.go\<close>), advancing and
  recovering (\<^verbatim>\<open>candidate_requests.go\<close>), withdrawal (\<^verbatim>\<open>candidate_withdrawal.go\<close>) and deletion
  (\<^verbatim>\<open>candidate_deletion.go\<close>). They compose the candidate operations of \<open>Candidate_Ops\<close> with the repositories.
\<close>

section \<open>The interfaces a runtime may implement\<close>

type_synonym ('e, 'p) submission_runtime =
  "('e, 'p) runtime \<times> (config \<Rightarrow> gomap \<Rightarrow> string \<Rightarrow> string \<Rightarrow> credential option \<Rightarrow> ('e, string) io) \<times> (config \<Rightarrow> string \<Rightarrow> ('e, unit) io)"

definition as_submission :: "('e, 'p) app_service \<Rightarrow> ('e, 'p) submission_runtime option" where
  "as_submission svc = Option.bind (as_runtime svc) (\<lambda>ar.
     Option.bind (ar_CandidateRequest ar) (\<lambda>rt. Option.bind (ar_PrepareCandidateDependencies ar) (\<lambda>prep.
     Option.bind (ar_CreateInactiveCandidateService ar) (\<lambda>create. Some (rt, prep, create)))))"

definition as_unprepared :: "('e, 'p) app_service \<Rightarrow> (('e, 'p) runtime \<times> ('e, unit) io \<times> (config \<Rightarrow> string \<Rightarrow> ('e, unit) io)) option" where
  "as_unprepared svc = Option.bind (as_runtime svc) (\<lambda>ar.
     Option.bind (ar_CandidateRequest ar) (\<lambda>rt. Option.bind (ar_EnsureCandidateRecoveryNamespace ar) (\<lambda>ensure.
     Option.bind (ar_CreateInactiveCandidateService ar) (\<lambda>create. Some (rt, ensure, create)))))"

definition as_reuse :: "('e, 'p) app_service \<Rightarrow>
    (('e, 'p) runtime \<times> (gate \<Rightarrow> ('e, string) io) \<times> (gate \<Rightarrow> config \<Rightarrow> string \<Rightarrow> string \<Rightarrow> ('e, gate \<times> 'p target) io)) option" where
  "as_reuse svc = Option.bind (as_runtime svc) (\<lambda>ar.
     Option.bind (ar_CandidateRequest ar) (\<lambda>rt. Option.bind (ar_InitialCandidateRequest ar) (\<lambda>initial.
     Option.bind (ar_ResetInactiveCandidateService ar) (\<lambda>reset. Some (rt, initial, reset)))))"

definition as_capacity :: "('e, 'p) app_service \<Rightarrow> (('e, 'p) runtime \<times> (string \<Rightarrow> ('e, unit) io) \<times> (gate \<Rightarrow> ('e, bool) io)) option" where
  "as_capacity svc = Option.bind (as_runtime svc) (\<lambda>ar.
     Option.bind (ar_CandidateRequest ar) (\<lambda>rt. Option.bind (ar_CheckCandidateDeletion ar) (\<lambda>guard.
     Option.bind (ar_RetireLegacyCandidatePredecessor ar) (\<lambda>legacy. Some (rt, guard, legacy)))))"

type_synonym ('e, 'p) deletion_runtime =
  "('e, 'p) runtime \<times> (config \<Rightarrow> string \<Rightarrow> bool \<Rightarrow> ('e, gate) io) \<times> (gate \<Rightarrow> string \<Rightarrow> ('e, bool) io) \<times> (gate \<Rightarrow> string \<Rightarrow> ('e, unit) io)"

definition as_deletion :: "('e, 'p) app_service \<Rightarrow> ('e, 'p) deletion_runtime option" where
  "as_deletion svc = Option.bind (as_runtime svc) (\<lambda>ar.
     Option.bind (ar_CandidateRequest ar) (\<lambda>rt. Option.bind (ar_CheckCandidateDeletion ar) (\<lambda>_.
     Option.bind (ar_BeginCandidateDeletion ar) (\<lambda>start. Option.bind (ar_CleanupCandidateDeletion ar) (\<lambda>cleanup.
     Option.bind (ar_FinishCandidateDeletion ar) (\<lambda>finish. Some (rt, start, cleanup, finish)))))))"

abbreviation refuse :: "string \<Rightarrow> ('s, 'a) io" where
  "refuse msg \<equiv> io_status FailedPrecondition msg"

abbreviation io_text :: "string \<Rightarrow> ('s, 'a) io" where
  "io_text msg \<equiv> io_fail (ErrText msg)"

definition checkCandidateDeletion :: "('e, 'p) app_service \<Rightarrow> string \<Rightarrow> (('e, 'p) app_world, unit) io" where
  "checkCandidateDeletion svc app = (case Option.bind (as_runtime svc) ar_CheckCandidateDeletion of None \<Rightarrow> io_ret ()
     | Some guard \<Rightarrow> io_wrap (ErrStatus FailedPrecondition ''app deletion is pending or its status cannot be confirmed'')
         (rcall (CQuery app) (guard app)))"

text \<open>A stored candidate configuration: hosted, stateless and valid.\<close>

definition candidate_config :: "('e, 'p) app_service \<Rightarrow> string \<Rightarrow> string \<Rightarrow> config option" where
  "candidate_config svc app state = (case FromJSON state of Inl _ \<Rightarrow> None
     | Inr c \<Rightarrow> if \<not> is_ok (Validate (as_k8s svc) c) \<or> cfg_Name c \<noteq> app \<or> cfg_Hosting c = None \<or> state_Mode (cfg_State c) \<noteq> ''stateless''
                then None else Some c)"

text \<open>One generation of an app's history, with its configuration when it is complete, or what deletion reports of it.\<close>

definition generation_config :: "('e, 'p) app_service \<Rightarrow> string \<Rightarrow> string \<Rightarrow> candidate_generation \<Rightarrow> string + config" where
  "generation_config svc app appID g =
     (if gen_AppName g \<noteq> app \<or> gen_AppID g \<noteq> appID \<or> \<not> ValidRevision (gen_RequestID g)
         \<or> (gen_State g \<noteq> ''applied'' \<and> gen_State g \<noteq> ''withdrawn'') then Inl ''candidate history is incomplete''
      else case candidate_config svc app (gen_RequestedState g) of None \<Rightarrow> Inl ''candidate generation configuration is invalid''
        | Some c \<Rightarrow>
            if \<not> is_ok (ValidateCandidateReferences (as_sha256 svc) c (cfg_EnvironmentRevision c) (CandidateRegistrySecretName (as_sha256 svc) c))
            then Inl ''candidate generation configuration is invalid'' else Inr c)"

text \<open>Retiring one generation and asking whether it is gone.\<close>

definition retire_generation :: "('e, 'p) app_service \<Rightarrow> ('e, 'p) runtime \<Rightarrow> candidate_generation \<times> config \<Rightarrow> (('e, 'p) app_world, unit) io" where
  "retire_generation svc rt = (\<lambda>(g, c). RetireCandidateDeployment (on_world rt) c (cfg_EnvironmentRevision c) (gen_RequestID g)
     (CandidateRegistrySecretName (as_sha256 svc) c))"

definition generation_retired :: "('e, 'p) app_service \<Rightarrow> ('e, 'p) runtime \<Rightarrow> candidate_generation \<times> config \<Rightarrow> (('e, 'p) app_world, bool) io" where
  "generation_retired svc rt = (\<lambda>(g, c). CandidateRetired (on_world rt) c (cfg_EnvironmentRevision c) (gen_RequestID g)
     (CandidateRegistrySecretName (as_sha256 svc) c))"

section \<open>Reclaiming capacity\<close>

definition cleanup_pending :: "('s, 'a) io" where
  "cleanup_pending = refuse ''release is applied; earlier workload cleanup is pending, retry advance''"

text \<open>The history with its configurations; the selected generation must be in it as it was applied.\<close>

definition reclaim_history :: "('e, 'p) app_service \<Rightarrow> string \<Rightarrow> string \<Rightarrow> deploy_request \<Rightarrow> candidate_generation list
    \<Rightarrow> (candidate_generation \<times> config) list option" where
  "reclaim_history svc app appID request gens = (case mapM (\<lambda>g. rbind (generation_config svc app appID g) (\<lambda>c. Inr (g, c))) gens of
     Inl _ \<Rightarrow> None
   | Inr l \<Rightarrow>
       if \<not> list_all (\<lambda>g. gen_RequestID g = req_RequestID request \<longrightarrow>
              gen_State g = ''applied'' \<and> gen_RequestedState g = req_RequestedState request) gens
          \<or> \<not> list_ex (\<lambda>g. gen_RequestID g = req_RequestID request) gens
       then None else Some l)"

text \<open>Retire the other generations, each under the gate that selects the applied one, then wait for them.\<close>

definition reclaim_workloads :: "('e, 'p) app_service \<Rightarrow> ('e, 'p) runtime \<Rightarrow> (gate \<Rightarrow> ('e, bool) io) \<Rightarrow> string \<Rightarrow> gate
    \<Rightarrow> (candidate_generation \<times> config) list \<Rightarrow> (('e, 'p) app_world, unit) io" where
  "reclaim_workloads svc rt legacy app g others =
     io_bind (io_each (\<lambda>gc. io_ok_or (CaptureActivationGate (on_world rt) app) cleanup_pending (\<lambda>(seen, _).
         if seen \<noteq> g then cleanup_pending else io_ok_or (retire_generation svc rt gc) cleanup_pending io_ret)) others) (\<lambda>_.
     io_ok_or (rcall (CErase app) (legacy g)) cleanup_pending (\<lambda>legacyGone.
     io_bind (io_map (\<lambda>gc. io_ok_or (generation_retired svc rt gc) cleanup_pending io_ret) others) (\<lambda>gone.
     io_ok_or (CaptureActivationGate (on_world rt) app) cleanup_pending (\<lambda>(after, _).
     if after \<noteq> g \<or> \<not> (legacyGone \<and> list_all (\<lambda>b. b) gone) then cleanup_pending else io_ret ()))))"

text \<open>The part of \<^verbatim>\<open>reclaimCandidateCapacity\<close> that asks the runtime, once the request is known to be the app's state.\<close>

definition reclaim_selected :: "('e, 'p) app_service \<Rightarrow> ('e, 'p) runtime \<Rightarrow> (gate \<Rightarrow> ('e, bool) io) \<Rightarrow> string \<Rightarrow> string
    \<Rightarrow> deploy_request \<Rightarrow> string \<Rightarrow> (('e, 'p) app_world, unit) io" where
  "reclaim_selected svc rt legacy app rid request appID =
     io_ok_or (CaptureActivationGate (on_world rt) app) cleanup_pending (\<lambda>(g, tgt).
     case CandidateSelector (as_sha256 svc) app rid of None \<Rightarrow> cleanup_pending
     | Some selected \<Rightarrow>
         if gate_OperationID g \<noteq> rid \<or> \<not> same_map (target_Selector tgt) selected then io_ret ()
         else case FromJSON (req_RequestedState request) of Inl _ \<Rightarrow> cleanup_pending
           | Inr cfg \<Rightarrow>
               if \<not> is_ok (Validate (as_k8s svc) cfg) \<or> cfg_Name cfg \<noteq> app then cleanup_pending
               else io_ok_or (RestoredCandidateTargetReady (on_world rt) g tgt cfg) cleanup_pending (\<lambda>ready.
                 if \<not> ready then cleanup_pending
                 else io_bind (read_io (\<lambda>d. Inr (GenerationsByApp app appID d))) (\<lambda>gens.
                   case reclaim_history svc app appID request gens of None \<Rightarrow> cleanup_pending
                   | Some l \<Rightarrow> reclaim_workloads svc rt legacy app g (filter (\<lambda>(h, _). gen_RequestID h \<noteq> rid) l))))"

definition reclaimCandidateCapacity :: "('e, 'p) app_service \<Rightarrow> string \<Rightarrow> string \<Rightarrow> (('e, 'p) app_world, unit) io" where
  "reclaimCandidateCapacity svc app rid = (case as_capacity svc of None \<Rightarrow> io_ret ()
     | Some (rt, guard, legacy) \<Rightarrow>
         io_ok_or (read_io (request_Find app rid)) cleanup_pending (\<lambda>request.
         if req_AppName request \<noteq> app \<or> req_RequestID request \<noteq> rid then cleanup_pending
         else if req_State request \<noteq> ''applied'' then io_ret ()
         else io_ok_or (read_io (binding_Find app rid)) cleanup_pending (\<lambda>binding.
         if bind_AppName binding \<noteq> app \<or> bind_RequestID binding \<noteq> rid then cleanup_pending
         else io_ok_or (read_io (app_FindByID (bind_AppID binding))) cleanup_pending (\<lambda>current.
         if app_DeletedAt current \<noteq> None \<or> app_Name current \<noteq> app \<or> app_DesiredStateJSON current \<noteq> req_RequestedState request
         then io_ret ()
         else io_found (read_io (request_PendingByApp app))
           (io_ok_or (rcall (CQuery app) (guard app)) cleanup_pending (\<lambda>_.
              reclaim_selected svc rt legacy app rid request (bind_AppID binding)))
           cleanup_pending (\<lambda>_. io_ret ())))))"

section \<open>Retry after a withdrawn first release\<close>

text \<open>
  The records that prove that the service at the gate belongs to a withdrawn first release of the same
  app: its request, both bindings, the retired app row, its configuration, checkpoint, intent and gate.
\<close>

definition withdrawn_initial :: "('e, 'p) app_service \<Rightarrow> deploy_request \<Rightarrow> gate \<Rightarrow> 'p target \<Rightarrow> string \<Rightarrow> (('e, 'p) app_world, config) io" where
  "withdrawn_initial svc record g tgt oldID =
     (let app = req_AppName record; rid = req_RequestID record; L = as_libs svc; sha = as_sha256 svc in
      io_ok_or (read_io (request_Find app oldID)) (io_text ''inactive candidate bootstrap was not withdrawn safely'') (\<lambda>old.
      if req_AppName old \<noteq> app \<or> req_RequestID old \<noteq> oldID \<or> req_State old \<noteq> ''withdrawn'' \<or> req_PreviousAppID old \<noteq> []
         \<or> req_PreviousState old \<noteq> [] then io_text ''inactive candidate bootstrap was not withdrawn safely''
      else io_ok_or (read_io (binding_Find app oldID)) (io_text ''withdrawn candidate binding is unavailable'') (\<lambda>oldB.
      if bind_AppName oldB \<noteq> app \<or> bind_RequestID oldB \<noteq> oldID \<or> bind_AppID oldB = [] \<or> bind_DeploymentID oldB = []
      then io_text ''withdrawn candidate binding is unavailable''
      else io_ok_or (read_io (binding_Find app rid)) (io_text ''retry candidate binding does not reuse the withdrawn app'') (\<lambda>newB.
      if bind_AppName newB \<noteq> app \<or> bind_RequestID newB \<noteq> rid \<or> bind_AppID newB \<noteq> bind_AppID oldB
      then io_text ''retry candidate binding does not reuse the withdrawn app''
      else io_ok_or (read_io (app_FindByID (bind_AppID oldB))) (io_text ''withdrawn candidate app identity is not retired'') (\<lambda>oldApp.
      if app_ID oldApp \<noteq> bind_AppID oldB \<or> app_Name oldApp \<noteq> app \<or> app_DeletedAt oldApp = None
      then io_text ''withdrawn candidate app identity is not retired''
      else case candidate_config svc app (req_RequestedState old) of None \<Rightarrow> io_text ''withdrawn candidate configuration is invalid''
      | Some oldCfg \<Rightarrow>
          io_ok_or (read_io (FindRuntimeCheckpoint app oldID)) (io_text ''withdrawn candidate recovery proof is unavailable'') (\<lambda>c.
          if chk_Stage c \<noteq> ''withdrawn'' \<or> chk_AppName c \<noteq> app \<or> chk_RequestID c \<noteq> oldID
          then io_text ''withdrawn candidate recovery proof is unavailable''
          else case decodeCandidateIntent L (chk_IntentJSON c) of None \<Rightarrow> io_text ''withdrawn candidate recovery intent is invalid''
          | Some i \<Rightarrow>
              if \<not> intentMatches i app oldID (req_RequestedState old) (cfg_EnvironmentRevision oldCfg) (CandidateRegistrySecretName sha oldCfg)
                 \<or> \<not> validInitialCapture (intent_InitialGate i) (intent_PredecessorTarget i) app
                 \<or> \<not> IsInactiveCandidateTarget (lib_port L) sha oldCfg oldID (intent_PredecessorTarget i)
              then io_text ''withdrawn candidate recovery intent is invalid''
              else case decodeGate (chk_GateJSON c) of None \<Rightarrow> io_text ''withdrawn candidate traffic gate changed''
              | Some oldGate \<Rightarrow>
                  if oldGate \<noteq> g \<or> \<not> validSavedGate oldGate (intent_InitialGate i) app (candidateRecoveryID sha app oldID) True
                     \<or> \<not> DeepEqual (lib_port L) tgt (intent_PredecessorTarget i)
                  then io_text ''withdrawn candidate traffic gate changed'' else io_ret oldCfg))))))"

definition reuseWithdrawnInitialCandidate :: "('e, 'p) app_service \<Rightarrow> deploy_request \<Rightarrow> config \<Rightarrow> gate \<Rightarrow> 'p target
    \<Rightarrow> (('e, 'p) app_world, gate \<times> 'p target) io" where
  "reuseWithdrawnInitialCandidate svc record cfg g tgt =
     (let app = req_AppName record; rid = req_RequestID record; sha = as_sha256 svc in
      case as_reuse svc of None \<Rightarrow> io_text ''candidate bootstrap reuse is unsupported''
      | Some (rt, initial, reset) \<Rightarrow>
          io_ok_or (rcall (CQuery app) (initial g)) (io_text ''inactive candidate bootstrap identity is ambiguous'') (\<lambda>oldID.
          if oldID = rid \<or> \<not> ValidRevision oldID then io_text ''inactive candidate bootstrap identity is ambiguous''
          else io_bind (withdrawn_initial svc record g tgt oldID) (\<lambda>oldCfg.
          io_bind (CandidateRetired (on_world rt) oldCfg (cfg_EnvironmentRevision oldCfg) oldID (CandidateRegistrySecretName sha oldCfg)) (\<lambda>retired.
          if \<not> retired then io_text ''withdrawn candidate workload is not retired''
          else io_bind (rcall (CBootstrap rid) (reset g cfg oldID rid)) (\<lambda>(newGate, newTarget).
          if \<not> validInitialCapture newGate newTarget app
             \<or> \<not> IsInactiveCandidateTarget (lib_port (as_libs svc)) sha cfg rid newTarget
          then io_text ''candidate bootstrap retry target is invalid''
          else if gate_UID newGate \<noteq> gate_UID g \<or> gate_Namespace newGate \<noteq> gate_Namespace g \<or> gate_App newGate \<noteq> gate_App g
                  \<or> gate_OperationID newGate \<noteq> CandidateBootstrapOperationID sha app rid
          then io_text ''candidate bootstrap retry fence is invalid''
          else io_ret (newGate, newTarget))))))"

section \<open>Preparation\<close>

text \<open>
  \<^verbatim>\<open>CaptureActivationGate\<close>; a service that does not exist yet is created first when the request has no
  predecessor. \<open>failed\<close> is what becomes of an error of the capture.
\<close>

definition capture_or_bootstrap :: "('e, 'p) runtime \<Rightarrow> string \<Rightarrow> bool \<Rightarrow> (('e, 'p) app_world, unit) io \<Rightarrow> (srv_err \<Rightarrow> srv_err)
    \<Rightarrow> (('e, 'p) app_world, gate \<times> 'p target) io" where
  "capture_or_bootstrap rt app initial bootstrap failed =
     io_try (CaptureActivationGate (on_world rt) app) (\<lambda>r. case r of
       Inr x \<Rightarrow> io_ret x
     | Inl e \<Rightarrow>
         if IsNotFound e \<and> initial
         then io_bind bootstrap (\<lambda>_. io_try (CaptureActivationGate (on_world rt) app) (\<lambda>r. case r of
                Inr x \<Rightarrow> io_ret x | Inl e \<Rightarrow> io_fail (failed e)))
         else io_fail (failed e))"

definition previous_config :: "('e, 'p) app_service \<Rightarrow> config \<Rightarrow> string \<Rightarrow> config option" where
  "previous_config svc cfg state = (case FromJSON state of Inl _ \<Rightarrow> None
     | Inr c \<Rightarrow> if \<not> is_ok (Validate (as_k8s svc) c) \<or> cfg_Name c \<noteq> cfg_Name cfg then None else Some c)"

definition bundle_or_none :: "('e, 'p) app_service \<Rightarrow> config \<Rightarrow> (('e, 'p) app_world, gomap) io" where
  "bundle_or_none svc cfg =
     (if cfg_EnvironmentRevision cfg \<noteq> [] then resolveEnvironmentBundle svc (cfg_Name cfg) (cfg_EnvironmentRevision cfg) else io_ret [])"

definition prepareCandidateRequest :: "('e, 'p) app_service \<Rightarrow> deploy_request \<Rightarrow> config \<Rightarrow> ('e, 'p) submission_runtime
    \<Rightarrow> (('e, 'p) app_world, unit) io" where
  "prepareCandidateRequest svc record cfg sub = (case sub of (rt, prep, create) \<Rightarrow>
     (let rid = req_RequestID record; initial = (req_PreviousAppID record = []) in
      io_found (read_io (FindRuntimeCheckpoint (req_AppName record) rid))
        (io_bind (bundle_or_none svc cfg) (\<lambda>values.
         io_bind (resolveRuntimeRegistry svc cfg) (\<lambda>credential.
         io_bind (io_wrap (ErrStatus FailedPrecondition ''candidate dependencies could not be prepared; request remains pending'')
           (rcall (CDepend rid) (prep cfg values (cfg_EnvironmentRevision cfg) rid credential))) (\<lambda>_.
         io_bind (capture_or_bootstrap rt (cfg_Name cfg) initial
             (io_wrap (ErrStatus FailedPrecondition ''candidate bootstrap unconfirmed; inspect request before retrying'')
               (rcall (CBootstrap rid) (create cfg rid)))
             (\<lambda>_. ErrStatus FailedPrecondition ''candidate traffic target is unavailable'')) (\<lambda>(g, tgt).
         if \<not> validInitialCapture g tgt (cfg_Name cfg) then refuse ''candidate traffic target is invalid''
         else io_bind (if initial \<and> \<not> IsInactiveCandidateTarget (lib_port (as_libs svc)) (as_sha256 svc) cfg rid tgt
              then io_wrap (ErrStatus FailedPrecondition ''initial candidate service is not a safely reusable withdrawn target'')
                     (io_bind (reuseWithdrawnInitialCandidate svc record cfg g tgt) (\<lambda>_. io_ret ()))
              else io_ret ()) (\<lambda>_.
         if initial then io_ret ()
         else case previous_config svc cfg (req_PreviousState record) of
             None \<Rightarrow> refuse ''candidate predecessor is invalid or port change is unsupported''
           | Some previous \<Rightarrow>
               if service_Port (cfg_Service previous) \<noteq> service_Port (cfg_Service cfg)
               then refuse ''candidate predecessor is invalid or port change is unsupported'' else io_ret ()))))))
        (io_status Internal ''read candidate preparation'')
        (\<lambda>_. io_ret ())))"

definition prepareUnstartedRecovery :: "('e, 'p) app_service \<Rightarrow> deploy_request \<Rightarrow> config
    \<Rightarrow> ('e, 'p) runtime \<times> ('e, unit) io \<times> (config \<Rightarrow> string \<Rightarrow> ('e, unit) io) \<Rightarrow> (('e, 'p) app_world, unit) io" where
  "prepareUnstartedRecovery svc record cfg rec = (case rec of (rt, ensure, create) \<Rightarrow>
     (let app = req_AppName record; rid = req_RequestID record; initial = (req_PreviousAppID record = []); L = as_libs svc in
      if cfg_Name cfg \<noteq> app \<or> \<not> is_ok (Validate (as_k8s svc) cfg) \<or> cfg_Hosting cfg = None \<or> state_Mode (cfg_State cfg) \<noteq> ''stateless''
         \<or> initial \<noteq> (req_PreviousState record = []) then io_text ''invalid unprepared candidate recovery''
      else io_bind (capture_or_bootstrap rt (cfg_Name cfg) initial
          (io_bind (rcall (CBootstrap rid) ensure) (\<lambda>_. rcall (CBootstrap rid) (create cfg rid))) (\<lambda>e. e)) (\<lambda>(g, tgt).
        if \<not> validInitialCapture g tgt (cfg_Name cfg) then io_text ''invalid recovery target''
        else io_bind
          (if initial then
             (if \<not> IsInactiveCandidateTarget (lib_port L) (as_sha256 svc) cfg rid tgt
              then io_wrap (ErrText ''initial recovery target is not a safely reusable withdrawn target'')
                     (reuseWithdrawnInitialCandidate svc record cfg g tgt)
              else io_ret (g, tgt))
           else case previous_config svc cfg (req_PreviousState record) of None \<Rightarrow> io_text ''invalid recovery predecessor''
             | Some previous \<Rightarrow> io_bind (RestoredCandidateTargetReady (on_world rt) g tgt previous) (\<lambda>ready.
                 if \<not> ready then io_text ''recovery predecessor is not ready'' else io_ret (g, tgt)))
          (\<lambda>(g, tgt). repo_SaveActivationIntent (app_checkpoints svc) app rid (intent_JSON L
             \<lparr>intent_AppName = app, intent_RequestID = rid, intent_RequestedState = req_RequestedState record,
              intent_SecretRevision = cfg_EnvironmentRevision cfg, intent_RegistrySecret = CandidateRegistrySecretName (as_sha256 svc) cfg,
              intent_InitialGate = g, intent_PredecessorTarget = tgt\<rparr>)))))"

section \<open>Submission\<close>

definition rejectRequestedWithdrawal :: "string \<Rightarrow> string \<Rightarrow> (('e, 'p) app_world, unit) io" where
  "rejectRequestedWithdrawal app rid = io_bind (read_io (\<lambda>d. Inr (WithdrawalRequested app rid d))) (\<lambda>withdrawal.
     if withdrawal then refuse ''deployment withdrawal was requested; recover this request instead of activating it'' else io_ret ())"

definition advance_candidate :: "('e, 'p) app_service \<Rightarrow> ('e, 'p) runtime \<Rightarrow> string \<Rightarrow> string \<Rightarrow> config \<Rightarrow> (('e, 'p) app_world, gate) io" where
  "advance_candidate svc rt app rid cfg = AdvanceCandidateOperation (as_libs svc) (app_checkpoints svc) db_requests (on_world rt) app rid cfg
     (cfg_EnvironmentRevision cfg) (CandidateRegistrySecretName (as_sha256 svc) cfg)"

definition complete_candidate :: "('e, 'p) app_service \<Rightarrow> ('e, 'p) runtime \<Rightarrow> string \<Rightarrow> string \<Rightarrow> string \<Rightarrow> (('e, 'p) app_world, deploy_response option) io" where
  "complete_candidate svc rt app rid outcome =
     io_bind (cancelled svc) (\<lambda>c. io_bind (clock svc) (\<lambda>now.
     CompleteCandidateOperation (as_libs svc) c (app_checkpoints svc) db_requests (db_finalizer (as_libs svc)) (on_world rt) app rid outcome
       (as_routeTLSEnabled svc) now))"

definition pending_reply :: "('e, 'p) app_service \<Rightarrow> candidate_binding \<Rightarrow> string \<Rightarrow> (('e, 'p) app_world, deploy_response) io" where
  "pending_reply svc binding requested =
     io_bind (internally ''read pending candidate app'' (read_io (app_FindByID (bind_AppID binding)))) (\<lambda>a.
     io_bind (io_of (protoApp svc a)) (\<lambda>p.
     io_ret \<lparr>pbr_App = Some p, pbr_Deployment = Some \<lparr>pbd_Id = bind_DeploymentID binding, pbd_AppId = bind_AppID binding,
         pbd_Status = ''pending'', pbd_FailureReason = [], pbd_CreatedAt = formatProtoTime (bind_CreatedAt binding),
         pbd_UpdatedAt = formatProtoTime (bind_CreatedAt binding)\<rparr>,
       pbr_WithdrawalConfirmed = False, pbr_RequestedState = requested\<rparr>))"

text \<open>The admission checks, made only for a request that is not known yet.\<close>

definition admit_candidate :: "('e, 'p) app_service \<Rightarrow> config \<Rightarrow> string \<Rightarrow> (('e, 'p) app_world, unit) io" where
  "admit_candidate svc cfg rid = io_found (read_io (request_Find (cfg_Name cfg) rid))
     (io_bind (bundle_or_none svc cfg) (\<lambda>_.
      io_bind (resolveRuntimeRegistry svc cfg) (\<lambda>_.
      preflightHosting svc cfg)))
     (io_status Internal ''read candidate request'') (\<lambda>_. io_ret ())"

record deploy_app_request =
  dar_DeployerYaml :: string
  dar_RequestId :: string
  dar_ReportWithdrawal :: bool

definition new_deploy_request :: "config \<Rightarrow> string \<Rightarrow> string \<Rightarrow> bool \<Rightarrow> gotime \<Rightarrow> deploy_request" where
  "new_deploy_request cfg rid requested report now =
     \<lparr>req_AppName = cfg_Name cfg, req_RequestID = rid, req_State = ''pending'', req_RequestedState = requested,
      req_PreviousAppID = [], req_PreviousState = [], req_ReportWithdrawal = report, req_ResponseJSON = [],
      req_CreatedAt = now, req_UpdatedAt = now\<rparr>"

text \<open>The part of \<^verbatim>\<open>deployCandidateApp\<close> that runs a pending request under its durable binding.\<close>

definition run_candidate :: "('e, 'p) app_service \<Rightarrow> ('e, 'p) submission_runtime \<Rightarrow> config \<Rightarrow> string \<Rightarrow> candidate_binding \<Rightarrow> deploy_request
    \<Rightarrow> string \<Rightarrow> (('e, 'p) app_world, deploy_response) io" where
  "run_candidate svc sub cfg rid binding record requested =
     io_bind (rejectRequestedWithdrawal (req_AppName record) (req_RequestID record)) (\<lambda>_.
     io_bind (prepareCandidateRequest svc record cfg sub) (\<lambda>_.
     io_try (advance_candidate svc (fst sub) (cfg_Name cfg) rid cfg) (\<lambda>r. case r of
         Inl e \<Rightarrow>
           if \<not> isNotReady e then refuse ''candidate request remains pending; inspect or recover before retrying''
           else pending_reply svc binding requested
       | Inr _ \<Rightarrow>
           io_bind (io_wrap (ErrStatus FailedPrecondition ''candidate outcome remains unconfirmed; inspect request before retrying'')
             (complete_candidate svc (fst sub) (cfg_Name cfg) rid ''applied'')) (\<lambda>result. case result of
               None \<Rightarrow> pending_reply svc binding requested
             | Some reply \<Rightarrow> io_bind (reclaimCandidateCapacity svc (req_AppName record) (req_RequestID record)) (\<lambda>_. io_ret reply)))))"

definition deployCandidateApp :: "('e, 'p) app_service \<Rightarrow> config \<Rightarrow> deploy_app_request \<Rightarrow> (('e, 'p) app_world, deploy_response) io" where
  "deployCandidateApp svc cfg req = (case as_submission svc of None \<Rightarrow> refuse ''candidate submission is not configured''
     | Some sub \<Rightarrow>
         let rid = dar_RequestId req; requested = config_JSON cfg in
         if cfg_Hosting cfg = None \<or> state_Mode (cfg_State cfg) \<noteq> ''stateless'' \<or> cfg_Secrets cfg \<noteq> []
         then io_status InvalidArgument ''candidate submission requires hosted stateless configuration and versioned environment settings''
         else
           io_bind (admit_candidate svc cfg rid) (\<lambda>_.
           io_bind (fresh_id svc ''app'') (\<lambda>appID.
           io_bind (fresh_id svc ''deploy'') (\<lambda>deploymentID.
           io_bind (clock svc) (\<lambda>now.
           io_bind (io_wrap (ErrStatus FailedPrecondition ''candidate request conflicts with an existing request or app'')
             (db_tx (binding_Begin (as_k8s svc) (new_deploy_request cfg rid requested (dar_ReportWithdrawal req) now) appID deploymentID now))) (\<lambda>(binding, _).
           io_bind (internally ''read candidate request'' (read_io (request_Find (cfg_Name cfg) rid))) (\<lambda>record.
           if req_State record \<noteq> ''pending'' then
             io_bind (if req_State record = ''applied'' then reclaimCandidateCapacity svc (req_AppName record) (req_RequestID record)
                      else io_ret ()) (\<lambda>_. io_of (decodeCandidateReply (req_ResponseJSON record)))
           else run_candidate svc sub cfg rid binding record requested)))))))"

section \<open>Advancing and recovering\<close>

text \<open>What \<^verbatim>\<open>mutateCandidateRequestLocked\<close> does about a checkpoint that is missing, broken or foreign.\<close>

definition ensure_prepared :: "('e, 'p) app_service \<Rightarrow> bool \<Rightarrow> deploy_request \<Rightarrow> config \<Rightarrow> srv_err + runtime_checkpoint \<Rightarrow> (('e, 'p) app_world, unit) io" where
  "ensure_prepared svc recover request cfg c =
     (if c = Inl (ErrDb ErrNotFound) then
        (if \<not> recover then
           (case as_submission svc of None \<Rightarrow> refuse ''candidate preparation is unsupported''
            | Some sub \<Rightarrow> prepareCandidateRequest svc request cfg sub)
         else
           (case as_unprepared svc of None \<Rightarrow> refuse ''unprepared candidate recovery is unsupported''
            | Some passive \<Rightarrow> io_wrap (ErrStatus FailedPrecondition ''candidate recovery preparation remains unconfirmed'')
                (prepareUnstartedRecovery svc request cfg passive)))
      else case c of Inl _ \<Rightarrow> refuse ''candidate preparation is incomplete; operator review required''
        | Inr c \<Rightarrow>
            if chk_AppName c \<noteq> req_AppName request \<or> chk_RequestID c \<noteq> req_RequestID request
            then refuse ''candidate checkpoint identity is invalid'' else io_ret ())"

definition finish_candidate :: "('e, 'p) app_service \<Rightarrow> ctx \<Rightarrow> ('e, 'p) runtime \<Rightarrow> bool \<Rightarrow> deploy_request \<Rightarrow> (('e, 'p) app_world, deploy_metadata) io" where
  "finish_candidate svc ctx rt recover request =
     (let app = req_AppName request; rid = req_RequestID request in
      io_bind (io_wrap (ErrStatus FailedPrecondition ''candidate outcome remains unconfirmed; inspect request before retrying'')
        (complete_candidate svc rt app rid (if recover then ''withdrawn'' else ''applied''))) (\<lambda>_.
      io_bind (if \<not> recover then reclaimCandidateCapacity svc app rid else io_ret ()) (\<lambda>_.
      GetDeployRequest ctx app rid)))"

definition mutate_pending :: "('e, 'p) app_service \<Rightarrow> ctx \<Rightarrow> ('e, 'p) runtime \<Rightarrow> bool \<Rightarrow> deploy_request \<Rightarrow> (('e, 'p) app_world, deploy_metadata) io" where
  "mutate_pending svc ctx rt recover request =
     (let app = req_AppName request; rid = req_RequestID request in
      case FromJSON (req_RequestedState request) of Inl _ \<Rightarrow> refuse ''candidate configuration is invalid''
      | Inr cfg \<Rightarrow>
          if \<not> is_ok (Validate (as_k8s svc) cfg) then refuse ''candidate configuration is invalid''
          else io_try (read_io (FindRuntimeCheckpoint app rid)) (\<lambda>c.
            io_bind (ensure_prepared svc recover request cfg c) (\<lambda>_.
            if recover then finish_candidate svc ctx rt recover request
            else if (case c of Inl _ \<Rightarrow> False | Inr c \<Rightarrow> chk_Stage c \<noteq> ''fenced'' \<and> chk_Stage c \<noteq> ''activated'')
            then refuse ''candidate cannot advance from this stage; recovery or operator review required''
            else io_try (advance_candidate svc rt app rid cfg) (\<lambda>r. case r of
                Inl e \<Rightarrow> if isNotReady e then GetDeployRequest ctx app rid
                         else refuse ''candidate could not advance; inspect request or recover''
              | Inr _ \<Rightarrow> finish_candidate svc ctx rt recover request))))"

definition mutateCandidateRequestLocked :: "('e, 'p) app_service \<Rightarrow> ctx \<Rightarrow> string \<Rightarrow> string \<Rightarrow> bool \<Rightarrow> ('e, 'p) runtime \<Rightarrow> (('e, 'p) app_world, deploy_metadata) io" where
  "mutateCandidateRequestLocked svc ctx app rid recover rt =
     io_found (read_io (binding_Find app rid)) (refuse ''request is not a prepared candidate'') (io_status Internal ''read candidate binding'') (\<lambda>binding.
     if bind_AppName binding \<noteq> app \<or> bind_RequestID binding \<noteq> rid \<or> bind_AppID binding = [] \<or> bind_DeploymentID binding = []
     then refuse ''candidate binding is invalid''
     else io_bind (internally ''read candidate request'' (read_io (request_Find app rid))) (\<lambda>request.
     if req_AppName request \<noteq> app \<or> req_RequestID request \<noteq> rid then refuse ''candidate request identity is invalid''
     else if req_State request \<noteq> ''pending'' then
       (if req_State request \<noteq> (if recover then ''withdrawn'' else ''applied'')
        then refuse ''request already completed with a different outcome''
        else io_bind (if \<not> recover then reclaimCandidateCapacity svc app rid else io_ret ()) (\<lambda>_. GetDeployRequest ctx app rid))
     else io_bind
       (if recover then io_bind (clock svc) (\<lambda>now.
          io_bind (io_wrap (ErrStatus FailedPrecondition ''could not persist deployment withdrawal decision'')
            (db_tx (BeginWithdrawal (as_k8s svc) request (bind_AppID binding) (bind_DeploymentID binding) now))) (\<lambda>_. io_ret ()))
        else rejectRequestedWithdrawal app rid) (\<lambda>_.
       mutate_pending svc ctx rt recover request)))"

definition mutateCandidateRequest :: "('e, 'p) app_service \<Rightarrow> ctx \<Rightarrow> string \<Rightarrow> string \<Rightarrow> bool \<Rightarrow> (('e, 'p) app_world, deploy_metadata) io" where
  "mutateCandidateRequest svc ctx app rid recover =
     io_bind (io_of (requireCaller ctx CallerAdmin)) (\<lambda>_.
     if TrimSpace app = [] \<or> \<not> ValidRevision rid then io_status InvalidArgument ''app_name and valid request_id are required''
     else if \<not> as_enableCandidateOperations svc then refuse ''candidate operations are disabled or not configured''
     else case Option.bind (as_runtime svc) ar_CandidateRequest of
         None \<Rightarrow> refuse ''candidate operations are unsupported by this runtime''
       | Some rt \<Rightarrow>
           io_bind (acquireOperation svc app) (\<lambda>_. mutateCandidateRequestLocked svc ctx app rid recover rt))"

definition AdvanceDeployRequest :: "('e, 'p) app_service \<Rightarrow> ctx \<Rightarrow> string \<Rightarrow> string \<Rightarrow> (('e, 'p) app_world, deploy_metadata) io" where
  "AdvanceDeployRequest svc ctx app rid = mutateCandidateRequest svc ctx app rid False"

definition RecoverDeployRequest :: "('e, 'p) app_service \<Rightarrow> ctx \<Rightarrow> string \<Rightarrow> string \<Rightarrow> (('e, 'p) app_world, deploy_metadata) io" where
  "RecoverDeployRequest svc ctx app rid = mutateCandidateRequest svc ctx app rid True"

section \<open>Withdrawal\<close>

definition WithdrawDeployRequest :: "('e, 'p) app_service \<Rightarrow> ctx \<Rightarrow> deploy_app_request \<Rightarrow> (('e, 'p) app_world, deploy_metadata) io" where
  "WithdrawDeployRequest svc ctx req =
     io_bind (io_of (requireCaller ctx CallerAdmin)) (\<lambda>_.
     let rid = dar_RequestId req in
     if \<not> ValidRevision rid \<or> \<not> dar_ReportWithdrawal req
     then io_status InvalidArgument ''valid request_id and report_withdrawal are required''
     else case Parse (as_k8s svc) (as_yaml svc) (dar_DeployerYaml req) of
         Inl _ \<Rightarrow> io_status InvalidArgument ''withdrawal requires the original hosted stateless deployment configuration''
       | Inr cfg \<Rightarrow>
           if cfg_Hosting cfg = None \<or> state_Mode (cfg_State cfg) \<noteq> ''stateless'' \<or> cfg_Secrets cfg \<noteq> []
           then io_status InvalidArgument ''withdrawal requires the original hosted stateless deployment configuration''
           else case as_unprepared svc of None \<Rightarrow> refuse ''candidate withdrawal is disabled or not configured''
             | Some (rt, _) \<Rightarrow>
                 if \<not> as_enableCandidateOperations svc then refuse ''candidate withdrawal is disabled or not configured''
                 else
                   io_bind (acquireOperation svc (cfg_Name cfg)) (\<lambda>_.
                   io_bind (checkCandidateDeletion svc (cfg_Name cfg)) (\<lambda>_.
                   io_bind (fresh_id svc ''app'') (\<lambda>appID.
                   io_bind (fresh_id svc ''deploy'') (\<lambda>deploymentID.
                   io_bind (clock svc) (\<lambda>now.
                   io_bind (io_wrap (ErrStatus FailedPrecondition ''withdrawal conflicts with an existing deployment or request'')
                     (db_tx (BeginWithdrawal (as_k8s svc) (new_deploy_request cfg rid (config_JSON cfg) True now) appID deploymentID now))) (\<lambda>_.
                   io_bind (internally ''read withdrawal request'' (read_io (request_Find (cfg_Name cfg) rid))) (\<lambda>record.
                   if req_State record \<noteq> ''pending'' then GetDeployRequest ctx (cfg_Name cfg) rid
                   else mutateCandidateRequestLocked svc ctx (cfg_Name cfg) rid True rt))))))))"

section \<open>Deletion\<close>

text \<open>The database part of a deletion: routes, credentials and bundles of the app, then the app row.\<close>

definition erase_rows :: "('e, 'p) app_service \<Rightarrow> app \<Rightarrow> (('e, 'p) app_world, app) io" where
  "erase_rows svc a =
     io_bind (internally ''delete candidate routes'' (db_tx (DeleteByApp (app_ID a)))) (\<lambda>_.
     io_bind (internally ''delete candidate registry credentials'' (in_vault (credential_DeleteByApp (app_Name a)))) (\<lambda>_.
     io_bind (internally ''delete candidate environment settings'' (in_vault (bundle_DeleteByApp (app_Name a)))) (\<lambda>_.
     if app_DeletedAt a = None
     then io_bind (clock svc) (\<lambda>now. internally ''mark candidate app deleted'' (db_tx (MarkDeleted (app_Name a) now)))
     else io_ret a)))"

text \<open>Fence, retire every generation, wait for each, clean up, erase the rows, lift the fence.\<close>

definition delete_generations :: "('e, 'p) app_service \<Rightarrow> ('e, 'p) deletion_runtime \<Rightarrow> app \<Rightarrow> config \<Rightarrow> (candidate_generation \<times> config) list
    \<Rightarrow> (('e, 'p) app_world, pb_app) io" where
  "delete_generations svc del a cfg gens = (case del of (rt, start, cleanup, finish) \<Rightarrow>
     io_bind (io_wrap (ErrStatus FailedPrecondition ''candidate deletion fence is unconfirmed; retry deletion'')
       (rcall (CErase (app_Name a)) (start cfg (app_ID a) (app_DeletedAt a \<noteq> None)))) (\<lambda>g.
     io_bind (io_each (\<lambda>gc. io_wrap (ErrStatus FailedPrecondition ''candidate retirement remains pending; retry deletion'')
       (retire_generation svc rt gc)) gens) (\<lambda>_.
     io_bind (io_each (\<lambda>gc. io_ok_or (generation_retired svc rt gc) (refuse ''candidate workloads are draining; retry deletion'') (\<lambda>gone.
       if gone then io_ret () else refuse ''candidate workloads are draining; retry deletion'')) gens) (\<lambda>_.
     io_ok_or (rcall (CErase (app_Name a)) (cleanup g (app_ID a))) (refuse ''candidate resources are being removed; retry deletion'') (\<lambda>clean.
     if \<not> clean then refuse ''candidate resources are being removed; retry deletion''
     else io_bind (erase_rows svc a) (\<lambda>a'.
     io_bind (io_wrap (ErrStatus FailedPrecondition ''final candidate cleanup remains pending; retry deletion'')
       (rcall (CErase (app_Name a)) (finish g (app_ID a')))) (\<lambda>_.
     internally ''decode deleted candidate app'' (io_of (protoApp svc a')))))))))"

text \<open>None: not a candidate app, so that the caller goes on.\<close>

definition tryDeleteCandidateApp :: "('e, 'p) app_service \<Rightarrow> string \<Rightarrow> (('e, 'p) app_world, pb_app option) io" where
  "tryDeleteCandidateApp svc name =
     io_found (read_io (app_FindByName name)) (io_ret None) (io_status Internal ''read app for deletion'') (\<lambda>a.
     io_bind (read_io (\<lambda>d. Inr (GenerationsByApp name (app_ID a) d))) (\<lambda>gens.
     if gens = [] then io_ret None
     else case as_deletion svc of None \<Rightarrow> refuse ''candidate deletion is not enabled or configured''
       | Some del \<Rightarrow>
           if \<not> as_enableCandidateOperations svc then refuse ''candidate deletion is not enabled or configured''
           else case FromJSON (app_DesiredStateJSON a) of Inl _ \<Rightarrow> refuse ''candidate app configuration is invalid''
             | Inr cfg \<Rightarrow>
                 if \<not> is_ok (Validate (as_k8s svc) cfg) \<or> cfg_Name cfg \<noteq> name \<or> state_Mode (cfg_State cfg) \<noteq> ''stateless''
                 then refuse ''candidate app configuration is invalid''
                 else case mapM (\<lambda>g. rbind (generation_config svc name (app_ID a) g) (\<lambda>c. Inr (g, c))) gens of
                     Inl msg \<Rightarrow> refuse msg
                   | Inr l \<Rightarrow> io_bind (delete_generations svc del a cfg l) (\<lambda>p. io_ret (Some p))))"

end
