(* ===== verification/App_Deploy.thy ===== *)
theory App_Deploy
  imports App_Candidates
begin

text \<open>
  Deploying, checking and deleting an app: \<^verbatim>\<open>DeployApp\<close>, \<^verbatim>\<open>DeleteApp\<close> and their helpers
  (\<^verbatim>\<open>internal/server/app.go\<close>) and \<^verbatim>\<open>PreflightApp\<close> (\<^verbatim>\<open>internal/server/app_preflight.go\<close>).
\<close>

section \<open>Checks before the first write\<close>

definition validateRequiredTLS :: "('e, 'p) app_service \<Rightarrow> config \<Rightarrow> srv_err + unit" where
  "validateRequiredTLS svc cfg =
     (if routing_RequireTLS (cfg_Routing cfg) \<and> \<not> as_routeTLSEnabled svc
      then Inl (ErrStatus FailedPrecondition ''routing.requireTLS cannot be satisfied because application TLS is disabled'')
      else Inr ())"

definition rejectHostingProfileRemoval :: "('e, 'p) app_service \<Rightarrow> config \<Rightarrow> app \<Rightarrow> srv_err + unit" where
  "rejectHostingProfileRemoval svc requested existing =
     (if cfg_Hosting requested \<noteq> None then Inr ()
      else case FromJSON (app_DesiredStateJSON existing) of
          Inl e \<Rightarrow> Inl (ErrStatus FailedPrecondition (''existing app configuration cannot be read safely: '' @ as_cfgtext svc e))
        | Inr previous \<Rightarrow>
            if cfg_Hosting previous \<noteq> None
            then Inl (ErrStatus FailedPrecondition ''hosting profile cannot be omitted when updating an opted-in app'')
            else Inr ())"

definition validateRequestedDomain :: "string \<Rightarrow> string \<Rightarrow> (('e, 'p) app_world, unit) io" where
  "validateRequestedDomain appName domainName =
     (if TrimSpace domainName = [] then io_ret ()
      else io_found (read_io (FindByDomain (TrimSpace domainName))) (io_ret ()) (io_status Internal ''check route domain'') (\<lambda>r.
        io_bind (internally ''get route app'' (read_io (app_FindByID (route_AppID r)))) (\<lambda>a.
        if app_Name a \<noteq> appName then io_status AlreadyExists ''domain is already routed'' else io_ret ())))"

definition no_pending :: "string \<Rightarrow> (('e, 'p) app_world, unit) io" where
  "no_pending app = io_found (read_io (request_PendingByApp app)) (io_ret ()) (io_status Internal ''read pending deployment request'')
     (\<lambda>_. refuse ''a tracked deployment request is pending'')"

definition requested_config :: "('e, 'p) app_service \<Rightarrow> ctx \<Rightarrow> string \<Rightarrow> srv_err + config" where
  "requested_config svc ctx yaml =
     rbind (requireCaller ctx CallerAdmin) (\<lambda>_.
     if TrimSpace yaml = [] then Inl (ErrStatus InvalidArgument ''deployer_yaml is required'')
     else rbind (map_err (\<lambda>e. ErrStatus InvalidArgument (as_cfgtext svc e)) (Parse (as_k8s svc) (as_yaml svc) yaml)) (\<lambda>cfg.
     rbind (validateRequiredTLS svc cfg) (\<lambda>_. Inr cfg)))"

section \<open>Preflight\<close>

datatype preflight_warning = Snapshot_only | Separate_verification | Legacy_rendering | Retained_storage

definition PreflightApp :: "('e, 'p) app_service \<Rightarrow> ctx \<Rightarrow> string \<Rightarrow> (('e, 'p) app_world, string \<times> preflight_warning list) io" where
  "PreflightApp svc ctx yaml =
     io_bind (io_of (requested_config svc ctx yaml)) (\<lambda>cfg.
     io_bind (checkCandidateDeletion svc (cfg_Name cfg)) (\<lambda>_.
     io_bind (resolveRuntimeRegistry svc cfg) (\<lambda>_.
     io_bind (bundle_or_none svc cfg) (\<lambda>_.
     io_bind (preflightHosting svc cfg) (\<lambda>_.
     io_bind (io_found (read_io (app_FindByName (cfg_Name cfg))) (io_ret ()) (io_status Internal ''find app'')
       (\<lambda>existing. io_of (rejectHostingProfileRemoval svc cfg existing))) (\<lambda>_.
     io_bind (validateRequestedDomain (cfg_Name cfg) (routing_Domain (cfg_Routing cfg))) (\<lambda>_.
     io_ret (config_JSON cfg, [Snapshot_only, Separate_verification]
       @ (if cfg_Hosting cfg = None then [Legacy_rendering] else [])
       @ (if cfg_Storage cfg \<noteq> None then [Retained_storage] else [])))))))))"

section \<open>Applying a configuration\<close>

definition syncRoute :: "('e, 'p) app_service \<Rightarrow> app \<Rightarrow> config \<Rightarrow> gotime \<Rightarrow> (('e, 'p) app_world, unit) io" where
  "syncRoute svc a cfg now =
     (let domainName = TrimSpace (routing_Domain (cfg_Routing cfg)) in
      if domainName = [] then internally ''delete app route'' (db_tx (DeleteByApp (app_ID a)))
      else io_bind (internally ''create route id'' (fresh_id svc ''route'')) (\<lambda>routeID.
        internally ''sync app route'' (db_tx (UpsertForApp \<lparr>route_ID = routeID, route_AppID = app_ID a, route_Domain = domainName,
          route_TargetPort = service_Port (cfg_Service cfg), route_Status = ''pending'', route_TLSEnabled = as_routeTLSEnabled svc,
          route_CreatedAt = now, route_UpdatedAt = now\<rparr>))))"

definition resolveConfiguredEnvironment :: "('e, 'p) app_service \<Rightarrow> string \<Rightarrow> string \<Rightarrow> config \<Rightarrow> (('e, 'p) app_world, gomap \<times> string) io" where
  "resolveConfiguredEnvironment svc appName appID cfg =
     (if cfg_EnvironmentRevision cfg \<noteq> []
      then io_bind (resolveEnvironmentBundle svc appName (cfg_EnvironmentRevision cfg)) (\<lambda>values. io_ret (values, cfg_EnvironmentRevision cfg))
      else resolveSecretValues svc appID (cfg_Secrets cfg))"

text \<open>The applied resources, when there is a runtime.\<close>

definition apply_resources :: "('e, 'p) app_service \<Rightarrow> config \<Rightarrow> gomap \<Rightarrow> string \<Rightarrow> credential option \<Rightarrow> (('e, 'p) app_world, unit) io" where
  "apply_resources svc cfg values revision credential = (case as_runtime svc of None \<Rightarrow> io_ret ()
     | Some rt \<Rightarrow> reconcileRuntime rt cfg values revision credential)"

text \<open>\<^verbatim>\<open>errors.Join\<close> prints one error per line.\<close>

definition rollbackAppUpdate :: "('e, 'p) app_service \<Rightarrow> app \<Rightarrow> gotime \<Rightarrow> (('e, 'p) app_world, unit) io" where
  "rollbackAppUpdate svc previous now = (case parseStoredConfigForDeployment svc (app_DesiredStateJSON previous) of
     Inl e \<Rightarrow> io_fail (ErrText (''decode last applied app configuration: '' @ as_errtext svc e))
   | Inr cfg \<Rightarrow> io_try (resolveConfiguredEnvironment svc (app_Name previous) (app_ID previous) cfg) (\<lambda>r. case r of
       Inl e \<Rightarrow> io_fail (ErrText (''resolve last applied app secrets: '' @ as_errtext svc e))
     | Inr (values, revision) \<Rightarrow>
         io_bind (resolveRuntimeRegistry svc cfg) (\<lambda>credential.
         io_try (apply_resources svc cfg values revision credential) (\<lambda>applied.
         io_try (syncRoute svc previous cfg now) (\<lambda>routed. case (applied, routed) of
           (Inr _, Inr _) \<Rightarrow> io_ret ()
         | (Inl e, Inr _) \<Rightarrow> io_fail (ErrText (''restore app resources: '' @ as_errtext svc e))
         | (Inr _, Inl e) \<Rightarrow> io_fail (ErrText (''restore app route: '' @ as_errtext svc e))
         | (Inl e, Inl e') \<Rightarrow> io_fail (ErrText (''restore app resources: '' @ as_errtext svc e @ [CHR 0x0A]
             @ ''restore app route: '' @ as_errtext svc e')))))))"

definition recordDeployEvent :: "('e, 'p) app_service \<Rightarrow> string \<Rightarrow> string \<Rightarrow> string \<Rightarrow> app \<Rightarrow> deployment \<Rightarrow> config \<Rightarrow> string \<Rightarrow> (('e, 'p) app_world, unit) io" where
  "recordDeployEvent svc eventType severity message a dep cfg failureReason =
     app_recordEvent svc (app_event eventType severity (message @ '' for app '' @ app_Name a) (app_ID a) (dep_ID dep)
       ([(''app_name'', JStr (app_Name a)), (''image'', JStr (cfg_Image cfg))]
        @ (if failureReason \<noteq> [] then [(''failure_reason'', JStr failureReason)] else [])))"

definition recordFailedDeployment :: "('e, 'p) app_service \<Rightarrow> app \<Rightarrow> deployment \<Rightarrow> config \<Rightarrow> srv_err \<Rightarrow> gotime \<Rightarrow> (('e, 'p) app_world, unit) io" where
  "recordFailedDeployment svc a dep cfg failure now =
     io_try (db_tx (deployment_UpdateStatus (dep_ID dep) ''failed'' (as_errtext svc failure) now)) (\<lambda>_.
     recordDeployEvent svc ''app.deploy.failed'' ''error'' ''deployment failed'' a dep cfg (as_errtext svc failure))"

definition completeDeploymentRequest :: "string \<Rightarrow> string \<Rightarrow> string \<Rightarrow> string \<Rightarrow> gotime \<Rightarrow> (('e, 'p) app_world, unit) io" where
  "completeDeploymentRequest appName rid state response now = db_tx (request_Complete appName rid state response now)"

section \<open>Withdrawing a failed deployment\<close>

definition remove_resources :: "('e, 'p) app_service \<Rightarrow> app \<Rightarrow> (('e, 'p) app_world, unit) io" where
  "remove_resources svc a =
     io_bind (case as_runtime svc of None \<Rightarrow> io_ret () | Some rt \<Rightarrow> rcall (CDelete (app_Name a)) (ar_Delete rt (app_Name a))) (\<lambda>_.
     db_tx (DeleteByApp (app_ID a)))"

definition restore_previous :: "('e, 'p) app_service \<Rightarrow> app \<Rightarrow> app option \<Rightarrow> gotime \<Rightarrow> (('e, 'p) app_world, unit) io" where
  "restore_previous svc a previous now = (case previous of
     None \<Rightarrow> io_bind (remove_resources svc a) (\<lambda>_. io_bind (db_tx (MarkDeleted (app_Name a) now)) (\<lambda>_. io_ret ()))
   | Some p \<Rightarrow>
       io_bind (if app_DeletedAt p \<noteq> None then remove_resources svc a else rollbackAppUpdate svc p now) (\<lambda>_.
       db_tx (app_Update p)))"

definition withdrawFailedDeployment :: "('e, 'p) app_service \<Rightarrow> app \<Rightarrow> deployment \<Rightarrow> config \<Rightarrow> app option \<Rightarrow> gotime \<Rightarrow> string \<Rightarrow> (('e, 'p) app_world, deploy_response) io" where
  "withdrawFailedDeployment svc a dep cfg previous now rid =
     io_bind (internally ''deployment withdrawal failed'' (restore_previous svc a previous now)) (\<lambda>_.
     io_bind (internally ''deployment withdrawal failed''
       (db_tx (deployment_UpdateStatus (dep_ID dep) ''failed'' ''deployment withdrawn after failed apply'' now))) (\<lambda>_.
     let dep = dep\<lparr>dep_Status := ''failed''\<rparr> in
     io_bind (recordDeployEvent svc ''app.deploy.failed'' ''error'' ''deployment withdrawn'' a dep cfg ''deployment withdrawn after failed apply'') (\<lambda>_.
     io_bind (case previous of Some p \<Rightarrow> io_ret p
       | None \<Rightarrow> io_ok_or (read_io (app_FindByName (app_Name a))) (io_ret a) io_ret) (\<lambda>responseApp.
     io_bind (internally ''encode withdrawn app'' (io_of (protoApp svc responseApp))) (\<lambda>p.
     let response = \<lparr>pbr_App = Some p, pbr_Deployment = Some (protoDeployment dep), pbr_WithdrawalConfirmed = True,
                      pbr_RequestedState = config_JSON cfg\<rparr> in
     if rid = [] then io_ret response
     else io_bind (internally ''persist deployment withdrawal''
       (completeDeploymentRequest (cfg_Name cfg) rid ''withdrawn'' (response_JSON response) now)) (\<lambda>_. io_ret response))))))"

section \<open>Deploying\<close>

text \<open>A request that is already known answers with its durable outcome, or is still pending.\<close>

definition stored_outcome :: "deploy_request \<Rightarrow> srv_err \<Rightarrow> srv_err + deploy_response" where
  "stored_outcome r broken =
     (if req_State r \<noteq> ''pending'' then of_option broken (decode_response (req_ResponseJSON r))
      else Inl (ErrStatus FailedPrecondition ''deployment request is pending''))"

definition replay_request :: "config \<Rightarrow> string \<Rightarrow> bool \<Rightarrow> (('e, 'p) app_world, deploy_response option) io" where
  "replay_request cfg rid report =
     io_found (read_io (request_Find (cfg_Name cfg) rid)) (io_ret None) (io_status Internal ''read deployment request'') (\<lambda>existing.
       if req_RequestedState existing \<noteq> config_JSON cfg \<or> req_ReportWithdrawal existing \<noteq> report
       then io_status AlreadyExists ''request_id is already bound to another deployment''
       else io_bind (io_of (stored_outcome existing (ErrStatus Internal ''stored deployment result is invalid''))) (\<lambda>r. io_ret (Some r)))"

definition begin_request :: "config \<Rightarrow> string \<Rightarrow> bool \<Rightarrow> gotime \<Rightarrow> (('e, 'p) app_world, deploy_response option) io" where
  "begin_request cfg rid report now =
     io_bind (io_wrap (ErrStatus FailedPrecondition ''begin deployment request'')
       (db_tx (request_Begin (new_deploy_request cfg rid (config_JSON cfg) report now)))) (\<lambda>(stored, created).
     if created then io_ret None
     else io_bind (io_of (stored_outcome stored (ErrStatus FailedPrecondition ''deployment request is pending''))) (\<lambda>r. io_ret (Some r)))"

text \<open>The app row that is deployed to, and the last applied one that a failure returns to.\<close>

definition target_app :: "('e, 'p) app_service \<Rightarrow> config \<Rightarrow> bool \<Rightarrow> gotime \<Rightarrow> (('e, 'p) app_world, app \<times> app option) io" where
  "target_app svc cfg report now =
     io_found (read_io (app_FindByName (cfg_Name cfg)))
       (io_bind (internally ''create app id'' (fresh_id svc ''app'')) (\<lambda>appID.
        let a = \<lparr>app_ID = appID, app_Name = cfg_Name cfg, app_Image = cfg_Image cfg, app_DesiredStateJSON = config_JSON cfg,
                 app_CreatedAt = now, app_UpdatedAt = now, app_DeletedAt = None\<rparr>
        in io_bind (internally ''create app'' (db_tx (app_Create a))) (\<lambda>_. io_ret (a, None))))
       (io_status Internal ''find app'')
       (\<lambda>existing.
        io_bind (io_of (rejectHostingProfileRemoval svc cfg existing)) (\<lambda>_.
        let wasDeleted = (app_DeletedAt existing \<noteq> None);
            a = existing\<lparr>app_Image := cfg_Image cfg, app_DesiredStateJSON := config_JSON cfg, app_UpdatedAt := now, app_DeletedAt := None\<rparr>
        in io_bind (if wasDeleted then internally ''update app'' (db_tx (app_Update a)) else io_ret ()) (\<lambda>_.
           io_ret (a, if \<not> wasDeleted \<or> report then Some existing else None))))"

text \<open>
  A failure after the deployment row was written: return to the last applied configuration, note the
  failure, report it. \<open>joined\<close> makes the error of a failed rollback, \<open>final\<close> the error returned.
\<close>

definition fail_deployment :: "('e, 'p) app_service \<Rightarrow> app \<Rightarrow> deployment \<Rightarrow> config \<Rightarrow> app option \<Rightarrow> gotime \<Rightarrow> (string \<Rightarrow> srv_err)
    \<Rightarrow> (srv_err \<Rightarrow> srv_err) \<Rightarrow> srv_err \<Rightarrow> (('e, 'p) app_world, deploy_response) io" where
  "fail_deployment svc a dep cfg previous now joined final err =
     io_bind (case previous of None \<Rightarrow> io_ret err
       | Some p \<Rightarrow> io_try (rollbackAppUpdate svc p now) (\<lambda>r. case r of Inr _ \<Rightarrow> io_ret err
           | Inl e \<Rightarrow> io_ret (joined (as_errtext svc err @ ''; rollback to the last applied app configuration failed: '' @ as_errtext svc e)))) (\<lambda>err.
     io_bind (recordFailedDeployment svc a dep cfg err now) (\<lambda>_. io_fail (final err)))"

definition prefixed :: "('e, 'p) app_service \<Rightarrow> string \<Rightarrow> srv_err \<Rightarrow> srv_err" where
  "prefixed svc msg e = ErrStatus Internal (msg @ as_errtext svc e)"

text \<open>The reply of an applied deployment; a tracked one is stored with the request before it is returned.\<close>

definition finish_deployment :: "('e, 'p) app_service \<Rightarrow> app \<Rightarrow> deployment \<Rightarrow> config \<Rightarrow> string \<Rightarrow> gotime \<Rightarrow> (('e, 'p) app_world, deploy_response) io" where
  "finish_deployment svc a dep0 cfg rid now =
     io_bind (internally ''mark deployment healthy'' (db_tx (deployment_UpdateStatus (dep_ID dep0) ''healthy'' [] now))) (\<lambda>_.
     let dep = dep0\<lparr>dep_Status := ''healthy''\<rparr> in
     io_bind (recordDeployEvent svc ''app.deploy.succeeded'' ''info'' ''deployment applied'' a dep cfg []) (\<lambda>_.
     io_bind (internally ''decode desired state'' (io_of (protoApp svc a))) (\<lambda>p.
     let response = \<lparr>pbr_App = Some p, pbr_Deployment = Some (protoDeployment dep), pbr_WithdrawalConfirmed = False,
                      pbr_RequestedState = (if rid \<noteq> [] then config_JSON cfg else [])\<rparr> in
     if rid = [] then io_ret response
     else io_bind (internally ''persist deployment result''
       (completeDeploymentRequest (cfg_Name cfg) rid ''applied'' (response_JSON response) now)) (\<lambda>_. io_ret response))))"

text \<open>Apply the resources, publish the route, commit the app row.\<close>

definition apply_deployment :: "('e, 'p) app_service \<Rightarrow> app \<Rightarrow> deployment \<Rightarrow> config \<Rightarrow> app option \<Rightarrow> bool \<Rightarrow> string \<Rightarrow> gotime
    \<Rightarrow> gomap \<Rightarrow> string \<Rightarrow> credential option \<Rightarrow> (('e, 'p) app_world, deploy_response) io" where
  "apply_deployment svc a dep cfg previous report rid now values revision credential =
     (let withdraw = withdrawFailedDeployment svc a dep cfg previous now rid in
      io_try (apply_resources svc cfg values revision credential) (\<lambda>r. case r of
        Inl e \<Rightarrow> if report \<and> definitiveRuntimeRejection e then withdraw
                 else fail_deployment svc a dep cfg previous now ErrText (prefixed svc ''apply app resources: '') e
      | Inr _ \<Rightarrow> io_try (syncRoute svc a cfg now) (\<lambda>r. case r of
          Inl e \<Rightarrow> if report then withdraw else fail_deployment svc a dep cfg previous now (ErrStatus Internal) (\<lambda>e. e) e
        | Inr _ \<Rightarrow> io_try (if previous \<noteq> None then db_tx (app_Update a) else io_ret ()) (\<lambda>r. case r of
            Inl e \<Rightarrow> if report then withdraw
                     else fail_deployment svc a dep cfg previous now ErrText (prefixed svc ''commit applied app configuration: '') e
          | Inr _ \<Rightarrow> finish_deployment svc a dep cfg rid now))))"

text \<open>
  The deployment row, its start event and the app's environment: secrets are resolved once the app and
  the deployment exist, a bundle was resolved before.
\<close>

definition open_deployment :: "('e, 'p) app_service \<Rightarrow> config \<Rightarrow> bool \<Rightarrow> string \<Rightarrow> gotime \<Rightarrow> gomap \<Rightarrow> credential option \<Rightarrow> app \<Rightarrow> app option
    \<Rightarrow> (('e, 'p) app_world, deploy_response) io" where
  "open_deployment svc cfg report rid now bundle credential a previous =
     io_bind (internally ''create deployment id'' (fresh_id svc ''deploy'')) (\<lambda>deploymentID.
     let dep = \<lparr>dep_ID = deploymentID, dep_AppID = app_ID a, dep_Status = ''pending'', dep_FailureReason = [],
                dep_CreatedAt = now, dep_UpdatedAt = now\<rparr> in
     io_bind (internally ''create deployment'' (db_tx (deployment_Create dep))) (\<lambda>_.
     io_bind (recordDeployEvent svc ''app.deploy.started'' ''info'' ''deployment started'' a dep cfg []) (\<lambda>_.
     io_try (if cfg_EnvironmentRevision cfg = [] then resolveConfiguredEnvironment svc (app_Name a) (app_ID a) cfg
             else io_ret (bundle, cfg_EnvironmentRevision cfg)) (\<lambda>r. case r of
         Inl e \<Rightarrow>
           let err = (case e of ErrMissingSecret name \<Rightarrow> ErrStatus FailedPrecondition (as_errtext svc e) | _ \<Rightarrow> e)
           in io_bind (recordFailedDeployment svc a dep cfg err now) (\<lambda>_. io_fail err)
       | Inr (values, revision) \<Rightarrow> apply_deployment svc a dep cfg previous report rid now values revision credential))))"

definition start_deployment :: "('e, 'p) app_service \<Rightarrow> config \<Rightarrow> bool \<Rightarrow> string \<Rightarrow> gotime \<Rightarrow> gomap \<Rightarrow> credential option
    \<Rightarrow> (('e, 'p) app_world, deploy_response) io" where
  "start_deployment svc cfg report rid now bundle credential =
     io_bind (target_app svc cfg report now) (\<lambda>(a, previous). open_deployment svc cfg report rid now bundle credential a previous)"

text \<open>The deployment that is not a candidate's: \<open>rid\<close> is empty for one that is not tracked.\<close>

definition deploy_direct :: "('e, 'p) app_service \<Rightarrow> config \<Rightarrow> string \<Rightarrow> bool \<Rightarrow> (('e, 'p) app_world, deploy_response) io" where
  "deploy_direct svc cfg rid report =
     io_bind (if rid = [] then io_ret None else replay_request cfg rid report) (\<lambda>known. case known of
       Some response \<Rightarrow> io_ret response
     | None \<Rightarrow>
         io_bind (bundle_or_none svc cfg) (\<lambda>bundle.
         io_bind (resolveRuntimeRegistry svc cfg) (\<lambda>credential.
         io_bind (preflightHosting svc cfg) (\<lambda>_.
         io_bind (validateRequestedDomain (cfg_Name cfg) (routing_Domain (cfg_Routing cfg))) (\<lambda>_.
         io_bind (clock svc) (\<lambda>now.
         io_bind (if rid = [] then io_ret None else begin_request cfg rid report now) (\<lambda>replayed. case replayed of
           Some response \<Rightarrow> io_ret response
         | None \<Rightarrow> start_deployment svc cfg report rid now bundle credential)))))))"

definition DeployApp :: "('e, 'p) app_service \<Rightarrow> ctx \<Rightarrow> deploy_app_request \<Rightarrow> (('e, 'p) app_world, deploy_response) io" where
  "DeployApp svc ctx req =
     io_bind (io_of (requested_config svc ctx (dar_DeployerYaml req))) (\<lambda>cfg.
     let rid = TrimSpace (dar_RequestId req); tracked = (rid \<noteq> []) in
     if tracked \<and> \<not> ValidRevision rid
     then io_status InvalidArgument ''request_id must be a 64 character lowercase hexadecimal value''
     else
       io_bind (acquireOperation svc (cfg_Name cfg)) (\<lambda>_.
       io_bind (checkCandidateDeletion svc (cfg_Name cfg)) (\<lambda>_.
       io_bind (if \<not> tracked then no_pending (cfg_Name cfg) else io_ret ()) (\<lambda>_.
       if tracked \<and> as_enableCandidateOperations svc \<and> cfg_Hosting cfg \<noteq> None \<and> cfg_Storage cfg = None
       then deployCandidateApp svc cfg req
       else deploy_direct svc cfg rid (dar_ReportWithdrawal req)))))"

section \<open>Deleting\<close>

definition delete_direct :: "('e, 'p) app_service \<Rightarrow> string \<Rightarrow> (('e, 'p) app_world, pb_app) io" where
  "delete_direct svc name =
     io_found (read_io (FindActiveByName name)) (io_status NotFound ''app not found'') (io_status Internal ''get app'') (\<lambda>a.
     io_bind (case as_runtime svc of None \<Rightarrow> io_ret ()
       | Some rt \<Rightarrow> internally ''delete app resources'' (rcall (CDelete (app_Name a)) (ar_Delete rt (app_Name a)))) (\<lambda>_.
     io_bind (internally ''delete app routes'' (db_tx (DeleteByApp (app_ID a)))) (\<lambda>_.
     io_bind (internally ''delete app registry credentials'' (in_vault (credential_DeleteByApp (app_Name a)))) (\<lambda>_.
     io_bind (internally ''delete app environment bundles'' (in_vault (bundle_DeleteByApp (app_Name a)))) (\<lambda>_.
     io_bind (clock svc) (\<lambda>now.
     io_bind (internally ''delete app'' (db_tx (MarkDeleted name now))) (\<lambda>a'.
     internally ''decode desired state'' (io_of (protoApp svc a')))))))))"

definition DeleteApp :: "('e, 'p) app_service \<Rightarrow> ctx \<Rightarrow> string \<Rightarrow> (('e, 'p) app_world, pb_app) io" where
  "DeleteApp svc ctx name0 =
     io_bind (io_of (requireCaller ctx CallerAdmin)) (\<lambda>_.
     let name = TrimSpace name0 in
     if name = [] then io_status InvalidArgument ''name is required''
     else
       io_bind (acquireOperation svc name) (\<lambda>_.
       io_bind (no_pending name) (\<lambda>_.
       io_bind (tryDeleteCandidateApp svc name) (\<lambda>handled. case handled of
         Some p \<Rightarrow> io_ret p
       | None \<Rightarrow> delete_direct svc name))))"

end
