(* ===== verification/App_Safety.thy ===== *)
theory App_Safety
  imports App_Deploy
begin

text \<open>
  What every handler of the app service keeps. \<open>app_reads\<close> is a preorder on worlds that calls of the
  runtime accepted by \<open>Q\<close> and reads stay in (a call is logged with the database it finds); \<open>app_moves\<close> is one that also contains the steps of the
  journal, of the encrypted tables and of the event log. The handlers are proved once in the locales.
  The interpretations are: nothing stored changes (for the handlers that only read), every handler is a
  run of the three transition systems, and the log of calls only grows.
\<close>

section \<open>Steps of the encrypted tables and of the event log\<close>

inductive vstep :: "vault \<Rightarrow> vault \<Rightarrow> bool" where
  set_secret: "secret_Set x v = Inr (u, v') \<Longrightarrow> vstep v v'"
| delete_secret: "secret_Delete i n v = Inr (u, v') \<Longrightarrow> vstep v v'"
| create_credential: "credential_Create c v = Inr (u, v') \<Longrightarrow> vstep v v'"
| delete_credentials: "credential_DeleteByApp a v = Inr (u, v') \<Longrightarrow> vstep v v'"
| create_bundle: "bundle_Create b v = Inr (u, v') \<Longrightarrow> vstep v v'"
| delete_bundles: "bundle_DeleteByApp a v = Inr (u, v') \<Longrightarrow> vstep v v'"

definition estep :: "store \<Rightarrow> store \<Rightarrow> bool" where
  "estep d d' \<longleftrightarrow> (\<exists>e. d' = d\<lparr>events := events d @ [e]\<rparr>)"

lemma vault_ok_reach: "vstep\<^sup>*\<^sup>* v v' \<Longrightarrow> vault_ok v \<Longrightarrow> vault_ok v'"
  by (induction rule: rtranclp_induct) (auto elim!: vstep.cases intro: vault_methods_ok)

lemma Record_estep: "Record c raw now e d = Inr (u, d') \<Longrightarrow> estep d d'"
  by (auto simp: Record_def event_Create_def estep_def res_simps Let_def map_err_def split: if_splits sum.splits)

section \<open>Reading\<close>

context world_preorder
begin

lemma keeps_found: "keeps m \<Longrightarrow> keeps missing \<Longrightarrow> keeps broken \<Longrightarrow> (\<And>x. keeps (f x)) \<Longrightarrow> keeps (io_found m missing broken f)"
  unfolding io_found_def by (intro keeps_intros)

lemma keeps_ok_or: "keeps m \<Longrightarrow> keeps failed \<Longrightarrow> (\<And>x. keeps (f x)) \<Longrightarrow> keeps (io_ok_or m failed f)"
  unfolding io_ok_or_def by (intro keeps_intros)

lemma keeps_map: "(\<And>x. keeps (f x)) \<Longrightarrow> keeps (io_map f xs)"
  by (induction xs) (auto intro: keeps_intros)

lemma keeps_each: "(\<And>x. keeps (f x)) \<Longrightarrow> keeps (io_each f xs)"
  by (induction xs) (auto intro: keeps_intros)

lemmas keeps_more = keeps_intros keeps_found keeps_ok_or keeps_map keeps_each

end

locale app_reads = world_preorder R for R :: "('e, 'p) app_world \<Rightarrow> ('e, 'p) app_world \<Rightarrow> bool" +
  fixes Q :: "'p call \<Rightarrow> bool"
  assumes R_outside: "w_db t = w_db s \<Longrightarrow> x_vault (w_env t) = x_vault (w_env s) \<Longrightarrow> x_store (w_env t) = x_store (w_env s) \<Longrightarrow>
      w_log t = w_log s @ z \<Longrightarrow> list_all (\<lambda>(c, d). Q c \<and> d = w_db s) z \<Longrightarrow> R s t"
    and Q_query: "Q (CQuery a)" "Q (CAdmit cfg)"
begin

lemma keeps_silent: "keeps (silent m)"
  unfolding keeps_def silent_def out_io_def by (auto intro!: R_outside [where z = "[]"] split: prod.splits)

lemma keeps_rcall: "Q c \<Longrightarrow> keeps (rcall c m)"
  unfolding keeps_def rcall_def call_io_def out_io_def
  by (auto intro!: R_outside [where z = "[(c, d)]" for d] split: prod.splits)

lemma keeps_read: "keeps (read_io f)" "keeps (of_vault g)"
  by (auto simp: keeps_def of_vault_def intro!: R_refl split: sum.splits)

lemma keeps_world: "keeps (clock svc)" "keeps (random svc n)" "keeps (cancelled svc)" "keeps (acquireOperation svc a)"
  unfolding clock_def random_def cancelled_def acquireOperation_def by (rule keeps_silent)+

lemma keeps_fresh: "keeps (fresh_id svc pfx)" "keeps (encrypt svc a t)"
  unfolding fresh_id_def encrypt_def by (intro keeps_more keeps_world)+

lemmas keeps_basic = keeps_more keeps_read keeps_world keeps_fresh keeps_rcall Q_query

lemma keeps_resolve_bundle: "keeps (resolveEnvironmentBundle svc a r)"
  unfolding resolveEnvironmentBundle_def by (intro keeps_basic)

lemma keeps_bundle_or_none: "keeps (bundle_or_none svc cfg)"
  unfolding bundle_or_none_def by (intro keeps_basic keeps_resolve_bundle)

lemma keeps_registry: "keeps (resolveRuntimeRegistry svc cfg)"
  unfolding resolveRuntimeRegistry_def ResolveRegistryCredential_def no_private_pull_def by (intro keeps_basic)

lemma keeps_loop: "keeps (resolve_loop svc a i names vals hashed)"
  by (induction names arbitrary: vals hashed) (auto intro!: keeps_basic)

lemma keeps_secrets: "keeps (resolveSecretValues svc i names)"
  unfolding resolveSecretValues_def by (intro keeps_basic keeps_loop)

lemma keeps_environment: "keeps (resolveConfiguredEnvironment svc a i cfg)"
  unfolding resolveConfiguredEnvironment_def by (intro keeps_basic keeps_resolve_bundle keeps_secrets)

lemma keeps_preflight: "keeps (preflightHosting svc cfg)"
  unfolding preflightHosting_def by (intro keeps_basic)

lemma keeps_deletion_check: "keeps (checkCandidateDeletion svc a)"
  unfolding checkCandidateDeletion_def by (intro keeps_basic)

lemma keeps_domain: "keeps (validateRequestedDomain a n)" "keeps (no_pending a)"
  unfolding validateRequestedDomain_def no_pending_def by (intro keeps_basic)+

lemma keeps_PreflightApp: "keeps (PreflightApp svc ctx yaml)"
  unfolding PreflightApp_def
  by (intro keeps_basic keeps_bundle_or_none keeps_registry keeps_preflight keeps_deletion_check keeps_domain)

lemma keeps_GetDeployRequest: "keeps (GetDeployRequest ctx a r)"
  unfolding GetDeployRequest_def by (intro keeps_basic)

lemma keeps_ListApps: "keeps (ListApps svc ctx)"
  unfolding ListApps_def by (intro keeps_basic)

lemma keeps_lists: "keeps (ListRegistryCredentials svc ctx a)" "keeps (ListSecrets svc ctx a)"
  unfolding ListRegistryCredentials_def ListSecrets_def requireConfigured_def activeApp_def Let_def
  by (intro keeps_basic)+

lemma keeps_logs: "keeps (GetDeploymentLogs svc ctx a n b)"
  unfolding GetDeploymentLogs_def Let_def by (intro keeps_basic)

lemma keeps_replay: "keeps (replay_request cfg rid report)"
  unfolding replay_request_def by (intro keeps_basic)

lemmas keeps_reads = keeps_resolve_bundle keeps_bundle_or_none keeps_registry keeps_secrets keeps_environment keeps_preflight
  keeps_deletion_check keeps_domain keeps_GetDeployRequest keeps_replay

end

section \<open>Writing\<close>

locale app_moves = app_reads R "\<lambda>_. True" for R :: "('e, 'p) app_world \<Rightarrow> ('e, 'p) app_world \<Rightarrow> bool" +
  fixes svc :: "('e, 'p) app_service"
  assumes R_journal: "jstep (as_k8s svc) (as_sha256 svc) (w_db s) d \<Longrightarrow> R s (s\<lparr>w_db := d\<rparr>)"
    and R_vault: "vstep (x_vault (w_env s)) v \<Longrightarrow> R s (s\<lparr>w_env := (w_env s)\<lparr>x_vault := v\<rparr>\<rparr>)"
    and R_events: "estep (x_store (w_env s)) k \<Longrightarrow> R s (s\<lparr>w_env := (w_env s)\<lparr>x_store := k\<rparr>\<rparr>)"
begin

lemma keeps_tx: "(\<And>k d x d'. f k d = Inr (x, d') \<Longrightarrow> jstep (as_k8s svc) (as_sha256 svc) d d') \<Longrightarrow> keeps (tx_io f)"
  unfolding keeps_def tx_io_def by (auto intro: R_journal R_refl split: sum.splits)

lemma keeps_in_vault: "(\<And>v x v'. f v = Inr (x, v') \<Longrightarrow> vstep v v') \<Longrightarrow> keeps (in_vault f)"
  unfolding keeps_def in_vault_def by (auto intro: R_vault R_refl split: sum.splits)

lemma keeps_event: "keeps (in_events (Record c raw now e))"
  unfolding keeps_def in_events_def by (auto intro: R_events R_refl Record_estep split: sum.splits)

lemma keeps_any: "keeps (rcall c m)"
  by (rule keeps_rcall) simp

end

lemma on_world_simps:
  "CaptureActivationGate (on_world rt) a = rcall (CCapture a) (CaptureActivationGate rt a)"
  "FenceActivationGate (on_world rt) g r = rcall (CFence g r) (FenceActivationGate rt g r)"
  "ReplaceActivationTarget (on_world rt) g t = rcall (CReplace g t) (ReplaceActivationTarget rt g t)"
  "PrepareCandidateDeployment (on_world rt) cfg i r p = rcall (CPrepare r) (PrepareCandidateDeployment rt cfg i r p)"
  "ActivatePreparedCandidate (on_world rt) g cfg i r p = rcall (CActivate g r) (ActivatePreparedCandidate rt g cfg i r p)"
  "RetireCandidateDeployment (on_world rt) cfg i r p = rcall (CRetire r) (RetireCandidateDeployment rt cfg i r p)"
  "CandidateRetired (on_world rt) cfg i r p = rcall (CRetired r) (CandidateRetired rt cfg i r p)"
  "RestoredCandidateTargetReady (on_world rt) g t cfg = rcall (CReady g t) (RestoredCandidateTargetReady rt g t cfg)"
  "ReconcileCandidateRoute (on_world rt) g t cfg = rcall (CReconcile g t) (ReconcileCandidateRoute rt g t cfg)"
  by (simp_all add: lift_runtime_def rcall_def)

text \<open>A preorder for the service is one for the candidate operations it composes.\<close>

sublocale app_moves \<subseteq> candidates: candidate_host R "db_checkpoints now" db_requests "on_world rt" "db_finalizer (as_libs svc)" for now rt
  by unfold_locales
     (simp_all only: on_world_simps host_simps(1-5),
      (rule keeps_any keeps_read keeps_tx, (erule jstep.save_intent jstep.record_gate jstep.finalize)?)+)

context app_moves
begin

lemma keeps_record: "keeps (app_recordEvent svc e)"
  unfolding app_recordEvent_def by (intro keeps_basic keeps_event)

lemmas keeps_writes = keeps_any keeps_record

lemma keeps_journal:
  "keeps (db_tx (binding_Begin (as_k8s svc) req i j t))" "keeps (db_tx (BeginWithdrawal (as_k8s svc) req i j t))"
  "keeps (db_tx (request_Begin req))" "keeps (db_tx (request_Complete a r st resp t))"
  "keeps (db_tx (app_Create x))" "keeps (db_tx (app_Update x))" "keeps (db_tx (MarkDeleted n t))"
  "keeps (db_tx (deployment_Create y))" "keeps (db_tx (deployment_UpdateStatus i st re t))"
  "keeps (db_tx (UpsertForApp z))" "keeps (db_tx (DeleteByApp i))" "keeps (db_tx (route_UpdateStatus i st t))"
  by (rule keeps_tx, erule jstep.intros)+

lemma keeps_tables:
  "keeps (in_vault (secret_Set x))" "keeps (in_vault (secret_Delete i n))" "keeps (in_vault (credential_Create c))"
  "keeps (in_vault (credential_DeleteByApp a))" "keeps (in_vault (bundle_Create b))" "keeps (in_vault (bundle_DeleteByApp a))"
  by (rule keeps_in_vault, erule vstep.intros)+

lemma keeps_reconcile: "keeps (reconcileRuntime rt cfg vs rv c)"
  unfolding reconcileRuntime_def no_private_pull_def by (intro keeps_basic keeps_any)

lemma keeps_checkpoint: "keeps (repo_SaveActivationIntent (app_checkpoints svc) a r i)"
  unfolding app_checkpoints_def by (rule candidates.keeps_repo)

lemmas keeps_effects = keeps_basic keeps_reads keeps_writes keeps_journal keeps_tables keeps_reconcile keeps_checkpoint

subsection \<open>Secrets, bundles and credentials\<close>

lemma keeps_reconcile_secret: "keeps (reconcileReferencedSecret svc a n)"
  unfolding reconcileReferencedSecret_def
  by (intro keeps_effects; (intro keeps_effects | simp split: srv_err.split; intro conjI allI impI keeps_effects)+)

lemma keeps_SetSecret: "keeps (SetSecret svc ctx a n v)"
  unfolding SetSecret_def requireConfigured_def appAndSecretName_def activeApp_def Let_def
  by (intro keeps_effects keeps_reconcile_secret)

lemma keeps_DeleteSecret: "keeps (DeleteSecret svc ctx a n)"
  unfolding DeleteSecret_def requireConfigured_def appAndSecretName_def activeApp_def Let_def
  by (intro keeps_effects)

lemma keeps_CreateEnvironmentBundle: "keeps (CreateEnvironmentBundle svc ctx req)"
  unfolding CreateEnvironmentBundle_def stage_bundle_def Let_def by (intro keeps_effects)

lemma keeps_CreateRegistryCredential: "keeps (CreateRegistryCredential svc ctx c)"
  unfolding CreateRegistryCredential_def stage_credential_def Let_def by (intro keeps_effects)

subsection \<open>Queries that refresh routes\<close>

lemma keeps_transition: "keeps (recordRouteHealthTransition svc a r p n)"
  unfolding recordRouteHealthTransition_def replica_meta_def Let_def by (intro keeps_effects)

lemma keeps_refresh: "keeps (refreshRouteStatus svc a r)"
  unfolding refreshRouteStatus_def Let_def by (intro keeps_effects keeps_transition)

lemma keeps_routes: "keeps (ListRoutes svc ctx)" "keeps (InspectRoute svc ctx n)"
  unfolding ListRoutes_def InspectRoute_def refreshed_def Let_def by (intro keeps_effects keeps_refresh)+

lemma keeps_inspect: "keeps (inspectApp svc ctx n)"
  unfolding inspectApp_def Let_def by (intro keeps_effects keeps_refresh)

lemma keeps_GetApp: "keeps (GetApp svc ctx n)" "keeps (InspectApp svc ctx n)"
  unfolding GetApp_def InspectApp_def by (intro keeps_effects keeps_inspect)+

lemma keeps_GetAppStatus: "keeps (GetAppStatus svc ctx n)"
  unfolding GetAppStatus_def report_runtime_def appendDatabaseStatus_def Let_def by (intro keeps_effects keeps_inspect)

subsection \<open>Candidate requests\<close>

lemma keeps_advance_candidate: "keeps (advance_candidate svc rt a r cfg)"
  unfolding advance_candidate_def app_checkpoints_def by (rule candidates.keeps_advance)

lemma keeps_complete_candidate: "keeps (complete_candidate svc rt a r out)"
  unfolding complete_candidate_def app_checkpoints_def by (intro keeps_effects candidates.keeps_complete)

lemma keeps_generations: "keeps (retire_generation svc rt gc)" "keeps (generation_retired svc rt gc)"
  unfolding retire_generation_def generation_retired_def on_world_simps by (intro keeps_effects)+

lemma keeps_reclaim: "keeps (reclaimCandidateCapacity svc a r)"
  unfolding reclaimCandidateCapacity_def reclaim_selected_def reclaim_workloads_def cleanup_pending_def on_world_simps
  by (intro keeps_effects keeps_generations)

lemma keeps_reuse: "keeps (reuseWithdrawnInitialCandidate svc rc cfg g t)"
  unfolding reuseWithdrawnInitialCandidate_def withdrawn_initial_def on_world_simps Let_def by (intro keeps_effects)

lemma keeps_bootstrap: "keeps b \<Longrightarrow> keeps (capture_or_bootstrap rt a i b f)"
  unfolding capture_or_bootstrap_def on_world_simps by (intro keeps_effects)

lemma keeps_prepare: "keeps (prepareCandidateRequest svc rc cfg sub)"
  unfolding prepareCandidateRequest_def Let_def by (intro keeps_effects keeps_bootstrap keeps_reuse)

lemma keeps_unstarted: "keeps (prepareUnstartedRecovery svc rc cfg u)"
  unfolding prepareUnstartedRecovery_def on_world_simps Let_def by (intro keeps_effects keeps_bootstrap keeps_reuse)

lemma keeps_pending_reply: "keeps (pending_reply svc b q)"
  unfolding pending_reply_def by (intro keeps_effects)

lemma keeps_withdrawal_check: "keeps (rejectRequestedWithdrawal a r)"
  unfolding rejectRequestedWithdrawal_def by (intro keeps_effects)

lemma keeps_deployCandidateApp: "keeps (deployCandidateApp svc cfg req)"
  unfolding deployCandidateApp_def run_candidate_def admit_candidate_def Let_def
  by (intro keeps_effects keeps_reclaim keeps_prepare keeps_advance_candidate keeps_complete_candidate keeps_pending_reply keeps_withdrawal_check)

lemma keeps_mutate_locked: "keeps (mutateCandidateRequestLocked svc ctx a r b rt)"
  unfolding mutateCandidateRequestLocked_def mutate_pending_def finish_candidate_def ensure_prepared_def Let_def
  by (intro keeps_effects keeps_reclaim keeps_prepare keeps_unstarted keeps_advance_candidate keeps_complete_candidate keeps_withdrawal_check)

lemma keeps_mutate: "keeps (mutateCandidateRequest svc ctx a r b)"
  unfolding mutateCandidateRequest_def by (intro keeps_effects keeps_mutate_locked)

lemma keeps_Withdraw: "keeps (WithdrawDeployRequest svc ctx req)"
  unfolding WithdrawDeployRequest_def Let_def by (intro keeps_effects keeps_mutate_locked)

lemma keeps_delete_candidate: "keeps (tryDeleteCandidateApp svc n)"
  unfolding tryDeleteCandidateApp_def delete_generations_def erase_rows_def by (intro keeps_effects keeps_generations)

subsection \<open>Deployments\<close>

lemma keeps_syncRoute: "keeps (syncRoute svc a cfg t)"
  unfolding syncRoute_def Let_def by (intro keeps_effects)

lemma keeps_apply: "keeps (apply_resources svc cfg vs rv c)"
  unfolding apply_resources_def by (intro keeps_effects)

lemma keeps_rollback: "keeps (rollbackAppUpdate svc p t)"
  unfolding rollbackAppUpdate_def by (intro keeps_effects keeps_apply keeps_syncRoute)

lemma keeps_deploy_event: "keeps (recordDeployEvent svc ty sv ms a dep cfg re)"
  unfolding recordDeployEvent_def by (intro keeps_effects)

lemma keeps_failed: "keeps (recordFailedDeployment svc a dep cfg e t)"
  unfolding recordFailedDeployment_def by (intro keeps_effects keeps_deploy_event)

lemma keeps_withdraw: "keeps (withdrawFailedDeployment svc a dep cfg p t rid)"
  unfolding withdrawFailedDeployment_def restore_previous_def remove_resources_def completeDeploymentRequest_def Let_def
  by (intro keeps_effects keeps_rollback keeps_deploy_event)

lemma keeps_fail_deployment: "keeps (fail_deployment svc a dep cfg p t j f e)"
  unfolding fail_deployment_def by (intro keeps_effects keeps_rollback keeps_failed)

lemma keeps_apply_deployment: "keeps (apply_deployment svc a dep cfg p re rid t vs rv c)"
  unfolding apply_deployment_def finish_deployment_def completeDeploymentRequest_def Let_def
  by (intro keeps_effects keeps_apply keeps_syncRoute keeps_withdraw keeps_fail_deployment keeps_deploy_event)

lemma keeps_start: "keeps (start_deployment svc cfg re rid t b c)"
  unfolding start_deployment_def open_deployment_def target_app_def Let_def
  by (intro keeps_effects keeps_apply_deployment keeps_failed keeps_deploy_event)

lemma keeps_direct: "keeps (deploy_direct svc cfg rid re)"
  unfolding deploy_direct_def begin_request_def by (intro keeps_effects keeps_start)

lemma keeps_DeployApp: "keeps (DeployApp svc ctx req)"
  unfolding DeployApp_def Let_def by (intro keeps_effects keeps_deployCandidateApp keeps_direct)

lemma keeps_DeleteApp: "keeps (DeleteApp svc ctx n)"
  unfolding DeleteApp_def delete_direct_def Let_def by (intro keeps_effects keeps_delete_candidate)

end

end
