(* ===== verification/App_Server.thy ===== *)
theory App_Server
  imports App_Safety
begin

text \<open>
  The app service as a whole: its calls as a datatype, a run of calls, and the interpretations of the
  locales of \<open>App_Safety\<close>. Every call is a run of the journal, of the encrypted tables and of the event
  log, so that their invariants hold in every state the service reaches.
\<close>

section \<open>Calls\<close>

datatype rpc = RDeploy deploy_app_request | RPreflight string | RDelete string | RWithdraw deploy_app_request
  | RAdvance string string | RRecover string string | RRequest string string | RListApps | RGetApp string | RInspectApp string
  | RStatus string | RLogs string int bool | RListRoutes | RInspectRoute string
  | RSetSecret string string string | RListSecrets string | RDeleteSecret string string
  | RBundle create_bundle_request | RCredential credential | RListCredentials string

definition discard :: "('s, 'a) io \<Rightarrow> ('s, unit) io" where
  "discard m = io_bind m (\<lambda>_. io_ret ())"

fun serve :: "('e, 'p) app_service \<Rightarrow> ctx \<Rightarrow> rpc \<Rightarrow> (('e, 'p) app_world, unit) io" where
  "serve svc ctx (RDeploy req) = discard (DeployApp svc ctx req)"
| "serve svc ctx (RPreflight y) = discard (PreflightApp svc ctx y)"
| "serve svc ctx (RDelete n) = discard (DeleteApp svc ctx n)"
| "serve svc ctx (RWithdraw req) = discard (WithdrawDeployRequest svc ctx req)"
| "serve svc ctx (RAdvance a r) = discard (AdvanceDeployRequest svc ctx a r)"
| "serve svc ctx (RRecover a r) = discard (RecoverDeployRequest svc ctx a r)"
| "serve svc ctx (RRequest a r) = discard (GetDeployRequest ctx a r)"
| "serve svc ctx RListApps = discard (ListApps svc ctx)"
| "serve svc ctx (RGetApp n) = discard (GetApp svc ctx n)"
| "serve svc ctx (RInspectApp n) = discard (InspectApp svc ctx n)"
| "serve svc ctx (RStatus n) = discard (GetAppStatus svc ctx n)"
| "serve svc ctx (RLogs n k f) = discard (GetDeploymentLogs svc ctx n k f)"
| "serve svc ctx RListRoutes = discard (ListRoutes svc ctx)"
| "serve svc ctx (RInspectRoute n) = discard (InspectRoute svc ctx n)"
| "serve svc ctx (RSetSecret a n v) = discard (SetSecret svc ctx a n v)"
| "serve svc ctx (RListSecrets a) = discard (ListSecrets svc ctx a)"
| "serve svc ctx (RDeleteSecret a n) = discard (DeleteSecret svc ctx a n)"
| "serve svc ctx (RBundle req) = discard (CreateEnvironmentBundle svc ctx req)"
| "serve svc ctx (RCredential c) = discard (CreateRegistryCredential svc ctx c)"
| "serve svc ctx (RListCredentials a) = discard (ListRegistryCredentials svc ctx a)"

fun serve_all :: "('e, 'p) app_service \<Rightarrow> (ctx \<times> rpc) list \<Rightarrow> ('e, 'p) app_world \<Rightarrow> ('e, 'p) app_world" where
  "serve_all svc [] s = s"
| "serve_all svc ((ctx, c) # cs) s = serve_all svc cs (snd (serve svc ctx c s))"

context app_moves
begin

lemma keeps_serve: "keeps (serve svc ctx c)"
  by (cases c)
     (simp_all add: discard_def AdvanceDeployRequest_def RecoverDeployRequest_def keeps_bind keeps_ret keeps_DeployApp keeps_PreflightApp
       keeps_DeleteApp keeps_Withdraw keeps_mutate keeps_GetDeployRequest keeps_ListApps keeps_GetApp keeps_GetAppStatus keeps_logs
       keeps_routes keeps_SetSecret keeps_DeleteSecret keeps_lists keeps_CreateEnvironmentBundle keeps_CreateRegistryCredential)

lemma serve_all_R: "R s (serve_all svc cs s)"
proof (induction cs arbitrary: s)
  case (Cons c cs)
  then show ?case using keeps_serve by (cases c) (simp add: keeps_def, blast intro: R_trans)
qed (simp add: R_refl)

end

section \<open>Interpretations\<close>

definition query_call :: "'p call \<Rightarrow> bool" where
  "query_call c \<longleftrightarrow> (case c of CQuery _ \<Rightarrow> True | CAdmit _ \<Rightarrow> True | _ \<Rightarrow> False)"

text \<open>Nothing stored changes and the runtime is only asked.\<close>

definition only_asks :: "('e, 'p) app_world \<Rightarrow> ('e, 'p) app_world \<Rightarrow> bool" where
  "only_asks s t \<longleftrightarrow> w_db t = w_db s \<and> x_vault (w_env t) = x_vault (w_env s) \<and> x_store (w_env t) = x_store (w_env s) \<and>
     (\<exists>z. w_log t = w_log s @ z \<and> list_all (\<lambda>(c, d). query_call c) z)"

interpretation asking: app_reads only_asks query_call
proof
  show "only_asks s s" for s :: "('a, 'b) app_world" by (simp add: only_asks_def)
  show "only_asks s u" if "only_asks s t" "only_asks t u" for s t u :: "('a, 'b) app_world"
    using that by (auto simp: only_asks_def)
qed (auto simp: only_asks_def query_call_def list_all_iff)

text \<open>A run of the three transition systems.\<close>

definition platform_move :: "('e, 'p) app_service \<Rightarrow> ('e, 'p) app_world \<Rightarrow> ('e, 'p) app_world \<Rightarrow> bool" where
  "platform_move svc s t \<longleftrightarrow> jreach (as_k8s svc) (as_sha256 svc) (w_db s) (w_db t) \<and>
     vstep\<^sup>*\<^sup>* (x_vault (w_env s)) (x_vault (w_env t)) \<and> estep\<^sup>*\<^sup>* (x_store (w_env s)) (x_store (w_env t))"

interpretation platform: app_moves "platform_move svc" svc for svc
proof
  show "platform_move svc s u" if "platform_move svc s t" "platform_move svc t u" for s t u
    using that by (auto simp: platform_move_def jreach_def)
qed (auto simp: platform_move_def jreach_def)

text \<open>
  \<open>ahead I\<close>: from a state in which \<open>I\<close> holds of the database, \<open>I\<close> is kept, and every call finds a
  database of which it holds.
\<close>

definition ahead :: "(db \<Rightarrow> bool) \<Rightarrow> ('e, 'p) app_world \<Rightarrow> ('e, 'p) app_world \<Rightarrow> bool" where
  "ahead I s t \<longleftrightarrow> (I (w_db s) \<longrightarrow> I (w_db t) \<and> (\<exists>z. w_log t = w_log s @ z \<and> list_all (\<lambda>(c, d). I d) z))"

lemma ahead_trans: "ahead I s t \<Longrightarrow> ahead I t u \<Longrightarrow> ahead I s u"
  by (auto simp: ahead_def)

interpretation ahead: app_reads "ahead I" "\<lambda>_. True" for I
  by unfold_locales (auto simp: ahead_def list_all_iff)

text \<open>A durable record of a request: the journal keeps it whatever happens.\<close>

definition recorded :: "string \<Rightarrow> string \<Rightarrow> string \<Rightarrow> db \<Rightarrow> bool" where
  "recorded app rid requested d \<longleftrightarrow> schema_ok d \<and> (\<exists>r. find_request d app rid = Some r \<and> q_requested r = requested)"

text \<open>A deployment of the app that was not in the database \<open>d0\<close>.\<close>

definition new_deployment :: "string \<Rightarrow> db \<Rightarrow> db \<Rightarrow> bool" where
  "new_deployment app d0 d \<longleftrightarrow> schema_ok d \<and> (\<exists>row \<in> set (deployments d). d_id row \<notin> d_id ` set (deployments d0) \<and>
     (\<exists>a \<in> set (apps d). a_id a = d_app_id row \<and> a_name a = app))"

lemma req_row_evolves:
  assumes "good d d'" and "schema_ok d" and "find_request d app rid = Some r"
  shows "\<exists>r'. find_request d' app rid = Some r' \<and> req_evo r r'"
proof -
  have "r \<in> set (requests d)" "q_key r = (app, rid)" using assms(2,3) req_find_iff by simp_all
  with assms(1) obtain r' where r': "r' \<in> set (requests d')" "req_evo r r'"
    by (auto simp: good_def evolves_def rows_evolve_def)
  then have "q_key r' = q_key r" using req_evo_fixed by simp
  with r' \<open>q_key r = (app, rid)\<close> assms(1) show ?thesis
    using req_find_iff [of d' app rid r'] by (auto simp: good_def)
qed

lemma recorded_jstep: "jstep lib sha d d' \<Longrightarrow> recorded app rid requested d \<Longrightarrow> recorded app rid requested d'"
proof -
  assume j: "jstep lib sha d d'" and r: "recorded app rid requested d"
  then have g: "good d d'" by (auto simp: recorded_def intro: jstep_good)
  from r obtain x where "find_request d app rid = Some x" "q_requested x = requested" "schema_ok d" by (auto simp: recorded_def)
  with req_row_evolves [OF g] obtain y where y: "find_request d' app rid = Some y" "req_evo x y" by blast
  moreover have "q_requested y = requested" using req_evo_fixed(2) [OF y(2)] \<open>q_requested x = requested\<close> by simp
  ultimately show ?thesis using g by (simp add: recorded_def good_def)
qed

lemma new_deployment_jstep: "jstep lib sha d d' \<Longrightarrow> new_deployment app d0 d \<Longrightarrow> new_deployment app d0 d'"
proof -
  assume j: "jstep lib sha d d'" and n: "new_deployment app d0 d"
  then have g: "good d d'" by (auto simp: new_deployment_def intro: jstep_good)
  from n obtain row a where "row \<in> set (deployments d)" "d_id row \<notin> d_id ` set (deployments d0)"
    and "a \<in> set (apps d)" "a_id a = d_app_id row" "a_name a = app" by (auto simp: new_deployment_def)
  moreover from this(1) g obtain row' where "row' \<in> set (deployments d')" "dep_evo row row'"
    by (auto simp: good_def evolves_def rows_evolve_def)
  moreover from \<open>a \<in> set (apps d)\<close> g obtain a' where "a' \<in> set (apps d')" "app_evo a a'"
    by (auto simp: good_def evolves_def rows_evolve_def)
  ultimately have "d_id row' \<notin> d_id ` set (deployments d0)" "a_id a' = d_app_id row'" "a_name a' = app"
    and "row' \<in> set (deployments d')" "a' \<in> set (apps d')" by (simp_all add: dep_evo_def app_evo_def)
  moreover have "schema_ok d'" using g by (simp add: good_def)
  ultimately show ?thesis unfolding new_deployment_def by blast
qed

lemma ahead_moves:
  assumes "\<And>d d'. jstep (as_k8s svc) (as_sha256 svc) d d' \<Longrightarrow> I d \<Longrightarrow> I d'"
  shows "app_moves (ahead I) svc"
  by unfold_locales (use assms in \<open>auto simp: ahead_def\<close>)

interpretation record_ahead: app_moves "ahead (recorded app rid requested)" svc for app rid requested svc
  by (rule ahead_moves) (rule recorded_jstep)

interpretation deployment_ahead: app_moves "ahead (new_deployment app d0)" svc for app d0 svc
  by (rule ahead_moves) (rule new_deployment_jstep)

section \<open>Invariants of the service\<close>

definition platform_ok :: "('e, 'p) app_world \<Rightarrow> bool" where
  "platform_ok s \<longleftrightarrow> schema_ok (w_db s) \<and> vault_ok (x_vault (w_env s))"

lemma platform_move_ok: "platform_move svc s t \<Longrightarrow> platform_ok s \<Longrightarrow> platform_ok t \<and> good (w_db s) (w_db t)"
  by (auto simp: platform_move_def platform_ok_def intro: vault_ok_reach dest: jreach_good) (auto simp: good_def dest: jreach_good)

lemma serve_all_move: "platform_move svc s (serve_all svc cs s)"
  by (rule platform.serve_all_R)

end
