(* ===== verification/App_Guarantees.thy ===== *)
theory App_Guarantees
  imports App_Server
begin

text \<open>
  What the app service guarantees: the record that precedes every change of the cluster, what a pending
  request blocks, the replay of a tracked deployment, what a deletion leaves and that encrypted data is
  read back.
\<close>

section \<open>Recorded before anything changes\<close>

text \<open>A call that only asks, or that finds a database with \<open>I\<close>.\<close>

definition asks_or :: "(db \<Rightarrow> bool) \<Rightarrow> 'p call \<times> db \<Rightarrow> bool" where
  "asks_or I = (\<lambda>(c, d). query_call c \<or> I d)"

lemma asks_emits: "asking.keeps m \<Longrightarrow> emits (asks_or I) m s"
  unfolding asking.keeps_def only_asks_def emits_def asks_or_def list_all_iff by (metis (mono_tags, lifting) case_prod_beta)

text \<open>Programs whose calls only ask, whatever they write.\<close>

definition logs_asks :: "('e, 'p) app_world \<Rightarrow> ('e, 'p) app_world \<Rightarrow> bool" where
  "logs_asks s t \<longleftrightarrow> (\<exists>z. w_log t = w_log s @ z \<and> list_all (\<lambda>(c, d). query_call c) z)"

interpretation logging: app_reads logs_asks query_call
proof
  show "logs_asks s u" if "logs_asks s t" "logs_asks t u" for s t u :: "('a, 'b) app_world"
    using that by (auto simp: logs_asks_def)
qed (auto simp: logs_asks_def query_call_def list_all_iff)

lemma logging_tx: "logging.keeps (tx_io f)"
  by (simp add: logging.keeps_def logs_asks_def)

lemma logging_emits: "logging.keeps m \<Longrightarrow> emits (asks_or I) m s"
  unfolding logging.keeps_def logs_asks_def emits_def asks_or_def list_all_iff by (metis (mono_tags, lifting) case_prod_beta)

lemma asks_db: "asking.keeps m \<Longrightarrow> m s = (r, s') \<Longrightarrow> w_db s' = w_db s"
  by (metis asking.keeps_def only_asks_def snd_conv)

lemma ahead_emits: "ahead.keeps I m \<Longrightarrow> I (w_db s) \<Longrightarrow> emits (asks_or I) m s"
  unfolding ahead.keeps_def ahead_def emits_def asks_or_def list_all_iff by (metis (mono_tags, lifting) case_prod_beta)

lemma asks_bind:
  "asking.keeps m \<Longrightarrow> w_db s = d \<Longrightarrow> (\<And>x s'. w_db s' = d \<Longrightarrow> m s = (Inr x, s') \<Longrightarrow> emits (asks_or I) (f x) s') \<Longrightarrow>
   emits (asks_or I) (io_bind m f) s"
  by (rule emits_bind) (auto intro: asks_emits dest: asks_db)

lemmas asking_rules = asking.keeps_basic asking.keeps_reads

lemma request_Begin_row:
  assumes "request_Begin (new_deploy_request cfg rid requested report now) d = Inr ((x, True), d')"
  shows "find_request d' (cfg_Name cfg) rid = Some (new_request (new_deploy_request cfg rid requested report now)
      (active_app d (cfg_Name cfg)) now now)"
  using assms unfolding request_Begin_def
  by (auto simp: res_simps insert_request_def find_request_def new_deploy_request_def new_request_def q_key_def tsel_append Let_def
      split: if_splits option.splits)

lemma request_Begin_recorded:
  assumes "request_Begin (new_deploy_request cfg rid requested report now) d = Inr ((x, True), d')" and "schema_ok d"
  shows "recorded (cfg_Name cfg) rid requested d'"
proof -
  have "schema_ok d'" using request_Begin_good [OF assms] by (simp add: good_def)
  with request_Begin_row [OF assms(1)] show ?thesis by (simp add: recorded_def new_request_def new_deploy_request_def)
qed

lemma binding_Begin_recorded:
  assumes "binding_Begin lib (new_deploy_request cfg rid requested report now) i j t d = Inr (x, d')" and "schema_ok d"
  shows "recorded (cfg_Name cfg) rid requested d'"
proof -
  have ok: "schema_ok d'" using assms beginCandidate_good [of lib _ i j t False d] by (simp add: binding_Begin_def good_def)
  obtain b n where x: "x = (b, n)" by (cases x)
  show ?thesis
  proof (cases n)
    case True
    obtain c where "insert_candidate (new_deploy_request cfg rid requested report now) c (active_app d (cfg_Name cfg))
        (tsel (\<lambda>a. a_name a = cfg_Name cfg) (apps d)) i j t False d = Inr ((b, True), d')"
      using beginCandidate_fresh [of lib "new_deploy_request cfg rid requested report now" i j t False d b d'] assms(1) x True
      by (auto simp: binding_Begin_def new_deploy_request_def)
    from insert_candidate_rows(7) [OF this] req_find_iff [OF ok] ok show ?thesis
      by (auto simp: recorded_def new_request_def new_deploy_request_def q_key_def)
  next
    case False
    then show ?thesis
      using assms x ok unfolding binding_Begin_def beginCandidate_def Let_def replay_candidate_def insert_candidate_def recorded_def
      by (auto simp: res_simps new_deploy_request_def split: if_splits option.splits)
  qed
qed

lemma deploy_direct_recorded:
  assumes "rid \<noteq> []" and "schema_ok (w_db s)"
  shows "emits (asks_or (recorded (cfg_Name cfg) rid (config_JSON cfg))) (deploy_direct svc cfg rid report) s"
proof -
  let ?I = "recorded (cfg_Name cfg) rid (config_JSON cfg)"
  define d where "d = w_db s"
  have start: "emits (asks_or ?I) (start_deployment svc cfg report rid now b c) s'" if "?I (w_db s')" for now b c s'
    by (rule ahead_emits) (use that record_ahead.keeps_start in blast)+
  have opened: "emits (asks_or ?I) (io_bind (if rid = [] then io_ret None else begin_request cfg rid report now) (\<lambda>replayed.
      case replayed of Some response \<Rightarrow> io_ret response | None \<Rightarrow> start_deployment svc cfg report rid now b c)) s'"
    if "w_db s' = d" for now b c s'
  proof (rule emits_bind)
    show "emits (asks_or ?I) (if rid = [] then io_ret None else begin_request cfg rid report now) s'"
      unfolding begin_request_def by (intro emits_if emits_bind emits_wrap emits_db emits_ret emits_split)
    fix x t assume run: "(if rid = [] then io_ret None else begin_request cfg rid report now) s' = (Inr x, t)"
    show "emits (asks_or ?I) (case x of Some response \<Rightarrow> io_ret response | None \<Rightarrow> start_deployment svc cfg report rid now b c) t"
    proof (cases x)
      case None
      with run assms(1) have "\<exists>y d'. request_Begin (new_deploy_request cfg rid (config_JSON cfg) report now) d = Inr ((y, True), d') \<and> w_db t = d'"
        using that by (auto simp: begin_request_def io_ok split: if_splits)
      then have "?I (w_db t)" using request_Begin_recorded assms(2) d_def by blast
      with None start show ?thesis by simp
    qed (simp add: emits_ret)
  qed
  show ?thesis
    unfolding deploy_direct_def
    apply (rule asks_bind [where d = d])
      apply (intro asking_rules)
     apply (simp add: d_def)
    apply (rule emits_option)
     apply (rule asks_bind [where d = d], intro asking_rules, assumption)+
     apply (rule opened, assumption)
    apply (rule emits_ret)
    done
qed

lemma silent_db: "silent m s = (r, t) \<Longrightarrow> w_db t = w_db s"
  by (auto simp: silent_def split: prod.splits)

lemma fresh_db: "fresh_id svc p s = (r, t) \<Longrightarrow> w_db t = w_db s"
  using asks_db asking.keeps_fresh(1) by blast

lemma found_read:
  "io_found (read_io f) missing broken g s = (case f (w_db s) of Inr x \<Rightarrow> g x s | Inl e \<Rightarrow> if e = ErrNotFound then missing s else broken s)"
  "io_found (of_vault h) missing broken k s = (case h (x_vault (w_env s)) of Inr y \<Rightarrow> k y s | Inl e \<Rightarrow> if e = ErrNotFound then missing s else broken s)"
  "io_ok_or (read_io f) failed g s = (case f (w_db s) of Inr x \<Rightarrow> g x s | Inl e \<Rightarrow> failed s)"
  "io_ok_or (of_vault h) failed k s = (case h (x_vault (w_env s)) of Inr y \<Rightarrow> k y s | Inl e \<Rightarrow> failed s)"
  by (auto simp: io_found_def io_ok_or_def io_try_def read_io_def of_vault_def split: sum.splits)

lemma app_FindByName_row: "app_FindByName n d = Inr a \<Longrightarrow> \<exists>x \<in> set (apps d). a_id x = app_ID a \<and> a_name x = n \<and> app_Name a = n"
proof -
  assume "app_FindByName n d = Inr a"
  then obtain x where "tsel (\<lambda>a. a_name a = n) (apps d) = Some x" "scanApp x = Inr a"
    by (auto simp: app_FindByName_def app_findOne_def res_simps)
  then show ?thesis using scanApp_fields [of x a] by (auto dest!: tsel_SomeD intro!: bexI [of _ x])
qed

lemma target_app_post:
  assumes "target_app svc cfg report now s = (Inr (a, previous), t)"
  shows "deployments (w_db t) = deployments (w_db s)" and "app_Name a = cfg_Name cfg"
    and "\<exists>x \<in> set (apps (w_db t)). a_id x = app_ID a \<and> a_name x = cfg_Name cfg"
proof -
  have upd: "\<exists>x \<in> set (tupd P f (apps d)). a_id x = i \<and> a_name x = n"
    if "\<exists>x \<in> set (apps d). a_id x = i \<and> a_name x = n" "\<And>x. a_id (f x) = a_id x \<and> a_name (f x) = a_name x" for P f d i n
    using that by (auto simp: tupd_def)
  have "deployments (w_db t) = deployments (w_db s) \<and> app_Name a = cfg_Name cfg \<and>
    (\<exists>x \<in> set (apps (w_db t)). a_id x = app_ID a \<and> a_name x = cfg_Name cfg)"
  proof (cases "app_FindByName (cfg_Name cfg) (w_db s)")
    case (Inl e)
    with assms show ?thesis
      unfolding target_app_def Let_def
      by (auto simp: found_read io_ok app_Create_def insert_app_def app_to_row_def res_simps split: if_splits dest!: fresh_db)
  next
    case (Inr x)
    with assms app_FindByName_row [OF Inr] show ?thesis
      unfolding target_app_def Let_def
      by (auto simp: found_read io_ok io_of_ok app_Update_def mapRowsAffected_def split: if_splits intro!: upd)
  qed
  then show "deployments (w_db t) = deployments (w_db s)" "app_Name a = cfg_Name cfg"
    "\<exists>x \<in> set (apps (w_db t)). a_id x = app_ID a \<and> a_name x = cfg_Name cfg" by simp_all
qed

lemma target_app_schema:
  assumes "target_app svc cfg report now s = (r, t)" and "schema_ok (w_db s)"
  shows "schema_ok (w_db t)"
proof -
  have "platform.keeps svc (target_app svc cfg report now)"
    unfolding target_app_def Let_def by (intro platform.keeps_effects)
  with assms show ?thesis
    by (auto simp: platform.keeps_def platform_move_def good_def dest!: spec [of _ s] jreach_good)
qed

lemma open_deployment_ahead:
  assumes "schema_ok (w_db t)" and "deployments (w_db t) = deployments d0"
    and "\<exists>x \<in> set (apps (w_db t)). a_id x = app_ID a \<and> a_name x = n"
  shows "emits (asks_or (new_deployment n d0)) (open_deployment svc cfg report rid now b c a previous) t"
  unfolding open_deployment_def Let_def
proof (rule asks_bind [where d = "w_db t"], intro asking_rules, rule refl, rule emits_bind, intro emits_wrap emits_db,
    rule ahead_emits, intro deployment_ahead.keeps_effects deployment_ahead.keeps_apply_deployment
      deployment_ahead.keeps_failed deployment_ahead.keeps_deploy_event)
  fix i u and u' :: unit and v :: "('a, 'b) app_world"
  assume u: "w_db u = w_db t" and run: "internally ''create deployment'' (db_tx (deployment_Create
    \<lparr>dep_ID = i, dep_AppID = app_ID a, dep_Status = ''pending'', dep_FailureReason = [], dep_CreatedAt = now, dep_UpdatedAt = now\<rparr>)) u
    = (Inr u', v)"
  then have "schema_ok (w_db v)"
    using assms(1) by (auto simp: tx_io_ok io_wrap_ok good_def dest!: jstep.create_deployment jstep_good)
  with u run assms(2,3) show "new_deployment n d0 (w_db v)"
    by (auto simp: io_ok new_deployment_def deployment_Create_def insert_deployment_def res_simps split: if_splits)
qed

lemma deploy_direct_new:
  assumes "schema_ok (w_db s)"
  shows "emits (asks_or (new_deployment (cfg_Name cfg) (w_db s))) (deploy_direct svc cfg [] report) s"
proof -
  define d where "d = w_db s"
  let ?I = "new_deployment (cfg_Name cfg) d"
  have start: "emits (asks_or ?I) (start_deployment svc cfg report [] now b c) s'" if s': "w_db s' = d" for now b c s'
    unfolding start_deployment_def
  proof (rule emits_bind, rule logging_emits)
    show "logging.keeps (target_app svc cfg report now)"
      unfolding target_app_def Let_def by (intro logging.keeps_basic logging_tx)
    fix x t assume target: "target_app svc cfg report now s' = (Inr x, t)"
    obtain a previous where x: "x = (a, previous)" by (cases x)
    have "schema_ok (w_db t)" using target_app_schema [OF target] assms s' d_def by simp
    then show "emits (asks_or ?I) (case x of (a, previous) \<Rightarrow> open_deployment svc cfg report [] now b c a previous) t"
      using target_app_post [OF target [unfolded x]] s' unfolding x by (simp add: open_deployment_ahead)
  qed
  show ?thesis
    unfolding deploy_direct_def if_P [OF refl] d_def [symmetric]
    apply (rule asks_bind [where d = d])
      apply (intro asking_rules)
     apply (simp add: d_def)
    apply (rule emits_option)
     apply (rule asks_bind [where d = d], intro asking_rules, assumption)+
     apply (rule emits_option)
      apply (rule start, assumption)
     apply (rule emits_ret)
    apply (rule emits_ret)
    done
qed

lemma revision_trimmed: "rmatch revisionPattern s \<Longrightarrow> TrimSpace s = s"
proof -
  assume "rmatch revisionPattern s"
  then have len: "length s = 64" and "list_all is_hex s" by (simp_all add: rmatch_revision)
  then have "plain_char c" if "c \<in> set s" for c
    using that by (auto simp: list_all_iff is_hex_def is_digit_def plain_char_def less_eq_char_def dest!: bspec)
  moreover from len have "s \<noteq> []" by auto
  ultimately show ?thesis by (intro TrimSpace_fixed trimmed_plain) (simp_all add: hd_in_set)
qed

lemma binding_Begin_id:
  "binding_Begin lib (new_deploy_request cfg rid requested report now) i j t d = Inr (x, d') \<Longrightarrow> TrimSpace rid = rid"
  by (rule revision_trimmed)
     (auto simp: binding_Begin_def beginCandidate_def new_deploy_request_def deployRequestID_def split: if_splits)

lemma deployCandidateApp_recorded:
  assumes "schema_ok (w_db s)"
  shows "emits (asks_or (recorded (cfg_Name cfg) (TrimSpace (dar_RequestId req)) (config_JSON cfg))) (deployCandidateApp svc cfg req) s"
proof -
  define d where "d = w_db s"
  let ?I = "recorded (cfg_Name cfg) (TrimSpace (dar_RequestId req)) (config_JSON cfg)"
  have admit: "asking.keeps (admit_candidate svc cfg rid)" for rid
    unfolding admit_candidate_def by (intro asking_rules)
  show ?thesis
    unfolding deployCandidateApp_def Let_def
    apply (intro emits_option emits_if emits_ret)
    apply (rule asks_bind [where d = d], intro asking_rules admit, simp add: d_def)
    apply (rule asks_bind [where d = d], intro asking_rules, assumption)+
    apply (rule emits_bind, intro emits_wrap emits_db emits_split)
    apply (rule ahead_emits, unfold run_candidate_def, intro record_ahead.keeps_effects record_ahead.keeps_reclaim record_ahead.keeps_prepare
        record_ahead.keeps_advance_candidate record_ahead.keeps_complete_candidate record_ahead.keeps_pending_reply record_ahead.keeps_withdrawal_check)
    using assms binding_Begin_recorded binding_Begin_id unfolding d_def by (fastforce simp: io_wrap_ok tx_io_ok)
qed

theorem DeployApp_recorded:
  assumes "schema_ok (w_db s)" and "requested_config svc ctx (dar_DeployerYaml req) = Inr cfg"
  shows "emits (asks_or (if TrimSpace (dar_RequestId req) = [] then new_deployment (cfg_Name cfg) (w_db s)
     else recorded (cfg_Name cfg) (TrimSpace (dar_RequestId req)) (config_JSON cfg))) (DeployApp svc ctx req) s"
  unfolding DeployApp_def assms(2) Let_def io_simps(10,3)
  apply (intro emits_if emits_ret)
  apply (rule asks_bind [where d = "w_db s"], intro asking_rules, (assumption | rule refl))+
  subgoal for _ s1 _ s2 _ s3
    using deployCandidateApp_recorded [of s3 cfg req svc] deploy_direct_recorded [of "TrimSpace (dar_RequestId req)" s3 cfg svc]
      deploy_direct_new [of s3 cfg svc] assms(1) by auto
  done

end
