(* ===== verification/App_Replay.thy ===== *)
theory App_Replay
  imports App_Guarantees
begin

text \<open>
  Tracked deployments: a request that is pending blocks other changes of its app, a request that has
  been answered is answered again from the journal, and a request whose withdrawal was requested is
  never activated.
\<close>

section \<open>A pending request\<close>

definition has_pending :: "string \<Rightarrow> db \<Rightarrow> bool" where
  "has_pending app d \<longleftrightarrow> (\<exists>r \<in> set (requests d). q_app r = app \<and> q_state r = ''pending'')"

lemma scan_request_found: "scan_request r \<noteq> Inl ErrNotFound"
  by (auto simp: scan_request_def rbind_def parseStoredTime_def split: sum.splits option.splits)

lemma scan_request_state: "scan_request r = Inr x \<Longrightarrow> req_State x = q_state r"
  by (auto simp: scan_request_def res_simps)

lemma no_pending_refuses: "has_pending app (w_db s) \<Longrightarrow> \<exists>e. no_pending app s = (Inl e, s)"
proof -
  assume "has_pending app (w_db s)"
  then obtain r where "tsel (\<lambda>r. q_app r = app \<and> q_state r = ''pending'') (requests (w_db s)) = Some r"
    by (cases "tsel (\<lambda>r. q_app r = app \<and> q_state r = ''pending'') (requests (w_db s))")
       (auto simp: has_pending_def tsel_None_iff)
  then show ?thesis
    unfolding no_pending_def found_read
    by (cases "scan_request r") (auto simp: request_PendingByApp_def scan_request_found)
qed

text \<open>\<open>refused m s\<close>: the call fails, and nothing was changed or asked of the runtime but questions.\<close>

definition refused :: "(('e, 'p) app_world, 'a) io \<Rightarrow> ('e, 'p) app_world \<Rightarrow> bool" where
  "refused m s \<longleftrightarrow> (\<exists>e t. m s = (Inl e, t) \<and> only_asks s t)"

lemma refused_asking:
  assumes "asking.keeps m" and "w_db s = d" and "\<And>x t. w_db t = d \<Longrightarrow> refused (f x) t"
  shows "refused (io_bind m f) s"
proof (cases "m s")
  case (Pair r s')
  with assms(1) have asks: "only_asks s s'" by (metis asking.keeps_def snd_conv)
  show ?thesis
  proof (cases r)
    case (Inr x)
    then have "refused (f x) s'" using Pair assms asks_db by metis
    with Pair Inr asks show ?thesis by (auto simp: refused_def io_bind_def intro: asking.R_trans)
  qed (use Pair asks in \<open>simp add: refused_def io_bind_def\<close>)
qed

lemma refused_basic: "refused (io_fail e) s" "(b \<Longrightarrow> refused m s) \<Longrightarrow> (\<not> b \<Longrightarrow> refused n s) \<Longrightarrow> refused (if b then m else n) s"
  "refused m s \<Longrightarrow> (\<And>x. refused (f x) s) \<Longrightarrow> refused (case z of None \<Rightarrow> m | Some x \<Rightarrow> f x) s"
  by (auto simp: refused_def asking.R_refl split: option.splits)

lemma refused_found:
  "refused missing s \<Longrightarrow> refused broken s \<Longrightarrow> (\<And>x. f (w_db s) = Inr x \<Longrightarrow> refused (g x) s) \<Longrightarrow>
   refused (io_found (read_io f) missing broken g) s"
  by (auto simp: refused_def found_read split: sum.splits)

lemma asking_acquire: "asking.keeps (acquireOperation svc app)"
  by (intro asking_rules)

lemma pending_refused: "has_pending app (w_db s) \<Longrightarrow> refused (io_bind (no_pending app) f) s"
  using no_pending_refuses [of app s] by (auto simp: refused_def io_bind_def intro: asking.R_refl)

lemma DeleteApp_refused:
  assumes "has_pending (TrimSpace name) (w_db s)"
  shows "refused (DeleteApp svc ctx name) s"
  unfolding DeleteApp_def Let_def
  apply (rule refused_asking [where d = "w_db s"], intro asking_rules, rule refl)
  apply (intro refused_basic)
  apply (rule refused_asking [where d = "w_db s"], intro asking_rules, assumption)
  using assms by (simp add: pending_refused)

lemma DeployApp_untracked_refused:
  assumes "has_pending (cfg_Name cfg) (w_db s)" and "requested_config svc ctx (dar_DeployerYaml req) = Inr cfg"
    and "TrimSpace (dar_RequestId req) = []"
  shows "refused (DeployApp svc ctx req) s"
  unfolding DeployApp_def assms(2) Let_def io_simps(10,3)
  apply (intro refused_basic)
  apply (rule refused_asking [where d = "w_db s"], intro asking_rules, rule refl)
  apply (rule refused_asking [where d = "w_db s"], intro asking_rules, assumption)
  using assms(1,3) by (simp add: pending_refused)

section \<open>Replaying an answered request\<close>

text \<open>The request is in the journal for this configuration, and can be read.\<close>

definition begun :: "string \<Rightarrow> string \<Rightarrow> string \<Rightarrow> bool \<Rightarrow> db \<Rightarrow> bool" where
  "begun app rid requested report d \<longleftrightarrow> schema_ok d \<and> (\<exists>r t. find_request d app rid = Some r \<and> q_requested r = requested \<and>
     q_report r = report \<and> parseStoredTime (q_created r) = Inr t)"

text \<open>It has been answered with \<open>response\<close>.\<close>

definition answered :: "string \<Rightarrow> string \<Rightarrow> string \<Rightarrow> bool \<Rightarrow> deploy_response \<Rightarrow> db \<Rightarrow> bool" where
  "answered app rid requested report response d \<longleftrightarrow> schema_ok d \<and> (\<exists>r x. find_request d app rid = Some r \<and> scan_request r = Inr x \<and>
     req_RequestedState x = requested \<and> req_ReportWithdrawal x = report \<and> terminal (req_State x) \<and> decode_response (req_ResponseJSON x) = Some response)"

lemma req_evo_created: "req_evo x y \<Longrightarrow> q_created y = q_created x"
  by (cases x; cases y) (auto simp: req_evo_def)

lemma begun_jstep: "jstep lib sha d d' \<Longrightarrow> begun app rid requested report d \<Longrightarrow> begun app rid requested report d'"
proof -
  assume j: "jstep lib sha d d'" and b: "begun app rid requested report d"
  then have g: "good d d'" by (auto simp: begun_def intro: jstep_good)
  from b obtain x t where x: "find_request d app rid = Some x" "q_requested x = requested" "q_report x = report"
    "parseStoredTime (q_created x) = Inr t" "schema_ok d" by (auto simp: begun_def)
  with req_row_evolves [OF g] obtain y where y: "find_request d' app rid = Some y" "req_evo x y" by blast
  have "q_requested y = requested" "q_report y = report" "q_created y = q_created x"
    using req_evo_fixed(2,5) [OF y(2)] req_evo_created [OF y(2)] x by simp_all
  with x y g show ?thesis by (simp add: begun_def good_def)
qed

interpretation begun_ahead: app_moves "ahead (begun app rid requested report)" svc for app rid requested report svc
  by (rule ahead_moves) (rule begun_jstep)

lemma begun_after: "ahead.keeps (begun app rid requested report) m \<Longrightarrow> begun app rid requested report (w_db s) \<Longrightarrow>
  m s = (r, t) \<Longrightarrow> begun app rid requested report (w_db t)"
  by (metis ahead.keeps_def ahead_def snd_conv)

lemma answered_jreach:
  assumes "jreach lib sha d d'" and "answered app rid requested report response d"
  shows "answered app rid requested report response d'"
proof -
  from assms(2) obtain r x where r: "find_request d app rid = Some r" "scan_request r = Inr x" "terminal (req_State x)"
    and "schema_ok d" by (auto simp: answered_def)
  moreover have "q_state r = req_State x" using scan_request_state [OF r(2)] by simp
  ultimately have "find_request d' app rid = Some r"
    using jreach_terminal_fixed [OF assms(1)] by simp
  moreover have "schema_ok d'" using jreach_good [OF assms(1)] \<open>schema_ok d\<close> by (simp add: good_def)
  ultimately show ?thesis using assms(2) r by (auto simp: answered_def)
qed

lemma terminal_not_pending: "terminal q \<Longrightarrow> q \<noteq> ''pending''"
  by (auto simp: terminal_def)

lemma deploy_direct_replays:
  assumes "answered (cfg_Name cfg) rid (config_JSON cfg) report response (w_db s)" and "rid \<noteq> []"
  shows "deploy_direct svc cfg rid report s = (Inr response, s)"
proof -
  obtain r x where r: "find_request (w_db s) (cfg_Name cfg) rid = Some r" "scan_request r = Inr x" "req_RequestedState x = config_JSON cfg"
    "req_ReportWithdrawal x = report" "terminal (req_State x)" "decode_response (req_ResponseJSON x) = Some response"
    using assms(1) by (auto simp: answered_def)
  have "replay_request cfg rid report s = (Inr (Some response), s)"
    unfolding replay_request_def found_read
    by (simp add: request_Find_def r stored_outcome_def terminal_not_pending [OF r(5)])
  with assms(2) show ?thesis by (simp add: deploy_direct_def io_bind_def)
qed

text \<open>\<open>answers\<close>: from a begun request, a reply is the one that the journal holds.\<close>

definition answers :: "config \<Rightarrow> string \<Rightarrow> bool \<Rightarrow> (('e, 'p) app_world, deploy_response) io \<Rightarrow> bool" where
  "answers cfg rid report m \<longleftrightarrow> (\<forall>s x t. begun (cfg_Name cfg) rid (config_JSON cfg) report (w_db s) \<longrightarrow> m s = (Inr x, t) \<longrightarrow>
     answered (cfg_Name cfg) rid (config_JSON cfg) report x (w_db t))"

abbreviation keeps_begun :: "config \<Rightarrow> string \<Rightarrow> bool \<Rightarrow> (('e, 'p) app_world, 'a) io \<Rightarrow> bool" where
  "keeps_begun cfg rid report \<equiv> ahead.keeps (begun (cfg_Name cfg) rid (config_JSON cfg) report)"

lemma answers_bind: "keeps_begun cfg rid report m \<Longrightarrow> (\<And>x. answers cfg rid report (f x)) \<Longrightarrow> answers cfg rid report (io_bind m f)"
  unfolding answers_def io_bind_ok using begun_after by blast

lemma answers_try: "keeps_begun cfg rid report m \<Longrightarrow> (\<And>r. answers cfg rid report (f r)) \<Longrightarrow> answers cfg rid report (io_try m f)"
  unfolding answers_def io_try_def by (auto split: prod.splits dest: begun_after)

lemma answers_fail: "answers cfg rid report (io_fail e)"
  by (simp add: answers_def)

lemma answers_if: "answers cfg rid report m \<Longrightarrow> answers cfg rid report n \<Longrightarrow> answers cfg rid report (if b then m else n)"
  by simp

lemma answers_case:
  "(\<And>e. answers cfg rid report (f e)) \<Longrightarrow> (\<And>x. answers cfg rid report (g x)) \<Longrightarrow> answers cfg rid report (case z of Inl e \<Rightarrow> f e | Inr x \<Rightarrow> g x)"
  "(\<And>a b. answers cfg rid report (h a b)) \<Longrightarrow> answers cfg rid report (case p of (a, b) \<Rightarrow> h a b)"
  by (auto split: sum.splits prod.splits)

lemmas answers_rules = answers_bind answers_try answers_fail answers_if answers_case

lemma request_Complete_answers:
  assumes "request_Complete app rid state (response_JSON response) now d = Inr (u, d')" and "begun app rid requested report d"
    and "wf_time now" and "decode_response (response_JSON response) = Some response"
  shows "answered app rid requested report response d'"
proof -
  obtain r t where r: "find_request d app rid = Some r" "q_requested r = requested" "q_report r = report" "parseStoredTime (q_created r) = Inr t"
    and ok: "schema_ok d" using assms(2) by (auto simp: begun_def)
  have st: "state = ''applied'' \<or> state = ''withdrawn''" using assms(1) by (auto simp: request_Complete_def split: if_splits)
  let ?r' = "r\<lparr>q_state := state, q_response := Some (response_JSON response), q_updated := formatTime now\<rparr>"
  have ok': "schema_ok d'" using request_Complete_good [OF assms(1) ok] by (simp add: good_def)
  have P: "r \<in> set (requests d) \<and> q_key r = (app, rid)" using req_find_iff [OF ok] r(1) by simp
  have hit: "\<exists>x \<in> set (requests d). q_key x = (app, rid) \<and> q_state x = ''pending'' \<and> \<not> has_binding d x"
    and d': "d' = d\<lparr>requests := tupd (\<lambda>r. q_key r = (app, rid) \<and> q_state r = ''pending'' \<and> \<not> has_binding d r)
      (\<lambda>r. r\<lparr>q_state := state, q_response := Some (response_JSON response), q_updated := formatTime now\<rparr>) (requests d)\<rparr>"
    using assms(1) by (auto simp: request_Complete_def Let_def mapRowsAffected_def taff_def filter_empty_conv split: if_splits)
  from hit obtain x where "x \<in> set (requests d)" "q_key x = (app, rid)" "q_state x = ''pending''" "\<not> has_binding d x" by blast
  then have "x = r" using P req_find_iff [OF ok, of app rid x] r(1) by simp
  with \<open>q_state x = ''pending''\<close> \<open>\<not> has_binding d x\<close> P have "?r' \<in> set (requests d')" by (force simp: d' tupd_def)
  moreover have "q_key ?r' = (app, rid)" using P by (simp add: q_key_def)
  ultimately have "find_request d' app rid = Some ?r'" using req_find_iff [OF ok'] by blast
  moreover have "scan_request ?r' = Inr \<lparr>req_AppName = q_app r, req_RequestID = q_id r, req_State = state, req_RequestedState = requested,
      req_PreviousAppID = parseOptionalString (q_prev_id r), req_PreviousState = parseOptionalString (q_prev_state r),
      req_ReportWithdrawal = report, req_ResponseJSON = response_JSON response, req_CreatedAt = t, req_UpdatedAt = now\<rparr>"
    using r assms(3) by (simp add: scan_request_def parseOptionalString_def)
  ultimately show ?thesis using st ok' assms(4) by (auto simp: answered_def terminal_def)
qed

lemma answers_complete:
  assumes "wf_time now" and "\<And>a. pbr_App response = Some a \<Longrightarrow> - (2 ^ 31) \<le> pba_Replicas a \<and> pba_Replicas a < 2 ^ 31"
  shows "answers cfg rid report (io_bind (internally msg (completeDeploymentRequest (cfg_Name cfg) rid state (response_JSON response) now))
    (\<lambda>_. io_ret response))"
  unfolding answers_def completeDeploymentRequest_def
  using request_Complete_answers [OF _ _ assms(1) decode_response_JSON [OF assms(2)]] by (auto simp: io_ok)

lemma answers_proto:
  assumes "\<And>p. protoApp svc a = Inr p \<Longrightarrow> answers cfg rid report (f p)"
  shows "answers cfg rid report (io_bind (internally msg (io_of (protoApp svc a))) f)"
  unfolding answers_def using assms by (auto simp: io_ok io_of_ok answers_def)

lemma finish_answers:
  assumes "rid \<noteq> []" and "wf_time now"
  shows "answers cfg rid report (finish_deployment svc a dep cfg rid now)"
    and "answers cfg rid report (withdrawFailedDeployment svc a dep cfg previous now rid)"
  unfolding finish_deployment_def withdrawFailedDeployment_def restore_previous_def remove_resources_def Let_def if_not_P [OF assms(1)]
  by (intro answers_bind answers_proto answers_complete begun_ahead.keeps_effects begun_ahead.keeps_deploy_event
      begun_ahead.keeps_rollback assms(2); auto dest: protoApp_range)+

lemma start_answers:
  assumes "rid \<noteq> []" and "wf_time now"
  shows "answers cfg rid report (start_deployment svc cfg report rid now b c)"
  unfolding start_deployment_def target_app_def open_deployment_def apply_deployment_def fail_deployment_def Let_def
  by (intro answers_rules finish_answers assms begun_ahead.keeps_effects begun_ahead.keeps_deploy_event begun_ahead.keeps_failed
      begun_ahead.keeps_apply begun_ahead.keeps_syncRoute begun_ahead.keeps_rollback)

text \<open>From a database \<open>d\<close>, whatever was read of it before.\<close>

definition answers_at :: "db \<Rightarrow> config \<Rightarrow> string \<Rightarrow> bool \<Rightarrow> (('e, 'p) app_world, deploy_response) io \<Rightarrow> bool" where
  "answers_at d cfg rid report m \<longleftrightarrow> (\<forall>s x t. w_db s = d \<longrightarrow> m s = (Inr x, t) \<longrightarrow>
     answered (cfg_Name cfg) rid (config_JSON cfg) report x (w_db t))"

lemma answers_at_bind:
  "asking.keeps m \<Longrightarrow> (\<And>x. answers_at d cfg rid report (f x)) \<Longrightarrow> answers_at d cfg rid report (io_bind m f)"
  unfolding answers_at_def io_bind_ok using asks_db by blast

lemma answers_at_clock:
  "(\<And>now. wf_time now \<Longrightarrow> answers_at d cfg rid report (f now)) \<Longrightarrow> (\<And>e. wf_time (as_now svc e)) \<Longrightarrow>
   answers_at d cfg rid report (io_bind (clock svc) f)"
  unfolding answers_at_def io_bind_ok clock_def
  by (auto simp: silent_def out_io_def)

lemma outcome_answered:
  assumes "find_request d app rid = Some r" and "scan_request r = Inr x" and "schema_ok d" and "stored_outcome x e = Inr response"
    and "req_RequestedState x = requested" and "req_ReportWithdrawal x = report"
  shows "answered app rid requested report response d"
proof -
  have "r \<in> set (requests d)" using req_find_iff assms(1,3) by blast
  then have "q_state r = ''pending'' \<or> terminal (q_state r)" using assms(3) by (auto simp: schema_ok_def req_ok_def)
  moreover have "req_State x = q_state r" using scan_request_state [OF assms(2)] .
  ultimately show ?thesis
    using assms by (auto simp: answered_def stored_outcome_def res_simps split: if_splits)
qed

lemma begin_answers:
  assumes "rid \<noteq> []" and "wf_time now" and "schema_ok d"
  shows "answers_at d cfg rid report (io_bind (begin_request cfg rid report now) (\<lambda>replayed. case replayed of
     Some response \<Rightarrow> io_ret response | None \<Rightarrow> start_deployment svc cfg report rid now b c))"
  unfolding answers_at_def io_bind_ok
proof safe
  fix s replayed u x t
  assume d: "d = w_db s" and run: "begin_request cfg rid report now s = (Inr replayed, u)"
    and reply: "(case replayed of Some response \<Rightarrow> io_ret response | None \<Rightarrow> start_deployment svc cfg report rid now b c) u = (Inr x, t)"
  let ?req = "new_deploy_request cfg rid (config_JSON cfg) report now"
  show "answered (cfg_Name cfg) rid (config_JSON cfg) report x (w_db t)"
  proof (cases replayed)
    case None
    with run obtain y where y: "request_Begin ?req d = Inr ((y, True), w_db u)"
      by (auto simp: begin_request_def io_ok d split: if_splits)
    note request_Begin_row [OF y]
    moreover have "schema_ok (w_db u)" using request_Begin_good [OF y assms(3)] by (simp add: good_def)
    ultimately have "begun (cfg_Name cfg) rid (config_JSON cfg) report (w_db u)"
      using assms(2) by (simp add: begun_def new_request_def new_deploy_request_def)
    with reply None start_answers [OF assms(1,2), of cfg report svc b c] show ?thesis by (auto simp: answers_def)
  next
    case (Some response)
    then obtain y e where y: "request_Begin ?req d = Inr ((y, False), w_db u)" "stored_outcome y e = Inr response"
      using run by (auto simp: begin_request_def io_ok io_of_ok d split: if_splits)
    have "x = response" "t = u" using Some reply by simp_all
    moreover obtain r where "find_request d (cfg_Name cfg) rid = Some r" "scan_request r = Inr y" "w_db u = d"
      "req_RequestedState y = config_JSON cfg" "req_ReportWithdrawal y = report"
      using y(1) by (auto simp: request_Begin_def res_simps Let_def new_deploy_request_def split: if_splits option.splits)
    ultimately show ?thesis using outcome_answered y(2) assms(3) by simp
  qed
qed

lemma deploy_direct_answers:
  assumes "rid \<noteq> []" and "\<And>e. wf_time (as_now svc e)" and "schema_ok d"
  shows "answers_at d cfg rid report (deploy_direct svc cfg rid report)"
proof -
  have rest: "answers_at d cfg rid report (io_bind (bundle_or_none svc cfg) (\<lambda>bundle.
         io_bind (resolveRuntimeRegistry svc cfg) (\<lambda>credential.
         io_bind (preflightHosting svc cfg) (\<lambda>_.
         io_bind (validateRequestedDomain (cfg_Name cfg) (routing_Domain (cfg_Routing cfg))) (\<lambda>_.
         io_bind (clock svc) (\<lambda>now.
         io_bind (begin_request cfg rid report now) (\<lambda>replayed. case replayed of
           Some response \<Rightarrow> io_ret response | None \<Rightarrow> start_deployment svc cfg report rid now bundle credential)))))))"
    by (intro answers_at_bind answers_at_clock begin_answers assms asking_rules)
  show ?thesis
    unfolding deploy_direct_def if_not_P [OF assms(1)] answers_at_def io_bind_ok
  proof safe
    fix s known u x t
    assume d: "d = w_db s" and known: "replay_request cfg rid report s = (Inr known, u)"
      and reply: "(case known of Some response \<Rightarrow> io_ret response | None \<Rightarrow> io_bind (bundle_or_none svc cfg) (\<lambda>bundle.
         io_bind (resolveRuntimeRegistry svc cfg) (\<lambda>credential.
         io_bind (preflightHosting svc cfg) (\<lambda>_.
         io_bind (validateRequestedDomain (cfg_Name cfg) (routing_Domain (cfg_Routing cfg))) (\<lambda>_.
         io_bind (clock svc) (\<lambda>now.
         io_bind (begin_request cfg rid report now) (\<lambda>replayed. case replayed of
           Some response \<Rightarrow> io_ret response | None \<Rightarrow> start_deployment svc cfg report rid now bundle credential))))))) u = (Inr x, t)"
    show "answered (cfg_Name cfg) rid (config_JSON cfg) report x (w_db t)"
    proof (cases known)
      case None
      with known have "w_db u = d" by (auto simp: replay_request_def found_read io_bind_ok d split: sum.splits if_splits)
      with None reply rest show ?thesis by (simp add: answers_at_def)
    next
      case (Some response)
      with known reply show ?thesis
        using assms(3) by (auto simp: replay_request_def found_read io_ok io_of_ok d request_Find_def res_simps intro!: outcome_answered split: sum.splits if_splits)
    qed
  qed
qed

theorem DeployApp_replayed:
  assumes "schema_ok (w_db s)" and "\<And>e. wf_time (as_now svc e)" and "requested_config svc ctx (dar_DeployerYaml req) = Inr cfg"
    and "TrimSpace (dar_RequestId req) \<noteq> []" and "\<not> (as_enableCandidateOperations svc \<and> cfg_Hosting cfg \<noteq> None \<and> cfg_Storage cfg = None)"
    and "DeployApp svc ctx req s = (Inr response, s')"
    and "acquireOperation svc (cfg_Name cfg) (serve_all svc cs s') = (Inr (), u)" and "checkCandidateDeletion svc (cfg_Name cfg) u = (Inr (), v)"
  shows "DeployApp svc ctx req (serve_all svc cs s') = (Inr response, v)"
proof -
  let ?rid = "TrimSpace (dar_RequestId req)"
  from assms(3-6) obtain s1 s2 where run: "acquireOperation svc (cfg_Name cfg) s = (Inr (), s1)" "checkCandidateDeletion svc (cfg_Name cfg) s1 = (Inr (), s2)"
    "deploy_direct svc cfg ?rid (dar_ReportWithdrawal req) s2 = (Inr response, s')" and rid: "ValidRevision ?rid"
    by (auto simp: DeployApp_def Let_def io_bind_ok split: if_splits)
  have "w_db s2 = w_db s"
    using asks_db [OF asking_acquire run(1)] asks_db [OF asking.keeps_deletion_check run(2)] by simp
  then have "answered (cfg_Name cfg) ?rid (config_JSON cfg) (dar_ReportWithdrawal req) response (w_db s')"
    using deploy_direct_answers [OF assms(4,2,1)] run(3) by (auto simp: answers_at_def)
  moreover have "jreach (as_k8s svc) (as_sha256 svc) (w_db s') (w_db (serve_all svc cs s'))"
    using serve_all_move [of svc s' cs] by (simp add: platform_move_def)
  moreover have "w_db v = w_db (serve_all svc cs s')"
    using asks_db [OF asking_acquire assms(7)] asks_db [OF asking.keeps_deletion_check assms(8)] by simp
  ultimately have "deploy_direct svc cfg ?rid (dar_ReportWithdrawal req) v = (Inr response, v)"
    using answered_jreach assms(4) by (intro deploy_direct_replays) auto
  with assms rid show ?thesis
    by (auto simp: DeployApp_def Let_def io_bind_def)
qed

section \<open>A withdrawal that was requested\<close>

definition withdrawing :: "string \<Rightarrow> string \<Rightarrow> db \<Rightarrow> bool" where
  "withdrawing app rid d \<longleftrightarrow> WithdrawalRequested app rid d \<and> (\<exists>r. find_request d app rid = Some r \<and> q_state r = ''pending'')"

lemma reject_refused: "WithdrawalRequested app rid (w_db s) \<Longrightarrow> refused (io_bind (rejectRequestedWithdrawal app rid) f) s"
  by (simp add: rejectRequestedWithdrawal_def refused_def io_bind_def read_io_def asking.R_refl)

lemma request_Find_pending:
  "find_request d app rid = Some r \<Longrightarrow> request_Find app rid d = Inr x \<Longrightarrow>
   req_State x = q_state r \<and> req_AppName x = q_app r \<and> req_RequestID x = q_id r"
  by (auto simp: request_Find_def scan_request_def res_simps)

lemma find_request_names: "find_request d app rid = Some r \<Longrightarrow> q_app r = app \<and> q_id r = rid"
  by (auto simp: find_request_def q_key_def dest: tsel_SomeD)

lemma pending_read_refused:
  assumes "find_request (w_db s) app rid = Some r" and "\<And>x. req_State x = q_state r \<Longrightarrow> req_AppName x = app \<Longrightarrow> req_RequestID x = rid \<Longrightarrow> refused (f x) s"
  shows "refused (io_bind (internally msg (read_io (request_Find app rid))) f) s"
proof (cases "request_Find app rid (w_db s)")
  case (Inl e)
  then show ?thesis by (simp add: refused_def io_bind_def io_wrap_def read_io_def asking.R_refl)
next
  case (Inr x)
  with assms(2) [of x] request_Find_pending [OF assms(1) Inr] find_request_names [OF assms(1)] show ?thesis
    by (simp add: refused_def io_bind_def io_wrap_def read_io_def)
qed

lemma AdvanceDeployRequest_refused:
  assumes "withdrawing app rid (w_db s)"
  shows "refused (AdvanceDeployRequest svc ctx app rid) s"
proof -
  obtain r where r: "find_request (w_db s) app rid = Some r" "q_state r = ''pending''" "WithdrawalRequested app rid (w_db s)"
    using assms by (auto simp: withdrawing_def)
  have locked: "refused (mutateCandidateRequestLocked svc ctx app rid False rt) u" if u: "w_db u = w_db s" for u rt
    unfolding mutateCandidateRequestLocked_def if_False
    by (intro refused_found refused_basic pending_read_refused [where r = r]) (use r u in \<open>simp_all add: reject_refused\<close>)
  show ?thesis
    unfolding AdvanceDeployRequest_def mutateCandidateRequest_def
    by (rule refused_asking [where d = "w_db s"], intro asking_rules, rule refl, intro refused_basic, rule refused_asking [where d = "w_db s"],
        intro asking_rules, assumption, erule locked)
qed

lemma binding_Begin_pending:
  assumes "find_request d (cfg_Name cfg) rid = Some r" and "q_state r = ''pending''"
    and "binding_Begin lib (new_deploy_request cfg rid requested report now) i j t d = Inr (x, d')"
  shows "d' = d"
proof -
  have "tsel (\<lambda>r. q_app r = cfg_Name cfg \<and> q_state r = ''pending'') (requests d) \<noteq> None"
    using assms(1,2) find_request_names [OF assms(1)] by (auto simp: tsel_None_iff find_request_def dest!: tsel_SomeD)
  with assms(3) show ?thesis
    by (auto simp: binding_Begin_def beginCandidate_def new_deploy_request_def replay_candidate_def res_simps split: if_splits option.splits)
qed

lemma refused_tx:
  assumes "\<And>x d'. f (w_db s) = Inr (x, d') \<Longrightarrow> d' = w_db s \<and> refused (g x) s"
  shows "refused (io_bind (io_wrap e (db_tx f)) g) s"
proof (cases "f (w_db s)")
  case (Inl e)
  then show ?thesis by (simp add: refused_def io_bind_def io_wrap_def tx_io_def asking.R_refl)
next
  case (Inr p)
  then obtain x where "f (w_db s) = Inr (x, w_db s)" "refused (g x) s" using assms by (cases p) auto
  then show ?thesis by (simp add: refused_def io_bind_def io_wrap_def tx_io_def)
qed

lemma deployCandidateApp_refused:
  assumes "withdrawing (cfg_Name cfg) (TrimSpace (dar_RequestId req)) (w_db s)"
  shows "refused (deployCandidateApp svc cfg req) s"
proof -
  define d where "d = w_db s"
  obtain r where r: "find_request d (cfg_Name cfg) (TrimSpace (dar_RequestId req)) = Some r" "q_state r = ''pending''"
    "WithdrawalRequested (cfg_Name cfg) (TrimSpace (dar_RequestId req)) d"
    using assms by (auto simp: withdrawing_def d_def)
  have begun: "refused (io_bind (io_wrap e (db_tx (binding_Begin (as_k8s svc)
      (new_deploy_request cfg (dar_RequestId req) requested (dar_ReportWithdrawal req) now) i j now))) (\<lambda>(binding, _).
      io_bind (internally ''read candidate request'' (read_io (request_Find (cfg_Name cfg) (dar_RequestId req)))) (\<lambda>record.
           if req_State record \<noteq> ''pending'' then Y record
           else run_candidate svc sub cfg (dar_RequestId req) binding record requested))) u" if u: "w_db u = d" for e u now i j requested Y sub
  proof (rule refused_tx, safe)
    fix b n d' assume b: "binding_Begin (as_k8s svc) (new_deploy_request cfg (dar_RequestId req) requested (dar_ReportWithdrawal req) now) i j now (w_db u)
      = Inr ((b, n), d')"
    then have rid: "TrimSpace (dar_RequestId req) = dar_RequestId req" by (rule binding_Begin_id)
    then show "d' = w_db u" using binding_Begin_pending [OF _ _ b] r u by simp
    show "refused (io_bind (internally ''read candidate request'' (read_io (request_Find (cfg_Name cfg) (dar_RequestId req)))) (\<lambda>record.
           if req_State record \<noteq> ''pending'' then Y record
           else run_candidate svc sub cfg (dar_RequestId req) b record requested)) u"
      by (rule pending_read_refused [where r = r]) (use r u rid in \<open>simp_all add: run_candidate_def reject_refused\<close>)
  qed
  have admit: "asking.keeps (admit_candidate svc cfg rid)" for rid
    unfolding admit_candidate_def by (intro asking_rules)
  show ?thesis
    unfolding deployCandidateApp_def Let_def
    apply (intro refused_basic)
    apply (rule refused_asking [where d = d], intro asking_rules admit, simp add: d_def)
    apply (rule refused_asking [where d = d], intro asking_rules, assumption)+
    apply (rule begun, assumption)
    done
qed

lemma deploy_direct_refused:
  assumes "withdrawing (cfg_Name cfg) rid (w_db s)" and "rid \<noteq> []"
  shows "refused (deploy_direct svc cfg rid report) s"
proof -
  obtain r where r: "find_request (w_db s) (cfg_Name cfg) rid = Some r" "q_state r = ''pending''"
    using assms(1) by (auto simp: withdrawing_def)
  then have "\<exists>e. replay_request cfg rid report s = (Inl e, s)"
    unfolding replay_request_def found_read
    by (cases "scan_request r") (auto simp: request_Find_def scan_request_found stored_outcome_def dest: scan_request_state)
  with assms(2) show ?thesis by (auto simp: deploy_direct_def refused_def io_bind_def asking.R_refl)
qed

lemma DeployApp_refused:
  assumes "withdrawing (cfg_Name cfg) (TrimSpace (dar_RequestId req)) (w_db s)" and "requested_config svc ctx (dar_DeployerYaml req) = Inr cfg"
    and "TrimSpace (dar_RequestId req) \<noteq> []"
  shows "refused (DeployApp svc ctx req) s"
  unfolding DeployApp_def assms(2) Let_def io_simps(10,3)
  apply (intro refused_basic)
  apply (rule refused_asking [where d = "w_db s"], intro asking_rules, (assumption | rule refl))+
  using assms(1,3) by (simp add: deployCandidateApp_refused deploy_direct_refused)

lemma withdrawing_kept:
  assumes "platform_move svc s t" and "schema_ok (w_db s)" and "WithdrawalRequested app rid (w_db s)"
    and "find_request (w_db t) app rid = Some r" and "q_state r = ''pending''"
  shows "withdrawing app rid (w_db t)"
  using assms jreach_good [of "as_k8s svc" "as_sha256 svc" "w_db s" "w_db t"]
  by (auto simp: platform_move_def withdrawing_def WithdrawalRequested_def good_def evolves_def)

end
