(* ===== verification/App_Stored.thy ===== *)
theory App_Stored
  imports App_Replay "HOL-Library.Multiset"
begin

text \<open>
  What the handlers leave in the database and in the encrypted tables: a deleted app leaves no active
  row, route, credential or bundle; a secret, a bundle and a credential that were stored are read back
  as they were given, a credential exactly when its payload fits the limit of the reader.
\<close>

section \<open>Deletion\<close>

definition no_trace :: "string \<Rightarrow> string \<Rightarrow> db \<Rightarrow> vault \<Rightarrow> bool" where
  "no_trace name ident d v \<longleftrightarrow> (\<forall>a \<in> set (apps d). a_name a = name \<longrightarrow> a_deleted a \<noteq> None) \<and>
     (\<forall>r \<in> set (routes d). r_app_id r \<noteq> ident) \<and> (\<forall>k \<in> set (v_credentials v). k_app k \<noteq> name) \<and>
     (\<forall>u \<in> set (v_bundles v). u_app u \<noteq> name)"

lemma outside_ok:
  "rcall c m s = (r, t) \<Longrightarrow> w_db t = w_db s \<and> x_vault (w_env t) = x_vault (w_env s)"
  "silent m' s = (r', t) \<Longrightarrow> w_db t = w_db s \<and> x_vault (w_env t) = x_vault (w_env s)"
  by (auto simp: rcall_def call_io_def silent_def out_io_def split: prod.splits)

lemma in_vault_ok: "in_vault f s = (Inr x, t) \<longleftrightarrow> (\<exists>v. f (x_vault (w_env s)) = Inr (x, v) \<and> t = s\<lparr>w_env := (w_env s)\<lparr>x_vault := v\<rparr>\<rparr>)"
  by (auto simp: in_vault_def split: sum.splits)

lemma clock_ok: "clock svc s = (Inr t, u) \<longleftrightarrow> t = as_now svc (x_out (w_env s)) \<and> u = s"
  by (auto simp: clock_def silent_def out_io_def)

lemma app_found: "app_FindByName n d = Inr a \<Longrightarrow> \<exists>x \<in> set (apps d). a_name x = n \<and> scanApp x = Inr a"
  by (auto simp: app_FindByName_def app_findOne_def res_simps dest: tsel_SomeD)

lemma scanApp_deleted: "scanApp x = Inr a \<Longrightarrow> app_DeletedAt a = None \<longleftrightarrow> a_deleted x = None"
  by (auto simp: scanApp_def parseOptionalStoredTime_def res_simps split: option.splits)

lemma MarkDeleted_gone:
  assumes "MarkDeleted n t d = Inr (a', d')" and "schema_ok d" and "app_FindByName n d = Inr a"
  shows "\<forall>x \<in> set (apps d'). a_name x = n \<longrightarrow> a_deleted x \<noteq> None" and "routes d' = routes d"
    and "app_Name a' = n" and "app_ID a' = app_ID a"
proof -
  let ?P = "\<lambda>x. a_name x = n \<and> a_deleted x = None"
  have d': "d' = d\<lparr>apps := tupd ?P (\<lambda>x. x\<lparr>a_updated := formatTime t, a_deleted := Some (formatTime t)\<rparr>) (apps d)\<rparr>"
    and a': "app_FindByName n d' = Inr a'"
    using assms(1) by (auto simp: MarkDeleted_def Let_def mapRowsAffected_def res_simps split: if_splits)
  show "\<forall>x \<in> set (apps d'). a_name x = n \<longrightarrow> a_deleted x \<noteq> None" 
    unfolding d' tupd_def by (simp add: ball_Un)
  show "routes d' = routes d" by (simp add: d')
  obtain x where x: "x \<in> set (apps d)" "a_id x = app_ID a" "a_name x = n" using app_FindByName_row [OF assms(3)] by blast
  obtain y where y: "y \<in> set (apps d')" "a_id y = app_ID a'" "a_name y = n" "app_Name a' = n" using app_FindByName_row [OF a'] by blast
  from y(1) obtain z where "z \<in> set (apps d)" "a_name z = a_name y" "a_id z = a_id y" by (auto simp: d' tupd_def split: if_splits)
  moreover have "keyed a_name (apps d)" using assms(2) by (simp add: schema_ok_def keys_ok_def)
  ultimately have "z = x" using x y(3) by (auto simp: keyed_def distinct_map inj_on_def)
  then show "app_ID a' = app_ID a" "app_Name a' = n" using x y \<open>a_id z = a_id y\<close> by simp_all
qed

lemma active_found: "FindActiveByName n d = Inr a \<Longrightarrow> app_FindByName n d = Inr a \<and> app_DeletedAt a = None"
  by (auto simp: FindActiveByName_def res_simps split: if_splits)

lemma delete_routes_schema: "schema_ok d \<Longrightarrow> schema_ok (delete_routes i d)"
  using delete_routes_good by (simp add: good_def)

lemma delete_routes_apps: "apps (delete_routes i d) = apps d" "\<forall>r \<in> set (routes (delete_routes i d)). r_app_id r \<noteq> i"
  "app_FindByName n (delete_routes i d) = app_FindByName n d"
  by (auto simp: delete_routes_def tdel_def app_FindByName_def app_findOne_def)

lemma protoApp_names: "protoApp svc a = Inr p \<Longrightarrow> pba_Name p = app_Name a \<and> pba_Id p = app_ID a"
  by (auto simp: protoApp_def split: sum.splits)

lemma erased_gone:
  assumes "schema_ok d" and "app_FindByName name d = Inr a" and "credential_DeleteByApp name v = Inr (u, v1)"
    and "bundle_DeleteByApp name v1 = Inr (u', v2)"
  shows "MarkDeleted name t (delete_routes (app_ID a) d) = Inr (a', d') \<Longrightarrow>
      no_trace name (app_ID a) d' v2 \<and> app_Name a' = name \<and> app_ID a' = app_ID a"
    and "app_DeletedAt a \<noteq> None \<Longrightarrow> no_trace name (app_ID a) (delete_routes (app_ID a) d) v2"
proof -
  have v: "(\<forall>k \<in> set (v_credentials v2). k_app k \<noteq> name) \<and> (\<forall>u \<in> set (v_bundles v2). u_app u \<noteq> name)"
    using assms(3,4) by (auto simp: credential_DeleteByApp_def bundle_DeleteByApp_def tdel_def split: if_splits)
  show "no_trace name (app_ID a) d' v2 \<and> app_Name a' = name \<and> app_ID a' = app_ID a"
    if m: "MarkDeleted name t (delete_routes (app_ID a) d) = Inr (a', d')"
    using MarkDeleted_gone [OF m delete_routes_schema [OF assms(1)], unfolded delete_routes_apps(3), OF assms(2)]
      delete_routes_apps(2) v by (simp add: no_trace_def)
  show "no_trace name (app_ID a) (delete_routes (app_ID a) d) v2" if del: "app_DeletedAt a \<noteq> None"
  proof -
    obtain x where x: "x \<in> set (apps d)" "a_name x = name" "scanApp x = Inr a" using app_found [OF assms(2)] by blast
    have "a_deleted y \<noteq> None" if "y \<in> set (apps d)" "a_name y = name" for y
    proof -
      have "keyed a_name (apps d)" using assms(1) by (simp add: schema_ok_def keys_ok_def)
      then have "y = x" using that x by (auto simp: keyed_def distinct_map inj_on_def)
      then show ?thesis using scanApp_deleted [OF x(3)] del by simp
    qed
    then show ?thesis using v delete_routes_apps(1,2) by (simp add: no_trace_def)
  qed
qed

lemma delete_direct_gone:
  assumes "delete_direct svc name s = (Inr p, t)" and "schema_ok (w_db s)"
  shows "pba_Name p = name \<and> no_trace name (pba_Id p) (w_db t) (x_vault (w_env t))"
proof (cases "FindActiveByName name (w_db s)")
  case (Inl e)
  with assms(1) show ?thesis by (simp add: delete_direct_def found_read split: if_splits)
next
  case (Inr a)
  note a = active_found [OF Inr]
  have n: "app_Name a = name" using app_FindByName_row [of name "w_db s" a] a by blast
  obtain s1 where s1: "w_db s1 = w_db s \<and> x_vault (w_env s1) = x_vault (w_env s)" and
    run: "io_bind (internally ''delete app routes'' (db_tx (DeleteByApp (app_ID a)))) (\<lambda>_.
     io_bind (internally ''delete app registry credentials'' (in_vault (credential_DeleteByApp (app_Name a)))) (\<lambda>_.
     io_bind (internally ''delete app environment bundles'' (in_vault (bundle_DeleteByApp (app_Name a)))) (\<lambda>_.
     io_bind (clock svc) (\<lambda>now.
     io_bind (internally ''delete app'' (db_tx (MarkDeleted name now))) (\<lambda>a'.
     internally ''decode desired state'' (io_of (protoApp svc a'))))))) s1 = (Inr p, t)"
    using assms(1) unfolding delete_direct_def found_read Inr sum.case io_bind_ok [of _ _ s]
    by (auto simp: io_wrap_ok dest!: outside_ok split: option.splits)
  then obtain v1 v2 u u' a' d' now where
    "credential_DeleteByApp name (x_vault (w_env s)) = Inr (u, v1)" "bundle_DeleteByApp name v1 = Inr (u', v2)"
    and m: "MarkDeleted name now (delete_routes (app_ID a) (w_db s)) = Inr (a', d')" and t: "w_db t = d'" "x_vault (w_env t) = v2"
    and p: "protoApp svc a' = Inr p"
    using n by (auto simp: io_ok io_of_ok in_vault_ok clock_ok DeleteByApp_def)
  with erased_gone(1) [OF assms(2) _ _ _ m] a protoApp_names [OF p] show ?thesis by simp
qed

text \<open>Calls of the runtime and reads leave everything stored as it is.\<close>

definition untouched :: "('e, 'p) app_world \<Rightarrow> ('e, 'p) app_world \<Rightarrow> bool" where
  "untouched s t \<longleftrightarrow> w_db t = w_db s \<and> x_vault (w_env t) = x_vault (w_env s)"

interpretation untouched: app_reads untouched "\<lambda>_. True"
  by unfold_locales (auto simp: untouched_def)

lemma untouched_rcall: "untouched.keeps (rcall c m)"
  by (rule untouched.keeps_rcall) simp

lemma untouched_generations: "untouched.keeps (retire_generation svc rt gc)" "untouched.keeps (generation_retired svc rt gc)"
  unfolding retire_generation_def generation_retired_def on_world_simps by (intro untouched.keeps_split untouched_rcall)+

text \<open>\<open>removes name d v m\<close>: run where \<open>d\<close> and \<open>v\<close> are stored, \<open>m\<close> replies with the app and leaves no trace of it.\<close>

definition removes :: "string \<Rightarrow> db \<Rightarrow> vault \<Rightarrow> (('e, 'p) app_world, pb_app) io \<Rightarrow> bool" where
  "removes name d v m \<longleftrightarrow> (\<forall>s p t. w_db s = d \<longrightarrow> x_vault (w_env s) = v \<longrightarrow> m s = (Inr p, t) \<longrightarrow>
     pba_Name p = name \<and> no_trace name (pba_Id p) (w_db t) (x_vault (w_env t)))"

lemma untouched_after: "untouched.keeps m \<Longrightarrow> m s = (r, t) \<Longrightarrow> w_db t = w_db s \<and> x_vault (w_env t) = x_vault (w_env s)"
  by (metis untouched.keeps_def untouched_def snd_conv)

lemma removes_rules:
  "untouched.keeps m \<Longrightarrow> (\<And>x. removes name d v (f x)) \<Longrightarrow> removes name d v (io_bind m f)"
  "untouched.keeps m \<Longrightarrow> removes name d v failed \<Longrightarrow> (\<And>x. removes name d v (f x)) \<Longrightarrow> removes name d v (io_ok_or m failed f)"
  "removes name d v (io_fail e)"
  "removes name d v m1 \<Longrightarrow> removes name d v m2 \<Longrightarrow> removes name d v (if b then m1 else m2)"
  unfolding removes_def io_bind_ok io_ok_or_def io_try_def
  by (auto split: prod.splits sum.splits dest: untouched_after)

lemma erase_rows_removes:
  assumes "schema_ok d" and "app_FindByName name d = Inr a"
  shows "removes name d v (io_bind (erase_rows svc a) (\<lambda>a'.
     io_bind (io_wrap e (rcall c (finish a'))) (\<lambda>_. internally msg (io_of (protoApp svc a')))))"
  unfolding removes_def
proof safe
  fix s p t
  assume d: "d = w_db s" "v = x_vault (w_env s)"
    and run: "io_bind (erase_rows svc a) (\<lambda>a'. io_bind (io_wrap e (rcall c (finish a'))) (\<lambda>_. internally msg (io_of (protoApp svc a')))) s = (Inr p, t)"
  have n: "app_Name a = name" using app_FindByName_row [OF assms(2)] by blast
  from run obtain a' s1 where erase: "erase_rows svc a s = (Inr a', s1)" and p: "protoApp svc a' = Inr p"
    and t: "w_db t = w_db s1" "x_vault (w_env t) = x_vault (w_env s1)"
    by (auto simp: io_bind_ok io_wrap_ok io_of_ok dest!: outside_ok)
  from erase obtain v1 v2 u u' now where v: "credential_DeleteByApp name v = Inr (u, v1)" "bundle_DeleteByApp name v1 = Inr (u', v2)"
    and v2: "x_vault (w_env s1) = v2"
    and row: "if app_DeletedAt a = None then MarkDeleted name now (delete_routes (app_ID a) d) = Inr (a', w_db s1)
       else a' = a \<and> w_db s1 = delete_routes (app_ID a) d"
    unfolding erase_rows_def n by (auto simp: io_ok in_vault_ok clock_ok DeleteByApp_def d split: if_splits)
  note gone = erased_gone [OF assms v]
  have "no_trace name (app_ID a') (w_db s1) v2 \<and> app_Name a' = name"
  proof (cases "app_DeletedAt a")
    case None
    with row have "MarkDeleted name now (delete_routes (app_ID a) d) = Inr (a', w_db s1)" by simp
    from gone(1) [OF this] show ?thesis by simp
  next
    case (Some x)
    with row gone(2) n show ?thesis by simp
  qed
  with protoApp_names [OF p] t v2
  show "pba_Name p = name" "no_trace name (pba_Id p) (w_db t) (x_vault (w_env t))" by simp_all
qed

lemma delete_generations_removes:
  assumes "schema_ok d" and "app_FindByName name d = Inr a"
  shows "removes name d v (delete_generations svc del a cfg gens)"
proof -
  obtain rt start cleanup finish where del: "del = (rt, start, cleanup, finish)" by (cases del)
  show ?thesis
    unfolding delete_generations_def del prod.case
    by (intro removes_rules erase_rows_removes assms untouched.keeps_more untouched_rcall untouched_generations)
qed

lemma DeleteApp_gone:
  assumes "DeleteApp svc ctx name0 s = (Inr p, t)" and "schema_ok (w_db s)"
  shows "pba_Name p = TrimSpace name0 \<and> no_trace (TrimSpace name0) (pba_Id p) (w_db t) (x_vault (w_env t))"
proof -
  let ?name = "TrimSpace name0"
  obtain s1 s2 handled where s1: "w_db s1 = w_db s" and tried: "tryDeleteCandidateApp svc ?name s1 = (Inr handled, s2)"
    and rest: "(case handled of Some p \<Rightarrow> io_ret p | None \<Rightarrow> delete_direct svc ?name) s2 = (Inr p, t)"
    using assms(1) unfolding DeleteApp_def Let_def
    by (auto simp: io_bind_ok io_of_ok split: if_splits dest!: asks_db [OF asking_acquire] asks_db [OF asking.keeps_domain(2)])
  show ?thesis
  proof (cases handled)
    case None
    with tried have "s2 = s1"
      by (auto simp: tryDeleteCandidateApp_def found_read io_ok split: if_splits sum.splits option.splits)
    with None rest s1 assms(2) delete_direct_gone [of svc ?name s1 p t] show ?thesis by simp
  next
    case (Some q)
    with rest have q: "q = p" "s2 = t" by auto
    from Some tried q(1) obtain a del cfg gens where a: "app_FindByName ?name (w_db s1) = Inr a"
      and run: "delete_generations svc del a cfg gens s1 = (Inr p, s2)"
      by (auto simp: tryDeleteCandidateApp_def found_read io_ok split: if_splits sum.splits option.splits)
    show ?thesis
      using delete_generations_removes [OF _ a, of "x_vault (w_env s1)" svc del cfg gens] run q(2) s1 assms(2) by (simp add: removes_def)
  qed
qed

section \<open>Encrypted data is read back\<close>

text \<open>\<^verbatim>\<open>crypto/rand\<close> fills the whole buffer with bytes.\<close>

definition random_ok :: "('e, 'p) app_service \<Rightarrow> bool" where
  "random_ok svc \<longleftrightarrow> (\<forall>n e bs e'. as_random svc n e = (Some bs, e') \<longrightarrow> length bs = n \<and> bytes_ok bs)"

lemma encrypt_Decrypt:
  assumes "encrypt svc a p s = (Inr c, t)" and "aead_law a" and "random_ok svc"
  shows "Decrypt a c = Inr p \<and> w_db t = w_db s \<and> x_vault (w_env t) = x_vault (w_env s)"
proof -
  from assms(1) obtain nonce where n: "random svc (NonceSize a) s = (Inr nonce, t)" and c: "Encrypt a nonce p = Inr c"
    by (auto simp: encrypt_def io_bind_ok io_of_ok)
  from c obtain bs where bs: "nonce = Some bs" by (cases nonce) (auto simp: Encrypt_def)
  with n assms(3) have "length bs = NonceSize a" "bytes_ok bs"
    unfolding random_def random_ok_def by (auto simp: silent_def out_io_def split: prod.splits)
  with c bs Decrypt_Encrypt [OF assms(2)] n show ?thesis unfolding random_def by (auto dest!: outside_ok(2))
qed

lemma of_vault_ok: "of_vault f s = (Inr x, t) \<longleftrightarrow> f (x_vault (w_env s)) = Inr x \<and> t = s"
  by (auto simp: of_vault_def split: sum.splits)

lemma length_escape: "length (escape s) \<le> 6 * length s"
proof (induction s rule: escape.induct)
  case (2 c s)
  have "length (esc1 c) \<le> 6" by (simp add: esc1_def u00_def Let_def)
  with 2 show ?case by (auto simp: take_Suc split: if_splits intro: order.trans) (fastforce dest: arg_cong [where f = length])+
qed simp

lemma length_quote: "length (quote s) \<le> 6 * length s + 2"
  using length_escape [of s] by (simp add: quote_def)

subsection \<open>Environment bundles\<close>

definition pair_ok :: "string \<times> string \<Rightarrow> bool" where
  "pair_ok = (\<lambda>(name, v). is_ok (ValidateSecretName name) \<and> length name \<le> 128 \<and> utf8_ValidString v \<and> CHR 0x00 \<notin> set v \<and> length v \<le> 8192)"

definition pair_size :: "string \<times> string \<Rightarrow> nat" where
  "pair_size = (\<lambda>(name, v). length name + length v)"

text \<open>The total does not depend on the order of the map's entries.\<close>

lemma valid_values_iff: "valid_values used m \<longleftrightarrow> (\<forall>p \<in> set m. pair_ok p) \<and> (m = [] \<or> used + sum_list (map pair_size m) \<le> 32768)"
proof (induction m arbitrary: used)
  case (Cons p m)
  obtain n v where p: "p = (n, v)" by (cases p)
  show ?case using Cons by (auto simp: p pair_ok_def pair_size_def Let_def)
qed simp

lemma valid_canon: "validEnvironmentValues (canon_map m) = validEnvironmentValues m"
proof -
  have "sum_list (map pair_size (sort_key fst m)) = sum_list (map pair_size m)"
    by (metis mset_map mset_sort sum_mset_sum_list)
  moreover have "sort_key fst m = [] \<longleftrightarrow> m = []" by (metis length_sort length_0_conv)
  ultimately show ?thesis by (simp add: validEnvironmentValues_def valid_values_iff canon_map_def)
qed

lemma length_members: "length (print_members (map (\<lambda>(k, v). (k, JStr v)) m)) \<le> 6 * sum_list (map pair_size m) + 6 * length m"
proof (induction m)
  case (Cons p m)
  obtain k v where p: "p = (k, v)" by (cases p)
  show ?case
    using Cons length_quote [of k] length_quote [of v] by (auto simp: p print_members_Cons print_json.simps pair_size_def)
qed (simp add: print_members.simps)

lemma env_JSON_fits:
  assumes "length app \<le> 63" and "length revision = 64" and "validEnvironmentValues m"
  shows "length (env_JSON \<lparr>env_Purpose = ''deployer.environment.v1'', env_AppName = app, env_Revision = revision, env_Values = m\<rparr>) \<le> 256 * 1024"
proof -
  have len: "length m \<le> 64" and sz: "m = [] \<or> sum_list (map pair_size m) \<le> 32768"
    using assms(3) by (auto simp: validEnvironmentValues_def valid_values_iff split: if_splits)
  have "validEnvironmentValues (canon_map m)" using assms(3) by (simp add: valid_canon)
  then have "length (print_members (map (\<lambda>(k, v). (k, JStr v)) (sort_key fst m))) \<le> 6 * 32768 + 6 * 64"
    using length_members [of "sort_key fst m"] by (auto simp: validEnvironmentValues_def valid_values_iff canon_map_def split: if_splits)
  moreover have "length (quote app) \<le> 380" "length (quote revision) \<le> 386"
    using length_quote [of app] length_quote [of revision] assms(1,2) by simp_all
  moreover have "length (quote ''deployer.environment.v1'') \<le> 140" "length (quote ''Purpose'') \<le> 44" "length (quote ''AppName'') \<le> 44"
    "length (quote ''Revision'') \<le> 50" "length (quote ''Values'') \<le> 38"
    using length_quote [of "''deployer.environment.v1''"] length_quote [of "''Purpose''"] length_quote [of "''AppName''"]
      length_quote [of "''Revision''"] length_quote [of "''Values''"] by simp_all
  ultimately show ?thesis by (simp add: env_JSON_def print_json.simps print_members_Cons enc_map_def)
qed

lemma read_env_JSON:
  assumes "distinct (map fst (env_Values p))"
  shows "read_env (env_JSON p) = Some (p\<lparr>env_Values := canon_map (env_Values p)\<rparr>)"
proof -
  have "json_parse (env_JSON p) = Some (JObj [(''Purpose'', JStr (env_Purpose p)), (''AppName'', JStr (env_AppName p)),
     (''Revision'', JStr (env_Revision p)), (''Values'', enc_map (env_Values p))])"
    unfolding env_JSON_def by (rule parse_print) (auto simp: enc_map_def)
  then show ?thesis
    using dec_map_enc [OF assms] by (cases p) (simp add: read_env_def env_fields_def dec_field_Cons to_lower_char_def is_upper_def)
qed

lemma bundle_values_JSON:
  assumes "ValidAppName app" and "validEnvironmentRevision revision" and "validEnvironmentValues m" and "distinct (map fst m)"
  shows "bundle_values app revision (env_JSON \<lparr>env_Purpose = ''deployer.environment.v1'', env_AppName = app, env_Revision = revision,
     env_Values = m\<rparr>) = Some (canon_map m)"
proof -
  let ?p = "\<lparr>env_Purpose = ''deployer.environment.v1'', env_AppName = app, env_Revision = revision, env_Values = m\<rparr>"
  have "\<not> length (env_JSON ?p) > 256 * 1024"
    using env_JSON_fits [of app revision m] assms(1-3) by (simp add: ValidAppName_def validEnvironmentRevision_def)
  moreover have "read_env (env_JSON ?p) = Some (?p\<lparr>env_Values := canon_map m\<rparr>)" using read_env_JSON [of ?p] assms(4) by simp
  ultimately show ?thesis unfolding bundle_values_def using assms(3) by (simp add: valid_canon)
qed

lemma resolve_stored_bundle:
  assumes "as_cipher svc = Some a" and "bundle_Find app revision (x_vault (w_env s)) = Inr b" and "Decrypt a (eb_Ciphertext b) = Inr plain"
    and "bundle_values app revision plain = Some m"
  shows "resolveEnvironmentBundle svc app revision s = (Inr m, s)"
  using assms by (simp add: resolveEnvironmentBundle_def found_read)

lemma tsel_fresh: "(\<forall>r \<in> set t. \<not> P r) \<Longrightarrow> P x \<Longrightarrow> tsel P (t @ [x]) = Some x"
  using tsel_None_iff [of P t] by (simp add: tsel_append)

lemma bundle_Create_Find:
  assumes "bundle_Create b v = Inr (u, v')" and "wf_time (eb_CreatedAt b)"
  shows "bundle_Find (eb_AppName b) (eb_Revision b) v' = Inr b"
proof -
  have "v' = v\<lparr>v_bundles := v_bundles v @ [bundle_to_row b]\<rparr>" "\<forall>r \<in> set (v_bundles v). u_key r \<noteq> (eb_AppName b, eb_Revision b)"
    using assms(1) by (auto simp: bundle_Create_def split: if_splits)
  then have "tsel (\<lambda>r. u_key r = (eb_AppName b, eb_Revision b)) (v_bundles v') = Some (bundle_to_row b)"
    using tsel_fresh [of "v_bundles v" "\<lambda>r. u_key r = (eb_AppName b, eb_Revision b)" "bundle_to_row b"]
    by (simp add: bundle_to_row_def u_key_def)
  then show ?thesis using assms(2) by (simp add: bundle_Find_def bundle_to_row_def)
qed

theorem CreateEnvironmentBundle_resolves:
  assumes "CreateEnvironmentBundle svc ctx req s = (Inr md, t)" and "as_cipher svc = Some a" and "aead_law a" and "random_ok svc"
    and "\<And>e. wf_time (as_now svc e)" and "distinct (map fst (cbr_Values req))"
  shows "resolveEnvironmentBundle svc (TrimSpace (cbr_AppName req)) (cbr_Revision req) t = (Inr (canon_map (cbr_Values req)), t)"
proof -
  let ?app = "TrimSpace (cbr_AppName req)" and ?rev = "cbr_Revision req" and ?m = "cbr_Values req"
  let ?payload = "env_JSON \<lparr>env_Purpose = ''deployer.environment.v1'', env_AppName = ?app, env_Revision = ?rev, env_Values = ?m\<rparr>"
  have valid: "ValidAppName ?app" "validEnvironmentRevision ?rev" "validEnvironmentValues ?m"
    and run: "io_found (of_vault (bundle_Find ?app ?rev)) (stage_bundle svc a ?app ?rev ?payload ?m) (io_status Internal ''read environment bundle'')
      (\<lambda>existing. io_of (sameEnvironment a existing ?payload ?m)) s = (Inr md, t)"
    using assms(1,2) unfolding CreateEnvironmentBundle_def Let_def by (auto simp: io_bind_ok io_of_ok split: if_splits)
  have "\<exists>b. bundle_Find ?app ?rev (x_vault (w_env t)) = Inr b \<and> Decrypt a (eb_Ciphertext b) = Inr ?payload"
  proof (cases "bundle_Find ?app ?rev (x_vault (w_env s))")
    case (Inr b)
    with run show ?thesis by (auto simp: found_read io_of_ok sameEnvironment_def split: sum.splits if_splits)
  next
    case (Inl e)
    with run have stage: "stage_bundle svc a ?app ?rev ?payload ?m s = (Inr md, t)" by (simp add: found_read split: if_splits)
    from stage obtain c s1 where c: "encrypt svc a ?payload s = (Inr c, s1)" and
      put: "io_try (in_vault (bundle_Create \<lparr>eb_AppName = ?app, eb_Revision = ?rev, eb_NamesJSON = print_json (JArr (map JStr (sort (map fst ?m)))),
           eb_Ciphertext = c, eb_CreatedAt = as_now svc (x_out (w_env s1))\<rparr>)) (\<lambda>r. case r of
         Inl e \<Rightarrow> io_ok_or (of_vault (bundle_Find ?app ?rev))
           (if e = ErrDb ErrEnvironmentBundleLimit then io_status ResourceExhausted ''environment revision limit reached''
            else io_status Internal ''save environment bundle'')
           (\<lambda>old. io_of (sameEnvironment a old ?payload ?m))
       | Inr _ \<Rightarrow> io_ret (environmentMetadata ?app ?rev ?m (as_now svc (x_out (w_env s1))))) s1 = (Inr md, t)"
      unfolding stage_bundle_def Let_def by (auto simp: io_bind_ok io_wrap_ok clock_ok)
    note d = encrypt_Decrypt [OF c assms(3,4)]
    let ?b = "\<lparr>eb_AppName = ?app, eb_Revision = ?rev, eb_NamesJSON = print_json (JArr (map JStr (sort (map fst ?m)))),
           eb_Ciphertext = c, eb_CreatedAt = as_now svc (x_out (w_env s1))\<rparr>"
    show ?thesis
    proof (cases "bundle_Create ?b (x_vault (w_env s1))")
      case Inl' : (Inl e')
      with put Inl d show ?thesis by (simp add: io_try_def in_vault_def found_read split: if_splits)
    next
      case (Inr q)
      then obtain v' where "bundle_Create ?b (x_vault (w_env s1)) = Inr ((), v')" by (cases q) auto
      with put have "x_vault (w_env t) = v'" and "bundle_Find ?app ?rev v' = Inr ?b"
        using bundle_Create_Find [of ?b "x_vault (w_env s1)" "()" v'] assms(5) by (auto simp: io_try_def in_vault_def)
      with d show ?thesis by auto
    qed
  qed
  then show ?thesis using resolve_stored_bundle [OF assms(2)] bundle_values_JSON [OF valid assms(6)] by blast
qed

subsection \<open>Registry credentials\<close>

lemma read_cred_JSON: "read_cred (cred_JSON p) = Some p"
proof -
  have "json_parse (cred_JSON p) = Some (JObj [(''purpose'', JStr (cp_Purpose p)), (''app_name'', JStr (cp_AppName p)),
     (''revision'', JStr (cp_Revision p)), (''registry'', JStr (cp_Registry p)), (''username'', JStr (cp_Username p)),
     (''password'', JStr (cp_Password p))])"
    unfolding cred_JSON_def by (rule parse_print) simp
  then show ?thesis by (cases p) (simp add: read_cred_def cred_fields_def dec_field_Cons to_lower_char_def is_upper_def)
qed

lemma credential_decode_JSON:
  assumes "Decrypt a (rc_Ciphertext row) = Inr (cred_JSON (credentialPayload c))" and "is_ok (credential_Validate c)"
    and "rc_AppName row = cr_AppName c" "rc_Revision row = cr_Revision c" "rc_Registry row = cr_Registry c"
  shows "credential_decode a row = (if length (cred_JSON (credentialPayload c)) \<le> 20000 then Inr c else Inl unresolvable)"
  using assms by (cases c) (simp add: credential_decode_def read_cred_JSON, simp add: credentialPayload_def)

lemma credential_Create_Find:
  assumes "credential_Create c v = Inr (u, v')" and "wf_time (rc_CreatedAt c)"
  shows "credential_Find (rc_AppName c) (rc_Revision c) v' = Inr c"
proof -
  have "v' = v\<lparr>v_credentials := v_credentials v @ [cred_to_row c]\<rparr>" "\<forall>r \<in> set (v_credentials v). k_key r \<noteq> (rc_AppName c, rc_Revision c)"
    and valid: "validRegistryCredential c"
    using assms(1) by (auto simp: credential_Create_def split: if_splits)
  then have "tsel (\<lambda>r. k_key r = (rc_AppName c, rc_Revision c)) (v_credentials v') = Some (cred_to_row c)"
    using tsel_fresh [of "v_credentials v" "\<lambda>r. k_key r = (rc_AppName c, rc_Revision c)" "cred_to_row c"]
    by (simp add: cred_to_row_def k_key_def)
  then show ?thesis using assms(2) valid by (simp add: credential_Find_def validRegistryCredential_def cred_to_row_def split: if_splits)
qed

theorem CreateRegistryCredential_resolves:
  assumes "CreateRegistryCredential svc ctx c s = (Inr md, t)" and "as_cipher svc = Some a" and "aead_law a" and "random_ok svc"
    and "\<And>e. wf_time (as_now svc e)" and "credential_Find (cr_AppName c) (cr_Revision c) (x_vault (w_env s)) = Inl ErrNotFound"
    and "is_ok (credential_ValidateFor c (cr_AppName c) (cr_Revision c) img)"
  shows "ResolveRegistryCredential svc (cr_AppName c) (cr_Revision c) img t =
     (if length (cred_JSON (credentialPayload c)) \<le> 20000 then Inr c else Inl unresolvable, t)"
proof -
  let ?app = "cr_AppName c" and ?rev = "cr_Revision c" and ?payload = "cred_JSON (credentialPayload c)"
  have valid: "is_ok (credential_Validate c)" and stage: "stage_credential svc a c ?payload s = (Inr md, t)"
    using assms(1,2,6) unfolding CreateRegistryCredential_def Let_def
    by (auto simp: io_bind_ok io_of_ok found_read split: if_splits)
  from stage obtain e s1 where e: "encrypt svc a ?payload s = (Inr e, s1)" and
    put: "io_try (in_vault (credential_Create \<lparr>rc_Revision = ?rev, rc_AppName = ?app, rc_Registry = cr_Registry c, rc_Ciphertext = e,
           rc_CreatedAt = as_now svc (x_out (w_env s1))\<rparr>)) (\<lambda>r. case r of
         Inl e \<Rightarrow> io_ok_or (of_vault (credential_Find ?app ?rev))
           (if e = ErrDb ErrRegistryCredentialLimit then io_status ResourceExhausted ''registry credential revision limit reached''
            else io_status Internal ''save registry credential'')
           (\<lambda>old. io_of (sameCredential a old ?payload))
       | Inr _ \<Rightarrow> io_ret (registryMetadata \<lparr>rc_Revision = ?rev, rc_AppName = ?app, rc_Registry = cr_Registry c, rc_Ciphertext = e,
           rc_CreatedAt = as_now svc (x_out (w_env s1))\<rparr>)) s1 = (Inr md, t)"
    unfolding stage_credential_def Let_def by (auto simp: io_bind_ok io_wrap_ok clock_ok)
  note d = encrypt_Decrypt [OF e assms(3,4)]
  let ?row = "\<lparr>rc_Revision = ?rev, rc_AppName = ?app, rc_Registry = cr_Registry c, rc_Ciphertext = e,
           rc_CreatedAt = as_now svc (x_out (w_env s1))\<rparr>"
  show ?thesis
  proof (cases "credential_Create ?row (x_vault (w_env s1))")
    case (Inl e')
    with put assms(6) d show ?thesis by (simp add: io_try_def in_vault_def found_read split: if_splits)
  next
    case (Inr q)
    then obtain v' where "credential_Create ?row (x_vault (w_env s1)) = Inr ((), v')" by (cases q) auto
    with put have find: "credential_Find ?app ?rev (x_vault (w_env t)) = Inr ?row"
      using credential_Create_Find [of ?row "x_vault (w_env s1)" "()" v'] assms(5) by (auto simp: io_try_def in_vault_def)
    moreover have "registryauth_ValidAppName ?app" "ValidRevision ?rev"
      using valid by (auto simp: credential_Validate_def split: if_splits)
    moreover have "credential_decode a ?row = (if length ?payload \<le> 20000 then Inr c else Inl unresolvable)"
      using credential_decode_JSON [of a ?row c] d valid by simp
    ultimately show ?thesis using assms(2,7)
      by (simp add: ResolveRegistryCredential_def io_bind_def io_wrap_def of_vault_def)
  qed
qed

subsection \<open>Secrets\<close>

lemma secret_Set_Find:
  assumes "secret_Set x v = Inr (u, v')" and "secret_Find (sec_AppID x) (sec_Name x) v = Inl ErrNotFound \<or> (\<exists>y. secret_Find (sec_AppID x) (sec_Name x) v = Inr y)"
    and "wf_time (sec_CreatedAt x)" and "wf_time (sec_UpdatedAt x)"
  shows "\<exists>y. secret_Find (sec_AppID x) (sec_Name x) v' = Inr y \<and> sec_Ciphertext y = sec_Ciphertext x"
proof -
  let ?k = "(sec_AppID x, sec_Name x)" and ?r = "secret_to_row x"
  have k: "s_key ?r = ?k" by (simp add: secret_to_row_def s_key_def)
  have v': "v' = v\<lparr>v_secrets := (if \<exists>y \<in> set (v_secrets v). s_key y = ?k
      then tupd (\<lambda>y. s_key y = ?k) (\<lambda>y. y\<lparr>s_cipher := s_cipher ?r, s_updated := s_updated ?r\<rparr>) (v_secrets v) else v_secrets v @ [?r])\<rparr>"
    using assms(1) unfolding secret_Set_def Let_def k by (elim sum.inject(2) [THEN iffD1, elim_format] Pair_inject) (rule sym)
  show ?thesis
  proof (cases "tsel (\<lambda>y. s_key y = ?k) (v_secrets v)")
    case None
    then have none: "\<forall>y \<in> set (v_secrets v). s_key y \<noteq> ?k" by (simp add: tsel_None_iff)
    then have "tsel (\<lambda>y. s_key y = ?k) (v_secrets v') = Some ?r"
      using tsel_fresh [of "v_secrets v" "\<lambda>y. s_key y = ?k" ?r] v' k by simp
    then show ?thesis using assms(3,4) by (simp add: secret_Find_def secret_to_row_def)
  next
    case (Some r)
    then have r: "r \<in> set (v_secrets v)" "s_key r = ?k" by (auto dest: tsel_SomeD)
    then have ex: "\<exists>y \<in> set (v_secrets v). s_key y = ?k" by blast
    have "tsel (\<lambda>y. s_key y = ?k) (v_secrets v') = Some (r\<lparr>s_cipher := s_cipher ?r, s_updated := s_updated ?r\<rparr>)"
      using tsel_tupd_same [where key = s_key and k = ?k and P = "\<lambda>y. s_key y = ?k"
          and f = "\<lambda>y. y\<lparr>s_cipher := s_cipher ?r, s_updated := s_updated ?r\<rparr>" and t = "v_secrets v"] Some r(2)
      unfolding v' if_P [OF ex] by (simp add: s_key_def)
    moreover have "\<exists>t. parseStoredTime (s_created r) = Inr t"
      using assms(2) Some by (auto simp: secret_Find_def parseStoredTime_def res_simps rbind_def split: sum.splits option.splits)
    ultimately show ?thesis using assms(4) by (auto simp: secret_Find_def secret_to_row_def)
  qed
qed

lemma untouched_events: "untouched.keeps (app_recordEvent svc e)"
  unfolding app_recordEvent_def
  by (intro untouched.keeps_basic) (auto simp: untouched.keeps_def untouched_def in_events_def split: sum.splits)

lemma untouched_reconcile: "untouched.keeps (reconcileReferencedSecret svc a n)"
  unfolding reconcileReferencedSecret_def reconcileRuntime_def no_private_pull_def
  by (intro untouched.keeps_basic untouched.keeps_reads untouched_rcall;
      (intro untouched.keeps_basic untouched.keeps_reads untouched_rcall | simp split: srv_err.split; intro conjI allI impI untouched.keeps_basic untouched.keeps_reads untouched_rcall)+)

text \<open>\<open>holds d v W m\<close>: run where \<open>d\<close> and \<open>v\<close> are stored, \<open>m\<close> succeeds only with encrypted tables that satisfy \<open>W\<close>.\<close>

definition holds :: "db \<Rightarrow> vault \<Rightarrow> (vault \<Rightarrow> bool) \<Rightarrow> (('e, 'p) app_world, unit) io \<Rightarrow> bool" where
  "holds d v W m \<longleftrightarrow> (\<forall>s t. w_db s = d \<longrightarrow> x_vault (w_env s) = v \<longrightarrow> m s = (Inr (), t) \<longrightarrow> W (x_vault (w_env t)))"

lemma holds_bind: "untouched.keeps m \<Longrightarrow> (\<And>x s t. w_db s = d \<Longrightarrow> m s = (Inr x, t) \<Longrightarrow> holds d v W (f x)) \<Longrightarrow> holds d v W (io_bind m f)"
  unfolding holds_def io_bind_ok using untouched_after by blast

lemma holds_sum: "(\<And>x. holds d v W (g x)) \<Longrightarrow> holds d v W (case z of Inl e \<Rightarrow> io_fail (h e) | Inr x \<Rightarrow> g x)"
  by (cases z) (auto simp: holds_def)

lemma SetSecret_stores:
  fixes svc :: "('e, 'p) app_service"
  assumes "aead_law a" and "random_ok svc" and "\<And>e. wf_time (as_now svc e)" and "FindActiveByName (TrimSpace appName) d = Inr x"
    and "as_cipher svc = Some a"
  shows "holds d v (\<lambda>v'. \<exists>y. secret_Find (app_ID x) (TrimSpace name) v' = Inr y \<and> Decrypt a (sec_Ciphertext y) = Inr val)
    (SetSecret svc ctx appName name val)"
proof -
  let ?W = "\<lambda>v'. \<exists>y. secret_Find (app_ID x) (TrimSpace name) v' = Inr y \<and> Decrypt a (sec_Ciphertext y) = Inr val"
  let ?sec = "\<lambda>c now. \<lparr>sec_AppID = app_ID x, sec_Name = TrimSpace name, sec_Ciphertext = c, sec_CreatedAt = now, sec_UpdatedAt = now\<rparr>"
  have put: "holds d v ?W (io_bind (internally ''set secret'' (in_vault (secret_Set (?sec c now)))) (\<lambda>_. io_bind (app_recordEvent svc e) (\<lambda>_.
      reconcileReferencedSecret svc x n)))" if "Decrypt a c = Inr val" "wf_time now"
    and f: "secret_Find (app_ID x) (TrimSpace name) v = Inl ErrNotFound \<or> (\<exists>y. secret_Find (app_ID x) (TrimSpace name) v = Inr y)" for c now e n
    unfolding holds_def
  proof safe
    fix s t assume d: "d = w_db s" "v = x_vault (w_env s)" and run: "io_bind (internally ''set secret'' (in_vault (secret_Set (?sec c now))))
      (\<lambda>_. io_bind (app_recordEvent svc e) (\<lambda>_. reconcileReferencedSecret svc x n)) s = (Inr (), t)"
    then obtain v' where v': "secret_Set (?sec c now) v = Inr ((), v')" "x_vault (w_env t) = v'"
      by (auto simp: io_bind_ok io_wrap_ok in_vault_ok dest!: untouched_after [OF untouched_events] untouched_after [OF untouched_reconcile])
    with secret_Set_Find [OF v'(1)] f that show "?W (x_vault (w_env t))" by auto
  qed
  have found: "holds d v ?W (io_bind (io_found (of_vault (secret_Find (app_ID x) (TrimSpace name))) (io_ret p) (io_fail e) (\<lambda>_. io_ret q)) f)"
    if "\<And>z. secret_Find (app_ID x) (TrimSpace name) v = Inl ErrNotFound \<or> (\<exists>y. secret_Find (app_ID x) (TrimSpace name) v = Inr y) \<Longrightarrow> holds d v ?W (f z)"
    for p q :: "string \<times> string" and e and f :: "string \<times> string \<Rightarrow> (('e, 'p) app_world, unit) io"
    unfolding holds_def io_bind_ok
    by (cases "secret_Find (app_ID x) (TrimSpace name) v") (use that in \<open>auto simp: found_read holds_def split: if_splits\<close>)
  have app: "y = x \<and> m = TrimSpace name" if "appAndSecretName svc appName name s = (Inr (y, m), t)" "w_db s = d" for s t y m
    using that assms(4) unfolding appAndSecretName_def activeApp_def Let_def
    by (auto simp: io_bind_ok found_read split: if_splits sum.splits)
  have untouched_app: "untouched.keeps (appAndSecretName svc appName name)"
    unfolding appAndSecretName_def activeApp_def Let_def by (intro untouched.keeps_basic)
  have prefix: "untouched.keeps (io_of r)" "untouched.keeps (requireConfigured svc)" for r :: "srv_err + unit"
    unfolding requireConfigured_def by (intro untouched.keeps_basic)+
  have body: "holds d v ?W (case parseStoredConfigForDeployment svc (app_DesiredStateJSON x) of Inl _ \<Rightarrow> io_status FailedPrecondition msg
     | Inr cfg \<Rightarrow> io_bind (preflightHosting svc cfg) (\<lambda>_.
         io_bind (io_found (of_vault (secret_Find (app_ID x) (TrimSpace name))) (io_ret p) (io_fail e) (\<lambda>_. io_ret q)) (\<lambda>(eventType, eventMessage).
         io_bind (internally ''encrypt secret'' (encrypt svc a val)) (\<lambda>ciphertext.
         io_bind (clock svc) (\<lambda>now.
         io_bind (internally ''set secret'' (in_vault (secret_Set (?sec ciphertext now)))) (\<lambda>_.
         io_bind (app_recordEvent svc (E eventType eventMessage)) (\<lambda>_. reconcileReferencedSecret svc x (TrimSpace name))))))))" for msg e E and p q :: "string \<times> string"
    apply (intro holds_sum)
    apply (rule holds_bind, intro untouched.keeps_reads)
    apply (rule found, unfold case_prod_beta)
    apply (rule holds_bind, intro untouched.keeps_basic)
    apply (rule holds_bind, intro untouched.keeps_basic)
    apply (rule put)
    using encrypt_Decrypt [OF _ assms(1,2)] assms(3) by (auto simp: io_wrap_ok clock_ok)
  show ?thesis
    unfolding SetSecret_def
    apply (rule holds_bind, rule prefix, rule holds_bind, rule prefix, rule holds_bind, rule untouched_app)
    subgoal for u s0 t0 cipher s1 t1 p s2 t2
      using app [of s2 "fst p" "snd p" t2] assms(5) body by (cases p) (auto simp: requireConfigured_def)
    done
qed

theorem SetSecret_resolves:
  assumes "SetSecret svc ctx appName name val s = (Inr (), t)" and "as_cipher svc = Some a" and "aead_law a" and "random_ok svc"
    and "\<And>e. wf_time (as_now svc e)" and "FindActiveByName (TrimSpace appName) (w_db s) = Inr x"
  shows "\<exists>revision. resolveSecretValues svc (app_ID x) [TrimSpace name] t = (Inr ([(TrimSpace name, val)], revision), t)"
proof -
  obtain y where "secret_Find (app_ID x) (TrimSpace name) (x_vault (w_env t)) = Inr y" "Decrypt a (sec_Ciphertext y) = Inr val"
    using SetSecret_stores [OF assms(3,4,5,6,2), of "x_vault (w_env s)" name val ctx] assms(1) by (auto simp: holds_def)
  then show ?thesis using assms(2) by (simp add: resolveSecretValues_def found_read)
qed

end
