(* ===== verification/App_Samples.thy ===== *)
theory App_Samples
  imports Samples App_Stored
begin

text \<open>
  Concrete inputs for the witnesses about the app service: a service with a runtime that counts what
  is applied, a toy cipher that satisfies the law of an authenticated cipher, and an app that is
  deployed, replayed and deleted.
\<close>

section \<open>A service\<close>

definition plain_aead :: aead where
  "plain_aead = \<lparr>NonceSize = 12, Seal = (\<lambda>n p. p @ replicate 16 0), Open = (\<lambda>n c. Some (take (length c - 16) c))\<rparr>"

lemma plain_aead_law: "aead_law plain_aead"
  by (simp add: aead_law_def plain_aead_def bytes_ok_def list_all_iff)

definition counting_runtime :: "(nat, int) app_runtime" where
  "counting_runtime = \<lparr>ar_Reconcile = (\<lambda>_ _ _ n. (Inr (), Suc n)), ar_Delete = (\<lambda>_ n. (Inr (), n)), ar_Status = (\<lambda>_ n. (Inr ''healthy'', n)),
     ar_PreflightHosting = Some (\<lambda>_. io_ret ()), ar_ReconcileWithRegistry = None, ar_StatusDetails = None, ar_RuntimeStatus = None,
     ar_DatabaseStatus = None, ar_StreamLogs = None, ar_CheckCandidateDeletion = Some (\<lambda>_. io_ret ()), ar_CandidateRequest = None,
     ar_PrepareCandidateDependencies = None, ar_CreateInactiveCandidateService = None, ar_EnsureCandidateRecoveryNamespace = None,
     ar_InitialCandidateRequest = None, ar_ResetInactiveCandidateService = None, ar_BeginCandidateDeletion = None,
     ar_CleanupCandidateDeletion = None, ar_FinishCandidateDeletion = None, ar_RetireLegacyCandidatePredecessor = None\<rparr>"

definition app_server :: "(nat, int) app_service" where
  "app_server = \<lparr>as_libs = sample_libs, as_yaml = (\<lambda>_. Some sample_config), as_enableCandidateOperations = False,
     as_runtime = Some counting_runtime, as_cipher = Some plain_aead, as_routeTLSEnabled = True, as_events = None,
     as_now = (\<lambda>_. sample_time), as_random = (\<lambda>n e. (Some (replicate n 7), e)), as_acquire = (\<lambda>_. io_ret ()),
     as_cancelled = (\<lambda>_. False), as_errtext = (\<lambda>_. ''error''), as_cfgtext = (\<lambda>_. ''invalid'')\<rparr>"

definition app_state :: "db \<Rightarrow> vault \<Rightarrow> (nat, int) app_world" where
  "app_state d v = \<lparr>w_db = d, w_env = \<lparr>x_vault = v, x_store = empty_store, x_out = 0\<rparr>, w_log = []\<rparr>"

definition admin :: ctx where
  "admin = Some \<lparr>caller_Kind = CallerAdmin, caller_NodeID = [], caller_TokenID = ''t''\<rparr>"

definition tracked :: deploy_app_request where
  "tracked = \<lparr>dar_DeployerYaml = ''name: web'', dar_RequestId = sample_rid, dar_ReportWithdrawal = True\<rparr>"

definition untracked :: deploy_app_request where
  "untracked = \<lparr>dar_DeployerYaml = ''name: web'', dar_RequestId = [], dar_ReportWithdrawal = False\<rparr>"

lemma app_server_simps [simp]:
  "as_libs app_server = sample_libs" "as_enableCandidateOperations app_server = False" "as_runtime app_server = Some counting_runtime"
  "as_cipher app_server = Some plain_aead" "as_routeTLSEnabled app_server = True" "as_events app_server = None"
  "as_now app_server e = sample_time" "as_random app_server n k = (Some (replicate n 7), k)" "as_acquire app_server a = io_ret ()"
  by (simp_all add: app_server_def)

lemma app_state_simps [simp]: "w_db (app_state d v) = d" "x_vault (w_env (app_state d v)) = v"
  by (simp_all add: app_state_def)

lemma sample_normal: "Normalize sample_config = sample_config"
  by code_simp

lemma sample_config_fields [simp]:
  "cfg_Name sample_config = ''web''" "cfg_EnvironmentRevision sample_config = []" "cfg_ImagePullCredential sample_config = []"
  "cfg_Secrets sample_config = []" "cfg_Storage sample_config = None" "cfg_Hosting sample_config \<noteq> None"
  "routing_Domain (cfg_Routing sample_config) = ''web.example.org''" "service_Port (cfg_Service sample_config) = 8080"
  by (code_simp)+

lemma app_requested: "requested_config app_server admin ''name: web'' = Inr sample_config"
proof -
  have "TrimSpace ''name: web'' \<noteq> []" by code_simp
  moreover have "as_yaml app_server y = Some sample_config" for y by (simp add: app_server_def)
  ultimately show ?thesis
    by (simp add: requested_config_def admin_def requireCaller_def Parse_def sample_normal sample_valid validateRequiredTLS_def)
qed

lemma app_random: "random_ok app_server"
  by (simp add: random_ok_def bytes_ok_def list_all_iff)

section \<open>A tracked deployment\<close>


lemma sample_trims [simp]: "TrimSpace sample_rid = sample_rid" "TrimSpace ''web.example.org'' = ''web.example.org''" "sample_rid \<noteq> []"
proof -
  show "TrimSpace sample_rid = sample_rid" by (rule revision_trimmed) (use sample_rid_valid(2) in \<open>simp add: deployRequestID_def\<close>)
  show "TrimSpace ''web.example.org'' = ''web.example.org''" by code_simp
  show "sample_rid \<noteq> []" by (simp add: sample_rid_def)
qed

lemma counting_simps [simp]:
  "ar_PreflightHosting counting_runtime = Some (\<lambda>_. io_ret ())" "ar_CheckCandidateDeletion counting_runtime = Some (\<lambda>_. io_ret ())"
  "ar_Reconcile counting_runtime cfg vs rv n = (Inr (), Suc n)" "ar_ReconcileWithRegistry counting_runtime = None"
  by (simp_all add: counting_runtime_def)

definition sample_id :: "string \<Rightarrow> string" where
  "sample_id p = p @ ''_'' @ RawURLEncoding (replicate 16 7)"

lemma fresh_sample [simp]: "fresh_id app_server p s = (Inr (sample_id p), s)"
  by (simp add: sample_id_def fresh_id_def random_def silent_def out_io_def io_bind_def newID_def)

lemma world_sample [simp]: "clock app_server s = (Inr sample_time, s)" "acquireOperation app_server a s = (Inr (), s)"
  by (simp_all add: clock_def acquireOperation_def silent_def out_io_def)

lemma rcall_ret [simp]: "rcall c (io_ret x) s = (Inr x, s\<lparr>w_log := w_log s @ [(c, w_db s)]\<rparr>)"
  by (simp add: rcall_def call_io_def out_io_def)




lemma json_Valid_config [simp]: "json_Valid (config_JSON c)"
  by (simp add: json_Valid_def config_JSON_def parse_print wf_enc_config)

lemma sample_sync: "\<exists>t. syncRoute app_server x sample_config now s = (Inr (), t) \<and> deployments (w_db t) = deployments (w_db s) \<and> requests (w_db t) = requests (w_db s) \<and> bindings (w_db t) = bindings (w_db s)"
  if "routes (w_db s) = []" "app_ID x \<in> a_id ` set (apps (w_db s))" for s :: "(nat, int) app_world"
  using that by (auto simp: syncRoute_def io_bind_def io_wrap_def tx_io_def UpsertForApp_def upsert_route_def insert_route_def route_to_row_def)

definition sample_app :: app where
  "sample_app = \<lparr>app_ID = sample_id ''app'', app_Name = ''web'', app_Image = cfg_Image sample_config,
     app_DesiredStateJSON = config_JSON sample_config, app_CreatedAt = sample_time, app_UpdatedAt = sample_time, app_DeletedAt = None\<rparr>"

lemma sample_finish: "\<exists>r t. finish_deployment app_server sample_app dep sample_config sample_rid sample_time s = (Inr r, t)"
  if "\<exists>x \<in> set (deployments (w_db s)). d_id x = dep_ID dep" "\<exists>r \<in> set (requests (w_db s)). q_key r = (''web'', sample_rid) \<and> q_state r = ''pending''"
    "bindings (w_db s) = []" for s :: "(nat, int) app_world"
proof -
  have "recordDeployEvent app_server ty sv ms a dp cfg re u = (Inr (), u)" for ty sv ms a dp cfg re u
    by (simp add: recordDeployEvent_def app_recordEvent_def)
  moreover have "\<exists>p. protoApp app_server sample_app = Inr p" by (simp add: protoApp_def sample_app_def)
  moreover have "\<not> (\<forall>r\<in>set (requests (w_db s)). q_key r = (''web'', sample_rid) \<longrightarrow> q_state r = ''pending'' \<longrightarrow> has_binding d r)" if "bindings d = []" for d
    using \<open>\<exists>r \<in> _. q_key r = (''web'', sample_rid) \<and> _ r\<close> that by (auto simp: has_binding_def)
  ultimately show ?thesis
    using that unfolding finish_deployment_def Let_def completeDeploymentRequest_def
    by (auto simp: io_bind_def io_wrap_def tx_io_def deployment_UpdateStatus_def mapRowsAffected_def request_Complete_def response_JSON_valid has_binding_def)
qed


lemma sample_apply: "\<exists>r t. apply_deployment app_server sample_app dep sample_config None True sample_rid sample_time vs rv c s = (Inr r, t)"
  if h: "\<exists>x \<in> set (deployments (w_db s)). d_id x = dep_ID dep" "\<exists>r \<in> set (requests (w_db s)). q_key r = (''web'', sample_rid) \<and> q_state r = ''pending''"
    "bindings (w_db s) = []" "routes (w_db s) = []" "app_ID sample_app \<in> a_id ` set (apps (w_db s))" for s :: "(nat, int) app_world"
proof -
  obtain s1 where s1: "apply_resources app_server sample_config vs rv c s = (Inr (), s1)" "w_db s1 = w_db s"
    by (simp add: apply_resources_def reconcileRuntime_def rcall_def call_io_def out_io_def)
  obtain t where t: "syncRoute app_server sample_app sample_config sample_time s1 = (Inr (), t)" "deployments (w_db t) = deployments (w_db s1)"
    "requests (w_db t) = requests (w_db s1)" "bindings (w_db t) = bindings (w_db s1)" using sample_sync [of s1 sample_app] h s1(2) by auto
  show ?thesis using sample_finish [of t dep] t s1 h by (simp add: apply_deployment_def Let_def io_try_def)
qed

lemma sample_open: "\<exists>r t. open_deployment app_server sample_config True sample_rid sample_time b c sample_app None s = (Inr r, t)"
  if h: "deployments (w_db s) = []" "\<exists>r \<in> set (requests (w_db s)). q_key r = (''web'', sample_rid) \<and> q_state r = ''pending''"
    "bindings (w_db s) = []" "routes (w_db s) = []" "app_ID sample_app \<in> a_id ` set (apps (w_db s))" for s :: "(nat, int) app_world"
proof -
  define dep where "dep = \<lparr>dep_ID = sample_id ''deploy'', dep_AppID = app_ID sample_app, dep_Status = ''pending'',
    dep_FailureReason = [], dep_CreatedAt = sample_time, dep_UpdatedAt = sample_time\<rparr>"
  obtain d where d: "deployment_Create dep (w_db s) = Inr ((), d)" "\<exists>x \<in> set (deployments d). d_id x = dep_ID dep" "requests d = requests (w_db s)"
    "bindings d = []" "routes d = []" "apps d = apps (w_db s)"
    using h by (auto simp: deployment_Create_def insert_deployment_def dep_def)
  show ?thesis
    using sample_apply [of "s\<lparr>w_db := d\<rparr>" dep "[]" "[]" c] d h unfolding open_deployment_def Let_def
    by (simp add: io_bind_def io_try_def io_wrap_def tx_io_def dep_def [symmetric] resolveConfiguredEnvironment_def resolveSecretValues_def
        recordDeployEvent_def app_recordEvent_def)
qed

lemma sample_deploy_direct: "\<exists>r t. deploy_direct app_server sample_config sample_rid True s = (Inr r, t)" if "w_db s = empty_db" for s :: "(nat, int) app_world"
proof -
  let ?d = "empty_db\<lparr>requests := [new_request (new_deploy_request sample_config sample_rid (config_JSON sample_config) True sample_time) None sample_time sample_time]\<rparr>"
  have a: "replay_request sample_config sample_rid True s = (Inr None, s)"
    using that by (simp add: replay_request_def found_read request_Find_def find_request_def empty_db_def)
  have b: "preflightHosting app_server sample_config u = (Inr (), u\<lparr>w_log := w_log u @ [(CAdmit sample_config, w_db u)]\<rparr>)" for u
    by (simp add: preflightHosting_def io_try_def)
  have c: "validateRequestedDomain ''web'' ''web.example.org'' u = (Inr (), u)" if "w_db u = empty_db" for u :: "(nat, int) app_world"
    using that by (simp add: validateRequestedDomain_def found_read FindByDomain_def empty_db_def)
  have d: "begin_request sample_config sample_rid True sample_time u = (Inr None, u\<lparr>w_db := ?d\<rparr>)" if "w_db u = empty_db" for u :: "(nat, int) app_world"
    using that by (simp add: begin_request_def io_bind_def io_wrap_def tx_io_def request_Begin_def new_deploy_request_def find_request_def
        active_app_def insert_request_def new_request_def empty_db_def)
  have e: "target_app app_server sample_config True sample_time u = (Inr (sample_app, None), u\<lparr>w_db := ?d\<lparr>apps := [app_to_row sample_app]\<rparr>\<rparr>)" if "w_db u = ?d"
    for u :: "(nat, int) app_world"
    using that by (simp add: target_app_def found_read app_FindByName_def app_findOne_def empty_db_def io_bind_def io_wrap_def tx_io_def app_Create_def
        insert_app_def Let_def sample_app_def app_to_row_def)
  show ?thesis
    using that sample_open [of "s\<lparr>w_log := w_log s @ [(CAdmit sample_config, empty_db)], w_db := ?d\<lparr>apps := [app_to_row sample_app]\<rparr>\<rparr>"]
    unfolding deploy_direct_def bundle_or_none_def resolveRuntimeRegistry_def start_deployment_def
    by (simp add: io_bind_def a b c d e) (simp add: empty_db_def new_request_def new_deploy_request_def q_key_def app_to_row_def)
qed

lemma sample_deployed: "\<exists>r t. DeployApp app_server admin tracked (app_state empty_db empty_vault) = (Inr r, t)"
  using sample_deploy_direct [of "(app_state empty_db empty_vault)\<lparr>w_log := [(CQuery ''web'', empty_db)]\<rparr>"]
  by (simp add: DeployApp_def tracked_def app_requested Let_def io_bind_def checkCandidateDeletion_def io_wrap_def) (simp add: app_state_def)

text \<open>The calls before the work of a deployment succeed in every state.\<close>

lemma sample_admitted: "\<exists>u v. acquireOperation app_server ''web'' s = (Inr (), u) \<and> checkCandidateDeletion app_server ''web'' u = (Inr (), v)"
  by (simp add: checkCandidateDeletion_def io_wrap_def)

section \<open>A pending request and a withdrawn one\<close>

definition pending_row :: req_row where
  "pending_row = new_request (new_deploy_request sample_config sample_rid (config_JSON sample_config) True sample_time) None sample_time sample_time"

definition pending_db :: db where
  "pending_db = empty_db\<lparr>requests := [pending_row]\<rparr>"

definition withdrawing_db :: db where
  "withdrawing_db = pending_db\<lparr>withdrawals := [\<lparr>w_app = ''web'', w_id = sample_rid, w_at = formatTime sample_time\<rparr>]\<rparr>"

lemma pending_row_simps [simp]: "q_key pending_row = (''web'', sample_rid)" "q_app pending_row = ''web''" "q_state pending_row = ''pending''" "q_response pending_row = None"
  by (simp_all add: pending_row_def new_request_def new_deploy_request_def q_key_def)

lemma pending_db_ok: "schema_ok pending_db" "has_pending ''web'' pending_db" "schema_ok withdrawing_db"
  by (auto simp: pending_db_def withdrawing_db_def empty_db_def schema_ok_def keys_ok_def refs_ok_def req_ok_def one_pending_def has_pending_def w_key_def keyed_def)

lemma withdrawing_db_rows: "WithdrawalRequested ''web'' sample_rid withdrawing_db" "find_request withdrawing_db ''web'' sample_rid = Some pending_row"
  by (simp_all add: withdrawing_db_def pending_db_def empty_db_def WithdrawalRequested_def w_key_def find_request_def)

section \<open>Deletion\<close>

definition live_db :: db where
  "live_db = empty_db\<lparr>apps := [app_to_row sample_app]\<rparr>"

lemma sample_app_name [simp]: "app_Name sample_app = ''web''"
  by (simp add: sample_app_def)

lemma live_db_ok: "schema_ok live_db"
  by (simp add: live_db_def empty_db_def schema_ok_def keys_ok_def refs_ok_def one_pending_def keyed_def)

lemma live_app: "FindActiveByName ''web'' live_db = Inr sample_app"
  by (simp add: live_db_def app_FindByName_def app_findOne_def FindActiveByName_def app_to_row_def scanApp_def sample_app_def formatOptionalTime_def
      parseOptionalStoredTime_def)

lemma sample_deleted: "\<exists>p t. DeleteApp app_server admin ''web'' (app_state live_db empty_vault) = (Inr p, t)"
proof -
  have find: "app_FindByName ''web'' live_db = Inr sample_app" "FindActiveByName ''web'' live_db = Inr sample_app"
    using live_app active_found [OF live_app] by simp_all
  have "no_pending ''web'' s = (Inr (), s)" if "w_db s = live_db" for s :: "(nat, int) app_world"
    using that by (simp add: no_pending_def found_read request_PendingByApp_def live_db_def empty_db_def)
  moreover have "tryDeleteCandidateApp app_server ''web'' s = (Inr None, s)" if "w_db s = live_db" for s :: "(nat, int) app_world"
    using that find by (simp add: tryDeleteCandidateApp_def found_read io_bind_def read_io_def) (simp add: GenerationsByApp_def live_db_def empty_db_def)
  moreover have "\<exists>p t. delete_direct app_server ''web'' s = (Inr p, t)" if db: "w_db s = live_db" for s :: "(nat, int) app_world"
  proof -
    obtain s1 where s1: "rcall (CDelete ''web'') (ar_Delete counting_runtime ''web'') s = (Inr (), s1)" "w_db s1 = live_db"
      using db by (simp add: counting_runtime_def rcall_def call_io_def out_io_def)
    have "credential_DeleteByApp ''web'' v = Inr ((), v\<lparr>v_credentials := tdel (\<lambda>r. k_app r = ''web'') (v_credentials v)\<rparr>)" for v
    proof -
      have "rmatch registryCredentialAppPattern ''web''" by code_simp
      then show ?thesis by (simp add: credential_DeleteByApp_def)
    qed
    moreover obtain a d p where "MarkDeleted ''web'' sample_time (delete_routes (app_ID sample_app) live_db) = Inr (a, d)" "protoApp app_server a = Inr p"
      by (simp add: MarkDeleted_def live_db_def delete_routes_def empty_db_def mapRowsAffected_def app_FindByName_def app_findOne_def tupd_def app_to_row_def
          scanApp_def sample_app_def formatOptionalTime_def parseOptionalStoredTime_def protoApp_def)
    ultimately show ?thesis
      using s1 db find unfolding delete_direct_def
      by (simp add: found_read io_bind_def io_wrap_def tx_io_def in_vault_def DeleteByApp_def bundle_DeleteByApp_def)
  qed
  ultimately show ?thesis
    unfolding DeleteApp_def Let_def admin_def
    by (simp add: requireCaller_def sample_trim io_bind_def)
qed

section \<open>Encrypted data\<close>

lemma length_RawURLEncoding: "3 * length (RawURLEncoding bs) \<le> 4 * length bs + 2" "bs \<noteq> [] \<Longrightarrow> RawURLEncoding bs \<noteq> []"
  by (induction bs rule: RawURLEncoding.induct) auto

lemma sample_encrypt: "encrypt app_server plain_aead p s = (Inr (RawURLEncoding (replicate 12 7 @ map of_char p @ replicate 16 0)), s)"
  by (simp add: encrypt_def random_def silent_def out_io_def io_bind_def Encrypt_def plain_aead_def)

definition bundle_request :: create_bundle_request where
  "bundle_request = \<lparr>cbr_AppName = ''web'', cbr_Revision = sample_rid, cbr_Values = [(''TOKEN'', ''s3cret'')]\<rparr>"

lemma sample_bundle: "\<exists>md t. CreateEnvironmentBundle app_server admin bundle_request (app_state empty_db empty_vault) = (Inr md, t)"
proof -
  have "ValidAppName ''web''" "validEnvironmentRevision sample_rid" "validEnvironmentValues [(''TOKEN'', ''s3cret'')]"
    "rmatch registryCredentialAppPattern ''web''" "rmatch environmentRevisionPattern sample_rid" by (code_simp)+
  then show ?thesis
    unfolding CreateEnvironmentBundle_def stage_bundle_def Let_def admin_def bundle_request_def
    by (simp add: requireCaller_def sample_trim found_read bundle_Find_def empty_vault_def io_bind_def io_wrap_def sample_encrypt io_try_def in_vault_def bundle_Create_def
        length_RawURLEncoding)
qed

lemma length_cred_JSON: "length (cred_JSON (credentialPayload c)) = 104 + length (escape (cr_AppName c)) + length (escape (cr_Revision c))
    + length (escape (cr_Registry c)) + length (escape (cr_Username c)) + length (escape (cr_Password c))"
proof -
  have "length (quote ''deployer.registry.v1'') = 22" "length (quote ''purpose'') = 9" "length (quote ''app_name'') = 10" "length (quote ''revision'') = 10"
    "length (quote ''registry'') = 10" "length (quote ''username'') = 10" "length (quote ''password'') = 10" by (code_simp)+
  moreover have "length (quote s) = length (escape s) + 2" for s by (simp add: quote_def)
  ultimately show ?thesis by (simp add: cred_JSON_def credentialPayload_def print_json.simps print_members_Cons del: escape.simps)
qed

lemma sample_credential:
  assumes "is_ok (credential_Validate c)" and "length (cred_JSON (credentialPayload c)) \<le> 24000" and "cr_AppName c = ''web''"
  shows "\<exists>md t. CreateRegistryCredential app_server admin c (app_state empty_db empty_vault) = (Inr md, t)"
proof -
  let ?e = "RawURLEncoding (replicate 12 7 @ map of_char (cred_JSON (credentialPayload c)) @ replicate 16 0)"
  have len: "length ?e \<le> 32768" using length_RawURLEncoding(1) [of "replicate 12 7 @ map of_char (cred_JSON (credentialPayload c)) @ replicate 16 0"] assms(2) by simp
  have "registryauth_ValidAppName (cr_AppName c)" "ValidRevision (cr_Revision c)" "cr_Registry c = ''docker.io'' \<or> cr_Registry c = ''ghcr.io''"
    using assms(1) by (auto simp: credential_Validate_def split: if_splits)
  then have pat: "rmatch registryCredentialRevisionPattern (cr_Revision c)" by (simp add: ValidRevision_def registryCredentialRevisionPattern_def revisionPattern_def)
  have web: "rmatch registryCredentialAppPattern ''web''" by code_simp
  show ?thesis
    using assms(1,3) pat web len \<open>cr_Registry c = _ \<or> _\<close>
    unfolding CreateRegistryCredential_def stage_credential_def Let_def admin_def
    by (auto simp: requireCaller_def found_read credential_Find_def empty_vault_def io_bind_def io_wrap_def sample_encrypt io_try_def in_vault_def credential_Create_def
        validRegistryCredential_def maxRegistryCredentialRevisions_def length_RawURLEncoding)
qed

lemma sample_secret: "\<exists>t. SetSecret app_server admin ''web'' ''TOKEN'' ''s3cret'' (app_state live_db empty_vault) = (Inr (), t)"
proof -
  have find: "FindActiveByName ''web'' live_db = Inr sample_app" by (rule live_app)
  have "TrimSpace ''TOKEN'' = ''TOKEN''" "ValidateSecretName ''TOKEN'' = Inr ()" by (code_simp)+
  moreover have "parseStoredConfigForDeployment app_server (app_DesiredStateJSON sample_app) = Inr sample_config"
    by (simp add: parseStoredConfigForDeployment_def sample_app_def sample_valid)
  moreover have "preflightHosting app_server sample_config u = (Inr (), u\<lparr>w_log := w_log u @ [(CAdmit sample_config, w_db u)]\<rparr>)" for u
    by (simp add: preflightHosting_def io_try_def)
  ultimately show ?thesis
    using find unfolding SetSecret_def appAndSecretName_def activeApp_def requireConfigured_def reconcileReferencedSecret_def Let_def admin_def
    by (simp add: requireCaller_def sample_trim found_read io_bind_def io_wrap_def sample_encrypt in_vault_def secret_Set_def Let_def secret_Find_def app_recordEvent_def
        empty_vault_def referencesSecret_def)
qed

section \<open>A credential that is stored and cannot be read\<close>

definition long_credential :: credential where
  "long_credential = credential_sample\<lparr>cr_Password := replicate 3800 (CHR ''<'')\<rparr>"

lemma long_password: "length (escape (replicate n (CHR ''<''))) = 6 * n" "utf8_ValidString (replicate n (CHR ''<''))"
  by (induction n) (auto simp: esc1_def u00_def dquote_def backslash_def byte_in_def)

lemma long_credential_valid: "is_ok (credential_ValidateFor long_credential ''web'' sample_rid image_sample)"
proof -
  have "is_ok (credential_ValidateFor credential_sample ''web'' sample_rid image_sample)" using credential_sample_valid by simp
  moreover have "\<not> list_ex control_rune (replicate 3800 (CHR ''<''))" by (simp add: list_ex_iff control_rune_def)
  ultimately show ?thesis
    using long_password(2) unfolding credential_ValidateFor_def credential_Validate_def long_credential_def credential_sample_def
    by (simp add: sample_rid_def split: if_splits)
qed

lemma long_credential_length: "20000 < length (cred_JSON (credentialPayload long_credential))" "length (cred_JSON (credentialPayload long_credential)) \<le> 24000"
proof -
  have "length (escape ''web'') \<le> 18" "length (escape sample_rid) \<le> 384" "length (escape ''ghcr.io'') \<le> 42" "length (escape ''bot'') \<le> 18"
    using length_escape [of "''web''"] length_escape [of sample_rid] length_escape [of "''ghcr.io''"] length_escape [of "''bot''"] by (simp_all add: sample_rid_def)
  then show "20000 < length (cred_JSON (credentialPayload long_credential))" "length (cred_JSON (credentialPayload long_credential)) \<le> 24000"
    using long_password(1) [of 3800] unfolding length_cred_JSON by (simp_all add: long_credential_def credential_sample_def del: escape.simps)
qed

lemma long_credential_names [simp]: "cr_AppName long_credential = ''web''" "cr_Revision long_credential = sample_rid"
  by (simp_all add: long_credential_def credential_sample_def)

lemma sample_credential_length: "length (cred_JSON (credentialPayload credential_sample)) \<le> 20000"
proof -
  have "length (escape ''web'') \<le> 18" "length (escape sample_rid) \<le> 384" "length (escape ''ghcr.io'') \<le> 42" "length (escape ''bot'') \<le> 18" "length (escape ''hunter2'') \<le> 42"
    using length_escape [of "''web''"] length_escape [of sample_rid] length_escape [of "''ghcr.io''"] length_escape [of "''bot''"] length_escape [of "''hunter2''"]
    by (simp_all add: sample_rid_def)
  then show ?thesis unfolding length_cred_JSON by (simp add: credential_sample_def del: escape.simps)
qed

lemma empty_vault_lookup: "credential_Find ''web'' sample_rid empty_vault = Inl ErrNotFound"
proof -
  have "rmatch registryCredentialAppPattern ''web''" "rmatch registryCredentialRevisionPattern sample_rid" by (code_simp)+
  then show ?thesis by (simp add: credential_Find_def empty_vault_def)
qed

theorem credential_unreadable:
  "\<exists>md t. CreateRegistryCredential app_server admin long_credential (app_state empty_db empty_vault) = (Inr md, t) \<and>
     ResolveRegistryCredential app_server ''web'' sample_rid image_sample t = (Inl unresolvable, t)"
proof -
  have valid: "is_ok (credential_Validate long_credential)" using long_credential_valid by (auto simp: credential_ValidateFor_def split: if_splits)
  obtain md t where run: "CreateRegistryCredential app_server admin long_credential (app_state empty_db empty_vault) = (Inr md, t)"
    using sample_credential [OF valid long_credential_length(2)] by auto
  with empty_vault_lookup CreateRegistryCredential_resolves [OF run _ plain_aead_law app_random, of image_sample] long_credential_valid long_credential_length(1) run show ?thesis by auto
qed

section \<open>A managed database\<close>

text \<open>A cluster of three instances as the configuration asks for.\<close>

definition healthy_database :: database_status where
  "healthy_database = \<lparr>ds_Present = True, ds_Phase = ''cluster in healthy state'', ds_DesiredInstances = 3, ds_ReadyInstances = 3, ds_Primary = ''web-1'',
     ds_RunningNodes = [''a'', ''b'', ''c''], ds_RunningInstances = [''web-1'', ''web-2'', ''web-3''], ds_OwnedByDeployer = True,
     ds_Image = pg_Image postgres_sample, ds_BootstrapDatabase = ''app'', ds_BootstrapOwner = ''app'', ds_DataChecksumsEnabled = True,
     ds_StorageSize = '' 2Gi'', ds_StorageClass = ''local-path'', ds_SynchronousMethod = ''ANY'', ds_SynchronousReplicas = 1,
     ds_DataDurability = ''required'', ds_FailoverQuorumEnabled = True, ds_AntiAffinityType = ''required'',
     ds_TopologyKey = ''kubernetes.io/hostname'', ds_Architecture = postgresArchitecture (placement_Arch (cfg_Placement postgres_config_sample)),
     ds_PasswordEncryption = ''scram-sha-256'', ds_RejectsNonTLS = True, ds_RequiresApplicationSCRAM = True,
     ds_FailoverQuorumPresent = True, ds_FailoverQuorumMethod = ''any'', ds_FailoverQuorumStandbyNumber = 1,
     ds_FailoverQuorumPrimary = ''web-1'', ds_FailoverQuorumStandbyNames = [''web-3'', ''web-2'']\<rparr>"

lemma healthy_database_meets:
  "ds_Present healthy_database" "(3::int) > 0" "ds_ReadyInstances healthy_database = 3"
  "EqualFold (TrimSpace (ds_Phase healthy_database)) healthyPhase"
  "to_int32 (int (length (ds_RunningNodes healthy_database))) = 3"
  "spec_met sample_lib postgres_config_sample postgres_sample healthy_database 3"
  "quorum_met postgres_sample healthy_database"
proof -
  have size: "\<exists>q. ParseQuantity sample_lib (TrimSpace (ds_StorageSize healthy_database)) = Some q \<and>
      ParseQuantity sample_lib (TrimSpace (pgs_Size (pg_Storage postgres_sample))) = Some q"
    by (rule exI [of _ 2147483648], rule conjI) code_simp+
  show "spec_met sample_lib postgres_config_sample postgres_sample healthy_database 3"
    unfolding spec_met_def by (intro conjI size) code_simp+
qed (simp add: healthy_database_def, simp, simp add: healthy_database_def, code_simp+)

end
