(* ===== verification/Service_Theorems.thy ===== *)
theory Service_Theorems
  imports App_Samples
begin

text \<open>
  The properties of the app service: what every run of calls keeps, what a deployment records before it
  touches the cluster, replay of tracked requests, what pending and withdrawn requests block, deletion,
  encrypted data and the reported state of a managed database. A witness follows each property that has
  hypotheses.
\<close>

section \<open>Runs of the service\<close>



text \<open>
  C2. Handlers that only report never change anything: the database, the encrypted tables and the event log
  are left as they are, and the runtime is asked questions only. In particular a preflight changes nothing.
\<close>
theorem readers_only_ask:
  "only_asks s (snd (PreflightApp svc ctx yaml s)) \<and> only_asks s (snd (GetDeployRequest ctx app rid s)) \<and>
   only_asks s (snd (ListApps svc ctx s)) \<and> only_asks s (snd (ListSecrets svc ctx app s)) \<and>
   only_asks s (snd (ListRegistryCredentials svc ctx app s)) \<and> only_asks s (snd (GetDeploymentLogs svc ctx app n follow s))"
  by (intro conjI asking.keeps_PreflightApp [unfolded asking.keeps_def, rule_format] asking.keeps_GetDeployRequest [unfolded asking.keeps_def, rule_format]
      asking.keeps_ListApps [unfolded asking.keeps_def, rule_format] asking.keeps_lists [unfolded asking.keeps_def, rule_format]
      asking.keeps_logs [unfolded asking.keeps_def, rule_format])

section \<open>Deployments\<close>

text \<open>C23. 
  C3. Every call of a deployment that changes the cluster finds a durable record of what is being done: the
  request with its configuration when the deployment is tracked, and otherwise a new deployment row of the
  app. This holds on every path of the handler, those that fail included.
\<close>
theorem deploy_recorded_first:
  assumes "schema_ok (w_db s)" and "requested_config svc ctx (dar_DeployerYaml req) = Inr cfg"
  shows "emits (asks_or (if TrimSpace (dar_RequestId req) = [] then new_deployment (cfg_Name cfg) (w_db s)
     else recorded (cfg_Name cfg) (TrimSpace (dar_RequestId req)) (config_JSON cfg))) (DeployApp svc ctx req) s"
  using assms by (rule DeployApp_recorded)

theorem deploy_recorded_first_witness:
  "emits (asks_or (recorded ''web'' sample_rid (config_JSON sample_config))) (DeployApp app_server admin tracked) (app_state empty_db empty_vault)"
proof -
  have "schema_ok (w_db (app_state empty_db empty_vault))" by (simp add: schema_ok_empty)
  moreover have "requested_config app_server admin (dar_DeployerYaml tracked) = Inr sample_config" by (simp add: tracked_def app_requested)
  ultimately show ?thesis
    using deploy_recorded_first [of "app_state empty_db empty_vault" app_server admin tracked sample_config] by (simp add: tracked_def)
qed



text \<open>C26. 
  C5. While a tracked request of an app is pending, the app cannot be deleted and cannot be deployed without
  tracking: both calls fail, and nothing is changed in the database or in the cluster.
\<close>
theorem pending_blocks:
  assumes "has_pending app (w_db s)" and "TrimSpace name = app"
    and "requested_config svc ctx (dar_DeployerYaml req) = Inr cfg" and "cfg_Name cfg = app" and "TrimSpace (dar_RequestId req) = []"
  shows "refused (DeleteApp svc ctx name) s \<and> refused (DeployApp svc ctx req) s"
proof
  show "refused (DeleteApp svc ctx name) s" using assms(1,2) DeleteApp_refused by blast
  show "refused (DeployApp svc ctx req) s" using assms(1,3-5) DeployApp_untracked_refused by blast
qed

theorem pending_blocks_witness:
  "has_pending ''web'' (w_db (app_state pending_db empty_vault)) \<and> refused (DeleteApp app_server admin ''web'') (app_state pending_db empty_vault) \<and>
   refused (DeployApp app_server admin untracked) (app_state pending_db empty_vault)"
proof -
  have p: "has_pending ''web'' (w_db (app_state pending_db empty_vault))" by (simp add: pending_db_ok)
  moreover have "requested_config app_server admin (dar_DeployerYaml untracked) = Inr sample_config" "TrimSpace (dar_RequestId untracked) = []"
    by (simp_all add: untracked_def app_requested) code_simp?
  ultimately show ?thesis
    using pending_blocks [OF p, of "''web''" app_server admin untracked sample_config] sample_trim(1) by simp
qed



section \<open>Deletion\<close>

text \<open>C27. 
  C7. An app whose deletion succeeded is gone: the reply names it, no active row with its name, no route of its
  identifier, no registry credential and no environment bundle of its name is left, for apps with candidate
  generations as for those without.
\<close>
theorem deleted_app_gone:
  assumes "DeleteApp svc ctx name s = (Inr p, t)" and "schema_ok (w_db s)"
  shows "pba_Name p = TrimSpace name \<and> no_trace (TrimSpace name) (pba_Id p) (w_db t) (x_vault (w_env t))"
  using assms by (rule DeleteApp_gone)

theorem deleted_app_gone_witness:
  "\<exists>p t. DeleteApp app_server admin ''web'' (app_state live_db empty_vault) = (Inr p, t) \<and> no_trace ''web'' (pba_Id p) (w_db t) (x_vault (w_env t))"
proof -
  obtain p t where run: "DeleteApp app_server admin ''web'' (app_state live_db empty_vault) = (Inr p, t)" using sample_deleted by blast
  have "schema_ok (w_db (app_state live_db empty_vault))" by (simp add: live_db_ok)
  with run deleted_app_gone [OF run] show ?thesis by (simp add: sample_trim)
qed

section \<open>Encrypted data\<close>

text \<open>C28. 
  C8. An environment bundle that was accepted is resolved for its app and revision to exactly the values it was
  created with (a map, so up to the order of its names), also when it had been stored before. The payload of
  every accepted bundle fits the limit that the reader applies.
\<close>
theorem bundle_roundtrip:
  assumes "CreateEnvironmentBundle svc ctx req s = (Inr md, t)" and "as_cipher svc = Some a" and "aead_law a" and "random_ok svc"
    and "\<And>e. wf_time (as_now svc e)" and "distinct (map fst (cbr_Values req))"
  shows "resolveEnvironmentBundle svc (TrimSpace (cbr_AppName req)) (cbr_Revision req) t = (Inr (canon_map (cbr_Values req)), t)"
  using assms by (rule CreateEnvironmentBundle_resolves)

theorem bundle_roundtrip_witness:
  "\<exists>md t. CreateEnvironmentBundle app_server admin bundle_request (app_state empty_db empty_vault) = (Inr md, t) \<and>
     resolveEnvironmentBundle app_server ''web'' sample_rid t = (Inr [(''TOKEN'', ''s3cret'')], t)"
proof -
  obtain md t where run: "CreateEnvironmentBundle app_server admin bundle_request (app_state empty_db empty_vault) = (Inr md, t)" using sample_bundle by blast
  have "resolveEnvironmentBundle app_server (TrimSpace (cbr_AppName bundle_request)) (cbr_Revision bundle_request) t = (Inr (canon_map (cbr_Values bundle_request)), t)"
    by (rule bundle_roundtrip [OF run _ plain_aead_law app_random]) (simp_all add: bundle_request_def)
  with run show ?thesis by (auto simp: bundle_request_def sample_trim canon_map_def)
qed

text \<open>C29. 
  C9. A registry credential that was accepted is resolved to itself for a matching image exactly when its
  payload has at most 20000 bytes; a longer one was stored all the same and cannot be read.
\<close>
theorem credential_roundtrip:
  assumes "CreateRegistryCredential svc ctx c s = (Inr md, t)" and "as_cipher svc = Some a" and "aead_law a" and "random_ok svc"
    and "\<And>e. wf_time (as_now svc e)" and "credential_Find (cr_AppName c) (cr_Revision c) (x_vault (w_env s)) = Inl ErrNotFound"
    and "is_ok (credential_ValidateFor c (cr_AppName c) (cr_Revision c) img)"
  shows "ResolveRegistryCredential svc (cr_AppName c) (cr_Revision c) img t =
     (if length (cred_JSON (credentialPayload c)) \<le> 20000 then Inr c else Inl unresolvable, t)"
  using assms by (rule CreateRegistryCredential_resolves)

theorem credential_roundtrip_witness:
  "\<exists>md t. CreateRegistryCredential app_server admin credential_sample (app_state empty_db empty_vault) = (Inr md, t) \<and>
     ResolveRegistryCredential app_server ''web'' sample_rid image_sample t = (Inr credential_sample, t)"
proof -
  have names: "cr_AppName credential_sample = ''web''" "cr_Revision credential_sample = sample_rid" by (simp_all add: credential_sample_def)
  have valid: "is_ok (credential_Validate credential_sample)"
    using credential_sample_valid by (auto simp: credential_ValidateFor_def split: if_splits)
  have len: "length (cred_JSON (credentialPayload credential_sample)) \<le> 20000"
    by (rule sample_credential_length)
  obtain md t where run: "CreateRegistryCredential app_server admin credential_sample (app_state empty_db empty_vault) = (Inr md, t)"
    using sample_credential [OF valid _ names(1)] len by fastforce
  have "ResolveRegistryCredential app_server (cr_AppName credential_sample) (cr_Revision credential_sample) image_sample t =
     (if length (cred_JSON (credentialPayload credential_sample)) \<le> 20000 then Inr credential_sample else Inl unresolvable, t)"
    by (rule credential_roundtrip [OF run _ plain_aead_law app_random]) (simp_all add: names credential_sample_valid empty_vault_lookup)
  with run len show ?thesis by (auto simp: names)
qed

text \<open>
  C10. A secret that was set is resolved for the app with exactly the value that was given, whether it was created
  or replaced.
\<close>
theorem secret_roundtrip:
  assumes "SetSecret svc ctx appName name val s = (Inr (), t)" and "as_cipher svc = Some a" and "aead_law a" and "random_ok svc"
    and "\<And>e. wf_time (as_now svc e)" and "FindActiveByName (TrimSpace appName) (w_db s) = Inr x"
  shows "\<exists>revision. resolveSecretValues svc (app_ID x) [TrimSpace name] t = (Inr ([(TrimSpace name, val)], revision), t)"
  using assms by (rule SetSecret_resolves)

theorem secret_roundtrip_witness:
  "\<exists>t revision. SetSecret app_server admin ''web'' ''TOKEN'' ''s3cret'' (app_state live_db empty_vault) = (Inr (), t) \<and>
     resolveSecretValues app_server (app_ID sample_app) [''TOKEN''] t = (Inr ([(''TOKEN'', ''s3cret'')], revision), t)"
proof -
  obtain t where run: "SetSecret app_server admin ''web'' ''TOKEN'' ''s3cret'' (app_state live_db empty_vault) = (Inr (), t)" using sample_secret by blast
  have trim: "TrimSpace ''TOKEN'' = ''TOKEN''" by code_simp
  have "\<exists>revision. resolveSecretValues app_server (app_ID sample_app) [TrimSpace ''TOKEN''] t = (Inr ([(TrimSpace ''TOKEN'', ''s3cret'')], revision), t)"
    by (rule secret_roundtrip [OF run _ plain_aead_law app_random]) (simp_all add: sample_trim live_app)
  with run trim show ?thesis by auto
qed

section \<open>The state of a managed database\<close>

text \<open>C30. 
  C11. A managed PostgreSQL is reported healthy exactly when the operator reports it present, in its healthy phase,
  with every desired instance ready and running, and its specification and its failover quorum match what the
  configuration asks for.
\<close>
theorem database_healthy_iff:
  assumes "database_Postgres (cfg_Database cfg) = Some p"
  shows "databaseReportedState s desired (databaseHAPolicyWarnings lib cfg s desired) = ''healthy'' \<longleftrightarrow>
     ds_Present s \<and> desired > 0 \<and> ds_ReadyInstances s = desired \<and> EqualFold (TrimSpace (ds_Phase s)) healthyPhase \<and>
     to_int32 (int (length (ds_RunningNodes s))) = desired \<and> spec_met lib cfg p s desired \<and> quorum_met p s"
  using assms by (rule databaseReportedState_healthy)

theorem database_healthy_iff_witness:
  "database_Postgres (cfg_Database postgres_config_sample) = Some postgres_sample \<and>
   databaseReportedState healthy_database 3 (databaseHAPolicyWarnings sample_lib postgres_config_sample healthy_database 3) = ''healthy''"
proof -
  have p: "database_Postgres (cfg_Database postgres_config_sample) = Some postgres_sample" by code_simp
  show ?thesis
    using database_healthy_iff [OF p, of healthy_database 3 sample_lib] p healthy_database_meets by blast
qed

end
