(* ===== verification/Node_Fleet.thy ===== *)
theory Node_Fleet
  imports Node_Service
begin

text \<open>
  Invariants of the node fleet. A weakest-precondition calculus for the effectful programs carries
  them through the handlers of \<open>Node_Service\<close>; \<open>fleet_ok\<close> says that a removed node has no key and no
  live token and that every address was allocated from the subnet. The authenticated server is a
  step relation, and the invariants hold in its reachable states.
\<close>

section \<open>Weakest preconditions\<close>

text \<open>\<open>wp m Q E s\<close>: run at \<open>s\<close>, \<open>m\<close> ends in \<open>Q\<close> with a value or in \<open>E\<close> with an error.\<close>

definition wp :: "('s, 'a) io \<Rightarrow> ('a \<Rightarrow> 's \<Rightarrow> bool) \<Rightarrow> (srv_err \<Rightarrow> 's \<Rightarrow> bool) \<Rightarrow> 's \<Rightarrow> bool" where
  "wp m Q E s = (case m s of (Inl e, s') \<Rightarrow> E e s' | (Inr x, s') \<Rightarrow> Q x s')"

named_theorems wp_rules \<open>introduction rules of the calculus\<close>

lemma wp_ret [wp_rules]: "Q x s \<Longrightarrow> wp (io_ret x) Q E s"
  by (simp add: wp_def)

lemma wp_fail [wp_rules]: "E e s \<Longrightarrow> wp (io_fail e) Q E s"
  by (simp add: wp_def)

lemma wp_bind [wp_rules]: "wp m (\<lambda>x. wp (f x) Q E) E s \<Longrightarrow> wp (io_bind m f) Q E s"
  by (auto simp: wp_def io_bind_def split: prod.splits sum.splits)

lemma wp_try [wp_rules]: "wp m (\<lambda>x. wp (f (Inr x)) Q E) (\<lambda>e. wp (f (Inl e)) Q E) s \<Longrightarrow> wp (io_try m f) Q E s"
  by (auto simp: wp_def io_try_def split: prod.splits sum.splits)

lemma wp_wrap [wp_rules]: "wp m Q (\<lambda>_. E e) s \<Longrightarrow> wp (io_wrap e m) Q E s"
  by (auto simp: wp_def io_wrap_def split: prod.splits sum.splits)

lemma wp_of [wp_rules]: "(\<And>e. r = Inl e \<Longrightarrow> E e s) \<Longrightarrow> (\<And>x. r = Inr x \<Longrightarrow> Q x s) \<Longrightarrow> wp (io_of r) Q E s"
  by (cases r) (simp_all add: wp_def)

lemma wp_if [wp_rules]: "(b \<Longrightarrow> wp m Q E s) \<Longrightarrow> (\<not> b \<Longrightarrow> wp n Q E s) \<Longrightarrow> wp (if b then m else n) Q E s"
  by simp

lemma wp_option [wp_rules]:
  "(z = None \<Longrightarrow> wp m Q E s) \<Longrightarrow> (\<And>x. z = Some x \<Longrightarrow> wp (f x) Q E s) \<Longrightarrow> wp (case z of None \<Rightarrow> m | Some x \<Rightarrow> f x) Q E s"
  by (cases z) simp_all

lemma wp_sum [wp_rules]:
  "(\<And>e. z = Inl e \<Longrightarrow> wp (f e) Q E s) \<Longrightarrow> (\<And>x. z = Inr x \<Longrightarrow> wp (g x) Q E s) \<Longrightarrow> wp (case z of Inl e \<Rightarrow> f e | Inr x \<Rightarrow> g x) Q E s"
  by (cases z) simp_all

lemma wp_prod [wp_rules]: "(\<And>a b. p = (a, b) \<Longrightarrow> wp (f a b) Q E s) \<Longrightarrow> wp (case p of (a, b) \<Rightarrow> f a b) Q E s"
  by (cases p) simp

lemma wp_weaken:
  "wp m Q E s \<Longrightarrow> (\<And>x s'. Q x s' \<Longrightarrow> Q' x s') \<Longrightarrow> (\<And>e s'. E e s' \<Longrightarrow> E' e s') \<Longrightarrow> wp m Q' E' s"
  by (auto simp: wp_def split: prod.splits sum.splits)

lemma wpD: "wp m Q E s \<Longrightarrow> m s = (Inr x, s') \<Longrightarrow> Q x s'"
  by (simp add: wp_def)

lemma wp_snd: "wp m (\<lambda>_. P) (\<lambda>_. P) s \<longleftrightarrow> P (snd (m s))"
  by (auto simp: wp_def split: prod.splits sum.splits)

text \<open>The effects of the node services on the store.\<close>

lemma wp_read [wp_rules]:
  "(\<And>x. f (f_store s) = Inr x \<Longrightarrow> Q x s) \<Longrightarrow> (\<And>e. f (f_store s) = Inl e \<Longrightarrow> E (ErrDb e) s) \<Longrightarrow> wp (store_read f) Q E s"
  by (auto simp: wp_def store_read_def split: sum.splits)

lemma wp_tx [wp_rules]:
  "(\<And>x d. f (f_store s) = Inr (x, d) \<Longrightarrow> Q x (s\<lparr>f_store := d\<rparr>)) \<Longrightarrow> (\<And>e. f (f_store s) = Inl e \<Longrightarrow> E (ErrDb e) s) \<Longrightarrow>
   wp (store_tx f) Q E s"
  by (auto simp: wp_def store_tx_def split: sum.splits)

lemma wp_call [wp_rules]:
  "(\<And>x k. Q x (s\<lparr>f_env := k, f_log := f_log s @ [(c, f_store s)]\<rparr>)) \<Longrightarrow>
   (\<And>e k. E e (s\<lparr>f_env := k, f_log := f_log s @ [(c, f_store s)]\<rparr>)) \<Longrightarrow> wp (fleet_call c m) Q E s"
  by (auto simp: wp_def fleet_call_def split: prod.splits sum.splits)

lemma wp_now [wp_rules]: "(\<And>t. Q t s) \<Longrightarrow> wp (io_now svc) Q E s"
  by (simp add: wp_def io_now_def)

lemma wp_random [wp_rules]: "(\<And>r k. Q r (s\<lparr>f_env := k\<rparr>)) \<Longrightarrow> wp (io_random svc n) Q E s"
  by (simp add: wp_def io_random_def split: prod.splits)

lemma wp_each:
  assumes "\<And>x s. x \<in> set xs \<Longrightarrow> P s \<Longrightarrow> wp (f x) (\<lambda>_. P) (\<lambda>_. P) s" and "P s"
  shows "wp (io_each f xs) (\<lambda>_. P) (\<lambda>_. P) s"
  using assms
proof (induction xs arbitrary: s)
  case (Cons x xs)
  have "wp (f x) (\<lambda>_. P) (\<lambda>_. P) s" using Cons.prems by simp
  then have "wp (f x) (\<lambda>_. wp (io_each f xs) (\<lambda>_. P) (\<lambda>_. P)) (\<lambda>_. P) s"
    by (rule wp_weaken) (use Cons in simp_all)
  then show ?case by (simp add: wp_bind)
qed (simp add: wp_ret)

lemma wp_map:
  assumes "\<And>x s. x \<in> set xs \<Longrightarrow> P s \<Longrightarrow> wp (f x) (\<lambda>_. P) (\<lambda>_. P) s" and "P s"
  shows "wp (io_map f xs) (\<lambda>_. P) (\<lambda>_. P) s"
  using assms
proof (induction xs arbitrary: s)
  case (Cons x xs)
  have rest: "wp (io_bind (io_map f xs) (\<lambda>ys. io_ret (y # ys))) (\<lambda>_. P) (\<lambda>_. P) t" if "P t" for y t
    using Cons.IH [of t] Cons.prems that by (intro wp_bind) (auto elim!: wp_weaken intro: wp_ret)
  have "wp (f x) (\<lambda>_. P) (\<lambda>_. P) s" using Cons.prems by simp
  then have "wp (f x) (\<lambda>y. wp (io_bind (io_map f xs) (\<lambda>ys. io_ret (y # ys))) (\<lambda>_. P) (\<lambda>_. P)) (\<lambda>_. P) s"
    by (rule wp_weaken) (use rest in simp_all)
  then show ?case by (simp add: wp_bind)
qed (simp add: wp_ret)

text \<open>Recording an event changes nothing but the events, and keeps their keys.\<close>

definition events_grow :: "store \<Rightarrow> store \<Rightarrow> bool" where
  "events_grow d d' \<longleftrightarrow> (\<exists>es. d' = d\<lparr>events := es\<rparr> \<and> (keyed e_id (events d) \<longrightarrow> keyed e_id es))"

lemma Record_events: "Record c raw now e d = Inr (u, d') \<Longrightarrow> events_grow d d'"
  by (auto simp: Record_def event_Create_def event_to_row_def events_grow_def res_simps Let_def
      split: if_splits intro!: keyed_insert exI)

lemma events_grow_refl: "events_grow d d"
  unfolding events_grow_def by (rule exI [of _ "events d"]) simp

lemma wp_recordEvent [wp_rules]: "(\<And>s'. events_grow (f_store s) (f_store s') \<Longrightarrow> Q () s') \<Longrightarrow> wp (recordEvent svc e) Q E s"
proof -
  assume Q: "\<And>s'. events_grow (f_store s) (f_store s') \<Longrightarrow> Q () s'"
  have rec: "f_store t = f_store s \<Longrightarrow> wp (store_record (Record c raw now e)) Q E t" for t c raw now
    using Q Record_events [of c raw now e "f_store s"] events_grow_refl
    by (auto simp: wp_def store_record_def split: sum.splits)
  show ?thesis unfolding recordEvent_def by (intro wp_rules rec Q events_grow_refl) simp_all
qed

section \<open>The invariant\<close>

definition live_tokens :: "store \<Rightarrow> string \<Rightarrow> agent_row set" where
  "live_tokens d i = {a \<in> set (agent_tokens d). ag_node a = i \<and> ag_revoked a = None}"

definition rows_of :: "store \<Rightarrow> string \<Rightarrow> node_row set" where
  "rows_of d i = {r \<in> set (nodes d). n_id r = i}"

text \<open>An address the service allocates: a host address of its subnet other than the hub's.\<close>

definition subnet_of :: "worker_network \<Rightarrow> string" where
  "subnet_of net = (if TrimSpace (net_Subnet net) = [] then ''10.8.0.0/24'' else TrimSpace (net_Subnet net))"

definition hub_of :: "worker_network \<Rightarrow> string" where
  "hub_of net = (if TrimSpace (net_HubIP net) = [] then ''10.8.0.1'' else TrimSpace (net_HubIP net))"

definition allocated :: "worker_network \<Rightarrow> string \<Rightarrow> bool" where
  "allocated net ip \<longleftrightarrow> (\<exists>p hub w. ParsePrefix (TrimSpace (subnet_of net)) = Some p \<and> Is4 (pf_Addr p) \<and>
     ParseAddr (TrimSpace (hub_of net)) = Some hub \<and> ip = addr_String4 (uint32ToIPv4 w) \<and> host_number p (unat w) \<and> uint32ToIPv4 w \<noteq> hub)"

definition locked :: "store \<Rightarrow> string \<Rightarrow> bool" where
  "locked d i \<longleftrightarrow> live_tokens d i = {} \<and> (\<forall>r \<in> rows_of d i. n_key r = [])"

definition fleet_ok :: "worker_network \<Rightarrow> store \<Rightarrow> bool" where
  "fleet_ok net d \<longleftrightarrow> store_ok d \<and>
     (\<forall>r \<in> set (nodes d). n_status r = ''removed'' \<longrightarrow> locked d (n_id r)) \<and>
     (\<forall>r \<in> set (nodes d). n_ip r = [] \<or> allocated net (n_ip r))"

lemma fleet_ok_empty: "fleet_ok net (empty_store\<lparr>admin_tokens := [t]\<rparr>)"
  by (simp add: fleet_ok_def store_ok_def empty_store_def nodes_ok_def keyed_def)

definition not_removed :: "store \<Rightarrow> string \<Rightarrow> bool" where
  "not_removed d i \<longleftrightarrow> (\<forall>r \<in> rows_of d i. n_status r \<noteq> ''removed'')"

lemma fleet_okD:
  assumes "fleet_ok net d"
  shows "store_ok d" and "r \<in> set (nodes d) \<Longrightarrow> n_status r = ''removed'' \<Longrightarrow> locked d (n_id r)"
    and "r \<in> set (nodes d) \<Longrightarrow> n_ip r = [] \<or> allocated net (n_ip r)"
  using assms by (simp_all add: fleet_ok_def)

text \<open>An update of one row that removes the node only when it is locked out, and sets an allocated address.\<close>

lemma fleet_ok_update:
  assumes run: "update_node i f d = Inr (u, d')" and id: "\<And>x. n_id (f x) = n_id x" and ok: "fleet_ok net d"
    and rem: "\<And>r. r \<in> rows_of d i \<Longrightarrow> n_status (f r) = ''removed'' \<Longrightarrow> live_tokens d i = {} \<and> n_key (f r) = []"
    and ip: "\<And>r. r \<in> rows_of d i \<Longrightarrow> n_ip (f r) = [] \<or> allocated net (n_ip (f r))"
  shows "fleet_ok net d'"
proof -
  obtain r0 where r0: "tsel (\<lambda>x. n_id x = i) (nodes d) = Some r0" and d': "d' = d\<lparr>nodes := tupd (\<lambda>x. n_id x = i) f (nodes d)\<rparr>"
    using run by (rule update_node_Inr)
  have uniq: "r = r0" if "r \<in> set (nodes d)" "n_id r = i" for r
    using fleet_okD(1) [OF ok] tsel_SomeD [OF r0] that by (auto simp: store_ok_def nodes_ok_def dest: keyed_unique)
  have r0': "r0 \<in> rows_of d i" using tsel_SomeD [OF r0] by (simp add: rows_of_def)
  have rows: "r' = f r0 \<or> r' \<in> set (nodes d) \<and> n_id r' \<noteq> i" if "r' \<in> set (nodes d')" for r'
    using that uniq by (auto simp: d' set_tupd)
  have tok: "live_tokens d' j = live_tokens d j" for j by (simp add: live_tokens_def d')
  have new: "n_id (f r0) = i" using r0' by (simp add: id rows_of_def)
  have mine: "rows_of d' i \<subseteq> {f r0}" using rows by (auto simp: rows_of_def)
  have other: "rows_of d' j = rows_of d j" if "j \<noteq> i" for j using that id by (auto simp: rows_of_def d' set_tupd)
  show ?thesis unfolding fleet_ok_def
  proof (intro conjI ballI impI)
    show "store_ok d'" using update_node_ok [OF run id fleet_okD(1) [OF ok]] .
    fix r' assume r': "r' \<in> set (nodes d')"
    show "n_ip r' = [] \<or> allocated net (n_ip r')" using rows [OF r'] ip [OF r0'] fleet_okD(3) [OF ok] by auto
    assume st: "n_status r' = ''removed''"
    show "locked d' (n_id r')"
    proof (cases "n_id r' = i")
      case True
      then have "r' = f r0" using rows [OF r'] by auto
      then show ?thesis using rem [OF r0'] st mine tok unfolding locked_def True by auto
    next
      case False
      then have "r' \<in> set (nodes d)" using rows [OF r'] new by auto
      then have "locked d (n_id r')" using fleet_okD(2) [OF ok _ st] by simp
      then show ?thesis using other [OF False] tok unfolding locked_def by simp
    qed
  qed
qed

lemma fleet_UpdateStatus:
  "node_UpdateStatus i st t d = Inr (u, d') \<Longrightarrow> fleet_ok net d \<Longrightarrow> st \<noteq> ''removed'' \<or> locked d i \<Longrightarrow> fleet_ok net d'"
  unfolding node_UpdateStatus_def
  by (erule fleet_ok_update) (auto simp: locked_def rows_of_def dest: fleet_okD(3))

lemma fleet_UpdateHeartbeat:
  "UpdateHeartbeat i hb t d = Inr (u, d') \<Longrightarrow> fleet_ok net d \<Longrightarrow> node_Status hb \<noteq> ''removed'' \<Longrightarrow> fleet_ok net d'"
  unfolding UpdateHeartbeat_def
  by (auto split: if_splits elim!: fleet_ok_update simp: rows_of_def dest: fleet_okD(3))

lemma fleet_SetWireGuard:
  "SetWireGuard i ip k t d = Inr (u, d') \<Longrightarrow> fleet_ok net d \<Longrightarrow> k = [] \<or> not_removed d i \<Longrightarrow> ip = [] \<or> allocated net ip \<Longrightarrow> fleet_ok net d'"
  unfolding SetWireGuard_def
  by (erule fleet_ok_update) (auto simp: not_removed_def rows_of_def locked_def dest: fleet_okD(2))

lemma fleet_Rename: "Rename i nm t d = Inr (u, d') \<Longrightarrow> fleet_ok net d \<Longrightarrow> fleet_ok net d'"
  unfolding Rename_def
  by (erule fleet_ok_update) (auto simp: rows_of_def locked_def dest: fleet_okD(2,3))

lemma fleet_node_Create:
  assumes "node_Create n d = Inr (u, d')" "fleet_ok net d" "node_Status n \<noteq> ''removed''" "node_WireGuardIP n = [] \<or> allocated net (node_WireGuardIP n)"
  shows "fleet_ok net d'"
proof -
  obtain r where r: "\<forall>x \<in> set (nodes d). \<not> node_conflict r x" "d' = d\<lparr>nodes := nodes d @ [r]\<rparr>" "n_status r \<noteq> ''removed''"
    "n_ip r = node_WireGuardIP n"
    using assms(1,3) by (auto simp: node_Create_def Let_def insert_node_def node_to_row_def split: if_splits)
  have "locked d' (n_id x)" if "x \<in> set (nodes d)" "n_status x = ''removed''" for x
    using fleet_okD(2) [OF assms(2) that] r that(1) by (auto simp: locked_def live_tokens_def rows_of_def node_conflict_def)
  then show ?thesis using node_Create_ok [OF assms(1)] assms(2,4) r by (auto simp: fleet_ok_def)
qed

text \<open>Changes to tokens, and deletions: nothing comes alive.\<close>

lemma fleet_ok_frame:
  assumes "fleet_ok net d" "store_ok d \<Longrightarrow> store_ok d'" "set (nodes d') \<subseteq> set (nodes d)" "\<And>i. live_tokens d' i \<subseteq> live_tokens d i"
  shows "fleet_ok net d'"
proof -
  have "rows_of d' i \<subseteq> rows_of d i" for i using assms(3) by (auto simp: rows_of_def)
  then have "locked d i \<Longrightarrow> locked d' i" for i using assms(4) [of i] unfolding locked_def by blast
  then show ?thesis using assms by (auto simp: fleet_ok_def)
qed

lemma fleet_ok_tokens:
  assumes "fleet_ok net d" "store_ok d \<Longrightarrow> store_ok d'" "nodes d' = nodes d" "agent_tokens d' = agent_tokens d"
  shows "fleet_ok net d'"
  by (rule fleet_ok_frame [OF assms(1,2)]) (simp_all add: live_tokens_def assms(3,4))

lemma join_frame:
  "join_Create j d = Inr (u, d') \<Longrightarrow> nodes d' = nodes d \<and> agent_tokens d' = agent_tokens d"
  "Consume h w d = Inr (j', d') \<Longrightarrow> nodes d' = nodes d \<and> agent_tokens d' = agent_tokens d"
  "DeleteByNodeName nm d = Inr (u, d') \<Longrightarrow> nodes d' = nodes d \<and> agent_tokens d' = agent_tokens d"
  by (auto simp: join_Create_def Consume_def consume_update_def DeleteByNodeName_def res_simps Let_def split: if_splits)

lemma fleet_join_methods:
  "join_Create j d = Inr (u, d') \<Longrightarrow> fleet_ok net d \<Longrightarrow> fleet_ok net d'"
  "Consume h w d = Inr (j', d') \<Longrightarrow> fleet_ok net d \<Longrightarrow> fleet_ok net d'"
  "DeleteByNodeName nm d = Inr (u, d') \<Longrightarrow> fleet_ok net d \<Longrightarrow> fleet_ok net d'"
  by (erule fleet_ok_tokens, erule (1) join_methods_ok, simp_all add: join_frame)+

lemma live_revoked: "live_tokens (d\<lparr>agent_tokens := tupd (\<lambda>x. ag_node x = i \<and> ag_revoked x = None) (\<lambda>x. x\<lparr>ag_revoked := Some t\<rparr>) (agent_tokens d)\<rparr>) j
    \<subseteq> (if j = i then {} else live_tokens d j)"
proof
  fix a assume "a \<in> live_tokens (d\<lparr>agent_tokens := tupd (\<lambda>x. ag_node x = i \<and> ag_revoked x = None) (\<lambda>x. x\<lparr>ag_revoked := Some t\<rparr>) (agent_tokens d)\<rparr>) j"
  then obtain x where "x \<in> set (agent_tokens d)" "a = (if ag_node x = i \<and> ag_revoked x = None then x\<lparr>ag_revoked := Some t\<rparr> else x)"
    "ag_node a = j" "ag_revoked a = None"
    by (auto simp: live_tokens_def set_tupd simp del: if_split)
  then show "a \<in> (if j = i then {} else live_tokens d j)" by (simp add: live_tokens_def split: if_splits)
qed

lemma live_tokens_empty: "live_tokens x i = {} \<longleftrightarrow> (i, None) \<notin> set (map (\<lambda>a. (ag_node a, ag_revoked a)) (agent_tokens x))"
proof -
  have "live_tokens x i = {} \<longleftrightarrow> \<not> (\<exists>a \<in> set (agent_tokens x). (i, None) = (ag_node a, ag_revoked a))"
    unfolding live_tokens_def by (simp only: Collect_empty_eq Bex_def prod.inject eq_commute [of i] eq_commute [of None] not_ex)
  then show ?thesis by (simp only: set_map image_iff)
qed

lemma fleet_revoke:
  assumes "RevokeByNodeID i t d = Inr (u, d')" "fleet_ok net d"
  shows "fleet_ok net d'" and "live_tokens d' i = {}" and "nodes d' = nodes d"
proof -
  have d': "d' = d\<lparr>agent_tokens := tupd (\<lambda>x. ag_node x = i \<and> ag_revoked x = None) (\<lambda>x. x\<lparr>ag_revoked := Some (formatTime t)\<rparr>) (agent_tokens d)\<rparr>"
    using assms(1) by (simp add: RevokeByNodeID_def)
  show n: "nodes d' = nodes d" by (simp add: d')
  show "live_tokens d' i = {}" using live_revoked [where d = d and i = i and t = "formatTime t" and j = i] by (simp add: d')
  have "live_tokens d' j \<subseteq> live_tokens d j" for j using live_revoked [where d = d and i = i and t = "formatTime t" and j = j] by (auto simp: d' split: if_splits)
  with n show "fleet_ok net d'" using fleet_ok_frame [OF assms(2) agent_methods_ok(3) [OF assms(1)]] by simp
qed

lemma fleet_agent_Create:
  assumes "agent_Create t d = Inr (u, d')" "fleet_ok net d" "not_removed d (agt_NodeID t)"
  shows "fleet_ok net d'"
proof -
  have d': "d' = d\<lparr>agent_tokens := agent_tokens d @ [agent_to_row t]\<rparr>" using assms(1) by (auto simp: agent_Create_def split: if_splits)
  have "locked d' (n_id r)" if "r \<in> set (nodes d)" "n_status r = ''removed''" for r
    using fleet_okD(2) [OF assms(2) that] assms(3) that by (auto simp: locked_def live_tokens_def rows_of_def not_removed_def d' agent_to_row_def)
  then show ?thesis using agent_methods_ok(1) [OF assms(1)] assms(2) by (auto simp: fleet_ok_def d')
qed

lemma fleet_DeleteByNodeID:
  assumes "DeleteByNodeID i d = Inr (u, d')" "fleet_ok net d"
  shows "fleet_ok net d'"
proof -
  have d': "d' = d\<lparr>agent_tokens := tdel (\<lambda>x. ag_node x = i) (agent_tokens d)\<rparr>" using assms(1) by (simp add: DeleteByNodeID_def)
  show ?thesis by (rule fleet_ok_frame [OF assms(2) agent_methods_ok(4) [OF assms(1)]]) (auto simp: d' live_tokens_def)
qed

lemma fleet_node_Delete:
  assumes "node_Delete i d = Inr (u, d')" "fleet_ok net d"
  shows "fleet_ok net d'"
proof -
  have d': "d' = d\<lparr>nodes := tdel (\<lambda>x. n_id x = i) (nodes d)\<rparr>" using assms(1) by (simp add: node_Delete_def res_simps)
  show ?thesis by (rule fleet_ok_frame [OF assms(2) node_Delete_ok [OF assms(1)]]) (auto simp: d' live_tokens_def)
qed

lemma fleet_events: "events_grow d d' \<Longrightarrow> fleet_ok net d \<Longrightarrow> fleet_ok net d'"
  by (rule fleet_ok_tokens [of net d]) (auto simp: events_grow_def store_ok_def)

lemma fleet_same_but_used:
  assumes "same_but_used d d'" "fleet_ok net d"
  shows "fleet_ok net d'"
proof -
  have ag: "map (ag_used_update (\<lambda>_. None)) (agent_tokens d') = map (ag_used_update (\<lambda>_. None)) (agent_tokens d)"
    and ad: "map (ad_used_update (\<lambda>_. None)) (admin_tokens d') = map (ad_used_update (\<lambda>_. None)) (admin_tokens d)"
    using assms(1) by (simp_all add: same_but_used_def)
  have key: "map ag_hash (agent_tokens d') = map ag_hash (agent_tokens d)" "map ad_hash (admin_tokens d') = map ad_hash (admin_tokens d)"
    using arg_cong [OF ag, of "map ag_hash"] arg_cong [OF ad, of "map ad_hash"] by (simp_all add: comp_def)
  have "map (\<lambda>a. (ag_node a, ag_revoked a)) (agent_tokens d') = map (\<lambda>a. (ag_node a, ag_revoked a)) (agent_tokens d)"
    using arg_cong [OF ag, of "map (\<lambda>a. (ag_node a, ag_revoked a))"] by (simp add: comp_def)
  then have "live_tokens d' i = {} \<longleftrightarrow> live_tokens d i = {}" for i by (simp only: live_tokens_empty)
  moreover have n: "nodes d' = nodes d" and "join_tokens d' = join_tokens d" "events d' = events d"
    using assms(1) by (simp_all add: same_but_used_def)
  ultimately have "locked d' i \<longleftrightarrow> locked d i" "store_ok d' \<longleftrightarrow> store_ok d" for i
    using key by (simp_all add: locked_def rows_of_def store_ok_def keyed_def)
  then show ?thesis using assms(2) by (simp add: fleet_ok_def n)
qed

section \<open>The helpers of the handlers\<close>

text \<open>Programs that leave the store alone.\<close>

definition quiet :: "('e fleet, 'a) io \<Rightarrow> bool" where
  "quiet m \<longleftrightarrow> (\<forall>s. f_store (snd (m s)) = f_store s)"

lemma wp_quiet: "quiet m \<Longrightarrow> (\<And>x s'. f_store s' = f_store s \<Longrightarrow> Q x s') \<Longrightarrow> (\<And>e s'. f_store s' = f_store s \<Longrightarrow> E e s') \<Longrightarrow> wp m Q E s"
  by (auto simp: quiet_def wp_def split: prod.splits sum.splits) (metis snd_conv)+

lemma quietI: "(\<And>s. wp m (\<lambda>_ s'. f_store s' = f_store s) (\<lambda>_ s'. f_store s' = f_store s) s) \<Longrightarrow> quiet m"
  by (simp add: quiet_def wp_snd)

lemma quiet_nodeWithReadiness: "quiet (nodeWithReadiness svc n)"
  unfolding nodeWithReadiness_def by (intro quietI wp_rules) simp_all

lemma quiet_tokens: "quiet (new_token svc p msg)" "quiet (hash_token svc t msg)" "quiet (new_node_id svc)"
  unfolding new_token_def hash_token_def new_node_id_def by (intro quietI wp_rules; simp)+

lemma quiet_cluster: "quiet (removal_guard svc msg n)" "quiet (remove_from_cluster svc n)" "quiet (sync_peers sync ns)"
  unfolding removal_guard_def remove_from_cluster_def sync_peers_def by (intro quietI wp_rules; simp)+

lemmas wp_quiet_rules = wp_quiet [OF quiet_nodeWithReadiness] wp_quiet [OF quiet_tokens(1)] wp_quiet [OF quiet_tokens(2)]
  wp_quiet [OF quiet_tokens(3)] wp_quiet [OF quiet_cluster(1)] wp_quiet [OF quiet_cluster(2)] wp_quiet [OF quiet_cluster(3)]

text \<open>\<open>stored d n\<close>: the struct \<open>n\<close> is the content of a row.\<close>

definition stored :: "store \<Rightarrow> node \<Rightarrow> bool" where
  "stored d n \<longleftrightarrow> (\<exists>r \<in> set (nodes d). scanNode r = Inr n)"

lemma stored_row: "stored d n \<Longrightarrow> \<exists>r \<in> set (nodes d). n_id r = node_ID n \<and> n_status r = node_Status n \<and> n_ip r = node_WireGuardIP n \<and> n_key r = node_WireGuardPublicKey n"
  by (auto simp: stored_def dest!: scanNode_fields)

lemma stored_not_removed: "stored d n \<Longrightarrow> store_ok d \<Longrightarrow> node_Status n \<noteq> ''removed'' \<Longrightarrow> not_removed d (node_ID n)"
  by (auto simp: not_removed_def rows_of_def store_ok_def nodes_ok_def dest!: stored_row dest: keyed_unique)

lemma stored_ip: "stored d n \<Longrightarrow> fleet_ok net d \<Longrightarrow> node_WireGuardIP n = [] \<or> allocated net (node_WireGuardIP n)"
  by (auto dest!: stored_row fleet_okD(3))

lemma Find_stored: "node_FindByID i d = Inr n \<Longrightarrow> stored d n \<and> node_ID n = i" "node_FindByName nm d = Inr n \<Longrightarrow> stored d n"
  by (auto simp: stored_def dest!: node_Find_row dest: scanNode_fields)

lemma wp_findNode:
  "(\<And>n. stored (f_store s) n \<Longrightarrow> Q n s) \<Longrightarrow> (\<And>e. E e s) \<Longrightarrow> wp (findNode ref) Q E s"
  unfolding findNode_def Let_def
  by (auto simp: wp_def io_try_def store_read_def split: sum.splits srv_err.splits db_err.splits if_splits
      dest: Find_stored)

lemma wp_agent_node:
  "(\<And>n. stored (f_store s) n \<Longrightarrow> node_Status n \<noteq> ''removed'' \<Longrightarrow> Q n s) \<Longrightarrow> (\<And>e. E e s) \<Longrightarrow> wp (agent_node ctx msg) Q E s"
  unfolding agent_node_def
  by (auto simp: wp_def io_try_def store_read_def split: option.splits sum.splits srv_err.splits db_err.splits if_splits
      dest: Find_stored)

text \<open>Allocation returns, with an address of the subnet.\<close>

lemma NextPeerIP_returns: "\<exists>r. NextPeerIP subnet hub ex = Some r"
  by (rule NextPeerIP_cases [of subnet hub ex]) simp_all

lemma NextPeerIP_allocated:
  "NextPeerIP (subnet_of net) (hub_of net) ex = Some (Inr ip) \<Longrightarrow> allocated net ip"
  by (rule NextPeerIP_cases [of "subnet_of net" "hub_of net" ex]) (auto simp: allocated_def)

lemma wp_allocate:
  "(\<And>ip. allocated (ns_network svc) ip \<Longrightarrow> Q ip s) \<Longrightarrow> (\<And>e. E e s) \<Longrightarrow> wp (allocateWireGuardIP svc) Q E s"
  unfolding allocateWireGuardIP_def Let_def subnet_of_def [symmetric] hub_of_def [symmetric]
  by (intro wp_rules) (auto intro: wp_ret wp_fail dest: NextPeerIP_allocated split: option.splits sum.splits)

end
