(* ===== verification/Node_Removal.thy ===== *)
theory Node_Removal
  imports Node_Fleet
begin

text \<open>
  A removed node stays removed: every handler of the node service but the purge keeps its status.
\<close>

definition gone :: "store \<Rightarrow> string \<Rightarrow> bool" where
  "gone d i \<longleftrightarrow> (\<exists>r \<in> rows_of d i. n_status r = ''removed'')"

definition keeps_gone :: "string \<Rightarrow> store \<Rightarrow> bool" where
  "keeps_gone i d \<longleftrightarrow> store_ok d \<and> gone d i"

abbreviation kept :: "string \<Rightarrow> 'e fleet \<Rightarrow> bool" where
  "kept i s \<equiv> keeps_gone i (f_store s)"

lemma gone_other: "gone d i \<Longrightarrow> not_removed d j \<Longrightarrow> j \<noteq> i"
  by (auto simp: gone_def not_removed_def)

lemma stored_other: "keeps_gone i d \<Longrightarrow> stored d n \<Longrightarrow> node_Status n \<noteq> ''removed'' \<Longrightarrow> node_ID n \<noteq> i"
  unfolding keeps_gone_def using gone_other stored_not_removed by blast

lemma gone_update:
  assumes "update_node j f d = Inr (u, d')" "\<And>x. n_id (f x) = n_id x" "gone d i"
    and "j \<noteq> i \<or> (\<forall>x. n_status x = ''removed'' \<longrightarrow> n_status (f x) = ''removed'')"
  shows "gone d' i"
proof -
  obtain r where r: "r \<in> set (nodes d)" "n_id r = i" "n_status r = ''removed''" using assms(3) by (auto simp: gone_def rows_of_def)
  have d': "d' = d\<lparr>nodes := tupd (\<lambda>x. n_id x = j) f (nodes d)\<rparr>" using update_node_Inr [OF assms(1)] by blast
  let ?r = "if n_id r = j then f r else r"
  have "?r \<in> set (nodes d')" using r(1) by (auto simp: d' set_tupd)
  moreover have "n_id ?r = i" "n_status ?r = ''removed''" using r assms(2,4) by auto
  ultimately show ?thesis unfolding gone_def rows_of_def by blast
qed

lemma gone_updates:
  "SetWireGuard j ip k t d = Inr (u, d') \<Longrightarrow> gone d i \<Longrightarrow> gone d' i"
  "Rename j nm t d = Inr (u, d') \<Longrightarrow> gone d i \<Longrightarrow> gone d' i"
  "node_UpdateStatus j st t d = Inr (u, d') \<Longrightarrow> gone d i \<Longrightarrow> j \<noteq> i \<or> st = ''removed'' \<Longrightarrow> gone d' i"
  "UpdateHeartbeat j hb t d = Inr (u, d') \<Longrightarrow> gone d i \<Longrightarrow> j \<noteq> i \<Longrightarrow> gone d' i"
  unfolding SetWireGuard_def Rename_def node_UpdateStatus_def UpdateHeartbeat_def
  by (auto split: if_splits elim!: gone_update)

lemma kept_updates:
  "SetWireGuard j ip k t d = Inr (u, d') \<Longrightarrow> keeps_gone i d \<Longrightarrow> keeps_gone i d'"
  "Rename j nm t d = Inr (u, d') \<Longrightarrow> keeps_gone i d \<Longrightarrow> keeps_gone i d'"
  "node_UpdateStatus j st t d = Inr (u, d') \<Longrightarrow> keeps_gone i d \<Longrightarrow> j \<noteq> i \<or> st = ''removed'' \<Longrightarrow> keeps_gone i d'"
  "UpdateHeartbeat j hb t d = Inr (u, d') \<Longrightarrow> keeps_gone i d \<Longrightarrow> j \<noteq> i \<Longrightarrow> keeps_gone i d'"
  unfolding keeps_gone_def by (simp_all add: node_methods_ok gone_updates)

lemma gone_more: "gone d i \<Longrightarrow> set (nodes d) \<subseteq> set (nodes d') \<Longrightarrow> gone d' i"
  unfolding gone_def rows_of_def by blast

lemma nodes_stay:
  "node_Create n d = Inr (u, d') \<Longrightarrow> set (nodes d) \<subseteq> set (nodes d')"
  "agent_Create t d = Inr (u, d') \<Longrightarrow> set (nodes d) \<subseteq> set (nodes d')"
  "RevokeByNodeID k w d = Inr (u, d') \<Longrightarrow> set (nodes d) \<subseteq> set (nodes d')"
  by (auto simp: node_Create_def Let_def insert_node_def agent_Create_def RevokeByNodeID_def split: if_splits)

lemma kept_inserts:
  "node_Create n d = Inr (u, d') \<Longrightarrow> keeps_gone i d \<Longrightarrow> keeps_gone i d'"
  "agent_Create t d = Inr (u, d') \<Longrightarrow> keeps_gone i d \<Longrightarrow> keeps_gone i d'"
  "join_Create j d = Inr (u, d') \<Longrightarrow> keeps_gone i d \<Longrightarrow> keeps_gone i d'"
  "Consume h w d = Inr (jt, d') \<Longrightarrow> keeps_gone i d \<Longrightarrow> keeps_gone i d'"
  "DeleteByNodeName nm d = Inr (u, d') \<Longrightarrow> keeps_gone i d \<Longrightarrow> keeps_gone i d'"
  "RevokeByNodeID k w d = Inr (u, d') \<Longrightarrow> keeps_gone i d \<Longrightarrow> keeps_gone i d'"
  unfolding keeps_gone_def by (elim conjE, intro conjI, erule (1) store_methods_ok, erule gone_more, simp add: nodes_stay join_frame)+

lemma kept_events: "events_grow d d' \<Longrightarrow> keeps_gone i d \<Longrightarrow> keeps_gone i d'"
  by (auto simp: events_grow_def keeps_gone_def store_ok_def gone_def rows_of_def)

text \<open>The rule for a statement, and for an event.\<close>

lemma wp_tx_kept:
  assumes "kept i s" and "\<And>x d. f (f_store s) = Inr (x, d) \<Longrightarrow> kept i s \<Longrightarrow> keeps_gone i d"
    and "\<And>x d. f (f_store s) = Inr (x, d) \<Longrightarrow> keeps_gone i d \<Longrightarrow> Q x (s\<lparr>f_store := d\<rparr>)" and "\<And>e. E (ErrDb e) s"
  shows "wp (store_tx f) Q E s"
  using assms by (auto intro: wp_tx)

lemma wp_record_kept: "kept i s \<Longrightarrow> (\<And>s'. kept i s' \<Longrightarrow> Q () s') \<Longrightarrow> wp (recordEvent svc e) Q E s"
  by (auto intro: wp_recordEvent dest: kept_events)

lemmas kept_step = wp_ret wp_fail wp_bind wp_try wp_wrap wp_of wp_if wp_option wp_sum wp_prod wp_read wp_call wp_now wp_random
  wp_findNode wp_agent_node wp_allocate wp_quiet_rules

lemma kept_Drain: "kept i s \<Longrightarrow> wp (DrainNode svc ctx ref) (\<lambda>_. kept i) (\<lambda>_. kept i) s"
  unfolding DrainNode_def
  by (intro kept_step wp_tx_kept [where i = i]) (simp_all, (erule (1) kept_updates, simp add: stored_other)+)

lemma kept_Uncordon: "kept i s \<Longrightarrow> wp (UncordonNode svc ctx ref) (\<lambda>_. kept i) (\<lambda>_. kept i) s"
  unfolding UncordonNode_def Let_def
  by (intro kept_step wp_tx_kept [where i = i]) (simp_all, (erule (1) kept_updates, simp add: stored_other)+)

lemma kept_Rename: "kept i s \<Longrightarrow> wp (RenameNode svc ctx ref nm) (\<lambda>_. kept i) (\<lambda>_. kept i) s"
  unfolding RenameNode_def Let_def
  by (intro kept_step wp_tx_kept [where i = i] wp_record_kept [where i = i]) (simp_all, auto dest: kept_updates(2) kept_inserts(5))

lemma kept_Heartbeat: "kept i s \<Longrightarrow> wp (HeartbeatNode svc ctx req) (\<lambda>_. kept i) (\<lambda>_. kept i) s"
  unfolding HeartbeatNode_def Let_def
  by (intro kept_step wp_tx_kept [where i = i] wp_record_kept [where i = i])
     (simp_all, erule (1) kept_updates(4), auto intro: wp_fail simp: stored_other split: db_err.splits)

lemma kept_Bootstrap: "kept i s \<Longrightarrow> wp (GetWorkerBootstrap svc ctx) (\<lambda>_. kept i) (\<lambda>_. kept i) s"
  unfolding GetWorkerBootstrap_def Let_def by (intro kept_step wp_record_kept [where i = i]) simp_all

lemma kept_Get: "kept i s \<Longrightarrow> wp (GetNode svc ctx ref) (\<lambda>_. kept i) (\<lambda>_. kept i) s"
  unfolding GetNode_def by (intro kept_step) simp_all

lemma kept_List: "kept i s \<Longrightarrow> wp (ListNodes svc ctx) (\<lambda>_. kept i) (\<lambda>_. kept i) s"
  unfolding ListNodes_def by (intro kept_step wp_map) simp_all

lemma kept_Remove: "kept i s \<Longrightarrow> wp (RemoveNode svc ctx ref) (\<lambda>_. kept i) (\<lambda>_. kept i) s"
  unfolding RemoveNode_def retire_node_def
  by (intro kept_step wp_tx_kept [where i = i] wp_record_kept [where i = i]) (simp_all, auto dest: kept_updates(1,3) kept_inserts(6))

lemma created_other: "node_Create n d = Inr (u, d') \<Longrightarrow> keeps_gone i d \<Longrightarrow> node_ID n \<noteq> i"
  by (auto simp: node_Create_def Let_def insert_node_def node_to_row_def keeps_gone_def gone_def rows_of_def node_conflict_def split: if_splits)

lemma wp_enroll_kept:
  assumes kept: "kept i s" and Q: "\<And>n s'. kept i s' \<Longrightarrow> (node_Status n \<noteq> ''removed'' \<Longrightarrow> node_ID n \<noteq> i) \<Longrightarrow> Q n s'"
    and E: "\<And>e s'. kept i s' \<Longrightarrow> E e s'"
  shows "wp (enroll_node_row svc nm now) Q E s"
proof -
  have old: "Q n s" if "node_FindByName nm (f_store s) = Inr n" for n
    using Q [OF kept] Find_stored(2) [OF that] stored_other [OF kept] by blast
  have new: "wp (io_bind (new_node_id svc) (\<lambda>nodeID.
           let n = zero_node\<lparr>node_ID := nodeID, node_Name := nm, node_Status := ''pending'', node_CreatedAt := now, node_UpdatedAt := now\<rparr>
           in io_bind (internally ''create node'' (store_tx (node_Create n))) (\<lambda>_. io_ret n))) Q E s"
    unfolding Let_def using kept
    by (intro kept_step wp_tx_kept [where i = i] Q E) (simp_all, auto dest: kept_inserts(1) created_other simp: zero_node_def)
  show ?thesis unfolding enroll_node_row_def
    using old new kept E by (intro kept_step) (auto intro: wp_ret wp_fail split: srv_err.splits db_err.splits)
qed

lemma kept_enroll: "kept i s \<Longrightarrow> wp (enrollNode svc token req now) (\<lambda>_. kept i) (\<lambda>_. kept i) s"
  unfolding enrollNode_def Let_def
  by (intro kept_step wp_enroll_kept [where i = i] wp_tx_kept [where i = i])
     (simp_all, auto dest: kept_updates(1) kept_inserts(2) elim!: kept_updates(4))

lemma kept_Join: "kept i s \<Longrightarrow> wp (JoinNode svc req) (\<lambda>_. kept i) (\<lambda>_. kept i) s"
proof -
  assume kept: "kept i s"
  have enroll: "wp (enrollNode svc t req now) Q E s'" if "kept i s'" "\<And>x u. kept i u \<Longrightarrow> Q x u" "\<And>e u. kept i u \<Longrightarrow> E e u"
    for t now s' Q E
    by (rule wp_weaken [OF kept_enroll [OF that(1)]]) (use that(2,3) in auto)
  show ?thesis unfolding JoinNode_def Let_def using kept
    by (intro kept_step enroll wp_tx_kept [where i = i] wp_record_kept [where i = i])
       (simp_all add: kept_inserts(4), auto intro!: wp_fail split: db_err.splits)
qed

lemma kept_issue: "kept i s \<Longrightarrow> wp (issue_token svc req now nm expires labels ex) (\<lambda>_. kept i) (\<lambda>_. kept i) s"
  unfolding issue_token_def
  by (intro kept_step wp_tx_kept [where i = i]) (simp_all, auto dest: kept_inserts(1,3) kept_updates(1))

lemma kept_CreateToken: "kept i s \<Longrightarrow> wp (CreateJoinToken svc ctx req) (\<lambda>_. kept i) (\<lambda>_. kept i) s"
  unfolding CreateJoinToken_def Let_def
  by (intro kept_step kept_issue) (auto intro: wp_fail kept_issue split: srv_err.splits db_err.splits)

lemma kept_MarkOffline: "kept i s \<Longrightarrow> wp (MarkOfflineNodes svc now off) (\<lambda>_. kept i) (\<lambda>_. kept i) s"
proof -
  assume kept: "kept i s"
  have mark: "wp (mark_offline svc now off n) (\<lambda>_. kept i) (\<lambda>_. kept i) t" if "kept i t" "node_Status n = ''online'' \<Longrightarrow> node_ID n \<noteq> i" for n t
    unfolding mark_offline_def using that
    by (intro kept_step wp_tx_kept [where i = i] wp_record_kept [where i = i]) (simp_all, auto elim!: kept_updates(3))
  have "node_ID n \<noteq> i" if "node_List (f_store s) = Inr ns" "n \<in> set ns" "node_Status n = ''online''" for ns n
    using node_List_rows(1) [OF that(1)] that(2,3) by (intro stored_other [OF kept]) (auto simp: stored_def)
  then show ?thesis unfolding MarkOfflineNodes_def using kept
    by (intro kept_step wp_each mark) auto
qed

end
