(* ===== verification/Node_Server.thy ===== *)
theory Node_Server
  imports Node_Removal
begin

text \<open>
  The handlers of the node service keep the invariant of the fleet, a removed node stays removed, and
  the authenticated server built from \<open>UnaryInterceptor\<close> and the handlers is a step relation whose
  reachable states satisfy both.
\<close>

section \<open>The invariant through the handlers\<close>

abbreviation fleet_inv :: "'e node_service \<Rightarrow> 'e fleet \<Rightarrow> bool" where
  "fleet_inv svc s \<equiv> fleet_ok (ns_network svc) (f_store s)"

text \<open>Rules that carry the invariant over a statement.\<close>

lemma wp_tx_ok:
  assumes "fleet_inv svc s" and "\<And>x d. f (f_store s) = Inr (x, d) \<Longrightarrow> fleet_inv svc s \<Longrightarrow> fleet_ok (ns_network svc) d"
    and "\<And>x d. f (f_store s) = Inr (x, d) \<Longrightarrow> fleet_ok (ns_network svc) d \<Longrightarrow> Q x (s\<lparr>f_store := d\<rparr>)" and "\<And>e. E (ErrDb e) s"
  shows "wp (store_tx f) Q E s"
  using assms by (auto intro: wp_tx)

lemma wp_record_ok:
  "fleet_inv svc s \<Longrightarrow> (\<And>s'. fleet_inv svc s' \<Longrightarrow> Q () s') \<Longrightarrow> wp (recordEvent svc' e) Q E s"
  by (auto intro: wp_recordEvent dest: fleet_events)

lemmas step_rules = wp_ret wp_fail wp_bind wp_try wp_wrap wp_of wp_if wp_option wp_sum wp_prod wp_read wp_call wp_now wp_random
  wp_findNode wp_agent_node wp_allocate wp_quiet_rules

lemmas free_tx = fleet_Rename fleet_join_methods fleet_DeleteByNodeID fleet_node_Delete

lemma inv_Drain: "fleet_inv svc s \<Longrightarrow> wp (DrainNode svc ctx ref) (\<lambda>_. fleet_inv svc) (\<lambda>_. fleet_inv svc) s"
  unfolding DrainNode_def
  by (intro step_rules wp_tx_ok [where svc = svc]) (simp_all, (erule (1) fleet_UpdateStatus, simp)+)

lemma inv_Uncordon: "fleet_inv svc s \<Longrightarrow> wp (UncordonNode svc ctx ref) (\<lambda>_. fleet_inv svc) (\<lambda>_. fleet_inv svc) s"
  unfolding UncordonNode_def Let_def
  by (intro step_rules wp_tx_ok [where svc = svc]) (simp_all, (erule (1) fleet_UpdateStatus, simp split: option.splits)+)

lemma inv_Rename: "fleet_inv svc s \<Longrightarrow> wp (RenameNode svc ctx ref nm) (\<lambda>_. fleet_inv svc) (\<lambda>_. fleet_inv svc) s"
  unfolding RenameNode_def Let_def
  by (intro step_rules wp_tx_ok [where svc = svc] wp_record_ok [where svc = svc]) (simp_all, auto dest: free_tx)

lemma inv_Heartbeat: "fleet_inv svc s \<Longrightarrow> wp (HeartbeatNode svc ctx req) (\<lambda>_. fleet_inv svc) (\<lambda>_. fleet_inv svc) s"
  unfolding HeartbeatNode_def Let_def
  by (intro step_rules wp_tx_ok [where svc = svc] wp_record_ok [where svc = svc]) (simp_all, erule (1) fleet_UpdateHeartbeat, auto intro: wp_fail split: db_err.splits)

lemma inv_Bootstrap: "fleet_inv svc s \<Longrightarrow> wp (GetWorkerBootstrap svc ctx) (\<lambda>_. fleet_inv svc) (\<lambda>_. fleet_inv svc) s"
  unfolding GetWorkerBootstrap_def Let_def
  by (intro step_rules wp_record_ok [where svc = svc]) simp_all

lemma inv_Purge: "fleet_inv svc s \<Longrightarrow> wp (PurgeNode svc ctx ref) (\<lambda>_. fleet_inv svc) (\<lambda>_. fleet_inv svc) s"
  unfolding PurgeNode_def
  by (intro step_rules wp_tx_ok [where svc = svc] wp_record_ok [where svc = svc]) (simp_all, auto dest: free_tx fleet_revoke(1))

lemma inv_Get: "fleet_inv svc s \<Longrightarrow> wp (GetNode svc ctx ref) (\<lambda>_. fleet_inv svc) (\<lambda>_. fleet_inv svc) s"
  unfolding GetNode_def by (intro step_rules) simp_all

lemma inv_List: "fleet_inv svc s \<Longrightarrow> wp (ListNodes svc ctx) (\<lambda>_. fleet_inv svc) (\<lambda>_. fleet_inv svc) s"
  unfolding ListNodes_def by (intro step_rules wp_map) simp_all

lemma inv_MarkOffline: "fleet_inv svc s \<Longrightarrow> wp (MarkOfflineNodes svc now off) (\<lambda>_. fleet_inv svc) (\<lambda>_. fleet_inv svc) s"
  unfolding MarkOfflineNodes_def mark_offline_def
  by (intro step_rules wp_each wp_tx_ok [where svc = svc] wp_record_ok [where svc = svc]) (simp_all, auto dest: fleet_UpdateStatus)

text \<open>Removal: the tokens are revoked and the key is cleared before the status says so.\<close>

lemma SetWireGuard_locked:
  assumes "SetWireGuard i ip [] t d = Inr (u, d')" "live_tokens d i = {}"
  shows "locked d' i"
proof -
  have d': "d' = d\<lparr>nodes := tupd (\<lambda>x. n_id x = i) (\<lambda>x. x\<lparr>n_ip := ip, n_key := [], n_updated := formatTime t\<rparr>) (nodes d)\<rparr>"
    using update_node_Inr [OF assms(1) [unfolded SetWireGuard_def]] by blast
  have "live_tokens d' i = {}" using assms(2) by (simp add: d' live_tokens_def)
  moreover have "n_key r = []" if "r \<in> rows_of d' i" for r
  proof -
    from that have "r \<in> (\<lambda>x. x\<lparr>n_ip := ip, n_key := [], n_updated := formatTime t\<rparr>) ` (set (nodes d) \<inter> {x. n_id x = i})"
      by (simp add: rows_of_def d' set_tupd) blast
    then show ?thesis by (elim imageE) simp
  qed
  ultimately show ?thesis by (simp add: locked_def)
qed

lemma fleet_retired:
  assumes "fleet_ok net d" "RevokeByNodeID i t d = Inr (u, d1)" "SetWireGuard i ip [] t d1 = Inr (v, d2)" "ip = [] \<or> allocated net ip"
    "node_UpdateStatus i ''removed'' t d2 = Inr (w, d3)"
  shows "fleet_ok net d1" and "fleet_ok net d2" and "fleet_ok net d3"
proof -
  show 1: "fleet_ok net d1" using fleet_revoke(1) [OF assms(2,1)] .
  show 2: "fleet_ok net d2" using fleet_SetWireGuard [OF assms(3) 1 _ assms(4)] by simp
  have "locked d2 i" using SetWireGuard_locked [OF assms(3)] fleet_revoke(2) [OF assms(2,1)] by simp
  then show "fleet_ok net d3" using fleet_UpdateStatus [OF assms(5) 2] by simp
qed

lemma wp_retire:
  assumes "fleet_inv svc s" and "stored (f_store s) n" and "\<And>n' s'. fleet_inv svc s' \<Longrightarrow> Q n' s'" and "\<And>e s'. fleet_inv svc s' \<Longrightarrow> E e s'"
  shows "wp (retire_node svc n) Q E s"
proof -
  have ip: "node_WireGuardIP n = [] \<or> allocated (ns_network svc) (node_WireGuardIP n)" using stored_ip assms(1,2) by blast
  have locks: "locked d2 i" if "fleet_ok net d0" "RevokeByNodeID i t d0 = Inr (u, d1)" "SetWireGuard i a [] t d1 = Inr (v, d2)" for net d0 d1 d2 i t u v a
    using SetWireGuard_locked [OF that(3)] fleet_revoke(2) [OF that(2,1)] by simp
  show ?thesis unfolding retire_node_def
    using assms(1)
    by (intro step_rules wp_tx_ok [where svc = svc] wp_record_ok [where svc = svc] assms(3,4))
       (simp_all add: fleet_revoke(1) fleet_SetWireGuard [OF _ _ disjI1 [OF refl] ip] fleet_UpdateStatus [OF _ _ disjI2] locks)
qed

lemma inv_Remove: "fleet_inv svc s \<Longrightarrow> wp (RemoveNode svc ctx ref) (\<lambda>_. fleet_inv svc) (\<lambda>_. fleet_inv svc) s"
  unfolding RemoveNode_def by (intro step_rules wp_retire [where svc = svc]) simp_all

text \<open>Joining: a token is made for a node that is not removed.\<close>

lemma not_removed_created:
  assumes "node_Create n d = Inr (u, d')" "node_Status n = ''pending''"
  shows "not_removed d' (node_ID n)"
proof -
  obtain r where "d' = d\<lparr>nodes := nodes d @ [r]\<rparr>" "\<forall>x \<in> set (nodes d). \<not> node_conflict r x" "n_id r = node_ID n" "n_status r = ''pending''"
    using assms by (auto simp: node_Create_def Let_def insert_node_def node_to_row_def split: if_splits)
  then show ?thesis by (auto simp: not_removed_def rows_of_def node_conflict_def)
qed

lemma not_removed_update:
  assumes "update_node i f d = Inr (u, d')" "\<And>x. n_id (f x) = n_id x" "\<And>r. r \<in> rows_of d i \<Longrightarrow> n_status (f r) \<noteq> ''removed''"
  shows "not_removed d' i"
  using assms(1)
proof (rule update_node_Inr)
  assume "d' = d\<lparr>nodes := tupd (\<lambda>x. n_id x = i) f (nodes d)\<rparr>"
  then show ?thesis using assms(2,3) by (auto simp: not_removed_def rows_of_def set_tupd)
qed

lemma not_removed_methods:
  "SetWireGuard i ip k t d = Inr (u, d') \<Longrightarrow> not_removed d i \<Longrightarrow> not_removed d' i"
  "UpdateHeartbeat i hb t d = Inr (u, d') \<Longrightarrow> node_Status hb \<noteq> ''removed'' \<Longrightarrow> not_removed d' i"
  unfolding SetWireGuard_def UpdateHeartbeat_def
  by (auto simp: not_removed_def [of d] split: if_splits elim!: not_removed_update)

lemma wp_enroll_row:
  assumes inv: "fleet_inv svc s"
    and Q: "\<And>n s'. fleet_inv svc s' \<Longrightarrow> (node_Status n \<noteq> ''removed'' \<Longrightarrow> not_removed (f_store s') (node_ID n)) \<Longrightarrow>
          node_WireGuardIP n = [] \<or> allocated (ns_network svc) (node_WireGuardIP n) \<Longrightarrow> Q n s'"
    and E: "\<And>e s'. fleet_inv svc s' \<Longrightarrow> E e s'"
  shows "wp (enroll_node_row svc nm now) Q E s"
proof -
  have old: "Q n s" if "node_FindByName nm (f_store s) = Inr n" for n
    using Q [OF inv] Find_stored(2) [OF that] stored_not_removed fleet_okD(1) [OF inv] stored_ip [OF _ inv] by blast
  have new: "wp (io_bind (new_node_id svc) (\<lambda>nodeID.
           let n = zero_node\<lparr>node_ID := nodeID, node_Name := nm, node_Status := ''pending'', node_CreatedAt := now, node_UpdatedAt := now\<rparr>
           in io_bind (internally ''create node'' (store_tx (node_Create n))) (\<lambda>_. io_ret n))) Q E s"
    unfolding Let_def using inv
    by (intro step_rules wp_tx_ok [where svc = svc] Q E)
       (simp_all, auto intro: fleet_node_Create dest: not_removed_created simp: zero_node_def)
  show ?thesis unfolding enroll_node_row_def
    using old new inv E by (intro step_rules) (auto intro: wp_ret wp_fail split: srv_err.splits db_err.splits)
qed

lemma inv_enroll: "fleet_inv svc s \<Longrightarrow> wp (enrollNode svc token req now) (\<lambda>_. fleet_inv svc) (\<lambda>_. fleet_inv svc) s"
  unfolding enrollNode_def Let_def
  by (intro step_rules wp_enroll_row [where svc = svc] wp_tx_ok [where svc = svc])
     (simp_all, auto intro: fleet_SetWireGuard fleet_UpdateHeartbeat elim!: fleet_agent_Create dest: not_removed_methods)

lemma inv_issue:
  assumes "fleet_inv svc s" and "\<And>n. ex = Some n \<Longrightarrow> stored (f_store s) n \<and> node_Status n \<noteq> ''removed''"
  shows "wp (issue_token svc req now nm expires labels ex) (\<lambda>_. fleet_inv svc) (\<lambda>_. fleet_inv svc) s"
proof -
  have nr: "not_removed (f_store s) (node_ID n)" if "ex = Some n" for n
    using assms that stored_not_removed fleet_okD(1) by blast
  have keep: "join_Create j (f_store s') = Inr (u, d) \<Longrightarrow> f_store s' = f_store s \<Longrightarrow> ex = Some n \<Longrightarrow> not_removed d (node_ID n)" for j s' u d n
    using nr [of n] join_frame(1) [of j "f_store s'" u d] by (simp add: not_removed_def rows_of_def)
  show ?thesis unfolding issue_token_def using assms(1)
    by (intro step_rules wp_tx_ok [where svc = svc])
       (simp_all, auto elim!: fleet_node_Create fleet_SetWireGuard dest: fleet_join_methods(1) keep simp: zero_node_def)
qed

lemma inv_CreateToken: "fleet_inv svc s \<Longrightarrow> wp (CreateJoinToken svc ctx req) (\<lambda>_. fleet_inv svc) (\<lambda>_. fleet_inv svc) s"
  unfolding CreateJoinToken_def Let_def
  by (intro step_rules inv_issue)
     (auto intro: wp_fail inv_issue dest: Find_stored split: srv_err.splits db_err.splits)

lemma inv_Join: "fleet_inv svc s \<Longrightarrow> wp (JoinNode svc req) (\<lambda>_. fleet_inv svc) (\<lambda>_. fleet_inv svc) s"
proof -
  assume inv: "fleet_inv svc s"
  have enroll: "wp (enrollNode svc t req now) Q E s'" if "fleet_inv svc s'" "\<And>x u. fleet_inv svc u \<Longrightarrow> Q x u" "\<And>e u. fleet_inv svc u \<Longrightarrow> E e u"
    for t now s' Q E
    by (rule wp_weaken [OF inv_enroll [OF that(1)]]) (use that(2,3) in auto)
  show ?thesis unfolding JoinNode_def Let_def using inv
    by (intro step_rules enroll wp_tx_ok [where svc = svc] wp_record_ok [where svc = svc])
       (simp_all add: fleet_join_methods(2), auto intro!: wp_fail split: db_err.splits)
qed

section \<open>The server\<close>

text \<open>The unary RPCs of the node service, with their full method names.\<close>

datatype rpc = RCreateToken create_token_request | RJoin join_request | RList | RGet string | RHeartbeat heartbeat_request
  | RBootstrap | RDrain string | RUncordon string | RRemove string | RPurge string | RRename string string

fun rpc_method :: "rpc \<Rightarrow> string" where
  "rpc_method (RCreateToken _) = ''/deployer.v1.NodeService/CreateJoinToken''"
| "rpc_method (RJoin _) = ''/deployer.v1.NodeService/JoinNode''"
| "rpc_method RList = ''/deployer.v1.NodeService/ListNodes''"
| "rpc_method (RGet _) = ''/deployer.v1.NodeService/GetNode''"
| "rpc_method (RHeartbeat _) = ''/deployer.v1.NodeService/HeartbeatNode''"
| "rpc_method RBootstrap = ''/deployer.v1.NodeService/GetWorkerBootstrap''"
| "rpc_method (RDrain _) = ''/deployer.v1.NodeService/DrainNode''"
| "rpc_method (RUncordon _) = ''/deployer.v1.NodeService/UncordonNode''"
| "rpc_method (RRemove _) = ''/deployer.v1.NodeService/RemoveNode''"
| "rpc_method (RPurge _) = ''/deployer.v1.NodeService/PurgeNode''"
| "rpc_method (RRename _ _) = ''/deployer.v1.NodeService/RenameNode''"

definition io_void :: "('s, 'a) io \<Rightarrow> ('s, unit) io" where
  "io_void m = io_bind m (\<lambda>_. io_ret ())"

fun run_rpc :: "'e node_service \<Rightarrow> rpc \<Rightarrow> ctx \<Rightarrow> ('e fleet, unit) io" where
  "run_rpc svc (RCreateToken req) ctx = io_void (CreateJoinToken svc ctx req)"
| "run_rpc svc (RJoin req) ctx = io_void (JoinNode svc req)"
| "run_rpc svc RList ctx = io_void (ListNodes svc ctx)"
| "run_rpc svc (RGet ref) ctx = io_void (GetNode svc ctx ref)"
| "run_rpc svc (RHeartbeat req) ctx = io_void (HeartbeatNode svc ctx req)"
| "run_rpc svc RBootstrap ctx = io_void (GetWorkerBootstrap svc ctx)"
| "run_rpc svc (RDrain ref) ctx = io_void (DrainNode svc ctx ref)"
| "run_rpc svc (RUncordon ref) ctx = io_void (UncordonNode svc ctx ref)"
| "run_rpc svc (RRemove ref) ctx = io_void (RemoveNode svc ctx ref)"
| "run_rpc svc (RPurge ref) ctx = io_void (PurgeNode svc ctx ref)"
| "run_rpc svc (RRename ref nm) ctx = io_void (RenameNode svc ctx ref nm)"

text \<open>A call: the interceptor authenticates the header \<open>vals\<close> and runs the handler.\<close>

definition serve :: "'e node_service \<Rightarrow> (string \<Rightarrow> nat list) \<Rightarrow> string list \<Rightarrow> rpc \<Rightarrow> ('e fleet, unit) io" where
  "serve svc sha256 vals r = io_bind (io_now svc) (\<lambda>now.
     UnaryInterceptor (ns_hmac svc) sha256 (store_auth (ns_hashKey svc)) now vals (rpc_method r) (run_rpc svc r))"

text \<open>
  What happens to a server: a call, a pass of the offline monitor, a pass of the event retention, or
  the outside world moves on. A run is a sequence of these.
\<close>

datatype 'e label = LCall "string list" rpc | LMonitor gotime int | LRetention gotime int | LOutside 'e

fun fleet_next :: "'e node_service \<Rightarrow> (string \<Rightarrow> nat list) \<Rightarrow> 'e label \<Rightarrow> 'e fleet \<Rightarrow> 'e fleet" where
  "fleet_next svc sha256 (LCall vals r) s = snd (serve svc sha256 vals r s)"
| "fleet_next svc sha256 (LMonitor now off) s = snd (MarkOfflineNodes svc now off s)"
| "fleet_next svc sha256 (LRetention cutoff n) s = s\<lparr>f_store := prune cutoff n (f_store s)\<rparr>"
| "fleet_next svc sha256 (LOutside k) s = s\<lparr>f_env := k\<rparr>"

inductive fleet_run :: "'e node_service \<Rightarrow> (string \<Rightarrow> nat list) \<Rightarrow> 'e fleet \<Rightarrow> 'e label list \<Rightarrow> 'e fleet \<Rightarrow> bool"
  for svc :: "'e node_service" and sha256 :: "string \<Rightarrow> nat list" where
  run_nil: "fleet_run svc sha256 s [] s"
| run_cons: "fleet_run svc sha256 (fleet_next svc sha256 l s) ls t \<Longrightarrow> fleet_run svc sha256 s (l # ls) t"

inductive_cases fleet_run_ConsE: "fleet_run svc sha256 s (l # ls) t"

lemma fleet_run_invariant:
  assumes "fleet_run svc sha256 s ls t" and "\<And>l s. l \<in> set ls \<Longrightarrow> P s \<Longrightarrow> P (fleet_next svc sha256 l s)" and "P s"
  shows "P t"
  using assms by (induction rule: fleet_run.induct) auto

lemma prune_events: "events_grow d (prune cutoff n d)"
  unfolding events_grow_def prune_def PruneBefore_def PruneToLimit_def Let_def
  by (auto simp: keyed_delete intro!: exI [where P = "\<lambda>es. d\<lparr>events := x\<rparr> = d\<lparr>events := es\<rparr> \<and> Q es" for x Q])

lemma wp_void: "wp m (\<lambda>_. P) (\<lambda>_. P) s \<Longrightarrow> wp (io_void m) (\<lambda>_. P) (\<lambda>_. P) s"
  unfolding io_void_def by (intro wp_bind) (auto elim!: wp_weaken intro: wp_ret)

lemma wp_authenticate:
  "wp (authenticate hmac sha256 (store_auth key) now vals m) (\<lambda>_ t. same_but_used (f_store s) (f_store t)) (\<lambda>_ t. same_but_used (f_store s) (f_store t)) s"
  unfolding wp_snd by (rule fleet_auth.authenticate_frame)

lemma wp_serve:
  assumes "\<And>t. same_but_used (f_store s) (f_store t) \<Longrightarrow> P t" and "\<And>ctx t. P t \<Longrightarrow> wp (run_rpc svc r ctx) (\<lambda>_. P) (\<lambda>_. P) t"
  shows "wp (serve svc sha256 vals r) (\<lambda>_. P) (\<lambda>_. P) s"
  unfolding serve_def UnaryInterceptor_def
  by (intro wp_bind wp_now wp_if wp_weaken [OF wp_authenticate]) (use assms same_but_used_refl in auto)

lemma inv_rpc: "fleet_inv svc s \<Longrightarrow> wp (run_rpc svc r ctx) (\<lambda>_. fleet_inv svc) (\<lambda>_. fleet_inv svc) s"
  by (cases r) (simp_all add: wp_void inv_CreateToken inv_Join inv_List inv_Get inv_Heartbeat inv_Bootstrap inv_Drain inv_Uncordon
      inv_Remove inv_Purge inv_Rename)

lemma fleet_next_inv: "fleet_inv svc s \<Longrightarrow> fleet_inv svc (fleet_next svc sha256 l s)"
proof (cases l)
  case (LCall vals r)
  assume inv: "fleet_inv svc s"
  have "wp (serve svc sha256 vals r) (\<lambda>_. fleet_inv svc) (\<lambda>_. fleet_inv svc) s"
    by (rule wp_serve) (use inv fleet_same_but_used inv_rpc in auto)
  then show ?thesis using LCall by (simp add: wp_snd)
next
  case (LMonitor now off)
  assume "fleet_inv svc s"
  from inv_MarkOffline [OF this, of now off] LMonitor show ?thesis by (simp add: wp_snd)
qed (auto intro: fleet_events [OF prune_events])

lemma fleet_run_inv: "fleet_run svc sha256 s ls t \<Longrightarrow> fleet_inv svc s \<Longrightarrow> fleet_inv svc t"
  by (rule fleet_run_invariant [where P = "fleet_inv svc"]) (auto intro: fleet_next_inv)

text \<open>Removal is kept by everything but a purge.\<close>

definition purges :: "'e label \<Rightarrow> bool" where
  "purges l \<longleftrightarrow> (\<exists>vals ref. l = LCall vals (RPurge ref))"

lemma kept_rpc: "\<forall>ref. r \<noteq> RPurge ref \<Longrightarrow> kept i s \<Longrightarrow> wp (run_rpc svc r ctx) (\<lambda>_. kept i) (\<lambda>_. kept i) s"
  by (cases r) (simp_all add: wp_void kept_CreateToken kept_Join kept_List kept_Get kept_Heartbeat kept_Bootstrap kept_Drain kept_Uncordon
      kept_Remove kept_Rename)

lemma kept_same_but_used: "same_but_used d d' \<Longrightarrow> keeps_gone i d \<Longrightarrow> keeps_gone i d'"
proof -
  assume same: "same_but_used d d'" and k: "keeps_gone i d"
  have "map ag_hash (map (ag_used_update (\<lambda>_. None)) (agent_tokens d')) = map ag_hash (map (ag_used_update (\<lambda>_. None)) (agent_tokens d))"
    "map ad_hash (map (ad_used_update (\<lambda>_. None)) (admin_tokens d')) = map ad_hash (map (ad_used_update (\<lambda>_. None)) (admin_tokens d))"
    using same by (simp_all only: same_but_used_def)
  then show ?thesis using same k by (simp add: keeps_gone_def gone_def rows_of_def same_but_used_def store_ok_def keyed_def comp_def)
qed

lemma fleet_next_kept: "\<not> purges l \<Longrightarrow> kept i s \<Longrightarrow> kept i (fleet_next svc sha256 l s)"
proof (cases l)
  case (LCall vals r)
  assume k: "kept i s" and np: "\<not> purges l"
  then have "\<forall>ref. r \<noteq> RPurge ref" using LCall by (auto simp: purges_def)
  then have "wp (serve svc sha256 vals r) (\<lambda>_. kept i) (\<lambda>_. kept i) s"
    by (intro wp_serve) (use k kept_same_but_used kept_rpc in auto)
  then show ?thesis using LCall by (simp add: wp_snd)
next
  case (LMonitor now off)
  assume "kept i s"
  from kept_MarkOffline [OF this, of svc now off] LMonitor show ?thesis by (simp add: wp_snd)
qed (auto intro: kept_events [OF prune_events])

lemma fleet_run_kept: "fleet_run svc sha256 s ls t \<Longrightarrow> \<forall>l \<in> set ls. \<not> purges l \<Longrightarrow> kept i s \<Longrightarrow> kept i t"
  by (rule fleet_run_invariant [where P = "kept i"]) (auto intro: fleet_next_kept)

text \<open>The agent of a removed node is not let in.\<close>

lemma agent_not_removed:
  assumes inv: "fleet_ok net d" and live: "agent_live d h i" and r: "r \<in> set (nodes d)" "n_id r = i"
  shows "n_status r \<noteq> ''removed''"
proof
  assume st: "n_status r = ''removed''"
  from live obtain t where t: "agent_FindByHash h d = Inr t" "agt_RevokedAt t = None" "agt_NodeID t = i"
    by (auto simp: agent_live_def split: sum.splits)
  from agent_FindByHash_row [OF t(1)] t(2,3) obtain x where "tsel (\<lambda>x. ag_hash x = h) (agent_tokens d) = Some x" "ag_node x = i" "ag_revoked x = None"
    by auto
  then have "x \<in> live_tokens d i" by (auto simp: live_tokens_def dest: tsel_SomeD)
  moreover have "live_tokens d i = {}" using fleet_okD(2) [OF inv r(1) st] r(2) by (simp add: locked_def)
  ultimately show False by simp
qed

end
