(* ===== verification/Join_Once.thy ===== *)
theory Join_Once
  imports Node_Store
begin

text \<open>
  Concurrent consumption of one join token. \<^verbatim>\<open>JoinTokenRepository.Consume\<close> reads the token and then
  updates it, outside a transaction; any number of callers interleave between the two statements, and
  other requests change the store meanwhile. At most one caller succeeds.
\<close>

section \<open>Callers\<close>

datatype joiner = Idle | Checked join_token | Joined join_token | Refused db_err

text \<open>
  What other requests do to the table of join tokens: nothing, add a token of another hash, or delete
  the tokens of a node name.
\<close>

definition tokens_move :: "string \<Rightarrow> store \<Rightarrow> store \<Rightarrow> bool" where
  "tokens_move h d d' \<longleftrightarrow> join_tokens d' = join_tokens d \<or> (\<exists>j u. join_TokenHash j \<noteq> h \<and> join_Create j d = Inr (u, d')) \<or>
     (\<exists>nm u. DeleteByNodeName nm d = Inr (u, d'))"

text \<open>
  One statement of one caller, for the token with hash \<open>h\<close>; \<open>now\<close> is the caller's clock.
\<close>

inductive join_step :: "string \<Rightarrow> store \<times> ('g \<Rightarrow> joiner) \<Rightarrow> store \<times> ('g \<Rightarrow> joiner) \<Rightarrow> bool" for h :: string where
  check_ok: "pc g = Idle \<Longrightarrow> consume_check h now d = Inr t \<Longrightarrow> join_step h (d, pc) (d, pc(g := Checked t))"
| check_err: "pc g = Idle \<Longrightarrow> consume_check h now d = Inl e \<Longrightarrow> join_step h (d, pc) (d, pc(g := Refused e))"
| update_ok: "pc g = Checked t \<Longrightarrow> consume_update h now t d = Inr (t', d') \<Longrightarrow> join_step h (d, pc) (d', pc(g := Joined t'))"
| update_err: "pc g = Checked t \<Longrightarrow> consume_update h now t d = Inl e \<Longrightarrow> join_step h (d, pc) (d, pc(g := Refused e))"
| others: "tokens_move h d d' \<Longrightarrow> join_step h (d, pc) (d', pc)"

inductive_simps join_step_simps: "join_step h (d, pc) (d', pc')"

definition spent :: "string \<Rightarrow> store \<Rightarrow> bool" where
  "spent h d \<longleftrightarrow> (\<forall>x \<in> set (join_tokens d). j_hash x = h \<longrightarrow> j_used x \<noteq> None)"

definition winners :: "('g \<Rightarrow> joiner) \<Rightarrow> 'g set" where
  "winners pc = {g. \<exists>t. pc g = Joined t}"

text \<open>Nobody has joined yet, or one caller has and the token is spent.\<close>

definition once :: "string \<Rightarrow> store \<times> ('g \<Rightarrow> joiner) \<Rightarrow> bool" where
  "once h s \<longleftrightarrow> winners (snd s) = {} \<or> (\<exists>g. winners (snd s) = {g}) \<and> spent h (fst s)"

lemma update_spends:
  assumes "consume_update h now t d = Inr (t', d')"
  shows "\<not> spent h d" and "spent h d'"
proof -
  let ?P = "\<lambda>x. j_hash x = h \<and> j_used x = None"
  from assms have n: "taff ?P (join_tokens d) \<noteq> 0" and d': "d' = d\<lparr>join_tokens := tupd ?P (\<lambda>x. x\<lparr>j_used := Some (formatTime now)\<rparr>) (join_tokens d)\<rparr>"
    by (auto simp: consume_update_def Let_def split: if_splits)
  from n obtain x where x: "x \<in> set (join_tokens d)" "j_hash x = h" "j_used x = None" by auto
  then show "\<not> spent h d" by (auto simp: spent_def)
  have "j_used y \<noteq> None" if y: "y \<in> set (join_tokens d')" "j_hash y = h" for y
  proof -
    from y(1) have "y \<in> (\<lambda>z. if ?P z then z\<lparr>j_used := Some (formatTime now)\<rparr> else z) ` set (join_tokens d)"
      by (simp add: d' tupd_def)
    then show ?thesis using y(2) by (elim imageE) (simp split: if_splits)
  qed
  then show "spent h d'" by (auto simp: spent_def)
qed

lemma others_spent: "tokens_move h d d' \<Longrightarrow> spent h d \<Longrightarrow> spent h d'"
  by (auto simp: tokens_move_def spent_def join_Create_def join_to_row_def DeleteByNodeName_def split: if_splits)

text \<open>A spent token cannot be consumed.\<close>

lemma spent_refused: "spent h d \<Longrightarrow> \<exists>e. consume_update h now t d = Inl e"
  by (auto simp: spent_def consume_update_def Let_def)

lemma winners_upd [simp]:
  "winners (pc(g := Checked t)) = winners pc - {g}" "winners (pc(g := Refused e)) = winners pc - {g}"
  "winners (pc(g := Joined t)) = insert g (winners pc)"
  by (auto simp: winners_def)

lemma once_step: "join_step h s s' \<Longrightarrow> once h s \<Longrightarrow> once h s'"
proof (induction rule: join_step.induct)
  case (update_ok pc g t now d t' d')
  then have "winners pc = {}" using update_spends(1) [of h now t d t' d'] by (auto simp: once_def)
  then show ?case using update_spends(2) [OF update_ok(2)] by (auto simp: once_def)
qed (auto simp: once_def winners_def others_spent)

lemma once_run: "(join_step h)\<^sup>*\<^sup>* s s' \<Longrightarrow> once h s \<Longrightarrow> once h s'"
  by (induction rule: rtranclp_induct) (auto intro: once_step)

end
