(* ===== verification/App_Locks.thy ===== *)
theory App_Locks
  imports Prelude
begin

text \<open>
  \<^verbatim>\<open>internal/server/app_mutation.go\<close>: the locks that serialize mutations per application. A lock object
  is a one-place channel (\<open>gate\<close>) with a count of its users; the table maps an app to its lock while
  it has users. Goroutines interleave at the critical sections of the mutex and at the channel
  operations. The invariant gives mutual exclusion, no lost wake-up and no leak of table entries.
\<close>

section \<open>State\<close>

text \<open>Lock objects are numbered in the order of their allocation; \<open>l_next\<close> is the next number.\<close>

record locks =
  l_apps :: "string \<rightharpoonup> nat"
  l_gate :: "nat \<Rightarrow> bool"
  l_users :: "nat \<Rightarrow> int"
  l_next :: nat

text \<open>
  Where a goroutine is: outside; registered and waiting in the select; past the send; the owner of
  the lock; past the receive of its release, before \<^verbatim>\<open>forget\<close>.
\<close>

datatype place = Outside | Waiting string nat | Entered string nat | Owner string nat | Leaving string nat

definition no_locks :: locks where
  "no_locks = \<lparr>l_apps = Map.empty, l_gate = (\<lambda>_. False), l_users = (\<lambda>_. 0), l_next = 0\<rparr>"

section \<open>Critical sections\<close>

text \<open>The first section of \<^verbatim>\<open>acquire\<close>: the app's lock, made when there is none, gets one more user.\<close>

definition register :: "string \<Rightarrow> locks \<Rightarrow> nat \<times> locks" where
  "register app l =
     (let (i, l) = (case l_apps l app of Some i \<Rightarrow> (i, l)
        | None \<Rightarrow> (l_next l, l\<lparr>l_apps := (l_apps l)(app \<mapsto> l_next l), l_gate := (l_gate l)(l_next l := False),
                            l_users := (l_users l)(l_next l := 0), l_next := Suc (l_next l)\<rparr>))
      in (i, l\<lparr>l_users := (l_users l)(i := l_users l i + 1)\<rparr>))"

definition forget :: "string \<Rightarrow> nat \<Rightarrow> locks \<Rightarrow> locks" where
  "forget app i l =
     (let l = l\<lparr>l_users := (l_users l)(i := l_users l i - 1)\<rparr>
      in if l_users l i = 0 then l\<lparr>l_apps := (l_apps l)(app := None)\<rparr> else l)"

text \<open>
  The statements of \<^verbatim>\<open>acquire\<close> and of the release it returns. The context may be cancelled at any
  moment: before registering (nothing happens), in the select, and after the send.
\<close>

inductive lock_step :: "locks \<times> ('g \<Rightarrow> place) \<Rightarrow> locks \<times> ('g \<Rightarrow> place) \<Rightarrow> bool" where
  enter_section: "pc g = Outside \<Longrightarrow> register app l = (i, l') \<Longrightarrow> lock_step (l, pc) (l', pc(g := Waiting app i))"
| send: "pc g = Waiting app i \<Longrightarrow> \<not> l_gate l i \<Longrightarrow> lock_step (l, pc) (l\<lparr>l_gate := (l_gate l)(i := True)\<rparr>, pc(g := Entered app i))"
| give_up: "pc g = Waiting app i \<Longrightarrow> lock_step (l, pc) (forget app i l, pc(g := Outside))"
| acquired: "pc g = Entered app i \<Longrightarrow> lock_step (l, pc) (l, pc(g := Owner app i))"
| cancelled: "pc g = Entered app i \<Longrightarrow> l_gate l i \<Longrightarrow> lock_step (l, pc) (l\<lparr>l_gate := (l_gate l)(i := False)\<rparr>, pc(g := Leaving app i))"
| release: "pc g = Owner app i \<Longrightarrow> l_gate l i \<Longrightarrow> lock_step (l, pc) (l\<lparr>l_gate := (l_gate l)(i := False)\<rparr>, pc(g := Leaving app i))"
| leave: "pc g = Leaving app i \<Longrightarrow> lock_step (l, pc) (forget app i l, pc(g := Outside))"

inductive_simps lock_step_simps: "lock_step (l, pc) s'"

section \<open>Invariant\<close>

fun lock_of :: "place \<Rightarrow> (string \<times> nat) option" where
  "lock_of Outside = None"
| "lock_of (Waiting a i) = Some (a, i)"
| "lock_of (Entered a i) = Some (a, i)"
| "lock_of (Owner a i) = Some (a, i)"
| "lock_of (Leaving a i) = Some (a, i)"

fun inside :: "place \<Rightarrow> nat option" where
  "inside (Entered a i) = Some i"
| "inside (Owner a i) = Some i"
| "inside _ = None"

definition users_of :: "('g \<Rightarrow> place) \<Rightarrow> nat \<Rightarrow> 'g set" where
  "users_of pc i = {g. \<exists>a. lock_of (pc g) = Some (a, i)}"

definition holders :: "('g \<Rightarrow> place) \<Rightarrow> nat \<Rightarrow> 'g set" where
  "holders pc i = {g. inside (pc g) = Some i}"

definition locks_ok :: "locks \<times> ('g \<Rightarrow> place) \<Rightarrow> bool" where
  "locks_ok s \<longleftrightarrow> (case s of (l, pc) \<Rightarrow>
     (\<forall>i. finite (users_of pc i) \<and> l_users l i = int (card (users_of pc i))) \<and>
     (\<forall>g a i. lock_of (pc g) = Some (a, i) \<longrightarrow> l_apps l a = Some i) \<and>
     (\<forall>a i. l_apps l a = Some i \<longrightarrow> i < l_next l \<and> users_of pc i \<noteq> {}) \<and>
     (\<forall>a b i. l_apps l a = Some i \<and> l_apps l b = Some i \<longrightarrow> a = b) \<and>
     (\<forall>i. (l_gate l i \<longrightarrow> (\<exists>g. holders pc i = {g})) \<and> (\<not> l_gate l i \<longrightarrow> holders pc i = {})))"

lemma locks_ok_start: "locks_ok (no_locks, \<lambda>_. Outside)"
  by (simp add: locks_ok_def no_locks_def users_of_def holders_def)

section \<open>Preservation\<close>

lemma users_of_upd:
  "users_of (pc(g := p)) i = (if \<exists>a. lock_of p = Some (a, i) then insert g (users_of pc i) else users_of pc i - {g})"
  by (auto simp: users_of_def)

lemma holders_upd: "holders (pc(g := p)) i = (if inside p = Some i then insert g (holders pc i) else holders pc i - {g})"
  by (auto simp: holders_def)

lemma inside_lock: "inside p = Some i \<Longrightarrow> \<exists>a. lock_of p = Some (a, i)"
  by (cases p) auto

lemma holders_users: "holders pc i \<subseteq> users_of pc i"
  using inside_lock by (fastforce simp: holders_def users_of_def)

lemma locks_okD:
  assumes "locks_ok (l, pc)"
  shows "finite (users_of pc i)" and "l_users l i = int (card (users_of pc i))"
    and "lock_of (pc g) = Some (a, i) \<Longrightarrow> l_apps l a = Some i"
    and "l_apps l a = Some i \<Longrightarrow> i < l_next l" and "l_apps l a = Some i \<Longrightarrow> users_of pc i \<noteq> {}"
    and "l_apps l a = Some i \<Longrightarrow> l_apps l b = Some i \<Longrightarrow> a = b"
    and "l_gate l i \<Longrightarrow> \<exists>g. holders pc i = {g}" and "\<not> l_gate l i \<Longrightarrow> holders pc i = {}"
  using assms by (auto simp: locks_ok_def)

text \<open>A lock number that is not in the table has no users and a free gate.\<close>

lemma fresh_lock:
  assumes ok: "locks_ok (l, pc)" and n: "\<forall>a. l_apps l a \<noteq> Some i"
  shows "users_of pc i = {}" and "holders pc i = {}" and "\<not> l_gate l i"
proof -
  have "lock_of (pc g) \<noteq> Some (a, i)" for g a using locks_okD(3) [OF ok] n by blast
  then show u: "users_of pc i = {}" by (simp add: users_of_def)
  then show h: "holders pc i = {}" using holders_users [of pc i] by simp
  then show "\<not> l_gate l i" using locks_okD(7) [OF ok, of i] by auto
qed

lemma users_member: "lock_of (pc g) = Some (a, i) \<Longrightarrow> g \<in> users_of pc i"
  by (auto simp: users_of_def)

lemma register_ok:
  assumes ok: "locks_ok (l, pc)" and g: "pc g = Outside" and r: "register app l = (i, l')"
  shows "locks_ok (l', pc(g := Waiting app i))"
proof (cases "l_apps l app")
  case (Some k)
  then have l': "i = k" "l' = l\<lparr>l_users := (l_users l)(k := l_users l k + 1)\<rparr>" using r by (auto simp: register_def Let_def)
  have "g \<notin> users_of pc j" "g \<notin> holders pc j" for j using g by (auto simp: users_of_def holders_def)
  then show ?thesis using locks_okD [OF ok] Some g unfolding locks_ok_def l'
    by (auto simp: users_of_upd holders_upd)
next
  case None
  let ?n = "l_next l"
  from None r have l': "i = ?n" "l' = l\<lparr>l_apps := (l_apps l)(app \<mapsto> ?n), l_gate := (l_gate l)(?n := False),
      l_users := (l_users l)(?n := 1), l_next := Suc ?n\<rparr>" by (auto simp: register_def Let_def)
  have n: "\<forall>a. l_apps l a \<noteq> Some ?n" using locks_okD(4) [OF ok] by blast
  have "g \<notin> users_of pc j" "g \<notin> holders pc j" for j using g by (auto simp: users_of_def holders_def)
  moreover have "lock_of (pc h) \<noteq> Some (app, j)" for h j using locks_okD(3) [OF ok, of h app j] None by auto
  ultimately show ?thesis using locks_okD [OF ok] None n fresh_lock [OF ok n] g unfolding locks_ok_def l'
    by (auto simp: users_of_upd holders_upd less_Suc_eq)
qed

lemma forget_ok:
  assumes ok: "locks_ok (l, pc)" and g: "lock_of (pc g) = Some (app, i)" "inside (pc g) = None"
  shows "locks_ok (forget app i l, pc(g := Outside))"
proof -
  have u: "g \<in> users_of pc i" using g(1) by (auto simp: users_of_def)
  have hs: "holders (pc(g := Outside)) j = holders pc j" for j using g(2) by (auto simp: holders_def)
  have gj: "j \<noteq> i \<Longrightarrow> g \<notin> users_of pc j" for j using g(1) by (auto simp: users_of_def)
  have pos: "0 < card (users_of pc i)" using u locks_okD(1) [OF ok, of i] by (auto simp: card_gt_0_iff)
  have cnt: "l_users l i - 1 = int (card (users_of pc i - {g}))"
    using u pos locks_okD(2) [OF ok, of i] by (simp add: card_Diff_singleton of_nat_diff Suc_leI)
  show ?thesis
  proof (cases "users_of pc i = {g}")
    case True
    then have "forget app i l = l\<lparr>l_users := (l_users l)(i := 0), l_apps := (l_apps l)(app := None)\<rparr>"
      using cnt by (simp add: forget_def)
    moreover have "users_of (pc(g := Outside)) j = (if j = i then {} else users_of pc j)" for j
      using True gj [of j] by (cases "j = i") (simp_all add: users_of_upd)
    moreover have "lock_of (pc h) \<noteq> Some (app, j)" if "h \<noteq> g" for h j
    proof
      assume h: "lock_of (pc h) = Some (app, j)"
      then have "j = i" using locks_okD(3) [OF ok h] locks_okD(3) [OF ok g(1)] by simp
      then show False using True h that users_member [of pc h app i] by simp
    qed
    moreover have "l_apps l a = Some j \<Longrightarrow> a \<noteq> app \<Longrightarrow> j \<noteq> i" for a j
      using locks_okD(6) [OF ok _ locks_okD(3) [OF ok g(1)], of a] by auto
    ultimately show ?thesis using locks_okD [OF ok] unfolding locks_ok_def by (auto simp: hs split: if_splits)
  next
    case False
    then have ne: "users_of pc i - {g} \<noteq> {}" using u by blast
    then have "forget app i l = l\<lparr>l_users := (l_users l)(i := int (card (users_of pc i - {g})))\<rparr>"
      using cnt locks_okD(1) [OF ok, of i] by (simp add: forget_def)
    moreover have "users_of (pc(g := Outside)) j = (if j = i then users_of pc i - {g} else users_of pc j)" for j
      using gj [of j] by (cases "j = i") (simp_all add: users_of_upd)
    ultimately show ?thesis using locks_okD [OF ok] ne unfolding locks_ok_def by (auto simp: hs)
  qed
qed

lemma gate_ok:
  assumes ok: "locks_ok (l, pc)" and g: "lock_of (pc g) = Some (app, i)" "lock_of p = Some (app, i)"
    and v: "v = (\<exists>h. holders (pc(g := p)) i = {h})" "\<not> v \<Longrightarrow> holders (pc(g := p)) i = {}"
  shows "locks_ok (l\<lparr>l_gate := (l_gate l)(i := v)\<rparr>, pc(g := p))"
proof -
  have us: "users_of (pc(g := p)) j = users_of pc j" for j using g by (auto simp: users_of_def)
  have "inside (pc g) = Some j \<Longrightarrow> j = i" "inside p = Some j \<Longrightarrow> j = i" for j using g inside_lock by fastforce+
  then have "j \<noteq> i \<Longrightarrow> holders (pc(g := p)) j = holders pc j" for j by (auto simp: holders_def)
  then show ?thesis using locks_okD [OF ok] g v unfolding locks_ok_def by (auto simp: us)
qed

lemma locks_ok_step: "lock_step s s' \<Longrightarrow> locks_ok s \<Longrightarrow> locks_ok s'"
proof (induction rule: lock_step.induct)
  case (enter_section pc g app l i l')
  then show ?case by (intro register_ok)
next
  case (send pc g app i l)
  then show ?case using locks_okD(8) [of l pc i] by (intro gate_ok) (auto simp: holders_upd)
next
  case (give_up pc g app i l)
  then show ?case by (intro forget_ok) auto
next
  case (acquired pc g app i l)
  then have "holders (pc(g := Owner app i)) = holders pc" by (auto simp: holders_def fun_eq_iff)
  moreover have "users_of (pc(g := Owner app i)) = users_of pc" using acquired by (auto simp: users_of_def fun_eq_iff)
  ultimately show ?case using acquired locks_okD [OF acquired(2)] locks_okD(3) [OF acquired(2), of g app i]
    unfolding locks_ok_def by auto
next
  case (cancelled pc g app i l)
  then have "g \<in> holders pc i" by (auto simp: holders_def)
  with cancelled locks_okD(7) [of l pc i] show ?case by (intro gate_ok) (auto simp: holders_upd)
next
  case (release pc g app i l)
  then have "g \<in> holders pc i" by (auto simp: holders_def)
  with release locks_okD(7) [of l pc i] show ?case by (intro gate_ok) (auto simp: holders_upd)
next
  case (leave pc g app i l)
  then show ?case by (intro forget_ok) auto
qed

lemma locks_ok_run: "lock_step\<^sup>*\<^sup>* s s' \<Longrightarrow> locks_ok s \<Longrightarrow> locks_ok s'"
  by (induction rule: rtranclp_induct) (auto intro: locks_ok_step)

section \<open>What the invariant gives\<close>

lemma one_holder:
  assumes ok: "locks_ok (l, pc)" and g: "pc g = Owner app i" and h: "pc h = Owner app j"
  shows "g = h"
proof -
  from g h locks_okD(3) [OF ok, of g app i] locks_okD(3) [OF ok, of h app j] have "j = i" by simp
  with g h have "g \<in> holders pc i" "h \<in> holders pc i" by (auto simp: holders_def)
  then show ?thesis using locks_okD(7,8) [OF ok, of i] by (cases "l_gate l i") auto
qed

lemma waiting_enabled:
  assumes ok: "locks_ok (l, pc)" and "pc g = Waiting app i"
  shows "(\<exists>l'. lock_step (l, pc) (l', pc(g := Entered app i))) \<or> (\<exists>h. inside (pc h) = Some i)"
  using assms locks_okD(7) [OF ok, of i] by (cases "l_gate l i") (auto simp: holders_def intro: send)

text \<open>A goroutine that is inside can always go on: the receive of the release never blocks.\<close>

lemma inside_enabled:
  assumes ok: "locks_ok (l, pc)" and "pc g = Owner app i \<or> pc g = Entered app i"
  shows "l_gate l i"
proof (rule ccontr)
  assume "\<not> l_gate l i"
  then have "inside (pc g) \<noteq> Some i" using locks_okD(8) [OF ok, of i] by (simp add: holders_def)
  then show False using assms(2) by auto
qed

lemma table_live: "locks_ok (l, pc) \<Longrightarrow> l_apps l app \<noteq> None \<longleftrightarrow> (\<exists>g i. lock_of (pc g) = Some (app, i))"
proof -
  assume ok: "locks_ok (l, pc)"
  have "\<exists>g. lock_of (pc g) = Some (app, i)" if i: "l_apps l app = Some i" for i
  proof -
    from locks_okD(5) [OF ok i] obtain g a where "lock_of (pc g) = Some (a, i)" by (auto simp: users_of_def)
    with locks_okD(3) [OF ok this] locks_okD(6) [OF ok _ i] show ?thesis by blast
  qed
  with locks_okD(3) [OF ok] show ?thesis by fastforce
qed

text \<open>
  No deadlock: whoever is inside can leave, and then a waiting goroutine can become the owner.
\<close>

lemma owner_reachable_free:
  assumes "pc g = Waiting app i" and "\<not> l_gate l i"
  shows "\<exists>l'. lock_step\<^sup>*\<^sup>* (l, pc) (l', pc(g := Owner app i))"
proof -
  have "lock_step (l, pc) (l\<lparr>l_gate := (l_gate l)(i := True)\<rparr>, pc(g := Entered app i))" using assms by (rule lock_step.send)
  moreover have "lock_step (l\<lparr>l_gate := (l_gate l)(i := True)\<rparr>, pc(g := Entered app i))
      (l\<lparr>l_gate := (l_gate l)(i := True)\<rparr>, (pc(g := Entered app i))(g := Owner app i))" by (rule lock_step.acquired) simp
  ultimately show ?thesis by (metis converse_rtranclp_into_rtranclp fun_upd_upd r_into_rtranclp)
qed

lemma owner_reachable:
  assumes ok: "locks_ok (l, pc)" and g: "pc g = Waiting app i"
  shows "\<exists>s'. lock_step\<^sup>*\<^sup>* (l, pc) s' \<and> snd s' g = Owner app i"
proof (cases "l_gate l i")
  case False
  then obtain l' where "lock_step\<^sup>*\<^sup>* (l, pc) (l', pc(g := Owner app i))" using owner_reachable_free [of pc g app i l] g by blast
  then show ?thesis by (intro exI [of _ "(l', pc(g := Owner app i))"]) simp
next
  case True
  then obtain h where "inside (pc h) = Some i" using locks_okD(7) [OF ok] by (auto simp: holders_def)
  then obtain a where h: "pc h = Entered a i \<or> pc h = Owner a i" by (cases "pc h") auto
  let ?l = "l\<lparr>l_gate := (l_gate l)(i := False)\<rparr>"
  have leave: "lock_step (l, pc) (?l, pc(h := Leaving a i))" using h True by (auto intro: lock_step.cancelled lock_step.release)
  have "(pc(h := Leaving a i)) g = Waiting app i" using g h by auto
  then obtain l' where "lock_step\<^sup>*\<^sup>* (?l, pc(h := Leaving a i)) (l', (pc(h := Leaving a i))(g := Owner app i))"
    using owner_reachable_free [of "pc(h := Leaving a i)" g app i ?l] by auto
  with leave have "lock_step\<^sup>*\<^sup>* (l, pc) (l', (pc(h := Leaving a i))(g := Owner app i))" by (rule converse_rtranclp_into_rtranclp)
  then show ?thesis by (intro exI [of _ "(l', (pc(h := Leaving a i))(g := Owner app i))"]) simp
qed

end
