(* ===== verification/Fleet_Samples.thy ===== *)
theory Fleet_Samples
  imports Node_Server Join_Once App_Locks
begin

text \<open>
  Concrete inputs for the witnesses of the node services: a service whose clock and random source are
  a counter, a store with one admin token, a run that enrolls and removes a node, and an interface
  driven by a command runner that behaves as \<^verbatim>\<open>wg\<close> documents.
\<close>

section \<open>A service\<close>

definition fleet_time :: gotime where
  "fleet_time = GoTime 2026 1 2 3 4 5 0"

definition fleet_hmac :: "string \<Rightarrow> string \<Rightarrow> nat list" where
  "fleet_hmac key tok = map of_char (rev tok)"

definition fleet_sha :: "string \<Rightarrow> nat list" where
  "fleet_sha s = map of_char s"

definition sample_service :: "nat node_service" where
  "sample_service = \<lparr>ns_hashKey = ''k'', ns_events = None, ns_runtime = None, ns_peers = None, ns_workerJoin = None,
     ns_network = \<lparr>net_Subnet = ''10.9.0.0/29'', net_HubIP = ''10.9.0.1'', net_HubPublicKey = [], net_Endpoint = []\<rparr>,
     ns_offlineAfter = 1000, ns_now = (\<lambda>_. fleet_time),
     ns_random = (\<lambda>n k. (Some (replicate n k), Suc k)), ns_hmac = fleet_hmac\<rparr>"

definition sample_fleet :: "nat fleet" where
  "sample_fleet = \<lparr>f_store = empty_store\<lparr>admin_tokens := [\<lparr>ad_hash = hex_encode (fleet_hmac ''k'' ''dep_admin_x''),
     ad_name = [], ad_created = formatTime fleet_time, ad_used = None, ad_revoked = None\<rparr>]\<rparr>, f_env = 0, f_log = []\<rparr>"

definition sample_key :: string where
  "sample_key = replicate 43 CHR ''A'' @ ''=''"

definition admin_header :: "string list" where
  "admin_header = [''Bearer dep_admin_x'']"

definition sample_calls :: "nat label list" where
  "sample_calls = [LCall admin_header (RCreateToken \<lparr>ct_NodeName = ''w1'', ct_Labels = None, ct_TtlSeconds = 0\<rparr>),
     LCall [] (RJoin \<lparr>jr_JoinToken = ''dep_join_'' @ RawURLEncoding (replicate 32 0), jr_PublicKey = sample_key, jr_Hostname = ''h1'', jr_Arch = []\<rparr>),
     LCall admin_header (RRemove ''w1'')]"

text \<open>A store with a node that is online and has an agent token, and with a node that was removed.\<close>

definition sample_row :: "string \<Rightarrow> string \<Rightarrow> node_row" where
  "sample_row i st = \<lparr>n_id = i, n_name = i, n_status = st, n_labels = ''{}'', n_hostname = [], n_arch = [], n_os = [], n_kernel = [],
     n_ip = [], n_key = [], n_vpn = [], n_seen = None, n_created = formatTime fleet_time, n_updated = formatTime fleet_time\<rparr>"

definition staffed_fleet :: "nat fleet" where
  "staffed_fleet = sample_fleet\<lparr>f_store := (f_store sample_fleet)\<lparr>nodes := [sample_row ''n1'' ''online'', sample_row ''n2'' ''removed''],
     agent_tokens := [\<lparr>ag_hash = hex_encode (fleet_hmac ''k'' ''dep_agent_y''), ag_node = ''n1'', ag_created = formatTime fleet_time,
       ag_used = None, ag_revoked = None\<rparr>]\<rparr>\<rparr>"

lemma sample_store_ok: "store_ok (f_store sample_fleet)" "nodes (f_store sample_fleet) = []"
  by (simp_all add: sample_fleet_def store_ok_def empty_store_def nodes_ok_def keyed_def)

lemma staffed_fleet_ok: "fleet_ok net (f_store staffed_fleet)"
  by (auto simp: staffed_fleet_def sample_fleet_def sample_row_def fleet_ok_def store_ok_def empty_store_def nodes_ok_def keyed_def
      node_conflict_def locked_def live_tokens_def rows_of_def)

text \<open>The agent of the first node is let in.\<close>

definition agent_caller :: caller where
  "agent_caller = \<lparr>caller_Kind = CallerAgent, caller_NodeID = ''n1'', caller_TokenID = opaqueTokenID fleet_sha (hex_encode (fleet_hmac ''k'' ''dep_agent_y''))\<rparr>"

lemma agent_authenticated:
  "fst (authenticate fleet_hmac fleet_sha (store_auth ''k'') fleet_time [''Bearer dep_agent_y''] ''/deployer.v1.NodeService/HeartbeatNode'' staffed_fleet)
   = Inr agent_caller"
proof -
  have "presents fleet_hmac ''k'' [''Bearer dep_agent_y''] AgentTokenPrefix (hex_encode (fleet_hmac ''k'' ''dep_agent_y''))"
    by code_simp
  moreover have "wf_time fleet_time" by (simp add: fleet_time_def wf_time_def days_in_def)
  then have "agent_live (f_store staffed_fleet) (hex_encode (fleet_hmac ''k'' ''dep_agent_y'')) ''n1''"
    by (simp add: agent_live_def agent_FindByHash_def staffed_fleet_def tsel_def parseStoredTime_def parse_formatTime parseOptionalStoredTime_def)
  ultimately show ?thesis
    unfolding fleet_auth.authenticate_grants fleet_auth.grants_def by (auto simp: agent_caller_def isAgentOnlyMethod_def)
qed

text \<open>Every sequence of labels can be run.\<close>

lemma fleet_run_total: "fleet_run svc sha256 s ls (foldl (\<lambda>s l. fleet_next svc sha256 l s) s ls)"
  by (induction ls arbitrary: s) (auto intro: fleet_run.intros)

section \<open>An interface\<close>

text \<open>
  The interface is an association list of keys and addresses. Showing fails when the printed keys
  would not read back.
\<close>

definition iface_peers :: "gomap \<Rightarrow> string \<rightharpoonup> string" where
  "iface_peers m = map_of m"

definition iface_assign :: "gomap \<Rightarrow> string \<Rightarrow> string \<Rightarrow> gomap" where
  "iface_assign m key ip = (key, ip) # map (\<lambda>(k, a). (k, if a = ip then [] else a)) m"

definition sample_runner :: "gomap hub_runner" where
  "sample_runner = \<lparr>
     runner_Output = (\<lambda>args m. let out = concat (map (\<lambda>(k, _). k @ [CHR 0x0A]) m)
       in if set (Fields out) = set (map fst m) then (Inr out, m) else (Inl (ErrText ''wg''), m)),
     runner_Run = (\<lambda>args m. case args of
         [c, i, p, key, verb] \<Rightarrow> (Inr (), filter (\<lambda>(k, _). k \<noteq> key) m)
       | [c, i, p, key, verb, ip] \<Rightarrow> (Inr (), iface_assign m key ip)
       | _ \<Rightarrow> (Inl (ErrText ''wg''), m))\<rparr>"

lemma map_of_map_snd: "map_of (map (\<lambda>(k, a). (k, f a)) m) k = (case map_of m k of None \<Rightarrow> None | Some a \<Rightarrow> Some (f a))"
  by (induction m) auto

lemma map_of_filter_key: "map_of (filter (\<lambda>(k, _). k \<noteq> key) m) = (map_of m)(key := None)"
  by (induction m) (auto simp: fun_eq_iff)

lemma sample_runner_wg: "wg_tool sample_runner iface iface_peers"
  unfolding wg_tool_def
proof (intro conjI allI impI)
  fix s s' :: gomap and out key ip
  show "runner_Output sample_runner [''show'', iface, ''peers''] s = (Inr out, s') \<Longrightarrow> iface_peers s' = iface_peers s"
    by (simp add: sample_runner_def Let_def split: if_splits)
  show "runner_Output sample_runner [''show'', iface, ''peers''] s = (Inr out, s') \<Longrightarrow> set (Fields out) = dom (iface_peers s)"
    by (auto simp: sample_runner_def iface_peers_def Let_def dom_map_of_conv_image_fst split: if_splits)
  show "runner_Run sample_runner [''set'', iface, ''peer'', key, ''remove''] s = (Inr (), s') \<Longrightarrow> iface_peers s' = (iface_peers s)(key := None)"
    by (simp add: sample_runner_def iface_peers_def flip: map_of_filter_key)
  show "runner_Run sample_runner [''set'', iface, ''peer'', key, ''allowed-ips'', ip] s = (Inr (), s') \<Longrightarrow> iface_peers s' = wg_assign (iface_peers s) key ip"
    by (auto simp: sample_runner_def iface_peers_def iface_assign_def wg_assign_def map_of_map_snd fun_eq_iff split: option.splits)
qed

definition peer_node :: "string \<Rightarrow> string \<Rightarrow> string \<Rightarrow> node" where
  "peer_node nm st key = zero_node\<lparr>node_ID := nm, node_Name := nm, node_Status := st, node_WireGuardIP := ''10.9.0.2'', node_WireGuardPublicKey := key\<rparr>"

definition sample_hub :: "gomap hub_controller" where
  "sample_hub = \<lparr>hub_Interface = ''wg0'', hub_Runner = Some sample_runner\<rparr>"

section \<open>An event log\<close>

definition sample_event :: "string \<Rightarrow> string \<Rightarrow> nat \<Rightarrow> event" where
  "sample_event i n sec = \<lparr>ev_ID = i, ev_CreatedAt = GoTime 2026 1 2 3 4 sec 0, ev_Type = ''node.joined'', ev_Severity = ''info'',
     ev_Message = ''m'', ev_AppID = [], ev_NodeID = n, ev_DeploymentID = [], ev_MetadataJSON = ''{}''\<rparr>"

definition sample_log :: store where
  "sample_log = empty_store\<lparr>events := [event_to_row (sample_event ''e1'' ''n1'' 7), event_to_row (sample_event ''e2'' ''n2'' 6)]\<rparr>"

definition watch_filter :: event_filter where
  "watch_filter = \<lparr>flt_AppID = [], flt_NodeID = ''n1'', flt_Type = [], flt_Severity = [], flt_Since = None, flt_After = None,
     flt_OldestFirst = True, flt_Limit = 1000\<rparr>"

lemma sample_event_row:
  assumes "sec < 60"
  shows "event_ok (event_to_row (sample_event i n sec))" and "scanEvent (event_to_row (sample_event i n sec)) = Inr (sample_event i n sec)"
proof -
  have "wf_time (GoTime 2026 1 2 3 4 sec 0)" using assms by (simp add: wf_time_def days_in_def)
  then show "event_ok (event_to_row (sample_event i n sec))" "scanEvent (event_to_row (sample_event i n sec)) = Inr (sample_event i n sec)"
    by (auto simp: event_ok_def event_to_row_def sample_event_def scanEvent_def parseStoredTime_def parse_formatEventTime)
qed

lemma sample_log_ok: "\<forall>r \<in> set (events sample_log). event_ok r" "keyed e_id (events sample_log)"
  by (simp_all add: sample_log_def sample_event_row empty_store_def) (simp_all add: event_to_row_def sample_event_def keyed_def)

lemma sample_pending: "mapM scanEvent (pending_rows watch_filter sample_log) = Inr [sample_event ''e1'' ''n1'' 7]"
proof -
  have "pending_rows watch_filter sample_log = [event_to_row (sample_event ''e1'' ''n1'' 7)]"
    by (simp add: pending_rows_def oldest_first_def watch_filter_def sample_log_def empty_store_def event_matches_def event_to_row_def
        sample_event_def optionalString_def)
  then show ?thesis by (simp add: sample_event_row)
qed

section \<open>A consumed join token, a lock that is waited for\<close>

definition token_store0 :: store where
  "token_store0 = empty_store\<lparr>join_tokens := [\<lparr>j_hash = ''h'', j_name = ''w1'', j_labels = ''{}'', j_created = formatTime fleet_time,
     j_expires = formatTime (GoTime 2026 1 2 4 4 5 0), j_used = None\<rparr>]\<rparr>"

lemma sample_join: "\<exists>d' pc t. (join_step ''h'')\<^sup>*\<^sup>* (token_store0, \<lambda>_. Idle) (d', pc) \<and> pc (0 :: nat) = Joined t"
proof -
  have wf: "wf_time fleet_time" "wf_time (GoTime 2026 1 2 4 4 5 0)" by (simp_all add: fleet_time_def wf_time_def days_in_def)
  have "fleet_time < GoTime 2026 1 2 4 4 5 0" by (simp add: fleet_time_def less_gotime_def time_key_def)
  then obtain t where t: "consume_check ''h'' fleet_time token_store0 = Inr t"
    using wf by (simp add: consume_check_def join_FindByHash_def token_store0_def tsel_def parseOptionalStoredTime_def)
  then obtain t' d' where u: "consume_update ''h'' fleet_time t token_store0 = Inr (t', d')"
    by (auto simp: consume_update_def token_store0_def Let_def)
  have "join_step ''h'' (token_store0, \<lambda>_ :: nat. Idle) (token_store0, (\<lambda>_. Idle)(0 := Checked t))" by (rule check_ok [OF _ t]) simp
  moreover have "join_step ''h'' (token_store0, (\<lambda>_ :: nat. Idle)(0 := Checked t)) (d', ((\<lambda>_. Idle)(0 := Checked t))(0 := Joined t'))"
    by (rule update_ok [OF _ u]) simp
  ultimately have "(join_step ''h'')\<^sup>*\<^sup>* (token_store0, \<lambda>_ :: nat. Idle) (d', ((\<lambda>_. Idle)(0 := Checked t))(0 := Joined t'))"
    by (meson converse_rtranclp_into_rtranclp r_into_rtranclp)
  then show ?thesis by (intro exI [of _ d'] exI [of _ "((\<lambda>_. Idle)(0 := Checked t))(0 := Joined t')"] exI [of _ t']) simp
qed

lemma sample_waiting: "\<exists>l pc. lock_step\<^sup>*\<^sup>* (no_locks, \<lambda>_. Outside) (l, pc) \<and> pc (0 :: nat) = Waiting ''web'' 0"
proof -
  obtain l where l: "register ''web'' no_locks = (0, l)" by (simp add: register_def no_locks_def)
  have "lock_step (no_locks, \<lambda>_ :: nat. Outside) (l, (\<lambda>_. Outside)(0 := Waiting ''web'' 0))" by (rule enter_section [OF _ l]) simp
  then show ?thesis by (intro exI [of _ l] exI [of _ "(\<lambda>_. Outside)(0 := Waiting ''web'' 0)"]) simp
qed

end
