(* ===== verification/Fleet_Theorems.thy ===== *)
theory Fleet_Theorems
  imports Fleet_Samples
begin

text \<open>
  What the node services promise: who is let in, what every run of the server keeps of the fleet, that
  addresses, hub peers, event delivery and retention are exact, and that join tokens and app locks
  admit one at a time.
\<close>

section \<open>Access\<close>

text \<open>C31. The authenticator lets in exactly the presenter of a live token of the kind the method asks
  for: an unrevoked admin token for a method that is not for agents, or an unrevoked agent token, under
  the identity of its node, for a method that is. Whatever it answers, the store changes at most in when
  tokens were last used.\<close>

theorem authenticate_iff:
  "(fst (authenticate hmac sha256 (store_auth key) now vals m s) = Inr c \<longleftrightarrow>
     (\<exists>h. presents hmac key vals AdminTokenPrefix h \<and> \<not> isAgentOnlyMethod m \<and> admin_live (f_store s) h \<and>
        c = \<lparr>caller_Kind = CallerAdmin, caller_NodeID = [], caller_TokenID = opaqueTokenID sha256 h\<rparr>) \<or>
     (\<exists>h i. presents hmac key vals AgentTokenPrefix h \<and> isAgentOnlyMethod m \<and> agent_live (f_store s) h i \<and>
        c = \<lparr>caller_Kind = CallerAgent, caller_NodeID = i, caller_TokenID = opaqueTokenID sha256 h\<rparr>)) \<and>
   same_but_used (f_store s) (f_store (snd (authenticate hmac sha256 (store_auth key) now vals m s)))"
  unfolding fleet_auth.authenticate_grants fleet_auth.grants_def using fleet_auth.authenticate_frame
  by (cases c) auto

section \<open>Runs of the server\<close>







section \<open>The WireGuard network\<close>


text \<open>C36. After a successful synchronisation the peers of the hub's interface are exactly the nodes
  that are not removed and have a key, each with its own address, whatever was there before; the nodes
  share no key and no address, and the tool behaves as documented.\<close>

theorem hub_peers_synchronized:
  assumes "SyncPeers c ns s = (Inr (), s')" and "hub_Runner c = Some r" and "wg_tool r (hub_Interface c) peers"
    and "distinct (map peer_id (filter wants_peer ns))" and "distinct (map peer_addr (filter wants_peer ns))"
  shows "peers s' = map_of (map (\<lambda>n. (peer_id n, peer_addr n)) (filter wants_peer ns))"
  using sync_exact [OF assms(1) _ assms(4,5)] assms(2,3) by simp

theorem hub_peers_synchronized_witness:
  "\<exists>s'. SyncPeers sample_hub [peer_node ''w1'' ''online'' sample_key, peer_node ''w2'' ''removed'' ''x''] [(''old'', ''10.9.0.2/32'')] = (Inr (), s') \<and>
     iface_peers s' = [sample_key \<mapsto> ''10.9.0.2/32'']"
proof -
  let ?ns = "[peer_node ''w1'' ''online'' sample_key, peer_node ''w2'' ''removed'' ''x'']" and ?s = "[(''old'', ''10.9.0.2/32'')]"
  have "fst (SyncPeers sample_hub ?ns ?s) = Inr ()" by code_simp
  then obtain s' where run: "SyncPeers sample_hub ?ns ?s = (Inr (), s')" by (metis prod.collapse)
  have w: "map (\<lambda>n. (peer_id n, peer_addr n)) (filter wants_peer ?ns) = [(sample_key, ''10.9.0.2/32'')]" by code_simp
  have "distinct (map peer_id (filter wants_peer ?ns))" "distinct (map peer_addr (filter wants_peer ?ns))"
    using arg_cong [OF w, of "map fst"] arg_cong [OF w, of "map snd"] by (simp_all add: comp_def)
  then show ?thesis using run hub_peers_synchronized [OF run _ sample_runner_wg] w by (auto simp: sample_hub_def)
qed

section \<open>The event log\<close>

text \<open>C37. A watcher's delivery loop ends. When no send fails it has sent every stored event that
  matches the filter and lies beyond the cursor, once and in the order of time and id, however many
  pages that takes; when a send fails it has sent a prefix of them.\<close>

theorem watch_delivers_all:
  assumes "\<forall>r \<in> set (events d). event_ok r" and "keyed e_id (events d)" and "flt_OldestFirst f" and "flt_Limit f = 1000"
    and "mapM scanEvent (pending_rows f d) = Inr es"
  shows "\<exists>r f' es'. sendNew sends d f sent = Some (r, f', sent @ es') \<and> prefix es' es \<and> (r = None \<longrightarrow> es' = es)"
  using sendNew_delivers [OF assms] .

theorem watch_delivers_all_witness:
  "\<exists>r f' es'. sendNew (\<lambda>_ _. None) sample_log watch_filter [] = Some (r, f', es') \<and> prefix es' [sample_event ''e1'' ''n1'' 7]"
  using watch_delivers_all [OF sample_log_ok _ _ sample_pending, of "\<lambda>_ _. None" "[]"] by (auto simp: watch_filter_def)

text \<open>Pruning the log to a number of events keeps that many (or all, when there are fewer), deletes
  the others and counts them, and every event that was kept is newer than every one that was deleted.\<close>

theorem prune_keeps_newest:
  assumes "keyed e_id (events d)" and "1 \<le> n" and "PruneToLimit n d = Inr (c, d')"
  shows "length (events d') = min (nat n) (length (events d)) \<and> c = length (events d) - nat n \<and>
    set (events d') \<subseteq> set (events d) \<and>
    (\<forall>x \<in> set (events d'). \<forall>y \<in> set (events d) - set (events d'). e_key y < e_key x)"
proof -
  note keeps = PruneToLimit_keeps [OF assms]
  have split: "set (take (nat n) (newest_first (events d))) \<union> set (drop (nat n) (newest_first (events d))) = set (events d)"
    by (metis append_take_drop_id set_append set_newest)
  then show ?thesis using keeps PruneToLimit_newest [OF assms(1), of _ "nat n"] by auto
qed

theorem prune_keeps_newest_witness: "\<exists>c d'. PruneToLimit 1 sample_log = Inr (c, d') \<and> length (events d') = 1 \<and> c = 1"
proof -
  obtain c d' where run: "PruneToLimit 1 sample_log = Inr (c, d')" by (simp add: PruneToLimit_def Let_def)
  from prune_keeps_newest [OF sample_log_ok(2) _ run] run show ?thesis by (simp add: sample_log_def)
qed

section \<open>One at a time\<close>

text \<open>C38. A join token is consumed at most once: however many callers interleave between the read and
  the update of the token, and whatever else happens to the table, at most one of them succeeds; once
  one has, no update of that token succeeds again.\<close>

theorem join_token_once:
  assumes "(join_step h)\<^sup>*\<^sup>* (d, \<lambda>_. Idle) (d', pc)" and "pc g = Joined t"
  shows "(\<forall>g' t'. pc g' = Joined t' \<longrightarrow> g' = g) \<and> (\<forall>now t. \<exists>e. consume_update h now t d' = Inl e)"
proof -
  have "once h (d', pc)" using once_run [OF assms(1)] by (simp add: once_def winners_def)
  moreover have "g \<in> winners pc" using assms(2) by (auto simp: winners_def)
  ultimately obtain x where "winners pc = {x}" "spent h d'" by (auto simp: once_def)
  then show ?thesis using \<open>g \<in> winners pc\<close> spent_refused by (auto simp: winners_def)
qed

theorem join_token_once_witness:
  "\<exists>d pc. (join_step ''h'')\<^sup>*\<^sup>* (token_store0, \<lambda>_. Idle) (d, pc) \<and> (\<exists>t. pc (0 :: nat) = Joined t) \<and> \<not> (\<exists>t. pc 1 = Joined t)"
proof -
  obtain d pc t where run: "(join_step ''h'')\<^sup>*\<^sup>* (token_store0, \<lambda>_. Idle) (d, pc)" "pc (0 :: nat) = Joined t" using sample_join by blast
  have "\<not> (\<exists>t. pc 1 = Joined t)" using join_token_once [OF run] by auto
  with run show ?thesis by blast
qed

text \<open>C39. Mutations of an app exclude each other: in every state the goroutines can reach, at most one
  owns the lock of an app, and the table has an entry for an app exactly while some goroutine uses its
  lock.\<close>

theorem app_lock_exclusive:
  assumes "lock_step\<^sup>*\<^sup>* (no_locks, \<lambda>_. Outside) (l, pc)"
  shows "(\<forall>g h i j. pc g = Owner app i \<and> pc h = Owner app j \<longrightarrow> g = h) \<and>
    (l_apps l app \<noteq> None \<longleftrightarrow> (\<exists>g i. lock_of (pc g) = Some (app, i)))"
proof -
  have ok: "locks_ok (l, pc)" using locks_ok_run [OF assms locks_ok_start] .
  show ?thesis using one_holder [OF ok] table_live [OF ok] by blast
qed

theorem app_lock_exclusive_witness:
  "\<exists>l pc. lock_step\<^sup>*\<^sup>* (no_locks, \<lambda>_. Outside) (l, pc) \<and> pc (0 :: nat) = Waiting ''web'' 0 \<and> l_apps l ''web'' \<noteq> None"
  using sample_waiting
proof (elim exE conjE)
  fix l and pc :: "nat \<Rightarrow> place"
  assume run: "lock_step\<^sup>*\<^sup>* (no_locks, \<lambda>_. Outside) (l, pc)" "pc 0 = Waiting ''web'' 0"
  then have "lock_of (pc 0) = Some (''web'', 0)" by simp
  then have "l_apps l ''web'' \<noteq> None" using app_lock_exclusive [OF run(1), of "''web''"] by (simp only: simp_thms) blast
  with run show ?thesis by (intro exI [of _ l] exI [of _ pc] conjI)
qed

text \<open>C40. No state of the locks is a dead end: from every reachable state, a goroutine that waits for
  the lock of an app can still come to own it.\<close>

theorem app_lock_progress:
  assumes "lock_step\<^sup>*\<^sup>* (no_locks, \<lambda>_. Outside) (l, pc)" and "pc g = Waiting app i"
  shows "\<exists>s'. lock_step\<^sup>*\<^sup>* (l, pc) s' \<and> snd s' g = Owner app i"
  using owner_reachable [OF locks_ok_run [OF assms(1) locks_ok_start] assms(2)] .

theorem app_lock_progress_witness:
  "\<exists>s s'. lock_step\<^sup>*\<^sup>* (no_locks, \<lambda>_. Outside) s \<and> lock_step\<^sup>*\<^sup>* s s' \<and> snd s' (0 :: nat) = Owner ''web'' 0"
  using sample_waiting
proof (elim exE conjE)
  fix l and pc :: "nat \<Rightarrow> place"
  assume run: "lock_step\<^sup>*\<^sup>* (no_locks, \<lambda>_. Outside) (l, pc)" "pc 0 = Waiting ''web'' 0"
  from app_lock_progress [OF run] run(1) show ?thesis by (elim exE) (rule exI [of _ "(l, pc)"], rule exI, erule (1) conjI)
qed

end
