(* ===== verification/Spec2Isabelle.thy ===== *)
theory Spec2Isabelle
  imports Config_Theorems Journal_Theorems Candidate_Theorems Runtime_Theorems Service_Theorems Fleet_Theorems
begin

text \<open>
  Verification of the control plane of self-hosted-deployer.

  The program is a gRPC server that turns app configurations into Kubernetes workloads. A deploy
  request carries a configuration (\<^verbatim>\<open>internal/appconfig\<close>); it is admitted into an SQLite journal
  (\<^verbatim>\<open>internal/db\<close>) that binds it to an app row and a deployment row; the server (\<^verbatim>\<open>internal/server\<close>)
  then drives a candidate through the runtime (\<^verbatim>\<open>internal/ingress\<close>) in small steps whose progress is
  recorded in the journal, so that a restarted server can resume, withdraw or finish the candidate.
  Worker nodes join over WireGuard with one-time tokens, report by heartbeat and are drained, removed
  or purged by an administrator; every call is authenticated, and what happens is written to an event
  log that clients page through and watch.

  \<^bold>\<open>Foundations.\<close> \<open>Prelude\<close>: results, Go maps as association lists, tables as row lists. \<open>Go_Strings\<close>:
  byte strings, trimming, regular expressions matched by derivatives. \<open>Go_Time\<close>: times and the two
  layouts they are stored in. \<open>Json\<close>: the printer and parser of \<^verbatim>\<open>encoding/json\<close>; the parser has
  \<open>2 * length s + 2\<close> units of fuel, which \<open>Json.fuel_enough\<close> shows is enough. \<open>Go_Net\<close>: addresses and
  prefixes. \<open>Io\<close>: effectful code as functions of a world that keep their effects when they fail.

  \<^bold>\<open>Configuration.\<close> \<open>Registry_Auth\<close> (\<^verbatim>\<open>internal/registryauth/credential.go\<close>), \<open>App_Config\<close>
  (\<^verbatim>\<open>internal/appconfig/config.go\<close>, \<^verbatim>\<open>hosting.go\<close>, \<^verbatim>\<open>postgres.go\<close>: records per struct, Normalize,
  Validate with one error constructor per error path) and \<open>Config_Codec\<close> (the JSON form stored in the
  database). \<open>Config_Theorems\<close> shows that stored configurations read back and stay valid, and what
  validation excludes.

  \<^bold>\<open>Journal.\<close> \<open>Db_Schema\<close> (rows, keys, references), \<open>Request_Repo\<close>, \<open>Inventory_Repo\<close> and
  \<open>Binding_Repo\<close> translate the repositories method by method as transactions: a function of the
  database that returns an error, or a value and the new database. \<open>Journal\<close> states the contract of a
  write as the locale \<open>journal_op\<close>, interprets it for each of the seventeen writes, and collects them
  in the step relation \<open>jstep\<close>. \<open>Finalization\<close> shows what finalization commits. \<open>Journal_Theorems\<close>
  holds the properties of runs.

  \<^bold>\<open>Candidate operations.\<close> \<open>Candidate_Names\<close> (gates, targets and derived names of
  \<^verbatim>\<open>internal/ingress\<close>), \<open>Candidate_Ops\<close> (\<^verbatim>\<open>internal/server/candidate_*.go\<close>) over records of
  effectful functions that stand for the Go interfaces, \<open>Intent_Codec\<close> (saved intents and replies).
  \<open>Candidate_World\<close> runs the operations on the journal with an arbitrary runtime whose calls are
  logged with the database they find; the locale \<open>candidate_host\<close> carries invariants through all
  operations and is interpreted for the journal and for the log. \<open>Candidate_Safety\<close> proves which durable
  state each call finds; \<open>Candidate_Theorems\<close> states the properties. \<open>Samples\<close> instantiates every
  parameter for the witnesses.

  \<^bold>\<open>Candidate runtime.\<close> What the candidate operations call in the cluster. \<open>Workload\<close> renders the
  deployment, service and network policy of an app and of a candidate generation
  (\<^verbatim>\<open>internal/ingress/resources.go\<close>, \<^verbatim>\<open>candidate.go\<close>, \<^verbatim>\<open>hosting_network.go\<close>); the API structs are records with the
  fields this code sets or reads and one field for the rest. \<open>Workload_Match\<close> compares what is installed with
  what was rendered up to the defaults of the API server (\<^verbatim>\<open>candidate_compare.go\<close>) and shows that this is an
  equivalence. \<open>Activation\<close> has the controller's operations over a record \<open>kube\<close> of API calls
  (\<^verbatim>\<open>activation.go\<close>, \<^verbatim>\<open>candidate_bootstrap.go\<close>, \<^verbatim>\<open>candidate_activation.go\<close>, \<^verbatim>\<open>candidate_retirement.go\<close>,
  \<^verbatim>\<open>candidate_status.go\<close>, \<^verbatim>\<open>restored_candidate_target.go\<close>, \<^verbatim>\<open>candidate_legacy_guard.go\<close>, \<^verbatim>\<open>ownership.go\<close>).
  \<open>Gate_Safety\<close> refines the operations on a gate to an atomic compare-and-swap, under any interference of
  other clients; \<open>Runtime_Safety\<close> shows what an activation has checked and that a retired candidate stays
  retired. \<open>Capacity\<close> (\<^verbatim>\<open>hosting.go\<close> and the node predicates of \<^verbatim>\<open>nodes.go\<close>, \<^verbatim>\<open>postgres.go\<close>) is the admission
  of hosted apps, shown to accept exactly what can be placed. \<open>Runtime_Theorems\<close> states the properties, with an
  API server that keeps a log of writes for the witnesses.

  \<^bold>\<open>App service.\<close> \<open>Vault\<close> has the three encrypted tables (\<^verbatim>\<open>internal/db/secret_repository.go\<close>,
  \<^verbatim>\<open>registry_credential_repository.go\<close>, \<^verbatim>\<open>environment_bundle_repository.go\<close>), \<open>Secret_Cipher\<close> the text
  form of a ciphertext (\<^verbatim>\<open>internal/security/secret_cipher.go\<close>), \<open>App_Status\<close> the warnings and the reported
  state of a database. \<open>App_World\<close> is the state of the server (journal, vault, event log, the runtime's
  own state and the log of its calls, each with the database it finds) and the records of functions
  that stand for the Go interfaces; a missing optional function is a type assertion that fails. The
  handlers are \<open>App_Secrets\<close> (secrets, bundles, credentials), \<open>App_Reading\<close> (lists, status, logs),
  \<open>App_Candidates\<close> (candidate submission, retry, withdrawal, deletion) and \<open>App_Deploy\<close> (deploy,
  preflight, delete): \<^verbatim>\<open>internal/server/app.go\<close> and its siblings, one definition per function, every
  early return a branch. The locale of \<open>App_Safety\<close> carries a transitive relation on states through
  all handlers from its laws for the primitive effects; it is interpreted for moves of the platform,
  for the call log and for calls that only ask. \<open>App_Server\<close> runs sequences of calls (\<open>serve_all\<close>).
  \<open>App_Guarantees\<close> shows that deployments are recorded before the cluster is touched, \<open>App_Replay\<close> which
  calls are refused and which are answered from the journal, \<open>App_Stored\<close> what deletion removes and
  that encrypted data is read back. \<open>App_Samples\<close> has the concrete inputs, among them a credential that
  is accepted and cannot be read; \<open>Service_Theorems\<close> states the properties.

  \<^bold>\<open>Node fleet.\<close> \<open>Node_Store\<close> (\<^verbatim>\<open>internal/db/node_repository.go\<close> and the token repositories: one function
  per method over one record of tables, with the unique indexes as the invariant \<open>store_ok\<close>), \<open>Access\<close>
  (\<^verbatim>\<open>internal/security/tokens.go\<close>, \<^verbatim>\<open>internal/server/auth.go\<close>: tokens and interceptors; the locale
  \<open>token_store\<close> states what authentication needs of the repositories and is interpreted on them),
  \<open>Event_Log\<close> (\<^verbatim>\<open>internal/db/event_repository.go\<close>, the recorder, retention and delivery loop of
  \<^verbatim>\<open>internal/server/event.go\<close>), \<open>Wireguard\<close> and \<open>Hub_Peers\<close> (\<^verbatim>\<open>internal/wireguard\<close>: keys, address
  allocation on 32-bit words, the hub's peers), \<open>Node_Service\<close> (\<^verbatim>\<open>internal/server/node.go\<close>, every RPC).
  \<open>Node_Fleet\<close> has a weakest-precondition calculus and the invariant \<open>fleet_ok\<close>; \<open>Node_Removal\<close> and
  \<open>Node_Server\<close> carry it and the permanence of removal through every handler and define the
  authenticated server as the step relation \<open>fleet_run\<close>. Calls are atomic in that relation; \<open>Join_Once\<close>
  treats the interleaved consumption of a join token, \<open>App_Locks\<close> (\<^verbatim>\<open>internal/server/app_mutation.go\<close>) the
  interleavings of the per-app locks. The loops that scan for an address and deliver events are
  partial functions; \<open>Fleet_Theorems\<close> shows that they end. \<open>Fleet_Samples\<close> has the concrete inputs.

  \<^bold>\<open>Parameters.\<close> Code outside the repository is an argument: the Kubernetes name validators and quantity
  parser (\<open>k8s_lib\<close>), SHA-256, service ports and their equality (\<open>port_api\<close>), the YAML decoder, the
  clock and the runtime; the Kubernetes API with optimistic concurrency as the hypotheses \<open>service_law\<close> and
  \<open>deployment_law\<close> of a controller that has all its clients; the authenticated cipher with its law \<open>aead_law\<close> (what was sealed is opened) and
  the random bytes; for the node fleet HMAC, the cluster, the \<^verbatim>\<open>wg\<close> tool (with its documented
  behaviour as the hypothesis \<open>wg_tool\<close>) and the provider of join material. Driver failures of SQLite
  are not modelled: a transaction either commits or returns one of the errors of the code. Contexts are
  reduced to the points where the code asks for their error. The server is taken with every repository
  configured, as \<^verbatim>\<open>cmd/deployer-server\<close> does, so the replies for missing repositories do not occur.
  Calls are atomic in \<open>serve_all\<close>; the per-app locks that make them so are the subject of \<open>App_Locks\<close>.

  \<^bold>\<open>Not modelled.\<close> The remaining Kubernetes controllers of \<^verbatim>\<open>internal/ingress\<close> (reconciliation of ordinary
  apps, PostgreSQL clusters, node labels, routes and cleanup), which build objects for client libraries and
  send them, the agent, the command line client, the installation of k3s and process start-up. Of the event
  service, the parsing of a request's time filter; of WireGuard, the generation of keys and the execution of
  the \<^verbatim>\<open>wg\<close> command.
\<close>

end
